(* ===== verification/Prelude.thy ===== *)
theory Prelude
  imports Complex_Main "HOL-Library.AList"
begin

text \<open>
  Shared vocabulary of the development: results with errors as values, Python string
  operations (\<open>str.strip\<close>, \<open>str.lower\<close>, \<open>str.join\<close>), the reading of a
  \<open>StrEnum\<close> from its value, and the list lemmas several components use.
  Fact collections: \<open>result_simps\<close> unfolds the sequencing of fallible calls,
  \<open>py_simps\<close> the Python primitives.
\<close>

named_theorems result_simps \<open>sequencing of fallible calls\<close>
named_theorems py_simps \<open>Python primitives\<close>

section \<open>Results\<close>

text \<open>A call that may raise returns \<open>Inl\<close> of the error or \<open>Inr\<close> of its value.\<close>

type_synonym ('e, 'a) result = "'e + 'a"

definition andThen :: "('e, 'a) result \<Rightarrow> ('a \<Rightarrow> ('e, 'b) result) \<Rightarrow> ('e, 'b) result" where
  "andThen r f = (case r of Inl e \<Rightarrow> Inl e | Inr x \<Rightarrow> f x)"

text \<open>\<open>guard c e\<close> is the statement \<open>if not c: raise e\<close>.\<close>

definition guard :: "bool \<Rightarrow> 'e \<Rightarrow> ('e, unit) result" where
  "guard c e = (if c then Inr () else Inl e)"

definition is_ok :: "('e, 'a) result \<Rightarrow> bool" where
  "is_ok r = (case r of Inl _ \<Rightarrow> False | Inr _ \<Rightarrow> True)"

lemma andThen_simps [simp, result_simps]:
  "andThen (Inl e) f = Inl e"
  "andThen (Inr x) f = f x"
  by (simp_all add: andThen_def)

lemma andThen_eq_Inr [result_simps]:
  "andThen r f = Inr y \<longleftrightarrow> (\<exists>x. r = Inr x \<and> f x = Inr y)"
  by (cases r) auto

lemma andThen_eq_Inl [result_simps]:
  "andThen r f = Inl e \<longleftrightarrow> r = Inl e \<or> (\<exists>x. r = Inr x \<and> f x = Inl e)"
  by (cases r) auto

lemma guard_eq [simp, result_simps]:
  "guard c e = Inr u \<longleftrightarrow> c"
  "guard c e = Inl e' \<longleftrightarrow> \<not> c \<and> e' = e"
  by (auto simp: guard_def)

lemma guard_True [simp]: "guard True e = Inr ()"
  and guard_False [simp]: "guard False e = Inl e"
  by (simp_all add: guard_def)

lemma is_ok_simps [simp, result_simps]:
  "is_ok (Inl e) = False" "is_ok (Inr x) = True"
  by (simp_all add: is_ok_def)

lemma is_ok_andThen [result_simps]:
  "is_ok (andThen r f) \<longleftrightarrow> (\<exists>x. r = Inr x \<and> is_ok (f x))"
  by (cases r) auto

lemma is_ok_guard [simp, result_simps]: "is_ok (guard c e) = c"
  by (simp add: guard_def)

lemma is_ok_iff: "is_ok r \<longleftrightarrow> (\<exists>x. r = Inr x)"
  by (cases r) auto

text \<open>A loop that stops at the first raise.\<close>

fun traverse :: "('a \<Rightarrow> ('e, 'b) result) \<Rightarrow> 'a list \<Rightarrow> ('e, 'b list) result" where
  "traverse f [] = Inr []"
| "traverse f (x # xs) =
     andThen (f x) (\<lambda>y. andThen (traverse f xs) (\<lambda>ys. Inr (y # ys)))"

lemma traverse_Inr_iff:
  "traverse f xs = Inr ys \<longleftrightarrow> list_all2 (\<lambda>x y. f x = Inr y) xs ys"
  by (induction xs arbitrary: ys) (auto simp: result_simps list_all2_Cons1)

lemma find_SomeD: "List.find P xs = Some x \<Longrightarrow> x \<in> set xs \<and> P x"
  by (induction xs) (auto split: if_splits)

section \<open>Python strings\<close>

text \<open>The characters \<open>str.strip()\<close> removes, for ASCII text.\<close>

definition is_space :: "char \<Rightarrow> bool" where
  "is_space c = (of_char c \<in> {9, 10, 11, 12, 13, 28, 29, 30, 31, 32 :: nat})"

definition lstrip_by :: "(char \<Rightarrow> bool) \<Rightarrow> string \<Rightarrow> string" where
  "lstrip_by p s = dropWhile p s"

definition strip_by :: "(char \<Rightarrow> bool) \<Rightarrow> string \<Rightarrow> string" where
  "strip_by p s = rev (dropWhile p (rev (dropWhile p s)))"

definition py_strip :: "string \<Rightarrow> string" where
  "py_strip s = strip_by is_space s"

definition lower_char :: "char \<Rightarrow> char" where
  "lower_char c =
     (let n = of_char c :: nat in if 65 \<le> n \<and> n \<le> 90 then char_of (n + 32) else c)"

definition py_lower :: "string \<Rightarrow> string" where
  "py_lower s = map lower_char s"

fun py_join :: "string \<Rightarrow> string list \<Rightarrow> string" where
  "py_join sep [] = []"
| "py_join sep [s] = s"
| "py_join sep (s # t # ts) = s @ sep @ py_join sep (t # ts)"

lemma dropWhile_suffix: "\<exists>ys. s = ys @ dropWhile p s"
  by (metis takeWhile_dropWhile_id)

lemma strip_by_infix: "\<exists>xs ys. s = xs @ strip_by p s @ ys"
proof -
  obtain xs where xs: "s = xs @ dropWhile p s" using dropWhile_suffix by metis
  obtain ys where "rev (dropWhile p s) = ys @ dropWhile p (rev (dropWhile p s))"
    using dropWhile_suffix by metis
  then have "dropWhile p s = strip_by p s @ rev ys"
    unfolding strip_by_def by (metis rev_append rev_rev_ident)
  with xs show ?thesis by metis
qed

lemma set_strip_by: "set (strip_by p s) \<subseteq> set s"
proof -
  obtain xs ys where "s = xs @ strip_by p s @ ys" using strip_by_infix by metis
  then have "set s = set xs \<union> set (strip_by p s) \<union> set ys"
    by (metis set_append sup_assoc)
  then show ?thesis by blast
qed

lemma strip_by_Nil_iff: "strip_by p s = [] \<longleftrightarrow> (\<forall>c \<in> set s. p c)"
proof
  assume "strip_by p s = []"
  then have "\<forall>c \<in> set (dropWhile p s). p c" by (simp add: strip_by_def)
  then have "dropWhile p s = []" by (metis hd_dropWhile list.set_sel(1))
  then show "\<forall>c \<in> set s. p c" by simp
qed (auto simp: strip_by_def dest: set_dropWhileD)

lemma strip_by_hd: "strip_by p s \<noteq> [] \<Longrightarrow> \<not> p (hd (strip_by p s))"
proof -
  let ?d = "dropWhile p s"
  assume ne: "strip_by p s \<noteq> []"
  then have dn: "?d \<noteq> []"
    by (metis dropWhile.simps(1) rev.simps(1) strip_by_def)
  obtain ys where "rev ?d = ys @ dropWhile p (rev ?d)"
    using dropWhile_suffix by metis
  then have "?d = strip_by p s @ rev ys"
    unfolding strip_by_def by (metis rev_append rev_rev_ident)
  then have "hd ?d = hd (strip_by p s)" using ne by (metis hd_append2)
  with dn show ?thesis by (metis hd_dropWhile)
qed

lemma strip_by_last: "strip_by p s \<noteq> [] \<Longrightarrow> \<not> p (last (strip_by p s))"
  by (simp add: strip_by_def last_rev hd_dropWhile)

lemma strip_by_id: "s = [] \<or> (\<not> p (hd s) \<and> \<not> p (last s)) \<Longrightarrow> strip_by p s = s"
proof (cases "s = []")
  case False
  assume "s = [] \<or> (\<not> p (hd s) \<and> \<not> p (last s))"
  with False have h: "\<not> p (hd s)" and l: "\<not> p (last s)" by auto
  have "dropWhile p s = s" using h False by (cases s) auto
  moreover have "dropWhile p (rev s) = rev s"
    using l False by (cases s rule: rev_cases) auto
  ultimately show ?thesis by (simp add: strip_by_def)
qed (auto simp: strip_by_def dest: set_dropWhileD)

lemma strip_by_idem: "strip_by p (strip_by p s) = strip_by p s"
  by (rule strip_by_id) (auto dest: strip_by_hd strip_by_last)

section \<open>Closed vocabularies\<close>

text \<open>
  \<open>E(value)\<close> of a \<open>StrEnum\<close> class: the member with that value, or \<open>None\<close> where
  Python raises \<open>ValueError\<close>.
\<close>

definition enum_of :: "'a list \<Rightarrow> ('a \<Rightarrow> string) \<Rightarrow> string \<Rightarrow> 'a option" where
  "enum_of members val s = List.find (\<lambda>m. val m = s) members"

text \<open>What \<open>@unique\<close> and the class body promise: every value is a member's, and once.\<close>

locale str_enum =
  fixes members :: "'a list" and val :: "'a \<Rightarrow> string"
  assumes complete: "x \<in> set members"
    and unique: "distinct (map val members)"
begin

lemma val_inj: "val x = val y \<longleftrightarrow> x = y"
  using unique complete by (auto simp: distinct_map inj_on_def)

lemma of_val [simp]: "enum_of members val (val x) = Some x"
proof -
  have "List.find (\<lambda>m. val m = val x) members = List.find (\<lambda>m. m = x) members"
    by (simp add: val_inj)
  then have eq: "enum_of members val (val x) = List.find (\<lambda>m. m = x) members"
    by (simp add: enum_of_def)
  show ?thesis
  proof (cases "List.find (\<lambda>m. m = x) members")
    case None
    then show ?thesis using complete [of x] by (simp add: find_None_iff)
  next
    case (Some y)
    then have "y = x" by (auto simp: find_Some_iff)
    with Some eq show ?thesis by simp
  qed
qed

lemma of_Some_iff: "enum_of members val s = Some x \<longleftrightarrow> s = val x"
proof
  assume "enum_of members val s = Some x"
  then show "s = val x" by (auto simp: enum_of_def find_Some_iff)
qed simp

lemma of_None_iff: "enum_of members val s = None \<longleftrightarrow> (\<forall>x. s \<noteq> val x)"
  by (metis of_Some_iff option.distinct(1) option.exhaust)

lemma distinct_members: "distinct members"
  using unique by (simp add: distinct_map)

end

end
