(* ===== verification/Enums.thy ===== *)
theory Enums
  imports Prelude
begin

text \<open>
  The closed vocabularies of \<open>src/asic/domain/enums.py\<close>: each \<open>StrEnum\<close> class is a
  datatype with the source's members, \<open>E_value\<close> is its string value and \<open>E_members\<close>
  the order of iteration. Each is an instance of the interface \<open>str_enum\<close>, which gives
  the parse/print round trip of \<open>E(value)\<close>. The properties some classes carry
  (\<open>confers_authority\<close>, \<open>rank\<close>, \<open>is_retryable\<close>, \<open>uses_model\<close>) follow.
\<close>

datatype (plugins only: code size) TenantStatus =
    ACTIVE
  | SUSPENDED
  | DEPROVISIONING

fun TenantStatus_value :: "TenantStatus \<Rightarrow> string" where
  "TenantStatus_value TenantStatus.ACTIVE = ''active''"
| "TenantStatus_value TenantStatus.SUSPENDED = ''suspended''"
| "TenantStatus_value TenantStatus.DEPROVISIONING = ''deprovisioning''"

definition TenantStatus_members :: "TenantStatus list" where
  "TenantStatus_members =
     [TenantStatus.ACTIVE,
      TenantStatus.SUSPENDED,
      TenantStatus.DEPROVISIONING]"

interpretation tenant_status: str_enum TenantStatus_members TenantStatus_value
proof unfold_locales
  show "x \<in> set TenantStatus_members" for x
    by (cases x) (simp_all add: TenantStatus_members_def)
  show "distinct (map TenantStatus_value TenantStatus_members)"
    by (simp add: TenantStatus_members_def)
qed

datatype (plugins only: code size) UserStatus =
    ACTIVE
  | DISABLED

fun UserStatus_value :: "UserStatus \<Rightarrow> string" where
  "UserStatus_value UserStatus.ACTIVE = ''active''"
| "UserStatus_value UserStatus.DISABLED = ''disabled''"

definition UserStatus_members :: "UserStatus list" where
  "UserStatus_members =
     [UserStatus.ACTIVE,
      UserStatus.DISABLED]"

interpretation user_status: str_enum UserStatus_members UserStatus_value
proof unfold_locales
  show "x \<in> set UserStatus_members" for x
    by (cases x) (simp_all add: UserStatus_members_def)
  show "distinct (map UserStatus_value UserStatus_members)"
    by (simp add: UserStatus_members_def)
qed

datatype (plugins only: code size) ActorType =
    HUMAN
  | AGENT_NODE
  | SYSTEM
  | EXTERNAL_SYSTEM

fun ActorType_value :: "ActorType \<Rightarrow> string" where
  "ActorType_value ActorType.HUMAN = ''human''"
| "ActorType_value ActorType.AGENT_NODE = ''agent_node''"
| "ActorType_value ActorType.SYSTEM = ''system''"
| "ActorType_value ActorType.EXTERNAL_SYSTEM = ''external_system''"

definition ActorType_members :: "ActorType list" where
  "ActorType_members =
     [ActorType.HUMAN,
      ActorType.AGENT_NODE,
      ActorType.SYSTEM,
      ActorType.EXTERNAL_SYSTEM]"

interpretation actor_type: str_enum ActorType_members ActorType_value
proof unfold_locales
  show "x \<in> set ActorType_members" for x
    by (cases x) (simp_all add: ActorType_members_def)
  show "distinct (map ActorType_value ActorType_members)"
    by (simp add: ActorType_members_def)
qed

datatype (plugins only: code size) ProvenanceLabel =
    SYSTEM
  | HUMAN
  | VERIFIED_FACT
  | RETRIEVED
  | MODEL_CLAIM

fun ProvenanceLabel_value :: "ProvenanceLabel \<Rightarrow> string" where
  "ProvenanceLabel_value ProvenanceLabel.SYSTEM = ''system''"
| "ProvenanceLabel_value ProvenanceLabel.HUMAN = ''human''"
| "ProvenanceLabel_value ProvenanceLabel.VERIFIED_FACT = ''verified_fact''"
| "ProvenanceLabel_value ProvenanceLabel.RETRIEVED = ''retrieved''"
| "ProvenanceLabel_value ProvenanceLabel.MODEL_CLAIM = ''model_claim''"

definition ProvenanceLabel_members :: "ProvenanceLabel list" where
  "ProvenanceLabel_members =
     [ProvenanceLabel.SYSTEM,
      ProvenanceLabel.HUMAN,
      ProvenanceLabel.VERIFIED_FACT,
      ProvenanceLabel.RETRIEVED,
      ProvenanceLabel.MODEL_CLAIM]"

interpretation provenance_label: str_enum ProvenanceLabel_members ProvenanceLabel_value
proof unfold_locales
  show "x \<in> set ProvenanceLabel_members" for x
    by (cases x) (simp_all add: ProvenanceLabel_members_def)
  show "distinct (map ProvenanceLabel_value ProvenanceLabel_members)"
    by (simp add: ProvenanceLabel_members_def)
qed

datatype (plugins only: code size) SensitivityLevel =
    PUBLIC
  | INTERNAL
  | CUSTOMER_CONTENT
  | RESTRICTED

fun SensitivityLevel_value :: "SensitivityLevel \<Rightarrow> string" where
  "SensitivityLevel_value SensitivityLevel.PUBLIC = ''public''"
| "SensitivityLevel_value SensitivityLevel.INTERNAL = ''internal''"
| "SensitivityLevel_value SensitivityLevel.CUSTOMER_CONTENT = ''customer_content''"
| "SensitivityLevel_value SensitivityLevel.RESTRICTED = ''restricted''"

definition SensitivityLevel_members :: "SensitivityLevel list" where
  "SensitivityLevel_members =
     [SensitivityLevel.PUBLIC,
      SensitivityLevel.INTERNAL,
      SensitivityLevel.CUSTOMER_CONTENT,
      SensitivityLevel.RESTRICTED]"

interpretation sensitivity_level: str_enum SensitivityLevel_members SensitivityLevel_value
proof unfold_locales
  show "x \<in> set SensitivityLevel_members" for x
    by (cases x) (simp_all add: SensitivityLevel_members_def)
  show "distinct (map SensitivityLevel_value SensitivityLevel_members)"
    by (simp add: SensitivityLevel_members_def)
qed

datatype (plugins only: code size) ServiceCriticality =
    TIER_1
  | TIER_2
  | TIER_3

fun ServiceCriticality_value :: "ServiceCriticality \<Rightarrow> string" where
  "ServiceCriticality_value ServiceCriticality.TIER_1 = ''tier_1''"
| "ServiceCriticality_value ServiceCriticality.TIER_2 = ''tier_2''"
| "ServiceCriticality_value ServiceCriticality.TIER_3 = ''tier_3''"

definition ServiceCriticality_members :: "ServiceCriticality list" where
  "ServiceCriticality_members =
     [ServiceCriticality.TIER_1,
      ServiceCriticality.TIER_2,
      ServiceCriticality.TIER_3]"

interpretation service_criticality: str_enum ServiceCriticality_members ServiceCriticality_value
proof unfold_locales
  show "x \<in> set ServiceCriticality_members" for x
    by (cases x) (simp_all add: ServiceCriticality_members_def)
  show "distinct (map ServiceCriticality_value ServiceCriticality_members)"
    by (simp add: ServiceCriticality_members_def)
qed

datatype (plugins only: code size) DependencyKind =
    SYNCHRONOUS
  | ASYNCHRONOUS
  | DATASTORE
  | INFRASTRUCTURE

fun DependencyKind_value :: "DependencyKind \<Rightarrow> string" where
  "DependencyKind_value DependencyKind.SYNCHRONOUS = ''synchronous''"
| "DependencyKind_value DependencyKind.ASYNCHRONOUS = ''asynchronous''"
| "DependencyKind_value DependencyKind.DATASTORE = ''datastore''"
| "DependencyKind_value DependencyKind.INFRASTRUCTURE = ''infrastructure''"

definition DependencyKind_members :: "DependencyKind list" where
  "DependencyKind_members =
     [DependencyKind.SYNCHRONOUS,
      DependencyKind.ASYNCHRONOUS,
      DependencyKind.DATASTORE,
      DependencyKind.INFRASTRUCTURE]"

interpretation dependency_kind: str_enum DependencyKind_members DependencyKind_value
proof unfold_locales
  show "x \<in> set DependencyKind_members" for x
    by (cases x) (simp_all add: DependencyKind_members_def)
  show "distinct (map DependencyKind_value DependencyKind_members)"
    by (simp add: DependencyKind_members_def)
qed

datatype (plugins only: code size) AlertSeverity =
    CRITICAL
  | HIGH
  | MEDIUM
  | LOW
  | INFO

fun AlertSeverity_value :: "AlertSeverity \<Rightarrow> string" where
  "AlertSeverity_value AlertSeverity.CRITICAL = ''critical''"
| "AlertSeverity_value AlertSeverity.HIGH = ''high''"
| "AlertSeverity_value AlertSeverity.MEDIUM = ''medium''"
| "AlertSeverity_value AlertSeverity.LOW = ''low''"
| "AlertSeverity_value AlertSeverity.INFO = ''info''"

definition AlertSeverity_members :: "AlertSeverity list" where
  "AlertSeverity_members =
     [AlertSeverity.CRITICAL,
      AlertSeverity.HIGH,
      AlertSeverity.MEDIUM,
      AlertSeverity.LOW,
      AlertSeverity.INFO]"

interpretation alert_severity: str_enum AlertSeverity_members AlertSeverity_value
proof unfold_locales
  show "x \<in> set AlertSeverity_members" for x
    by (cases x) (simp_all add: AlertSeverity_members_def)
  show "distinct (map AlertSeverity_value AlertSeverity_members)"
    by (simp add: AlertSeverity_members_def)
qed

datatype (plugins only: code size) AlertStatus =
    RECEIVED
  | NORMALISED
  | CORRELATED
  | SUPPRESSED
  | DEAD_LETTERED

fun AlertStatus_value :: "AlertStatus \<Rightarrow> string" where
  "AlertStatus_value AlertStatus.RECEIVED = ''received''"
| "AlertStatus_value AlertStatus.NORMALISED = ''normalised''"
| "AlertStatus_value AlertStatus.CORRELATED = ''correlated''"
| "AlertStatus_value AlertStatus.SUPPRESSED = ''suppressed''"
| "AlertStatus_value AlertStatus.DEAD_LETTERED = ''dead_lettered''"

definition AlertStatus_members :: "AlertStatus list" where
  "AlertStatus_members =
     [AlertStatus.RECEIVED,
      AlertStatus.NORMALISED,
      AlertStatus.CORRELATED,
      AlertStatus.SUPPRESSED,
      AlertStatus.DEAD_LETTERED]"

interpretation alert_status: str_enum AlertStatus_members AlertStatus_value
proof unfold_locales
  show "x \<in> set AlertStatus_members" for x
    by (cases x) (simp_all add: AlertStatus_members_def)
  show "distinct (map AlertStatus_value AlertStatus_members)"
    by (simp add: AlertStatus_members_def)
qed

datatype (plugins only: code size) IncidentStatus =
    DETECTED
  | ACKNOWLEDGED
  | INVESTIGATING
  | AWAITING_APPROVAL
  | REMEDIATING
  | VERIFYING
  | RESOLVED
  | ESCALATED
  | FAILED
  | UNCERTAIN

fun IncidentStatus_value :: "IncidentStatus \<Rightarrow> string" where
  "IncidentStatus_value IncidentStatus.DETECTED = ''detected''"
| "IncidentStatus_value IncidentStatus.ACKNOWLEDGED = ''acknowledged''"
| "IncidentStatus_value IncidentStatus.INVESTIGATING = ''investigating''"
| "IncidentStatus_value IncidentStatus.AWAITING_APPROVAL = ''awaiting_approval''"
| "IncidentStatus_value IncidentStatus.REMEDIATING = ''remediating''"
| "IncidentStatus_value IncidentStatus.VERIFYING = ''verifying''"
| "IncidentStatus_value IncidentStatus.RESOLVED = ''resolved''"
| "IncidentStatus_value IncidentStatus.ESCALATED = ''escalated''"
| "IncidentStatus_value IncidentStatus.FAILED = ''failed''"
| "IncidentStatus_value IncidentStatus.UNCERTAIN = ''uncertain''"

definition IncidentStatus_members :: "IncidentStatus list" where
  "IncidentStatus_members =
     [IncidentStatus.DETECTED,
      IncidentStatus.ACKNOWLEDGED,
      IncidentStatus.INVESTIGATING,
      IncidentStatus.AWAITING_APPROVAL,
      IncidentStatus.REMEDIATING,
      IncidentStatus.VERIFYING,
      IncidentStatus.RESOLVED,
      IncidentStatus.ESCALATED,
      IncidentStatus.FAILED,
      IncidentStatus.UNCERTAIN]"

interpretation incident_status: str_enum IncidentStatus_members IncidentStatus_value
proof unfold_locales
  show "x \<in> set IncidentStatus_members" for x
    by (cases x) (simp_all add: IncidentStatus_members_def)
  show "distinct (map IncidentStatus_value IncidentStatus_members)"
    by (simp add: IncidentStatus_members_def)
qed

datatype (plugins only: code size) IncidentSeverity =
    SEV1
  | SEV2
  | SEV3
  | SEV4

fun IncidentSeverity_value :: "IncidentSeverity \<Rightarrow> string" where
  "IncidentSeverity_value IncidentSeverity.SEV1 = ''sev1''"
| "IncidentSeverity_value IncidentSeverity.SEV2 = ''sev2''"
| "IncidentSeverity_value IncidentSeverity.SEV3 = ''sev3''"
| "IncidentSeverity_value IncidentSeverity.SEV4 = ''sev4''"

definition IncidentSeverity_members :: "IncidentSeverity list" where
  "IncidentSeverity_members =
     [IncidentSeverity.SEV1,
      IncidentSeverity.SEV2,
      IncidentSeverity.SEV3,
      IncidentSeverity.SEV4]"

interpretation incident_severity: str_enum IncidentSeverity_members IncidentSeverity_value
proof unfold_locales
  show "x \<in> set IncidentSeverity_members" for x
    by (cases x) (simp_all add: IncidentSeverity_members_def)
  show "distinct (map IncidentSeverity_value IncidentSeverity_members)"
    by (simp add: IncidentSeverity_members_def)
qed

datatype (plugins only: code size) TerminationReason =
    SUCCESS
  | INSUFFICIENT_EVIDENCE
  | BUDGET_EXHAUSTED
  | WALL_CLOCK_TIMEOUT
  | POLICY_DENIED
  | APPROVAL_NOT_GRANTED
  | VERIFICATION_FAILED
  | UNRECOVERABLE_FAILURE
  | HUMAN_ESCALATION
  | CANCELLED

fun TerminationReason_value :: "TerminationReason \<Rightarrow> string" where
  "TerminationReason_value TerminationReason.SUCCESS = ''success''"
| "TerminationReason_value TerminationReason.INSUFFICIENT_EVIDENCE = ''insufficient_evidence''"
| "TerminationReason_value TerminationReason.BUDGET_EXHAUSTED = ''budget_exhausted''"
| "TerminationReason_value TerminationReason.WALL_CLOCK_TIMEOUT = ''wall_clock_timeout''"
| "TerminationReason_value TerminationReason.POLICY_DENIED = ''policy_denied''"
| "TerminationReason_value TerminationReason.APPROVAL_NOT_GRANTED = ''approval_not_granted''"
| "TerminationReason_value TerminationReason.VERIFICATION_FAILED = ''verification_failed''"
| "TerminationReason_value TerminationReason.UNRECOVERABLE_FAILURE = ''unrecoverable_failure''"
| "TerminationReason_value TerminationReason.HUMAN_ESCALATION = ''human_escalation''"
| "TerminationReason_value TerminationReason.CANCELLED = ''cancelled''"

definition TerminationReason_members :: "TerminationReason list" where
  "TerminationReason_members =
     [TerminationReason.SUCCESS,
      TerminationReason.INSUFFICIENT_EVIDENCE,
      TerminationReason.BUDGET_EXHAUSTED,
      TerminationReason.WALL_CLOCK_TIMEOUT,
      TerminationReason.POLICY_DENIED,
      TerminationReason.APPROVAL_NOT_GRANTED,
      TerminationReason.VERIFICATION_FAILED,
      TerminationReason.UNRECOVERABLE_FAILURE,
      TerminationReason.HUMAN_ESCALATION,
      TerminationReason.CANCELLED]"

interpretation termination_reason: str_enum TerminationReason_members TerminationReason_value
proof unfold_locales
  show "x \<in> set TerminationReason_members" for x
    by (cases x) (simp_all add: TerminationReason_members_def)
  show "distinct (map TerminationReason_value TerminationReason_members)"
    by (simp add: TerminationReason_members_def)
qed

datatype (plugins only: code size) BudgetKind =
    ITERATIONS
  | TOOL_CALLS
  | WALL_CLOCK
  | TOKENS
  | COST

fun BudgetKind_value :: "BudgetKind \<Rightarrow> string" where
  "BudgetKind_value BudgetKind.ITERATIONS = ''iterations''"
| "BudgetKind_value BudgetKind.TOOL_CALLS = ''tool_calls''"
| "BudgetKind_value BudgetKind.WALL_CLOCK = ''wall_clock''"
| "BudgetKind_value BudgetKind.TOKENS = ''tokens''"
| "BudgetKind_value BudgetKind.COST = ''cost''"

definition BudgetKind_members :: "BudgetKind list" where
  "BudgetKind_members =
     [BudgetKind.ITERATIONS,
      BudgetKind.TOOL_CALLS,
      BudgetKind.WALL_CLOCK,
      BudgetKind.TOKENS,
      BudgetKind.COST]"

interpretation budget_kind: str_enum BudgetKind_members BudgetKind_value
proof unfold_locales
  show "x \<in> set BudgetKind_members" for x
    by (cases x) (simp_all add: BudgetKind_members_def)
  show "distinct (map BudgetKind_value BudgetKind_members)"
    by (simp add: BudgetKind_members_def)
qed

datatype (plugins only: code size) EventCategory =
    EXTERNAL
  | INTERNAL
  | DERIVED

fun EventCategory_value :: "EventCategory \<Rightarrow> string" where
  "EventCategory_value EventCategory.EXTERNAL = ''external''"
| "EventCategory_value EventCategory.INTERNAL = ''internal''"
| "EventCategory_value EventCategory.DERIVED = ''derived''"

definition EventCategory_members :: "EventCategory list" where
  "EventCategory_members =
     [EventCategory.EXTERNAL,
      EventCategory.INTERNAL,
      EventCategory.DERIVED]"

interpretation event_category: str_enum EventCategory_members EventCategory_value
proof unfold_locales
  show "x \<in> set EventCategory_members" for x
    by (cases x) (simp_all add: EventCategory_members_def)
  show "distinct (map EventCategory_value EventCategory_members)"
    by (simp add: EventCategory_members_def)
qed

datatype (plugins only: code size) IncidentEventType =
    INCIDENT_OPENED
  | INCIDENT_JOINED
  | INCIDENT_ACKNOWLEDGED
  | INCIDENT_SEVERITY_CHANGED
  | INCIDENT_STATE_CHANGED
  | INCIDENT_TERMINATED
  | INCIDENT_ANNOTATED
  | ALERT_RECEIVED
  | ALERT_NORMALISED
  | ALERT_DEAD_LETTERED
  | ALERT_SUPPRESSED
  | CORRELATION_DECIDED
  | PLAN_GAP_DECLARED
  | PLAN_STEP_SELECTED
  | EVIDENCE_RECORDED
  | PLAN_TERMINATED
  | HYPOTHESIS_FORMED
  | HYPOTHESIS_CRITIQUED
  | HYPOTHESIS_REJECTED_UNSUPPORTED
  | REMEDIATION_PROPOSED
  | REMEDIATION_REJECTED_UNREGISTERED
  | POLICY_EVALUATED
  | APPROVAL_REQUESTED
  | APPROVAL_GRANTED
  | APPROVAL_REJECTED
  | APPROVAL_EXPIRED
  | APPROVAL_INVALIDATED_STALE
  | EXECUTION_STARTED
  | EXECUTION_COMPLETED
  | EXECUTION_FAILED
  | COMPENSATION_STARTED
  | COMPENSATION_COMPLETED
  | VERIFICATION_STARTED
  | VERIFICATION_RESULT
  | POSTMORTEM_DRAFTED
  | MEMORY_PROMOTION_PROPOSED
  | MEMORY_PROMOTION_APPROVED
  | WORKFLOW_CHECKPOINTED
  | WORKFLOW_RESUMED
  | BUDGET_EXHAUSTED
  | CONTENT_INJECTION_FLAGGED

fun IncidentEventType_value :: "IncidentEventType \<Rightarrow> string" where
  "IncidentEventType_value IncidentEventType.INCIDENT_OPENED = ''incident.opened''"
| "IncidentEventType_value IncidentEventType.INCIDENT_JOINED = ''incident.joined''"
| "IncidentEventType_value IncidentEventType.INCIDENT_ACKNOWLEDGED = ''incident.acknowledged''"
| "IncidentEventType_value IncidentEventType.INCIDENT_SEVERITY_CHANGED = ''incident.severity_changed''"
| "IncidentEventType_value IncidentEventType.INCIDENT_STATE_CHANGED = ''incident.state_changed''"
| "IncidentEventType_value IncidentEventType.INCIDENT_TERMINATED = ''incident.terminated''"
| "IncidentEventType_value IncidentEventType.INCIDENT_ANNOTATED = ''incident.annotated''"
| "IncidentEventType_value IncidentEventType.ALERT_RECEIVED = ''alert.received''"
| "IncidentEventType_value IncidentEventType.ALERT_NORMALISED = ''alert.normalised''"
| "IncidentEventType_value IncidentEventType.ALERT_DEAD_LETTERED = ''alert.dead_lettered''"
| "IncidentEventType_value IncidentEventType.ALERT_SUPPRESSED = ''alert.suppressed''"
| "IncidentEventType_value IncidentEventType.CORRELATION_DECIDED = ''correlation.decided''"
| "IncidentEventType_value IncidentEventType.PLAN_GAP_DECLARED = ''plan.gap_declared''"
| "IncidentEventType_value IncidentEventType.PLAN_STEP_SELECTED = ''plan.step_selected''"
| "IncidentEventType_value IncidentEventType.EVIDENCE_RECORDED = ''evidence.recorded''"
| "IncidentEventType_value IncidentEventType.PLAN_TERMINATED = ''plan.terminated''"
| "IncidentEventType_value IncidentEventType.HYPOTHESIS_FORMED = ''hypothesis.formed''"
| "IncidentEventType_value IncidentEventType.HYPOTHESIS_CRITIQUED = ''hypothesis.critiqued''"
| "IncidentEventType_value IncidentEventType.HYPOTHESIS_REJECTED_UNSUPPORTED = ''hypothesis.rejected_unsupported''"
| "IncidentEventType_value IncidentEventType.REMEDIATION_PROPOSED = ''remediation.proposed''"
| "IncidentEventType_value IncidentEventType.REMEDIATION_REJECTED_UNREGISTERED = ''remediation.rejected_unregistered''"
| "IncidentEventType_value IncidentEventType.POLICY_EVALUATED = ''policy.evaluated''"
| "IncidentEventType_value IncidentEventType.APPROVAL_REQUESTED = ''approval.requested''"
| "IncidentEventType_value IncidentEventType.APPROVAL_GRANTED = ''approval.granted''"
| "IncidentEventType_value IncidentEventType.APPROVAL_REJECTED = ''approval.rejected''"
| "IncidentEventType_value IncidentEventType.APPROVAL_EXPIRED = ''approval.expired''"
| "IncidentEventType_value IncidentEventType.APPROVAL_INVALIDATED_STALE = ''approval.invalidated_stale''"
| "IncidentEventType_value IncidentEventType.EXECUTION_STARTED = ''execution.started''"
| "IncidentEventType_value IncidentEventType.EXECUTION_COMPLETED = ''execution.completed''"
| "IncidentEventType_value IncidentEventType.EXECUTION_FAILED = ''execution.failed''"
| "IncidentEventType_value IncidentEventType.COMPENSATION_STARTED = ''compensation.started''"
| "IncidentEventType_value IncidentEventType.COMPENSATION_COMPLETED = ''compensation.completed''"
| "IncidentEventType_value IncidentEventType.VERIFICATION_STARTED = ''verification.started''"
| "IncidentEventType_value IncidentEventType.VERIFICATION_RESULT = ''verification.result''"
| "IncidentEventType_value IncidentEventType.POSTMORTEM_DRAFTED = ''postmortem.drafted''"
| "IncidentEventType_value IncidentEventType.MEMORY_PROMOTION_PROPOSED = ''memory.promotion_proposed''"
| "IncidentEventType_value IncidentEventType.MEMORY_PROMOTION_APPROVED = ''memory.promotion_approved''"
| "IncidentEventType_value IncidentEventType.WORKFLOW_CHECKPOINTED = ''workflow.checkpointed''"
| "IncidentEventType_value IncidentEventType.WORKFLOW_RESUMED = ''workflow.resumed''"
| "IncidentEventType_value IncidentEventType.BUDGET_EXHAUSTED = ''budget.exhausted''"
| "IncidentEventType_value IncidentEventType.CONTENT_INJECTION_FLAGGED = ''content.injection_flagged''"

definition IncidentEventType_members :: "IncidentEventType list" where
  "IncidentEventType_members =
     [IncidentEventType.INCIDENT_OPENED,
      IncidentEventType.INCIDENT_JOINED,
      IncidentEventType.INCIDENT_ACKNOWLEDGED,
      IncidentEventType.INCIDENT_SEVERITY_CHANGED,
      IncidentEventType.INCIDENT_STATE_CHANGED,
      IncidentEventType.INCIDENT_TERMINATED,
      IncidentEventType.INCIDENT_ANNOTATED,
      IncidentEventType.ALERT_RECEIVED,
      IncidentEventType.ALERT_NORMALISED,
      IncidentEventType.ALERT_DEAD_LETTERED,
      IncidentEventType.ALERT_SUPPRESSED,
      IncidentEventType.CORRELATION_DECIDED,
      IncidentEventType.PLAN_GAP_DECLARED,
      IncidentEventType.PLAN_STEP_SELECTED,
      IncidentEventType.EVIDENCE_RECORDED,
      IncidentEventType.PLAN_TERMINATED,
      IncidentEventType.HYPOTHESIS_FORMED,
      IncidentEventType.HYPOTHESIS_CRITIQUED,
      IncidentEventType.HYPOTHESIS_REJECTED_UNSUPPORTED,
      IncidentEventType.REMEDIATION_PROPOSED,
      IncidentEventType.REMEDIATION_REJECTED_UNREGISTERED,
      IncidentEventType.POLICY_EVALUATED,
      IncidentEventType.APPROVAL_REQUESTED,
      IncidentEventType.APPROVAL_GRANTED,
      IncidentEventType.APPROVAL_REJECTED,
      IncidentEventType.APPROVAL_EXPIRED,
      IncidentEventType.APPROVAL_INVALIDATED_STALE,
      IncidentEventType.EXECUTION_STARTED,
      IncidentEventType.EXECUTION_COMPLETED,
      IncidentEventType.EXECUTION_FAILED,
      IncidentEventType.COMPENSATION_STARTED,
      IncidentEventType.COMPENSATION_COMPLETED,
      IncidentEventType.VERIFICATION_STARTED,
      IncidentEventType.VERIFICATION_RESULT,
      IncidentEventType.POSTMORTEM_DRAFTED,
      IncidentEventType.MEMORY_PROMOTION_PROPOSED,
      IncidentEventType.MEMORY_PROMOTION_APPROVED,
      IncidentEventType.WORKFLOW_CHECKPOINTED,
      IncidentEventType.WORKFLOW_RESUMED,
      IncidentEventType.BUDGET_EXHAUSTED,
      IncidentEventType.CONTENT_INJECTION_FLAGGED]"

interpretation incident_event_type: str_enum IncidentEventType_members IncidentEventType_value
proof unfold_locales
  show "x \<in> set IncidentEventType_members" for x
    by (cases x) (simp_all add: IncidentEventType_members_def)
  show "distinct (map IncidentEventType_value IncidentEventType_members)"
    by (simp add: IncidentEventType_members_def)
qed

datatype (plugins only: code size) TimelineCategory =
    DETECTION
  | INVESTIGATION
  | REASONING
  | DECISION
  | ACTION
  | VERIFICATION
  | COMMUNICATION
  | RESOLUTION

fun TimelineCategory_value :: "TimelineCategory \<Rightarrow> string" where
  "TimelineCategory_value TimelineCategory.DETECTION = ''detection''"
| "TimelineCategory_value TimelineCategory.INVESTIGATION = ''investigation''"
| "TimelineCategory_value TimelineCategory.REASONING = ''reasoning''"
| "TimelineCategory_value TimelineCategory.DECISION = ''decision''"
| "TimelineCategory_value TimelineCategory.ACTION = ''action''"
| "TimelineCategory_value TimelineCategory.VERIFICATION = ''verification''"
| "TimelineCategory_value TimelineCategory.COMMUNICATION = ''communication''"
| "TimelineCategory_value TimelineCategory.RESOLUTION = ''resolution''"

definition TimelineCategory_members :: "TimelineCategory list" where
  "TimelineCategory_members =
     [TimelineCategory.DETECTION,
      TimelineCategory.INVESTIGATION,
      TimelineCategory.REASONING,
      TimelineCategory.DECISION,
      TimelineCategory.ACTION,
      TimelineCategory.VERIFICATION,
      TimelineCategory.COMMUNICATION,
      TimelineCategory.RESOLUTION]"

interpretation timeline_category: str_enum TimelineCategory_members TimelineCategory_value
proof unfold_locales
  show "x \<in> set TimelineCategory_members" for x
    by (cases x) (simp_all add: TimelineCategory_members_def)
  show "distinct (map TimelineCategory_value TimelineCategory_members)"
    by (simp add: TimelineCategory_members_def)
qed

datatype (plugins only: code size) EvidenceDomain =
    METRICS
  | LOGS
  | TRACES
  | DEPLOYMENTS
  | KUBERNETES_STATE
  | KNOWLEDGE

fun EvidenceDomain_value :: "EvidenceDomain \<Rightarrow> string" where
  "EvidenceDomain_value EvidenceDomain.METRICS = ''metrics''"
| "EvidenceDomain_value EvidenceDomain.LOGS = ''logs''"
| "EvidenceDomain_value EvidenceDomain.TRACES = ''traces''"
| "EvidenceDomain_value EvidenceDomain.DEPLOYMENTS = ''deployments''"
| "EvidenceDomain_value EvidenceDomain.KUBERNETES_STATE = ''kubernetes_state''"
| "EvidenceDomain_value EvidenceDomain.KNOWLEDGE = ''knowledge''"

definition EvidenceDomain_members :: "EvidenceDomain list" where
  "EvidenceDomain_members =
     [EvidenceDomain.METRICS,
      EvidenceDomain.LOGS,
      EvidenceDomain.TRACES,
      EvidenceDomain.DEPLOYMENTS,
      EvidenceDomain.KUBERNETES_STATE,
      EvidenceDomain.KNOWLEDGE]"

interpretation evidence_domain: str_enum EvidenceDomain_members EvidenceDomain_value
proof unfold_locales
  show "x \<in> set EvidenceDomain_members" for x
    by (cases x) (simp_all add: EvidenceDomain_members_def)
  show "distinct (map EvidenceDomain_value EvidenceDomain_members)"
    by (simp add: EvidenceDomain_members_def)
qed

datatype (plugins only: code size) InvestigationStepStatus =
    PLANNED
  | RUNNING
  | COMPLETED
  | DEGRADED
  | FAILED
  | ABANDONED

fun InvestigationStepStatus_value :: "InvestigationStepStatus \<Rightarrow> string" where
  "InvestigationStepStatus_value InvestigationStepStatus.PLANNED = ''planned''"
| "InvestigationStepStatus_value InvestigationStepStatus.RUNNING = ''running''"
| "InvestigationStepStatus_value InvestigationStepStatus.COMPLETED = ''completed''"
| "InvestigationStepStatus_value InvestigationStepStatus.DEGRADED = ''degraded''"
| "InvestigationStepStatus_value InvestigationStepStatus.FAILED = ''failed''"
| "InvestigationStepStatus_value InvestigationStepStatus.ABANDONED = ''abandoned''"

definition InvestigationStepStatus_members :: "InvestigationStepStatus list" where
  "InvestigationStepStatus_members =
     [InvestigationStepStatus.PLANNED,
      InvestigationStepStatus.RUNNING,
      InvestigationStepStatus.COMPLETED,
      InvestigationStepStatus.DEGRADED,
      InvestigationStepStatus.FAILED,
      InvestigationStepStatus.ABANDONED]"

interpretation investigation_step_status: str_enum InvestigationStepStatus_members InvestigationStepStatus_value
proof unfold_locales
  show "x \<in> set InvestigationStepStatus_members" for x
    by (cases x) (simp_all add: InvestigationStepStatus_members_def)
  show "distinct (map InvestigationStepStatus_value InvestigationStepStatus_members)"
    by (simp add: InvestigationStepStatus_members_def)
qed

datatype (plugins only: code size) HypothesisStatus =
    PROPOSED
  | ACCEPTED
  | REJECTED
  | REJECTED_UNSUPPORTED
  | SUPERSEDED

fun HypothesisStatus_value :: "HypothesisStatus \<Rightarrow> string" where
  "HypothesisStatus_value HypothesisStatus.PROPOSED = ''proposed''"
| "HypothesisStatus_value HypothesisStatus.ACCEPTED = ''accepted''"
| "HypothesisStatus_value HypothesisStatus.REJECTED = ''rejected''"
| "HypothesisStatus_value HypothesisStatus.REJECTED_UNSUPPORTED = ''rejected_unsupported''"
| "HypothesisStatus_value HypothesisStatus.SUPERSEDED = ''superseded''"

definition HypothesisStatus_members :: "HypothesisStatus list" where
  "HypothesisStatus_members =
     [HypothesisStatus.PROPOSED,
      HypothesisStatus.ACCEPTED,
      HypothesisStatus.REJECTED,
      HypothesisStatus.REJECTED_UNSUPPORTED,
      HypothesisStatus.SUPERSEDED]"

interpretation hypothesis_status: str_enum HypothesisStatus_members HypothesisStatus_value
proof unfold_locales
  show "x \<in> set HypothesisStatus_members" for x
    by (cases x) (simp_all add: HypothesisStatus_members_def)
  show "distinct (map HypothesisStatus_value HypothesisStatus_members)"
    by (simp add: HypothesisStatus_members_def)
qed

datatype (plugins only: code size) EvidenceRelation =
    SUPPORTS
  | CONTRADICTS

fun EvidenceRelation_value :: "EvidenceRelation \<Rightarrow> string" where
  "EvidenceRelation_value EvidenceRelation.SUPPORTS = ''supports''"
| "EvidenceRelation_value EvidenceRelation.CONTRADICTS = ''contradicts''"

definition EvidenceRelation_members :: "EvidenceRelation list" where
  "EvidenceRelation_members =
     [EvidenceRelation.SUPPORTS,
      EvidenceRelation.CONTRADICTS]"

interpretation evidence_relation: str_enum EvidenceRelation_members EvidenceRelation_value
proof unfold_locales
  show "x \<in> set EvidenceRelation_members" for x
    by (cases x) (simp_all add: EvidenceRelation_members_def)
  show "distinct (map EvidenceRelation_value EvidenceRelation_members)"
    by (simp add: EvidenceRelation_members_def)
qed

datatype (plugins only: code size) RiskTier =
    RO
  | R1
  | R2
  | R3

fun RiskTier_value :: "RiskTier \<Rightarrow> string" where
  "RiskTier_value RiskTier.RO = ''ro''"
| "RiskTier_value RiskTier.R1 = ''r1''"
| "RiskTier_value RiskTier.R2 = ''r2''"
| "RiskTier_value RiskTier.R3 = ''r3''"

definition RiskTier_members :: "RiskTier list" where
  "RiskTier_members =
     [RiskTier.RO,
      RiskTier.R1,
      RiskTier.R2,
      RiskTier.R3]"

interpretation risk_tier: str_enum RiskTier_members RiskTier_value
proof unfold_locales
  show "x \<in> set RiskTier_members" for x
    by (cases x) (simp_all add: RiskTier_members_def)
  show "distinct (map RiskTier_value RiskTier_members)"
    by (simp add: RiskTier_members_def)
qed

datatype (plugins only: code size) ToolProviderKind =
    NATIVE
  | SIMULATOR
  | MCP

fun ToolProviderKind_value :: "ToolProviderKind \<Rightarrow> string" where
  "ToolProviderKind_value ToolProviderKind.NATIVE = ''native''"
| "ToolProviderKind_value ToolProviderKind.SIMULATOR = ''simulator''"
| "ToolProviderKind_value ToolProviderKind.MCP = ''mcp''"

definition ToolProviderKind_members :: "ToolProviderKind list" where
  "ToolProviderKind_members =
     [ToolProviderKind.NATIVE,
      ToolProviderKind.SIMULATOR,
      ToolProviderKind.MCP]"

interpretation tool_provider_kind: str_enum ToolProviderKind_members ToolProviderKind_value
proof unfold_locales
  show "x \<in> set ToolProviderKind_members" for x
    by (cases x) (simp_all add: ToolProviderKind_members_def)
  show "distinct (map ToolProviderKind_value ToolProviderKind_members)"
    by (simp add: ToolProviderKind_members_def)
qed

datatype (plugins only: code size) ToolEffectClass =
    READ
  | INFRASTRUCTURE_MUTATION
  | EXTERNAL_RECORD

fun ToolEffectClass_value :: "ToolEffectClass \<Rightarrow> string" where
  "ToolEffectClass_value ToolEffectClass.READ = ''read''"
| "ToolEffectClass_value ToolEffectClass.INFRASTRUCTURE_MUTATION = ''infrastructure_mutation''"
| "ToolEffectClass_value ToolEffectClass.EXTERNAL_RECORD = ''external_record''"

definition ToolEffectClass_members :: "ToolEffectClass list" where
  "ToolEffectClass_members =
     [ToolEffectClass.READ,
      ToolEffectClass.INFRASTRUCTURE_MUTATION,
      ToolEffectClass.EXTERNAL_RECORD]"

interpretation tool_effect_class: str_enum ToolEffectClass_members ToolEffectClass_value
proof unfold_locales
  show "x \<in> set ToolEffectClass_members" for x
    by (cases x) (simp_all add: ToolEffectClass_members_def)
  show "distinct (map ToolEffectClass_value ToolEffectClass_members)"
    by (simp add: ToolEffectClass_members_def)
qed

datatype (plugins only: code size) IntegrationKind =
    PROMETHEUS
  | LOKI
  | KUBERNETES
  | SLACK
  | TEAMS
  | PAGERDUTY
  | JIRA
  | GRAFANA

fun IntegrationKind_value :: "IntegrationKind \<Rightarrow> string" where
  "IntegrationKind_value IntegrationKind.PROMETHEUS = ''prometheus''"
| "IntegrationKind_value IntegrationKind.LOKI = ''loki''"
| "IntegrationKind_value IntegrationKind.KUBERNETES = ''kubernetes''"
| "IntegrationKind_value IntegrationKind.SLACK = ''slack''"
| "IntegrationKind_value IntegrationKind.TEAMS = ''teams''"
| "IntegrationKind_value IntegrationKind.PAGERDUTY = ''pagerduty''"
| "IntegrationKind_value IntegrationKind.JIRA = ''jira''"
| "IntegrationKind_value IntegrationKind.GRAFANA = ''grafana''"

definition IntegrationKind_members :: "IntegrationKind list" where
  "IntegrationKind_members =
     [IntegrationKind.PROMETHEUS,
      IntegrationKind.LOKI,
      IntegrationKind.KUBERNETES,
      IntegrationKind.SLACK,
      IntegrationKind.TEAMS,
      IntegrationKind.PAGERDUTY,
      IntegrationKind.JIRA,
      IntegrationKind.GRAFANA]"

interpretation integration_kind: str_enum IntegrationKind_members IntegrationKind_value
proof unfold_locales
  show "x \<in> set IntegrationKind_members" for x
    by (cases x) (simp_all add: IntegrationKind_members_def)
  show "distinct (map IntegrationKind_value IntegrationKind_members)"
    by (simp add: IntegrationKind_members_def)
qed

datatype (plugins only: code size) IntegrationFailureClass =
    UNAUTHORIZED
  | FORBIDDEN
  | NOT_FOUND
  | CONFLICT
  | RATE_LIMITED
  | TIMEOUT
  | TRANSIENT_UNAVAILABLE
  | MALFORMED_RESPONSE
  | INVALID_REQUEST
  | SCOPE_DENIED
  | CONFIGURATION_ERROR
  | UNKNOWN_OUTCOME

fun IntegrationFailureClass_value :: "IntegrationFailureClass \<Rightarrow> string" where
  "IntegrationFailureClass_value IntegrationFailureClass.UNAUTHORIZED = ''unauthorized''"
| "IntegrationFailureClass_value IntegrationFailureClass.FORBIDDEN = ''forbidden''"
| "IntegrationFailureClass_value IntegrationFailureClass.NOT_FOUND = ''not_found''"
| "IntegrationFailureClass_value IntegrationFailureClass.CONFLICT = ''conflict''"
| "IntegrationFailureClass_value IntegrationFailureClass.RATE_LIMITED = ''rate_limited''"
| "IntegrationFailureClass_value IntegrationFailureClass.TIMEOUT = ''timeout''"
| "IntegrationFailureClass_value IntegrationFailureClass.TRANSIENT_UNAVAILABLE = ''transient_unavailable''"
| "IntegrationFailureClass_value IntegrationFailureClass.MALFORMED_RESPONSE = ''malformed_response''"
| "IntegrationFailureClass_value IntegrationFailureClass.INVALID_REQUEST = ''invalid_request''"
| "IntegrationFailureClass_value IntegrationFailureClass.SCOPE_DENIED = ''scope_denied''"
| "IntegrationFailureClass_value IntegrationFailureClass.CONFIGURATION_ERROR = ''configuration_error''"
| "IntegrationFailureClass_value IntegrationFailureClass.UNKNOWN_OUTCOME = ''unknown_outcome''"

definition IntegrationFailureClass_members :: "IntegrationFailureClass list" where
  "IntegrationFailureClass_members =
     [IntegrationFailureClass.UNAUTHORIZED,
      IntegrationFailureClass.FORBIDDEN,
      IntegrationFailureClass.NOT_FOUND,
      IntegrationFailureClass.CONFLICT,
      IntegrationFailureClass.RATE_LIMITED,
      IntegrationFailureClass.TIMEOUT,
      IntegrationFailureClass.TRANSIENT_UNAVAILABLE,
      IntegrationFailureClass.MALFORMED_RESPONSE,
      IntegrationFailureClass.INVALID_REQUEST,
      IntegrationFailureClass.SCOPE_DENIED,
      IntegrationFailureClass.CONFIGURATION_ERROR,
      IntegrationFailureClass.UNKNOWN_OUTCOME]"

interpretation integration_failure_class: str_enum IntegrationFailureClass_members IntegrationFailureClass_value
proof unfold_locales
  show "x \<in> set IntegrationFailureClass_members" for x
    by (cases x) (simp_all add: IntegrationFailureClass_members_def)
  show "distinct (map IntegrationFailureClass_value IntegrationFailureClass_members)"
    by (simp add: IntegrationFailureClass_members_def)
qed

datatype (plugins only: code size) ExecutionMode =
    LIVE
  | SIMULATOR
  | REPLAY

fun ExecutionMode_value :: "ExecutionMode \<Rightarrow> string" where
  "ExecutionMode_value ExecutionMode.LIVE = ''live''"
| "ExecutionMode_value ExecutionMode.SIMULATOR = ''simulator''"
| "ExecutionMode_value ExecutionMode.REPLAY = ''replay''"

definition ExecutionMode_members :: "ExecutionMode list" where
  "ExecutionMode_members =
     [ExecutionMode.LIVE,
      ExecutionMode.SIMULATOR,
      ExecutionMode.REPLAY]"

interpretation execution_mode: str_enum ExecutionMode_members ExecutionMode_value
proof unfold_locales
  show "x \<in> set ExecutionMode_members" for x
    by (cases x) (simp_all add: ExecutionMode_members_def)
  show "distinct (map ExecutionMode_value ExecutionMode_members)"
    by (simp add: ExecutionMode_members_def)
qed

datatype (plugins only: code size) ToolExecutionOutcome =
    SUCCEEDED
  | FAILED_CLEAN
  | FAILED_PARTIAL
  | UNKNOWN
  | PRECONDITION_FAILED

fun ToolExecutionOutcome_value :: "ToolExecutionOutcome \<Rightarrow> string" where
  "ToolExecutionOutcome_value ToolExecutionOutcome.SUCCEEDED = ''succeeded''"
| "ToolExecutionOutcome_value ToolExecutionOutcome.FAILED_CLEAN = ''failed_clean''"
| "ToolExecutionOutcome_value ToolExecutionOutcome.FAILED_PARTIAL = ''failed_partial''"
| "ToolExecutionOutcome_value ToolExecutionOutcome.UNKNOWN = ''unknown''"
| "ToolExecutionOutcome_value ToolExecutionOutcome.PRECONDITION_FAILED = ''precondition_failed''"

definition ToolExecutionOutcome_members :: "ToolExecutionOutcome list" where
  "ToolExecutionOutcome_members =
     [ToolExecutionOutcome.SUCCEEDED,
      ToolExecutionOutcome.FAILED_CLEAN,
      ToolExecutionOutcome.FAILED_PARTIAL,
      ToolExecutionOutcome.UNKNOWN,
      ToolExecutionOutcome.PRECONDITION_FAILED]"

interpretation tool_execution_outcome: str_enum ToolExecutionOutcome_members ToolExecutionOutcome_value
proof unfold_locales
  show "x \<in> set ToolExecutionOutcome_members" for x
    by (cases x) (simp_all add: ToolExecutionOutcome_members_def)
  show "distinct (map ToolExecutionOutcome_value ToolExecutionOutcome_members)"
    by (simp add: ToolExecutionOutcome_members_def)
qed

datatype (plugins only: code size) PolicyVerdict =
    ALLOW
  | DENY
  | REQUIRE_APPROVAL

fun PolicyVerdict_value :: "PolicyVerdict \<Rightarrow> string" where
  "PolicyVerdict_value PolicyVerdict.ALLOW = ''allow''"
| "PolicyVerdict_value PolicyVerdict.DENY = ''deny''"
| "PolicyVerdict_value PolicyVerdict.REQUIRE_APPROVAL = ''require_approval''"

definition PolicyVerdict_members :: "PolicyVerdict list" where
  "PolicyVerdict_members =
     [PolicyVerdict.ALLOW,
      PolicyVerdict.DENY,
      PolicyVerdict.REQUIRE_APPROVAL]"

interpretation policy_verdict: str_enum PolicyVerdict_members PolicyVerdict_value
proof unfold_locales
  show "x \<in> set PolicyVerdict_members" for x
    by (cases x) (simp_all add: PolicyVerdict_members_def)
  show "distinct (map PolicyVerdict_value PolicyVerdict_members)"
    by (simp add: PolicyVerdict_members_def)
qed

datatype (plugins only: code size) RemediationActionStatus =
    PROPOSED
  | SCHEMA_REJECTED
  | DENIED
  | AWAITING_APPROVAL
  | APPROVED
  | REJECTED
  | EXPIRED
  | INVALIDATED
  | AUTHORIZED
  | EXECUTING
  | SUCCEEDED
  | FAILED_CLEAN
  | FAILED_PARTIAL
  | UNKNOWN_OUTCOME
  | RECONCILING
  | COMPENSATING
  | COMPENSATED
  | COMPENSATION_FAILED
  | VERIFYING
  | VERIFIED
  | NOT_VERIFIED
  | INCONCLUSIVE

fun RemediationActionStatus_value :: "RemediationActionStatus \<Rightarrow> string" where
  "RemediationActionStatus_value RemediationActionStatus.PROPOSED = ''proposed''"
| "RemediationActionStatus_value RemediationActionStatus.SCHEMA_REJECTED = ''schema_rejected''"
| "RemediationActionStatus_value RemediationActionStatus.DENIED = ''denied''"
| "RemediationActionStatus_value RemediationActionStatus.AWAITING_APPROVAL = ''awaiting_approval''"
| "RemediationActionStatus_value RemediationActionStatus.APPROVED = ''approved''"
| "RemediationActionStatus_value RemediationActionStatus.REJECTED = ''rejected''"
| "RemediationActionStatus_value RemediationActionStatus.EXPIRED = ''expired''"
| "RemediationActionStatus_value RemediationActionStatus.INVALIDATED = ''invalidated''"
| "RemediationActionStatus_value RemediationActionStatus.AUTHORIZED = ''authorized''"
| "RemediationActionStatus_value RemediationActionStatus.EXECUTING = ''executing''"
| "RemediationActionStatus_value RemediationActionStatus.SUCCEEDED = ''succeeded''"
| "RemediationActionStatus_value RemediationActionStatus.FAILED_CLEAN = ''failed_clean''"
| "RemediationActionStatus_value RemediationActionStatus.FAILED_PARTIAL = ''failed_partial''"
| "RemediationActionStatus_value RemediationActionStatus.UNKNOWN_OUTCOME = ''unknown_outcome''"
| "RemediationActionStatus_value RemediationActionStatus.RECONCILING = ''reconciling''"
| "RemediationActionStatus_value RemediationActionStatus.COMPENSATING = ''compensating''"
| "RemediationActionStatus_value RemediationActionStatus.COMPENSATED = ''compensated''"
| "RemediationActionStatus_value RemediationActionStatus.COMPENSATION_FAILED = ''compensation_failed''"
| "RemediationActionStatus_value RemediationActionStatus.VERIFYING = ''verifying''"
| "RemediationActionStatus_value RemediationActionStatus.VERIFIED = ''verified''"
| "RemediationActionStatus_value RemediationActionStatus.NOT_VERIFIED = ''not_verified''"
| "RemediationActionStatus_value RemediationActionStatus.INCONCLUSIVE = ''inconclusive''"

definition RemediationActionStatus_members :: "RemediationActionStatus list" where
  "RemediationActionStatus_members =
     [RemediationActionStatus.PROPOSED,
      RemediationActionStatus.SCHEMA_REJECTED,
      RemediationActionStatus.DENIED,
      RemediationActionStatus.AWAITING_APPROVAL,
      RemediationActionStatus.APPROVED,
      RemediationActionStatus.REJECTED,
      RemediationActionStatus.EXPIRED,
      RemediationActionStatus.INVALIDATED,
      RemediationActionStatus.AUTHORIZED,
      RemediationActionStatus.EXECUTING,
      RemediationActionStatus.SUCCEEDED,
      RemediationActionStatus.FAILED_CLEAN,
      RemediationActionStatus.FAILED_PARTIAL,
      RemediationActionStatus.UNKNOWN_OUTCOME,
      RemediationActionStatus.RECONCILING,
      RemediationActionStatus.COMPENSATING,
      RemediationActionStatus.COMPENSATED,
      RemediationActionStatus.COMPENSATION_FAILED,
      RemediationActionStatus.VERIFYING,
      RemediationActionStatus.VERIFIED,
      RemediationActionStatus.NOT_VERIFIED,
      RemediationActionStatus.INCONCLUSIVE]"

interpretation remediation_action_status: str_enum RemediationActionStatus_members RemediationActionStatus_value
proof unfold_locales
  show "x \<in> set RemediationActionStatus_members" for x
    by (cases x) (simp_all add: RemediationActionStatus_members_def)
  show "distinct (map RemediationActionStatus_value RemediationActionStatus_members)"
    by (simp add: RemediationActionStatus_members_def)
qed

datatype (plugins only: code size) ApprovalDecision =
    APPROVED
  | REJECTED
  | EXPIRED
  | INVALIDATED

fun ApprovalDecision_value :: "ApprovalDecision \<Rightarrow> string" where
  "ApprovalDecision_value ApprovalDecision.APPROVED = ''approved''"
| "ApprovalDecision_value ApprovalDecision.REJECTED = ''rejected''"
| "ApprovalDecision_value ApprovalDecision.EXPIRED = ''expired''"
| "ApprovalDecision_value ApprovalDecision.INVALIDATED = ''invalidated''"

definition ApprovalDecision_members :: "ApprovalDecision list" where
  "ApprovalDecision_members =
     [ApprovalDecision.APPROVED,
      ApprovalDecision.REJECTED,
      ApprovalDecision.EXPIRED,
      ApprovalDecision.INVALIDATED]"

interpretation approval_decision: str_enum ApprovalDecision_members ApprovalDecision_value
proof unfold_locales
  show "x \<in> set ApprovalDecision_members" for x
    by (cases x) (simp_all add: ApprovalDecision_members_def)
  show "distinct (map ApprovalDecision_value ApprovalDecision_members)"
    by (simp add: ApprovalDecision_members_def)
qed

datatype (plugins only: code size) VerificationVerdict =
    VERIFIED
  | NOT_VERIFIED
  | INCONCLUSIVE

fun VerificationVerdict_value :: "VerificationVerdict \<Rightarrow> string" where
  "VerificationVerdict_value VerificationVerdict.VERIFIED = ''verified''"
| "VerificationVerdict_value VerificationVerdict.NOT_VERIFIED = ''not_verified''"
| "VerificationVerdict_value VerificationVerdict.INCONCLUSIVE = ''inconclusive''"

definition VerificationVerdict_members :: "VerificationVerdict list" where
  "VerificationVerdict_members =
     [VerificationVerdict.VERIFIED,
      VerificationVerdict.NOT_VERIFIED,
      VerificationVerdict.INCONCLUSIVE]"

interpretation verification_verdict: str_enum VerificationVerdict_members VerificationVerdict_value
proof unfold_locales
  show "x \<in> set VerificationVerdict_members" for x
    by (cases x) (simp_all add: VerificationVerdict_members_def)
  show "distinct (map VerificationVerdict_value VerificationVerdict_members)"
    by (simp add: VerificationVerdict_members_def)
qed

datatype (plugins only: code size) KnowledgeDocumentType =
    RUNBOOK
  | SERVICE_DOC
  | KNOWN_ERROR
  | POSTMORTEM

fun KnowledgeDocumentType_value :: "KnowledgeDocumentType \<Rightarrow> string" where
  "KnowledgeDocumentType_value KnowledgeDocumentType.RUNBOOK = ''runbook''"
| "KnowledgeDocumentType_value KnowledgeDocumentType.SERVICE_DOC = ''service_doc''"
| "KnowledgeDocumentType_value KnowledgeDocumentType.KNOWN_ERROR = ''known_error''"
| "KnowledgeDocumentType_value KnowledgeDocumentType.POSTMORTEM = ''postmortem''"

definition KnowledgeDocumentType_members :: "KnowledgeDocumentType list" where
  "KnowledgeDocumentType_members =
     [KnowledgeDocumentType.RUNBOOK,
      KnowledgeDocumentType.SERVICE_DOC,
      KnowledgeDocumentType.KNOWN_ERROR,
      KnowledgeDocumentType.POSTMORTEM]"

interpretation knowledge_document_type: str_enum KnowledgeDocumentType_members KnowledgeDocumentType_value
proof unfold_locales
  show "x \<in> set KnowledgeDocumentType_members" for x
    by (cases x) (simp_all add: KnowledgeDocumentType_members_def)
  show "distinct (map KnowledgeDocumentType_value KnowledgeDocumentType_members)"
    by (simp add: KnowledgeDocumentType_members_def)
qed

datatype (plugins only: code size) TrustClass =
    OFFICIAL_RUNBOOK
  | SERVICE_DOCUMENTATION
  | HISTORICAL_POSTMORTEM
  | COMMUNITY

fun TrustClass_value :: "TrustClass \<Rightarrow> string" where
  "TrustClass_value TrustClass.OFFICIAL_RUNBOOK = ''official_runbook''"
| "TrustClass_value TrustClass.SERVICE_DOCUMENTATION = ''service_documentation''"
| "TrustClass_value TrustClass.HISTORICAL_POSTMORTEM = ''historical_postmortem''"
| "TrustClass_value TrustClass.COMMUNITY = ''community''"

definition TrustClass_members :: "TrustClass list" where
  "TrustClass_members =
     [TrustClass.OFFICIAL_RUNBOOK,
      TrustClass.SERVICE_DOCUMENTATION,
      TrustClass.HISTORICAL_POSTMORTEM,
      TrustClass.COMMUNITY]"

interpretation trust_class: str_enum TrustClass_members TrustClass_value
proof unfold_locales
  show "x \<in> set TrustClass_members" for x
    by (cases x) (simp_all add: TrustClass_members_def)
  show "distinct (map TrustClass_value TrustClass_members)"
    by (simp add: TrustClass_members_def)
qed

datatype (plugins only: code size) ChunkStrategy =
    STRUCTURE_AWARE
  | WINDOW_OVERLAP

fun ChunkStrategy_value :: "ChunkStrategy \<Rightarrow> string" where
  "ChunkStrategy_value ChunkStrategy.STRUCTURE_AWARE = ''structure_aware''"
| "ChunkStrategy_value ChunkStrategy.WINDOW_OVERLAP = ''window_overlap''"

definition ChunkStrategy_members :: "ChunkStrategy list" where
  "ChunkStrategy_members =
     [ChunkStrategy.STRUCTURE_AWARE,
      ChunkStrategy.WINDOW_OVERLAP]"

interpretation chunk_strategy: str_enum ChunkStrategy_members ChunkStrategy_value
proof unfold_locales
  show "x \<in> set ChunkStrategy_members" for x
    by (cases x) (simp_all add: ChunkStrategy_members_def)
  show "distinct (map ChunkStrategy_value ChunkStrategy_members)"
    by (simp add: ChunkStrategy_members_def)
qed

datatype (plugins only: code size) MemoryKind =
    VERIFIED_OUTCOME
  | OPERATIONAL_FACT

fun MemoryKind_value :: "MemoryKind \<Rightarrow> string" where
  "MemoryKind_value MemoryKind.VERIFIED_OUTCOME = ''verified_outcome''"
| "MemoryKind_value MemoryKind.OPERATIONAL_FACT = ''operational_fact''"

definition MemoryKind_members :: "MemoryKind list" where
  "MemoryKind_members =
     [MemoryKind.VERIFIED_OUTCOME,
      MemoryKind.OPERATIONAL_FACT]"

interpretation memory_kind: str_enum MemoryKind_members MemoryKind_value
proof unfold_locales
  show "x \<in> set MemoryKind_members" for x
    by (cases x) (simp_all add: MemoryKind_members_def)
  show "distinct (map MemoryKind_value MemoryKind_members)"
    by (simp add: MemoryKind_members_def)
qed

datatype (plugins only: code size) MemoryPromotionStatus =
    PROPOSED
  | APPROVED
  | REJECTED

fun MemoryPromotionStatus_value :: "MemoryPromotionStatus \<Rightarrow> string" where
  "MemoryPromotionStatus_value MemoryPromotionStatus.PROPOSED = ''proposed''"
| "MemoryPromotionStatus_value MemoryPromotionStatus.APPROVED = ''approved''"
| "MemoryPromotionStatus_value MemoryPromotionStatus.REJECTED = ''rejected''"

definition MemoryPromotionStatus_members :: "MemoryPromotionStatus list" where
  "MemoryPromotionStatus_members =
     [MemoryPromotionStatus.PROPOSED,
      MemoryPromotionStatus.APPROVED,
      MemoryPromotionStatus.REJECTED]"

interpretation memory_promotion_status: str_enum MemoryPromotionStatus_members MemoryPromotionStatus_value
proof unfold_locales
  show "x \<in> set MemoryPromotionStatus_members" for x
    by (cases x) (simp_all add: MemoryPromotionStatus_members_def)
  show "distinct (map MemoryPromotionStatus_value MemoryPromotionStatus_members)"
    by (simp add: MemoryPromotionStatus_members_def)
qed

datatype (plugins only: code size) PostmortemStatus =
    DRAFT
  | REVIEWED
  | PUBLISHED

fun PostmortemStatus_value :: "PostmortemStatus \<Rightarrow> string" where
  "PostmortemStatus_value PostmortemStatus.DRAFT = ''draft''"
| "PostmortemStatus_value PostmortemStatus.REVIEWED = ''reviewed''"
| "PostmortemStatus_value PostmortemStatus.PUBLISHED = ''published''"

definition PostmortemStatus_members :: "PostmortemStatus list" where
  "PostmortemStatus_members =
     [PostmortemStatus.DRAFT,
      PostmortemStatus.REVIEWED,
      PostmortemStatus.PUBLISHED]"

interpretation postmortem_status: str_enum PostmortemStatus_members PostmortemStatus_value
proof unfold_locales
  show "x \<in> set PostmortemStatus_members" for x
    by (cases x) (simp_all add: PostmortemStatus_members_def)
  show "distinct (map PostmortemStatus_value PostmortemStatus_members)"
    by (simp add: PostmortemStatus_members_def)
qed

datatype (plugins only: code size) KnowledgeSourceStatus =
    ACTIVE
  | REVOKED
  | DELETED

fun KnowledgeSourceStatus_value :: "KnowledgeSourceStatus \<Rightarrow> string" where
  "KnowledgeSourceStatus_value KnowledgeSourceStatus.ACTIVE = ''active''"
| "KnowledgeSourceStatus_value KnowledgeSourceStatus.REVOKED = ''revoked''"
| "KnowledgeSourceStatus_value KnowledgeSourceStatus.DELETED = ''deleted''"

definition KnowledgeSourceStatus_members :: "KnowledgeSourceStatus list" where
  "KnowledgeSourceStatus_members =
     [KnowledgeSourceStatus.ACTIVE,
      KnowledgeSourceStatus.REVOKED,
      KnowledgeSourceStatus.DELETED]"

interpretation knowledge_source_status: str_enum KnowledgeSourceStatus_members KnowledgeSourceStatus_value
proof unfold_locales
  show "x \<in> set KnowledgeSourceStatus_members" for x
    by (cases x) (simp_all add: KnowledgeSourceStatus_members_def)
  show "distinct (map KnowledgeSourceStatus_value KnowledgeSourceStatus_members)"
    by (simp add: KnowledgeSourceStatus_members_def)
qed

datatype (plugins only: code size) KnowledgeVersionState =
    CURRENT
  | SUPERSEDED
  | REVOKED

fun KnowledgeVersionState_value :: "KnowledgeVersionState \<Rightarrow> string" where
  "KnowledgeVersionState_value KnowledgeVersionState.CURRENT = ''current''"
| "KnowledgeVersionState_value KnowledgeVersionState.SUPERSEDED = ''superseded''"
| "KnowledgeVersionState_value KnowledgeVersionState.REVOKED = ''revoked''"

definition KnowledgeVersionState_members :: "KnowledgeVersionState list" where
  "KnowledgeVersionState_members =
     [KnowledgeVersionState.CURRENT,
      KnowledgeVersionState.SUPERSEDED,
      KnowledgeVersionState.REVOKED]"

interpretation knowledge_version_state: str_enum KnowledgeVersionState_members KnowledgeVersionState_value
proof unfold_locales
  show "x \<in> set KnowledgeVersionState_members" for x
    by (cases x) (simp_all add: KnowledgeVersionState_members_def)
  show "distinct (map KnowledgeVersionState_value KnowledgeVersionState_members)"
    by (simp add: KnowledgeVersionState_members_def)
qed

datatype (plugins only: code size) KnowledgeContentFormat =
    MARKDOWN
  | TEXT
  | HTML

fun KnowledgeContentFormat_value :: "KnowledgeContentFormat \<Rightarrow> string" where
  "KnowledgeContentFormat_value KnowledgeContentFormat.MARKDOWN = ''markdown''"
| "KnowledgeContentFormat_value KnowledgeContentFormat.TEXT = ''text''"
| "KnowledgeContentFormat_value KnowledgeContentFormat.HTML = ''html''"

definition KnowledgeContentFormat_members :: "KnowledgeContentFormat list" where
  "KnowledgeContentFormat_members =
     [KnowledgeContentFormat.MARKDOWN,
      KnowledgeContentFormat.TEXT,
      KnowledgeContentFormat.HTML]"

interpretation knowledge_content_format: str_enum KnowledgeContentFormat_members KnowledgeContentFormat_value
proof unfold_locales
  show "x \<in> set KnowledgeContentFormat_members" for x
    by (cases x) (simp_all add: KnowledgeContentFormat_members_def)
  show "distinct (map KnowledgeContentFormat_value KnowledgeContentFormat_members)"
    by (simp add: KnowledgeContentFormat_members_def)
qed

datatype (plugins only: code size) KnowledgeIngestionOutcome =
    CREATED
  | UNCHANGED
  | REJECTED
  | FAILED

fun KnowledgeIngestionOutcome_value :: "KnowledgeIngestionOutcome \<Rightarrow> string" where
  "KnowledgeIngestionOutcome_value KnowledgeIngestionOutcome.CREATED = ''created''"
| "KnowledgeIngestionOutcome_value KnowledgeIngestionOutcome.UNCHANGED = ''unchanged''"
| "KnowledgeIngestionOutcome_value KnowledgeIngestionOutcome.REJECTED = ''rejected''"
| "KnowledgeIngestionOutcome_value KnowledgeIngestionOutcome.FAILED = ''failed''"

definition KnowledgeIngestionOutcome_members :: "KnowledgeIngestionOutcome list" where
  "KnowledgeIngestionOutcome_members =
     [KnowledgeIngestionOutcome.CREATED,
      KnowledgeIngestionOutcome.UNCHANGED,
      KnowledgeIngestionOutcome.REJECTED,
      KnowledgeIngestionOutcome.FAILED]"

interpretation knowledge_ingestion_outcome: str_enum KnowledgeIngestionOutcome_members KnowledgeIngestionOutcome_value
proof unfold_locales
  show "x \<in> set KnowledgeIngestionOutcome_members" for x
    by (cases x) (simp_all add: KnowledgeIngestionOutcome_members_def)
  show "distinct (map KnowledgeIngestionOutcome_value KnowledgeIngestionOutcome_members)"
    by (simp add: KnowledgeIngestionOutcome_members_def)
qed

datatype (plugins only: code size) RetrievalPrincipalKind =
    INVESTIGATION
  | USER
  | SERVICE

fun RetrievalPrincipalKind_value :: "RetrievalPrincipalKind \<Rightarrow> string" where
  "RetrievalPrincipalKind_value RetrievalPrincipalKind.INVESTIGATION = ''investigation''"
| "RetrievalPrincipalKind_value RetrievalPrincipalKind.USER = ''user''"
| "RetrievalPrincipalKind_value RetrievalPrincipalKind.SERVICE = ''service''"

definition RetrievalPrincipalKind_members :: "RetrievalPrincipalKind list" where
  "RetrievalPrincipalKind_members =
     [RetrievalPrincipalKind.INVESTIGATION,
      RetrievalPrincipalKind.USER,
      RetrievalPrincipalKind.SERVICE]"

interpretation retrieval_principal_kind: str_enum RetrievalPrincipalKind_members RetrievalPrincipalKind_value
proof unfold_locales
  show "x \<in> set RetrievalPrincipalKind_members" for x
    by (cases x) (simp_all add: RetrievalPrincipalKind_members_def)
  show "distinct (map RetrievalPrincipalKind_value RetrievalPrincipalKind_members)"
    by (simp add: RetrievalPrincipalKind_members_def)
qed

datatype (plugins only: code size) MemoryCategory =
    WORKING_STATE
  | OPERATIONAL_KNOWLEDGE
  | INCIDENT_HISTORY
  | VERIFIED_OUTCOME
  | MODEL_INFERENCE

fun MemoryCategory_value :: "MemoryCategory \<Rightarrow> string" where
  "MemoryCategory_value MemoryCategory.WORKING_STATE = ''working_state''"
| "MemoryCategory_value MemoryCategory.OPERATIONAL_KNOWLEDGE = ''operational_knowledge''"
| "MemoryCategory_value MemoryCategory.INCIDENT_HISTORY = ''incident_history''"
| "MemoryCategory_value MemoryCategory.VERIFIED_OUTCOME = ''verified_outcome''"
| "MemoryCategory_value MemoryCategory.MODEL_INFERENCE = ''model_inference''"

definition MemoryCategory_members :: "MemoryCategory list" where
  "MemoryCategory_members =
     [MemoryCategory.WORKING_STATE,
      MemoryCategory.OPERATIONAL_KNOWLEDGE,
      MemoryCategory.INCIDENT_HISTORY,
      MemoryCategory.VERIFIED_OUTCOME,
      MemoryCategory.MODEL_INFERENCE]"

interpretation memory_category: str_enum MemoryCategory_members MemoryCategory_value
proof unfold_locales
  show "x \<in> set MemoryCategory_members" for x
    by (cases x) (simp_all add: MemoryCategory_members_def)
  show "distinct (map MemoryCategory_value MemoryCategory_members)"
    by (simp add: MemoryCategory_members_def)
qed

datatype (plugins only: code size) MemoryVerificationStatus =
    VERIFIED
  | UNVERIFIED

fun MemoryVerificationStatus_value :: "MemoryVerificationStatus \<Rightarrow> string" where
  "MemoryVerificationStatus_value MemoryVerificationStatus.VERIFIED = ''verified''"
| "MemoryVerificationStatus_value MemoryVerificationStatus.UNVERIFIED = ''unverified''"

definition MemoryVerificationStatus_members :: "MemoryVerificationStatus list" where
  "MemoryVerificationStatus_members =
     [MemoryVerificationStatus.VERIFIED,
      MemoryVerificationStatus.UNVERIFIED]"

interpretation memory_verification_status: str_enum MemoryVerificationStatus_members MemoryVerificationStatus_value
proof unfold_locales
  show "x \<in> set MemoryVerificationStatus_members" for x
    by (cases x) (simp_all add: MemoryVerificationStatus_members_def)
  show "distinct (map MemoryVerificationStatus_value MemoryVerificationStatus_members)"
    by (simp add: MemoryVerificationStatus_members_def)
qed

datatype (plugins only: code size) MemoryDecisionOutcome =
    PROPOSED
  | REJECTED
  | APPROVED
  | DECLINED

fun MemoryDecisionOutcome_value :: "MemoryDecisionOutcome \<Rightarrow> string" where
  "MemoryDecisionOutcome_value MemoryDecisionOutcome.PROPOSED = ''proposed''"
| "MemoryDecisionOutcome_value MemoryDecisionOutcome.REJECTED = ''rejected''"
| "MemoryDecisionOutcome_value MemoryDecisionOutcome.APPROVED = ''approved''"
| "MemoryDecisionOutcome_value MemoryDecisionOutcome.DECLINED = ''declined''"

definition MemoryDecisionOutcome_members :: "MemoryDecisionOutcome list" where
  "MemoryDecisionOutcome_members =
     [MemoryDecisionOutcome.PROPOSED,
      MemoryDecisionOutcome.REJECTED,
      MemoryDecisionOutcome.APPROVED,
      MemoryDecisionOutcome.DECLINED]"

interpretation memory_decision_outcome: str_enum MemoryDecisionOutcome_members MemoryDecisionOutcome_value
proof unfold_locales
  show "x \<in> set MemoryDecisionOutcome_members" for x
    by (cases x) (simp_all add: MemoryDecisionOutcome_members_def)
  show "distinct (map MemoryDecisionOutcome_value MemoryDecisionOutcome_members)"
    by (simp add: MemoryDecisionOutcome_members_def)
qed

datatype (plugins only: code size) EvaluationScenarioClass =
    GOLDEN
  | REPLAY
  | ADVERSARIAL

fun EvaluationScenarioClass_value :: "EvaluationScenarioClass \<Rightarrow> string" where
  "EvaluationScenarioClass_value EvaluationScenarioClass.GOLDEN = ''golden''"
| "EvaluationScenarioClass_value EvaluationScenarioClass.REPLAY = ''replay''"
| "EvaluationScenarioClass_value EvaluationScenarioClass.ADVERSARIAL = ''adversarial''"

definition EvaluationScenarioClass_members :: "EvaluationScenarioClass list" where
  "EvaluationScenarioClass_members =
     [EvaluationScenarioClass.GOLDEN,
      EvaluationScenarioClass.REPLAY,
      EvaluationScenarioClass.ADVERSARIAL]"

interpretation evaluation_scenario_class: str_enum EvaluationScenarioClass_members EvaluationScenarioClass_value
proof unfold_locales
  show "x \<in> set EvaluationScenarioClass_members" for x
    by (cases x) (simp_all add: EvaluationScenarioClass_members_def)
  show "distinct (map EvaluationScenarioClass_value EvaluationScenarioClass_members)"
    by (simp add: EvaluationScenarioClass_members_def)
qed

datatype (plugins only: code size) EvaluationRunVerdict =
    PASSED
  | FAILED
  | CONTESTED
  | ERRORED

fun EvaluationRunVerdict_value :: "EvaluationRunVerdict \<Rightarrow> string" where
  "EvaluationRunVerdict_value EvaluationRunVerdict.PASSED = ''passed''"
| "EvaluationRunVerdict_value EvaluationRunVerdict.FAILED = ''failed''"
| "EvaluationRunVerdict_value EvaluationRunVerdict.CONTESTED = ''contested''"
| "EvaluationRunVerdict_value EvaluationRunVerdict.ERRORED = ''errored''"

definition EvaluationRunVerdict_members :: "EvaluationRunVerdict list" where
  "EvaluationRunVerdict_members =
     [EvaluationRunVerdict.PASSED,
      EvaluationRunVerdict.FAILED,
      EvaluationRunVerdict.CONTESTED,
      EvaluationRunVerdict.ERRORED]"

interpretation evaluation_run_verdict: str_enum EvaluationRunVerdict_members EvaluationRunVerdict_value
proof unfold_locales
  show "x \<in> set EvaluationRunVerdict_members" for x
    by (cases x) (simp_all add: EvaluationRunVerdict_members_def)
  show "distinct (map EvaluationRunVerdict_value EvaluationRunVerdict_members)"
    by (simp add: EvaluationRunVerdict_members_def)
qed

datatype (plugins only: code size) EvaluationGateStatus =
    PASSED
  | FAILED
  | ERRORED

fun EvaluationGateStatus_value :: "EvaluationGateStatus \<Rightarrow> string" where
  "EvaluationGateStatus_value EvaluationGateStatus.PASSED = ''passed''"
| "EvaluationGateStatus_value EvaluationGateStatus.FAILED = ''failed''"
| "EvaluationGateStatus_value EvaluationGateStatus.ERRORED = ''errored''"

definition EvaluationGateStatus_members :: "EvaluationGateStatus list" where
  "EvaluationGateStatus_members =
     [EvaluationGateStatus.PASSED,
      EvaluationGateStatus.FAILED,
      EvaluationGateStatus.ERRORED]"

interpretation evaluation_gate_status: str_enum EvaluationGateStatus_members EvaluationGateStatus_value
proof unfold_locales
  show "x \<in> set EvaluationGateStatus_members" for x
    by (cases x) (simp_all add: EvaluationGateStatus_members_def)
  show "distinct (map EvaluationGateStatus_value EvaluationGateStatus_members)"
    by (simp add: EvaluationGateStatus_members_def)
qed

datatype (plugins only: code size) JudgeOutcome =
    SCORED
  | FAILED
  | UNAVAILABLE

fun JudgeOutcome_value :: "JudgeOutcome \<Rightarrow> string" where
  "JudgeOutcome_value JudgeOutcome.SCORED = ''scored''"
| "JudgeOutcome_value JudgeOutcome.FAILED = ''failed''"
| "JudgeOutcome_value JudgeOutcome.UNAVAILABLE = ''unavailable''"

definition JudgeOutcome_members :: "JudgeOutcome list" where
  "JudgeOutcome_members =
     [JudgeOutcome.SCORED,
      JudgeOutcome.FAILED,
      JudgeOutcome.UNAVAILABLE]"

interpretation judge_outcome: str_enum JudgeOutcome_members JudgeOutcome_value
proof unfold_locales
  show "x \<in> set JudgeOutcome_members" for x
    by (cases x) (simp_all add: JudgeOutcome_members_def)
  show "distinct (map JudgeOutcome_value JudgeOutcome_members)"
    by (simp add: JudgeOutcome_members_def)
qed

datatype (plugins only: code size) EvaluationFailureClass =
    RETRIEVAL
  | EVIDENCE_GROUNDING
  | HALLUCINATION
  | PLANNING
  | TOOL_SELECTION
  | TOOL_AUTHORIZATION
  | RCA
  | REMEDIATION
  | VERIFICATION
  | BUDGET
  | TIMEOUT
  | INTEGRATION
  | HARNESS

fun EvaluationFailureClass_value :: "EvaluationFailureClass \<Rightarrow> string" where
  "EvaluationFailureClass_value EvaluationFailureClass.RETRIEVAL = ''retrieval''"
| "EvaluationFailureClass_value EvaluationFailureClass.EVIDENCE_GROUNDING = ''evidence_grounding''"
| "EvaluationFailureClass_value EvaluationFailureClass.HALLUCINATION = ''hallucination''"
| "EvaluationFailureClass_value EvaluationFailureClass.PLANNING = ''planning''"
| "EvaluationFailureClass_value EvaluationFailureClass.TOOL_SELECTION = ''tool_selection''"
| "EvaluationFailureClass_value EvaluationFailureClass.TOOL_AUTHORIZATION = ''tool_authorization''"
| "EvaluationFailureClass_value EvaluationFailureClass.RCA = ''rca''"
| "EvaluationFailureClass_value EvaluationFailureClass.REMEDIATION = ''remediation''"
| "EvaluationFailureClass_value EvaluationFailureClass.VERIFICATION = ''verification''"
| "EvaluationFailureClass_value EvaluationFailureClass.BUDGET = ''budget''"
| "EvaluationFailureClass_value EvaluationFailureClass.TIMEOUT = ''timeout''"
| "EvaluationFailureClass_value EvaluationFailureClass.INTEGRATION = ''integration''"
| "EvaluationFailureClass_value EvaluationFailureClass.HARNESS = ''harness''"

definition EvaluationFailureClass_members :: "EvaluationFailureClass list" where
  "EvaluationFailureClass_members =
     [EvaluationFailureClass.RETRIEVAL,
      EvaluationFailureClass.EVIDENCE_GROUNDING,
      EvaluationFailureClass.HALLUCINATION,
      EvaluationFailureClass.PLANNING,
      EvaluationFailureClass.TOOL_SELECTION,
      EvaluationFailureClass.TOOL_AUTHORIZATION,
      EvaluationFailureClass.RCA,
      EvaluationFailureClass.REMEDIATION,
      EvaluationFailureClass.VERIFICATION,
      EvaluationFailureClass.BUDGET,
      EvaluationFailureClass.TIMEOUT,
      EvaluationFailureClass.INTEGRATION,
      EvaluationFailureClass.HARNESS]"

interpretation evaluation_failure_class: str_enum EvaluationFailureClass_members EvaluationFailureClass_value
proof unfold_locales
  show "x \<in> set EvaluationFailureClass_members" for x
    by (cases x) (simp_all add: EvaluationFailureClass_members_def)
  show "distinct (map EvaluationFailureClass_value EvaluationFailureClass_members)"
    by (simp add: EvaluationFailureClass_members_def)
qed

datatype (plugins only: code size) TraceSpanKind =
    INCIDENT
  | CORRELATION
  | WORKFLOW_PHASE
  | NODE_EXECUTE
  | PLANNER_STEP
  | LLM_CALL
  | TOOL_INVOKE
  | RETRIEVAL_QUERY
  | DB_OPERATION
  | POLICY_EVALUATE
  | APPROVAL_WAIT
  | REMEDIATION_EXECUTE
  | VERIFICATION_CHECK
  | INTEGRATION_CALL
  | EVALUATION_SCORE

fun TraceSpanKind_value :: "TraceSpanKind \<Rightarrow> string" where
  "TraceSpanKind_value TraceSpanKind.INCIDENT = ''incident''"
| "TraceSpanKind_value TraceSpanKind.CORRELATION = ''correlation''"
| "TraceSpanKind_value TraceSpanKind.WORKFLOW_PHASE = ''workflow.phase''"
| "TraceSpanKind_value TraceSpanKind.NODE_EXECUTE = ''node.execute''"
| "TraceSpanKind_value TraceSpanKind.PLANNER_STEP = ''planner.step''"
| "TraceSpanKind_value TraceSpanKind.LLM_CALL = ''llm.call''"
| "TraceSpanKind_value TraceSpanKind.TOOL_INVOKE = ''tool.invoke''"
| "TraceSpanKind_value TraceSpanKind.RETRIEVAL_QUERY = ''retrieval.query''"
| "TraceSpanKind_value TraceSpanKind.DB_OPERATION = ''db.operation''"
| "TraceSpanKind_value TraceSpanKind.POLICY_EVALUATE = ''policy.evaluate''"
| "TraceSpanKind_value TraceSpanKind.APPROVAL_WAIT = ''approval.wait''"
| "TraceSpanKind_value TraceSpanKind.REMEDIATION_EXECUTE = ''remediation.execute''"
| "TraceSpanKind_value TraceSpanKind.VERIFICATION_CHECK = ''verification.check''"
| "TraceSpanKind_value TraceSpanKind.INTEGRATION_CALL = ''integration.call''"
| "TraceSpanKind_value TraceSpanKind.EVALUATION_SCORE = ''evaluation.score''"

definition TraceSpanKind_members :: "TraceSpanKind list" where
  "TraceSpanKind_members =
     [TraceSpanKind.INCIDENT,
      TraceSpanKind.CORRELATION,
      TraceSpanKind.WORKFLOW_PHASE,
      TraceSpanKind.NODE_EXECUTE,
      TraceSpanKind.PLANNER_STEP,
      TraceSpanKind.LLM_CALL,
      TraceSpanKind.TOOL_INVOKE,
      TraceSpanKind.RETRIEVAL_QUERY,
      TraceSpanKind.DB_OPERATION,
      TraceSpanKind.POLICY_EVALUATE,
      TraceSpanKind.APPROVAL_WAIT,
      TraceSpanKind.REMEDIATION_EXECUTE,
      TraceSpanKind.VERIFICATION_CHECK,
      TraceSpanKind.INTEGRATION_CALL,
      TraceSpanKind.EVALUATION_SCORE]"

interpretation trace_span_kind: str_enum TraceSpanKind_members TraceSpanKind_value
proof unfold_locales
  show "x \<in> set TraceSpanKind_members" for x
    by (cases x) (simp_all add: TraceSpanKind_members_def)
  show "distinct (map TraceSpanKind_value TraceSpanKind_members)"
    by (simp add: TraceSpanKind_members_def)
qed

datatype (plugins only: code size) SpanStatus =
    OK
  | ERROR
  | UNSET

fun SpanStatus_value :: "SpanStatus \<Rightarrow> string" where
  "SpanStatus_value SpanStatus.OK = ''ok''"
| "SpanStatus_value SpanStatus.ERROR = ''error''"
| "SpanStatus_value SpanStatus.UNSET = ''unset''"

definition SpanStatus_members :: "SpanStatus list" where
  "SpanStatus_members =
     [SpanStatus.OK,
      SpanStatus.ERROR,
      SpanStatus.UNSET]"

interpretation span_status: str_enum SpanStatus_members SpanStatus_value
proof unfold_locales
  show "x \<in> set SpanStatus_members" for x
    by (cases x) (simp_all add: SpanStatus_members_def)
  show "distinct (map SpanStatus_value SpanStatus_members)"
    by (simp add: SpanStatus_members_def)
qed

datatype (plugins only: code size) WorkflowRunStatus =
    RUNNING
  | SUSPENDED
  | COMPLETED
  | FAILED
  | DEAD_LETTERED

fun WorkflowRunStatus_value :: "WorkflowRunStatus \<Rightarrow> string" where
  "WorkflowRunStatus_value WorkflowRunStatus.RUNNING = ''running''"
| "WorkflowRunStatus_value WorkflowRunStatus.SUSPENDED = ''suspended''"
| "WorkflowRunStatus_value WorkflowRunStatus.COMPLETED = ''completed''"
| "WorkflowRunStatus_value WorkflowRunStatus.FAILED = ''failed''"
| "WorkflowRunStatus_value WorkflowRunStatus.DEAD_LETTERED = ''dead_lettered''"

definition WorkflowRunStatus_members :: "WorkflowRunStatus list" where
  "WorkflowRunStatus_members =
     [WorkflowRunStatus.RUNNING,
      WorkflowRunStatus.SUSPENDED,
      WorkflowRunStatus.COMPLETED,
      WorkflowRunStatus.FAILED,
      WorkflowRunStatus.DEAD_LETTERED]"

interpretation workflow_run_status: str_enum WorkflowRunStatus_members WorkflowRunStatus_value
proof unfold_locales
  show "x \<in> set WorkflowRunStatus_members" for x
    by (cases x) (simp_all add: WorkflowRunStatus_members_def)
  show "distinct (map WorkflowRunStatus_value WorkflowRunStatus_members)"
    by (simp add: WorkflowRunStatus_members_def)
qed

datatype (plugins only: code size) NodeId =
    G1_ALERT_CORRELATOR
  | G2_INCIDENT_COORDINATOR
  | G3_INVESTIGATION_PLANNER
  | G4_EVIDENCE_COLLECTOR
  | G5_HYPOTHESIS_ENGINE
  | G6_REMEDIATION_PLANNER
  | G7_POLICY_GATE
  | G8_APPROVAL_SERVICE
  | G9_REMEDIATION_EXECUTOR
  | G10_VERIFIER
  | G11_POSTMORTEM_AUTHOR
  | G12_MEMORY_CURATOR
  | S1_TIMELINE_PROJECTION
  | S2_NOTIFICATION_SERVICE
  | E1_EVALUATION_JUDGE

fun NodeId_value :: "NodeId \<Rightarrow> string" where
  "NodeId_value NodeId.G1_ALERT_CORRELATOR = ''g1_alert_correlator''"
| "NodeId_value NodeId.G2_INCIDENT_COORDINATOR = ''g2_incident_coordinator''"
| "NodeId_value NodeId.G3_INVESTIGATION_PLANNER = ''g3_investigation_planner''"
| "NodeId_value NodeId.G4_EVIDENCE_COLLECTOR = ''g4_evidence_collector''"
| "NodeId_value NodeId.G5_HYPOTHESIS_ENGINE = ''g5_hypothesis_engine''"
| "NodeId_value NodeId.G6_REMEDIATION_PLANNER = ''g6_remediation_planner''"
| "NodeId_value NodeId.G7_POLICY_GATE = ''g7_policy_gate''"
| "NodeId_value NodeId.G8_APPROVAL_SERVICE = ''g8_approval_service''"
| "NodeId_value NodeId.G9_REMEDIATION_EXECUTOR = ''g9_remediation_executor''"
| "NodeId_value NodeId.G10_VERIFIER = ''g10_verifier''"
| "NodeId_value NodeId.G11_POSTMORTEM_AUTHOR = ''g11_postmortem_author''"
| "NodeId_value NodeId.G12_MEMORY_CURATOR = ''g12_memory_curator''"
| "NodeId_value NodeId.S1_TIMELINE_PROJECTION = ''s1_timeline_projection''"
| "NodeId_value NodeId.S2_NOTIFICATION_SERVICE = ''s2_notification_service''"
| "NodeId_value NodeId.E1_EVALUATION_JUDGE = ''e1_evaluation_judge''"

definition NodeId_members :: "NodeId list" where
  "NodeId_members =
     [NodeId.G1_ALERT_CORRELATOR,
      NodeId.G2_INCIDENT_COORDINATOR,
      NodeId.G3_INVESTIGATION_PLANNER,
      NodeId.G4_EVIDENCE_COLLECTOR,
      NodeId.G5_HYPOTHESIS_ENGINE,
      NodeId.G6_REMEDIATION_PLANNER,
      NodeId.G7_POLICY_GATE,
      NodeId.G8_APPROVAL_SERVICE,
      NodeId.G9_REMEDIATION_EXECUTOR,
      NodeId.G10_VERIFIER,
      NodeId.G11_POSTMORTEM_AUTHOR,
      NodeId.G12_MEMORY_CURATOR,
      NodeId.S1_TIMELINE_PROJECTION,
      NodeId.S2_NOTIFICATION_SERVICE,
      NodeId.E1_EVALUATION_JUDGE]"

interpretation node_id: str_enum NodeId_members NodeId_value
proof unfold_locales
  show "x \<in> set NodeId_members" for x
    by (cases x) (simp_all add: NodeId_members_def)
  show "distinct (map NodeId_value NodeId_members)"
    by (simp add: NodeId_members_def)
qed

datatype (plugins only: code size) AuditEventType =
    AUTHENTICATION_SUCCEEDED
  | AUTHENTICATION_FAILED
  | AUTHORIZATION_GRANTED
  | AUTHORIZATION_DENIED
  | TOOL_AUTHORIZATION_EVALUATED
  | TOOL_EXECUTED
  | REMEDIATION_PLANNED
  | APPROVAL_REQUESTED
  | APPROVAL_DECIDED
  | REMEDIATION_EXECUTED
  | VERIFICATION_RECORDED
  | POLICY_DECIDED
  | CONFIGURATION_CHANGED
  | SECURITY_SETTING_CHANGED
  | TENANT_LIFECYCLE_CHANGED
  | DATA_EXPORTED
  | DATA_DELETED

fun AuditEventType_value :: "AuditEventType \<Rightarrow> string" where
  "AuditEventType_value AuditEventType.AUTHENTICATION_SUCCEEDED = ''authentication.succeeded''"
| "AuditEventType_value AuditEventType.AUTHENTICATION_FAILED = ''authentication.failed''"
| "AuditEventType_value AuditEventType.AUTHORIZATION_GRANTED = ''authorization.granted''"
| "AuditEventType_value AuditEventType.AUTHORIZATION_DENIED = ''authorization.denied''"
| "AuditEventType_value AuditEventType.TOOL_AUTHORIZATION_EVALUATED = ''tool_authorization.evaluated''"
| "AuditEventType_value AuditEventType.TOOL_EXECUTED = ''tool.executed''"
| "AuditEventType_value AuditEventType.REMEDIATION_PLANNED = ''remediation.planned''"
| "AuditEventType_value AuditEventType.APPROVAL_REQUESTED = ''approval.requested''"
| "AuditEventType_value AuditEventType.APPROVAL_DECIDED = ''approval.decided''"
| "AuditEventType_value AuditEventType.REMEDIATION_EXECUTED = ''remediation.executed''"
| "AuditEventType_value AuditEventType.VERIFICATION_RECORDED = ''verification.recorded''"
| "AuditEventType_value AuditEventType.POLICY_DECIDED = ''policy.decided''"
| "AuditEventType_value AuditEventType.CONFIGURATION_CHANGED = ''configuration.changed''"
| "AuditEventType_value AuditEventType.SECURITY_SETTING_CHANGED = ''security_setting.changed''"
| "AuditEventType_value AuditEventType.TENANT_LIFECYCLE_CHANGED = ''tenant_lifecycle.changed''"
| "AuditEventType_value AuditEventType.DATA_EXPORTED = ''data.exported''"
| "AuditEventType_value AuditEventType.DATA_DELETED = ''data.deleted''"

definition AuditEventType_members :: "AuditEventType list" where
  "AuditEventType_members =
     [AuditEventType.AUTHENTICATION_SUCCEEDED,
      AuditEventType.AUTHENTICATION_FAILED,
      AuditEventType.AUTHORIZATION_GRANTED,
      AuditEventType.AUTHORIZATION_DENIED,
      AuditEventType.TOOL_AUTHORIZATION_EVALUATED,
      AuditEventType.TOOL_EXECUTED,
      AuditEventType.REMEDIATION_PLANNED,
      AuditEventType.APPROVAL_REQUESTED,
      AuditEventType.APPROVAL_DECIDED,
      AuditEventType.REMEDIATION_EXECUTED,
      AuditEventType.VERIFICATION_RECORDED,
      AuditEventType.POLICY_DECIDED,
      AuditEventType.CONFIGURATION_CHANGED,
      AuditEventType.SECURITY_SETTING_CHANGED,
      AuditEventType.TENANT_LIFECYCLE_CHANGED,
      AuditEventType.DATA_EXPORTED,
      AuditEventType.DATA_DELETED]"

interpretation audit_event_type: str_enum AuditEventType_members AuditEventType_value
proof unfold_locales
  show "x \<in> set AuditEventType_members" for x
    by (cases x) (simp_all add: AuditEventType_members_def)
  show "distinct (map AuditEventType_value AuditEventType_members)"
    by (simp add: AuditEventType_members_def)
qed

datatype (plugins only: code size) InvestigationPhase =
    INITIALISING
  | PLANNING
  | COLLECTING
  | ANALYSING
  | TERMINATING
  | TERMINATED

fun InvestigationPhase_value :: "InvestigationPhase \<Rightarrow> string" where
  "InvestigationPhase_value InvestigationPhase.INITIALISING = ''initialising''"
| "InvestigationPhase_value InvestigationPhase.PLANNING = ''planning''"
| "InvestigationPhase_value InvestigationPhase.COLLECTING = ''collecting''"
| "InvestigationPhase_value InvestigationPhase.ANALYSING = ''analysing''"
| "InvestigationPhase_value InvestigationPhase.TERMINATING = ''terminating''"
| "InvestigationPhase_value InvestigationPhase.TERMINATED = ''terminated''"

definition InvestigationPhase_members :: "InvestigationPhase list" where
  "InvestigationPhase_members =
     [InvestigationPhase.INITIALISING,
      InvestigationPhase.PLANNING,
      InvestigationPhase.COLLECTING,
      InvestigationPhase.ANALYSING,
      InvestigationPhase.TERMINATING,
      InvestigationPhase.TERMINATED]"

interpretation investigation_phase: str_enum InvestigationPhase_members InvestigationPhase_value
proof unfold_locales
  show "x \<in> set InvestigationPhase_members" for x
    by (cases x) (simp_all add: InvestigationPhase_members_def)
  show "distinct (map InvestigationPhase_value InvestigationPhase_members)"
    by (simp add: InvestigationPhase_members_def)
qed

datatype (plugins only: code size) PlannerAction =
    COLLECT_EVIDENCE
  | FORM_HYPOTHESIS
  | TERMINATE

fun PlannerAction_value :: "PlannerAction \<Rightarrow> string" where
  "PlannerAction_value PlannerAction.COLLECT_EVIDENCE = ''collect_evidence''"
| "PlannerAction_value PlannerAction.FORM_HYPOTHESIS = ''form_hypothesis''"
| "PlannerAction_value PlannerAction.TERMINATE = ''terminate''"

definition PlannerAction_members :: "PlannerAction list" where
  "PlannerAction_members =
     [PlannerAction.COLLECT_EVIDENCE,
      PlannerAction.FORM_HYPOTHESIS,
      PlannerAction.TERMINATE]"

interpretation planner_action: str_enum PlannerAction_members PlannerAction_value
proof unfold_locales
  show "x \<in> set PlannerAction_members" for x
    by (cases x) (simp_all add: PlannerAction_members_def)
  show "distinct (map PlannerAction_value PlannerAction_members)"
    by (simp add: PlannerAction_members_def)
qed

datatype (plugins only: code size) ReflectionAction =
    CONTINUE_WITH_GAP
  | COLLECT_COUNTER_EVIDENCE
  | REVISE_HYPOTHESIS
  | TERMINATE_SUCCESS
  | TERMINATE_UNCERTAIN
  | ESCALATE

fun ReflectionAction_value :: "ReflectionAction \<Rightarrow> string" where
  "ReflectionAction_value ReflectionAction.CONTINUE_WITH_GAP = ''continue_with_gap''"
| "ReflectionAction_value ReflectionAction.COLLECT_COUNTER_EVIDENCE = ''collect_counter_evidence''"
| "ReflectionAction_value ReflectionAction.REVISE_HYPOTHESIS = ''revise_hypothesis''"
| "ReflectionAction_value ReflectionAction.TERMINATE_SUCCESS = ''terminate_success''"
| "ReflectionAction_value ReflectionAction.TERMINATE_UNCERTAIN = ''terminate_uncertain''"
| "ReflectionAction_value ReflectionAction.ESCALATE = ''escalate''"

definition ReflectionAction_members :: "ReflectionAction list" where
  "ReflectionAction_members =
     [ReflectionAction.CONTINUE_WITH_GAP,
      ReflectionAction.COLLECT_COUNTER_EVIDENCE,
      ReflectionAction.REVISE_HYPOTHESIS,
      ReflectionAction.TERMINATE_SUCCESS,
      ReflectionAction.TERMINATE_UNCERTAIN,
      ReflectionAction.ESCALATE]"

interpretation reflection_action: str_enum ReflectionAction_members ReflectionAction_value
proof unfold_locales
  show "x \<in> set ReflectionAction_members" for x
    by (cases x) (simp_all add: ReflectionAction_members_def)
  show "distinct (map ReflectionAction_value ReflectionAction_members)"
    by (simp add: ReflectionAction_members_def)
qed

datatype (plugins only: code size) EvidenceFailureCategory =
    NO_EVIDENCE_FOUND
  | EVIDENCE_COLLECTION_FAILED
  | EVIDENCE_UNAUTHORIZED
  | INVESTIGATION_TIMEOUT
  | MODEL_FAILURE
  | TOOL_FAILURE
  | UNCERTAIN

fun EvidenceFailureCategory_value :: "EvidenceFailureCategory \<Rightarrow> string" where
  "EvidenceFailureCategory_value EvidenceFailureCategory.NO_EVIDENCE_FOUND = ''no_evidence_found''"
| "EvidenceFailureCategory_value EvidenceFailureCategory.EVIDENCE_COLLECTION_FAILED = ''evidence_collection_failed''"
| "EvidenceFailureCategory_value EvidenceFailureCategory.EVIDENCE_UNAUTHORIZED = ''evidence_unauthorized''"
| "EvidenceFailureCategory_value EvidenceFailureCategory.INVESTIGATION_TIMEOUT = ''investigation_timeout''"
| "EvidenceFailureCategory_value EvidenceFailureCategory.MODEL_FAILURE = ''model_failure''"
| "EvidenceFailureCategory_value EvidenceFailureCategory.TOOL_FAILURE = ''tool_failure''"
| "EvidenceFailureCategory_value EvidenceFailureCategory.UNCERTAIN = ''uncertain''"

definition EvidenceFailureCategory_members :: "EvidenceFailureCategory list" where
  "EvidenceFailureCategory_members =
     [EvidenceFailureCategory.NO_EVIDENCE_FOUND,
      EvidenceFailureCategory.EVIDENCE_COLLECTION_FAILED,
      EvidenceFailureCategory.EVIDENCE_UNAUTHORIZED,
      EvidenceFailureCategory.INVESTIGATION_TIMEOUT,
      EvidenceFailureCategory.MODEL_FAILURE,
      EvidenceFailureCategory.TOOL_FAILURE,
      EvidenceFailureCategory.UNCERTAIN]"

interpretation evidence_failure_category: str_enum EvidenceFailureCategory_members EvidenceFailureCategory_value
proof unfold_locales
  show "x \<in> set EvidenceFailureCategory_members" for x
    by (cases x) (simp_all add: EvidenceFailureCategory_members_def)
  show "distinct (map EvidenceFailureCategory_value EvidenceFailureCategory_members)"
    by (simp add: EvidenceFailureCategory_members_def)
qed

datatype (plugins only: code size) OperationClass =
    C1_PURE_READ
  | C2_IDEMPOTENT_WRITE
  | C3_NON_IDEMPOTENT_WRITE
  | C4_UNKNOWN_OUTCOME
  | C5_SEMANTIC_FAILURE
  | C6_DETERMINISTIC_REJECTION

fun OperationClass_value :: "OperationClass \<Rightarrow> string" where
  "OperationClass_value OperationClass.C1_PURE_READ = ''c1_pure_read''"
| "OperationClass_value OperationClass.C2_IDEMPOTENT_WRITE = ''c2_idempotent_write''"
| "OperationClass_value OperationClass.C3_NON_IDEMPOTENT_WRITE = ''c3_non_idempotent_write''"
| "OperationClass_value OperationClass.C4_UNKNOWN_OUTCOME = ''c4_unknown_outcome''"
| "OperationClass_value OperationClass.C5_SEMANTIC_FAILURE = ''c5_semantic_failure''"
| "OperationClass_value OperationClass.C6_DETERMINISTIC_REJECTION = ''c6_deterministic_rejection''"

definition OperationClass_members :: "OperationClass list" where
  "OperationClass_members =
     [OperationClass.C1_PURE_READ,
      OperationClass.C2_IDEMPOTENT_WRITE,
      OperationClass.C3_NON_IDEMPOTENT_WRITE,
      OperationClass.C4_UNKNOWN_OUTCOME,
      OperationClass.C5_SEMANTIC_FAILURE,
      OperationClass.C6_DETERMINISTIC_REJECTION]"

interpretation operation_class: str_enum OperationClass_members OperationClass_value
proof unfold_locales
  show "x \<in> set OperationClass_members" for x
    by (cases x) (simp_all add: OperationClass_members_def)
  show "distinct (map OperationClass_value OperationClass_members)"
    by (simp add: OperationClass_members_def)
qed

datatype (plugins only: code size) BrokerStage =
    REQUEST_VALIDATION
  | TENANT_CONTEXT
  | CAPABILITY_RESOLUTION
  | RISK_BOUNDARY
  | ARGUMENT_VALIDATION
  | IDEMPOTENCY
  | ADAPTER_INVOCATION
  | RESULT_VALIDATION

fun BrokerStage_value :: "BrokerStage \<Rightarrow> string" where
  "BrokerStage_value BrokerStage.REQUEST_VALIDATION = ''request_validation''"
| "BrokerStage_value BrokerStage.TENANT_CONTEXT = ''tenant_context''"
| "BrokerStage_value BrokerStage.CAPABILITY_RESOLUTION = ''capability_resolution''"
| "BrokerStage_value BrokerStage.RISK_BOUNDARY = ''risk_boundary''"
| "BrokerStage_value BrokerStage.ARGUMENT_VALIDATION = ''argument_validation''"
| "BrokerStage_value BrokerStage.IDEMPOTENCY = ''idempotency''"
| "BrokerStage_value BrokerStage.ADAPTER_INVOCATION = ''adapter_invocation''"
| "BrokerStage_value BrokerStage.RESULT_VALIDATION = ''result_validation''"

definition BrokerStage_members :: "BrokerStage list" where
  "BrokerStage_members =
     [BrokerStage.REQUEST_VALIDATION,
      BrokerStage.TENANT_CONTEXT,
      BrokerStage.CAPABILITY_RESOLUTION,
      BrokerStage.RISK_BOUNDARY,
      BrokerStage.ARGUMENT_VALIDATION,
      BrokerStage.IDEMPOTENCY,
      BrokerStage.ADAPTER_INVOCATION,
      BrokerStage.RESULT_VALIDATION]"

interpretation broker_stage: str_enum BrokerStage_members BrokerStage_value
proof unfold_locales
  show "x \<in> set BrokerStage_members" for x
    by (cases x) (simp_all add: BrokerStage_members_def)
  show "distinct (map BrokerStage_value BrokerStage_members)"
    by (simp add: BrokerStage_members_def)
qed

datatype (plugins only: code size) NodeOutcome =
    COMPLETED
  | DEGRADED
  | FAILED
  | TERMINAL

fun NodeOutcome_value :: "NodeOutcome \<Rightarrow> string" where
  "NodeOutcome_value NodeOutcome.COMPLETED = ''completed''"
| "NodeOutcome_value NodeOutcome.DEGRADED = ''degraded''"
| "NodeOutcome_value NodeOutcome.FAILED = ''failed''"
| "NodeOutcome_value NodeOutcome.TERMINAL = ''terminal''"

definition NodeOutcome_members :: "NodeOutcome list" where
  "NodeOutcome_members =
     [NodeOutcome.COMPLETED,
      NodeOutcome.DEGRADED,
      NodeOutcome.FAILED,
      NodeOutcome.TERMINAL]"

interpretation node_outcome: str_enum NodeOutcome_members NodeOutcome_value
proof unfold_locales
  show "x \<in> set NodeOutcome_members" for x
    by (cases x) (simp_all add: NodeOutcome_members_def)
  show "distinct (map NodeOutcome_value NodeOutcome_members)"
    by (simp add: NodeOutcome_members_def)
qed

section \<open>Members with properties\<close>

definition AUTHORITY_BEARING :: "ProvenanceLabel set" where
  "AUTHORITY_BEARING = {ProvenanceLabel.SYSTEM, ProvenanceLabel.HUMAN}"

definition confers_authority :: "ProvenanceLabel \<Rightarrow> bool" where
  "confers_authority p \<longleftrightarrow> p \<in> AUTHORITY_BEARING"

definition is_untrusted :: "ProvenanceLabel \<Rightarrow> bool" where
  "is_untrusted p \<longleftrightarrow> p \<in> {ProvenanceLabel.RETRIEVED, ProvenanceLabel.MODEL_CLAIM}"

lemma authority_not_untrusted: "confers_authority p \<Longrightarrow> \<not> is_untrusted p"
  by (auto simp: confers_authority_def AUTHORITY_BEARING_def is_untrusted_def)

definition is_read_only :: "RiskTier \<Rightarrow> bool" where
  "is_read_only t \<longleftrightarrow> t = RiskTier.RO"

definition is_agent_invocable :: "RiskTier \<Rightarrow> bool" where
  "is_agent_invocable t \<longleftrightarrow> t \<noteq> RiskTier.R3"

text \<open>\<open>RiskTier.rank\<close>: a dictionary without \<open>R3\<close>, so \<open>R3\<close> raises \<open>KeyError\<close> (\<open>None\<close>).\<close>

fun risk_rank :: "RiskTier \<Rightarrow> nat option" where
  "risk_rank RiskTier.RO = Some 0"
| "risk_rank RiskTier.R1 = Some 1"
| "risk_rank RiskTier.R2 = Some 2"
| "risk_rank RiskTier.R3 = None"

lemma risk_rank_Some_iff: "(\<exists>n. risk_rank t = Some n) \<longleftrightarrow> is_agent_invocable t"
  by (cases t) (auto simp: is_agent_invocable_def)

lemma risk_rank_inj: "risk_rank s = Some n \<Longrightarrow> risk_rank t = Some n \<Longrightarrow> s = t"
  by (cases s; cases t) auto

definition RETRYABLE_CLASSES :: "OperationClass set" where
  "RETRYABLE_CLASSES = {OperationClass.C1_PURE_READ, OperationClass.C2_IDEMPOTENT_WRITE}"

definition is_retryable :: "OperationClass \<Rightarrow> bool" where
  "is_retryable c \<longleftrightarrow> c \<in> RETRYABLE_CLASSES"

definition EVALUATION_NODES :: "NodeId set" where
  "EVALUATION_NODES = {NodeId.E1_EVALUATION_JUDGE}"

definition MODEL_BACKED_NODES :: "NodeId set" where
  "MODEL_BACKED_NODES =
     {NodeId.G1_ALERT_CORRELATOR, NodeId.G3_INVESTIGATION_PLANNER, NodeId.G4_EVIDENCE_COLLECTOR,
      NodeId.G5_HYPOTHESIS_ENGINE, NodeId.G6_REMEDIATION_PLANNER, NodeId.G10_VERIFIER,
      NodeId.G11_POSTMORTEM_AUTHOR, NodeId.G12_MEMORY_CURATOR}"

definition uses_model :: "NodeId \<Rightarrow> bool" where
  "uses_model n \<longleftrightarrow> n \<in> MODEL_BACKED_NODES \<or> n \<in> EVALUATION_NODES"

definition in_product_topology :: "NodeId \<Rightarrow> bool" where
  "in_product_topology n \<longleftrightarrow> n \<notin> EVALUATION_NODES"

text \<open>The nodes that authorise, execute or take a human decision call no model.\<close>

lemma authority_nodes_without_model:
  "\<not> uses_model NodeId.G7_POLICY_GATE"
  "\<not> uses_model NodeId.G8_APPROVAL_SERVICE"
  "\<not> uses_model NodeId.G9_REMEDIATION_EXECUTOR"
  by (simp_all add: uses_model_def MODEL_BACKED_NODES_def EVALUATION_NODES_def)

end
