(* ===== verification/Errors.thy ===== *)
theory Errors
  imports Enums
begin

text \<open>
  The exceptions of \<open>src/asic/domain/errors.py\<close>, with the attributes handlers read
  (the messages are left out), the built-in exceptions the modelled code raises, and SQLAlchemy's
  \<open>IntegrityError\<close> and \<open>NoResultFound\<close>; \<open>OtherException\<close> is any other exception a
  third-party call lets through, by the name of its class.
  The class hierarchy is \<open>error_parent\<close>; an \<open>except C\<close> clause is \<open>isinstance e C\<close>.
\<close>

datatype py_error =
    IllegalStateTransition
  | TenantContextMissing
  | TenantContextMismatch
  | ProvenanceViolation
  | UnregisteredCapability
  | IdempotencyViolation
  | BudgetExhausted (refused_kind: BudgetKind)
  | ContractViolation
  | SchemaViolation
  | CapabilityNotGranted
  | RiskTierNotPermitted
  | BrokerBypassAttempt
  | LeaseNotHeld
  | ToolFailure
  | ToolTimeout
  | ToolAdapterError (adapter_transient: bool)
  | IntegrationError (int_failure_class: IntegrationFailureClass) (int_transient: bool)
      (int_effect_not_applied: bool) (int_retry_after: "rat option") (int_status: "int option")
  | IntegrationUnknownOutcome
  | ConnectorScopeDenied
  | CredentialUnavailable
  | ModelProviderError (model_transient: bool)
  | PolicyEvaluationFailed
  | ApprovalInvalid
  | SelfApprovalAttempt
  | PreconditionDrift
  | BlastRadiusExceeded
  | ValueError
  | KeyError
  | TypeError
  | AssertionError
  | RegistryDrift
  | IntegrityError
  | NoResultFound
  | CheckpointIntegrityError
  | OverflowError
  | OtherException string

text \<open>The classes an \<open>except\<close> clause of the modelled code names.\<close>

datatype error_class =
    C_DomainError | C_IllegalStateTransition | C_TenantContextMissing | C_TenantContextMismatch
  | C_ProvenanceViolation | C_UnregisteredCapability | C_IdempotencyViolation | C_BudgetExhausted
  | C_ContractViolation | C_SchemaViolation | C_CapabilityNotGranted | C_RiskTierNotPermitted
  | C_BrokerBypassAttempt | C_LeaseNotHeld | C_ToolFailure | C_ToolTimeout | C_ToolAdapterError
  | C_IntegrationError | C_IntegrationUnknownOutcome | C_ConnectorScopeDenied
  | C_CredentialUnavailable | C_ModelProviderError | C_PolicyEvaluationFailed | C_ApprovalInvalid
  | C_SelfApprovalAttempt | C_PreconditionDrift | C_BlastRadiusExceeded
  | C_ValueError | C_KeyError | C_TypeError | C_AssertionError | C_RegistryDrift
  | C_IntegrityError | C_NoResultFound | C_CheckpointIntegrityError | C_OverflowError
  | C_OtherException | C_Exception

fun class_of :: "py_error \<Rightarrow> error_class" where
  "class_of IllegalStateTransition = C_IllegalStateTransition"
| "class_of TenantContextMissing = C_TenantContextMissing"
| "class_of TenantContextMismatch = C_TenantContextMismatch"
| "class_of ProvenanceViolation = C_ProvenanceViolation"
| "class_of UnregisteredCapability = C_UnregisteredCapability"
| "class_of IdempotencyViolation = C_IdempotencyViolation"
| "class_of (BudgetExhausted _) = C_BudgetExhausted"
| "class_of ContractViolation = C_ContractViolation"
| "class_of SchemaViolation = C_SchemaViolation"
| "class_of CapabilityNotGranted = C_CapabilityNotGranted"
| "class_of RiskTierNotPermitted = C_RiskTierNotPermitted"
| "class_of BrokerBypassAttempt = C_BrokerBypassAttempt"
| "class_of LeaseNotHeld = C_LeaseNotHeld"
| "class_of ToolFailure = C_ToolFailure"
| "class_of ToolTimeout = C_ToolTimeout"
| "class_of (ToolAdapterError _) = C_ToolAdapterError"
| "class_of (IntegrationError _ _ _ _ _) = C_IntegrationError"
| "class_of IntegrationUnknownOutcome = C_IntegrationUnknownOutcome"
| "class_of ConnectorScopeDenied = C_ConnectorScopeDenied"
| "class_of CredentialUnavailable = C_CredentialUnavailable"
| "class_of (ModelProviderError _) = C_ModelProviderError"
| "class_of PolicyEvaluationFailed = C_PolicyEvaluationFailed"
| "class_of ApprovalInvalid = C_ApprovalInvalid"
| "class_of SelfApprovalAttempt = C_SelfApprovalAttempt"
| "class_of PreconditionDrift = C_PreconditionDrift"
| "class_of BlastRadiusExceeded = C_BlastRadiusExceeded"
| "class_of ValueError = C_ValueError"
| "class_of KeyError = C_KeyError"
| "class_of TypeError = C_TypeError"
| "class_of AssertionError = C_AssertionError"
| "class_of RegistryDrift = C_RegistryDrift"
| "class_of IntegrityError = C_IntegrityError"
| "class_of NoResultFound = C_NoResultFound"
| "class_of CheckpointIntegrityError = C_CheckpointIntegrityError"
| "class_of OverflowError = C_OverflowError"
| "class_of (OtherException _) = C_OtherException"

text \<open>The base class of each class, \<open>None\<close> for the root.\<close>

fun error_parent :: "error_class \<Rightarrow> error_class option" where
  "error_parent C_Exception = None"
| "error_parent C_ToolTimeout = Some C_ToolFailure"
| "error_parent C_ToolAdapterError = Some C_ToolFailure"
| "error_parent C_IntegrationError = Some C_ToolAdapterError"
| "error_parent C_IntegrationUnknownOutcome = Some C_ToolTimeout"
| "error_parent C_ConnectorScopeDenied = Some C_CapabilityNotGranted"
| "error_parent C_DomainError = Some C_Exception"
| "error_parent C_ValueError = Some C_Exception"
| "error_parent C_KeyError = Some C_Exception"
| "error_parent C_TypeError = Some C_Exception"
| "error_parent C_AssertionError = Some C_Exception"
| "error_parent C_RegistryDrift = Some C_Exception"
| "error_parent C_IntegrityError = Some C_Exception"
| "error_parent C_NoResultFound = Some C_Exception"
| "error_parent C_CheckpointIntegrityError = Some C_Exception"
| "error_parent C_OverflowError = Some C_Exception"
| "error_parent C_OtherException = Some C_Exception"
| "error_parent c = Some C_DomainError"

text \<open>The method resolution order; the hierarchy is at most four classes above \<open>Exception\<close>.\<close>

fun error_ancestors :: "nat \<Rightarrow> error_class \<Rightarrow> error_class list" where
  "error_ancestors 0 c = [c]"
| "error_ancestors (Suc n) c =
     (case error_parent c of None \<Rightarrow> [c] | Some d \<Rightarrow> c # error_ancestors n d)"

definition isinstance :: "py_error \<Rightarrow> error_class \<Rightarrow> bool" where
  "isinstance e c \<longleftrightarrow> c \<in> set (error_ancestors 5 (class_of e))"

lemma ancestors_reach_root: "C_Exception \<in> set (error_ancestors 5 c)"
  by (cases c) (simp_all add: eval_nat_numeral)

text \<open>What the retry decisions of the broker read: the class and the \<open>transient\<close> attribute.\<close>

definition error_transient :: "py_error \<Rightarrow> bool" where
  "error_transient e =
     (case e of ToolAdapterError t \<Rightarrow> t
      | IntegrationError _ t _ _ _ \<Rightarrow> t
      | ModelProviderError t \<Rightarrow> t
      | _ \<Rightarrow> False)"

lemma unknown_outcome_is_timeout:
  "isinstance IntegrationUnknownOutcome C_ToolTimeout"
  "\<not> isinstance IntegrationUnknownOutcome C_ToolAdapterError"
  by (simp_all add: isinstance_def eval_nat_numeral)

lemma scope_denied_is_not_granted: "isinstance ConnectorScopeDenied C_CapabilityNotGranted"
  by (simp add: isinstance_def eval_nat_numeral)

end
