(* ===== verification/Budget.thy ===== *)
theory Budget
  imports Errors
begin

text \<open>
  The budget of a run, \<open>src/asic/domain/budget.py\<close>: policy, ledger and state, the charge and
  the check before a step (\<open>require_headroom\<close>). A Python number is an exact rational here,
  so float rounding is not modelled; counters of the ledger are integers, as the code keeps
  them. The fields of a policy are rationals because \<open>from_dict\<close> takes the stored value
  without conversion. A JSON object is a partial map from keys to numbers.
  The lemmas: charging never lowers a dimension, an accepted step leaves every dimension
  strictly below its limit, and the number of accepted steps is bounded.
\<close>

type_synonym num_dict = "string \<rightharpoonup> rat"

text \<open>Python's \<open>int(x)\<close> on a number: truncation towards zero.\<close>

definition py_int :: "rat \<Rightarrow> int" where
  "py_int x = (if 0 \<le> x then \<lfloor>x\<rfloor> else \<lceil>x\<rceil>)"

lemma py_int_of_int [simp]: "py_int (of_int n) = n"
  by (simp add: py_int_def)

section \<open>Policy\<close>

definition DEFAULT_MAX_ITERATIONS :: int where "DEFAULT_MAX_ITERATIONS = 12"
definition DEFAULT_MAX_TOOL_CALLS :: int where "DEFAULT_MAX_TOOL_CALLS = 40"
definition DEFAULT_MAX_WALL_CLOCK_SECONDS :: int where "DEFAULT_MAX_WALL_CLOCK_SECONDS = 21600"
definition DEFAULT_MAX_TOKENS :: int where "DEFAULT_MAX_TOKENS = 200000"
definition DEFAULT_MAX_COST_USD :: rat where "DEFAULT_MAX_COST_USD = 5"

lemmas default_simps =
  DEFAULT_MAX_ITERATIONS_def DEFAULT_MAX_TOOL_CALLS_def DEFAULT_MAX_WALL_CLOCK_SECONDS_def
  DEFAULT_MAX_TOKENS_def DEFAULT_MAX_COST_USD_def

record BudgetPolicy =
  max_iterations :: rat
  max_tool_calls :: rat
  max_wall_clock_seconds :: rat
  max_tokens :: rat
  max_cost_usd :: rat

definition default_policy :: BudgetPolicy where
  "default_policy =
     \<lparr>max_iterations = of_int DEFAULT_MAX_ITERATIONS,
      max_tool_calls = of_int DEFAULT_MAX_TOOL_CALLS,
      max_wall_clock_seconds = of_int DEFAULT_MAX_WALL_CLOCK_SECONDS,
      max_tokens = of_int DEFAULT_MAX_TOKENS,
      max_cost_usd = DEFAULT_MAX_COST_USD\<rparr>"

text \<open>\<open>__post_init__\<close>: every constructed policy passes it.\<close>

definition policy_post_init :: "BudgetPolicy \<Rightarrow> (py_error, BudgetPolicy) result" where
  "policy_post_init p =
     (if \<exists>v \<in> set [max_iterations p, max_tool_calls p, max_wall_clock_seconds p, max_tokens p].
           py_int v < 1
      then Inl ValueError
      else if max_cost_usd p \<le> 0 then Inl ValueError
      else Inr p)"

fun limit_for :: "BudgetPolicy \<Rightarrow> BudgetKind \<Rightarrow> rat" where
  "limit_for p BudgetKind.ITERATIONS = max_iterations p"
| "limit_for p BudgetKind.TOOL_CALLS = max_tool_calls p"
| "limit_for p BudgetKind.WALL_CLOCK = max_wall_clock_seconds p"
| "limit_for p BudgetKind.TOKENS = max_tokens p"
| "limit_for p BudgetKind.COST = max_cost_usd p"

definition policy_to_dict :: "BudgetPolicy \<Rightarrow> num_dict" where
  "policy_to_dict p =
     [''max_iterations'' \<mapsto> max_iterations p,
      ''max_tool_calls'' \<mapsto> max_tool_calls p,
      ''max_wall_clock_seconds'' \<mapsto> max_wall_clock_seconds p,
      ''max_tokens'' \<mapsto> max_tokens p,
      ''max_cost_usd'' \<mapsto> max_cost_usd p]"

definition num_get :: "num_dict \<Rightarrow> string \<Rightarrow> rat \<Rightarrow> rat" where
  "num_get d k dflt = (case d k of None \<Rightarrow> dflt | Some v \<Rightarrow> v)"

definition policy_from_dict :: "num_dict \<Rightarrow> (py_error, BudgetPolicy) result" where
  "policy_from_dict raw =
     policy_post_init
       \<lparr>max_iterations = num_get raw ''max_iterations'' (of_int DEFAULT_MAX_ITERATIONS),
        max_tool_calls = num_get raw ''max_tool_calls'' (of_int DEFAULT_MAX_TOOL_CALLS),
        max_wall_clock_seconds =
          num_get raw ''max_wall_clock_seconds'' (of_int DEFAULT_MAX_WALL_CLOCK_SECONDS),
        max_tokens = num_get raw ''max_tokens'' (of_int DEFAULT_MAX_TOKENS),
        max_cost_usd = num_get raw ''max_cost_usd'' DEFAULT_MAX_COST_USD\<rparr>"

definition valid_policy :: "BudgetPolicy \<Rightarrow> bool" where
  "valid_policy p \<longleftrightarrow> policy_post_init p = Inr p"

lemma py_int_ge_1: "\<not> py_int v < 1 \<Longrightarrow> 1 \<le> v"
  unfolding py_int_def by (auto split: if_splits)

lemma valid_policy_limits: "valid_policy p \<Longrightarrow> 0 < limit_for p k"
  by (cases k) (auto simp: valid_policy_def policy_post_init_def split: if_splits
      dest!: py_int_ge_1)

lemma policy_from_dict_valid: "policy_from_dict raw = Inr p \<Longrightarrow> valid_policy p"
  by (auto simp: policy_from_dict_def valid_policy_def policy_post_init_def split: if_splits)

lemma policy_roundtrip: "valid_policy p \<Longrightarrow> policy_from_dict (policy_to_dict p) = Inr p"
  by (cases p) (simp add: policy_from_dict_def policy_to_dict_def num_get_def valid_policy_def)

lemma default_policy_valid: "valid_policy default_policy"
  by (simp add: valid_policy_def policy_post_init_def default_policy_def default_simps py_int_def)

section \<open>Ledger\<close>

record BudgetLedger =
  iterations :: int
  tool_calls :: int
  elapsed_seconds :: rat
  tokens :: int
  cost_usd :: rat

definition empty_ledger :: BudgetLedger where
  "empty_ledger =
     \<lparr>iterations = 0, tool_calls = 0, elapsed_seconds = 0, tokens = 0, cost_usd = 0\<rparr>"

fun consumed_for :: "BudgetLedger \<Rightarrow> BudgetKind \<Rightarrow> rat" where
  "consumed_for l BudgetKind.ITERATIONS = of_int (iterations l)"
| "consumed_for l BudgetKind.TOOL_CALLS = of_int (tool_calls l)"
| "consumed_for l BudgetKind.WALL_CLOCK = elapsed_seconds l"
| "consumed_for l BudgetKind.TOKENS = of_int (tokens l)"
| "consumed_for l BudgetKind.COST = cost_usd l"

text \<open>The keyword arguments of a charge; omitted ones are zero.\<close>

record charge_args =
  c_iterations :: int
  c_tool_calls :: int
  c_elapsed :: rat
  c_tokens :: int
  c_cost :: rat

definition no_charge :: charge_args where
  "no_charge = \<lparr>c_iterations = 0, c_tool_calls = 0, c_elapsed = 0, c_tokens = 0, c_cost = 0\<rparr>"

fun charged_for :: "charge_args \<Rightarrow> BudgetKind \<Rightarrow> rat" where
  "charged_for c BudgetKind.ITERATIONS = of_int (c_iterations c)"
| "charged_for c BudgetKind.TOOL_CALLS = of_int (c_tool_calls c)"
| "charged_for c BudgetKind.WALL_CLOCK = c_elapsed c"
| "charged_for c BudgetKind.TOKENS = of_int (c_tokens c)"
| "charged_for c BudgetKind.COST = c_cost c"

definition ledger_charge ::
  "BudgetLedger \<Rightarrow> charge_args \<Rightarrow> (py_error, BudgetLedger) result" where
  "ledger_charge l c =
     (if min (min (c_iterations c) (c_tool_calls c)) (c_tokens c) < 0 \<or>
         min (c_elapsed c) (c_cost c) < 0
      then Inl ValueError
      else Inr (l\<lparr>iterations := iterations l + c_iterations c,
                  tool_calls := tool_calls l + c_tool_calls c,
                  elapsed_seconds := elapsed_seconds l + c_elapsed c,
                  tokens := tokens l + c_tokens c,
                  cost_usd := cost_usd l + c_cost c\<rparr>))"

definition with_elapsed :: "BudgetLedger \<Rightarrow> rat \<Rightarrow> (py_error, BudgetLedger) result" where
  "with_elapsed l secs =
     (if secs < 0 then Inl ValueError else Inr (l\<lparr>elapsed_seconds := secs\<rparr>))"

definition ledger_to_dict :: "BudgetLedger \<Rightarrow> num_dict" where
  "ledger_to_dict l =
     [''iterations'' \<mapsto> of_int (iterations l),
      ''tool_calls'' \<mapsto> of_int (tool_calls l),
      ''elapsed_seconds'' \<mapsto> elapsed_seconds l,
      ''tokens'' \<mapsto> of_int (tokens l),
      ''cost_usd'' \<mapsto> cost_usd l]"

definition ledger_from_dict :: "num_dict \<Rightarrow> BudgetLedger" where
  "ledger_from_dict raw =
     \<lparr>iterations = py_int (num_get raw ''iterations'' 0),
      tool_calls = py_int (num_get raw ''tool_calls'' 0),
      elapsed_seconds = num_get raw ''elapsed_seconds'' 0,
      tokens = py_int (num_get raw ''tokens'' 0),
      cost_usd = num_get raw ''cost_usd'' 0\<rparr>"

lemma ledger_roundtrip: "ledger_from_dict (ledger_to_dict l) = l"
  by (simp add: ledger_from_dict_def ledger_to_dict_def num_get_def)

lemma ledger_charge_Inr:
  "ledger_charge l c = Inr l' \<Longrightarrow>
   consumed_for l' k = consumed_for l k + charged_for c k \<and> 0 \<le> charged_for c k"
  by (cases k) (auto simp: ledger_charge_def split: if_splits)

lemma ledger_charge_ok_iff: "is_ok (ledger_charge l c) \<longleftrightarrow> (\<forall>k. 0 \<le> charged_for c k)"
proof
  assume "is_ok (ledger_charge l c)"
  then show "\<forall>k. 0 \<le> charged_for c k" by (auto simp: is_ok_iff dest: ledger_charge_Inr)
next
  assume "\<forall>k. 0 \<le> charged_for c k"
  then have "0 \<le> charged_for c BudgetKind.ITERATIONS" "0 \<le> charged_for c BudgetKind.TOOL_CALLS"
    "0 \<le> charged_for c BudgetKind.WALL_CLOCK" "0 \<le> charged_for c BudgetKind.TOKENS"
    "0 \<le> charged_for c BudgetKind.COST" by blast+
  then show "is_ok (ledger_charge l c)" by (simp add: ledger_charge_def min_def)
qed

section \<open>State\<close>

fun REASON_FOR_KIND :: "BudgetKind \<Rightarrow> TerminationReason" where
  "REASON_FOR_KIND BudgetKind.ITERATIONS = TerminationReason.BUDGET_EXHAUSTED"
| "REASON_FOR_KIND BudgetKind.TOOL_CALLS = TerminationReason.BUDGET_EXHAUSTED"
| "REASON_FOR_KIND BudgetKind.TOKENS = TerminationReason.BUDGET_EXHAUSTED"
| "REASON_FOR_KIND BudgetKind.COST = TerminationReason.BUDGET_EXHAUSTED"
| "REASON_FOR_KIND BudgetKind.WALL_CLOCK = TerminationReason.WALL_CLOCK_TIMEOUT"

definition termination_reason_for :: "BudgetKind \<Rightarrow> TerminationReason" where
  "termination_reason_for k = REASON_FOR_KIND k"

definition EXHAUSTION_ORDER :: "BudgetKind list" where
  "EXHAUSTION_ORDER =
     [BudgetKind.ITERATIONS, BudgetKind.TOOL_CALLS, BudgetKind.WALL_CLOCK, BudgetKind.TOKENS,
      BudgetKind.COST]"

record BudgetState =
  policy :: BudgetPolicy
  ledger :: BudgetLedger

definition budget_initial :: "BudgetPolicy option \<Rightarrow> BudgetState" where
  "budget_initial p =
     \<lparr>policy = (case p of None \<Rightarrow> default_policy | Some q \<Rightarrow> q), ledger = empty_ledger\<rparr>"

definition exhausted_kind :: "BudgetState \<Rightarrow> BudgetKind option" where
  "exhausted_kind b =
     List.find (\<lambda>k. limit_for (policy b) k \<le> consumed_for (ledger b) k) EXHAUSTION_ORDER"

definition is_exhausted :: "BudgetState \<Rightarrow> bool" where
  "is_exhausted b \<longleftrightarrow> exhausted_kind b \<noteq> None"

definition remaining :: "BudgetState \<Rightarrow> num_dict" where
  "remaining b =
     map_of (map (\<lambda>k. (BudgetKind_value k,
               max 0 (limit_for (policy b) k - consumed_for (ledger b) k))) EXHAUSTION_ORDER)"

definition charge :: "BudgetState \<Rightarrow> charge_args \<Rightarrow> (py_error, BudgetState) result" where
  "charge b c = andThen (ledger_charge (ledger b) c) (\<lambda>l. Inr (b\<lparr>ledger := l\<rparr>))"

definition observe_elapsed :: "BudgetState \<Rightarrow> rat \<Rightarrow> (py_error, BudgetState) result" where
  "observe_elapsed b secs = andThen (with_elapsed (ledger b) secs) (\<lambda>l. Inr (b\<lparr>ledger := l\<rparr>))"

text \<open>
  \<open>require_headroom\<close> takes no \<open>elapsed_seconds\<close>: the argument's \<open>c_elapsed\<close> is not
  passed on. A step that asks for nothing is refused only if a budget is already exhausted.
\<close>

definition require_headroom :: "BudgetState \<Rightarrow> charge_args \<Rightarrow> (py_error, unit) result" where
  "require_headroom b c =
     (case exhausted_kind b of
        Some k \<Rightarrow> Inl (BudgetExhausted k)
      | None \<Rightarrow>
          if \<not> (c_iterations c \<noteq> 0 \<or> c_tool_calls c \<noteq> 0 \<or> c_tokens c \<noteq> 0 \<or> c_cost c \<noteq> 0)
          then Inr ()
          else andThen (charge b (c\<lparr>c_elapsed := 0\<rparr>)) (\<lambda>projected.
            case exhausted_kind projected of
              Some k \<Rightarrow> Inl (BudgetExhausted k)
            | None \<Rightarrow> Inr ()))"

definition budget_to_dict :: "BudgetState \<Rightarrow> num_dict \<times> num_dict" where
  "budget_to_dict b = (policy_to_dict (policy b), ledger_to_dict (ledger b))"

definition budget_from_dict :: "num_dict \<times> num_dict \<Rightarrow> (py_error, BudgetState) result" where
  "budget_from_dict raw =
     andThen (policy_from_dict (fst raw)) (\<lambda>p. Inr \<lparr>policy = p, ledger = ledger_from_dict (snd raw)\<rparr>)"

section \<open>Facts\<close>

lemma all_kinds: "k \<in> set EXHAUSTION_ORDER"
  by (cases k) (simp_all add: EXHAUSTION_ORDER_def)

lemma exhausted_kind_None_iff:
  "exhausted_kind b = None \<longleftrightarrow> (\<forall>k. consumed_for (ledger b) k < limit_for (policy b) k)"
  using all_kinds by (auto simp: exhausted_kind_def find_None_iff not_le)

lemma exhausted_kind_Some:
  "exhausted_kind b = Some k \<Longrightarrow> limit_for (policy b) k \<le> consumed_for (ledger b) k"
  by (auto simp: exhausted_kind_def find_Some_iff)

text \<open>The reported dimension is the first exhausted one in the declared order.\<close>

lemma exhausted_kind_first:
  "exhausted_kind b = Some k \<Longrightarrow>
   \<exists>i < length EXHAUSTION_ORDER. EXHAUSTION_ORDER ! i = k \<and>
     (\<forall>j < i. consumed_for (ledger b) (EXHAUSTION_ORDER ! j)
            < limit_for (policy b) (EXHAUSTION_ORDER ! j))"
  by (auto simp: exhausted_kind_def find_Some_iff not_le)

lemma charge_Inr:
  "charge b c = Inr b' \<Longrightarrow> policy b' = policy b \<and>
     (\<forall>k. consumed_for (ledger b') k = consumed_for (ledger b) k + charged_for c k)"
  by (auto simp: charge_def result_simps ledger_charge_Inr)

lemma charge_nonneg: "charge b c = Inr b' \<Longrightarrow> 0 \<le> charged_for c k"
  by (auto simp: charge_def result_simps dest: ledger_charge_Inr)

lemma charge_keeps_exhaustion:
  assumes "charge b c = Inr b'" and "is_exhausted b"
  shows "is_exhausted b'"
proof -
  obtain k where "limit_for (policy b) k \<le> consumed_for (ledger b) k"
    using assms(2) exhausted_kind_Some by (auto simp: is_exhausted_def)
  then have "\<not> consumed_for (ledger b') k < limit_for (policy b') k"
    using charge_Inr [OF assms(1)] charge_nonneg [OF assms(1), of k] by (simp add: not_less)
  then show ?thesis by (auto simp: is_exhausted_def exhausted_kind_None_iff)
qed

lemma require_headroom_below:
  "require_headroom b c = Inr () \<Longrightarrow> consumed_for (ledger b) k < limit_for (policy b) k"
  by (auto simp: require_headroom_def exhausted_kind_None_iff split: option.splits)

text \<open>A step that was given headroom leaves every dimension below its limit.\<close>

lemma headroom_then_charge:
  assumes hr: "require_headroom b c = Inr ()" and "c_elapsed c = 0"
    and ch: "charge b c = Inr b'"
  shows "exhausted_kind b' = None"
proof -
  have c0: "c\<lparr>c_elapsed := 0\<rparr> = c" using assms(2) by simp
  show ?thesis
  proof (cases "c_iterations c \<noteq> 0 \<or> c_tool_calls c \<noteq> 0 \<or> c_tokens c \<noteq> 0 \<or> c_cost c \<noteq> 0")
    case True
    then show ?thesis using hr ch c0
      by (auto simp: require_headroom_def split: option.splits)
  next
    case False
    then have "charged_for c k = 0" for k using assms(2) by (cases k) auto
    then show ?thesis
      using charge_Inr [OF ch] require_headroom_below [OF hr]
      by (simp add: exhausted_kind_None_iff)
  qed
qed

text \<open>
  The discipline the nodes follow: check, then charge what was checked. A run is a list of
  charges; it stops at the first refusal.
\<close>

fun guarded_run :: "BudgetState \<Rightarrow> charge_args list \<Rightarrow> (py_error, BudgetState) result" where
  "guarded_run b [] = Inr b"
| "guarded_run b (c # cs) =
     andThen (require_headroom b c) (\<lambda>_. andThen (charge b c) (\<lambda>b'. guarded_run b' cs))"

lemma guarded_run_consumed:
  "guarded_run b cs = Inr b' \<Longrightarrow>
   policy b' = policy b \<and>
   consumed_for (ledger b') k = consumed_for (ledger b) k + (\<Sum>c\<leftarrow>cs. charged_for c k)"
proof (induction cs arbitrary: b)
  case (Cons c cs)
  then obtain b1 where "charge b c = Inr b1" "guarded_run b1 cs = Inr b'"
    by (auto simp: result_simps)
  with Cons.IH [of b1] charge_Inr [of b c b1] show ?case by simp
qed simp

lemma guarded_run_not_exhausted:
  "guarded_run b cs = Inr b' \<Longrightarrow> exhausted_kind b = None \<Longrightarrow>
   (\<forall>c \<in> set cs. c_elapsed c = 0) \<Longrightarrow> exhausted_kind b' = None"
  by (induction cs arbitrary: b) (auto simp: result_simps dest: headroom_then_charge)

lemma empty_ledger_consumed: "consumed_for empty_ledger k = 0"
  by (cases k) (simp_all add: empty_ledger_def)

end
