(* ===== verification/Graph_State.thy ===== *)
theory Graph_State
  imports Budget
begin

text \<open>
  The references an orchestration run carries, \<open>src/asic/contracts/state.py\<close>: each pydantic
  model is a record, its \<open>Field\<close> constraints are the predicate \<open>valid_*\<close>. Identifiers,
  timestamps and free text are strings; a float is an exact rational.
\<close>

definition HEADLINE_MAX_CHARS :: nat where "HEADLINE_MAX_CHARS = 240"

definition unit_interval :: "rat \<Rightarrow> bool" where
  "unit_interval x \<longleftrightarrow> 0 \<le> x \<and> x \<le> 1"

record EvidenceRef =
  evidence_id :: string
  ev_tool_execution_id :: string
  ev_domain :: EvidenceDomain
  ev_provenance :: ProvenanceLabel
  headline :: string
  content_digest :: string
  quality_score :: rat
  injection_flagged :: bool

definition valid_evidence :: "EvidenceRef \<Rightarrow> bool" where
  "valid_evidence e \<longleftrightarrow>
     length (headline e) \<le> HEADLINE_MAX_CHARS \<and> unit_interval (quality_score e)"

record StepRef =
  step_id :: string
  step_sequence :: int
  step_domain :: EvidenceDomain
  step_gap :: string
  step_status :: InvestigationStepStatus
  step_evidence_count :: int
  degradation_reason :: "string option"

definition valid_step :: "StepRef \<Rightarrow> bool" where
  "valid_step s \<longleftrightarrow> 1 \<le> step_sequence s \<and> 0 \<le> step_evidence_count s"

record HypothesisRef =
  hypothesis_id :: string
  hyp_rank :: int
  root_cause_class :: string
  confidence :: rat
  hyp_status :: HypothesisStatus
  supporting_evidence_count :: int
  contradicting_evidence_count :: int
  remaining_gaps :: "string list"

definition valid_hypothesis :: "HypothesisRef \<Rightarrow> bool" where
  "valid_hypothesis h \<longleftrightarrow>
     1 \<le> hyp_rank h \<and> unit_interval (confidence h) \<and>
     0 \<le> supporting_evidence_count h \<and> 0 \<le> contradicting_evidence_count h"

record CandidateTask =
  cand_domain :: EvidenceDomain
  cand_gap :: string
  cand_expected_gain :: rat

record PlannerDecisionRef =
  pd_action :: PlannerAction
  pd_gap :: string
  pd_rationale :: string
  pd_domain :: "EvidenceDomain option"
  pd_expected_gain :: rat
  pd_candidates :: "CandidateTask list"
  pd_overridden_reason :: "string option"

record NodeFailureRef =
  nf_node_id :: NodeId
  nf_node_version :: string
  nf_error_type :: string
  nf_message :: string
  recoverable :: bool
  nf_occurred_at :: string
  nf_stage :: "string option"
  nf_category :: "EvidenceFailureCategory option"

record PendingApproval =
  pa_action_id :: string
  pa_action_version_hash :: string
  pa_required_role :: string
  pa_requested_at :: string
  pa_expires_at :: string

record BudgetSnapshot =
  bs_consumed :: num_dict
  bs_remaining :: num_dict
  bs_exhausted_kind :: "string option"

record TraceContext =
  trace_id :: string
  root_span_id :: string
  tc_correlation_id :: string

record RunIdentity =
  ri_tenant_id :: string
  ri_incident_id :: string
  ri_workflow_run_id :: string
  ri_behaviour_version_id :: string
  ri_environment_id :: string
  ri_execution_trace_id :: string

record InvestigationObjective =
  statement :: string
  obj_service_names :: "string list"
  obj_environment_name :: string
  window_start :: string
  window_end :: string
  obj_severity :: string

end
