(* ===== verification/Regex.thy ===== *)
theory Regex
  imports Prelude
begin

text \<open>
  The part of Python's \<open>re\<close> the code uses, over ASCII text: character classes, sequence,
  alternation, bounded and unbounded repetition, word boundaries and the start of the text.
  \<open>rx_ends r s i\<close> are the positions where a match of \<open>r\<close> starting at \<open>i\<close> can end; whether
  a search or a full match succeeds does not depend on greediness, so the order in which
  they are tried is not modelled. The relation \<open>rx_span\<close> is the declarative meaning, and
  \<open>rx_ends\<close> computes it.
\<close>

datatype rx =
    Chars "char \<Rightarrow> bool"
  | Eps
  | Seq rx rx
  | Alt rx rx
  | Star rx
  | Rep "char \<Rightarrow> bool" nat "nat option"
  | WordB
  | AtStart

definition is_digit :: "char \<Rightarrow> bool" where
  "is_digit c = (let n = of_char c :: nat in 48 \<le> n \<and> n \<le> 57)"

definition is_lower :: "char \<Rightarrow> bool" where
  "is_lower c = (let n = of_char c :: nat in 97 \<le> n \<and> n \<le> 122)"

definition is_upper :: "char \<Rightarrow> bool" where
  "is_upper c = (let n = of_char c :: nat in 65 \<le> n \<and> n \<le> 90)"

text \<open>\<open>\w\<close> on ASCII.\<close>

definition is_word :: "char \<Rightarrow> bool" where
  "is_word c = (is_digit c \<or> is_lower c \<or> is_upper c \<or> c = CHR ''_'')"

definition word_at :: "string \<Rightarrow> nat \<Rightarrow> bool" where
  "word_at s i = (i < length s \<and> is_word (s ! i))"

definition word_before :: "string \<Rightarrow> nat \<Rightarrow> bool" where
  "word_before s i = (0 < i \<and> i \<le> length s \<and> is_word (s ! (i - 1)))"

fun star_ends :: "(nat \<Rightarrow> nat list) \<Rightarrow> nat \<Rightarrow> nat \<Rightarrow> nat list" where
  "star_ends f 0 i = [i]"
| "star_ends f (Suc n) i =
     i # concat (map (\<lambda>j. if i < j then star_ends f n j else []) (f i))"

primrec rx_ends :: "rx \<Rightarrow> string \<Rightarrow> nat \<Rightarrow> nat list" where
  "rx_ends (Chars p) s i = (if i < length s \<and> p (s ! i) then [Suc i] else [])"
| "rx_ends Eps s i = [i]"
| "rx_ends (Seq a b) s i = concat (map (rx_ends b s) (rx_ends a s i))"
| "rx_ends (Alt a b) s i = rx_ends a s i @ rx_ends b s i"
| "rx_ends (Star a) s i = star_ends (rx_ends a s) (length s - i) i"
| "rx_ends (Rep p m n) s i =
     (let k = length (takeWhile p (drop i s));
          top = (case n of None \<Rightarrow> k | Some b \<Rightarrow> min k b)
      in map ((+) i) [m..<Suc top])"
| "rx_ends WordB s i = (if word_at s i \<noteq> word_before s i then [i] else [])"
| "rx_ends AtStart s i = (if i = 0 then [i] else [])"

definition rx_search :: "rx \<Rightarrow> string \<Rightarrow> bool" where
  "rx_search r s = (\<exists>i \<in> set [0..<Suc (length s)]. rx_ends r s i \<noteq> [])"

definition rx_fullmatch :: "rx \<Rightarrow> string \<Rightarrow> bool" where
  "rx_fullmatch r s = (length s \<in> set (rx_ends r s 0))"

section \<open>Declarative meaning\<close>

inductive rx_span :: "string \<Rightarrow> rx \<Rightarrow> nat \<Rightarrow> nat \<Rightarrow> bool" for s where
  chars: "i < length s \<Longrightarrow> p (s ! i) \<Longrightarrow> rx_span s (Chars p) i (Suc i)"
| eps: "rx_span s Eps i i"
| seq: "rx_span s a i j \<Longrightarrow> rx_span s b j k \<Longrightarrow> rx_span s (Seq a b) i k"
| alt1: "rx_span s a i j \<Longrightarrow> rx_span s (Alt a b) i j"
| alt2: "rx_span s b i j \<Longrightarrow> rx_span s (Alt a b) i j"
| star0: "rx_span s (Star a) i i"
| star1: "rx_span s a i j \<Longrightarrow> i < j \<Longrightarrow> rx_span s (Star a) j k \<Longrightarrow> rx_span s (Star a) i k"
| rep: "m \<le> l \<Longrightarrow> (\<And>b. n = Some b \<Longrightarrow> l \<le> b) \<Longrightarrow> (\<And>d. d < l \<Longrightarrow> i + d < length s \<and> p (s ! (i + d))) \<Longrightarrow>
     rx_span s (Rep p m n) i (i + l)"
| wordb: "word_at s i \<noteq> word_before s i \<Longrightarrow> rx_span s WordB i i"
| at_start: "rx_span s AtStart 0 0"

inductive_simps span_simps:
  "rx_span s (Chars p) i j" "rx_span s Eps i j" "rx_span s (Seq a b) i j"
  "rx_span s (Alt a b) i j" "rx_span s (Rep p m n) i j" "rx_span s WordB i j"
  "rx_span s AtStart i j"

inductive_cases star_spanE: "rx_span s (Star a) i j"

lemma star_span_cases:
  "rx_span s (Star a) i j \<Longrightarrow>
   i = j \<or> (\<exists>k. rx_span s a i k \<and> i < k \<and> rx_span s (Star a) k j)"
  by (blast elim: star_spanE)

lemma takeWhile_length_ge:
  "l \<le> length (takeWhile p (drop i s)) \<longleftrightarrow> (\<forall>d < l. i + d < length s \<and> p (s ! (i + d)))"
proof
  assume l: "l \<le> length (takeWhile p (drop i s))"
  show "\<forall>d < l. i + d < length s \<and> p (s ! (i + d))"
  proof (intro allI impI)
    fix d assume "d < l"
    then have d: "d < length (takeWhile p (drop i s))" using l by simp
    then have "d < length (drop i s)" using length_takeWhile_le [of p "drop i s"] by linarith
    moreover have "p (drop i s ! d)"
      using d nth_mem set_takeWhileD takeWhile_nth by metis
    ultimately show "i + d < length s \<and> p (s ! (i + d))" by simp
  qed
next
  assume h: "\<forall>d < l. i + d < length s \<and> p (s ! (i + d))"
  show "l \<le> length (takeWhile p (drop i s))"
  proof (rule ccontr)
    let ?k = "length (takeWhile p (drop i s))"
    assume "\<not> ?thesis"
    then have k: "?k < l" by simp
    then have len: "?k < length (drop i s)" and pk: "p (drop i s ! ?k)" using h by auto
    from len have "\<not> p (drop i s ! ?k)" by (rule nth_length_takeWhile)
    with pk show False by simp
  qed
qed

lemma star_ends_sound:
  "j \<in> set (star_ends (rx_ends a s) n i) \<Longrightarrow>
   (\<And>i j. j \<in> set (rx_ends a s i) \<Longrightarrow> rx_span s a i j) \<Longrightarrow> rx_span s (Star a) i j"
  by (induction n arbitrary: i)
    (auto intro: rx_span.star0 rx_span.star1 split: if_splits)

lemma star_ends_complete:
  assumes IH: "\<And>i j. rx_span s a i j \<Longrightarrow> j \<in> set (rx_ends a s i)"
    and bound: "\<And>i j. rx_span s a i j \<Longrightarrow> i < j \<Longrightarrow> j \<le> length s"
  shows "rx_span s (Star a) i j \<Longrightarrow> length s - i \<le> n \<Longrightarrow> j \<in> set (star_ends (rx_ends a s) n i)"
proof (induction n arbitrary: i)
  case 0
  then show ?case using star_span_cases [of s a i j] bound by fastforce
next
  case (Suc n)
  show ?case
  proof (cases "i = j")
    case False
    then obtain k where k: "rx_span s a i k" "i < k" "rx_span s (Star a) k j"
      using star_span_cases [OF Suc.prems(1)] by blast
    then have "j \<in> set (star_ends (rx_ends a s) n k)"
      using Suc.prems(2) by (intro Suc.IH) auto
    moreover have "k \<in> set (rx_ends a s i)" using k IH by blast
    ultimately show ?thesis using k by auto
  qed simp
qed

lemma rx_span_bound: "rx_span s r i j \<Longrightarrow> i \<le> j \<and> (i < j \<longrightarrow> j \<le> length s)"
proof (induction rule: rx_span.induct)
  case (rep m l n i p)
  show ?case
  proof (cases l)
    case (Suc d)
    then show ?thesis using rep(3) [of d] by simp
  qed simp
qed auto

text \<open>The matcher computes exactly the spans.\<close>

theorem rx_ends_iff: "j \<in> set (rx_ends r s i) \<longleftrightarrow> rx_span s r i j"
proof (induction r arbitrary: i j)
  case (Star r)
  show ?case
    using star_ends_sound [of j r s] star_ends_complete [of s r i j] Star rx_span_bound
    by (auto simp del: star_ends.simps)
next
  case (Rep p m n)
  let ?k = "length (takeWhile p (drop i s))"
  have "rx_span s (Rep p m n) i j \<longleftrightarrow>
      (\<exists>l. j = i + l \<and> m \<le> l \<and> (\<forall>b. n = Some b \<longrightarrow> l \<le> b) \<and> l \<le> ?k)"
    unfolding span_simps takeWhile_length_ge by blast
  then show ?case by (cases n) (auto simp: Let_def image_iff)
qed (auto simp: span_simps)

lemma rx_search_iff: "rx_search r s \<longleftrightarrow> (\<exists>i j. i \<le> length s \<and> rx_span s r i j)"
proof -
  have "rx_search r s \<longleftrightarrow> (\<exists>i \<le> length s. rx_ends r s i \<noteq> [])"
    by (auto simp: rx_search_def less_Suc_eq_le simp del: upt_Suc)
  also have "\<dots> \<longleftrightarrow> (\<exists>i \<le> length s. \<exists>j. j \<in> set (rx_ends r s i))"
    by (metis empty_iff last_in_set list.set(1))
  finally show ?thesis by (auto simp: rx_ends_iff)
qed

lemma rx_fullmatch_iff: "rx_fullmatch r s \<longleftrightarrow> rx_span s r 0 (length s)"
  by (simp add: rx_fullmatch_def rx_ends_iff)

section \<open>Building patterns\<close>

text \<open>A literal; under \<open>re.IGNORECASE\<close> a literal of lower-case letters.\<close>

definition same_letter :: "char \<Rightarrow> char \<Rightarrow> bool" where
  "same_letter a b = (lower_char a = lower_char b)"

fun lit :: "string \<Rightarrow> rx" where
  "lit [] = Eps"
| "lit (c # cs) = Seq (Chars (\<lambda>x. x = c)) (lit cs)"

fun ilit :: "string \<Rightarrow> rx" where
  "ilit [] = Eps"
| "ilit (c # cs) = Seq (Chars (same_letter c)) (ilit cs)"

fun seqs :: "rx list \<Rightarrow> rx" where
  "seqs [] = Eps"
| "seqs [r] = r"
| "seqs (r # rs) = Seq r (seqs rs)"

text \<open>An alternation of nothing matches nothing.\<close>

fun alts :: "rx list \<Rightarrow> rx" where
  "alts [] = Chars (\<lambda>_. False)"
| "alts [r] = r"
| "alts (r # rs) = Alt r (alts rs)"

definition opt :: "rx \<Rightarrow> rx" where
  "opt r = Alt r Eps"

definition not_in :: "string \<Rightarrow> char \<Rightarrow> bool" where
  "not_in cs c = (c \<notin> set cs)"

lemma rx_span_lit: "rx_span s (lit cs) i j \<Longrightarrow> j = i + length cs \<and> take (length cs) (drop i s) = cs"
proof (induction cs arbitrary: i)
  case (Cons c cs)
  then obtain k where "i < length s" "s ! i = c" "rx_span s (lit cs) (Suc i) j"
    by (auto simp: span_simps)
  with Cons.IH [of "Suc i"] show ?case
    by (auto simp: Cons_nth_drop_Suc [symmetric])
qed (simp add: span_simps)

end
