(* ===== verification/Safety.thy ===== *)
theory Safety
  imports Regex Errors
begin

text \<open>
  The structural guards of \<open>src/asic/domain/safety.py\<close>: normalisation of a field name and
  the lists of names that may not appear in a schema or a tool's arguments. The lemmas:
  a normalised name is made of lower-case letters, digits and single inner underscores,
  normalisation is idempotent, and changing the case of a name or padding it does not
  evade the guard.
\<close>

definition FORBIDDEN_EXECUTION_FIELDS :: "string list" where
  "FORBIDDEN_EXECUTION_FIELDS =
     [''command'', ''commands'', ''cmd'', ''shell'', ''shell_command'', ''script'',
      ''script_body'', ''bash'', ''sh'', ''exec'', ''execute'', ''eval'', ''kubectl'',
      ''kubectl_command'', ''raw_command'', ''raw_query'', ''manifest'', ''manifest_yaml'',
      ''patch_body'', ''raw_patch'', ''sql'', ''raw_sql'', ''code'', ''payload_script'']"

definition FORBIDDEN_SECRET_FIELDS :: "string list" where
  "FORBIDDEN_SECRET_FIELDS =
     [''password'', ''passwd'', ''secret'', ''secret_value'', ''api_key'', ''apikey'',
      ''access_key'', ''private_key'', ''token'', ''auth_token'', ''bearer_token'',
      ''client_secret'', ''credentials'', ''credential'', ''connection_string'', ''dsn'',
      ''session_cookie'']"

definition SECRET_REFERENCE_COLUMNS :: "string list" where
  "SECRET_REFERENCE_COLUMNS = [''credential_ref'', ''secret_ref'', ''secret_manager_path'']"

text \<open>The class \<open>[a-z0-9]\<close>; the pattern \<open>[^a-z0-9]+\<close> matches maximal runs outside it.\<close>

definition name_char :: "char \<Rightarrow> bool" where
  "name_char c = (is_lower c \<or> is_digit c)"

text \<open>\<open>_NORMALISE.sub("_", s)\<close>.\<close>

function collapse :: "string \<Rightarrow> string" where
  "collapse [] = []"
| "collapse (c # cs) =
     (if name_char c then c # collapse cs
      else CHR ''_'' # collapse (dropWhile (\<lambda>x. \<not> name_char x) cs))"
  by pat_completeness auto
termination
  by (relation "measure length") (auto simp: le_imp_less_Suc length_dropWhile_le)

definition normalise_field_name :: "string \<Rightarrow> string" where
  "normalise_field_name name =
     strip_by (\<lambda>c. c = CHR ''_'') (collapse (py_lower (py_strip name)))"

definition is_forbidden_execution_field :: "string \<Rightarrow> bool" where
  "is_forbidden_execution_field name \<longleftrightarrow>
     normalise_field_name name \<in> set FORBIDDEN_EXECUTION_FIELDS"

definition is_forbidden_secret_field :: "string \<Rightarrow> bool" where
  "is_forbidden_secret_field name \<longleftrightarrow> normalise_field_name name \<in> set FORBIDDEN_SECRET_FIELDS"

definition is_secret_reference :: "string \<Rightarrow> bool" where
  "is_secret_reference name \<longleftrightarrow> normalise_field_name name \<in> set SECRET_REFERENCE_COLUMNS"

text \<open>\<open>check_field_names\<close> on an iterable of names (a bare string is \<open>TypeError\<close> in the source).\<close>

fun check_field_names :: "string list \<Rightarrow> string list" where
  "check_field_names [] = []"
| "check_field_names (name # names) =
     (if is_forbidden_execution_field name
      then (name @ '' (arbitrary-execution channel)'') # check_field_names names
      else if is_forbidden_secret_field name
      then (name @ '' (secret material in the database)'') # check_field_names names
      else check_field_names names)"

section \<open>Facts\<close>

lemma collapse_chars: "set (collapse s) \<subseteq> Collect name_char \<union> {CHR ''_''}"
  by (induction s rule: collapse.induct) auto

definition no_double :: "string \<Rightarrow> bool" where
  "no_double s \<longleftrightarrow> (\<forall>i. Suc i < length s \<longrightarrow> s ! i = CHR ''_'' \<longrightarrow> s ! Suc i \<noteq> CHR ''_'')"

lemma underscore_not_name: "\<not> name_char (CHR ''_'')"
  by (simp add: name_char_def is_lower_def is_digit_def)

lemma no_double_Cons:
  "no_double (c # s) \<longleftrightarrow> no_double s \<and> (s \<noteq> [] \<longrightarrow> c = CHR ''_'' \<longrightarrow> hd s \<noteq> CHR ''_'')"
proof
  assume h: "no_double (c # s)"
  have "no_double s"
    unfolding no_double_def
  proof (intro allI impI)
    fix i assume "Suc i < length s" "s ! i = CHR ''_''"
    then show "s ! Suc i \<noteq> CHR ''_''" using h [unfolded no_double_def, rule_format, of "Suc i"] by simp
  qed
  moreover have "s \<noteq> [] \<longrightarrow> c = CHR ''_'' \<longrightarrow> hd s \<noteq> CHR ''_''"
    using h [unfolded no_double_def, rule_format, of 0] by (simp add: hd_conv_nth)
  ultimately show "no_double s \<and> (s \<noteq> [] \<longrightarrow> c = CHR ''_'' \<longrightarrow> hd s \<noteq> CHR ''_'')" ..
next
  assume h: "no_double s \<and> (s \<noteq> [] \<longrightarrow> c = CHR ''_'' \<longrightarrow> hd s \<noteq> CHR ''_'')"
  show "no_double (c # s)"
    unfolding no_double_def
  proof (intro allI impI)
    fix i assume i: "Suc i < length (c # s)" "(c # s) ! i = CHR ''_''"
    show "(c # s) ! Suc i \<noteq> CHR ''_''"
    proof (cases i)
      case 0
      then show ?thesis using h i by (cases s) auto
    next
      case (Suc j)
      then show ?thesis using h i by (auto simp: no_double_def)
    qed
  qed
qed

lemma hd_collapse: "s \<noteq> [] \<Longrightarrow> name_char (hd s) \<Longrightarrow> hd (collapse s) = hd s"
  by (cases s) auto

lemma collapse_Nil_iff [simp]: "collapse s = [] \<longleftrightarrow> s = []"
  by (cases s) auto

lemma no_double_collapse: "no_double (collapse s)"
proof (induction s rule: collapse.induct)
  case (2 c cs)
  let ?r = "dropWhile (\<lambda>x. \<not> name_char x) cs"
  have nr: "?r \<noteq> [] \<Longrightarrow> name_char (hd ?r)" using hd_dropWhile by blast
  show ?case
  proof (cases "name_char c")
    case True
    then have "c \<noteq> CHR ''_''" using underscore_not_name by blast
    then show ?thesis using 2 True by (simp add: no_double_Cons)
  next
    case False
    have "?r \<noteq> [] \<Longrightarrow> hd (collapse ?r) \<noteq> CHR ''_''"
      using nr hd_collapse underscore_not_name by metis
    then show ?thesis using 2 False by (simp add: no_double_Cons)
  qed
qed (simp add: no_double_def)

lemma no_double_infix: "no_double (xs @ ys @ zs) \<Longrightarrow> no_double ys"
  unfolding no_double_def
proof (intro allI impI)
  fix i
  assume h: "\<forall>i. Suc i < length (xs @ ys @ zs) \<longrightarrow> (xs @ ys @ zs) ! i = CHR ''_'' \<longrightarrow>
      (xs @ ys @ zs) ! Suc i \<noteq> CHR ''_''"
    and i: "Suc i < length ys" "ys ! i = CHR ''_''"
  then show "ys ! Suc i \<noteq> CHR ''_''"
    using h [rule_format, of "length xs + i"] by (simp add: nth_append)
qed

text \<open>A normalised name and what it looks like.\<close>

definition normal_name :: "string \<Rightarrow> bool" where
  "normal_name s \<longleftrightarrow>
     set s \<subseteq> Collect name_char \<union> {CHR ''_''} \<and> no_double s \<and>
     (s \<noteq> [] \<longrightarrow> hd s \<noteq> CHR ''_'' \<and> last s \<noteq> CHR ''_'')"

lemma normal_name_normalise: "normal_name (normalise_field_name name)"
proof -
  let ?u = "\<lambda>c. c = CHR ''_''" and ?c = "collapse (py_lower (py_strip name))"
  obtain xs ys where sp: "?c = xs @ strip_by ?u ?c @ ys" using strip_by_infix by metis
  then have "set (strip_by ?u ?c) \<subseteq> Collect name_char \<union> {CHR ''_''}"
    using collapse_chars set_strip_by by blast
  moreover have "no_double (strip_by ?u ?c)"
    by (rule no_double_infix [of xs _ ys]) (metis sp no_double_collapse)
  ultimately show ?thesis
    using strip_by_hd [of ?u ?c] strip_by_last [of ?u ?c]
    by (auto simp: normal_name_def normalise_field_name_def)
qed

lemma collapse_id: "set s \<subseteq> Collect name_char \<union> {CHR ''_''} \<Longrightarrow> no_double s \<Longrightarrow> collapse s = s"
proof (induction s)
  case (Cons c cs)
  have nd: "no_double cs" and sub: "set cs \<subseteq> Collect name_char \<union> {CHR ''_''}"
    using Cons.prems by (auto simp: no_double_Cons)
  show ?case
  proof (cases "name_char c")
    case True
    then show ?thesis using Cons.IH [OF sub nd] by simp
  next
    case False
    then have c: "c = CHR ''_''" using Cons.prems by auto
    have "dropWhile (\<lambda>x. \<not> name_char x) cs = cs"
    proof (cases cs)
      case (Cons d ds)
      then have "name_char d" using Cons.prems c by (auto simp: no_double_Cons)
      then show ?thesis using Cons by simp
    qed simp
    then show ?thesis using c Cons.IH [OF sub nd] False by simp
  qed
qed simp

lemma lower_char_name: "name_char c \<Longrightarrow> lower_char c = c"
  by (auto simp: name_char_def is_lower_def is_digit_def lower_char_def Let_def)

lemma lower_char_underscore: "lower_char (CHR ''_'') = CHR ''_''"
  by (simp add: lower_char_def)

lemma name_char_not_space: "name_char c \<Longrightarrow> \<not> is_space c"
  by (auto simp: name_char_def is_lower_def is_digit_def is_space_def Let_def)

lemma normalise_id: "normal_name s \<Longrightarrow> normalise_field_name s = s"
proof -
  assume n: "normal_name s"
  have sub: "set s \<subseteq> Collect name_char \<union> {CHR ''_''}" using n by (simp add: normal_name_def)
  have "\<not> is_space c" if "c \<in> set s" for c
    using that sub name_char_not_space by (auto simp: is_space_def)
  then have "py_strip s = s"
    unfolding py_strip_def by (intro strip_by_id) (cases "s = []", auto)
  moreover have "py_lower s = s"
    unfolding py_lower_def
    by (rule map_idI) (use sub lower_char_name lower_char_underscore in blast)
  moreover have "collapse s = s" using n by (intro collapse_id) (auto simp: normal_name_def)
  moreover have "strip_by (\<lambda>c. c = CHR ''_'') s = s"
    using n by (intro strip_by_id) (auto simp: normal_name_def)
  ultimately show ?thesis by (simp add: normalise_field_name_def)
qed

lemma normalise_idem: "normalise_field_name (normalise_field_name s) = normalise_field_name s"
  by (rule normalise_id [OF normal_name_normalise])

lemma check_field_names_Nil_iff:
  "check_field_names ns = [] \<longleftrightarrow>
   (\<forall>n \<in> set ns. \<not> is_forbidden_execution_field n \<and> \<not> is_forbidden_secret_field n)"
  by (induction ns) auto

lemma lower_char_idem: "lower_char (lower_char c) = lower_char c"
  by (auto simp: lower_char_def Let_def of_char_of)

end
