(* ===== verification/Events.thy ===== *)
theory Events
  imports Errors
begin

text \<open>
  The event contract of \<open>src/asic/domain/events.py\<close>: classification of an event type, the
  envelope's construction check, and the timeline projection table. Times are integers
  with a flag that says whether the source's datetime carries a time zone.
\<close>

section \<open>Classification\<close>

definition EXTERNAL_EVENTS :: "IncidentEventType set" where
  "EXTERNAL_EVENTS = {IncidentEventType.ALERT_RECEIVED}"

definition DERIVED_EVENTS :: "IncidentEventType set" where
  "DERIVED_EVENTS = {IncidentEventType.CORRELATION_DECIDED}"

definition classify :: "IncidentEventType \<Rightarrow> EventCategory" where
  "classify t =
     (if t \<in> EXTERNAL_EVENTS then EventCategory.EXTERNAL
      else if t \<in> DERIVED_EVENTS then EventCategory.DERIVED
      else EventCategory.INTERNAL)"

definition AUDIT_CRITICAL_EVENTS :: "IncidentEventType set" where
  "AUDIT_CRITICAL_EVENTS =
     {IncidentEventType.POLICY_EVALUATED,
      IncidentEventType.APPROVAL_REQUESTED,
      IncidentEventType.APPROVAL_GRANTED,
      IncidentEventType.APPROVAL_REJECTED,
      IncidentEventType.APPROVAL_EXPIRED,
      IncidentEventType.APPROVAL_INVALIDATED_STALE,
      IncidentEventType.EXECUTION_STARTED,
      IncidentEventType.EXECUTION_COMPLETED,
      IncidentEventType.EXECUTION_FAILED,
      IncidentEventType.COMPENSATION_STARTED,
      IncidentEventType.COMPENSATION_COMPLETED,
      IncidentEventType.VERIFICATION_RESULT,
      IncidentEventType.MEMORY_PROMOTION_APPROVED}"

section \<open>The envelope\<close>

record py_datetime =
  instant :: int
  tz_aware :: bool

record EventEnvelope =
  en_event_id :: string
  en_tenant_id :: string
  en_incident_id :: string
  en_sequence :: int
  en_event_type :: IncidentEventType
  en_category :: EventCategory
  en_source :: string
  en_occurred_at :: py_datetime
  en_recorded_at :: py_datetime
  en_correlation_id :: string
  en_causation_id :: "string option"
  en_actor_type :: ActorType
  en_actor_id :: "string option"
  en_provenance :: ProvenanceLabel
  en_payload_schema_version :: int
  en_payload :: "(string \<times> string) list"
  en_idempotency_key :: "string option"

definition envelope_post_init :: "EventEnvelope \<Rightarrow> (py_error, EventEnvelope) result" where
  "envelope_post_init e =
     (if en_sequence e < 1 then Inl ValueError
      else if \<not> tz_aware (en_occurred_at e) \<or> \<not> tz_aware (en_recorded_at e)
        then Inl ValueError
      else if en_category e \<noteq> classify (en_event_type e) then Inl ValueError
      else if en_category e = EventCategory.EXTERNAL \<and> confers_authority (en_provenance e)
        then Inl ValueError
      else Inr e)"

section \<open>Timeline projection\<close>

record TimelineRule =
  tl_category :: TimelineCategory
  tl_visible :: bool

definition TIMELINE_RULES :: "(IncidentEventType \<times> TimelineRule) list" where
  "TIMELINE_RULES =
     [(IncidentEventType.ALERT_RECEIVED, \<lparr>tl_category = TimelineCategory.DETECTION, tl_visible = True\<rparr>),
      (IncidentEventType.ALERT_NORMALISED, \<lparr>tl_category = TimelineCategory.DETECTION, tl_visible = False\<rparr>),
      (IncidentEventType.ALERT_DEAD_LETTERED, \<lparr>tl_category = TimelineCategory.DETECTION, tl_visible = True\<rparr>),
      (IncidentEventType.ALERT_SUPPRESSED, \<lparr>tl_category = TimelineCategory.DETECTION, tl_visible = False\<rparr>),
      (IncidentEventType.CORRELATION_DECIDED, \<lparr>tl_category = TimelineCategory.DETECTION, tl_visible = True\<rparr>),
      (IncidentEventType.INCIDENT_OPENED, \<lparr>tl_category = TimelineCategory.DETECTION, tl_visible = True\<rparr>),
      (IncidentEventType.INCIDENT_JOINED, \<lparr>tl_category = TimelineCategory.DETECTION, tl_visible = True\<rparr>),
      (IncidentEventType.PLAN_GAP_DECLARED, \<lparr>tl_category = TimelineCategory.INVESTIGATION, tl_visible = True\<rparr>),
      (IncidentEventType.PLAN_STEP_SELECTED, \<lparr>tl_category = TimelineCategory.INVESTIGATION, tl_visible = True\<rparr>),
      (IncidentEventType.EVIDENCE_RECORDED, \<lparr>tl_category = TimelineCategory.INVESTIGATION, tl_visible = True\<rparr>),
      (IncidentEventType.PLAN_TERMINATED, \<lparr>tl_category = TimelineCategory.INVESTIGATION, tl_visible = True\<rparr>),
      (IncidentEventType.HYPOTHESIS_FORMED, \<lparr>tl_category = TimelineCategory.REASONING, tl_visible = True\<rparr>),
      (IncidentEventType.HYPOTHESIS_CRITIQUED, \<lparr>tl_category = TimelineCategory.REASONING, tl_visible = True\<rparr>),
      (IncidentEventType.HYPOTHESIS_REJECTED_UNSUPPORTED, \<lparr>tl_category = TimelineCategory.REASONING, tl_visible = True\<rparr>),
      (IncidentEventType.REMEDIATION_PROPOSED, \<lparr>tl_category = TimelineCategory.DECISION, tl_visible = True\<rparr>),
      (IncidentEventType.REMEDIATION_REJECTED_UNREGISTERED, \<lparr>tl_category = TimelineCategory.DECISION, tl_visible = True\<rparr>),
      (IncidentEventType.POLICY_EVALUATED, \<lparr>tl_category = TimelineCategory.DECISION, tl_visible = True\<rparr>),
      (IncidentEventType.APPROVAL_REQUESTED, \<lparr>tl_category = TimelineCategory.DECISION, tl_visible = True\<rparr>),
      (IncidentEventType.APPROVAL_GRANTED, \<lparr>tl_category = TimelineCategory.DECISION, tl_visible = True\<rparr>),
      (IncidentEventType.APPROVAL_REJECTED, \<lparr>tl_category = TimelineCategory.DECISION, tl_visible = True\<rparr>),
      (IncidentEventType.APPROVAL_EXPIRED, \<lparr>tl_category = TimelineCategory.DECISION, tl_visible = True\<rparr>),
      (IncidentEventType.APPROVAL_INVALIDATED_STALE, \<lparr>tl_category = TimelineCategory.DECISION, tl_visible = True\<rparr>),
      (IncidentEventType.EXECUTION_STARTED, \<lparr>tl_category = TimelineCategory.ACTION, tl_visible = True\<rparr>),
      (IncidentEventType.EXECUTION_COMPLETED, \<lparr>tl_category = TimelineCategory.ACTION, tl_visible = True\<rparr>),
      (IncidentEventType.EXECUTION_FAILED, \<lparr>tl_category = TimelineCategory.ACTION, tl_visible = True\<rparr>),
      (IncidentEventType.COMPENSATION_STARTED, \<lparr>tl_category = TimelineCategory.ACTION, tl_visible = True\<rparr>),
      (IncidentEventType.COMPENSATION_COMPLETED, \<lparr>tl_category = TimelineCategory.ACTION, tl_visible = True\<rparr>),
      (IncidentEventType.VERIFICATION_STARTED, \<lparr>tl_category = TimelineCategory.VERIFICATION, tl_visible = True\<rparr>),
      (IncidentEventType.VERIFICATION_RESULT, \<lparr>tl_category = TimelineCategory.VERIFICATION, tl_visible = True\<rparr>),
      (IncidentEventType.INCIDENT_ACKNOWLEDGED, \<lparr>tl_category = TimelineCategory.COMMUNICATION, tl_visible = True\<rparr>),
      (IncidentEventType.INCIDENT_SEVERITY_CHANGED, \<lparr>tl_category = TimelineCategory.COMMUNICATION, tl_visible = True\<rparr>),
      (IncidentEventType.INCIDENT_STATE_CHANGED, \<lparr>tl_category = TimelineCategory.RESOLUTION, tl_visible = True\<rparr>),
      (IncidentEventType.INCIDENT_TERMINATED, \<lparr>tl_category = TimelineCategory.RESOLUTION, tl_visible = True\<rparr>),
      (IncidentEventType.INCIDENT_ANNOTATED, \<lparr>tl_category = TimelineCategory.COMMUNICATION, tl_visible = True\<rparr>),
      (IncidentEventType.POSTMORTEM_DRAFTED, \<lparr>tl_category = TimelineCategory.RESOLUTION, tl_visible = True\<rparr>),
      (IncidentEventType.MEMORY_PROMOTION_PROPOSED, \<lparr>tl_category = TimelineCategory.RESOLUTION, tl_visible = False\<rparr>),
      (IncidentEventType.MEMORY_PROMOTION_APPROVED, \<lparr>tl_category = TimelineCategory.RESOLUTION, tl_visible = True\<rparr>),
      (IncidentEventType.WORKFLOW_CHECKPOINTED, \<lparr>tl_category = TimelineCategory.INVESTIGATION, tl_visible = False\<rparr>),
      (IncidentEventType.WORKFLOW_RESUMED, \<lparr>tl_category = TimelineCategory.INVESTIGATION, tl_visible = True\<rparr>),
      (IncidentEventType.BUDGET_EXHAUSTED, \<lparr>tl_category = TimelineCategory.INVESTIGATION, tl_visible = True\<rparr>),
      (IncidentEventType.CONTENT_INJECTION_FLAGGED, \<lparr>tl_category = TimelineCategory.INVESTIGATION, tl_visible = True\<rparr>)]"

definition timeline_rule :: "IncidentEventType \<Rightarrow> (py_error, TimelineRule) result" where
  "timeline_rule t =
     (case map_of TIMELINE_RULES t of None \<Rightarrow> Inl KeyError | Some r \<Rightarrow> Inr r)"

definition is_visible_on_timeline :: "IncidentEventType \<Rightarrow> (py_error, bool) result" where
  "is_visible_on_timeline t = andThen (timeline_rule t) (\<lambda>r. Inr (tl_visible r))"

definition unmapped_event_types :: "IncidentEventType list" where
  "unmapped_event_types =
     filter (\<lambda>t. t \<notin> set (map fst TIMELINE_RULES)) IncidentEventType_members"

section \<open>Facts\<close>

lemma timeline_rule_total: "\<exists>r. timeline_rule t = Inr r"
  by (cases t) (simp_all add: timeline_rule_def TIMELINE_RULES_def)

lemma visible_total: "\<exists>b. is_visible_on_timeline t = Inr b"
  using timeline_rule_total [of t] by (auto simp: is_visible_on_timeline_def)

text \<open>Every safety-critical decision point is shown to the operator.\<close>

lemma audit_critical_visible:
  "t \<in> AUDIT_CRITICAL_EVENTS \<Longrightarrow> is_visible_on_timeline t = Inr True"
  by (auto simp: AUDIT_CRITICAL_EVENTS_def is_visible_on_timeline_def timeline_rule_def
      TIMELINE_RULES_def)

lemma envelope_Inr_iff:
  "envelope_post_init e = Inr e' \<longleftrightarrow>
     e' = e \<and> 1 \<le> en_sequence e \<and> tz_aware (en_occurred_at e) \<and> tz_aware (en_recorded_at e) \<and>
     en_category e = classify (en_event_type e) \<and>
     \<not> (en_event_type e \<in> EXTERNAL_EVENTS \<and> confers_authority (en_provenance e))"
  by (auto simp: envelope_post_init_def classify_def DERIVED_EVENTS_def EXTERNAL_EVENTS_def)

lemma no_unmapped: "unmapped_event_types = []"
proof -
  have "t \<in> set (map fst TIMELINE_RULES)" for t
    by (cases t) (simp_all add: TIMELINE_RULES_def)
  then show ?thesis by (simp add: unmapped_event_types_def)
qed

end
