(* ===== verification/Py_Value.thy ===== *)
theory Py_Value
  imports Events
begin

text \<open>
  Dynamically typed Python values as they reach the modelled code in arguments, tool
  results and payloads. Numbers are \<open>PInt\<close> or \<open>PFloat\<close> (an exact rational); a list or
  tuple is \<open>PList\<close>; a mapping is an association list in insertion order. \<open>POther\<close> is an
  object of any other class, by the name of the class.
\<close>

datatype pyval =
    PNone
  | PBool bool
  | PInt int
  | PFloat rat
  | PStr string
  | PBytes "nat list"
  | PDatetime py_datetime
  | PUUID string
  | PList "pyval list"
  | PDict "(string \<times> pyval) list"
  | POther string

fun is_str :: "pyval \<Rightarrow> bool" where
  "is_str (PStr _) = True" | "is_str _ = False"

fun is_bool :: "pyval \<Rightarrow> bool" where
  "is_bool (PBool _) = True" | "is_bool _ = False"

text \<open>\<open>bool\<close> is a subclass of \<open>int\<close>.\<close>

fun is_int_instance :: "pyval \<Rightarrow> bool" where
  "is_int_instance (PInt _) = True"
| "is_int_instance (PBool _) = True"
| "is_int_instance _ = False"

fun is_number_instance :: "pyval \<Rightarrow> bool" where
  "is_number_instance (PFloat _) = True"
| "is_number_instance v = is_int_instance v"

fun is_list :: "pyval \<Rightarrow> bool" where
  "is_list (PList _) = True" | "is_list _ = False"

section \<open>Python's rendering of a string\<close>

definition hex_digit :: "nat \<Rightarrow> char" where
  "hex_digit n = (if n < 10 then char_of (48 + n) else char_of (87 + n))"

text \<open>One character of \<open>repr(s)\<close> inside quotes \<open>q\<close>, for ASCII text.\<close>

definition repr_char :: "char \<Rightarrow> char \<Rightarrow> string" where
  "repr_char q c =
     (let n = of_char c :: nat in
      if c = q \<or> n = 92 then [CHR 0x5C, c]
      else if n = 9 then [CHR 0x5C, CHR ''t'']
      else if n = 10 then [CHR 0x5C, CHR ''n'']
      else if n = 13 then [CHR 0x5C, CHR ''r'']
      else if n < 32 \<or> n = 127 then [CHR 0x5C, CHR ''x'', hex_digit (n div 16), hex_digit (n mod 16)]
      else [c])"

definition repr_quote :: "string \<Rightarrow> char" where
  "repr_quote s = (if CHR 0x27 \<in> set s \<and> CHR 0x22 \<notin> set s then CHR 0x22 else CHR 0x27)"

definition py_repr :: "string \<Rightarrow> string" where
  "py_repr s = (let q = repr_quote s in [q] @ concat (map (repr_char q) s) @ [q])"

section \<open>Decimal numerals\<close>

fun nat_digits :: "nat \<Rightarrow> string" where
  "nat_digits n =
     (if n < 10 then [char_of (48 + n)] else nat_digits (n div 10) @ [char_of (48 + n mod 10)])"

declare nat_digits.simps [simp del]

definition int_digits :: "int \<Rightarrow> string" where
  "int_digits i = (if i < 0 then ''-'' @ nat_digits (nat (- i)) else nat_digits (nat i))"

definition digit_val :: "char \<Rightarrow> nat" where
  "digit_val c = of_char c - 48"

definition parse_digits :: "string \<Rightarrow> nat" where
  "parse_digits s = foldl (\<lambda>n c. 10 * n + digit_val c) 0 s"

lemma parse_nat_digits: "parse_digits (nat_digits n) = n"
proof (induction n rule: nat_digits.induct)
  case (1 n)
  show ?case
  proof (cases "n < 10")
    case True
    then show ?thesis
      by (simp add: nat_digits.simps [of n] parse_digits_def digit_val_def)
  next
    case False
    then have "parse_digits (nat_digits (n div 10)) = n div 10" by (rule 1)
    moreover have "digit_val (char_of (48 + n mod 10)) = n mod 10"
    proof -
      have "48 + n mod 10 < 256" by simp
      then show ?thesis by (simp add: digit_val_def of_char_of)
    qed
    ultimately show ?thesis
      using False by (simp add: nat_digits.simps [of n] parse_digits_def)
  qed
qed

lemma nat_digits_inj: "nat_digits m = nat_digits n \<longleftrightarrow> m = n"
  by (metis parse_nat_digits)

end
