(* ===== verification/Tool_Descriptor.thy ===== *)
theory Tool_Descriptor
  imports Safety Py_Value
begin

text \<open>
  Tool descriptors, \<open>src/asic/tools/descriptor.py\<close>: the closed set of argument kinds, the
  validation of one value (\<open>coerce\<close>), the construction checks of a descriptor, the binding of
  a request's arguments and the check of a result. A pattern is its text with the compiled
  expression. \<open>datetime.fromisoformat(str(v))\<close> and \<open>UUID(str(v))\<close> are the functions of a
  \<open>py_parsers\<close> record, \<open>None\<close> where they raise \<open>ValueError\<close>. Descriptions are kept, because the
  stored schema contains them; error messages are left out.
\<close>

section \<open>Arguments\<close>

datatype (plugins only: code size) ArgumentKind =
    BOUNDED_STRING | ENUM | INTEGER | NUMBER | BOOLEAN | TIMESTAMP | DURATION_SECONDS
  | UUID_KIND | STRING_LIST

fun ArgumentKind_value :: "ArgumentKind \<Rightarrow> string" where
  "ArgumentKind_value BOUNDED_STRING = ''bounded_string''"
| "ArgumentKind_value ENUM = ''enum''"
| "ArgumentKind_value INTEGER = ''integer''"
| "ArgumentKind_value NUMBER = ''number''"
| "ArgumentKind_value BOOLEAN = ''boolean''"
| "ArgumentKind_value TIMESTAMP = ''timestamp''"
| "ArgumentKind_value DURATION_SECONDS = ''duration_seconds''"
| "ArgumentKind_value UUID_KIND = ''uuid''"
| "ArgumentKind_value STRING_LIST = ''string_list''"

definition DEFAULT_STRING_MAX_LENGTH :: int where "DEFAULT_STRING_MAX_LENGTH = 253"

record ArgumentSpec =
  arg_name :: string
  arg_kind :: ArgumentKind
  arg_description :: string
  arg_required :: bool
  arg_scope_resolved :: bool
  arg_pattern :: "(string \<times> rx) option"
  arg_max_length :: int
  arg_allowed_values :: "string list"
  arg_min_value :: "rat option"
  arg_max_value :: "rat option"
  arg_max_items :: int

text \<open>The field defaults.\<close>

definition argument_spec :: "string \<Rightarrow> ArgumentKind \<Rightarrow> string \<Rightarrow> ArgumentSpec" where
  "argument_spec name kind desc =
     \<lparr>arg_name = name, arg_kind = kind, arg_description = desc, arg_required = True,
      arg_scope_resolved = False, arg_pattern = None,
      arg_max_length = DEFAULT_STRING_MAX_LENGTH, arg_allowed_values = [],
      arg_min_value = None, arg_max_value = None, arg_max_items = 32\<rparr>"

definition snake_char :: "char \<Rightarrow> bool" where
  "snake_char c = (is_lower c \<or> is_digit c \<or> c = CHR ''_'')"

definition argument_name_rx :: rx where
  "argument_name_rx = Seq (Chars is_lower) (Rep snake_char 0 (Some 63))"

definition name_is_safe :: "string \<Rightarrow> bool" where
  "name_is_safe value \<longleftrightarrow> check_field_names [value] = [] \<and> rx_fullmatch argument_name_rx value"

definition kind_constraints_coherent :: "ArgumentSpec \<Rightarrow> bool" where
  "kind_constraints_coherent a \<longleftrightarrow>
     (arg_kind a = ENUM \<longrightarrow> arg_allowed_values a \<noteq> []) \<and>
     (arg_kind a \<noteq> ENUM \<longrightarrow> arg_allowed_values a = []) \<and>
     (arg_kind a = BOUNDED_STRING \<longrightarrow> arg_max_length a \<le> 1024)"

definition argument_post_init :: "ArgumentSpec \<Rightarrow> (py_error, ArgumentSpec) result" where
  "argument_post_init a =
     (if \<not> name_is_safe (arg_name a) then Inl ValueError
      else if \<not> kind_constraints_coherent a then Inl ValueError
      else Inr a)"

section \<open>Coercion of one value\<close>

record py_parsers =
  parse_datetime :: "pyval \<Rightarrow> py_datetime option"
  parse_uuid :: "pyval \<Rightarrow> string option"

text \<open>\<open>float(i)\<close> raises \<open>OverflowError\<close> when \<open>i\<close> rounds beyond the largest double.\<close>

definition float_bound :: int where "float_bound = 2 ^ 1024 - 2 ^ 970"

definition py_float :: "pyval \<Rightarrow> (py_error, rat) result" where
  "py_float v =
     (case v of
        PFloat r \<Rightarrow> Inr r
      | PInt i \<Rightarrow> if float_bound \<le> \<bar>i\<bar> then Inl OverflowError else Inr (of_int i)
      | _ \<Rightarrow> Inl TypeError)"

definition check_range :: "ArgumentSpec \<Rightarrow> rat \<Rightarrow> (py_error, unit) result" where
  "check_range a v =
     (case arg_min_value a of
        Some lo \<Rightarrow>
          if v < lo then Inl SchemaViolation
          else (case arg_max_value a of
                  Some hi \<Rightarrow> guard (\<not> hi < v) SchemaViolation
                | None \<Rightarrow> Inr ())
      | None \<Rightarrow>
          (case arg_max_value a of
             Some hi \<Rightarrow> guard (\<not> hi < v) SchemaViolation
           | None \<Rightarrow> Inr ()))"

definition coerce_string :: "ArgumentSpec \<Rightarrow> string \<Rightarrow> (py_error, pyval) result" where
  "coerce_string a s =
     (if arg_max_length a < int (length s) then Inl SchemaViolation
      else if arg_kind a = ENUM \<and> s \<notin> set (arg_allowed_values a) then Inl SchemaViolation
      else case arg_pattern a of
        Some (_, r) \<Rightarrow> if rx_fullmatch r s then Inr (PStr s) else Inl SchemaViolation
      | None \<Rightarrow> Inr (PStr s))"

definition list_entry_ok :: "ArgumentSpec \<Rightarrow> pyval \<Rightarrow> bool" where
  "list_entry_ok a v =
     (case v of PStr s \<Rightarrow> \<not> arg_max_length a < int (length s) | _ \<Rightarrow> False)"

definition coerce_raw :: "py_parsers \<Rightarrow> ArgumentSpec \<Rightarrow> pyval \<Rightarrow> (py_error, pyval) result" where
  "coerce_raw p a v =
     (case arg_kind a of
        BOUNDED_STRING \<Rightarrow> (case v of PStr s \<Rightarrow> coerce_string a s | _ \<Rightarrow> Inl SchemaViolation)
      | ENUM \<Rightarrow> (case v of PStr s \<Rightarrow> coerce_string a s | _ \<Rightarrow> Inl SchemaViolation)
      | BOOLEAN \<Rightarrow> if is_bool v then Inr v else Inl SchemaViolation
      | INTEGER \<Rightarrow>
          (case v of PInt i \<Rightarrow> andThen (check_range a (of_int i)) (\<lambda>_. Inr v)
           | _ \<Rightarrow> Inl SchemaViolation)
      | DURATION_SECONDS \<Rightarrow>
          (case v of PInt i \<Rightarrow> andThen (check_range a (of_int i)) (\<lambda>_. Inr v)
           | _ \<Rightarrow> Inl SchemaViolation)
      | NUMBER \<Rightarrow>
          if is_bool v \<or> \<not> is_number_instance v then Inl SchemaViolation
          else andThen (py_float v) (\<lambda>r. andThen (check_range a r) (\<lambda>_. Inr (PFloat r)))
      | TIMESTAMP \<Rightarrow>
          (case (case v of PDatetime d \<Rightarrow> Some d | _ \<Rightarrow> parse_datetime p v) of
             None \<Rightarrow> Inl ValueError
           | Some d \<Rightarrow> if tz_aware d then Inr (PDatetime d) else Inl SchemaViolation)
      | UUID_KIND \<Rightarrow>
          (case v of
             PUUID u \<Rightarrow> Inr v
           | _ \<Rightarrow> (case parse_uuid p v of None \<Rightarrow> Inl ValueError | Some u \<Rightarrow> Inr (PUUID u)))
      | STRING_LIST \<Rightarrow>
          (case v of
             PList items \<Rightarrow>
               if arg_max_items a < int (length items) then Inl SchemaViolation
               else if \<forall>x \<in> set items. list_entry_ok a x then Inr (PList items)
               else Inl SchemaViolation
           | _ \<Rightarrow> Inl SchemaViolation))"

text \<open>\<open>TypeError\<close> and \<open>ValueError\<close> become \<open>SchemaViolation\<close>; other exceptions pass.\<close>

definition coerce :: "py_parsers \<Rightarrow> ArgumentSpec \<Rightarrow> pyval \<Rightarrow> (py_error, pyval) result" where
  "coerce p a v =
     (case coerce_raw p a v of
        Inr w \<Rightarrow> Inr w
      | Inl e \<Rightarrow>
          if isinstance e C_SchemaViolation then Inl e
          else if isinstance e C_TypeError \<or> isinstance e C_ValueError then Inl SchemaViolation
          else Inl e)"

definition opt_field :: "string \<Rightarrow> pyval option \<Rightarrow> (string \<times> pyval) list" where
  "opt_field k v = (case v of None \<Rightarrow> [] | Some x \<Rightarrow> [(k, x)])"

definition argument_schema :: "ArgumentSpec \<Rightarrow> (string \<times> pyval) list" where
  "argument_schema a =
     [(''kind'', PStr (ArgumentKind_value (arg_kind a))),
      (''description'', PStr (arg_description a)),
      (''required'', PBool (arg_required a)),
      (''scope_resolved'', PBool (arg_scope_resolved a))] @
     (case arg_pattern a of
        Some (t, _) \<Rightarrow> if t = [] then [] else [(''pattern'', PStr t)]
      | None \<Rightarrow> []) @
     (if arg_allowed_values a = [] then []
      else [(''allowed_values'', PList (map PStr (arg_allowed_values a)))]) @
     opt_field ''min_value'' (map_option PFloat (arg_min_value a)) @
     opt_field ''max_value'' (map_option PFloat (arg_max_value a)) @
     (if arg_kind a \<in> {BOUNDED_STRING, ENUM, STRING_LIST}
      then [(''max_length'', PInt (arg_max_length a))] else [])"

section \<open>Descriptors\<close>

record ResultField =
  rf_name :: string
  rf_kind :: ArgumentKind
  rf_required :: bool

record ToolDescriptor =
  td_name :: string
  td_version :: string
  td_capability :: string
  td_description :: string
  td_risk_tier :: RiskTier
  td_provider_kind :: ToolProviderKind
  td_effect_class :: ToolEffectClass
  td_arguments :: "ArgumentSpec list"
  td_result_fields :: "ResultField list"
  td_timeout_seconds :: int
  td_settling_seconds :: int
  td_is_idempotent :: bool
  td_idempotency_key_fields :: "string list"
  td_max_attempts :: int
  td_retry_backoff_seconds :: rat
  td_preconditions :: "string list"
  td_rollback_tool_name :: "string option"
  td_audit_events :: "string list"
  td_max_result_items :: int
  td_is_enabled :: bool

text \<open>The effect class given, or the one derived from the tier when it is omitted or null.\<close>

definition derive_effect_class :: "ToolEffectClass option \<Rightarrow> RiskTier \<Rightarrow> ToolEffectClass" where
  "derive_effect_class given tier =
     (case given of
        Some e \<Rightarrow> e
      | None \<Rightarrow> if tier = RiskTier.RO then ToolEffectClass.READ
                else ToolEffectClass.INFRASTRUCTURE_MUTATION)"

definition snake_word :: rx where
  "snake_word = Seq (Chars is_lower) (Rep snake_char 0 None)"

definition dotted_rx :: rx where
  "dotted_rx =
     (let part = Seq (Chars (\<lambda>c. c = CHR ''.'')) snake_word
      in Seq snake_word (Seq part (Star part)))"

definition dotted_lowercase :: "string \<Rightarrow> bool" where
  "dotted_lowercase value \<longleftrightarrow> rx_fullmatch dotted_rx value"

definition semver_rx :: rx where
  "semver_rx =
     (let digits = Rep is_digit 1 None; dot = Chars (\<lambda>c. c = CHR ''.'')
      in seqs [digits, dot, digits, dot, digits])"

definition semver :: "string \<Rightarrow> bool" where
  "semver value \<longleftrightarrow> rx_fullmatch semver_rx value"

text \<open>The \<open>Field\<close> bounds of the model.\<close>

definition descriptor_bounds :: "ToolDescriptor \<Rightarrow> bool" where
  "descriptor_bounds d \<longleftrightarrow>
     1 \<le> td_timeout_seconds d \<and> td_timeout_seconds d \<le> 3600 \<and> 0 \<le> td_settling_seconds d \<and>
     1 \<le> td_max_attempts d \<and> td_max_attempts d \<le> 5 \<and> 0 \<le> td_retry_backoff_seconds d \<and>
     1 \<le> td_max_result_items d"

definition safety_invariants :: "ToolDescriptor \<Rightarrow> (py_error, ToolDescriptor) result" where
  "safety_invariants d =
     (if td_risk_tier d = RiskTier.R3 then Inl ValueError
      else if (td_risk_tier d = RiskTier.RO) \<noteq> (td_effect_class d = ToolEffectClass.READ)
        then Inl ValueError
      else if td_effect_class d = ToolEffectClass.EXTERNAL_RECORD \<and>
          (td_risk_tier d \<noteq> RiskTier.R1 \<or> td_rollback_tool_name d \<noteq> None \<or>
           td_settling_seconds d \<noteq> 0 \<or> td_max_attempts d \<noteq> 1)
        then Inl ValueError
      else if td_effect_class d \<noteq> ToolEffectClass.EXTERNAL_RECORD \<and>
          td_risk_tier d = RiskTier.RO \<and>
          (td_rollback_tool_name d \<noteq> None \<or> td_settling_seconds d \<noteq> 0)
        then Inl ValueError
      else if td_effect_class d \<noteq> ToolEffectClass.EXTERNAL_RECORD \<and>
          td_risk_tier d \<noteq> RiskTier.RO \<and> td_rollback_tool_name d = None
        then Inl ValueError
      else if \<not> td_is_idempotent d \<and> 1 < td_max_attempts d then Inl ValueError
      else let names = map arg_name (td_arguments d) in
        if \<not> distinct names then Inl ValueError
        else if \<not> set (td_idempotency_key_fields d) \<subseteq> set names then Inl ValueError
        else if check_field_names (map rf_name (td_result_fields d)) \<noteq> [] then Inl ValueError
        else Inr d)"

definition descriptor_post_init :: "ToolDescriptor \<Rightarrow> (py_error, ToolDescriptor) result" where
  "descriptor_post_init d =
     (if \<not> (\<forall>a \<in> set (td_arguments d). is_ok (argument_post_init a)) then Inl ValueError
      else if \<not> descriptor_bounds d then Inl ValueError
      else if \<not> dotted_lowercase (td_name d) \<or> \<not> dotted_lowercase (td_capability d)
        then Inl ValueError
      else if \<not> semver (td_version d) then Inl ValueError
      else safety_invariants d)"

definition major_version :: "ToolDescriptor \<Rightarrow> nat" where
  "major_version d = parse_digits (takeWhile (\<lambda>c. c \<noteq> CHR ''.'') (td_version d))"

definition scope_argument_names :: "ToolDescriptor \<Rightarrow> string set" where
  "scope_argument_names d = arg_name ` set (filter arg_scope_resolved (td_arguments d))"

definition argument :: "ToolDescriptor \<Rightarrow> string \<Rightarrow> ArgumentSpec option" where
  "argument d name = List.find (\<lambda>a. arg_name a = name) (td_arguments d)"

section \<open>Binding a request\<close>

type_synonym arg_map = "(string \<times> pyval) list"

fun bind_loop ::
  "py_parsers \<Rightarrow> ArgumentSpec list \<Rightarrow> arg_map \<Rightarrow> arg_map \<Rightarrow> (py_error, arg_map) result" where
  "bind_loop p [] supplied resolved_scope = Inr []"
| "bind_loop p (a # specs) supplied resolved_scope =
     (let rest = bind_loop p specs supplied resolved_scope;
          keep = (\<lambda>v. andThen (coerce p a v) (\<lambda>w. andThen rest (\<lambda>b. Inr ((arg_name a, w) # b))))
      in if arg_scope_resolved a then
           (case map_of resolved_scope (arg_name a) of
              None \<Rightarrow> Inl SchemaViolation
            | Some v \<Rightarrow> keep v)
         else
           (case map_of supplied (arg_name a) of
              Some v \<Rightarrow> keep v
            | None \<Rightarrow> if arg_required a then Inl SchemaViolation else rest))"

definition bind_arguments ::
  "py_parsers \<Rightarrow> ToolDescriptor \<Rightarrow> arg_map \<Rightarrow> arg_map \<Rightarrow> (py_error, arg_map) result" where
  "bind_arguments p d supplied resolved_scope =
     (if \<not> fst ` set supplied \<subseteq> arg_name ` set (td_arguments d) then Inl SchemaViolation
      else if fst ` set supplied \<inter> scope_argument_names d \<noteq> {} then Inl SchemaViolation
      else bind_loop p (td_arguments d) supplied resolved_scope)"

section \<open>Checking a result\<close>

definition result_field_ok :: "ToolDescriptor \<Rightarrow> ResultField \<Rightarrow> pyval \<Rightarrow> bool" where
  "result_field_ok d f v =
     (case rf_kind f of
        STRING_LIST \<Rightarrow>
          (case v of PList xs \<Rightarrow> \<not> td_max_result_items d < int (length xs) | _ \<Rightarrow> False)
      | BOOLEAN \<Rightarrow> is_bool v
      | INTEGER \<Rightarrow> \<not> is_bool v \<and> is_int_instance v
      | DURATION_SECONDS \<Rightarrow> \<not> is_bool v \<and> is_int_instance v
      | NUMBER \<Rightarrow> \<not> is_bool v \<and> is_number_instance v
      | _ \<Rightarrow> \<not> is_bool v \<and> is_str v)"

definition validate_result :: "ToolDescriptor \<Rightarrow> pyval \<Rightarrow> (py_error, arg_map) result" where
  "validate_result d result =
     (case result of
        PDict kvs \<Rightarrow>
          if \<forall>f \<in> set (td_result_fields d).
               (case map_of kvs (rf_name f) of
                  None \<Rightarrow> \<not> rf_required f
                | Some v \<Rightarrow> result_field_ok d f v)
          then Inr kvs else Inl SchemaViolation
      | _ \<Rightarrow> Inl SchemaViolation)"

definition input_schema :: "ToolDescriptor \<Rightarrow> (string \<times> pyval) list" where
  "input_schema d = map (\<lambda>a. (arg_name a, PDict (argument_schema a))) (td_arguments d)"

definition output_schema :: "ToolDescriptor \<Rightarrow> (string \<times> pyval) list" where
  "output_schema d =
     map (\<lambda>f. (rf_name f, PDict [(''kind'', PStr (ArgumentKind_value (rf_kind f))),
                                 (''required'', PBool (rf_required f))]))
       (td_result_fields d)"

definition assert_no_write_capability :: "ToolDescriptor list \<Rightarrow> (py_error, unit) result" where
  "assert_no_write_capability ds =
     guard (\<forall>d \<in> set ds. td_risk_tier d = RiskTier.RO) ValueError"

section \<open>Facts\<close>

text \<open>What a coerced value looks like, per kind.\<close>

definition of_kind :: "ArgumentSpec \<Rightarrow> pyval \<Rightarrow> bool" where
  "of_kind a v =
     (case arg_kind a of
        BOUNDED_STRING \<Rightarrow> (\<exists>s. v = PStr s \<and> int (length s) \<le> arg_max_length a)
      | ENUM \<Rightarrow> (\<exists>s \<in> set (arg_allowed_values a). v = PStr s)
      | BOOLEAN \<Rightarrow> (\<exists>b. v = PBool b)
      | INTEGER \<Rightarrow> (\<exists>i. v = PInt i \<and> check_range a (of_int i) = Inr ())
      | DURATION_SECONDS \<Rightarrow> (\<exists>i. v = PInt i \<and> check_range a (of_int i) = Inr ())
      | NUMBER \<Rightarrow> (\<exists>r. v = PFloat r \<and> check_range a r = Inr ())
      | TIMESTAMP \<Rightarrow> (\<exists>d. v = PDatetime d \<and> tz_aware d)
      | UUID_KIND \<Rightarrow> (\<exists>u. v = PUUID u)
      | STRING_LIST \<Rightarrow>
          (\<exists>xs. v = PList xs \<and> int (length xs) \<le> arg_max_items a \<and>
             (\<forall>x \<in> set xs. \<exists>s. x = PStr s \<and> int (length s) \<le> arg_max_length a)))"

lemma coerce_Inr: "coerce p a v = Inr w \<longleftrightarrow> coerce_raw p a v = Inr w"
  by (auto simp: coerce_def split: sum.split)

lemma coerce_string_Inr:
  "coerce_string a s = Inr w \<longleftrightarrow>
     w = PStr s \<and> int (length s) \<le> arg_max_length a \<and>
     (arg_kind a = ENUM \<longrightarrow> s \<in> set (arg_allowed_values a)) \<and>
     (\<forall>t r. arg_pattern a = Some (t, r) \<longrightarrow> rx_fullmatch r s)"
  by (auto simp: coerce_string_def split: option.split)

lemma list_entry_iff:
  "list_entry_ok a x \<longleftrightarrow> (\<exists>s. x = PStr s \<and> int (length s) \<le> arg_max_length a)"
  by (auto simp: list_entry_ok_def split: pyval.split)

lemma coerce_of_kind: "coerce p a v = Inr w \<Longrightarrow> of_kind a w"
  unfolding coerce_Inr
  by (cases "arg_kind a"; cases v)
    (auto simp: coerce_raw_def of_kind_def coerce_string_Inr result_simps list_entry_iff
      split: if_splits option.splits)

lemma coerce_again: "coerce p a v = Inr w \<Longrightarrow> coerce p a w = Inr w"
  unfolding coerce_Inr
  by (cases "arg_kind a"; cases v)
    (auto simp: coerce_raw_def coerce_string_Inr result_simps py_float_def
      split: if_splits option.splits)

lemma check_range_Inl: "check_range a v = Inl e \<Longrightarrow> e = SchemaViolation"
  by (auto simp: check_range_def split: option.splits if_splits)

lemma isinstance_schema [simp]:
  "isinstance SchemaViolation C_SchemaViolation" "isinstance ValueError C_ValueError"
  "\<not> isinstance ValueError C_SchemaViolation" "isinstance TypeError C_TypeError"
  "\<not> isinstance TypeError C_SchemaViolation"
  by (simp_all add: isinstance_def eval_nat_numeral)

text \<open>Apart from an integer too large for a float, a refusal is a schema violation.\<close>

lemma coerce_Inl:
  "coerce p a v = Inl e \<Longrightarrow>
   e = SchemaViolation \<or> e = OverflowError \<and> arg_kind a = NUMBER \<and> (\<exists>i. v = PInt i \<and> float_bound \<le> \<bar>i\<bar>)"
proof -
  assume c: "coerce p a v = Inl e"
  then obtain e' where r: "coerce_raw p a v = Inl e'"
    by (auto simp: coerce_def split: sum.splits)
  have "e' = SchemaViolation \<or> e' = ValueError \<or> e' = TypeError \<or>
      e' = OverflowError \<and> arg_kind a = NUMBER \<and> (\<exists>i. v = PInt i \<and> float_bound \<le> \<bar>i\<bar>)"
    using r by (cases "arg_kind a"; cases v)
      (auto simp: coerce_raw_def coerce_string_def result_simps py_float_def
        split: if_splits option.splits dest: check_range_Inl)
  then show ?thesis using c r
    by (auto simp: coerce_def split: if_splits)
qed

section \<open>Facts about binding\<close>

text \<open>Where an argument's value comes from.\<close>

definition arg_source :: "ArgumentSpec \<Rightarrow> arg_map \<Rightarrow> arg_map \<Rightarrow> arg_map" where
  "arg_source a supplied resolved_scope =
     (if arg_scope_resolved a then resolved_scope else supplied)"

lemma bind_loop_Cons:
  "bind_loop p (c # cs) sp res = Inr b \<Longrightarrow>
   \<exists>b'. bind_loop p cs sp res = Inr b' \<and>
     (case map_of (arg_source c sp res) (arg_name c) of
        None \<Rightarrow> \<not> arg_scope_resolved c \<and> \<not> arg_required c \<and> b = b'
      | Some v \<Rightarrow> \<exists>w. coerce p c v = Inr w \<and> b = (arg_name c, w) # b')"
  by (auto simp: Let_def result_simps arg_source_def split: if_splits option.splits)

lemma bind_loop_names: "bind_loop p as sp res = Inr b \<Longrightarrow> fst ` set b \<subseteq> arg_name ` set as"
proof (induction as arbitrary: b)
  case (Cons c cs)
  obtain b' where "bind_loop p cs sp res = Inr b'" "b = b' \<or> (\<exists>w. b = (arg_name c, w) # b')"
    using bind_loop_Cons [OF Cons.prems] by (auto split: option.splits)
  moreover from this(1) have "fst ` set b' \<subseteq> arg_name ` set cs" by (rule Cons.IH)
  ultimately show ?case by (elim disjE exE) (simp_all add: subset_insertI2 insert_mono)
qed simp

lemma bind_loop_lookup:
  "bind_loop p as sp res = Inr b \<Longrightarrow> distinct (map arg_name as) \<Longrightarrow> a \<in> set as \<Longrightarrow>
   (case map_of (arg_source a sp res) (arg_name a) of
      None \<Rightarrow> \<not> arg_scope_resolved a \<and> \<not> arg_required a \<and> map_of b (arg_name a) = None
    | Some v \<Rightarrow> \<exists>w. coerce p a v = Inr w \<and> map_of b (arg_name a) = Some w)"
proof (induction as arbitrary: b)
  case (Cons c cs)
  obtain b' where b': "bind_loop p cs sp res = Inr b'"
      and b: "case map_of (arg_source c sp res) (arg_name c) of
        None \<Rightarrow> \<not> arg_scope_resolved c \<and> \<not> arg_required c \<and> b = b'
      | Some v \<Rightarrow> \<exists>w. coerce p c v = Inr w \<and> b = (arg_name c, w) # b'"
    using bind_loop_Cons [OF Cons.prems(1)] by blast
  show ?case
  proof (cases "a = c")
    case True
    have "arg_name c \<notin> fst ` set b'"
      using bind_loop_names [OF b'] Cons.prems(2) by auto
    then have "map_of b' (arg_name c) = None" by (simp add: map_of_eq_None_iff)
    then show ?thesis using b True by (auto split: option.splits)
  next
    case False
    then have "a \<in> set cs" using Cons.prems(3) by simp
    then have ne: "arg_name a \<noteq> arg_name c"
      using Cons.prems(2) by (auto simp: image_iff)
    then have "map_of b (arg_name a) = map_of b' (arg_name a)"
      using b by (auto split: option.splits)
    moreover have "distinct (map arg_name cs)" using Cons.prems(2) by simp
    ultimately show ?thesis using Cons.IH [OF b' _ \<open>a \<in> set cs\<close>] by (simp split: option.splits)
  qed
qed simp

lemma bind_arguments_Inr:
  "bind_arguments p d sp res = Inr b \<longleftrightarrow>
     fst ` set sp \<subseteq> arg_name ` set (td_arguments d) \<and>
     fst ` set sp \<inter> scope_argument_names d = {} \<and>
     bind_loop p (td_arguments d) sp res = Inr b"
  by (auto simp: bind_arguments_def split: if_splits)

lemma descriptor_distinct:
  "descriptor_post_init d = Inr d' \<Longrightarrow> d' = d \<and> distinct (map arg_name (td_arguments d))"
  by (auto simp: descriptor_post_init_def safety_invariants_def Let_def split: if_splits)

lemma descriptor_safety:
  assumes "descriptor_post_init d = Inr d'"
  shows "td_risk_tier d \<noteq> RiskTier.R3"
    "td_risk_tier d = RiskTier.RO \<longleftrightarrow> td_effect_class d = ToolEffectClass.READ"
    "td_effect_class d = ToolEffectClass.EXTERNAL_RECORD \<Longrightarrow>
       td_risk_tier d = RiskTier.R1 \<and> td_max_attempts d = 1 \<and> td_rollback_tool_name d = None"
    "td_effect_class d = ToolEffectClass.INFRASTRUCTURE_MUTATION \<Longrightarrow>
       td_rollback_tool_name d \<noteq> None"
    "\<not> td_is_idempotent d \<Longrightarrow> td_max_attempts d = 1"
    "set (td_idempotency_key_fields d) \<subseteq> arg_name ` set (td_arguments d)"
  using assms
  by (auto simp: descriptor_post_init_def safety_invariants_def descriptor_bounds_def Let_def
      split: if_splits)

lemma descriptor_no_channel:
  assumes "descriptor_post_init d = Inr d'" "a \<in> set (td_arguments d)"
  shows "\<not> is_forbidden_execution_field (arg_name a) \<and> \<not> is_forbidden_secret_field (arg_name a)"
  using assms
  by (auto simp: descriptor_post_init_def argument_post_init_def name_is_safe_def
      check_field_names_Nil_iff is_ok_def split: if_splits)

lemma validate_result_Inr: "validate_result d r = Inr kvs \<Longrightarrow> r = PDict kvs"
  by (auto simp: validate_result_def split: pyval.splits if_splits)

end
