(* ===== verification/Tool_Catalogue.thy ===== *)
theory Tool_Catalogue
  imports Tool_Descriptor
begin

text \<open>
  The shipped catalogues: \<open>src/asic/tools/catalogue.py\<close> (read-only tools),
  \<open>remediation_catalogue.py\<close> (write tools) and \<open>integration_catalogue.py\<close> (external
  records). Every descriptor is the source's literal with the model's defaults filled in.
  The lemmas: each of them passes the construction checks, the read-only catalogue is
  read-only, the write catalogue declares a rollback that is itself registered, and no tool
  accepts a free-form channel.
\<close>

section \<open>Patterns\<close>

definition alnum :: "char \<Rightarrow> bool" where "alnum c = (is_lower c \<or> is_digit c)"

definition name_rx :: rx where
  "name_rx =
     Seq (Chars alnum)
       (opt (Seq (Rep (\<lambda>c. alnum c \<or> c = CHR ''-'') 0 (Some 61)) (Chars alnum)))"

definition environment_rx :: rx where
  "environment_rx =
     Seq (Chars is_lower) (Rep (\<lambda>c. alnum c \<or> c = CHR ''_'' \<or> c = CHR ''-'') 0 (Some 31))"

definition node_name_rx :: rx where
  "node_name_rx =
     Seq (Chars alnum)
       (opt (Seq (Rep (\<lambda>c. alnum c \<or> c = CHR ''.'' \<or> c = CHR ''-'') 0 (Some 61)) (Chars alnum)))"

definition incident_reference_rx :: rx where
  "incident_reference_rx =
     Seq (Chars (\<lambda>c. is_upper c \<or> is_lower c))
       (Rep (\<lambda>c. is_upper c \<or> alnum c \<or> c = CHR ''-'') 0 (Some 39))"

definition hex_char :: "char \<Rightarrow> bool" where
  "hex_char c = (is_digit c \<or> (let n = of_char c :: nat in 97 \<le> n \<and> n \<le> 102))"

definition event_id_rx :: rx where "event_id_rx = Rep hex_char 64 (Some 64)"

definition status_rx :: rx where
  "status_rx = Seq (Chars is_lower) (Rep (\<lambda>c. is_lower c \<or> c = CHR ''_'') 0 (Some 31))"

section \<open>Catalogues\<close>

definition CATALOGUE_VERSION :: "string" where
  "CATALOGUE_VERSION =
     ''2026.09.07-ro-1''"

definition scope_arguments :: "ArgumentSpec list" where
  "scope_arguments =
     [(argument_spec ''tenant_id'' UUID_KIND
         ''Owning tenant. Resolved from the bound session, never supplied.'')
         \<lparr>arg_scope_resolved := True\<rparr>,
       (argument_spec ''environment'' BOUNDED_STRING
         ''Environment name resolved from the incident.'')
         \<lparr>arg_scope_resolved := True, arg_pattern := Some (''[a-z][a-z0-9_-]{0,31}'', environment_rx), arg_max_length := 32\<rparr>,
       (argument_spec ''service'' BOUNDED_STRING
         ''Service resolved from the incident's affected services.'')
         \<lparr>arg_scope_resolved := True, arg_pattern := Some (''[a-z0-9]([a-z0-9-]{0,61}[a-z0-9])?'', name_rx)\<rparr>]"

definition window_arguments :: "ArgumentSpec list" where
  "window_arguments =
     [(argument_spec ''window_start'' TIMESTAMP
         ''Inclusive start of the observation window (timezone-aware).''),
       (argument_spec ''window_end'' TIMESTAMP
         ''Exclusive end of the observation window (timezone-aware).'')]"

definition METRICS_QUERY :: "ToolDescriptor" where
  "METRICS_QUERY =
     \<lparr>td_name = ''metrics.query'', td_version = ''1.0.0'', td_capability = ''read.metrics'',
      td_description =
        ''Read one registered metric series for one service over a window. The query is composed by the adapter from these typed parameters; no query language is accepted as input.'',
      td_risk_tier = RiskTier.RO, td_provider_kind = ToolProviderKind.SIMULATOR,
      td_effect_class = derive_effect_class None RiskTier.RO,
      td_arguments =
        scope_arguments @
      window_arguments @
      [(argument_spec ''metric'' ENUM
         ''Registered metric name.'')
         \<lparr>arg_allowed_values := [''http_request_duration_p95_seconds'', ''http_request_duration_p50_seconds'', ''http_requests_total'', ''http_request_errors_total'', ''container_memory_working_set_bytes'', ''container_cpu_usage_seconds_total'']\<rparr>,
       (argument_spec ''step_seconds'' DURATION_SECONDS
         ''Resolution of the returned series.'')
         \<lparr>arg_required := False, arg_min_value := Some 15, arg_max_value := Some 3600\<rparr>],
      td_result_fields =
        [\<lparr>rf_name = ''samples'', rf_kind = STRING_LIST, rf_required = False\<rparr>,
       \<lparr>rf_name = ''unit'', rf_kind = BOUNDED_STRING, rf_required = True\<rparr>,
       \<lparr>rf_name = ''source'', rf_kind = BOUNDED_STRING, rf_required = True\<rparr>,
       \<lparr>rf_name = ''schema_version'', rf_kind = INTEGER, rf_required = True\<rparr>],
      td_timeout_seconds = 30, td_settling_seconds = 0,
      td_is_idempotent = True,
      td_idempotency_key_fields = [''tenant_id'', ''environment'', ''service'', ''metric'', ''window_start''],
      td_max_attempts = 3, td_retry_backoff_seconds = 1,
      td_preconditions = [],
      td_rollback_tool_name = None, td_audit_events = [''tool.executed''],
      td_max_result_items = 500, td_is_enabled = True\<rparr>"

definition LOGS_QUERY :: "ToolDescriptor" where
  "LOGS_QUERY =
     \<lparr>td_name = ''logs.query'', td_version = ''1.0.0'', td_capability = ''read.logs'',
      td_description =
        ''Read log lines for one service over a window, filtered by level and an optional bounded substring. Returns untrusted content: the caller labels it accordingly.'',
      td_risk_tier = RiskTier.RO, td_provider_kind = ToolProviderKind.SIMULATOR,
      td_effect_class = derive_effect_class None RiskTier.RO,
      td_arguments =
        scope_arguments @
      window_arguments @
      [(argument_spec ''min_level'' ENUM
         ''Lowest severity to return.'')
         \<lparr>arg_allowed_values := [''debug'', ''info'', ''warn'', ''error'', ''fatal''], arg_required := False\<rparr>,
       (argument_spec ''contains'' BOUNDED_STRING
         ''Literal substring filter. Bounded and treated as a literal by the adapter, never as a query expression.'')
         \<lparr>arg_required := False, arg_max_length := 120\<rparr>,
       (argument_spec ''limit'' INTEGER
         ''Maximum lines returned.'')
         \<lparr>arg_required := False, arg_min_value := Some 1, arg_max_value := Some 200\<rparr>],
      td_result_fields =
        [\<lparr>rf_name = ''lines'', rf_kind = STRING_LIST, rf_required = False\<rparr>,
       \<lparr>rf_name = ''truncated'', rf_kind = BOOLEAN, rf_required = True\<rparr>,
       \<lparr>rf_name = ''source'', rf_kind = BOUNDED_STRING, rf_required = True\<rparr>,
       \<lparr>rf_name = ''schema_version'', rf_kind = INTEGER, rf_required = True\<rparr>],
      td_timeout_seconds = 30, td_settling_seconds = 0,
      td_is_idempotent = True,
      td_idempotency_key_fields = [''tenant_id'', ''environment'', ''service'', ''window_start'', ''min_level''],
      td_max_attempts = 3, td_retry_backoff_seconds = 1,
      td_preconditions = [],
      td_rollback_tool_name = None, td_audit_events = [''tool.executed''],
      td_max_result_items = 200, td_is_enabled = True\<rparr>"

definition TRACES_QUERY :: "ToolDescriptor" where
  "TRACES_QUERY =
     \<lparr>td_name = ''traces.query'', td_version = ''1.0.0'', td_capability = ''read.traces'',
      td_description =
        ''Read aggregated span statistics for one service's operations over a window.'',
      td_risk_tier = RiskTier.RO, td_provider_kind = ToolProviderKind.SIMULATOR,
      td_effect_class = derive_effect_class None RiskTier.RO,
      td_arguments =
        scope_arguments @
      window_arguments @
      [(argument_spec ''min_duration_ms'' INTEGER
         ''Only spans at least this slow.'')
         \<lparr>arg_required := False, arg_min_value := Some 0, arg_max_value := Some 600000\<rparr>],
      td_result_fields =
        [\<lparr>rf_name = ''operations'', rf_kind = STRING_LIST, rf_required = False\<rparr>,
       \<lparr>rf_name = ''source'', rf_kind = BOUNDED_STRING, rf_required = True\<rparr>,
       \<lparr>rf_name = ''schema_version'', rf_kind = INTEGER, rf_required = True\<rparr>],
      td_timeout_seconds = 30, td_settling_seconds = 0,
      td_is_idempotent = True,
      td_idempotency_key_fields = [''tenant_id'', ''environment'', ''service'', ''window_start''],
      td_max_attempts = 3, td_retry_backoff_seconds = 1,
      td_preconditions = [],
      td_rollback_tool_name = None, td_audit_events = [''tool.executed''],
      td_max_result_items = 200, td_is_enabled = True\<rparr>"

definition DEPLOY_LIST :: "ToolDescriptor" where
  "DEPLOY_LIST =
     \<lparr>td_name = ''deploy.list'', td_version = ''1.0.0'', td_capability = ''read.deploy'',
      td_description =
        ''List deployments and configuration changes for one service over a window.'',
      td_risk_tier = RiskTier.RO, td_provider_kind = ToolProviderKind.SIMULATOR,
      td_effect_class = derive_effect_class None RiskTier.RO,
      td_arguments =
        scope_arguments @
      window_arguments,
      td_result_fields =
        [\<lparr>rf_name = ''deployments'', rf_kind = STRING_LIST, rf_required = False\<rparr>,
       \<lparr>rf_name = ''source'', rf_kind = BOUNDED_STRING, rf_required = True\<rparr>,
       \<lparr>rf_name = ''schema_version'', rf_kind = INTEGER, rf_required = True\<rparr>],
      td_timeout_seconds = 20, td_settling_seconds = 0,
      td_is_idempotent = True,
      td_idempotency_key_fields = [''tenant_id'', ''environment'', ''service'', ''window_start''],
      td_max_attempts = 3, td_retry_backoff_seconds = 1,
      td_preconditions = [],
      td_rollback_tool_name = None, td_audit_events = [''tool.executed''],
      td_max_result_items = 200, td_is_enabled = True\<rparr>"

definition K8S_WORKLOAD_READ :: "ToolDescriptor" where
  "K8S_WORKLOAD_READ =
     \<lparr>td_name = ''k8s.workload.read'', td_version = ''1.0.0'', td_capability = ''read.k8s_workload'',
      td_description =
        ''Read workload state and recent events for one service. Read-only: the credential the broker resolves for this tool is physically incapable of mutation (SI-4).'',
      td_risk_tier = RiskTier.RO, td_provider_kind = ToolProviderKind.SIMULATOR,
      td_effect_class = derive_effect_class None RiskTier.RO,
      td_arguments =
        scope_arguments @
      [(argument_spec ''namespace'' BOUNDED_STRING
         ''Namespace, resolved from the service's registered ownership.'')
         \<lparr>arg_scope_resolved := True, arg_pattern := Some (''[a-z0-9]([a-z0-9-]{0,61}[a-z0-9])?'', name_rx)\<rparr>,
       (argument_spec ''include_events'' BOOLEAN
         ''Include recent namespace events alongside workload status.'')
         \<lparr>arg_required := False\<rparr>],
      td_result_fields =
        [\<lparr>rf_name = ''workloads'', rf_kind = STRING_LIST, rf_required = False\<rparr>,
       \<lparr>rf_name = ''events'', rf_kind = STRING_LIST, rf_required = False\<rparr>,
       \<lparr>rf_name = ''source'', rf_kind = BOUNDED_STRING, rf_required = True\<rparr>,
       \<lparr>rf_name = ''schema_version'', rf_kind = INTEGER, rf_required = True\<rparr>],
      td_timeout_seconds = 30, td_settling_seconds = 0,
      td_is_idempotent = True,
      td_idempotency_key_fields = [''tenant_id'', ''environment'', ''service'', ''namespace''],
      td_max_attempts = 3, td_retry_backoff_seconds = 1,
      td_preconditions = [],
      td_rollback_tool_name = None, td_audit_events = [''tool.executed''],
      td_max_result_items = 200, td_is_enabled = True\<rparr>"

definition KNOWLEDGE_SEARCH :: "ToolDescriptor" where
  "KNOWLEDGE_SEARCH =
     \<lparr>td_name = ''knowledge.search'', td_version = ''1.0.0'', td_capability = ''read.knowledge'',
      td_description =
        ''Search operational knowledge - runbooks, service docs, known errors - scoped to the tenant. Results are RETRIEVED provenance and never confer authority.'',
      td_risk_tier = RiskTier.RO, td_provider_kind = ToolProviderKind.SIMULATOR,
      td_effect_class = derive_effect_class None RiskTier.RO,
      td_arguments =
        scope_arguments @
      [(argument_spec ''topic'' BOUNDED_STRING
         ''Bounded topic phrase used for retrieval.'')
         \<lparr>arg_max_length := 200\<rparr>,
       (argument_spec ''limit'' INTEGER
         ''Maximum documents returned.'')
         \<lparr>arg_required := False, arg_min_value := Some 1, arg_max_value := Some 20\<rparr>],
      td_result_fields =
        [\<lparr>rf_name = ''documents'', rf_kind = STRING_LIST, rf_required = False\<rparr>,
       \<lparr>rf_name = ''source'', rf_kind = BOUNDED_STRING, rf_required = True\<rparr>,
       \<lparr>rf_name = ''schema_version'', rf_kind = INTEGER, rf_required = True\<rparr>],
      td_timeout_seconds = 20, td_settling_seconds = 0,
      td_is_idempotent = True,
      td_idempotency_key_fields = [''tenant_id'', ''environment'', ''service'', ''topic''],
      td_max_attempts = 2, td_retry_backoff_seconds = 1,
      td_preconditions = [],
      td_rollback_tool_name = None, td_audit_events = [''tool.executed''],
      td_max_result_items = 200, td_is_enabled = True\<rparr>"

definition READ_ONLY_CATALOGUE :: "ToolDescriptor list" where
  "READ_ONLY_CATALOGUE =
     [DEPLOY_LIST, K8S_WORKLOAD_READ, KNOWLEDGE_SEARCH, LOGS_QUERY, METRICS_QUERY, TRACES_QUERY]"

definition DOMAIN_CAPABILITY :: "(EvidenceDomain \<times> string) list" where
  "DOMAIN_CAPABILITY =
     [(EvidenceDomain.METRICS, ''read.metrics''),
      (EvidenceDomain.LOGS, ''read.logs''),
      (EvidenceDomain.TRACES, ''read.traces''),
      (EvidenceDomain.DEPLOYMENTS, ''read.deploy''),
      (EvidenceDomain.KUBERNETES_STATE, ''read.k8s_workload''),
      (EvidenceDomain.KNOWLEDGE, ''read.knowledge'')]"

definition RETRIEVED_DOMAINS :: "EvidenceDomain set" where
  "RETRIEVED_DOMAINS =
     {EvidenceDomain.KNOWLEDGE}"

definition REMEDIATION_CATALOGUE_VERSION :: "string" where
  "REMEDIATION_CATALOGUE_VERSION =
     ''2026.09.14-write-1''"

definition k8s_scope_arguments :: "ArgumentSpec list" where
  "k8s_scope_arguments =
     scope_arguments @
      [(argument_spec ''namespace'' BOUNDED_STRING
         ''Namespace, resolved from the service's registered ownership.'')
         \<lparr>arg_scope_resolved := True, arg_pattern := Some (''[a-z0-9]([a-z0-9-]{0,61}[a-z0-9])?'', name_rx)\<rparr>]"

definition K8S_DEPLOYMENT_ROLLBACK :: "ToolDescriptor" where
  "K8S_DEPLOYMENT_ROLLBACK =
     \<lparr>td_name = ''k8s.deployment.rollback'', td_version = ''1.0.0'', td_capability = ''mutate.k8s_deployment'',
      td_description =
        ''Roll a Deployment back to a specific prior revision. The same tool, with the target revision as its own parameter, is this action's declared rollback: rolling forward again is rolling back to a different revision, not a different operation.'',
      td_risk_tier = RiskTier.R1, td_provider_kind = ToolProviderKind.SIMULATOR,
      td_effect_class = derive_effect_class None RiskTier.R1,
      td_arguments =
        k8s_scope_arguments @
      [(argument_spec ''deployment'' BOUNDED_STRING
         ''Deployment name.'')
         \<lparr>arg_pattern := Some (''[a-z0-9]([a-z0-9-]{0,61}[a-z0-9])?'', name_rx)\<rparr>,
       (argument_spec ''to_revision'' INTEGER
         ''Target revision to roll back to.'')
         \<lparr>arg_min_value := Some 1, arg_max_value := Some 1000000\<rparr>],
      td_result_fields =
        [\<lparr>rf_name = ''previous_revision'', rf_kind = INTEGER, rf_required = True\<rparr>,
       \<lparr>rf_name = ''new_revision'', rf_kind = INTEGER, rf_required = True\<rparr>,
       \<lparr>rf_name = ''source'', rf_kind = BOUNDED_STRING, rf_required = True\<rparr>,
       \<lparr>rf_name = ''schema_version'', rf_kind = INTEGER, rf_required = True\<rparr>],
      td_timeout_seconds = 150, td_settling_seconds = 60,
      td_is_idempotent = True,
      td_idempotency_key_fields = [''tenant_id'', ''environment'', ''namespace'', ''deployment'', ''to_revision''],
      td_max_attempts = 1, td_retry_backoff_seconds = 0,
      td_preconditions = [''deployment_exists'', ''target_revision_available'', ''no_other_rollout_in_progress''],
      td_rollback_tool_name = Some ''k8s.deployment.rollback'', td_audit_events = [''tool.executed''],
      td_max_result_items = 200, td_is_enabled = True\<rparr>"

definition K8S_HPA_ADJUST :: "ToolDescriptor" where
  "K8S_HPA_ADJUST =
     \<lparr>td_name = ''k8s.hpa.adjust'', td_version = ''1.0.0'', td_capability = ''mutate.k8s_scale'',
      td_description =
        ''Adjust a HorizontalPodAutoscaler's min/max replica bounds within the range the registry has pre-registered for this workload. The same tool restores the prior bounds and is its own rollback.'',
      td_risk_tier = RiskTier.R1, td_provider_kind = ToolProviderKind.SIMULATOR,
      td_effect_class = derive_effect_class None RiskTier.R1,
      td_arguments =
        k8s_scope_arguments @
      [(argument_spec ''hpa_name'' BOUNDED_STRING
         ''HorizontalPodAutoscaler name.'')
         \<lparr>arg_pattern := Some (''[a-z0-9]([a-z0-9-]{0,61}[a-z0-9])?'', name_rx)\<rparr>,
       (argument_spec ''min_replicas'' INTEGER
         ''New minimum replica count.'')
         \<lparr>arg_min_value := Some 1, arg_max_value := Some 100\<rparr>,
       (argument_spec ''max_replicas'' INTEGER
         ''New maximum replica count.'')
         \<lparr>arg_min_value := Some 1, arg_max_value := Some 100\<rparr>],
      td_result_fields =
        [\<lparr>rf_name = ''previous_min'', rf_kind = INTEGER, rf_required = True\<rparr>,
       \<lparr>rf_name = ''previous_max'', rf_kind = INTEGER, rf_required = True\<rparr>,
       \<lparr>rf_name = ''source'', rf_kind = BOUNDED_STRING, rf_required = True\<rparr>,
       \<lparr>rf_name = ''schema_version'', rf_kind = INTEGER, rf_required = True\<rparr>],
      td_timeout_seconds = 120, td_settling_seconds = 120,
      td_is_idempotent = True,
      td_idempotency_key_fields = [''tenant_id'', ''environment'', ''namespace'', ''hpa_name'', ''min_replicas'', ''max_replicas''],
      td_max_attempts = 1, td_retry_backoff_seconds = 0,
      td_preconditions = [''hpa_exists'', ''bounds_within_registered_maxima''],
      td_rollback_tool_name = Some ''k8s.hpa.adjust'', td_audit_events = [''tool.executed''],
      td_max_result_items = 200, td_is_enabled = True\<rparr>"

definition K8S_NODE_CORDON :: "ToolDescriptor" where
  "K8S_NODE_CORDON =
     \<lparr>td_name = ''k8s.node.cordon'', td_version = ''1.0.0'', td_capability = ''mutate.k8s_node'',
      td_description =
        ''Mark a node unschedulable. Never autonomous (R2): draining or losing a node affects every workload on it, not only the one under investigation.'',
      td_risk_tier = RiskTier.R2, td_provider_kind = ToolProviderKind.SIMULATOR,
      td_effect_class = derive_effect_class None RiskTier.R2,
      td_arguments =
        [(argument_spec ''tenant_id'' UUID_KIND
         ''Owning tenant. Resolved from the bound session, never supplied.'')
         \<lparr>arg_scope_resolved := True\<rparr>,
       (argument_spec ''environment'' BOUNDED_STRING
         ''Environment name resolved from the incident.'')
         \<lparr>arg_scope_resolved := True, arg_pattern := Some (''[a-z][a-z0-9_-]{0,31}'', environment_rx), arg_max_length := 32\<rparr>,
       (argument_spec ''node'' BOUNDED_STRING
         ''Node name.'')
         \<lparr>arg_pattern := Some (''[a-z0-9]([a-z0-9.-]{0,61}[a-z0-9])?'', node_name_rx)\<rparr>],
      td_result_fields =
        [\<lparr>rf_name = ''was_schedulable'', rf_kind = BOOLEAN, rf_required = True\<rparr>,
       \<lparr>rf_name = ''source'', rf_kind = BOUNDED_STRING, rf_required = True\<rparr>,
       \<lparr>rf_name = ''schema_version'', rf_kind = INTEGER, rf_required = True\<rparr>],
      td_timeout_seconds = 60, td_settling_seconds = 10,
      td_is_idempotent = True,
      td_idempotency_key_fields = [''tenant_id'', ''environment'', ''node''],
      td_max_attempts = 1, td_retry_backoff_seconds = 0,
      td_preconditions = [''node_exists'', ''node_not_already_cordoned''],
      td_rollback_tool_name = Some ''k8s.node.uncordon'', td_audit_events = [''tool.executed''],
      td_max_result_items = 200, td_is_enabled = True\<rparr>"

definition K8S_NODE_UNCORDON :: "ToolDescriptor" where
  "K8S_NODE_UNCORDON =
     \<lparr>td_name = ''k8s.node.uncordon'', td_version = ''1.0.0'', td_capability = ''mutate.k8s_node'',
      td_description =
        ''Mark a node schedulable again. The declared rollback of k8s.node.cordon.'',
      td_risk_tier = RiskTier.R2, td_provider_kind = ToolProviderKind.SIMULATOR,
      td_effect_class = derive_effect_class None RiskTier.R2,
      td_arguments =
        td_arguments K8S_NODE_CORDON,
      td_result_fields =
        [\<lparr>rf_name = ''was_schedulable'', rf_kind = BOOLEAN, rf_required = True\<rparr>,
       \<lparr>rf_name = ''source'', rf_kind = BOUNDED_STRING, rf_required = True\<rparr>,
       \<lparr>rf_name = ''schema_version'', rf_kind = INTEGER, rf_required = True\<rparr>],
      td_timeout_seconds = 60, td_settling_seconds = 10,
      td_is_idempotent = True,
      td_idempotency_key_fields = [''tenant_id'', ''environment'', ''node''],
      td_max_attempts = 1, td_retry_backoff_seconds = 0,
      td_preconditions = [''node_exists'', ''node_currently_cordoned''],
      td_rollback_tool_name = Some ''k8s.node.cordon'', td_audit_events = [''tool.executed''],
      td_max_result_items = 200, td_is_enabled = True\<rparr>"

definition NODE_SCOPED_CAPABILITIES :: "string set" where
  "NODE_SCOPED_CAPABILITIES =
     {''mutate.k8s_node''}"

definition WRITE_CATALOGUE :: "ToolDescriptor list" where
  "WRITE_CATALOGUE =
     [K8S_DEPLOYMENT_ROLLBACK, K8S_HPA_ADJUST, K8S_NODE_CORDON, K8S_NODE_UNCORDON]"

definition PRECONDITION_CAPABILITY :: "(string \<times> string) list" where
  "PRECONDITION_CAPABILITY =
     [(''deployment_exists'', ''read.k8s_workload''),
      (''target_revision_available'', ''read.deploy''),
      (''no_other_rollout_in_progress'', ''read.k8s_workload''),
      (''hpa_exists'', ''read.k8s_workload''),
      (''bounds_within_registered_maxima'', ''read.k8s_workload''),
      (''node_exists'', ''read.k8s_workload''),
      (''node_not_already_cordoned'', ''read.k8s_workload''),
      (''node_currently_cordoned'', ''read.k8s_workload'')]"

definition INTEGRATION_CATALOGUE_VERSION :: "string" where
  "INTEGRATION_CATALOGUE_VERSION =
     ''2026.09.16-integrations-1''"

definition NOTIFICATION_EVENT_TYPES :: "string list" where
  "NOTIFICATION_EVENT_TYPES =
     [''incident_opened'', ''incident_escalated'', ''incident_resolved'', ''approval_requested'', ''remediation_executed'', ''verification_completed'']"

definition event_arguments :: "ArgumentSpec list" where
  "event_arguments =
     scope_arguments @
      [(argument_spec ''event_id'' BOUNDED_STRING
         ''Deterministic digest of the incident transition being announced.'')
         \<lparr>arg_pattern := Some (''[0-9a-f]{64}'', event_id_rx), arg_max_length := 64\<rparr>,
       (argument_spec ''event_type'' ENUM
         ''Which lifecycle transition this record announces.'')
         \<lparr>arg_allowed_values := NOTIFICATION_EVENT_TYPES\<rparr>,
       (argument_spec ''incident_reference'' BOUNDED_STRING
         ''The incident's human reference, e.g. INC-0042.'')
         \<lparr>arg_pattern := Some (''[A-Za-z][A-Za-z0-9-]{0,39}'', incident_reference_rx), arg_max_length := 40\<rparr>,
       (argument_spec ''severity'' ENUM
         ''Incident severity.'')
         \<lparr>arg_allowed_values := [''sev1'', ''sev2'', ''sev3'', ''sev4'']\<rparr>,
       (argument_spec ''status'' BOUNDED_STRING
         ''Incident lifecycle status at the time of the event.'')
         \<lparr>arg_pattern := Some (''[a-z][a-z_]{0,31}'', status_rx), arg_max_length := 32\<rparr>,
       (argument_spec ''summary'' BOUNDED_STRING
         ''Bounded summary rendered by S2 from records. Treated as untrusted display text by every adapter: escaped, never interpreted.'')
         \<lparr>arg_max_length := 300\<rparr>]"

definition record_result :: "ResultField list" where
  "record_result =
     [\<lparr>rf_name = ''external_reference'', rf_kind = BOUNDED_STRING, rf_required = True\<rparr>,
      \<lparr>rf_name = ''created'', rf_kind = BOOLEAN, rf_required = True\<rparr>,
      \<lparr>rf_name = ''source'', rf_kind = BOUNDED_STRING, rf_required = True\<rparr>,
      \<lparr>rf_name = ''schema_version'', rf_kind = INTEGER, rf_required = True\<rparr>]"

definition integration_record :: "string \<Rightarrow> string \<Rightarrow> string \<Rightarrow> int \<Rightarrow> ToolDescriptor" where
  "integration_record name capability description timeout =
     \<lparr>td_name = name, td_version = ''1.0.0'', td_capability = capability,
      td_description =
        description,
      td_risk_tier = RiskTier.R1, td_provider_kind = ToolProviderKind.NATIVE,
      td_effect_class = derive_effect_class (Some ToolEffectClass.EXTERNAL_RECORD) RiskTier.R1,
      td_arguments =
        event_arguments,
      td_result_fields =
        record_result,
      td_timeout_seconds = timeout, td_settling_seconds = 0,
      td_is_idempotent = True,
      td_idempotency_key_fields = [''tenant_id'', ''environment'', ''service'', ''event_id''],
      td_max_attempts = 1, td_retry_backoff_seconds = 0,
      td_preconditions = [],
      td_rollback_tool_name = None, td_audit_events = [''tool.executed''],
      td_max_result_items = 200, td_is_enabled = True\<rparr>"

definition SLACK_POST :: "ToolDescriptor" where
  "SLACK_POST =
     integration_record ''slack.post'' ''notify.slack_channel''
       ''Post a templated incident update to the tenant's configured Slack channel.'' 20"

definition TEAMS_POST :: "ToolDescriptor" where
  "TEAMS_POST =
     integration_record ''teams.post'' ''notify.teams_channel''
       ''Post a templated incident card to the tenant's configured Microsoft Teams workflow.'' 20"

definition PAGERDUTY_EVENT :: "ToolDescriptor" where
  "PAGERDUTY_EVENT =
     integration_record ''pagerduty.event'' ''write.pagerduty_event''
       ''Send a PagerDuty Events API v2 trigger/acknowledge/resolve derived from the internal incident status. PagerDuty state never drives internal incident state.'' 20"

definition JIRA_ISSUE :: "ToolDescriptor" where
  "JIRA_ISSUE =
     integration_record ''jira.issue.create'' ''write.jira_issue''
       ''Create, or find the already-created, Jira issue for one incident (label-deduplicated).'' 30"

definition JIRA_COMMENT :: "ToolDescriptor" where
  "JIRA_COMMENT =
     integration_record ''jira.issue.comment'' ''write.jira_comment''
       ''Append a structured status comment to the incident's own Jira issue.'' 30"

definition GRAFANA_ANNOTATION :: "ToolDescriptor" where
  "GRAFANA_ANNOTATION =
     integration_record ''grafana.annotation.create'' ''write.grafana_annotation''
       ''Annotate the tenant's configured service dashboard with an incident lifecycle event.'' 20"

definition INTEGRATION_CATALOGUE :: "ToolDescriptor list" where
  "INTEGRATION_CATALOGUE =
     [GRAFANA_ANNOTATION, JIRA_COMMENT, JIRA_ISSUE, PAGERDUTY_EVENT, SLACK_POST, TEAMS_POST]"

definition capability_for_domain :: "EvidenceDomain \<Rightarrow> (py_error, string) result" where
  "capability_for_domain d =
     (case map_of DOMAIN_CAPABILITY d of None \<Rightarrow> Inl KeyError | Some c \<Rightarrow> Inr c)"

section \<open>Facts\<close>

text \<open>
  The names that occur are checked once; a descriptor is then checked up to them.
\<close>

definition SAFE_ARGUMENTS :: "string list" where
  "SAFE_ARGUMENTS =
     [''tenant_id'', ''environment'', ''service'', ''window_start'', ''window_end'', ''contains'',
      ''deployment'', ''event_id'', ''event_type'', ''hpa_name'', ''incident_reference'',
      ''include_events'', ''limit'', ''max_replicas'', ''metric'', ''min_duration_ms'',
      ''min_level'', ''min_replicas'', ''namespace'', ''node'', ''severity'', ''status'',
      ''step_seconds'', ''summary'', ''to_revision'', ''topic'']"

definition SAFE_RESULTS :: "string list" where
  "SAFE_RESULTS =
     [''created'', ''deployments'', ''documents'', ''events'', ''external_reference'', ''lines'',
      ''new_revision'', ''operations'', ''previous_max'', ''previous_min'', ''previous_revision'',
      ''samples'', ''schema_version'', ''source'', ''truncated'', ''unit'', ''was_schedulable'',
      ''workloads'']"

lemma safe_arguments: "list_all name_is_safe SAFE_ARGUMENTS"
  by code_simp

lemma safe_results: "check_field_names SAFE_RESULTS = []"
  by code_simp

definition argument_known :: "ArgumentSpec \<Rightarrow> bool" where
  "argument_known a \<longleftrightarrow> arg_name a \<in> set SAFE_ARGUMENTS \<and> kind_constraints_coherent a"

definition shaped :: "ToolDescriptor \<Rightarrow> bool" where
  "shaped d \<longleftrightarrow>
     list_all argument_known (td_arguments d) \<and>
     list_all (\<lambda>f. rf_name f \<in> set SAFE_RESULTS) (td_result_fields d) \<and> descriptor_bounds d \<and>
     dotted_lowercase (td_name d) \<and> dotted_lowercase (td_capability d) \<and> semver (td_version d) \<and>
     is_ok (safety_invariants (d\<lparr>td_result_fields := []\<rparr>))"

lemma argument_known_ok: "argument_known a \<Longrightarrow> is_ok (argument_post_init a)"
  using safe_arguments by (simp add: argument_known_def argument_post_init_def list_all_iff)

lemma check_field_names_Nil:
  "check_field_names ns = [] \<longleftrightarrow>
     (\<forall>n \<in> set ns. \<not> is_forbidden_execution_field n \<and> \<not> is_forbidden_secret_field n)"
  by (induction ns) auto

lemma shaped_constructs:
  assumes "shaped d"
  shows "is_ok (descriptor_post_init d)"
proof -
  have "check_field_names (map rf_name (td_result_fields d)) = []"
    using assms safe_results unfolding check_field_names_Nil shaped_def list_all_iff by auto
  moreover have "\<forall>a \<in> set (td_arguments d). is_ok (argument_post_init a)"
    using assms argument_known_ok by (simp add: shaped_def list_all_iff)
  ultimately show ?thesis
    using assms
    by (auto simp: shaped_def descriptor_post_init_def safety_invariants_def Let_def split: if_splits)
qed

lemma catalogues_shaped: "list_all shaped READ_ONLY_CATALOGUE" "list_all shaped WRITE_CATALOGUE"
  by code_simp+

lemma read_only_constructs: "list_all (\<lambda>d. is_ok (descriptor_post_init d)) READ_ONLY_CATALOGUE"
  using catalogues_shaped(1) shaped_constructs by (auto simp: list_all_iff)

lemma write_constructs: "list_all (\<lambda>d. is_ok (descriptor_post_init d)) WRITE_CATALOGUE"
  using catalogues_shaped(2) shaped_constructs by (auto simp: list_all_iff)

lemma event_arguments_known:
  "list_all argument_known event_arguments"
  "list_all (\<lambda>n. n \<in> set SAFE_RESULTS) (map rf_name record_result)"
  by code_simp+

lemma event_arguments_ok:
  "list_all (\<lambda>a. is_ok (argument_post_init a)) event_arguments"
  "distinct (map arg_name event_arguments)"
  "{''tenant_id'', ''environment'', ''service'', ''event_id''} \<subseteq> arg_name ` set event_arguments"
  "check_field_names (map rf_name record_result) = []"
proof -
  show "list_all (\<lambda>a. is_ok (argument_post_init a)) event_arguments"
    using event_arguments_known(1) argument_known_ok by (auto simp: list_all_iff)
  show "check_field_names (map rf_name record_result) = []"
    using event_arguments_known(2) safe_results unfolding check_field_names_Nil list_all_iff by auto
qed code_simp+

lemma dotted_semver: "semver ''1.0.0''"
  by code_simp

lemma integration_record_constructs:
  "dotted_lowercase name \<Longrightarrow> dotted_lowercase cap \<Longrightarrow> 1 \<le> timeout \<Longrightarrow> timeout \<le> 3600 \<Longrightarrow>
   is_ok (descriptor_post_init (integration_record name cap desc timeout))"
  using event_arguments_ok dotted_semver
  by (simp add: descriptor_post_init_def safety_invariants_def integration_record_def
      derive_effect_class_def descriptor_bounds_def list_all_iff)

lemma integration_names:
  "list_all dotted_lowercase
     [''slack.post'', ''notify.slack_channel'', ''teams.post'', ''notify.teams_channel'',
      ''pagerduty.event'', ''write.pagerduty_event'', ''jira.issue.create'', ''write.jira_issue'',
      ''jira.issue.comment'', ''write.jira_comment'', ''grafana.annotation.create'',
      ''write.grafana_annotation'']"
  by code_simp

lemma integration_constructs: "list_all (\<lambda>d. is_ok (descriptor_post_init d)) INTEGRATION_CATALOGUE"
  using integration_names
  by (simp add: INTEGRATION_CATALOGUE_def SLACK_POST_def TEAMS_POST_def PAGERDUTY_EVENT_def
      JIRA_ISSUE_def JIRA_COMMENT_def GRAFANA_ANNOTATION_def integration_record_constructs)

lemma post_init_ok: "is_ok (descriptor_post_init d) \<longleftrightarrow> descriptor_post_init d = Inr d"
proof -
  have "descriptor_post_init d = Inr d' \<Longrightarrow> d' = d" for d' using descriptor_distinct by blast
  then show ?thesis by (auto simp: is_ok_def split: sum.split)
qed

lemma catalogue_constructs:
  "d \<in> set (READ_ONLY_CATALOGUE @ WRITE_CATALOGUE @ INTEGRATION_CATALOGUE) \<Longrightarrow>
   descriptor_post_init d = Inr d"
  using read_only_constructs write_constructs integration_constructs
  by (auto simp: post_init_ok list_all_iff)

lemma catalogue_tiers:
  "list_all (\<lambda>d. td_risk_tier d = RiskTier.RO) READ_ONLY_CATALOGUE"
  "list_all (\<lambda>d. td_risk_tier d \<noteq> RiskTier.RO) WRITE_CATALOGUE"
  "list_all (\<lambda>d. td_effect_class d = ToolEffectClass.EXTERNAL_RECORD) INTEGRATION_CATALOGUE"
  by code_simp+

lemma catalogue_scope_names:
  "list_all (\<lambda>d. ''tenant_id'' \<in> scope_argument_names d \<and> ''environment'' \<in> scope_argument_names d)
     (READ_ONLY_CATALOGUE @ WRITE_CATALOGUE @ INTEGRATION_CATALOGUE)"
  by code_simp

lemma catalogue_names_distinct:
  "distinct (map td_name (READ_ONLY_CATALOGUE @ WRITE_CATALOGUE @ INTEGRATION_CATALOGUE))"
  by code_simp

lemma read_capabilities_distinct: "distinct (map td_capability READ_ONLY_CATALOGUE)"
  by code_simp

lemma write_rollback_registered:
  "list_all (\<lambda>d. \<exists>r \<in> set WRITE_CATALOGUE.
     td_rollback_tool_name d = Some (td_name r) \<and> td_capability r = td_capability d) WRITE_CATALOGUE"
  by code_simp

lemma node_scoped_high_risk:
  "list_all (\<lambda>d. td_capability d \<in> NODE_SCOPED_CAPABILITIES \<longrightarrow> td_risk_tier d = RiskTier.R2)
     WRITE_CATALOGUE"
  by code_simp

lemma preconditions_answerable:
  "list_all (\<lambda>d. \<forall>c \<in> set (td_preconditions d). \<exists>r \<in> set READ_ONLY_CATALOGUE.
     map_of PRECONDITION_CAPABILITY c = Some (td_capability r)) WRITE_CATALOGUE"
  by code_simp

lemma domain_capability_registered:
  "\<exists>c. capability_for_domain d = Inr c \<and> c \<in> td_capability ` set READ_ONLY_CATALOGUE"
proof -
  have "list_all (\<lambda>d. case capability_for_domain d of Inl _ \<Rightarrow> False
      | Inr c \<Rightarrow> c \<in> td_capability ` set READ_ONLY_CATALOGUE) EvidenceDomain_members"
    by code_simp
  then show ?thesis
    using evidence_domain.complete [of d]
    by (cases "capability_for_domain d") (auto simp: list_all_iff split: sum.splits)
qed

text \<open>Scope of a write or external record: the tenant and environment are always resolved.\<close>

lemma scope_always_resolved:
  "list_all (\<lambda>d. {''tenant_id'', ''environment''} \<subseteq> scope_argument_names d)
     (READ_ONLY_CATALOGUE @ WRITE_CATALOGUE @ INTEGRATION_CATALOGUE)"
  by code_simp

end
