(* ===== verification/Tool_Registry.thy ===== *)
theory Tool_Registry
  imports Tool_Catalogue "HOL-Library.List_Lexorder" "HOL-Library.Char_ord"
begin

text \<open>
  The tool registry, \<open>src/asic/tools/registry.py\<close>: lookup by name and by capability over a
  fixed list of descriptors, and the comparison of the code's catalogue with the rows of
  \<open>tool_definition\<close>. A dictionary is an association list in insertion order; drift reports
  keep the name of the tool and of the field. Python's equality of JSON values (order-free
  mappings, \<open>1 == 1.0 == True\<close>) is \<open>py_eq\<close>.
\<close>

section \<open>Equality of JSON values\<close>

fun num_of :: "pyval \<Rightarrow> rat option" where
  "num_of (PBool b) = Some (if b then 1 else 0)"
| "num_of (PInt i) = Some (of_int i)"
| "num_of (PFloat r) = Some r"
| "num_of _ = None"

function (sequential) py_eq :: "pyval \<Rightarrow> pyval \<Rightarrow> bool" where
  "py_eq (PDict a) (PDict b) =
     (fst ` set a = fst ` set b \<and>
      (\<forall>(k, v) \<in> set a. case map_of b k of None \<Rightarrow> False | Some w \<Rightarrow> py_eq v w))"
| "py_eq (PList xs) (PList ys) =
     (length xs = length ys \<and> (\<forall>(x, y) \<in> set (zip xs ys). py_eq x y))"
| "py_eq v w =
     (case (num_of v, num_of w) of
        (Some a, Some b) \<Rightarrow> a = b
      | (None, None) \<Rightarrow> v = w
      | _ \<Rightarrow> False)"
  by pat_completeness auto
termination
proof (relation "measure (\<lambda>(v, w). size v)", goal_cases)
  case (2 a b x k v w)
  then have "size v \<le> size_list (size_prod (\<lambda>x. 0) size) a"
    by (intro size_list_estimation' [of "(k, v)"]) auto
  then show ?case by simp
next
  case (3 xs ys z x y)
  then have "x \<in> set xs" by (auto dest: set_zip_leftD)
  then have "size x \<le> size_list size xs" by (rule size_list_estimation') simp
  then show ?case by simp
qed simp

section \<open>The registry\<close>

record ToolRegistry =
  by_name_map :: "(string \<times> ToolDescriptor) list"
  by_capability_map :: "(string \<times> ToolDescriptor list) list"
  registry_version :: string

fun registry_loop ::
  "ToolDescriptor list \<Rightarrow> (string \<times> ToolDescriptor) list \<Rightarrow> (string \<times> ToolDescriptor list) list \<Rightarrow>
   (py_error, (string \<times> ToolDescriptor) list \<times> (string \<times> ToolDescriptor list) list) result" where
  "registry_loop [] names caps = Inr (names, caps)"
| "registry_loop (d # ds) names caps =
     (if map_of names (td_name d) \<noteq> None then Inl RegistryDrift
      else registry_loop ds (AList.update (td_name d) d names)
        (AList.update (td_capability d)
           ((case map_of caps (td_capability d) of None \<Rightarrow> [] | Some xs \<Rightarrow> xs) @ [d]) caps))"

definition make_registry :: "ToolDescriptor list \<Rightarrow> string \<Rightarrow> (py_error, ToolRegistry) result" where
  "make_registry ds version =
     andThen (registry_loop ds [] []) (\<lambda>(names, caps).
       Inr \<lparr>by_name_map = names, by_capability_map = caps, registry_version = version\<rparr>)"

definition registry_read_only :: "(py_error, ToolRegistry) result" where
  "registry_read_only =
     andThen (assert_no_write_capability READ_ONLY_CATALOGUE) (\<lambda>_.
       make_registry READ_ONLY_CATALOGUE CATALOGUE_VERSION)"

definition registry_remediation :: "(py_error, ToolRegistry) result" where
  "registry_remediation = make_registry WRITE_CATALOGUE REMEDIATION_CATALOGUE_VERSION"

definition registry_remediation_full :: "(py_error, ToolRegistry) result" where
  "registry_remediation_full =
     make_registry (READ_ONLY_CATALOGUE @ WRITE_CATALOGUE)
       (CATALOGUE_VERSION @ ''+'' @ REMEDIATION_CATALOGUE_VERSION)"

definition registry_integrations :: "(py_error, ToolRegistry) result" where
  "registry_integrations = make_registry INTEGRATION_CATALOGUE INTEGRATION_CATALOGUE_VERSION"

definition capabilities :: "ToolRegistry \<Rightarrow> string set" where
  "capabilities r = fst ` set (by_capability_map r)"

definition descriptors :: "ToolRegistry \<Rightarrow> ToolDescriptor list" where
  "descriptors r =
     List.map_filter (map_of (by_name_map r)) (sort (map fst (by_name_map r)))"

definition by_name :: "ToolRegistry \<Rightarrow> string \<Rightarrow> (py_error, ToolDescriptor) result" where
  "by_name r name =
     (case map_of (by_name_map r) name of None \<Rightarrow> Inl UnregisteredCapability | Some d \<Rightarrow> Inr d)"

definition for_capability :: "ToolRegistry \<Rightarrow> string \<Rightarrow> (py_error, ToolDescriptor) result" where
  "for_capability r capability =
     (case filter td_is_enabled
             (case map_of (by_capability_map r) capability of None \<Rightarrow> [] | Some ds \<Rightarrow> ds) of
        [] \<Rightarrow> Inl UnregisteredCapability
      | [d] \<Rightarrow> Inr d
      | _ \<Rightarrow> Inl RegistryDrift)"

section \<open>Agreement with the database\<close>

record tool_row =
  tr_id :: string
  tr_name :: string
  tr_version :: string
  tr_capability :: string
  tr_risk_tier :: RiskTier
  tr_effect_class :: ToolEffectClass
  tr_major_version :: nat
  tr_timeout_seconds :: int
  tr_settling_seconds :: int
  tr_is_idempotent :: bool
  tr_rollback_tool_name :: "string option"
  tr_provider_kind :: ToolProviderKind
  tr_input_schema :: pyval
  tr_idempotency_key_fields :: "string list"
  tr_credential_ref :: "string option"
  tr_is_enabled :: bool

record RegisteredTool =
  rt_descriptor :: ToolDescriptor
  rt_definition_id :: string
  rt_credential_ref :: "string option"

definition compare_fields :: "ToolDescriptor \<Rightarrow> tool_row \<Rightarrow> (string \<times> bool) list" where
  "compare_fields d row =
     [(''capability'', td_capability d = tr_capability row),
      (''risk_tier'', td_risk_tier d = tr_risk_tier row),
      (''effect_class'', td_effect_class d = tr_effect_class row),
      (''major_version'', major_version d = tr_major_version row),
      (''timeout_seconds'', td_timeout_seconds d = tr_timeout_seconds row),
      (''settling_seconds'', td_settling_seconds d = tr_settling_seconds row),
      (''is_idempotent'', td_is_idempotent d = tr_is_idempotent row),
      (''rollback_tool_name'', td_rollback_tool_name d = tr_rollback_tool_name row),
      (''provider_kind'', td_provider_kind d = tr_provider_kind row),
      (''input_schema'', py_eq (PDict (input_schema d)) (tr_input_schema row)),
      (''idempotency_key_fields'', td_idempotency_key_fields d = tr_idempotency_key_fields row)]"

definition compare_tool :: "ToolDescriptor \<Rightarrow> tool_row \<Rightarrow> (string \<times> string) list" where
  "compare_tool d row =
     map (\<lambda>(f, _). (td_name d, f)) (filter (\<lambda>(_, same). \<not> same) (compare_fields d row))"

text \<open>The dictionary keyed by name and version: the last row of a key wins.\<close>

definition rows_by_key :: "tool_row list \<Rightarrow> ((string \<times> string) \<times> tool_row) list" where
  "rows_by_key rows = rev (map (\<lambda>row. ((tr_name row, tr_version row), row)) rows)"

fun join_rows ::
  "ToolDescriptor list \<Rightarrow> tool_row list \<Rightarrow>
   (string \<times> string) list \<times> (string \<times> RegisteredTool) list" where
  "join_rows [] rows = ([], [])"
| "join_rows (d # ds) rows =
     (let (problems, joined) = join_rows ds rows in
      case map_of (rows_by_key rows) (td_name d, td_version d) of
        None \<Rightarrow> ((td_name d, ''missing'') # problems, joined)
      | Some row \<Rightarrow>
          (compare_tool d row @ problems,
           (td_name d, \<lparr>rt_descriptor = d, rt_definition_id = tr_id row,
                        rt_credential_ref = tr_credential_ref row\<rparr>) # joined))"

definition assert_matches_database ::
  "ToolRegistry \<Rightarrow> tool_row list \<Rightarrow> (py_error, (string \<times> RegisteredTool) list) result" where
  "assert_matches_database r rows =
     (let (problems, joined) = join_rows (descriptors r) rows in
      if problems \<noteq> [] then Inl RegistryDrift else Inr joined)"

definition known_tools :: "ToolRegistry list \<Rightarrow> (string \<times> string) set" where
  "known_tools rs = (\<Union>r \<in> set rs. (\<lambda>d. (td_name d, td_version d)) ` set (descriptors r))"

definition assert_no_orphan_tool_rows ::
  "tool_row list \<Rightarrow> ToolRegistry list \<Rightarrow> (py_error, unit) result" where
  "assert_no_orphan_tool_rows rows rs =
     guard (\<forall>row \<in> set rows. (tr_name row, tr_version row) \<in> known_tools rs) RegistryDrift"

section \<open>Facts\<close>

lemma registry_loop_names:
  "registry_loop ds names caps = Inr (ns, cs) \<Longrightarrow>
   map_of ns = map_of names ++ map_of (map (\<lambda>d. (td_name d, d)) ds) \<and>
   distinct (map td_name ds) \<and> td_name ` set ds \<inter> fst ` set names = {} \<and>
   fst ` set ns = fst ` set names \<union> td_name ` set ds \<and>
   (distinct (map fst names) \<longrightarrow> distinct (map fst ns))"
proof (induction ds arbitrary: names caps)
  case (Cons d ds)
  let ?names = "AList.update (td_name d) d names"
  have new: "td_name d \<notin> fst ` set names"
    using Cons.prems by (auto simp: map_of_eq_None_iff split: if_splits)
  have step: "\<exists>caps'. registry_loop ds ?names caps' = Inr (ns, cs)"
    using Cons.prems by (auto split: if_splits)
  then have IH: "map_of ns = map_of ?names ++ map_of (map (\<lambda>d. (td_name d, d)) ds) \<and>
      distinct (map td_name ds) \<and> td_name ` set ds \<inter> fst ` set ?names = {} \<and>
      fst ` set ns = fst ` set ?names \<union> td_name ` set ds \<and>
      (distinct (map fst ?names) \<longrightarrow> distinct (map fst ns))"
    using Cons.IH by blast
  have keys: "fst ` set ?names = insert (td_name d) (fst ` set names)"
    by (simp add: dom_map_of_conv_image_fst [symmetric] update_conv')
  have "td_name d \<notin> dom (map_of (map (\<lambda>d. (td_name d, d)) ds))"
    using IH keys by (auto simp: dom_map_of_conv_image_fst image_iff)
  then have "map_of ns = map_of names ++ map_of (map (\<lambda>d. (td_name d, d)) (d # ds))"
    using IH by (simp add: update_conv' map_add_upd_left)
  moreover have "distinct (map td_name (d # ds)) \<and>
      td_name ` set (d # ds) \<inter> fst ` set names = {} \<and>
      fst ` set ns = fst ` set names \<union> td_name ` set (d # ds) \<and>
      (distinct (map fst names) \<longrightarrow> distinct (map fst ns))"
    using IH new unfolding keys by (auto simp: distinct_update)
  ultimately show ?case by blast
qed auto

lemma map_of_td_name:
  "distinct (map td_name ds) \<Longrightarrow>
   map_of (map (\<lambda>d. (td_name d, d)) ds) n = Some d \<longleftrightarrow> d \<in> set ds \<and> td_name d = n"
  by (induction ds) (auto simp: image_iff)

lemma make_registry_Inr:
  assumes "make_registry ds v = Inr r"
  shows "map_of (by_name_map r) = map_of (map (\<lambda>d. (td_name d, d)) ds)"
    "distinct (map td_name ds)" "fst ` set (by_name_map r) = td_name ` set ds"
    "distinct (map fst (by_name_map r))"
proof -
  obtain ns cs where l: "registry_loop ds [] [] = Inr (ns, cs)" and r: "by_name_map r = ns"
    using assms by (auto simp: make_registry_def result_simps)
  from registry_loop_names [OF l] r
  show "map_of (by_name_map r) = map_of (map (\<lambda>d. (td_name d, d)) ds)"
    "distinct (map td_name ds)" "fst ` set (by_name_map r) = td_name ` set ds"
    "distinct (map fst (by_name_map r))"
    by simp_all
qed

lemma by_name_map_iff:
  "make_registry ds v = Inr r \<Longrightarrow>
   map_of (by_name_map r) n = Some d \<longleftrightarrow> d \<in> set ds \<and> td_name d = n"
  by (simp add: make_registry_Inr(1) map_of_td_name [OF make_registry_Inr(2)])

lemma descriptors_set:
  assumes "make_registry ds v = Inr r"
  shows "set (descriptors r) = set ds"
proof -
  have "d \<in> set (descriptors r) \<longleftrightarrow>
      (\<exists>n \<in> td_name ` set ds. map_of (by_name_map r) n = Some d)" for d
    unfolding make_registry_Inr(3) [OF assms, symmetric]
    by (auto simp: descriptors_def map_filter_def image_iff) force+
  then show ?thesis using by_name_map_iff [OF assms] by auto
qed

lemma by_name_Inr:
  "make_registry ds v = Inr r \<Longrightarrow> by_name r n = Inr d \<longleftrightarrow> d \<in> set ds \<and> td_name d = n"
  using by_name_map_iff [of ds v r n d] by (auto simp: by_name_def split: option.split)

lemma for_capability_Inr: "for_capability r c = Inr d \<Longrightarrow> td_is_enabled d"
proof -
  assume f: "for_capability r c = Inr d"
  let ?ds = "case map_of (by_capability_map r) c of None \<Rightarrow> [] | Some ds \<Rightarrow> ds"
  have "filter td_is_enabled ?ds = [d]"
    using f by (auto simp: for_capability_def split: list.splits)
  then have "d \<in> set (filter td_is_enabled ?ds)" by simp
  then show ?thesis by simp
qed

lemma join_rows_clean:
  "join_rows ds rows = ([], joined) \<Longrightarrow>
   map fst joined = map td_name ds \<and>
   (\<forall>(n, t) \<in> set joined. rt_descriptor t \<in> set ds \<and> td_name (rt_descriptor t) = n \<and>
      (\<exists>row \<in> set rows. tr_id row = rt_definition_id t \<and> tr_name row = n \<and>
         tr_version row = td_version (rt_descriptor t) \<and> compare_tool (rt_descriptor t) row = []))"
proof (induction ds arbitrary: joined)
  case (Cons d ds)
  from Cons.prems obtain row js where row: "map_of (rows_by_key rows) (td_name d, td_version d) = Some row"
      and js: "join_rows ds rows = ([], js)" and cmp: "compare_tool d row = []"
      and joined: "joined = (td_name d, \<lparr>rt_descriptor = d, rt_definition_id = tr_id row,
                        rt_credential_ref = tr_credential_ref row\<rparr>) # js"
    by (auto simp: Let_def split: option.splits prod.splits)
  from row have "row \<in> set rows" "tr_name row = td_name d" "tr_version row = td_version d"
    by (auto simp: rows_by_key_def dest!: map_of_SomeD)
  with Cons.IH [OF js] cmp joined show ?case by auto
qed simp

lemma compare_tool_Nil:
  "compare_tool d row = [] \<Longrightarrow>
   td_capability d = tr_capability row \<and> td_risk_tier d = tr_risk_tier row \<and>
   td_effect_class d = tr_effect_class row \<and> td_timeout_seconds d = tr_timeout_seconds row \<and>
   td_is_idempotent d = tr_is_idempotent row \<and>
   td_rollback_tool_name d = tr_rollback_tool_name row"
  by (simp add: compare_tool_def compare_fields_def split: if_splits)

end
