(* ===== verification/Db_Query.thy ===== *)
theory Db_Query
  imports Tool_Registry
begin

text \<open>
  What the modelled code uses of SQLAlchemy: a table is a list of row records, a query is a
  filter over it, and the row count of the result decides what \<open>scalar_one\<close> and
  \<open>scalar_one_or_none\<close> do. Timestamps are microseconds since the epoch. The lemmas: what a
  returned row satisfies, and that adding a row keeps the answers of the queries it does not match.
\<close>

definition microseconds :: "int \<Rightarrow> int" where "microseconds seconds = seconds * 1000000"

definition MultipleResultsFound :: py_error where
  "MultipleResultsFound = OtherException ''MultipleResultsFound''"

definition scalar_one_or_none :: "'a list \<Rightarrow> (py_error, 'a option) result" where
  "scalar_one_or_none rows =
     (case rows of [] \<Rightarrow> Inr None | [r] \<Rightarrow> Inr (Some r) | _ \<Rightarrow> Inl MultipleResultsFound)"

definition scalar_one :: "'a list \<Rightarrow> (py_error, 'a) result" where
  "scalar_one rows =
     (case rows of [] \<Rightarrow> Inl NoResultFound | [r] \<Rightarrow> Inr r | _ \<Rightarrow> Inl MultipleResultsFound)"

text \<open>\<open>order_by(col.desc()).limit(1)\<close>: the row with the greatest key, if any.\<close>

definition newest :: "('a \<Rightarrow> int) \<Rightarrow> 'a list \<Rightarrow> 'a option" where
  "newest key rows = (case sort_key (\<lambda>r. - key r) rows of [] \<Rightarrow> None | r # _ \<Rightarrow> Some r)"

text \<open>\<open>d.get(k)\<close> on a mapping.\<close>

definition dict_get :: "(string \<times> pyval) list \<Rightarrow> string \<Rightarrow> pyval" where
  "dict_get m k = (case map_of m k of None \<Rightarrow> PNone | Some v \<Rightarrow> v)"

named_theorems query_simps \<open>results of queries\<close>
named_theorems raise_simps \<open>when a guarded block returns\<close>

lemma case_option_raise [raise_simps]:
  "(case x of None \<Rightarrow> Inl e | Some y \<Rightarrow> f y) = Inr z \<longleftrightarrow> (\<exists>y. x = Some y \<and> f y = Inr z)"
  by (cases x) auto

lemma if_raise [raise_simps]:
  "(if c then Inl e else r) = Inr z \<longleftrightarrow> \<not> c \<and> r = Inr z"
  "(if c then r else Inl e) = Inr z \<longleftrightarrow> c \<and> r = Inr z"
  by auto

lemma if_refuse [raise_simps]:
  "(if c then Inr False else r) = Inr True \<longleftrightarrow> \<not> c \<and> r = Inr True"
  "(case x of None \<Rightarrow> Inr False | Some y \<Rightarrow> f y) = Inr True \<longleftrightarrow> (\<exists>y. x = Some y \<and> f y = Inr True)"
  by (cases x; auto)+

declare andThen_eq_Inr [raise_simps] guard_eq [raise_simps]

lemma scalar_one_or_none_eq [query_simps]:
  "scalar_one_or_none rows = Inr (Some r) \<longleftrightarrow> rows = [r]"
  "scalar_one_or_none rows = Inr None \<longleftrightarrow> rows = []"
  by (auto simp: scalar_one_or_none_def split: list.splits)

lemma scalar_one_eq [query_simps]: "scalar_one rows = Inr r \<longleftrightarrow> rows = [r]"
  by (auto simp: scalar_one_def split: list.splits)

lemma filter_singleton: "filter P xs = [x] \<Longrightarrow> x \<in> set xs \<and> P x"
  by (metis filter_set list.set_intros(1) mem_Collect_eq set_filter)

lemma newest_SomeD:
  assumes "newest key rows = Some r"
  shows "r \<in> set rows \<and> (\<forall>s \<in> set rows. key s \<le> key r)"
proof -
  obtain rs where rs: "sort_key (\<lambda>r. - key r) rows = r # rs"
    using assms by (auto simp: newest_def split: list.splits)
  have "sorted (map (\<lambda>r. - key r) (r # rs))" by (simp flip: rs)
  moreover have "set (r # rs) = set rows" by (simp flip: rs)
  ultimately show ?thesis by auto
qed

lemma newest_None [query_simps]: "newest key rows = None \<longleftrightarrow> rows = []"
  by (auto simp: newest_def split: list.splits dest: arg_cong [where f = length])

lemma newest_singleton [simp]: "newest key [r] = Some r"
  by (simp add: newest_def)

end
