(* ===== verification/One_Shot.thy ===== *)
theory One_Shot
  imports Db_Query
begin

text \<open>
  The interface of a one-shot register: a state in which a key is taken at most once. The
  effect claims of the broker and the decided approvals are both used this way. A step of the
  provider is labelled with the key it takes, if any; the client's lemma is that the keys
  taken along a run are distinct, whatever other steps come between.
\<close>

inductive labelled_run :: "('s \<Rightarrow> 'k option \<Rightarrow> 's \<Rightarrow> bool) \<Rightarrow> 's \<Rightarrow> 'k list \<Rightarrow> 's \<Rightarrow> bool"
  for step where
  stop: "labelled_run step s [] s"
| take: "step s (Some k) s' \<Longrightarrow> labelled_run step s' ks s'' \<Longrightarrow> labelled_run step s (k # ks) s''"
| other: "step s None s' \<Longrightarrow> labelled_run step s' ks s'' \<Longrightarrow> labelled_run step s ks s''"

inductive_cases labelled_runE: "labelled_run step s ks s'"

locale one_shot =
  fixes holds :: "'s \<Rightarrow> 'k \<Rightarrow> bool"
    and step :: "'s \<Rightarrow> 'k option \<Rightarrow> 's \<Rightarrow> bool"
  assumes take_fresh: "step s (Some k) s' \<Longrightarrow> \<not> holds s k"
    and take_holds: "step s (Some k) s' \<Longrightarrow> holds s' k"
    and frame: "step s l s' \<Longrightarrow> holds s j \<Longrightarrow> holds s' j"
begin

lemma run_frame: "labelled_run step s ks s' \<Longrightarrow> holds s j \<Longrightarrow> holds s' j"
  by (induction rule: labelled_run.induct) (auto dest: frame)

lemma run_taken: "labelled_run step s ks s' \<Longrightarrow> k \<in> set ks \<Longrightarrow> \<not> holds s k \<and> holds s' k"
proof (induction rule: labelled_run.induct)
  case (take s k' s' ks s'')
  then show ?case using take_fresh take_holds frame run_frame by (metis set_ConsD)
next
  case (other s s' ks s'')
  then show ?case using frame by blast
qed simp

lemma run_distinct: "labelled_run step s ks s' \<Longrightarrow> distinct ks"
proof (induction rule: labelled_run.induct)
  case (take s k s' ks s'')
  have "holds s' k" using take.hyps(1) by (rule take_holds)
  then have "k \<notin> set ks" using run_taken [OF take.hyps(2)] by blast
  then show ?case using take.IH by simp
qed simp_all

end

end
