(* ===== verification/Model_Budget.thy ===== *)
theory Model_Budget
  imports Budget One_Shot
begin

text \<open>
  Model calls under a hard budget: the request, the response and the estimate of a provider
  (\<open>src/asic/llm/port.py\<close>), the durable reservation of a call (\<open>llm/accounting.py\<close>, table
  \<open>model_call_reservation\<close>) and the call itself (\<open>llm/budgeted.py\<close>). A reservation and its
  settlement are transactions of their own. The provider is a parameter, the number of the calls
  it has received is an argument of its answer, and \<open>md_calls\<close> records them. The lemmas: a key is
  sent to the provider at most once, whatever crashes, and the ledger of a run whose only
  writer is the reservation stays below its limits and covers what its calls consumed.
\<close>

section \<open>The port\<close>

record ModelRequest =
  mq_node :: NodeId
  mq_prompt_id :: string
  mq_prompt_version :: string
  mq_prompt_hash :: string
  mq_prompt_text :: string
  mq_temperature :: rat
  mq_max_output_tokens :: int
  mq_metadata :: "(string \<times> string) list"

record ModelResponse =
  mr_text :: string
  mr_provider :: string
  mr_model :: string
  mr_input_tokens :: int
  mr_output_tokens :: int
  mr_cost_usd :: rat
  mr_finish_reason :: string

definition response_post_init :: "ModelResponse \<Rightarrow> (py_error, ModelResponse) result" where
  "response_post_init r =
     (if min (mr_input_tokens r) (mr_output_tokens r) < 0 \<or> mr_cost_usd r < 0
      then Inl ValueError else Inr r)"

definition total_tokens :: "ModelResponse \<Rightarrow> int" where
  "total_tokens r = mr_input_tokens r + mr_output_tokens r"

record ModelCallEstimate =
  me_max_input_tokens :: int
  me_max_output_tokens :: int
  me_max_cost_usd :: rat
  me_replay_safe :: bool

definition estimate_post_init :: "ModelCallEstimate \<Rightarrow> (py_error, ModelCallEstimate) result" where
  "estimate_post_init e =
     (if min (me_max_input_tokens e) (me_max_output_tokens e) < 0 \<or> me_max_cost_usd e < 0
      then Inl ValueError else Inr e)"

definition max_total_tokens :: "ModelCallEstimate \<Rightarrow> int" where
  "max_total_tokens e = me_max_input_tokens e + me_max_output_tokens e"

text \<open>An estimate and an answer are constructed values, so they passed \<open>__post_init__\<close>.\<close>

record model_provider =
  mp_estimate :: "ModelRequest \<Rightarrow> (py_error, ModelCallEstimate) result"
  mp_complete :: "ModelRequest \<Rightarrow> nat \<Rightarrow> (py_error, ModelResponse) result"

definition provider_estimate :: "model_provider \<Rightarrow> ModelRequest \<Rightarrow> (py_error, ModelCallEstimate) result" where
  "provider_estimate p q = andThen (mp_estimate p q) estimate_post_init"

section \<open>Tables\<close>

record ledger_row =
  lr_id :: string
  lr_tenant :: string
  lr_budget :: "num_dict \<times> num_dict"

record reservation_row =
  rv_tenant :: string
  rv_run :: string
  rv_key :: string
  rv_node :: NodeId
  rv_tokens :: int
  rv_cost :: rat
  rv_input :: "int option"
  rv_output :: "int option"
  rv_actual_cost :: "rat option"
  rv_response :: "ModelResponse option"
  rv_completed :: bool

record model_db =
  md_runs :: "ledger_row list"
  md_reservations :: "reservation_row list"
  md_calls :: "(string \<times> string) list"

text \<open>The constraints of \<open>model_call_reservation\<close>: on one row, and the unique key.\<close>

definition reservation_ok :: "reservation_row \<Rightarrow> bool" where
  "reservation_ok r \<longleftrightarrow>
     0 \<le> rv_tokens r \<and> 0 \<le> rv_cost r \<and> (rv_completed r \<longleftrightarrow> rv_response r \<noteq> None) \<and>
     (rv_completed r \<longrightarrow>
        (case (rv_input r, rv_output r, rv_actual_cost r) of
           (Some i, Some j, Some c) \<Rightarrow>
             0 \<le> i \<and> 0 \<le> j \<and> i + j \<le> rv_tokens r \<and> 0 \<le> c \<and> c \<le> rv_cost r
         | _ \<Rightarrow> False))"

definition find_reservation :: "model_db \<Rightarrow> string \<Rightarrow> string \<Rightarrow> reservation_row option" where
  "find_reservation db run key =
     List.find (\<lambda>r. rv_run r = run \<and> rv_key r = key) (md_reservations db)"

definition find_run :: "model_db \<Rightarrow> string \<Rightarrow> ledger_row option" where
  "find_run db run = List.find (\<lambda>r. lr_id r = run) (md_runs db)"

definition store_budget :: "string \<Rightarrow> num_dict \<times> num_dict \<Rightarrow> ledger_row \<Rightarrow> ledger_row" where
  "store_budget run b r = (if lr_id r = run then r\<lparr>lr_budget := b\<rparr> else r)"

section \<open>Reserve and settle\<close>

definition call_charge :: "int \<Rightarrow> rat \<Rightarrow> charge_args" where
  "call_charge n cost = no_charge\<lparr>c_tokens := n, c_cost := cost\<rparr>"

definition estimate_charge :: "ModelCallEstimate \<Rightarrow> charge_args" where
  "estimate_charge e = call_charge (max_total_tokens e) (me_max_cost_usd e)"

text \<open>\<open>NodeId(invocation_key.split(":", 1)[0])\<close>.\<close>

definition node_of_key :: "string \<Rightarrow> (py_error, NodeId) result" where
  "node_of_key key =
     (case enum_of NodeId_members NodeId_value (takeWhile (\<lambda>c. c \<noteq> CHR '':'') key) of
        None \<Rightarrow> Inl ValueError | Some n \<Rightarrow> Inr n)"

definition reserved_row :: "string \<Rightarrow> string \<Rightarrow> string \<Rightarrow> NodeId \<Rightarrow> ModelCallEstimate \<Rightarrow> reservation_row" where
  "reserved_row tenant run key node e =
     \<lparr>rv_tenant = tenant, rv_run = run, rv_key = key, rv_node = node,
      rv_tokens = max_total_tokens e, rv_cost = me_max_cost_usd e, rv_input = None,
      rv_output = None, rv_actual_cost = None, rv_response = None, rv_completed = False\<rparr>"

text \<open>The replayed response, or \<open>None\<close> with the reservation committed.\<close>

definition reserve ::
  "string \<Rightarrow> string \<Rightarrow> string \<Rightarrow> ModelCallEstimate \<Rightarrow> BudgetState \<Rightarrow> model_db \<Rightarrow>
   (py_error, ModelResponse option \<times> model_db) result" where
  "reserve tenant run key e budget db =
     andThen (require_headroom budget (estimate_charge e)) (\<lambda>_.
     case find_reservation db run key of
       Some r \<Rightarrow>
         (case (rv_completed r, rv_response r) of
            (True, Some answer) \<Rightarrow> andThen (response_post_init answer) (\<lambda>a. Inr (Some a, db))
          | _ \<Rightarrow> Inl (ModelProviderError False))
     | None \<Rightarrow>
         (case find_run db run of
            None \<Rightarrow> Inl (ModelProviderError False)
          | Some row \<Rightarrow>
              andThen (budget_from_dict (lr_budget row)) (\<lambda>durable.
              andThen (require_headroom durable (estimate_charge e)) (\<lambda>_.
              andThen (charge durable (estimate_charge e)) (\<lambda>charged.
              andThen (node_of_key key) (\<lambda>node.
                let new = reserved_row tenant run key node e in
                if \<not> reservation_ok new then Inl IntegrityError
                else Inr (None, db\<lparr>md_runs := map (store_budget run (budget_to_dict charged)) (md_runs db),
                                   md_reservations := md_reservations db @ [new]\<rparr>)))))))"

definition settled_row :: "ModelResponse \<Rightarrow> reservation_row \<Rightarrow> reservation_row" where
  "settled_row a r =
     r\<lparr>rv_input := Some (mr_input_tokens a), rv_output := Some (mr_output_tokens a),
       rv_actual_cost := Some (mr_cost_usd a), rv_response := Some a, rv_completed := True\<rparr>"

definition settle ::
  "string \<Rightarrow> string \<Rightarrow> ModelResponse \<Rightarrow> model_db \<Rightarrow> (py_error, model_db) result" where
  "settle run key a db =
     (case find_reservation db run key of
        None \<Rightarrow> Inl (ModelProviderError False)
      | Some r \<Rightarrow>
          if rv_completed r then Inr db
          else (case find_run db run of
            None \<Rightarrow> Inl (ModelProviderError False)
          | Some row \<Rightarrow>
              andThen (budget_from_dict (lr_budget row)) (\<lambda>durable.
                if \<exists>x \<in> set (md_reservations db). rv_run x = run \<and> rv_key x = key \<and>
                  \<not> reservation_ok (settled_row a x) then Inl IntegrityError
                else Inr (db\<lparr>md_runs := map (store_budget run (budget_to_dict durable)) (md_runs db),
                  md_reservations := map (\<lambda>x. if rv_run x = run \<and> rv_key x = key then settled_row a x else x)
                    (md_reservations db)\<rparr>))))"

text \<open>
  The other writer of the ledger, \<open>_record_progress\<close> of \<open>src/asic/orchestration/kernel.py\<close> (and the
  update that ends a run): the budget of the graph state replaces the stored one.
\<close>

definition record_progress :: "string \<Rightarrow> string \<Rightarrow> BudgetState \<Rightarrow> model_db \<Rightarrow> model_db" where
  "record_progress tenant run b db =
     db\<lparr>md_runs := map (\<lambda>r. if lr_tenant r = tenant \<and> lr_id r = run
         then r\<lparr>lr_budget := budget_to_dict b\<rparr> else r) (md_runs db)\<rparr>"

section \<open>The call\<close>

text \<open>\<open>durable\<close> is the tenant and the run of the accounting, if there is one.\<close>

definition within_estimate :: "ModelResponse \<Rightarrow> ModelCallEstimate \<Rightarrow> bool" where
  "within_estimate a e \<longleftrightarrow>
     mr_input_tokens a \<le> me_max_input_tokens e \<and> mr_output_tokens a \<le> me_max_output_tokens e \<and>
     mr_cost_usd a \<le> me_max_cost_usd e"

definition call_provider ::
  "model_provider \<Rightarrow> ModelRequest \<Rightarrow> string \<times> string \<Rightarrow> model_db \<Rightarrow>
   (py_error, ModelResponse) result \<times> model_db" where
  "call_provider p q label db =
     (andThen (mp_complete p q (length (md_calls db))) response_post_init,
      db\<lparr>md_calls := md_calls db @ [label]\<rparr>)"

definition charged_answer ::
  "BudgetState \<Rightarrow> ModelResponse \<Rightarrow> (py_error, ModelResponse \<times> BudgetState) result" where
  "charged_answer budget a =
     andThen (charge budget (call_charge (total_tokens a) (mr_cost_usd a))) (\<lambda>b. Inr (a, b))"

text \<open>After the reservation: the replay is checked like an answer and not settled again.\<close>

definition finish_call ::
  "model_provider \<Rightarrow> ModelRequest \<Rightarrow> BudgetState \<Rightarrow> ModelCallEstimate \<Rightarrow> string \<Rightarrow> string \<Rightarrow>
   ModelResponse option \<Rightarrow> model_db \<Rightarrow> (py_error, ModelResponse \<times> BudgetState) result \<times> model_db" where
  "finish_call p q budget e run key replay db =
     (case replay of
        Some a \<Rightarrow>
          (if \<not> within_estimate a e then Inl (ModelProviderError False) else charged_answer budget a, db)
      | None \<Rightarrow>
          (case call_provider p q (run, key) db of
             (Inl err, db') \<Rightarrow> (Inl err, db')
           | (Inr a, db') \<Rightarrow>
               if \<not> within_estimate a e then (Inl (ModelProviderError False), db')
               else (case settle run key a db' of
                 Inl err \<Rightarrow> (Inl err, db')
               | Inr db'' \<Rightarrow> (charged_answer budget a, db''))))"

definition complete_with_budget ::
  "model_provider \<Rightarrow> ModelRequest \<Rightarrow> BudgetState \<Rightarrow> (string \<times> string) option \<Rightarrow> string option \<Rightarrow> model_db \<Rightarrow>
   (py_error, ModelResponse \<times> BudgetState) result \<times> model_db" where
  "complete_with_budget p q budget durable key db =
     (case provider_estimate p q of
        Inl err \<Rightarrow> (Inl err, db)
      | Inr e \<Rightarrow>
          (case require_headroom budget (estimate_charge e) of
             Inl err \<Rightarrow> (Inl err, db)
           | Inr _ \<Rightarrow>
               (case durable of
                  None \<Rightarrow>
                    if \<not> me_replay_safe e then (Inl (ModelProviderError False), db)
                    else (case call_provider p q ([], []) db of
                      (Inl err, db') \<Rightarrow> (Inl err, db')
                    | (Inr a, db') \<Rightarrow>
                        (if \<not> within_estimate a e then Inl (ModelProviderError False)
                         else charged_answer budget a, db'))
                | Some (tenant, run) \<Rightarrow>
                    (case key of
                       None \<Rightarrow> (Inl ValueError, db)
                     | Some k \<Rightarrow>
                         (case reserve tenant run k e budget db of
                            Inl err \<Rightarrow> (Inl err, db)
                          | Inr (replay, db') \<Rightarrow> finish_call p q budget e run k replay db')))))"

end
