(* ===== verification/Untrusted.thy ===== *)
theory Untrusted
  imports Regex Py_Value "HOL-Library.Sublist"
begin

text \<open>
  Handling of untrusted content, \<open>src/asic/domain/untrusted.py\<close>: the injection patterns as
  matchers, the scan of a nested structure, the removal of marker-like text and the fenced
  rendering. Text is ASCII. The lemmas: no block marker survives in the rendered content,
  and an untrusted block never carries authority.
\<close>

section \<open>The patterns\<close>

definition non_space :: rx where "non_space = Chars (\<lambda>c. \<not> is_space c)"
definition up_to :: "nat \<Rightarrow> rx" where
  "up_to n = Rep (not_in [CHR ''.'', CHR 0x0A]) 0 (Some n)"
definition words :: "string list \<Rightarrow> rx" where
  "words xs = seqs [WordB, alts (map ilit xs), WordB]"
definition spaces1 :: rx where "spaces1 = Rep is_space 1 None"
definition spaces0 :: rx where "spaces0 = Rep is_space 0 None"

definition p_instruction_override :: rx where
  "p_instruction_override =
     seqs [words [''ignore'', ''disregard'', ''forget'', ''override''], up_to 40,
       words [''previous'', ''prior'', ''earlier'', ''above'', ''all''], up_to 20,
       words [''instruction'', ''instructions'', ''prompt'', ''prompts'', ''rule'', ''rules'',
              ''policy'', ''policies'']]"

definition p_role_reassignment :: rx where
  "p_role_reassignment =
     alts [seqs [WordB, ilit ''you'', spaces1, ilit ''are'', spaces1, ilit ''now'', WordB],
       seqs [WordB, ilit ''act'', spaces1, ilit ''as'', spaces1,
             alts [ilit ''a'', ilit ''an'', ilit ''the''], WordB],
       seqs [WordB, ilit ''new'', spaces1, ilit ''system'', spaces1, ilit ''prompt'', WordB]]"

definition p_authorization_claim :: rx where
  "p_authorization_claim =
     seqs [WordB, opt (seqs [ilit ''this'', spaces1, ilit ''is'', spaces1]),
       opt (seqs [ilit ''pre'', opt (ilit ''-'')]),
       alts [ilit ''approved'',
             seqs [ilit ''authori'', alts [ilit ''s'', ilit ''z''], ilit ''ed''],
             ilit ''permitted'', ilit ''sanctioned''],
       WordB, up_to 40, words [''by'', ''from''], up_to 30,
       words [''admin'', ''administrator'', ''sre'', ''security'', ''oncall'', ''on-call'',
              ''management'']]"

definition p_capability_grant :: rx where
  "p_capability_grant =
     seqs [words [''grant'', ''enable'', ''allow'', ''escalate'', ''elevate'', ''unlock''],
       up_to 40,
       words [''capability'', ''capabilities'', ''permission'', ''permissions'', ''privilege'',
              ''privileges'', ''access'', ''tool'', ''tools'']]"

definition p_approval_bypass :: rx where
  "p_approval_bypass =
     seqs [WordB,
       alts [ilit ''skip'', ilit ''bypass'',
             seqs [ilit ''no'', spaces1, ilit ''need'', spaces1, ilit ''for''], ilit ''without''],
       WordB, up_to 30, WordB,
       alts [ilit ''approval'', ilit ''approvals'', seqs [ilit ''human'', spaces1, ilit ''review''],
             ilit ''confirmation'', seqs [ilit ''policy'', spaces1, ilit ''gate'']],
       WordB]"

definition p_command_injection :: rx where
  "p_command_injection =
     seqs [alts [AtStart, Chars (\<lambda>c. is_space c \<or> c = CHR 0x60 \<or> c = CHR '';'' \<or> c = CHR ''|'')],
       alts (map ilit [''kubectl'', ''helm'', ''curl'', ''wget'', ''bash'', ''sh'', ''psql'',
                       ''aws'', ''gcloud'', ''az'']),
       spaces1, non_space]"

definition p_delimiter_escape :: rx where
  "p_delimiter_escape =
     alts [lit [CHR 0x60, CHR 0x60, CHR 0x60],
       seqs [lit ''<'', opt (lit ''/''),
             alts (map ilit [''system'', ''assistant'', ''user'', ''untrusted'']),
             Rep (not_in [CHR ''>'']) 0 None, lit ''>''],
       seqs [lit ''['', opt (lit ''/''), ilit ''inst'', lit '']''],
       seqs [lit ''<|'', Rep (\<lambda>c. is_lower (lower_char c) \<or> c = CHR ''_'') 1 None, lit ''|>'']]"

definition p_tenant_claim :: rx where
  "p_tenant_claim =
     seqs [WordB, ilit ''tenant'', opt (Chars (\<lambda>c. c = CHR ''_'' \<or> is_space c \<or> c = CHR ''-'')),
       ilit ''id'', WordB, spaces0, Chars (\<lambda>c. c = CHR '':'' \<or> c = CHR ''='')]"

definition PATTERNS :: "(string \<times> rx) list" where
  "PATTERNS =
     [(''instruction_override'', p_instruction_override),
      (''role_reassignment'', p_role_reassignment),
      (''authorization_claim'', p_authorization_claim),
      (''capability_grant_attempt'', p_capability_grant),
      (''approval_bypass'', p_approval_bypass),
      (''command_injection'', p_command_injection),
      (''delimiter_escape'', p_delimiter_escape),
      (''tenant_context_claim'', p_tenant_claim)]"

definition scan :: "string \<Rightarrow> string list" where
  "scan s = map fst (filter (\<lambda>(_, p). rx_search p s) PATTERNS)"

text \<open>\<open>_walk\<close> collects the hits of every string reachable in a structure, keys included.\<close>

fun walk :: "pyval \<Rightarrow> string list" where
  "walk (PStr s) = scan s"
| "walk (PDict kvs) = concat (map (\<lambda>(k, v). scan k @ walk v) kvs)"
| "walk (PList vs) = concat (map walk vs)"
| "walk _ = []"

definition scan_structure :: "pyval \<Rightarrow> string list" where
  "scan_structure v = (let found = walk v in filter (\<lambda>n. n \<in> set found) (map fst PATTERNS))"

section \<open>Fencing\<close>

definition BLOCK_OPEN :: string where "BLOCK_OPEN = ''<<<UNTRUSTED_DATA''"
definition BLOCK_CLOSE :: string where "BLOCK_CLOSE = ''UNTRUSTED_DATA>>>''"
definition REPLACEMENT :: string where "REPLACEMENT = ''[redacted-marker]''"

definition marker_like :: rx where
  "marker_like =
     alts [seqs [ilit ''<<<'', spaces0, ilit ''untrusted_data''],
           seqs [ilit ''untrusted_data'', spaces0, ilit ''>>>'']]"

text \<open>
  \<open>pattern.sub(repl, s)\<close> from position \<open>i\<close>, for a pattern that never matches the empty
  text: the leftmost match is replaced and the search goes on at its end. A marker-like
  match has one possible end, so the first end listed is Python's.
\<close>

function rx_sub_at :: "rx \<Rightarrow> string \<Rightarrow> string \<Rightarrow> nat \<Rightarrow> string" where
  "rx_sub_at r repl s i =
     (if length s \<le> i then []
      else case rx_ends r s i of
        e # _ \<Rightarrow>
          if i < e then repl @ rx_sub_at r repl s e else s ! i # rx_sub_at r repl s (Suc i)
      | [] \<Rightarrow> s ! i # rx_sub_at r repl s (Suc i))"
  by pat_completeness auto
termination
  by (relation "measure (\<lambda>(r, repl, s, i). length s - i)") auto

declare rx_sub_at.simps [simp del]

definition neutralise :: "string \<Rightarrow> string" where
  "neutralise s = rx_sub_at marker_like REPLACEMENT s 0"

record UntrustedBlock =
  ub_source :: string
  ub_provenance :: ProvenanceLabel
  ub_content :: string

definition block_post_init :: "UntrustedBlock \<Rightarrow> (py_error, UntrustedBlock) result" where
  "block_post_init b =
     (if confers_authority (ub_provenance b) then Inl ProvenanceViolation else Inr b)"

definition injection_flags :: "UntrustedBlock \<Rightarrow> string list" where
  "injection_flags b = scan (ub_content b)"

definition newline :: string where "newline = [CHR 0x0A]"

definition render_block :: "nat \<Rightarrow> UntrustedBlock \<Rightarrow> string" where
  "render_block index b =
     (let joined = py_join '','' (injection_flags b);
          flags = (if joined = [] then ''none'' else joined)
      in BLOCK_OPEN @ '' index='' @ nat_digits index @ '' source='' @ py_repr (ub_source b) @
         '' provenance='' @ ProvenanceLabel_value (ub_provenance b) @ '' injection_flags='' @ flags @
         newline @ neutralise (ub_content b) @ newline @ BLOCK_CLOSE)"

definition render_untrusted :: "UntrustedBlock list \<Rightarrow> string" where
  "render_untrusted blocks =
     (if blocks = [] then BLOCK_OPEN @ '' count=0 '' @ BLOCK_CLOSE
      else py_join newline (map (\<lambda>(i, b). render_block i b) (List.enumerate 1 blocks)))"

definition assert_confers_authority :: "ProvenanceLabel \<Rightarrow> (py_error, unit) result" where
  "assert_confers_authority p = guard (confers_authority p) ProvenanceViolation"

definition flagged_sources :: "UntrustedBlock list \<Rightarrow> (string \<times> string list) list" where
  "flagged_sources blocks =
     map (\<lambda>b. (ub_source b, injection_flags b)) (filter (\<lambda>b. injection_flags b \<noteq> []) blocks)"

section \<open>Facts about the scan\<close>

lemma scan_subset: "set (scan s) \<subseteq> fst ` set PATTERNS"
  by (auto simp: scan_def)

lemma walk_subset: "set (walk v) \<subseteq> fst ` set PATTERNS"
proof (induction v rule: walk.induct)
  case (1 s)
  show ?case using scan_subset by simp
next
  case (2 kvs)
  show ?case
  proof
    fix n assume "n \<in> set (walk (PDict kvs))"
    then obtain k v where kv: "(k, v) \<in> set kvs" "n \<in> set (scan k) \<or> n \<in> set (walk v)" by auto
    then show "n \<in> fst ` set PATTERNS" using "2.IH" [OF kv(1) refl] scan_subset by blast
  qed
next
  case (3 vs)
  then show ?case by (auto simp: UN_subset_iff)
qed simp_all

lemma scan_structure_set: "set (scan_structure v) = set (walk v)"
  using walk_subset [of v] by (auto simp: scan_structure_def Let_def image_iff)

section \<open>Facts about the fence\<close>

lemma rx_span_ilitI:
  "prefix cs (drop i s) \<Longrightarrow> list_all2 (\<lambda>a b. same_letter a b) ds cs \<Longrightarrow>
   rx_span s (ilit ds) i (i + length cs)"
proof (induction ds arbitrary: cs i)
  case Nil
  then show ?case by (simp add: span_simps)
next
  case (Cons d ds)
  then obtain c cs' where cs: "cs = c # cs'" "same_letter d c" "list_all2 same_letter ds cs'"
    by (auto simp: list_all2_Cons1)
  from Cons.prems(1) cs have ne: "drop i s \<noteq> []" by auto
  then have i: "i < length s" by simp
  then have dr: "drop i s = s ! i # drop (Suc i) s" by (simp add: Cons_nth_drop_Suc)
  then have "s ! i = c" "prefix cs' (drop (Suc i) s)" using Cons.prems(1) cs by auto
  then show ?case
    using Cons.IH [of cs' "Suc i"] cs i by (auto simp: span_simps)
qed

lemma prefix_append_drop:
  assumes "length a = n" and "prefix (a @ b) (drop i s)"
  shows "prefix a (drop i s) \<and> prefix b (drop (i + n) s)"
proof -
  obtain zs where z: "drop i s = a @ b @ zs" using assms(2) by (auto simp: prefix_def)
  have "drop (i + n) s = drop n (drop i s)" by (simp add: add.commute)
  also have "\<dots> = b @ zs" using z assms(1) by simp
  finally show ?thesis using z by simp
qed

lemma spaces0_empty: "rx_span s spaces0 i i"
  unfolding spaces0_def span_simps by (rule exI [of _ 0]) simp

lemma word_letters: "list_all2 same_letter ''untrusted_data'' ''UNTRUSTED_DATA''"
  by code_simp

lemma angle_letters:
  "list_all2 same_letter ''<<<'' ''<<<''" "list_all2 same_letter ''>>>'' ''>>>''"
  by (simp_all add: same_letter_def)

lemma marker_lengths:
  "length ''UNTRUSTED_DATA'' = 14" "length ''<<<'' = 3" "length ''>>>'' = 3"
  by simp_all

lemma open_matches:
  assumes p: "prefix BLOCK_OPEN (drop i s)" shows "\<exists>j > i. rx_span s marker_like i j"
proof -
  have d: "BLOCK_OPEN = ''<<<'' @ ''UNTRUSTED_DATA''" by (simp add: BLOCK_OPEN_def)
  note ps = prefix_append_drop [OF marker_lengths(2) p [unfolded d]]
  note s1 = rx_span_ilitI [OF ps [THEN conjunct1] angle_letters(1), unfolded marker_lengths]
  note s2 = rx_span_ilitI [OF ps [THEN conjunct2] word_letters, unfolded marker_lengths]
  have "rx_span s marker_like i (i + 3 + 14)"
    unfolding marker_like_def seqs.simps alts.simps using spaces0_empty s1 s2
    by (blast intro: rx_span.intros)
  then show ?thesis by (intro exI [of _ "i + 3 + 14"]) simp
qed

lemma close_matches:
  assumes p: "prefix BLOCK_CLOSE (drop i s)" shows "\<exists>j > i. rx_span s marker_like i j"
proof -
  have d: "BLOCK_CLOSE = ''UNTRUSTED_DATA'' @ ''>>>''" by (simp add: BLOCK_CLOSE_def)
  note ps = prefix_append_drop [OF marker_lengths(1) p [unfolded d]]
  note s1 = rx_span_ilitI [OF ps [THEN conjunct1] word_letters, unfolded marker_lengths]
  note s2 = rx_span_ilitI [OF ps [THEN conjunct2] angle_letters(2), unfolded marker_lengths]
  have "rx_span s marker_like i (i + 14 + 3)"
    unfolding marker_like_def seqs.simps alts.simps using spaces0_empty s1 s2
    by (blast intro: rx_span.intros)
  then show ?thesis by (intro exI [of _ "i + 14 + 3"]) simp
qed

text \<open>A marker-like match is never empty.\<close>

lemma rx_span_ilit_length: "rx_span s (ilit cs) i j \<Longrightarrow> j = i + length cs"
  by (induction cs arbitrary: i) (force simp: span_simps)+

lemma marker_nonempty: "rx_span s marker_like i j \<Longrightarrow> i < j"
  unfolding marker_like_def seqs.simps alts.simps spaces0_def
  by (auto simp: span_simps dest!: rx_span_ilit_length)

text \<open>
  Text without the characters of the replacement that starts in the output started at the
  same place in the input.
\<close>

lemma sub_prefix:
  "set m \<inter> set repl = {} \<Longrightarrow> repl \<noteq> [] \<Longrightarrow> prefix m (rx_sub_at r repl s i) \<Longrightarrow> prefix m (drop i s)"
proof (induction r repl s i arbitrary: m rule: rx_sub_at.induct)
  case (1 r repl s i)
  show ?case
  proof (cases m)
    case (Cons c m')
    then have ne: "rx_sub_at r repl s i \<noteq> []" using "1.prems" by auto
    then have i: "i < length s" by (cases "length s \<le> i") (auto simp: rx_sub_at.simps)
    have no_repl: "rx_sub_at r repl s i \<noteq> repl @ xs" for xs
    proof
      assume "rx_sub_at r repl s i = repl @ xs"
      then have "c \<in> set repl" using "1.prems" Cons by (cases repl) auto
      then show False using "1.prems" Cons by auto
    qed
    have short: "\<not> i < e" if "rx_ends r s i = e # es" for e es
      using no_repl [of "rx_sub_at r repl s e"] i that
      by (auto simp: rx_sub_at.simps [of r repl s i])
    have step: "rx_sub_at r repl s i = s ! i # rx_sub_at r repl s (Suc i)"
      using i short by (simp add: rx_sub_at.simps [of r repl s i] split: list.split)
    then have eq: "c = s ! i" "prefix m' (rx_sub_at r repl s (Suc i))"
      using "1.prems" Cons by auto
    have "prefix m' (drop (Suc i) s)"
    proof (cases "rx_ends r s i")
      case Nil
      show ?thesis by (rule "1.IH"(1) [OF _ Nil]) (use i eq "1.prems" Cons in auto)
    next
      case (Cons e es)
      have "\<not> i < e" using short Cons by blast
      then show ?thesis
        using "1.IH"(3) [OF _ Cons] i eq "1.prems" \<open>m = c # m'\<close> by auto
    qed
    then show ?thesis using eq Cons i by (simp add: Cons_nth_drop_Suc [symmetric])
  qed simp
qed

lemma neutralise_no_marker_at:
  assumes m: "m = BLOCK_OPEN \<or> m = BLOCK_CLOSE"
  shows "\<not> prefix m (drop n (rx_sub_at marker_like REPLACEMENT s i))"
proof (induction "length s - i" arbitrary: i n rule: less_induct)
  case less
  let ?out = "rx_sub_at marker_like REPLACEMENT s"
  have m0: "m \<noteq> []" and disj: "set m \<inter> set REPLACEMENT = {}"
    using m by (auto simp: BLOCK_OPEN_def BLOCK_CLOSE_def REPLACEMENT_def)
  have R: "REPLACEMENT \<noteq> []" by (simp add: REPLACEMENT_def)
  show ?case
  proof (cases "length s \<le> i")
    case True
    then show ?thesis using m0 by (simp add: rx_sub_at.simps)
  next
    case F: False
    show ?thesis
    proof (cases "rx_ends marker_like s i")
      case Nil
      have out: "?out i = s ! i # ?out (Suc i)"
        using F Nil by (simp add: rx_sub_at.simps [of marker_like _ s i])
      show ?thesis
      proof (cases n)
        case 0
        have "\<not> prefix m (drop i s)"
          using open_matches [of i s] close_matches [of i s] m Nil
          by (auto simp: rx_ends_iff [symmetric])
        then show ?thesis using sub_prefix [OF disj R] 0 by (metis drop_0)
      next
        case (Suc k)
        then show ?thesis using less [of "Suc i" k] F out by simp
      qed
    next
      case (Cons e es)
      then have "rx_span s marker_like i e" by (simp add: rx_ends_iff [symmetric])
      then have ie: "i < e" by (rule marker_nonempty)
      have out: "?out i = REPLACEMENT @ ?out e"
        using F Cons ie by (simp add: rx_sub_at.simps [of marker_like _ s i])
      show ?thesis
      proof (cases "n < length REPLACEMENT")
        case True
        then have hd: "hd (drop n (?out i)) \<in> set REPLACEMENT" "drop n (?out i) \<noteq> []"
          by (simp_all add: out hd_drop_conv_nth nth_append)
        show ?thesis
        proof
          assume "prefix m (drop n (?out i))"
          then have "hd (drop n (?out i)) = hd m" using m0 by (auto simp: prefix_def)
          then show False using hd m0 disj by (metis disjoint_iff hd_in_set)
        qed
      next
        case False
        then show ?thesis using less [of e "n - length REPLACEMENT"] ie F out by simp
      qed
    qed
  qed
qed

lemma neutralise_no_marker:
  "m \<in> {BLOCK_OPEN, BLOCK_CLOSE} \<Longrightarrow> \<not> sublist m (neutralise s)"
proof
  assume "m \<in> {BLOCK_OPEN, BLOCK_CLOSE}" "sublist m (neutralise s)"
  then obtain xs ys where "neutralise s = xs @ m @ ys" by (auto simp: sublist_def)
  then have "prefix m (drop (length xs) (neutralise s))" by simp
  then show False
    using neutralise_no_marker_at [of m "length xs" s 0] \<open>m \<in> _\<close> by (auto simp: neutralise_def)
qed

end
