(* ===== verification/Py_Text.thy ===== *)
theory Py_Text
  imports Db_Query
begin

text \<open>
  Python text primitives the tool adapters' readers use: \<open>str(v)\<close>, \<open>str.split()\<close>,
  \<open>str.split(sep, 1)\<close>, \<open>dict\<close> over pairs and iteration over a value. The rendering of floats,
  instants and containers by \<open>str\<close> is the function parameter \<open>fmt\<close>.
\<close>

definition str_of :: "(pyval \<Rightarrow> string) \<Rightarrow> pyval \<Rightarrow> string" where
  "str_of fmt v =
     (case v of
        PStr s \<Rightarrow> s
      | PInt i \<Rightarrow> int_digits i
      | PBool b \<Rightarrow> if b then ''True'' else ''False''
      | PNone \<Rightarrow> ''None''
      | PUUID u \<Rightarrow> u
      | _ \<Rightarrow> fmt v)"

text \<open>\<open>line.split()\<close>: maximal runs of characters other than white space.\<close>

function py_words :: "string \<Rightarrow> string list" where
  "py_words s =
     (let t = dropWhile is_space s in
      if t = [] then []
      else takeWhile (\<lambda>c. \<not> is_space c) t # py_words (dropWhile (\<lambda>c. \<not> is_space c) t))"
  by pat_completeness auto
termination
proof (relation "measure length", goal_cases)
  case (2 s x)
  have "\<not> is_space (hd x)" using 2 hd_dropWhile [of is_space s] by simp
  then have "length (dropWhile (\<lambda>c. \<not> is_space c) x) < length x"
    using 2(2) by (cases x) (auto simp: le_imp_less_Suc length_dropWhile_le)
  also have "length x \<le> length s" using 2(1) by (simp add: length_dropWhile_le)
  finally show ?case by simp
qed simp

declare py_words.simps [simp del]

text \<open>\<open>token.split("=", 1)\<close> of a token that contains the separator.\<close>

definition split_at :: "char \<Rightarrow> string \<Rightarrow> string \<times> string" where
  "split_at c s = (takeWhile (\<lambda>d. d \<noteq> c) s, tl (dropWhile (\<lambda>d. d \<noteq> c) s))"

text \<open>\<open>dict(pairs)\<close>: a later pair of a key replaces an earlier one.\<close>

definition dict_of :: "('k \<times> 'v) list \<Rightarrow> ('k \<times> 'v) list" where
  "dict_of ps = fold (\<lambda>(k, v) d. AList.update k v d) ps []"

text \<open>Iteration: a list, the characters of a string, the keys of a mapping, the bytes of a value.\<close>

fun iterate :: "pyval \<Rightarrow> (py_error, pyval list) result" where
  "iterate (PList xs) = Inr xs"
| "iterate (PStr s) = Inr (map (\<lambda>c. PStr [c]) s)"
| "iterate (PDict kvs) = Inr (map (\<lambda>kv. PStr (fst kv)) kvs)"
| "iterate (PBytes bs) = Inr (map (\<lambda>b. PInt (int b)) bs)"
| "iterate _ = Inl TypeError"

lemma dict_of_lookup: "map_of (dict_of ps) k = map_of (rev ps) k"
proof -
  have "map_of (fold (\<lambda>(k, v) d. AList.update k v d) ps d) k =
      (case map_of (rev ps) k of None \<Rightarrow> map_of d k | Some v \<Rightarrow> Some v)" for d
    by (induction ps arbitrary: d) (auto simp: update_conv' map_add_def split: option.splits)
  from this [of "[]"] show ?thesis by (simp add: dict_of_def split: option.splits)
qed

lemma py_words_words: "w \<in> set (py_words s) \<Longrightarrow> w \<noteq> [] \<and> (\<forall>c \<in> set w. \<not> is_space c)"
proof (induction s rule: py_words.induct)
  case (1 s)
  let ?t = "dropWhile is_space s"
  show ?case
  proof (cases "?t = []")
    case True
    then show ?thesis using "1.prems" by (simp add: py_words.simps [of s])
  next
    case False
    then have "\<not> is_space (hd ?t)" by (rule hd_dropWhile)
    then have w: "takeWhile (\<lambda>c. \<not> is_space c) ?t \<noteq> []" using False by (cases ?t) auto
    have "py_words s = takeWhile (\<lambda>c. \<not> is_space c) ?t #
        py_words (dropWhile (\<lambda>c. \<not> is_space c) ?t)"
      using False by (subst py_words.simps) (simp add: Let_def)
    then consider "w = takeWhile (\<lambda>c. \<not> is_space c) ?t"
      | "w \<in> set (py_words (dropWhile (\<lambda>c. \<not> is_space c) ?t))"
      using "1.prems" by auto
    then show ?thesis
    proof cases
      case 1
      then show ?thesis using w by (metis set_takeWhileD)
    next
      case 2
      then show ?thesis using "1.IH" [OF refl False] by blast
    qed
  qed
qed

end
