(* ===== verification/Redaction.thy ===== *)
theory Redaction
  imports Untrusted Py_Text
begin

text \<open>
  Redaction before anything is written, \<open>src/asic/observability/redaction.py\<close>: the names and
  the shapes that mean a secret, and the walk that replaces them and bounds what is left. Text
  is ASCII. The atomic groups and possessive repetitions of two patterns do not change which
  texts they match (the character after them is outside their class), so they are ordinary
  ones here; a leading look-behind is a condition on where the match starts. \<open>str\<close> of an
  object of another class and \<open>isinstance(v, NeverRender)\<close> are the functions of a \<open>render_ops\<close>
  record. The lemmas: what every string of a redacted value can be.
\<close>

definition REDACTED :: string where "REDACTED = ''[redacted]''"
definition MAX_VALUE_CHARS :: nat where "MAX_VALUE_CHARS = 512"
definition MAX_ITEMS :: nat where "MAX_ITEMS = 50"
definition MAX_DEPTH :: nat where "MAX_DEPTH = 6"

section \<open>Secret shapes\<close>

definition is_alnum :: "char \<Rightarrow> bool" where
  "is_alnum c = (is_upper c \<or> is_lower c \<or> is_digit c)"

definition one_of :: "string \<Rightarrow> char \<Rightarrow> bool" where "one_of cs c = (c \<in> set cs)"

definition alnum_or :: "string \<Rightarrow> char \<Rightarrow> bool" where
  "alnum_or cs c = (is_alnum c \<or> c \<in> set cs)"

definition at_least :: "nat \<Rightarrow> (char \<Rightarrow> bool) \<Rightarrow> rx" where "at_least n p = Rep p n None"

text \<open>A literal, and a class that excludes white space and the given characters.\<close>

definition lit :: "string \<Rightarrow> rx" where "lit s = seqs (map (\<lambda>c. Chars (\<lambda>d. d = c)) s)"

definition none_of :: "string \<Rightarrow> char \<Rightarrow> bool" where
  "none_of cs c = (\<not> is_space c \<and> c \<notin> set cs)"

definition jwt_char :: "char \<Rightarrow> bool" where "jwt_char = alnum_or ''_-''"

definition scheme_char :: "char \<Rightarrow> bool" where
  "scheme_char c = (is_lower c \<or> is_digit c \<or> c \<in> set ''+.-'')"

definition quote_chars :: string where "quote_chars = [CHR 0x22, CHR 0x27]"

definition jwt_rx :: rx where
  "jwt_rx = seqs [at_least 0 jwt_char, WordB, lit ''eyJ'', at_least 10 jwt_char, lit ''.'',
     at_least 10 jwt_char, lit ''.'', Rep jwt_char 10 (Some 10)]"

definition url_credentials_rx :: rx where
  "url_credentials_rx = seqs [at_least 0 scheme_char, WordB, Chars is_lower, at_least 0 scheme_char,
     lit ''://'', at_least 1 (none_of '':/@''), lit '':'', at_least 1 (none_of '':/@''), lit ''@'']"

text \<open>The patterns, each with the class its look-behind excludes (none for most).\<close>

definition SECRET_SHAPED :: "((char \<Rightarrow> bool) \<times> rx) list" where
  "SECRET_SHAPED =
     [((\<lambda>_. False), seqs [lit ''-----BEGIN '', at_least 0 (\<lambda>c. is_upper c \<or> c = CHR '' ''),
         lit ''PRIVATE KEY-----'']),
      (jwt_char, jwt_rx),
      ((\<lambda>_. False), seqs [WordB, alts [ilit ''bearer'', ilit ''basic''], at_least 1 is_space,
         at_least 16 (alnum_or ''._~+/=-'')]),
      ((\<lambda>_. False), seqs [WordB, alts [lit ''sk'', lit ''rk'', lit ''pk''], lit ''-'', at_least 16 is_alnum]),
      (scheme_char, url_credentials_rx),
      ((\<lambda>_. False), seqs [WordB, lit ''AKIA'', Rep (\<lambda>c. is_digit c \<or> is_upper c) 16 (Some 16), WordB]),
      ((\<lambda>_. False), seqs [WordB, lit ''ghp_'', at_least 20 is_alnum, WordB]),
      ((\<lambda>_. False), seqs [WordB, lit ''hooks.slack.com/'',
         alts [lit ''services'', lit ''workflows'', lit ''triggers''], lit ''/'', at_least 8 (alnum_or ''/_-'')]),
      ((\<lambda>_. False), seqs [WordB, lit ''webhook.office'', opt (lit ''365''), lit ''.com/webhook'',
         at_least 0 is_alnum, lit ''/'', at_least 8 (none_of quote_chars)]),
      ((\<lambda>_. False), seqs [WordB, lit ''outlook.office'', opt (lit ''365''), lit ''.com/webhook/'',
         at_least 8 (none_of quote_chars)]),
      ((\<lambda>_. False), seqs [WordB, lit ''xox'', Chars (one_of ''abposr''), lit ''-'', at_least 10 (alnum_or ''-'')]),
      ((\<lambda>_. False), seqs [WordB, alts [seqs [lit ''gh'', Chars (one_of ''opsu''), lit ''_'', at_least 20 is_alnum],
         seqs [lit ''github_pat_'', at_least 20 (alnum_or ''_'')]]]),
      ((\<lambda>_. False), seqs [WordB, lit ''AIza'', at_least 30 (alnum_or ''_-'')]),
      ((\<lambda>_. False), seqs [WordB, lit ''ATATT'', at_least 20 (alnum_or ''_=-'')]),
      ((\<lambda>_. False), seqs [Chars (one_of ''?&''), alts [ilit ''access_token'', ilit ''token'',
         seqs [ilit ''api'', opt (Chars (one_of ''_-'')), ilit ''key''], ilit ''apikey'', ilit ''key'',
         ilit ''sig'', ilit ''signature'', ilit ''secret'', ilit ''password'', ilit ''x-amz-signature'',
         ilit ''x-amz-credential'', ilit ''client_secret''], lit ''='',
         at_least 6 (none_of (CHR ''&'' # quote_chars))]),
      ((\<lambda>_. False), seqs [WordB, ilit ''authorization'', at_least 0 is_space, Chars (one_of '':=''),
         at_least 0 is_space, at_least 8 (\<lambda>c. \<not> is_space c)])]"

definition search_from :: "(char \<Rightarrow> bool) \<Rightarrow> rx \<Rightarrow> string \<Rightarrow> bool" where
  "search_from prior r s \<longleftrightarrow>
     (\<exists>i \<in> set [0..<Suc (length s)].
        (i = 0 \<or> \<not> prior (s ! (i - 1))) \<and> rx_ends r s i \<noteq> [])"

definition looks_like_secret :: "string \<Rightarrow> bool" where
  "looks_like_secret value \<longleftrightarrow> (\<exists>(b, r) \<in> set SECRET_SHAPED. search_from b r value)"

section \<open>Secret names\<close>

definition SECRET_SUFFIXES :: "string list" where
  "SECRET_SUFFIXES =
     [''_token'', ''_secret'', ''_password'', ''_passwd'', ''_api_key'', ''_apikey'',
      ''_private_key'', ''_signing_key'', ''_access_key'', ''_routing_key'', ''_integration_key'',
      ''_webhook_url'', ''_webhook'', ''_credentials'']"

definition SECRET_NAMES :: "string list" where
  "SECRET_NAMES =
     [''authorization'', ''proxy_authorization'', ''cookie'', ''set_cookie'', ''x_api_key'',
      ''webhook'', ''webhook_url'', ''routing_key'', ''integration_key'', ''signing_key'']"

definition ends_with :: "string \<Rightarrow> string \<Rightarrow> bool" where
  "ends_with s t \<longleftrightarrow> length t \<le> length s \<and> drop (length s - length t) s = t"

definition is_secret_key_name :: "string \<Rightarrow> bool" where
  "is_secret_key_name name \<longleftrightarrow>
     is_forbidden_secret_field name \<or> normalise_field_name name \<in> set SECRET_NAMES \<or>
     (\<exists>t \<in> set SECRET_SUFFIXES. ends_with (normalise_field_name name) t)"

section \<open>The walk\<close>

record render_ops =
  text_of :: "pyval \<Rightarrow> string"
  never_render :: "string \<Rightarrow> bool"

definition truncation_mark :: string where "truncation_mark = ''...[truncated]''"

definition redact_text :: "string \<Rightarrow> pyval" where
  "redact_text s =
     (if looks_like_secret s then PStr REDACTED
      else if length s \<le> MAX_VALUE_CHARS then PStr s
      else PStr (take MAX_VALUE_CHARS s @ truncation_mark))"

definition bytes_mark :: "nat \<Rightarrow> string" where
  "bytes_mark n = ''['' @ nat_digits n @ '' bytes]''"

definition more_mark :: "nat \<Rightarrow> string" where
  "more_mark n = ''[+'' @ nat_digits n @ '' more]''"

definition depth_mark :: string where "depth_mark = ''[depth>6]''"

text \<open>\<open>redact_value\<close> and \<open>redact_mapping\<close>; mapping keys are strings.\<close>

function redact_value :: "render_ops \<Rightarrow> pyval \<Rightarrow> nat \<Rightarrow> pyval" where
  "redact_value ops v depth =
     (if MAX_DEPTH < depth then PStr depth_mark
      else case v of
        POther c \<Rightarrow> if never_render ops c then PStr REDACTED else redact_text (text_of ops v)
      | PBytes bs \<Rightarrow> PStr (bytes_mark (length bs))
      | PNone \<Rightarrow> v
      | PBool b \<Rightarrow> v
      | PInt i \<Rightarrow> v
      | PFloat r \<Rightarrow> v
      | PStr s \<Rightarrow> redact_text s
      | PDatetime d \<Rightarrow> redact_text (text_of ops v)
      | PUUID u \<Rightarrow> redact_text u
      | PDict kvs \<Rightarrow>
          PDict (map (\<lambda>kv. (fst kv,
            if is_secret_reference (fst kv) then redact_value ops (snd kv) (depth + 1)
            else if is_secret_key_name (fst kv) then PStr REDACTED
            else redact_value ops (snd kv) (depth + 1))) kvs)
      | PList xs \<Rightarrow>
          PList (map (\<lambda>x. redact_value ops x (depth + 1)) (take MAX_ITEMS xs) @
            (if MAX_ITEMS < length xs then [PStr (more_mark (length xs - MAX_ITEMS))] else [])))"
  by pat_completeness auto
termination
  by (relation "measure (\<lambda>(ops, v, depth). MAX_DEPTH + 1 - depth)") auto

declare redact_value.simps [simp del]

definition redact_mapping :: "render_ops \<Rightarrow> arg_map \<Rightarrow> nat \<Rightarrow> arg_map" where
  "redact_mapping ops payload depth =
     map (\<lambda>kv. (fst kv,
       if is_secret_reference (fst kv) then redact_value ops (snd kv) depth
       else if is_secret_key_name (fst kv) then PStr REDACTED
       else redact_value ops (snd kv) depth)) payload"

definition redact_arguments :: "render_ops \<Rightarrow> arg_map \<Rightarrow> arg_map" where
  "redact_arguments ops arguments = redact_mapping ops arguments 0"

section \<open>Facts\<close>

text \<open>The strings of a value, and what a redacted one may be.\<close>

inductive text_in :: "string \<Rightarrow> pyval \<Rightarrow> bool" where
  str: "text_in s (PStr s)"
| in_list: "x \<in> set xs \<Longrightarrow> text_in s x \<Longrightarrow> text_in s (PList xs)"
| in_dict: "kv \<in> set kvs \<Longrightarrow> text_in s (snd kv) \<Longrightarrow> text_in s (PDict kvs)"

inductive_simps text_in_simps:
  "text_in s (PStr t)" "text_in s (PList xs)" "text_in s (PDict kvs)" "text_in s PNone"
  "text_in s (PBool b)" "text_in s (PInt i)" "text_in s (PFloat r)"

definition clean_text :: "string \<Rightarrow> bool" where
  "clean_text s \<longleftrightarrow>
     s \<in> {REDACTED, depth_mark} \<or> (\<exists>n. s = bytes_mark n \<or> s = more_mark n) \<or>
     (\<exists>t. \<not> looks_like_secret t \<and>
        (s = t \<and> length t \<le> MAX_VALUE_CHARS \<or> s = take MAX_VALUE_CHARS t @ truncation_mark))"

lemma clean_marks [simp]:
  "clean_text REDACTED" "clean_text depth_mark" "clean_text (bytes_mark n)" "clean_text (more_mark n)"
  by (auto simp: clean_text_def)

lemma redact_text_clean: "text_in s (redact_text t) \<Longrightarrow> clean_text s"
  by (auto simp: redact_text_def clean_text_def text_in_simps split: if_splits)

lemma redact_value_clean: "text_in s (redact_value ops v depth) \<Longrightarrow> clean_text s"
proof (induction ops v depth rule: redact_value.induct)
  case (1 ops v depth)
  show ?case
  proof (cases "MAX_DEPTH < depth")
    case True
    then show ?thesis using "1.prems"
      by (subst (asm) redact_value.simps) (auto simp: text_in_simps)
  next
    case False
    show ?thesis
    proof (cases v)
      case (PList xs)
      have IH: "clean_text s" if "x \<in> set (take MAX_ITEMS xs)" "text_in s (redact_value ops x (depth + 1))" for x
        using "1.IH" False PList that by blast
      have "redact_value ops v depth = PList (map (\<lambda>x. redact_value ops x (depth + 1)) (take MAX_ITEMS xs) @
            (if MAX_ITEMS < length xs then [PStr (more_mark (length xs - MAX_ITEMS))] else []))"
        using False PList by (subst redact_value.simps) simp
      then show ?thesis using "1.prems" IH by (auto simp: text_in_simps split: if_splits)
    next
      case (PDict kvs)
      then show ?thesis using "1.prems" "1.IH" False
        by (subst (asm) redact_value.simps) (auto simp: text_in_simps split: if_splits)
    qed (use "1.prems" False in \<open>subst (asm) redact_value.simps,
        auto simp: text_in_simps dest: redact_text_clean split: if_splits\<close>)+
  qed
qed

lemma redact_mapping_keys: "map fst (redact_mapping ops payload depth) = map fst payload"
  by (induction payload) (auto simp: redact_mapping_def)

lemma redact_mapping_secret:
  "(k, v) \<in> set (redact_mapping ops payload depth) \<Longrightarrow> is_secret_key_name k \<Longrightarrow>
   \<not> is_secret_reference k \<Longrightarrow> v = PStr REDACTED"
  by (auto simp: redact_mapping_def)

lemma redact_mapping_clean:
  "(k, v) \<in> set (redact_mapping ops payload depth) \<Longrightarrow> text_in s v \<Longrightarrow> clean_text s"
  by (auto simp: redact_mapping_def text_in_simps split: if_splits dest: redact_value_clean)

end
