(* ===== verification/Node_Contracts.thy ===== *)
theory Node_Contracts
  imports Tool_Catalogue
begin

text \<open>
  Node contracts, \<open>src/asic/contracts/nodes.py\<close>: what each graph node may write and which
  capabilities it may request, the registry of contracts, and the check of a state update.
  The keys of the two graph states are those of \<open>contracts/state.py\<close> and
  \<open>contracts/remediation_state.py\<close>. A frozenset of names is a list; the prose fields (purpose,
  idempotency, failure modes, termination behaviour) are left out.
  The lemmas: a contract never permits writing immutable run state, a model-backed node has
  no capability, and only the executor may request a mutation.
\<close>

section \<open>The contract model\<close>

record RetryContract =
  rc_max_attempts :: int
  rc_schema_repair_attempts :: int
  rc_operation_class :: OperationClass
  rc_backoff_seconds :: rat

definition valid_retry :: "RetryContract \<Rightarrow> bool" where
  "valid_retry r \<longleftrightarrow>
     1 \<le> rc_max_attempts r \<and> rc_max_attempts r \<le> 5 \<and>
     0 \<le> rc_schema_repair_attempts r \<and> rc_schema_repair_attempts r \<le> 1 \<and>
     0 \<le> rc_backoff_seconds r"

record NodeContract =
  nc_node_id :: NodeId
  nc_node_version :: string
  nc_contract_version :: string
  nc_inputs :: "string list"
  nc_outputs :: "string list"
  nc_permitted_state_keys :: "string list"
  nc_capabilities :: "string list"
  nc_model_backed :: bool
  nc_timeout_seconds :: int
  nc_retry :: RetryContract
  nc_audit_events :: "AuditEventType list"
  nc_incident_events :: "IncidentEventType list"
  nc_span_kind :: TraceSpanKind
  nc_state_keys :: "string list"
  nc_immutable_state_keys :: "string list"

definition valid_contract :: "NodeContract \<Rightarrow> bool" where
  "valid_contract c \<longleftrightarrow>
     1 \<le> nc_timeout_seconds c \<and> nc_timeout_seconds c \<le> 3600 \<and> valid_retry (nc_retry c)"

text \<open>An update is the list of keys a node returned with their values.\<close>

definition validate_update :: "NodeContract \<Rightarrow> (string \<times> 'a) list \<Rightarrow> (py_error, unit) result" where
  "validate_update c update =
     (let keys = map fst update in
      if filter (\<lambda>k. k \<notin> set (nc_state_keys c)) keys \<noteq> [] then Inl ContractViolation
      else if filter (\<lambda>k. k \<in> set (nc_immutable_state_keys c)) keys \<noteq> [] then Inl ContractViolation
      else if filter (\<lambda>k. k \<notin> set (nc_permitted_state_keys c)) keys \<noteq> [] then Inl ContractViolation
      else Inr ())"

definition permits_capability :: "NodeContract \<Rightarrow> string \<Rightarrow> bool" where
  "permits_capability c capability \<longleftrightarrow> capability \<in> set (nc_capabilities c)"

section \<open>The registry\<close>

definition STATE_KEYS :: "string list" where
  "STATE_KEYS =
     [''identity'', ''trace'', ''objective'', ''phase'', ''iteration'',
       ''resumed_count'', ''evidence'', ''steps'', ''hypotheses'', ''failures'',
       ''open_gaps'', ''covered_domains'', ''degraded_domains'', ''capability_menu'',
       ''last_decision'', ''reflection_decision'', ''budget'', ''budget_refusal'',
       ''pending_approval'', ''terminated'', ''termination_reason'',
       ''termination_rule_id'', ''terminal_incident_status'']"

definition IMMUTABLE_STATE_KEYS :: "string list" where
  "IMMUTABLE_STATE_KEYS =
     [''identity'', ''trace'', ''objective'']"

definition REMEDIATION_STATE_KEYS :: "string list" where
  "REMEDIATION_STATE_KEYS =
     [''identity'', ''trace'', ''objective'', ''phase'', ''remediation_action'',
       ''policy_decision'', ''approval'', ''verification'', ''baseline_captured'',
       ''budget'', ''failures'', ''terminated'', ''termination_reason'',
       ''target_incident_status'']"

definition REMEDIATION_IMMUTABLE_STATE_KEYS :: "string list" where
  "REMEDIATION_IMMUTABLE_STATE_KEYS =
     [''identity'', ''trace'', ''objective'']"

definition READ_CAPABILITIES :: "string list" where
  "READ_CAPABILITIES =
     [''read.metrics'', ''read.logs'', ''read.traces'', ''read.deploy'',
       ''read.k8s_workload'', ''read.knowledge'']"

definition G2_INCIDENT_COORDINATOR :: "NodeContract" where
  "G2_INCIDENT_COORDINATOR =
     \<lparr>nc_node_id = NodeId.G2_INCIDENT_COORDINATOR, nc_node_version = ''1.0.0'',
      nc_contract_version = ''1.0.0'',
      nc_inputs = [''identity'', ''incident row'', ''environment'', ''services'', ''budget policy''],
      nc_outputs = [''objective'', ''capability_menu'', ''phase'', ''budget''],
      nc_permitted_state_keys =
       [''phase'', ''capability_menu'', ''open_gaps'', ''budget'', ''iteration'',
       ''resumed_count'', ''failures'', ''terminated'', ''termination_reason'',
       ''termination_rule_id'', ''terminal_incident_status''],
      nc_capabilities = [],
      nc_model_backed = False, nc_timeout_seconds = 30,
      nc_retry = \<lparr>rc_max_attempts = 1, rc_schema_repair_attempts = 0,
         rc_operation_class = OperationClass.C1_PURE_READ, rc_backoff_seconds = 0\<rparr>,
      nc_audit_events = [AuditEventType.AUTHORIZATION_GRANTED],
      nc_incident_events =
        [IncidentEventType.INCIDENT_STATE_CHANGED],
      nc_span_kind = TraceSpanKind.NODE_EXECUTE,
      nc_state_keys = STATE_KEYS,
      nc_immutable_state_keys = IMMUTABLE_STATE_KEYS\<rparr>"

definition G3_INVESTIGATION_PLANNER :: "NodeContract" where
  "G3_INVESTIGATION_PLANNER =
     \<lparr>nc_node_id = NodeId.G3_INVESTIGATION_PLANNER, nc_node_version = ''1.0.0'',
      nc_contract_version = ''1.0.0'',
      nc_inputs = [''evidence'', ''hypotheses'', ''open_gaps'', ''covered_domains'',
       ''capability_menu'', ''budget''],
      nc_outputs = [''last_decision'', ''open_gaps'', ''steps'', ''phase''],
      nc_permitted_state_keys =
       [''phase'', ''iteration'', ''last_decision'', ''open_gaps'', ''steps'',
       ''budget'', ''budget_refusal'', ''failures'', ''terminated'',
       ''termination_reason'', ''termination_rule_id''],
      nc_capabilities = [],
      nc_model_backed = True, nc_timeout_seconds = 60,
      nc_retry = \<lparr>rc_max_attempts = 1, rc_schema_repair_attempts = 1,
         rc_operation_class = OperationClass.C6_DETERMINISTIC_REJECTION, rc_backoff_seconds = 0\<rparr>,
      nc_audit_events = [],
      nc_incident_events =
        [IncidentEventType.PLAN_GAP_DECLARED,
         IncidentEventType.PLAN_STEP_SELECTED,
         IncidentEventType.PLAN_TERMINATED],
      nc_span_kind = TraceSpanKind.PLANNER_STEP,
      nc_state_keys = STATE_KEYS,
      nc_immutable_state_keys = IMMUTABLE_STATE_KEYS\<rparr>"

definition G4_EVIDENCE_COLLECTOR :: "NodeContract" where
  "G4_EVIDENCE_COLLECTOR =
     \<lparr>nc_node_id = NodeId.G4_EVIDENCE_COLLECTOR, nc_node_version = ''1.0.0'',
      nc_contract_version = ''1.0.0'',
      nc_inputs = [''last_decision'', ''objective'', ''capability_menu''],
      nc_outputs = [''evidence'', ''steps'', ''covered_domains'', ''degraded_domains'', ''phase''],
      nc_permitted_state_keys =
       [''phase'', ''evidence'', ''steps'', ''covered_domains'', ''degraded_domains'',
       ''budget'', ''budget_refusal'', ''failures''],
      nc_capabilities = READ_CAPABILITIES,
      nc_model_backed = False, nc_timeout_seconds = 120,
      nc_retry = \<lparr>rc_max_attempts = 1, rc_schema_repair_attempts = 0,
         rc_operation_class = OperationClass.C1_PURE_READ, rc_backoff_seconds = 0\<rparr>,
      nc_audit_events = [AuditEventType.TOOL_EXECUTED],
      nc_incident_events =
        [IncidentEventType.EVIDENCE_RECORDED,
         IncidentEventType.CONTENT_INJECTION_FLAGGED],
      nc_span_kind = TraceSpanKind.NODE_EXECUTE,
      nc_state_keys = STATE_KEYS,
      nc_immutable_state_keys = IMMUTABLE_STATE_KEYS\<rparr>"

definition G5_HYPOTHESIS_ENGINE :: "NodeContract" where
  "G5_HYPOTHESIS_ENGINE =
     \<lparr>nc_node_id = NodeId.G5_HYPOTHESIS_ENGINE, nc_node_version = ''1.1.0'',
      nc_contract_version = ''1.1.0'',
      nc_inputs = [''evidence'', ''objective'', ''open_gaps''],
      nc_outputs = [''hypotheses'', ''open_gaps'', ''reflection_decision'', ''phase''],
      nc_permitted_state_keys =
       [''phase'', ''hypotheses'', ''open_gaps'', ''reflection_decision'', ''budget'',
       ''failures''],
      nc_capabilities = [],
      nc_model_backed = True, nc_timeout_seconds = 90,
      nc_retry = \<lparr>rc_max_attempts = 1, rc_schema_repair_attempts = 1,
         rc_operation_class = OperationClass.C6_DETERMINISTIC_REJECTION, rc_backoff_seconds = 0\<rparr>,
      nc_audit_events = [],
      nc_incident_events =
        [IncidentEventType.HYPOTHESIS_FORMED,
         IncidentEventType.HYPOTHESIS_REJECTED_UNSUPPORTED,
         IncidentEventType.HYPOTHESIS_CRITIQUED],
      nc_span_kind = TraceSpanKind.NODE_EXECUTE,
      nc_state_keys = STATE_KEYS,
      nc_immutable_state_keys = IMMUTABLE_STATE_KEYS\<rparr>"

definition G2_TERMINATOR :: "NodeContract" where
  "G2_TERMINATOR =
     \<lparr>nc_node_id = NodeId.G2_INCIDENT_COORDINATOR, nc_node_version = ''1.1.0'',
      nc_contract_version = ''1.1.0-terminator'',
      nc_inputs = [''budget'', ''hypotheses'', ''evidence'', ''failures'', ''degraded_domains'',
       ''reflection_decision''],
      nc_outputs = [''terminated'', ''termination_reason'', ''termination_rule_id'', ''phase''],
      nc_permitted_state_keys =
       [''phase'', ''terminated'', ''termination_reason'', ''termination_rule_id'',
       ''terminal_incident_status'', ''budget'', ''budget_refusal'', ''failures''],
      nc_capabilities = [],
      nc_model_backed = False, nc_timeout_seconds = 10,
      nc_retry = \<lparr>rc_max_attempts = 1, rc_schema_repair_attempts = 0,
         rc_operation_class = OperationClass.C1_PURE_READ, rc_backoff_seconds = 0\<rparr>,
      nc_audit_events = [],
      nc_incident_events =
        [IncidentEventType.INCIDENT_TERMINATED,
         IncidentEventType.BUDGET_EXHAUSTED],
      nc_span_kind = TraceSpanKind.WORKFLOW_PHASE,
      nc_state_keys = STATE_KEYS,
      nc_immutable_state_keys = IMMUTABLE_STATE_KEYS\<rparr>"

definition WRITE_CAPABILITIES :: "string list" where
  "WRITE_CAPABILITIES =
     [''mutate.k8s_deployment'', ''mutate.k8s_scale'', ''mutate.k8s_node'']"

definition REMEDIATION_RETRY :: "RetryContract" where
  "REMEDIATION_RETRY =
     \<lparr>rc_max_attempts = 1, rc_schema_repair_attempts = 0,
         rc_operation_class = OperationClass.C1_PURE_READ, rc_backoff_seconds = 0\<rparr>"

definition G6_REMEDIATION_PLANNER :: "NodeContract" where
  "G6_REMEDIATION_PLANNER =
     \<lparr>nc_node_id = NodeId.G6_REMEDIATION_PLANNER, nc_node_version = ''1.0.0'',
      nc_contract_version = ''1.0.0'',
      nc_inputs = [''objective'', ''hypothesis'', ''write_capability_menu''],
      nc_outputs = [''remediation_action'', ''phase''],
      nc_permitted_state_keys =
       [''phase'', ''remediation_action'', ''budget'', ''failures'', ''terminated'',
       ''termination_reason'', ''target_incident_status''],
      nc_capabilities = [],
      nc_model_backed = True, nc_timeout_seconds = 90,
      nc_retry = \<lparr>rc_max_attempts = 1, rc_schema_repair_attempts = 1,
         rc_operation_class = OperationClass.C6_DETERMINISTIC_REJECTION, rc_backoff_seconds = 0\<rparr>,
      nc_audit_events = [],
      nc_incident_events =
        [IncidentEventType.REMEDIATION_PROPOSED,
         IncidentEventType.REMEDIATION_REJECTED_UNREGISTERED],
      nc_span_kind = TraceSpanKind.NODE_EXECUTE,
      nc_state_keys = REMEDIATION_STATE_KEYS,
      nc_immutable_state_keys = REMEDIATION_IMMUTABLE_STATE_KEYS\<rparr>"

definition G7_POLICY_GATE :: "NodeContract" where
  "G7_POLICY_GATE =
     \<lparr>nc_node_id = NodeId.G7_POLICY_GATE, nc_node_version = ''1.0.0'',
      nc_contract_version = ''1.0.0'',
      nc_inputs = [''remediation_action''],
      nc_outputs = [''policy_decision'', ''phase''],
      nc_permitted_state_keys =
       [''phase'', ''policy_decision'', ''remediation_action'', ''budget'',
       ''failures'', ''terminated'', ''termination_reason'', ''target_incident_status''],
      nc_capabilities = [],
      nc_model_backed = False, nc_timeout_seconds = 10,
      nc_retry = REMEDIATION_RETRY,
      nc_audit_events = [AuditEventType.POLICY_DECIDED],
      nc_incident_events =
        [IncidentEventType.POLICY_EVALUATED],
      nc_span_kind = TraceSpanKind.NODE_EXECUTE,
      nc_state_keys = REMEDIATION_STATE_KEYS,
      nc_immutable_state_keys = REMEDIATION_IMMUTABLE_STATE_KEYS\<rparr>"

definition G8_APPROVAL_SERVICE :: "NodeContract" where
  "G8_APPROVAL_SERVICE =
     \<lparr>nc_node_id = NodeId.G8_APPROVAL_SERVICE, nc_node_version = ''1.0.0'',
      nc_contract_version = ''1.0.0'',
      nc_inputs = [''remediation_action'', ''policy_decision''],
      nc_outputs = [''approval'', ''phase''],
      nc_permitted_state_keys =
       [''phase'', ''approval'', ''remediation_action'', ''budget'', ''failures'',
       ''terminated'', ''termination_reason'', ''target_incident_status''],
      nc_capabilities = [],
      nc_model_backed = False, nc_timeout_seconds = 10,
      nc_retry = REMEDIATION_RETRY,
      nc_audit_events = [AuditEventType.APPROVAL_REQUESTED,
         AuditEventType.APPROVAL_DECIDED],
      nc_incident_events =
        [IncidentEventType.APPROVAL_REQUESTED,
         IncidentEventType.APPROVAL_GRANTED,
         IncidentEventType.APPROVAL_REJECTED,
         IncidentEventType.APPROVAL_EXPIRED,
         IncidentEventType.APPROVAL_INVALIDATED_STALE],
      nc_span_kind = TraceSpanKind.NODE_EXECUTE,
      nc_state_keys = REMEDIATION_STATE_KEYS,
      nc_immutable_state_keys = REMEDIATION_IMMUTABLE_STATE_KEYS\<rparr>"

definition G9_REMEDIATION_EXECUTOR :: "NodeContract" where
  "G9_REMEDIATION_EXECUTOR =
     \<lparr>nc_node_id = NodeId.G9_REMEDIATION_EXECUTOR, nc_node_version = ''1.0.0'',
      nc_contract_version = ''1.0.0'',
      nc_inputs = [''remediation_action'', ''policy_decision'', ''approval''],
      nc_outputs = [''remediation_action'', ''phase''],
      nc_permitted_state_keys =
       [''phase'', ''remediation_action'', ''budget'', ''failures'', ''terminated'',
       ''termination_reason'', ''target_incident_status''],
      nc_capabilities = WRITE_CAPABILITIES @ READ_CAPABILITIES,
      nc_model_backed = False, nc_timeout_seconds = 150,
      nc_retry = \<lparr>rc_max_attempts = 1, rc_schema_repair_attempts = 0,
         rc_operation_class = OperationClass.C2_IDEMPOTENT_WRITE, rc_backoff_seconds = 0\<rparr>,
      nc_audit_events = [AuditEventType.REMEDIATION_EXECUTED,
         AuditEventType.TOOL_EXECUTED],
      nc_incident_events =
        [IncidentEventType.EXECUTION_STARTED,
         IncidentEventType.EXECUTION_COMPLETED,
         IncidentEventType.EXECUTION_FAILED,
         IncidentEventType.COMPENSATION_STARTED,
         IncidentEventType.COMPENSATION_COMPLETED],
      nc_span_kind = TraceSpanKind.NODE_EXECUTE,
      nc_state_keys = REMEDIATION_STATE_KEYS,
      nc_immutable_state_keys = REMEDIATION_IMMUTABLE_STATE_KEYS\<rparr>"

definition G10_VERIFIER :: "NodeContract" where
  "G10_VERIFIER =
     \<lparr>nc_node_id = NodeId.G10_VERIFIER, nc_node_version = ''1.0.0'',
      nc_contract_version = ''1.0.0'',
      nc_inputs = [''remediation_action'', ''verification_criteria''],
      nc_outputs = [''verification'', ''phase''],
      nc_permitted_state_keys =
       [''phase'', ''verification'', ''remediation_action'', ''baseline_captured'',
       ''budget'', ''failures'', ''terminated'', ''termination_reason'',
       ''target_incident_status''],
      nc_capabilities = READ_CAPABILITIES,
      nc_model_backed = False, nc_timeout_seconds = 90,
      nc_retry = REMEDIATION_RETRY,
      nc_audit_events = [AuditEventType.VERIFICATION_RECORDED],
      nc_incident_events =
        [IncidentEventType.VERIFICATION_STARTED,
         IncidentEventType.VERIFICATION_RESULT],
      nc_span_kind = TraceSpanKind.NODE_EXECUTE,
      nc_state_keys = REMEDIATION_STATE_KEYS,
      nc_immutable_state_keys = REMEDIATION_IMMUTABLE_STATE_KEYS\<rparr>"

definition NOTIFICATION_CAPABILITIES :: "string list" where
  "NOTIFICATION_CAPABILITIES =
     [''notify.slack_channel'', ''notify.teams_channel'', ''write.pagerduty_event'',
       ''write.jira_issue'', ''write.jira_comment'', ''write.grafana_annotation'']"

definition S2_NOTIFICATION_SERVICE :: "NodeContract" where
  "S2_NOTIFICATION_SERVICE =
     \<lparr>nc_node_id = NodeId.S2_NOTIFICATION_SERVICE, nc_node_version = ''1.0.0'',
      nc_contract_version = ''1.0.0'',
      nc_inputs = [''incident'', ''notification_event''],
      nc_outputs = [''delivery_receipts''],
      nc_permitted_state_keys =
       [],
      nc_capabilities = NOTIFICATION_CAPABILITIES,
      nc_model_backed = False, nc_timeout_seconds = 60,
      nc_retry = \<lparr>rc_max_attempts = 1, rc_schema_repair_attempts = 0,
         rc_operation_class = OperationClass.C3_NON_IDEMPOTENT_WRITE, rc_backoff_seconds = 0\<rparr>,
      nc_audit_events = [AuditEventType.TOOL_EXECUTED,
         AuditEventType.TOOL_AUTHORIZATION_EVALUATED],
      nc_incident_events =
        [],
      nc_span_kind = TraceSpanKind.INTEGRATION_CALL,
      nc_state_keys = STATE_KEYS,
      nc_immutable_state_keys = IMMUTABLE_STATE_KEYS\<rparr>"

definition NODE_CONTRACTS :: "(string \<times> NodeContract) list" where
  "NODE_CONTRACTS =
     [(''coordinator'', G2_INCIDENT_COORDINATOR),
      (''planner'', G3_INVESTIGATION_PLANNER),
      (''evidence_collector'', G4_EVIDENCE_COLLECTOR),
      (''hypothesis_engine'', G5_HYPOTHESIS_ENGINE),
      (''terminator'', G2_TERMINATOR),
      (''remediation_planner'', G6_REMEDIATION_PLANNER),
      (''policy_gate'', G7_POLICY_GATE),
      (''approval_service'', G8_APPROVAL_SERVICE),
      (''remediation_executor'', G9_REMEDIATION_EXECUTOR),
      (''verifier'', G10_VERIFIER)]"

definition contract_for :: "string \<Rightarrow> (py_error, NodeContract) result" where
  "contract_for graph_node =
     (case map_of NODE_CONTRACTS graph_node of
        None \<Rightarrow> Inl ContractViolation
      | Some c \<Rightarrow> Inr c)"

section \<open>Facts\<close>

lemma validate_update_Inr:
  "validate_update c u = Inr () \<longleftrightarrow>
     (\<forall>k \<in> fst ` set u. k \<in> set (nc_state_keys c) \<and> k \<notin> set (nc_immutable_state_keys c) \<and>
        k \<in> set (nc_permitted_state_keys c))"
  by (auto simp: validate_update_def Let_def filter_empty_conv)

lemma validate_update_ok:
  assumes "set (map fst u) \<subseteq> set ks"
    and "list_all (\<lambda>k. k \<in> set (nc_state_keys c) \<and> k \<notin> set (nc_immutable_state_keys c) \<and>
      k \<in> set (nc_permitted_state_keys c)) ks"
  shows "validate_update c u = Inr ()"
  using assms by (auto simp: validate_update_Inr list_all_iff)

lemma validate_update_Inl: "validate_update c u = Inl e \<Longrightarrow> e = ContractViolation"
  by (auto simp: validate_update_def Let_def split: if_splits)

text \<open>The contracts of the registry and of the notification service.\<close>

definition all_contracts :: "NodeContract list" where
  "all_contracts = map snd NODE_CONTRACTS @ [S2_NOTIFICATION_SERVICE]"

lemma contract_for_mem: "contract_for n = Inr c \<Longrightarrow> c \<in> set all_contracts"
  by (auto simp: contract_for_def all_contracts_def image_iff split: option.splits dest!: map_of_SomeD)
    force

lemma contracts_valid: "list_all valid_contract all_contracts"
  by code_simp

lemma contracts_keys:
  "list_all (\<lambda>c. \<forall>k \<in> set (nc_permitted_state_keys c).
     k \<in> set (nc_state_keys c) \<and> k \<notin> set (nc_immutable_state_keys c)) all_contracts"
  by code_simp

lemma contracts_models_have_no_capability:
  "list_all (\<lambda>c. nc_model_backed c \<longrightarrow> nc_capabilities c = []) all_contracts"
  by code_simp

lemma contracts_mutations:
  "list_all (\<lambda>c. (\<exists>d \<in> set WRITE_CATALOGUE. td_capability d \<in> set (nc_capabilities c)) \<longrightarrow>
     nc_node_id c = NodeId.G9_REMEDIATION_EXECUTOR) all_contracts"
  by code_simp

lemma contracts_external_records:
  "list_all (\<lambda>c. (\<exists>d \<in> set INTEGRATION_CATALOGUE. td_capability d \<in> set (nc_capabilities c)) \<longrightarrow>
     nc_node_id c = NodeId.S2_NOTIFICATION_SERVICE) all_contracts"
  by code_simp

lemma contracts_registered:
  "list_all (\<lambda>c. \<forall>cap \<in> set (nc_capabilities c).
     cap \<in> td_capability ` set (READ_ONLY_CATALOGUE @ WRITE_CATALOGUE @ INTEGRATION_CATALOGUE))
     all_contracts"
  by code_simp

lemma contracts_model_nodes:
  "list_all (\<lambda>c. nc_model_backed c \<longrightarrow> uses_model (nc_node_id c)) all_contracts"
  by code_simp

end
