(* ===== verification/Tool_Capability.thy ===== *)
theory Tool_Capability
  imports Tool_Registry Node_Contracts
begin

text \<open>
  Least-privilege capability resolution, \<open>src/asic/tools/capability.py\<close>: the incident scope
  read from the catalogue tables, the arguments resolved from it, the menu resolved from
  grants, contract and risk ceiling, and the refusals. Table rows carry the columns the code
  reads; a row-level-security filter is the tenant column in the \<open>where\<close> clause. The lemmas:
  every capability on a menu is registered, granted to the tenant, within the ceiling and
  declared by the node; scope values come from the incident alone.
\<close>

section \<open>Scope\<close>

record ServiceScope =
  sv_id :: string
  sv_name :: string
  sv_namespaces :: "string list"

record IncidentScope =
  is_tenant :: string
  is_incident :: string
  is_environment :: string
  is_environment_name :: string
  is_services :: "ServiceScope list"

definition service_names :: "IncidentScope \<Rightarrow> string list" where
  "service_names s = map sv_name (is_services s)"

definition scope_service :: "IncidentScope \<Rightarrow> string \<Rightarrow> (py_error, ServiceScope) result" where
  "scope_service s name =
     (case List.find (\<lambda>c. sv_name c = name) (is_services s) of
        None \<Rightarrow> Inl CapabilityNotGranted
      | Some c \<Rightarrow> Inr c)"

definition available_values :: "IncidentScope \<Rightarrow> ServiceScope \<Rightarrow> arg_map" where
  "available_values s sv =
     [(''tenant_id'', PUUID (is_tenant s)),
      (''environment'', PStr (is_environment_name s)),
      (''service'', PStr (sv_name sv))] @
     (case sv_namespaces sv of [] \<Rightarrow> [] | ns # _ \<Rightarrow> [(''namespace'', PStr ns)])"

fun resolve_loop :: "arg_map \<Rightarrow> string list \<Rightarrow> (py_error, arg_map) result" where
  "resolve_loop available [] = Inr []"
| "resolve_loop available (n # ns) =
     (case map_of available n of
        None \<Rightarrow> Inl CapabilityNotGranted
      | Some v \<Rightarrow> andThen (resolve_loop available ns) (\<lambda>r. Inr ((n, v) # r)))"

definition sorted_scope_names :: "ToolDescriptor \<Rightarrow> string list" where
  "sorted_scope_names d =
     sort (remdups (map arg_name (filter arg_scope_resolved (td_arguments d))))"

definition resolve_arguments ::
  "IncidentScope \<Rightarrow> ToolDescriptor \<Rightarrow> string \<Rightarrow> (py_error, arg_map) result" where
  "resolve_arguments s d service_name =
     andThen (scope_service s service_name) (\<lambda>sv.
       resolve_loop (available_values s sv) (sorted_scope_names d))"

record environment_row =
  env_id :: string
  env_tenant :: string
  env_name :: string
  env_is_production :: bool
  env_approval_policy :: arg_map

record service_row =
  srv_id :: string
  srv_tenant :: string
  srv_name :: string
  srv_namespaces :: "string list"
  srv_active :: bool

definition load_incident_scope ::
  "environment_row list \<Rightarrow> service_row list \<Rightarrow> string \<Rightarrow> string \<Rightarrow> string \<Rightarrow> string list \<Rightarrow>
   (py_error, IncidentScope) result" where
  "load_incident_scope envs srvs tenant incident environment service_ids =
     (case List.find (\<lambda>e. env_tenant e = tenant \<and> env_id e = environment) envs of
        None \<Rightarrow> Inl CapabilityNotGranted
      | Some e \<Rightarrow>
          let rows = sort_key srv_name
                (filter (\<lambda>r. srv_tenant r = tenant \<and> srv_id r \<in> set service_ids) srvs)
          in if service_ids \<noteq> [] \<and> \<not> set service_ids \<subseteq> srv_id ` set rows
             then Inl CapabilityNotGranted
             else Inr \<lparr>is_tenant = tenant, is_incident = incident, is_environment = environment,
                       is_environment_name = env_name e,
                       is_services = map (\<lambda>r. \<lparr>sv_id = srv_id r, sv_name = srv_name r,
                          sv_namespaces = srv_namespaces r\<rparr>) rows\<rparr>)"

section \<open>The menu\<close>

record GrantedCapability =
  gc_capability :: string
  gc_descriptor :: ToolDescriptor
  gc_definition_id :: string
  gc_grant_id :: string
  gc_credential_ref :: "string option"
  gc_scope_overrides :: arg_map
  gc_blast_radius_limits :: arg_map

text \<open>Two dictionaries over the granted list: a later entry replaces an earlier one.\<close>

record CapabilityMenu =
  mn_by_capability :: "(string \<times> GrantedCapability) list"
  mn_by_tool_name :: "(string \<times> GrantedCapability) list"

definition make_menu :: "GrantedCapability list \<Rightarrow> CapabilityMenu" where
  "make_menu gs =
     \<lparr>mn_by_capability = fold (\<lambda>g d. AList.update (gc_capability g) g d) gs [],
      mn_by_tool_name = fold (\<lambda>g d. AList.update (td_name (gc_descriptor g)) g d) gs []\<rparr>"

definition menu_contains :: "CapabilityMenu \<Rightarrow> string \<Rightarrow> bool" where
  "menu_contains m c \<longleftrightarrow> map_of (mn_by_capability m) c \<noteq> None"

definition menu_names :: "CapabilityMenu \<Rightarrow> string list" where
  "menu_names m = sort (map fst (mn_by_capability m))"

definition menu_tool_names :: "CapabilityMenu \<Rightarrow> string list" where
  "menu_tool_names m = sort (map fst (mn_by_tool_name m))"

definition menu_get :: "CapabilityMenu \<Rightarrow> string \<Rightarrow> (py_error, GrantedCapability) result" where
  "menu_get m c =
     (case map_of (mn_by_capability m) c of None \<Rightarrow> Inl CapabilityNotGranted | Some g \<Rightarrow> Inr g)"

definition menu_get_by_tool_name :: "CapabilityMenu \<Rightarrow> string \<Rightarrow> GrantedCapability option" where
  "menu_get_by_tool_name m n = map_of (mn_by_tool_name m) n"

section \<open>The resolver\<close>

record CapabilityResolver =
  rs_registry :: ToolRegistry
  rs_max_risk_tier :: RiskTier

definition make_resolver :: "ToolRegistry \<Rightarrow> RiskTier \<Rightarrow> (py_error, CapabilityResolver) result" where
  "make_resolver r max_tier =
     (if max_tier = RiskTier.R3 then Inl ValueError
      else Inr \<lparr>rs_registry = r, rs_max_risk_tier = max_tier\<rparr>)"

record grant_row =
  gr_id :: string
  gr_tenant :: string
  gr_definition_id :: string
  gr_environment :: "string option"
  gr_enabled :: bool
  gr_scope_overrides :: arg_map
  gr_blast_radius_limits :: arg_map

text \<open>\<open>a.rank > b.rank\<close>; \<open>KeyError\<close> where a tier has no rank.\<close>

definition rank_above :: "RiskTier \<Rightarrow> RiskTier \<Rightarrow> (py_error, bool) result" where
  "rank_above a b =
     (case (risk_rank a, risk_rank b) of
        (Some m, Some n) \<Rightarrow> Inr (n < m)
      | _ \<Rightarrow> Inl KeyError)"

definition grant_rows ::
  "grant_row list \<Rightarrow> tool_row list \<Rightarrow> IncidentScope \<Rightarrow> (grant_row \<times> tool_row) list" where
  "grant_rows grants rows s =
     sort_key (\<lambda>(_, t). tr_name t)
       (concat (map (\<lambda>g. map (Pair g)
           (filter (\<lambda>t. tr_id t = gr_definition_id g \<and> gr_tenant g = is_tenant s \<and>
              gr_enabled g \<and> tr_is_enabled t \<and>
              (gr_environment g = Some (is_environment s) \<or> gr_environment g = None)) rows))
         grants))"

fun grant_loop ::
  "CapabilityResolver \<Rightarrow> NodeContract \<Rightarrow> (string \<times> RegisteredTool) list \<Rightarrow>
   (grant_row \<times> tool_row) list \<Rightarrow> (py_error, GrantedCapability list) result" where
  "grant_loop rs contract joined [] = Inr []"
| "grant_loop rs contract joined ((g, t) # rest) =
     (case map_of joined (tr_name t) of
        None \<Rightarrow> grant_loop rs contract joined rest
      | Some registered \<Rightarrow>
          andThen (rank_above (tr_risk_tier t) (rs_max_risk_tier rs)) (\<lambda>above.
            if above \<or> \<not> permits_capability contract (tr_capability t)
            then grant_loop rs contract joined rest
            else andThen (grant_loop rs contract joined rest) (\<lambda>gs.
              Inr (\<lparr>gc_capability = tr_capability t, gc_descriptor = rt_descriptor registered,
                    gc_definition_id = rt_definition_id registered, gc_grant_id = gr_id g,
                    gc_credential_ref = rt_credential_ref registered,
                    gc_scope_overrides = gr_scope_overrides g,
                    gc_blast_radius_limits = gr_blast_radius_limits g\<rparr> # gs))))"

definition resolve ::
  "CapabilityResolver \<Rightarrow> grant_row list \<Rightarrow> tool_row list \<Rightarrow> IncidentScope \<Rightarrow> NodeContract \<Rightarrow>
   (py_error, CapabilityMenu) result" where
  "resolve rs grants rows s contract =
     andThen (assert_matches_database (rs_registry rs) rows) (\<lambda>joined.
       andThen (grant_loop rs contract joined (grant_rows grants rows s)) (\<lambda>gs.
         Inr (make_menu gs)))"

definition assert_tier_permitted ::
  "CapabilityResolver \<Rightarrow> ToolDescriptor \<Rightarrow> (py_error, unit) result" where
  "assert_tier_permitted rs d =
     andThen (rank_above (td_risk_tier d) (rs_max_risk_tier rs)) (\<lambda>above.
       guard (\<not> above) RiskTierNotPermitted)"

definition assert_tenant_matches :: "string \<Rightarrow> string \<Rightarrow> (py_error, unit) result" where
  "assert_tenant_matches bound requested = guard (bound = requested) TenantContextMismatch"

section \<open>Facts\<close>

lemma fold_update_lookup:
  "map_of (fold (\<lambda>g d. AList.update (f g) g d) gs d0) k = Some g \<Longrightarrow>
   (g \<in> set gs \<and> f g = k) \<or> map_of d0 k = Some g"
proof (induction gs arbitrary: d0)
  case (Cons h gs)
  from Cons.IH [of "AList.update (f h) h d0"] Cons.prems
  have "g \<in> set gs \<and> f g = k \<or> map_of (AList.update (f h) h d0) k = Some g" by simp
  then show ?case by (auto simp: update_conv' split: if_splits)
qed simp

lemma menu_get_mem:
  "menu_get (make_menu gs) c = Inr g \<Longrightarrow> g \<in> set gs \<and> gc_capability g = c"
  using fold_update_lookup [of gc_capability gs "[]" c g]
  by (auto simp: menu_get_def make_menu_def split: option.splits)

lemma menu_tool_mem:
  "menu_get_by_tool_name (make_menu gs) n = Some g \<Longrightarrow>
   g \<in> set gs \<and> td_name (gc_descriptor g) = n"
  using fold_update_lookup [of "\<lambda>g. td_name (gc_descriptor g)" gs "[]" n g]
  by (auto simp: menu_get_by_tool_name_def make_menu_def)

definition within_ceiling :: "RiskTier \<Rightarrow> RiskTier \<Rightarrow> bool" where
  "within_ceiling tier max_tier \<longleftrightarrow>
     (\<exists>m n. risk_rank tier = Some m \<and> risk_rank max_tier = Some n \<and> m \<le> n)"

lemma rank_above_False: "rank_above a b = Inr False \<longleftrightarrow> within_ceiling a b"
  by (auto simp: rank_above_def within_ceiling_def split: option.splits)

lemma assert_tier_permitted_Inr:
  "assert_tier_permitted rs d = Inr () \<longleftrightarrow> within_ceiling (td_risk_tier d) (rs_max_risk_tier rs)"
  using rank_above_False [of "td_risk_tier d" "rs_max_risk_tier rs"]
  by (auto simp: assert_tier_permitted_def result_simps)

lemma grant_loop_mem:
  "grant_loop rs c joined gts = Inr gs \<Longrightarrow> x \<in> set gs \<Longrightarrow>
   \<exists>(g, t) \<in> set gts. \<exists>r. map_of joined (tr_name t) = Some r \<and>
     within_ceiling (tr_risk_tier t) (rs_max_risk_tier rs) \<and>
     permits_capability c (tr_capability t) \<and>
     gc_capability x = tr_capability t \<and> gc_descriptor x = rt_descriptor r \<and>
     gc_definition_id x = rt_definition_id r \<and> gc_grant_id x = gr_id g"
proof (induction gts arbitrary: gs)
  case (Cons gt gts)
  obtain g t where gt: "gt = (g, t)" by (cases gt)
  show ?case
  proof (cases "\<exists>gs'. grant_loop rs c joined gts = Inr gs' \<and> x \<in> set gs'")
    case True
    then show ?thesis using Cons.IH by fastforce
  next
    case False
    with Cons.prems gt obtain r where "map_of joined (tr_name t) = Some r"
        "rank_above (tr_risk_tier t) (rs_max_risk_tier rs) = Inr False"
        "permits_capability c (tr_capability t)"
        "gc_capability x = tr_capability t" "gc_descriptor x = rt_descriptor r"
        "gc_definition_id x = rt_definition_id r" "gc_grant_id x = gr_id g"
      by (auto simp: result_simps split: option.splits if_splits)
    then show ?thesis using gt by (auto simp: rank_above_False)
  qed
qed simp

lemma grant_rows_mem:
  "(g, t) \<in> set (grant_rows grants rows s) \<longleftrightarrow>
     g \<in> set grants \<and> t \<in> set rows \<and> tr_id t = gr_definition_id g \<and> gr_tenant g = is_tenant s \<and>
     gr_enabled g \<and> tr_is_enabled t \<and>
     (gr_environment g = Some (is_environment s) \<or> gr_environment g = None)"
  by (auto simp: grant_rows_def)

text \<open>What stands behind every entry of a resolved menu.\<close>

definition justified ::
  "CapabilityResolver \<Rightarrow> grant_row list \<Rightarrow> tool_row list \<Rightarrow> IncidentScope \<Rightarrow> NodeContract \<Rightarrow>
   GrantedCapability \<Rightarrow> bool" where
  "justified rs grants rows s c x \<longleftrightarrow>
     gc_descriptor x \<in> set (descriptors (rs_registry rs)) \<and>
     permits_capability c (gc_capability x) \<and>
     (\<exists>g \<in> set grants. \<exists>t \<in> set rows. gr_id g = gc_grant_id x \<and> gr_definition_id g = tr_id t \<and>
        tr_name t = td_name (gc_descriptor x) \<and> tr_capability t = gc_capability x \<and>
        gr_tenant g = is_tenant s \<and> gr_enabled g \<and> tr_is_enabled t \<and>
        (gr_environment g = Some (is_environment s) \<or> gr_environment g = None) \<and>
        within_ceiling (tr_risk_tier t) (rs_max_risk_tier rs))"

lemma resolve_justified:
  assumes "resolve rs grants rows s c = Inr m"
  obtains gs where "m = make_menu gs" "\<And>x. x \<in> set gs \<Longrightarrow> justified rs grants rows s c x"
proof -
  obtain joined gs where j: "assert_matches_database (rs_registry rs) rows = Inr joined"
      and gs: "grant_loop rs c joined (grant_rows grants rows s) = Inr gs" and m: "m = make_menu gs"
    using assms by (auto simp: resolve_def result_simps)
  have join: "join_rows (descriptors (rs_registry rs)) rows = ([], joined)"
    using j by (auto simp: assert_matches_database_def split: prod.splits if_splits)
  have "justified rs grants rows s c x" if x: "x \<in> set gs" for x
  proof -
    obtain g t r where gt: "(g, t) \<in> set (grant_rows grants rows s)"
        and r: "map_of joined (tr_name t) = Some r"
        and f: "within_ceiling (tr_risk_tier t) (rs_max_risk_tier rs)"
          "permits_capability c (tr_capability t)" "gc_capability x = tr_capability t"
          "gc_descriptor x = rt_descriptor r" "gc_grant_id x = gr_id g"
      using grant_loop_mem [OF gs x] by blast
    have "rt_descriptor r \<in> set (descriptors (rs_registry rs)) \<and>
        td_name (rt_descriptor r) = tr_name t"
      using join_rows_clean [OF join] map_of_SomeD [OF r] by auto
    then show ?thesis using gt f
      unfolding justified_def grant_rows_mem by (intro conjI bexI [of _ g] bexI [of _ t]) auto
  qed
  with m that show ?thesis by blast
qed

lemma resolve_get:
  assumes "resolve rs grants rows s c = Inr m" and "menu_get m cap = Inr x"
  shows "justified rs grants rows s c x \<and> gc_capability x = cap"
  using resolve_justified [OF assms(1)] menu_get_mem assms(2) by metis

lemma resolve_get_tool:
  assumes "resolve rs grants rows s c = Inr m" and "menu_get_by_tool_name m n = Some x"
  shows "justified rs grants rows s c x \<and> td_name (gc_descriptor x) = n"
  using resolve_justified [OF assms(1)] menu_tool_mem assms(2) by metis

lemma resolve_loop_Inr:
  "resolve_loop av ns = Inr r \<Longrightarrow> map fst r = ns \<and> (\<forall>(k, v) \<in> set r. map_of av k = Some v)"
  by (induction ns arbitrary: r) (auto simp: result_simps split: option.splits)

lemma sorted_scope_names_set: "set (sorted_scope_names d) = scope_argument_names d"
  by (auto simp: sorted_scope_names_def scope_argument_names_def)

lemma resolve_arguments_Inr:
  assumes "resolve_arguments s d n = Inr r"
  shows "\<exists>sv \<in> set (is_services s). sv_name sv = n \<and> fst ` set r = scope_argument_names d \<and>
     (\<forall>(k, v) \<in> set r. map_of (available_values s sv) k = Some v)"
proof -
  obtain sv where sv: "List.find (\<lambda>c. sv_name c = n) (is_services s) = Some sv"
      and l: "resolve_loop (available_values s sv) (sorted_scope_names d) = Inr r"
    using assms by (auto simp: resolve_arguments_def scope_service_def result_simps split: option.splits)
  have "map fst r = sorted_scope_names d" using resolve_loop_Inr [OF l] by blast
  then have "fst ` set r = scope_argument_names d"
    by (metis set_map sorted_scope_names_set)
  then show ?thesis
    using resolve_loop_Inr [OF l] find_SomeD [OF sv] by (intro bexI [of _ sv]) simp_all
qed

end
