(* ===== verification/Connector_Scope.thy ===== *)
theory Connector_Scope
  imports Redaction Tool_Capability
begin

text \<open>
  Connector authority for native integrations, \<open>src/asic/tools/connector_scope.py\<close>: the
  enabled connector of the environment, its binding to the service, and the check of its
  settings. Queried on every call. The lemma states the rows behind a returned grant.
\<close>

definition MAX_SETTINGS_KEYS :: nat where "MAX_SETTINGS_KEYS = 16"
definition MAX_SETTING_CHARS :: nat where "MAX_SETTING_CHARS = 256"

record connector_row =
  cn_tenant :: string
  cn_id :: string
  cn_environment :: string
  cn_kind :: IntegrationKind
  cn_endpoint :: "string option"
  cn_credential :: "string option"
  cn_write_credential :: "string option"
  cn_settings :: arg_map
  cn_enabled :: bool
  cn_revoked_at :: "int option"

record binding_row =
  cb_id :: string
  cb_tenant :: string
  cb_connector :: string
  cb_source :: string
  cb_service :: string
  cb_environment :: string
  cb_enabled :: bool
  cb_revoked_at :: "int option"

record ConnectorGrant =
  cg_connector :: string
  cg_kind :: IntegrationKind
  cg_endpoint :: "string option"
  cg_credential :: "string option"
  cg_write_credential :: "string option"
  cg_service_name :: string
  cg_environment_name :: string
  cg_settings :: arg_map
  cg_namespaces :: "string list"

definition setting_safe :: "string \<times> pyval \<Rightarrow> bool" where
  "setting_safe kv \<longleftrightarrow>
     \<not> is_forbidden_secret_field (fst kv) \<and>
     (case snd kv of
        PStr s \<Rightarrow> \<not> looks_like_secret s \<and> length s \<le> MAX_SETTING_CHARS
      | PBool b \<Rightarrow> True
      | PInt i \<Rightarrow> True
      | _ \<Rightarrow> False)"

definition safe_settings :: "arg_map \<Rightarrow> (py_error, arg_map) result" where
  "safe_settings raw =
     (if MAX_SETTINGS_KEYS < length raw then Inl ConnectorScopeDenied
      else if \<forall>kv \<in> set raw. setting_safe kv then Inr raw else Inl ConnectorScopeDenied)"

definition connector_matches :: "IncidentScope \<Rightarrow> IntegrationKind \<Rightarrow> connector_row \<Rightarrow> bool" where
  "connector_matches s kind c \<longleftrightarrow>
     cn_tenant c = is_tenant s \<and> cn_environment c = is_environment s \<and> cn_kind c = kind \<and>
     cn_enabled c \<and> cn_revoked_at c = None"

definition binding_matches ::
  "IncidentScope \<Rightarrow> IntegrationKind \<Rightarrow> connector_row \<Rightarrow> ServiceScope \<Rightarrow> binding_row \<Rightarrow> bool" where
  "binding_matches s kind c sv b \<longleftrightarrow>
     cb_tenant b = is_tenant s \<and> cb_connector b = cn_id c \<and>
     cb_source b = IntegrationKind_value kind \<and> cb_service b = sv_id sv \<and>
     cb_environment b = is_environment s \<and> cb_enabled b \<and> cb_revoked_at b = None"

definition resolve_connector ::
  "service_row list \<Rightarrow> connector_row list \<Rightarrow> binding_row list \<Rightarrow> IncidentScope \<Rightarrow> string \<Rightarrow>
   IntegrationKind \<Rightarrow> (py_error, ConnectorGrant) result" where
  "resolve_connector services connectors bindings s service_name kind =
     andThen (scope_service s service_name) (\<lambda>sv.
       case List.find (\<lambda>r. srv_tenant r = is_tenant s \<and> srv_id r = sv_id sv) services of
         None \<Rightarrow> Inl ConnectorScopeDenied
       | Some r \<Rightarrow>
           if \<not> srv_active r then Inl ConnectorScopeDenied
           else andThen (scalar_one_or_none (filter (connector_matches s kind) connectors)) (\<lambda>found.
             case found of
               None \<Rightarrow> Inl ConnectorScopeDenied
             | Some c \<Rightarrow>
                 (case List.find (binding_matches s kind c sv) bindings of
                    None \<Rightarrow> Inl ConnectorScopeDenied
                  | Some b \<Rightarrow>
                      andThen (safe_settings (cn_settings c)) (\<lambda>settings.
                        Inr \<lparr>cg_connector = cn_id c, cg_kind = kind,
                             cg_endpoint = cn_endpoint c, cg_credential = cn_credential c,
                             cg_write_credential = cn_write_credential c,
                             cg_service_name = sv_name sv,
                             cg_environment_name = is_environment_name s,
                             cg_settings = settings, cg_namespaces = sv_namespaces sv\<rparr>))))"

section \<open>Facts\<close>

definition connector_authorized ::
  "service_row list \<Rightarrow> connector_row list \<Rightarrow> binding_row list \<Rightarrow> IncidentScope \<Rightarrow> string \<Rightarrow>
   IntegrationKind \<Rightarrow> ConnectorGrant \<Rightarrow> bool" where
  "connector_authorized services connectors bindings s service_name kind g \<longleftrightarrow>
     (\<exists>sv \<in> set (is_services s). sv_name sv = service_name \<and>
        (\<exists>r \<in> set services. srv_tenant r = is_tenant s \<and> srv_id r = sv_id sv \<and> srv_active r) \<and>
        (\<exists>c \<in> set connectors. connector_matches s kind c \<and> cg_connector g = cn_id c \<and>
           cg_credential g = cn_credential c \<and>
           (\<exists>b \<in> set bindings. binding_matches s kind c sv b)) \<and>
        cg_service_name g = service_name \<and>
        (\<forall>kv \<in> set (cg_settings g). setting_safe kv))"

lemma safe_settings_Inr:
  "safe_settings raw = Inr r \<Longrightarrow> r = raw \<and> (\<forall>kv \<in> set r. setting_safe kv) \<and> length r \<le> MAX_SETTINGS_KEYS"
  by (auto simp: safe_settings_def split: if_splits)

lemma resolve_connector_Inr:
  assumes "resolve_connector services connectors bindings s name kind = Inr g"
  shows "connector_authorized services connectors bindings s name kind g"
proof -
  obtain sv r c b where sv: "scope_service s name = Inr sv"
    and r: "List.find (\<lambda>r. srv_tenant r = is_tenant s \<and> srv_id r = sv_id sv) services = Some r"
      "srv_active r"
    and c: "scalar_one_or_none (filter (connector_matches s kind) connectors) = Inr (Some c)"
    and b: "List.find (binding_matches s kind c sv) bindings = Some b"
    and st: "safe_settings (cn_settings c) = Inr (cg_settings g)"
    and g: "cg_connector g = cn_id c" "cg_credential g = cn_credential c" "cg_service_name g = sv_name sv"
    using assms unfolding resolve_connector_def raise_simps by auto
  have "sv \<in> set (is_services s)" "sv_name sv = name"
    using sv by (auto simp: scope_service_def split: option.splits dest: find_SomeD)
  moreover have "c \<in> set connectors" "connector_matches s kind c"
    using c filter_singleton by (fastforce simp: query_simps)+
  ultimately show ?thesis
    unfolding connector_authorized_def
    using find_SomeD [OF r(1)] r(2) find_SomeD [OF b] safe_settings_Inr [OF st] g by blast
qed

lemma scope_service_Inl: "scope_service s n = Inl e \<Longrightarrow> e = CapabilityNotGranted"
  by (auto simp: scope_service_def split: option.splits)

end
