(* ===== verification/Idempotency.thy ===== *)
theory Idempotency
  imports Py_Value "HOL-Library.List_Lexorder" "HOL-Library.Char_ord"
begin

text \<open>
  Idempotency keys, \<open>src/asic/domain/idempotency.py\<close>: the canonical rendering of a value,
  the digest of the parts of a key and the key of each operation. \<open>json.dumps\<close> of strings is
  written out (with \<open>ensure_ascii\<close>); \<open>repr\<close> of a float, the local ISO rendering of an instant
  and SHA-256 are the functions of a \<open>key_ops\<close> record. The lemmas: a rendering of a list or
  mapping can be read back, so that equal keys come from equal parts when the digest has no
  collision.
\<close>

section \<open>JSON strings\<close>

definition json_char :: "char \<Rightarrow> string" where
  "json_char c =
     (let n = of_char c :: nat in
      if n = 34 then [CHR 0x5C, CHR 0x22]
      else if n = 92 then [CHR 0x5C, CHR 0x5C]
      else if n = 8 then [CHR 0x5C, CHR ''b'']
      else if n = 9 then [CHR 0x5C, CHR ''t'']
      else if n = 10 then [CHR 0x5C, CHR ''n'']
      else if n = 12 then [CHR 0x5C, CHR ''f'']
      else if n = 13 then [CHR 0x5C, CHR ''r'']
      else if 32 \<le> n \<and> n \<le> 126 then [c]
      else [CHR 0x5C, CHR ''u'', CHR ''0'', CHR ''0'', hex_digit (n div 16), hex_digit (n mod 16)])"

definition json_body :: "string \<Rightarrow> string" where
  "json_body s = concat (map json_char s)"

definition json_str :: "string \<Rightarrow> string" where
  "json_str s = CHR 0x22 # json_body s @ [CHR 0x22]"

definition json_list :: "string list \<Rightarrow> string" where
  "json_list xs = ''['' @ py_join '','' (map json_str xs) @ '']''"

definition json_pair :: "string \<times> string \<Rightarrow> string" where
  "json_pair kv = json_str (fst kv) @ '':'' @ json_str (snd kv)"

definition json_dict :: "(string \<times> string) list \<Rightarrow> string" where
  "json_dict kvs = ''{'' @ py_join '','' (map json_pair kvs) @ ''}''"

section \<open>Canonical values and digests\<close>

record key_ops =
  repr_float :: "rat \<Rightarrow> string"
  iso_local :: "int \<Rightarrow> string"
  sha256_hex :: "string \<Rightarrow> string"

definition KEY_LENGTH :: nat where "KEY_LENGTH = 64"

definition SEPARATOR :: char where "SEPARATOR = CHR 0x1F"

definition null_text :: string where "null_text = CHR 0x00 # ''null''"

lemma traverse_cong [fundef_cong]:
  "xs = ys \<Longrightarrow> (\<And>x. x \<in> set ys \<Longrightarrow> f x = g x) \<Longrightarrow> traverse f xs = traverse g ys"
  by (induction ys arbitrary: xs) auto

fun canonical :: "key_ops \<Rightarrow> pyval \<Rightarrow> (py_error, string) result" where
  "canonical ops PNone = Inr null_text"
| "canonical ops (PStr s) = Inr s"
| "canonical ops (PBool b) = Inr (if b then ''true'' else ''false'')"
| "canonical ops (PInt i) = Inr (int_digits i)"
| "canonical ops (PFloat r) = Inr (repr_float ops r)"
| "canonical ops (PUUID u) = Inr u"
| "canonical ops (PDatetime d) =
     (if tz_aware d then Inr (iso_local ops (instant d)) else Inl ValueError)"
| "canonical ops (PDict kvs) =
     andThen (traverse (\<lambda>kv. andThen (canonical ops (snd kv)) (\<lambda>s. Inr (fst kv, s)))
               (sort_key fst kvs))
       (\<lambda>pairs. Inr (json_dict pairs))"
| "canonical ops (PList xs) =
     andThen (traverse (canonical ops) xs) (\<lambda>ss. Inr (json_list ss))"
| "canonical ops (PBytes bs) = Inr (json_list (map nat_digits bs))"
| "canonical ops (POther c) = Inl TypeError"

definition digest :: "key_ops \<Rightarrow> string \<Rightarrow> pyval list \<Rightarrow> (py_error, string) result" where
  "digest ops scope parts =
     andThen (traverse (canonical ops) parts) (\<lambda>ss.
       Inr (sha256_hex ops (py_join [SEPARATOR] (scope # ss))))"

definition opt_str :: "string option \<Rightarrow> pyval" where
  "opt_str s = (case s of None \<Rightarrow> PNone | Some t \<Rightarrow> PStr t)"

definition alert_key :: "key_ops \<Rightarrow> string \<Rightarrow> string \<Rightarrow> string \<Rightarrow> py_datetime \<Rightarrow> (py_error, string) result" where
  "alert_key ops tenant source source_fingerprint started_at =
     digest ops ''alert''
       [PUUID tenant, PStr source, PStr source_fingerprint, PDatetime started_at]"

definition incident_event_key ::
  "key_ops \<Rightarrow> string \<Rightarrow> string \<Rightarrow> string \<Rightarrow> pyval \<Rightarrow> string option \<Rightarrow> (py_error, string) result" where
  "incident_event_key ops tenant incident event_type subject discriminator =
     digest ops ''incident_event''
       [PUUID tenant, PUUID incident, PStr event_type, subject, opt_str discriminator]"

definition tool_execution_key ::
  "key_ops \<Rightarrow> string \<Rightarrow> string \<Rightarrow> int \<Rightarrow> (string \<times> pyval) list \<Rightarrow> (py_error, string) result" where
  "tool_execution_key ops tenant tool_name major scope_arguments =
     digest ops ''tool_execution''
       [PUUID tenant, PStr tool_name, PInt major, PDict scope_arguments]"

definition action_version_hash ::
  "key_ops \<Rightarrow> string \<Rightarrow> string \<Rightarrow> string \<Rightarrow> (string \<times> pyval) list \<Rightarrow> (string \<times> pyval) list \<Rightarrow>
   string list \<Rightarrow> string \<Rightarrow> (py_error, string) result" where
  "action_version_hash ops action tool_name tool_version arguments scope preconditions tier =
     digest ops ''action_version''
       [PUUID action, PStr tool_name, PStr tool_version, PDict arguments, PDict scope,
        PList (map PStr preconditions), PStr tier]"

definition approval_callback_key :: "key_ops \<Rightarrow> string \<Rightarrow> string \<Rightarrow> string \<Rightarrow> (py_error, string) result" where
  "approval_callback_key ops tenant action version_hash =
     digest ops ''approval_callback'' [PUUID tenant, PUUID action, PStr version_hash]"

definition verification_callback_key :: "key_ops \<Rightarrow> string \<Rightarrow> string \<Rightarrow> int \<Rightarrow> (py_error, string) result" where
  "verification_callback_key ops tenant action attempt =
     digest ops ''verification_callback'' [PUUID tenant, PUUID action, PInt attempt]"

definition remediation_request_key ::
  "key_ops \<Rightarrow> string \<Rightarrow> string \<Rightarrow> string \<Rightarrow> string \<Rightarrow> (string \<times> pyval) list \<Rightarrow> (py_error, string) result" where
  "remediation_request_key ops tenant incident hypothesis tool_name scope_arguments =
     digest ops ''remediation_request''
       [PUUID tenant, PUUID incident, PUUID hypothesis, PStr tool_name, PDict scope_arguments]"

section \<open>Reading a rendering back\<close>

definition hex_val :: "char \<Rightarrow> nat" where
  "hex_val c = (let n = of_char c in if n < 58 then n - 48 else n - 87)"

definition unescape :: "char \<Rightarrow> char" where
  "unescape c =
     (if c = CHR ''b'' then CHR 0x08 else if c = CHR ''t'' then CHR 0x09
      else if c = CHR ''n'' then CHR 0x0A else if c = CHR ''f'' then CHR 0x0C
      else if c = CHR ''r'' then CHR 0x0D else c)"

text \<open>One character and the rest of the text.\<close>

fun read_char :: "string \<Rightarrow> char \<times> string" where
  "read_char (a # b # rest) =
     (if a \<noteq> CHR 0x5C then (a, b # rest)
      else if b = CHR ''u''
      then (char_of (16 * hex_val (rest ! 2) + hex_val (rest ! 3)), drop 4 rest)
      else (unescape b, rest))"
| "read_char [a] = (a, [])"
| "read_char [] = (CHR 0x00, [])"

lemma hex_val_digit: "k < 16 \<Longrightarrow> hex_val (hex_digit k) = k"
  by (auto simp: hex_val_def hex_digit_def of_char_of Let_def)

lemma char_eq_of_char: "c = d \<longleftrightarrow> (of_char c :: nat) = of_char d"
  by simp

lemma char_codes:
  "char_of (34 :: nat) = CHR 0x22" "char_of (92 :: nat) = CHR 0x5C" "char_of (8 :: nat) = CHR 0x08"
  "char_of (9 :: nat) = CHR 0x09" "char_of (10 :: nat) = CHR 0x0A" "char_of (12 :: nat) = CHR 0x0C"
  "char_of (13 :: nat) = CHR 0x0D"
  by code_simp+

lemma read_char_json: "rest \<noteq> [] \<Longrightarrow> read_char (json_char c @ rest) = (c, rest)"
proof -
  assume "rest \<noteq> []"
  then obtain r rs where r: "rest = r # rs" by (cases rest) auto
  let ?n = "of_char c :: nat"
  have n: "?n < 256" by (cases c) simp
  have c: "char_of ?n = c" by simp
  consider (esc) "?n \<in> {34, 92, 8, 9, 10, 12, 13}"
    | (plain) "?n \<notin> {34, 92, 8, 9, 10, 12, 13}" "32 \<le> ?n" "?n \<le> 126"
    | (hex) "?n \<notin> {34, 92, 8, 9, 10, 12, 13}" "\<not> (32 \<le> ?n \<and> ?n \<le> 126)"
    by blast
  then show ?thesis
  proof cases
    case esc
    then have "c \<in> char_of ` {34, 92, 8, 9, 10, 12, 13 :: nat}"
      using c by (metis image_eqI)
    then show ?thesis by (auto simp: json_char_def unescape_def char_codes)
  next
    case plain
    then have "c \<noteq> CHR 0x5C" by auto
    then show ?thesis using plain r by (simp add: json_char_def Let_def)
  next
    case hex
    have "16 * (?n div 16) + ?n mod 16 = ?n" by simp
    moreover have "?n div 16 < 16" using n by (simp add: less_mult_imp_div_less)
    ultimately show ?thesis
      using hex c by (auto simp: json_char_def Let_def hex_val_digit)
  qed
qed

lemma json_char_inj:
  assumes "json_char c @ x = json_char d @ y" and "x \<noteq> []" and "y \<noteq> []"
  shows "c = d \<and> x = y"
proof -
  have "(c, x) = (d, y)" using assms by (metis read_char_json)
  then show ?thesis by simp
qed

lemma json_char_hd: "json_char c \<noteq> [] \<and> hd (json_char c) \<noteq> CHR 0x22"
  by (auto simp: json_char_def Let_def)

lemma json_body_inj:
  "json_body s @ CHR 0x22 # x = json_body t @ CHR 0x22 # y \<Longrightarrow> s = t \<and> x = y"
proof (induction s arbitrary: t)
  case Nil
  show ?case
  proof (cases t)
    case Nil
    then show ?thesis using \<open>json_body [] @ CHR 0x22 # x = json_body t @ CHR 0x22 # y\<close>
      by (simp add: json_body_def)
  next
    case (Cons d t')
    then have "CHR 0x22 # x = json_char d @ json_body t' @ CHR 0x22 # y"
      using Nil.prems by (simp add: json_body_def)
    then have "hd (json_char d) = CHR 0x22"
      using json_char_hd [of d] by (metis hd_append2 list.sel(1))
    then show ?thesis using json_char_hd by blast
  qed
next
  case (Cons c s)
  show ?case
  proof (cases t)
    case Nil
    then have "json_char c @ json_body s @ CHR 0x22 # x = CHR 0x22 # y"
      using Cons.prems by (simp add: json_body_def)
    then have "hd (json_char c) = CHR 0x22"
      using json_char_hd [of c] by (metis hd_append2 list.sel(1))
    then show ?thesis using json_char_hd by blast
  next
    case t: (Cons d t')
    have "json_char c @ (json_body s @ CHR 0x22 # x) = json_char d @ (json_body t' @ CHR 0x22 # y)"
      using Cons.prems t by (simp add: json_body_def)
    then have "c = d \<and> json_body s @ CHR 0x22 # x = json_body t' @ CHR 0x22 # y"
      by (rule json_char_inj) simp_all
    then show ?thesis using Cons.IH t by simp
  qed
qed

lemma json_str_inj: "json_str s @ x = json_str t @ y \<Longrightarrow> s = t \<and> x = y"
  using json_body_inj [of s x t y] by (simp add: json_str_def)

text \<open>A separated rendering is read back item by item.\<close>

lemma py_join_Cons:
  "py_join sep (s # ts) = s @ (if ts = [] then [] else sep @ py_join sep ts)"
  by (cases ts) simp_all

lemma join_items_inj:
  assumes item: "\<And>a b x y. f a @ x = f b @ y \<Longrightarrow> a = b \<and> x = y"
    and hd: "\<And>a. f a \<noteq> [] \<and> hd (f a) \<noteq> e" and e: "e \<noteq> CHR '',''"
  shows "py_join '','' (map f xs) @ [e] = py_join '','' (map f ys) @ [e] \<Longrightarrow> xs = ys"
proof (induction xs arbitrary: ys)
  case Nil
  show ?case
  proof (cases ys)
    case (Cons y ys')
    then have "[e] = f y @ (if ys' = [] then [e] else '','' @ py_join '','' (map f ys') @ [e])"
      using Nil.prems by (simp add: py_join_Cons split: if_splits)
    then have "hd (f y) = e" using hd [of y] by (metis hd_append2 list.sel(1))
    then show ?thesis using hd by blast
  qed simp
next
  case (Cons x xs)
  show ?case
  proof (cases ys)
    case Nil
    then have "f x @ (if xs = [] then [e] else '','' @ py_join '','' (map f xs) @ [e]) = [e]"
      using Cons.prems by (simp add: py_join_Cons split: if_splits)
    then have "hd (f x) = e" using hd [of x] by (metis hd_append2 list.sel(1))
    then show ?thesis using hd by blast
  next
    case ys: (Cons y ys')
    have "f x @ (if xs = [] then [e] else CHR '','' # py_join '','' (map f xs) @ [e]) =
        f y @ (if ys' = [] then [e] else CHR '','' # py_join '','' (map f ys') @ [e])"
      using Cons.prems ys by (simp add: py_join_Cons split: if_splits)
    then have "x = y" and
      "(if xs = [] then [e] else CHR '','' # py_join '','' (map f xs) @ [e]) =
       (if ys' = [] then [e] else CHR '','' # py_join '','' (map f ys') @ [e])"
      using item by blast+
    then show ?thesis using Cons.IH [of ys'] ys e by (auto split: if_splits)
  qed
qed

lemma json_str_hd: "json_str s \<noteq> [] \<and> hd (json_str s) = CHR 0x22"
  by (simp add: json_str_def)

lemma json_list_inj: "json_list xs = json_list ys \<Longrightarrow> xs = ys"
proof -
  assume "json_list xs = json_list ys"
  then have "py_join '','' (map json_str xs) @ '']'' = py_join '','' (map json_str ys) @ '']''"
    by (simp add: json_list_def)
  moreover have "json_str a \<noteq> [] \<and> hd (json_str a) \<noteq> CHR '']''" for a
    by (simp add: json_str_def)
  moreover have "CHR '']'' \<noteq> CHR '',''" by simp
  ultimately show ?thesis using join_items_inj [where f = json_str, OF json_str_inj] by blast
qed

lemma json_pair_inj: "json_pair a @ x = json_pair b @ y \<Longrightarrow> a = b \<and> x = y"
proof -
  assume eq: "json_pair a @ x = json_pair b @ y"
  then have "json_str (fst a) @ ('':'' @ json_str (snd a) @ x) =
      json_str (fst b) @ ('':'' @ json_str (snd b) @ y)"
    by (simp add: json_pair_def)
  then have k: "fst a = fst b" and "'':'' @ json_str (snd a) @ x = '':'' @ json_str (snd b) @ y"
    using json_str_inj by blast+
  then have "json_str (snd a) @ x = json_str (snd b) @ y" by simp
  then show ?thesis using k json_str_inj by (metis prod.collapse)
qed

lemma json_dict_inj: "json_dict xs = json_dict ys \<Longrightarrow> xs = ys"
proof -
  assume "json_dict xs = json_dict ys"
  then have "py_join '','' (map json_pair xs) @ ''}'' = py_join '','' (map json_pair ys) @ ''}''"
    by (simp add: json_dict_def)
  moreover have "json_pair a \<noteq> [] \<and> hd (json_pair a) \<noteq> CHR ''}''" for a
    by (simp add: json_pair_def json_str_def)
  moreover have "CHR ''}'' \<noteq> CHR '',''" by simp
  ultimately show ?thesis using join_items_inj [where f = json_pair, OF json_pair_inj] by blast
qed

section \<open>Digests\<close>

lemma sep_split:
  "c \<notin> set a \<Longrightarrow> c \<notin> set b \<Longrightarrow> a @ c # x = b @ c # y \<Longrightarrow> a = b \<and> x = y"
proof (induction a arbitrary: b)
  case Nil
  then show ?case by (cases b) auto
next
  case (Cons d a)
  then show ?case by (cases b) auto
qed

lemma sep_join_inj:
  "\<forall>s \<in> set (a # as). c \<notin> set s \<Longrightarrow> \<forall>s \<in> set (b # bs). c \<notin> set s \<Longrightarrow>
   py_join [c] (a # as) = py_join [c] (b # bs) \<Longrightarrow> a # as = b # bs"
proof (induction as arbitrary: a b bs)
  case Nil
  then show ?case by (cases bs) (auto simp: py_join_Cons)
next
  case (Cons a' as)
  show ?case
  proof (cases bs)
    case Nil
    then have "a @ c # py_join [c] (a' # as) = b" using Cons.prems by simp
    then show ?thesis using Cons.prems(2) by auto
  next
    case bs: (Cons b' bs')
    have "a @ c # py_join [c] (a' # as) = b @ c # py_join [c] (b' # bs')"
      using Cons.prems(3) bs by simp
    moreover have "c \<notin> set a" "c \<notin> set b" using Cons.prems(1,2) by simp_all
    ultimately have "a = b \<and> py_join [c] (a' # as) = py_join [c] (b' # bs')"
      using sep_split by metis
    moreover have "\<forall>s \<in> set (a' # as). c \<notin> set s" "\<forall>s \<in> set (b' # bs'). c \<notin> set s"
      using Cons.prems(1,2) bs by simp_all
    ultimately show ?thesis using Cons.IH [of a' b' bs'] bs by blast
  qed
qed

lemma digest_inj:
  assumes "inj (sha256_hex ops)" and "SEPARATOR \<notin> set scope"
    and "digest ops scope ps = Inr k" and "digest ops scope qs = Inr k"
    and "traverse (canonical ops) ps = Inr ss" and "traverse (canonical ops) qs = Inr ts"
    and "\<forall>s \<in> set ss. SEPARATOR \<notin> set s" and "\<forall>s \<in> set ts. SEPARATOR \<notin> set s"
  shows "ss = ts"
proof -
  have "sha256_hex ops (py_join [SEPARATOR] (scope # ss)) =
      sha256_hex ops (py_join [SEPARATOR] (scope # ts))"
    using assms(3-6) by (simp add: digest_def)
  then have eq: "py_join [SEPARATOR] (scope # ss) = py_join [SEPARATOR] (scope # ts)"
    by (rule injD [OF assms(1)])
  have "\<forall>s \<in> set (scope # ss). SEPARATOR \<notin> set s" "\<forall>s \<in> set (scope # ts). SEPARATOR \<notin> set s"
    using assms(2,7,8) by simp_all
  then have "scope # ss = scope # ts" using eq by (rule sep_join_inj)
  then show ?thesis by simp
qed

text \<open>JSON text contains no separator.\<close>

lemma hex_digit_code: "k < 16 \<Longrightarrow> 32 \<le> (of_char (hex_digit k) :: nat)"
  by (auto simp: hex_digit_def of_char_of)

lemma json_char_printable: "d \<in> set (json_char c) \<Longrightarrow> 32 \<le> (of_char d :: nat)"
proof -
  let ?n = "of_char c :: nat"
  have h: "32 \<le> (of_char (hex_digit (?n div 16)) :: nat)" "32 \<le> (of_char (hex_digit (?n mod 16)) :: nat)"
    by (rule hex_digit_code, simp add: less_mult_imp_div_less)+
  assume "d \<in> set (json_char c)"
  then show ?thesis using h by (auto simp: json_char_def Let_def split: if_splits)
qed

lemma sep_code: "(of_char SEPARATOR :: nat) = 31"
  by (simp add: SEPARATOR_def)

lemma json_char_no_sep: "SEPARATOR \<notin> set (json_char c)"
  using json_char_printable [of SEPARATOR c] sep_code by auto

lemma json_str_no_sep: "SEPARATOR \<notin> set (json_str s)"
proof -
  have "SEPARATOR \<noteq> CHR 0x22" by (simp add: SEPARATOR_def)
  then show ?thesis using json_char_no_sep by (simp add: json_str_def json_body_def)
qed

lemma join_no_sep:
  "\<forall>s \<in> set ss. c \<notin> set s \<Longrightarrow> c \<notin> set sep \<Longrightarrow> c \<notin> set (py_join sep ss)"
  by (induction ss) (auto simp: py_join_Cons)

lemma json_list_no_sep: "SEPARATOR \<notin> set (json_list ss)"
  using join_no_sep [of "map json_str ss" SEPARATOR "'',''"] json_str_no_sep
  by (auto simp: json_list_def SEPARATOR_def)

lemma json_dict_no_sep: "SEPARATOR \<notin> set (json_dict kvs)"
  using join_no_sep [of "map json_pair kvs" SEPARATOR "'',''"] json_str_no_sep
  by (auto simp: json_dict_def json_pair_def SEPARATOR_def)

section \<open>What a key binds\<close>

text \<open>The entries of a mapping as the digest sees them: keys with rendered values, in key order.\<close>

definition canonical_entries ::
  "key_ops \<Rightarrow> (string \<times> pyval) list \<Rightarrow> (py_error, (string \<times> string) list) result" where
  "canonical_entries ops kvs =
     traverse (\<lambda>kv. andThen (canonical ops (snd kv)) (\<lambda>s. Inr (fst kv, s))) (sort_key fst kvs)"

lemma canonical_dict:
  "canonical ops (PDict kvs) = andThen (canonical_entries ops kvs) (\<lambda>ps. Inr (json_dict ps))"
  by (simp add: canonical_entries_def)

lemma canonical_strings: "traverse (canonical ops) (map PStr ss) = Inr ss"
  by (induction ss) simp_all

lemma canonical_str_list: "canonical ops (PList (map PStr ss)) = Inr (json_list ss)"
  by (simp add: canonical_strings)

lemma canonical_dict_eq:
  assumes "canonical ops (PDict kvs) = Inr s" and "canonical ops (PDict kvs') = Inr s"
  shows "canonical_entries ops kvs = canonical_entries ops kvs'"
proof -
  obtain ps where ps: "canonical_entries ops kvs = Inr ps" "s = json_dict ps"
    using assms(1) unfolding canonical_dict by (auto simp: result_simps)
  obtain qs where qs: "canonical_entries ops kvs' = Inr qs" "s = json_dict qs"
    using assms(2) unfolding canonical_dict by (auto simp: result_simps)
  have "ps = qs" using ps(2) qs(2) json_dict_inj by metis
  then show ?thesis using ps(1) qs(1) by simp
qed

lemma canonical_dict_no_sep: "canonical ops (PDict kvs) = Inr s \<Longrightarrow> SEPARATOR \<notin> set s"
  unfolding canonical_dict by (auto simp: result_simps json_dict_no_sep)

text \<open>Two keys of one scope: equal parts, when there is no collision and no stray separator.\<close>

lemma digest_parts:
  assumes "inj (sha256_hex ops)" and "SEPARATOR \<notin> set scope"
    and "digest ops scope ps = Inr k" and "digest ops scope qs = Inr k"
    and "\<forall>v \<in> set (ps @ qs). \<forall>s. canonical ops v = Inr s \<longrightarrow> SEPARATOR \<notin> set s"
  shows "map (canonical ops) ps = map (canonical ops) qs"
proof -
  have rendered: "map (canonical ops) vs = map Inr ss \<and> (\<forall>s \<in> set ss. \<exists>v \<in> set vs. canonical ops v = Inr s)"
    if "traverse (canonical ops) vs = Inr ss" for vs ss
    using that by (induction vs arbitrary: ss) (auto simp: result_simps, blast)
  obtain ss where ss: "traverse (canonical ops) ps = Inr ss"
    using assms(3) by (auto simp: digest_def result_simps)
  obtain ts where ts: "traverse (canonical ops) qs = Inr ts"
    using assms(4) by (auto simp: digest_def result_simps)
  have "\<forall>s \<in> set ss. SEPARATOR \<notin> set s" using rendered [OF ss] assms(5) by fastforce
  moreover have "\<forall>s \<in> set ts. SEPARATOR \<notin> set s" using rendered [OF ts] assms(5) by fastforce
  ultimately have "ss = ts" using digest_inj [OF assms(1-4) ss ts] by blast
  then show ?thesis using rendered [OF ss] rendered [OF ts] by simp
qed

lemma action_hash_binds:
  assumes "inj (sha256_hex ops)"
    and "action_version_hash ops a tn tv args scp pre tier = Inr h"
    and "action_version_hash ops a' tn' tv' args' scp' pre' tier' = Inr h"
    and "\<forall>s \<in> {a, tn, tv, tier, a', tn', tv', tier'}. SEPARATOR \<notin> set s"
  shows "a = a' \<and> tn = tn' \<and> tv = tv' \<and> pre = pre' \<and> tier = tier' \<and>
    canonical_entries ops args = canonical_entries ops args' \<and>
    canonical_entries ops scp = canonical_entries ops scp'"
proof -
  let ?ps = "[PUUID a, PStr tn, PStr tv, PDict args, PDict scp, PList (map PStr pre), PStr tier]"
  let ?qs = "[PUUID a', PStr tn', PStr tv', PDict args', PDict scp', PList (map PStr pre'), PStr tier']"
  have sep: "\<forall>v \<in> set (?ps @ ?qs). \<forall>s. canonical ops v = Inr s \<longrightarrow> SEPARATOR \<notin> set s"
    using assms(4) canonical_dict_no_sep
    by (simp del: canonical.simps(8,9) add: canonical_str_list json_list_no_sep)
  have "SEPARATOR \<notin> set ''action_version''" by (simp add: SEPARATOR_def)
  from digest_parts [OF assms(1) this _ _ sep] assms(2,3)
  have eq: "map (canonical ops) ?ps = map (canonical ops) ?qs"
    unfolding action_version_hash_def by blast
  have ok: "\<exists>s. canonical ops (PDict args) = Inr s" "\<exists>s. canonical ops (PDict scp) = Inr s"
    using assms(2) unfolding action_version_hash_def digest_def
    by (auto simp: result_simps simp del: canonical.simps(8))
  have "canonical ops (PDict args) = canonical ops (PDict args')"
    "canonical ops (PDict scp) = canonical ops (PDict scp')"
    "json_list pre = json_list pre'" "a = a'" "tn = tn'" "tv = tv'" "tier = tier'"
    using eq by (simp_all del: canonical.simps(8,9) add: canonical_str_list)
  with ok show ?thesis using canonical_dict_eq json_list_inj by metis
qed

text \<open>The order of a mapping does not matter.\<close>

lemma canonical_entries_perm:
  assumes "distinct (map fst kvs)" and "distinct (map fst kvs')" and "set kvs = set kvs'"
  shows "canonical_entries ops kvs = canonical_entries ops kvs'"
proof -
  have "sort_key fst kvs = sort_key fst kvs'"
  proof (rule map_sorted_distinct_set_unique [where f = fst])
    show "inj_on fst (set (sort_key fst kvs) \<union> set (sort_key fst kvs'))"
      using assms by (simp add: distinct_map)
    show "sorted (map fst (sort_key fst kvs))" "sorted (map fst (sort_key fst kvs'))" by simp_all
    show "distinct (map fst (sort_key fst kvs))"
      using assms(1) by (simp add: distinct_map)
    show "distinct (map fst (sort_key fst kvs'))"
      using assms(2) by (simp add: distinct_map)
    show "set (sort_key fst kvs) = set (sort_key fst kvs')" using assms(3) by simp
  qed
  then show ?thesis by (simp add: canonical_entries_def)
qed

lemma canonical_dict_perm:
  assumes "distinct (map fst kvs)" and "distinct (map fst kvs')" and "set kvs = set kvs'"
  shows "canonical ops (PDict kvs) = canonical ops (PDict kvs')"
  unfolding canonical_dict using canonical_entries_perm [OF assms] by simp

section \<open>Which keys exist\<close>

text \<open>A value has a canonical form unless it holds a naive instant or a foreign object.\<close>

fun plain_value :: "pyval \<Rightarrow> bool" where
  "plain_value (PDatetime d) = tz_aware d"
| "plain_value (PDict kvs) = (\<forall>kv \<in> set kvs. plain_value (snd kv))"
| "plain_value (PList xs) = (\<forall>x \<in> set xs. plain_value x)"
| "plain_value (POther c) = False"
| "plain_value v = True"

lemma is_ok_traverse: "is_ok (traverse f xs) \<longleftrightarrow> (\<forall>x \<in> set xs. is_ok (f x))"
  by (induction xs) (auto simp: is_ok_iff andThen_eq_Inr)

lemma is_ok_then_Inr: "is_ok (andThen r (\<lambda>x. Inr (f x))) = is_ok r"
  by (cases r) simp_all

lemma canonical_ok: "plain_value v \<Longrightarrow> is_ok (canonical ops v)"
proof (induction ops v rule: canonical.induct)
  case (8 ops kvs)
  then have "\<forall>kv \<in> set (sort_key fst kvs). is_ok (canonical ops (snd kv))" by simp
  then show ?case by (simp add: is_ok_then_Inr is_ok_traverse)
next
  case (9 ops xs)
  then show ?case by (simp add: is_ok_then_Inr is_ok_traverse)
qed simp_all

lemma digest_ok: "list_all plain_value parts \<Longrightarrow> is_ok (digest ops scope parts)"
  by (simp add: digest_def is_ok_then_Inr is_ok_traverse list_all_iff canonical_ok)

end
