(* ===== verification/Approval_Service.thy ===== *)
theory Approval_Service
  imports Db_Query Tool_Capability Idempotency Permissions
begin

text \<open>
  Human approval of a remediation action, \<open>src/asic/remediation/approval_service.py\<close>: who is
  an authorised approver, and \<open>decide\<close>, the only writer of a decided approval, over the
  tables of \<open>db/models/tenancy.py\<close> and \<open>db/models/remediation.py\<close>. The clock reading and the
  generated row id are arguments; logging is left out. The lemmas: what a decision that
  \<open>decide\<close> records satisfies, and that the first decision on an action version is final.
\<close>

section \<open>Tables\<close>

record user_row =
  us_id :: string
  us_tenant :: string
  us_status :: UserStatus

record assignment_row =
  ra_tenant :: string
  ra_user :: string
  ra_role :: string
  ra_environment :: "string option"
  ra_expires_at :: "int option"

record role_permission_row =
  rp_role :: string
  rp_permission :: string

record permission_row =
  pm_id :: string
  pm_key :: string
  pm_max_risk_tier :: "RiskTier option"

record action_row =
  ac_id :: string
  ac_tenant :: string
  ac_incident :: string
  ac_run :: string
  ac_hypothesis :: string
  ac_target :: string
  ac_tool_name :: string
  ac_tool_version :: string
  ac_risk_tier :: RiskTier
  ac_arguments :: arg_map
  ac_permission_scope :: arg_map
  ac_preconditions :: "string list"
  ac_version_hash :: string
  ac_status :: RemediationActionStatus
  ac_reason :: string
  ac_approval_required :: bool
  ac_criteria :: arg_map
  ac_criteria_hash :: string
  ac_executed_at :: "int option"
  ac_tool_definition :: string
  ac_expected_effect :: arg_map
  ac_rollback_tool :: "string option"
  ac_timeout :: int
  ac_baseline :: arg_map
  ac_request_key :: string

record target_row =
  tg_id :: string
  tg_tenant :: string
  tg_run :: string
  tg_incident :: string
  tg_hypothesis :: string
  tg_service :: string
  tg_environment :: string
  tg_scope :: arg_map

record request_row =
  rq_tenant :: string
  rq_run :: "string option"
  rq_requested_by :: string

record policy_row =
  pd_tenant :: string
  pd_action :: string
  pd_verdict :: PolicyVerdict
  pd_rule :: string
  pd_signals :: "string list"
  pd_evaluated_at :: int

record approval_row =
  ap_id :: string
  ap_tenant :: string
  ap_action :: string
  ap_version_hash :: string
  ap_callback_key :: string
  ap_required_role :: string
  ap_proposer :: "string option"
  ap_approver :: "string option"
  ap_decision :: ApprovalDecision
  ap_justification :: "string option"
  ap_channel :: "string option"
  ap_requested_at :: int
  ap_expires_at :: int
  ap_decided_at :: "int option"
  ap_created_at :: int

record remediation_db =
  rd_users :: "user_row list"
  rd_assignments :: "assignment_row list"
  rd_role_permissions :: "role_permission_row list"
  rd_permissions :: "permission_row list"
  rd_environments :: "environment_row list"
  rd_actions :: "action_row list"
  rd_targets :: "target_row list"
  rd_requests :: "request_row list"
  rd_policies :: "policy_row list"
  rd_approvals :: "approval_row list"

section \<open>Authority\<close>

definition REMEDIATION_APPROVE_PERMISSION :: string where
  "REMEDIATION_APPROVE_PERMISSION = PermissionKey_value PermissionKey.REMEDIATION_APPROVE"

definition APPROVAL_WINDOW_SECONDS :: "(RiskTier \<times> int) list" where
  "APPROVAL_WINDOW_SECONDS = [(RiskTier.R1, 1800), (RiskTier.R2, 900)]"

text \<open>The join of the query, row by row.\<close>

definition current_assignment ::
  "string \<Rightarrow> string \<Rightarrow> string \<Rightarrow> int \<Rightarrow> assignment_row \<Rightarrow> bool" where
  "current_assignment tenant user environment now a \<longleftrightarrow>
     ra_tenant a = tenant \<and> ra_user a = user \<and>
     (ra_environment a = None \<or> ra_environment a = Some environment) \<and>
     (case ra_expires_at a of None \<Rightarrow> True | Some t \<Rightarrow> now < t)"

definition approver_ceilings ::
  "remediation_db \<Rightarrow> string \<Rightarrow> string \<Rightarrow> string \<Rightarrow> int \<Rightarrow> RiskTier list" where
  "approver_ceilings db tenant user environment now =
     [t. u \<leftarrow> rd_users db, us_tenant u = tenant \<and> us_id u = user \<and> us_status u = UserStatus.ACTIVE,
         a \<leftarrow> rd_assignments db, current_assignment tenant user environment now a,
         rp \<leftarrow> rd_role_permissions db, rp_role rp = ra_role a,
         p \<leftarrow> rd_permissions db, pm_id p = rp_permission rp \<and> pm_key p = REMEDIATION_APPROVE_PERMISSION,
         t \<leftarrow> (case pm_max_risk_tier p of None \<Rightarrow> [] | Some t \<Rightarrow> [t])]"

text \<open>\<open>any\<close> compares ranks at the first ceiling other than R3; the rank of R3 raises.\<close>

definition is_authorized_approver ::
  "remediation_db \<Rightarrow> string \<Rightarrow> string \<Rightarrow> string \<Rightarrow> RiskTier \<Rightarrow> int \<Rightarrow> (py_error, bool) result" where
  "is_authorized_approver db tenant user environment tier now =
     (case filter (\<lambda>c. c \<noteq> RiskTier.R3) (approver_ceilings db tenant user environment now) of
        [] \<Rightarrow> Inr False
      | cs \<Rightarrow>
          (case risk_rank tier of
             None \<Rightarrow> Inl KeyError
           | Some n \<Rightarrow> Inr (\<exists>c \<in> set cs. case risk_rank c of None \<Rightarrow> False | Some m \<Rightarrow> n \<le> m)))"

section \<open>The decision\<close>

definition find_action :: "remediation_db \<Rightarrow> string \<Rightarrow> string \<Rightarrow> (py_error, action_row option) result" where
  "find_action db tenant action =
     scalar_one_or_none (filter (\<lambda>a. ac_tenant a = tenant \<and> ac_id a = action) (rd_actions db))"

definition policy_rows :: "remediation_db \<Rightarrow> string \<Rightarrow> string \<Rightarrow> policy_row list" where
  "policy_rows db tenant action =
     filter (\<lambda>p. pd_tenant p = tenant \<and> pd_action p = action) (rd_policies db)"

definition requester_of :: "remediation_db \<Rightarrow> string \<Rightarrow> string \<Rightarrow> (py_error, string option) result" where
  "requester_of db tenant run =
     andThen (scalar_one_or_none
         (filter (\<lambda>r. rq_tenant r = tenant \<and> rq_run r = Some run) (rd_requests db)))
       (\<lambda>r. Inr (map_option rq_requested_by r))"

definition environment_named :: "remediation_db \<Rightarrow> string \<Rightarrow> pyval \<Rightarrow> (py_error, environment_row) result" where
  "environment_named db tenant name =
     scalar_one (filter (\<lambda>e. env_tenant e = tenant \<and> PStr (env_name e) = name) (rd_environments db))"

text \<open>The check and unique constraints of \<open>approval\<close>.\<close>

definition approval_checks :: "approval_row list \<Rightarrow> approval_row \<Rightarrow> bool" where
  "approval_checks rows a \<longleftrightarrow>
     (\<forall>b \<in> set rows. \<not> (ap_tenant b = ap_tenant a \<and> ap_callback_key b = ap_callback_key a)) \<and>
     (\<forall>b \<in> set rows. \<not> (ap_tenant b = ap_tenant a \<and> ap_action b = ap_action a \<and>
        ap_version_hash b = ap_version_hash a)) \<and>
     (ap_approver a = None \<or> ap_proposer a = None \<or> ap_approver a \<noteq> ap_proposer a) \<and>
     (ap_decision a \<in> {ApprovalDecision.APPROVED, ApprovalDecision.REJECTED} \<longleftrightarrow> ap_approver a \<noteq> None) \<and>
     (ap_decision a \<in> {ApprovalDecision.APPROVED, ApprovalDecision.REJECTED} \<longleftrightarrow> ap_decided_at a \<noteq> None) \<and>
     ap_requested_at a < ap_expires_at a"

text \<open>The widths of its text columns: a longer value is a data error before any check is made.\<close>

definition approval_widths :: "approval_row \<Rightarrow> bool" where
  "approval_widths a \<longleftrightarrow>
     length (ap_version_hash a) \<le> KEY_LENGTH \<and> length (ap_callback_key a) \<le> KEY_LENGTH \<and>
     length (ap_required_role a) \<le> 64 \<and>
     (case ap_channel a of None \<Rightarrow> True | Some c \<Rightarrow> length c \<le> 32)"

definition add_approval ::
  "remediation_db \<Rightarrow> approval_row \<Rightarrow> (py_error, approval_row \<times> remediation_db) result" where
  "add_approval db a =
     (if \<not> approval_widths a then Inl (OtherException ''DataError'')
      else if approval_checks (rd_approvals db) a
      then Inr (a, db\<lparr>rd_approvals := rd_approvals db @ [a]\<rparr>) else Inl IntegrityError)"

record decision_args =
  da_tenant :: string
  da_action :: string
  da_actor :: string
  da_decision :: ApprovalDecision
  da_expected_hash :: string
  da_justification :: string
  da_channel :: string

definition decided_row ::
  "decision_args \<Rightarrow> string \<Rightarrow> string \<Rightarrow> int \<Rightarrow> int \<Rightarrow> int \<Rightarrow> string \<Rightarrow> approval_row" where
  "decided_row d hash key requested_at deadline now new_id =
     \<lparr>ap_id = new_id, ap_tenant = da_tenant d, ap_action = da_action d, ap_version_hash = hash,
      ap_callback_key = key, ap_required_role = REMEDIATION_APPROVE_PERMISSION,
      ap_proposer = None, ap_approver = Some (da_actor d), ap_decision = da_decision d,
      ap_justification =
        (if da_justification d = [] then None else Some (take 4000 (da_justification d))),
      ap_channel = Some (da_channel d), ap_requested_at = requested_at,
      ap_expires_at = deadline, ap_decided_at = Some now, ap_created_at = now\<rparr>"

text \<open>The checks before the row: they return the action, the evaluation time and the deadline.\<close>

definition decision_admitted ::
  "remediation_db \<Rightarrow> decision_args \<Rightarrow> int \<Rightarrow> (py_error, action_row \<times> int \<times> int) result" where
  "decision_admitted db d now =
     andThen (guard (da_decision d \<in> {ApprovalDecision.APPROVED, ApprovalDecision.REJECTED})
         ApprovalInvalid) (\<lambda>_.
     andThen (find_action db (da_tenant d) (da_action d)) (\<lambda>found.
     case found of
       None \<Rightarrow> Inl ApprovalInvalid
     | Some action \<Rightarrow>
         if ac_status action \<noteq> RemediationActionStatus.AWAITING_APPROVAL then Inl ApprovalInvalid
         else if da_expected_hash d \<noteq> ac_version_hash action then Inl ApprovalInvalid
         else andThen (requester_of db (da_tenant d) (ac_run action)) (\<lambda>requester.
           if requester = Some (da_actor d) then Inl ApprovalInvalid
           else andThen (scalar_one (policy_rows db (da_tenant d) (da_action d))) (\<lambda>policy.
             case map_of APPROVAL_WINDOW_SECONDS (ac_risk_tier action) of
               None \<Rightarrow> Inl KeyError
             | Some window \<Rightarrow>
                 let deadline = pd_evaluated_at policy + microseconds window in
                 if deadline \<le> now then Inl ApprovalInvalid
                 else andThen (environment_named db (da_tenant d)
                     (dict_get (ac_permission_scope action) ''environment'')) (\<lambda>environment.
                   andThen (is_authorized_approver db (da_tenant d) (da_actor d)
                       (env_id environment) (ac_risk_tier action) now) (\<lambda>ok.
                     if ok then Inr (action, pd_evaluated_at policy, deadline)
                     else Inl ApprovalInvalid))))))"

definition decide ::
  "key_ops \<Rightarrow> remediation_db \<Rightarrow> decision_args \<Rightarrow> int \<Rightarrow> string \<Rightarrow>
   (py_error, approval_row \<times> remediation_db) result" where
  "decide ops db d now new_id =
     andThen (decision_admitted db d now) (\<lambda>(action, requested_at, deadline).
       andThen (approval_callback_key ops (da_tenant d) (da_action d) (ac_version_hash action)) (\<lambda>key.
         andThen (scalar_one_or_none (filter (\<lambda>a. ap_tenant a = da_tenant d \<and> ap_callback_key a = key)
             (rd_approvals db))) (\<lambda>existing.
           case existing of
             Some a \<Rightarrow> Inr (a, db)
           | None \<Rightarrow> add_approval db
               (decided_row d (ac_version_hash action) key requested_at deadline now new_id))))"

section \<open>Facts\<close>

text \<open>Authority as a statement about the rows.\<close>

definition holds_approval ::
  "remediation_db \<Rightarrow> string \<Rightarrow> string \<Rightarrow> string \<Rightarrow> RiskTier \<Rightarrow> int \<Rightarrow> bool" where
  "holds_approval db tenant user environment tier now \<longleftrightarrow>
     (\<exists>u \<in> set (rd_users db). us_tenant u = tenant \<and> us_id u = user \<and> us_status u = UserStatus.ACTIVE) \<and>
     (\<exists>a \<in> set (rd_assignments db). current_assignment tenant user environment now a \<and>
       (\<exists>rp \<in> set (rd_role_permissions db). rp_role rp = ra_role a \<and>
         (\<exists>p \<in> set (rd_permissions db). pm_id p = rp_permission rp \<and>
            pm_key p = REMEDIATION_APPROVE_PERMISSION \<and>
            (\<exists>c m n. pm_max_risk_tier p = Some c \<and> risk_rank c = Some m \<and>
               risk_rank tier = Some n \<and> n \<le> m))))"

lemma approver_ceilings_mem:
  "c \<in> set (approver_ceilings db tenant user environment now) \<longleftrightarrow>
     (\<exists>u \<in> set (rd_users db). us_tenant u = tenant \<and> us_id u = user \<and> us_status u = UserStatus.ACTIVE) \<and>
     (\<exists>a \<in> set (rd_assignments db). current_assignment tenant user environment now a \<and>
       (\<exists>rp \<in> set (rd_role_permissions db). rp_role rp = ra_role a \<and>
         (\<exists>p \<in> set (rd_permissions db). pm_id p = rp_permission rp \<and>
            pm_key p = REMEDIATION_APPROVE_PERMISSION \<and> pm_max_risk_tier p = Some c)))"
proof -
  have one: "set (case x of None \<Rightarrow> [] | Some t \<Rightarrow> [t]) = {t. x = Some t}" for x :: "RiskTier option"
    by (cases x) auto
  show ?thesis
    unfolding approver_ceilings_def by (simp add: one if_distrib [of set] cong: if_cong) blast
qed

lemma is_authorized_True:
  "is_authorized_approver db tenant user environment tier now = Inr True \<longleftrightarrow>
     holds_approval db tenant user environment tier now"
proof -
  let ?cs = "filter (\<lambda>c. c \<noteq> RiskTier.R3) (approver_ceilings db tenant user environment now)"
  have "is_authorized_approver db tenant user environment tier now = Inr True \<longleftrightarrow>
      (\<exists>c \<in> set ?cs. \<exists>m n. risk_rank c = Some m \<and> risk_rank tier = Some n \<and> n \<le> m)"
    by (cases ?cs) (auto simp: is_authorized_approver_def simp del: filter.simps split: option.splits)
  also have "\<dots> \<longleftrightarrow> (\<exists>c \<in> set (approver_ceilings db tenant user environment now).
      \<exists>m n. risk_rank c = Some m \<and> risk_rank tier = Some n \<and> n \<le> m)"
    by auto
  also have "\<dots> \<longleftrightarrow> holds_approval db tenant user environment tier now"
    unfolding holds_approval_def Bex_def [of "set (approver_ceilings _ _ _ _ _)"] approver_ceilings_mem
    by blast
  finally show ?thesis .
qed

lemma find_action_Inr:
  "find_action db tenant i = Inr (Some a) \<Longrightarrow>
   a \<in> set (rd_actions db) \<and> ac_tenant a = tenant \<and> ac_id a = i"
  using filter_singleton [of "\<lambda>a. ac_tenant a = tenant \<and> ac_id a = i" "rd_actions db" a]
  by (simp add: find_action_def query_simps)

definition admitted_spec ::
  "remediation_db \<Rightarrow> decision_args \<Rightarrow> int \<Rightarrow> action_row \<Rightarrow> int \<Rightarrow> int \<Rightarrow> bool" where
  "admitted_spec db d now action requested_at deadline \<longleftrightarrow>
     da_decision d \<in> {ApprovalDecision.APPROVED, ApprovalDecision.REJECTED} \<and>
     find_action db (da_tenant d) (da_action d) = Inr (Some action) \<and>
     ac_status action = RemediationActionStatus.AWAITING_APPROVAL \<and>
     ac_version_hash action = da_expected_hash d \<and>
     requester_of db (da_tenant d) (ac_run action) \<noteq> Inr (Some (da_actor d)) \<and>
     (\<exists>p \<in> set (rd_policies db). pd_tenant p = da_tenant d \<and> pd_action p = da_action d \<and>
        pd_evaluated_at p = requested_at) \<and>
     (\<exists>w. map_of APPROVAL_WINDOW_SECONDS (ac_risk_tier action) = Some w \<and>
        deadline = requested_at + microseconds w) \<and> now < deadline \<and>
     (\<exists>e. environment_named db (da_tenant d)
          (dict_get (ac_permission_scope action) ''environment'') = Inr e \<and>
        holds_approval db (da_tenant d) (da_actor d) (env_id e) (ac_risk_tier action) now)"

lemma decision_admitted_Inr:
  "decision_admitted db d now = Inr (action, requested_at, deadline) \<Longrightarrow>
   admitted_spec db d now action requested_at deadline"
proof -
  assume adm: "decision_admitted db d now = Inr (action, requested_at, deadline)"
  obtain requester policy window environment where
      dec: "da_decision d \<in> {ApprovalDecision.APPROVED, ApprovalDecision.REJECTED}"
    and found: "find_action db (da_tenant d) (da_action d) = Inr (Some action)"
    and status: "ac_status action = RemediationActionStatus.AWAITING_APPROVAL"
      "da_expected_hash d = ac_version_hash action"
    and req: "requester_of db (da_tenant d) (ac_run action) = Inr requester"
      "requester \<noteq> Some (da_actor d)"
    and pol: "scalar_one (policy_rows db (da_tenant d) (da_action d)) = Inr policy"
      "requested_at = pd_evaluated_at policy"
    and win: "map_of APPROVAL_WINDOW_SECONDS (ac_risk_tier action) = Some window"
      "deadline = pd_evaluated_at policy + microseconds window" "now < deadline"
    and env: "environment_named db (da_tenant d)
        (dict_get (ac_permission_scope action) ''environment'') = Inr environment"
      "is_authorized_approver db (da_tenant d) (da_actor d) (env_id environment)
         (ac_risk_tier action) now = Inr True"
    using adm unfolding decision_admitted_def Let_def raise_simps
    by (auto simp: not_le)
  have "policy \<in> set (policy_rows db (da_tenant d) (da_action d))"
    using pol(1) by (simp add: query_simps)
  then have "policy \<in> set (rd_policies db)" "pd_tenant policy = da_tenant d"
      "pd_action policy = da_action d"
    by (simp_all add: policy_rows_def)
  then show ?thesis
    unfolding admitted_spec_def using dec found status req pol(2) win env
    by (auto simp: is_authorized_True)
qed

lemma decision_recorded:
  assumes "decide ops db d now i = Inr (a, db')"
  obtains (existing) action requested_at deadline key where
      "admitted_spec db d now action requested_at deadline"
      "approval_callback_key ops (da_tenant d) (da_action d) (ac_version_hash action) = Inr key"
      "filter (\<lambda>a. ap_tenant a = da_tenant d \<and> ap_callback_key a = key) (rd_approvals db) = [a]"
      "db' = db"
    | (fresh) action requested_at deadline key where
      "admitted_spec db d now action requested_at deadline"
      "approval_callback_key ops (da_tenant d) (da_action d) (ac_version_hash action) = Inr key"
      "filter (\<lambda>a. ap_tenant a = da_tenant d \<and> ap_callback_key a = key) (rd_approvals db) = []"
      "a = decided_row d (ac_version_hash action) key requested_at deadline now i"
      "db' = db\<lparr>rd_approvals := rd_approvals db @ [a]\<rparr>"
proof -
  obtain action req dl key found where adm: "admitted_spec db d now action req dl"
    and key: "approval_callback_key ops (da_tenant d) (da_action d) (ac_version_hash action) = Inr key"
    and found: "scalar_one_or_none (filter (\<lambda>a. ap_tenant a = da_tenant d \<and> ap_callback_key a = key)
        (rd_approvals db)) = Inr found"
    and rest: "(case found of Some a \<Rightarrow> Inr (a, db)
      | None \<Rightarrow> add_approval db (decided_row d (ac_version_hash action) key req dl now i)) = Inr (a, db')"
    using assms unfolding decide_def andThen_eq_Inr by (auto dest!: decision_admitted_Inr simp: andThen_eq_Inr)
  show ?thesis
  proof (cases found)
    case None
    then show ?thesis using fresh [OF adm key] found rest
      by (auto simp: query_simps add_approval_def split: if_splits)
  next
    case (Some b)
    then have "b = a" "db' = db" "filter (\<lambda>a. ap_tenant a = da_tenant d \<and> ap_callback_key a = key)
        (rd_approvals db) = [b]"
      using found rest by (simp_all add: query_simps)
    then show ?thesis using existing [OF adm key] by simp
  qed
qed

text \<open>The first decision on an action version is the only one.\<close>

lemma decide_final:
  assumes first: "decide ops db d now i = Inr (a, db')"
    and again: "decide ops db' d' now' i' = Inr (a', db'')"
    and same: "da_tenant d' = da_tenant d" "da_action d' = da_action d"
  shows "a' = a \<and> db'' = db'"
proof -
  obtain action key where act: "find_action db (da_tenant d) (da_action d) = Inr (Some action)"
    and key: "approval_callback_key ops (da_tenant d) (da_action d) (ac_version_hash action) = Inr key"
    and one: "filter (\<lambda>a. ap_tenant a = da_tenant d \<and> ap_callback_key a = key) (rd_approvals db') = [a]"
    and acts: "rd_actions db' = rd_actions db"
    using first by (cases rule: decision_recorded) (auto simp: admitted_spec_def decided_row_def)
  have act': "find_action db' (da_tenant d) (da_action d) = Inr (Some action)"
    using act acts by (simp add: find_action_def)
  show ?thesis
    using again
  proof (cases rule: decision_recorded)
    case (existing action' r dl key')
    then have "action' = action" using act' same by (simp add: admitted_spec_def)
    then show ?thesis using existing key one same by simp
  next
    case (fresh action' r dl key')
    then have "action' = action" using act' same by (simp add: admitted_spec_def)
    then show ?thesis using fresh key one same by simp
  qed
qed

end
