(* ===== verification/Write_Authority.thy ===== *)
theory Write_Authority
  imports Approval_Service
begin

text \<open>
  Dispatch-time authorization of a write, \<open>src/asic/remediation/authorization.py\<close>: the action
  row, its recomputed version hash, the immutable target, the policy decision and, when the
  policy did not allow, the newest approval of exactly this version. The lemma states what a
  passed check implies of the rows.
\<close>

text \<open>\<open>str(value) if isinstance(value, uuid.UUID) else value\<close>.\<close>

definition normalized :: "pyval \<Rightarrow> pyval" where
  "normalized v = (case v of PUUID u \<Rightarrow> PStr u | _ \<Rightarrow> v)"

definition matches_descriptor :: "action_row \<Rightarrow> ToolDescriptor \<Rightarrow> arg_map \<Rightarrow> bool" where
  "matches_descriptor action d arguments \<longleftrightarrow>
     ac_status action = RemediationActionStatus.EXECUTING \<and>
     ac_tool_name action = td_name d \<and> ac_tool_version action = td_version d \<and>
     ac_risk_tier action = td_risk_tier d \<and> ac_preconditions action = td_preconditions d \<and>
     py_eq (PDict (ac_arguments action)) (PDict arguments)"

definition current_version_hash :: "key_ops \<Rightarrow> action_row \<Rightarrow> (py_error, string) result" where
  "current_version_hash ops action =
     action_version_hash ops (ac_id action) (ac_tool_name action) (ac_tool_version action)
       (ac_arguments action) (ac_permission_scope action) (ac_preconditions action)
       (RiskTier_value (ac_risk_tier action))"

definition find_target :: "remediation_db \<Rightarrow> action_row \<Rightarrow> string \<Rightarrow> (py_error, target_row option) result" where
  "find_target db action environment =
     scalar_one_or_none (filter (\<lambda>t. tg_tenant t = ac_tenant action \<and> tg_id t = ac_target action \<and>
         tg_run t = ac_run action \<and> tg_incident t = ac_incident action \<and>
         tg_hypothesis t = ac_hypothesis action \<and> tg_environment t = environment)
       (rd_targets db))"

definition scope_frozen :: "target_row \<Rightarrow> action_row \<Rightarrow> string \<Rightarrow> arg_map \<Rightarrow> bool" where
  "scope_frozen target action service_name resolved_scope \<longleftrightarrow>
     py_eq (dict_get (tg_scope target) ''service'') (PStr service_name) \<and>
     (\<forall>(k, v) \<in> set resolved_scope. py_eq (dict_get (tg_scope target) k) (normalized v)) \<and>
     py_eq (PDict (ac_permission_scope action)) (PDict (tg_scope target))"

definition node_scope_ok :: "ToolDescriptor \<Rightarrow> action_row \<Rightarrow> arg_map \<Rightarrow> PolicyVerdict \<Rightarrow> bool" where
  "node_scope_ok d action arguments verdict \<longleftrightarrow>
     (td_capability d \<in> NODE_SCOPED_CAPABILITIES \<longrightarrow>
       (case dict_get arguments ''node'' of
          PStr n \<Rightarrow> n \<noteq> [] \<and> dict_get (ac_arguments action) ''node'' = PStr n
        | _ \<Rightarrow> False) \<and>
       td_risk_tier d = RiskTier.R2 \<and> verdict \<noteq> PolicyVerdict.ALLOW)"

definition newest_approval :: "remediation_db \<Rightarrow> action_row \<Rightarrow> string \<Rightarrow> approval_row option" where
  "newest_approval db action hash =
     newest ap_created_at (filter (\<lambda>a. ap_tenant a = ac_tenant action \<and>
         ap_action a = ac_id action \<and> ap_version_hash a = hash) (rd_approvals db))"

text \<open>The approval test: the disjuncts in order, the last one a query.\<close>

definition approval_current ::
  "remediation_db \<Rightarrow> action_row \<Rightarrow> string \<Rightarrow> approval_row option \<Rightarrow> int \<Rightarrow> (py_error, bool) result" where
  "approval_current db action environment approval now =
     (case approval of
        None \<Rightarrow> Inr False
      | Some a \<Rightarrow>
          if ap_decision a \<noteq> ApprovalDecision.APPROVED then Inr False
          else case ap_approver a of
            None \<Rightarrow> Inr False
          | Some user \<Rightarrow>
              if ap_expires_at a \<le> now then Inr False
              else case ap_decided_at a of
                None \<Rightarrow> Inr False
              | Some decided \<Rightarrow>
                  if now < decided then Inr False
                  else if ap_channel a = Some ''system'' then Inr False
                  else is_authorized_approver db (ac_tenant action) user environment
                    (ac_risk_tier action) now)"

definition require_write_authority ::
  "key_ops \<Rightarrow> remediation_db \<Rightarrow> action_row \<Rightarrow> ToolDescriptor \<Rightarrow> arg_map \<Rightarrow> string \<Rightarrow> string \<Rightarrow>
   arg_map \<Rightarrow> int \<Rightarrow> (py_error, unit) result" where
  "require_write_authority ops db action d arguments environment service_name resolved_scope now =
     (if \<not> matches_descriptor action d arguments then Inl CapabilityNotGranted
      else andThen (current_version_hash ops action) (\<lambda>current_hash.
        if current_hash \<noteq> ac_version_hash action then Inl CapabilityNotGranted
        else andThen (find_target db action environment) (\<lambda>found.
          case found of
            None \<Rightarrow> Inl CapabilityNotGranted
          | Some target \<Rightarrow>
              if \<not> scope_frozen target action service_name resolved_scope
              then Inl CapabilityNotGranted
              else andThen (scalar_one_or_none
                  (policy_rows db (ac_tenant action) (ac_id action))) (\<lambda>policy.
                case policy of
                  None \<Rightarrow> Inl CapabilityNotGranted
                | Some p \<Rightarrow>
                    if pd_verdict p = PolicyVerdict.DENY then Inl CapabilityNotGranted
                    else if \<not> node_scope_ok d action arguments (pd_verdict p)
                      then Inl CapabilityNotGranted
                    else if pd_verdict p = PolicyVerdict.ALLOW then Inr ()
                    else andThen (approval_current db action environment
                        (newest_approval db action current_hash) now) (\<lambda>ok.
                      guard ok CapabilityNotGranted)))))"

section \<open>Facts\<close>

definition current_human_approval ::
  "remediation_db \<Rightarrow> action_row \<Rightarrow> string \<Rightarrow> int \<Rightarrow> approval_row \<Rightarrow> bool" where
  "current_human_approval db action environment now a \<longleftrightarrow>
     a \<in> set (rd_approvals db) \<and> ap_tenant a = ac_tenant action \<and> ap_action a = ac_id action \<and>
     ap_version_hash a = ac_version_hash action \<and> ap_decision a = ApprovalDecision.APPROVED \<and>
     ap_channel a \<noteq> Some ''system'' \<and> now < ap_expires_at a \<and>
     (\<exists>user decided. ap_approver a = Some user \<and> ap_decided_at a = Some decided \<and> decided \<le> now \<and>
        holds_approval db (ac_tenant action) user environment (ac_risk_tier action) now)"

lemma approval_current_True:
  assumes "approval_current db action environment (newest_approval db action hash) now = Inr True"
    and "hash = ac_version_hash action"
  shows "\<exists>a. current_human_approval db action environment now a"
proof -
  obtain a where a: "newest_approval db action hash = Some a"
    and f: "ap_decision a = ApprovalDecision.APPROVED" "now < ap_expires_at a"
      "ap_channel a \<noteq> Some ''system''"
      "\<exists>user decided. ap_approver a = Some user \<and> ap_decided_at a = Some decided \<and> decided \<le> now \<and>
        is_authorized_approver db (ac_tenant action) user environment (ac_risk_tier action) now = Inr True"
    using assms(1) by (auto simp: approval_current_def split: option.splits if_splits)
  have "a \<in> set (filter (\<lambda>a. ap_tenant a = ac_tenant action \<and> ap_action a = ac_id action \<and>
      ap_version_hash a = hash) (rd_approvals db))"
    using newest_SomeD [OF a [unfolded newest_approval_def]] by simp
  then show ?thesis using f assms(2) unfolding current_human_approval_def is_authorized_True by auto
qed

text \<open>What stands behind an authorized write.\<close>

definition write_permitted ::
  "key_ops \<Rightarrow> remediation_db \<Rightarrow> action_row \<Rightarrow> ToolDescriptor \<Rightarrow> arg_map \<Rightarrow> string \<Rightarrow> string \<Rightarrow>
   arg_map \<Rightarrow> int \<Rightarrow> bool" where
  "write_permitted ops db action d arguments environment service_name resolved_scope now \<longleftrightarrow>
     matches_descriptor action d arguments \<and>
     current_version_hash ops action = Inr (ac_version_hash action) \<and>
     (\<exists>t \<in> set (rd_targets db). tg_id t = ac_target action \<and> tg_environment t = environment \<and>
        scope_frozen t action service_name resolved_scope) \<and>
     (\<exists>p \<in> set (rd_policies db). pd_tenant p = ac_tenant action \<and> pd_action p = ac_id action \<and>
        pd_verdict p \<noteq> PolicyVerdict.DENY \<and> node_scope_ok d action arguments (pd_verdict p) \<and>
        (pd_verdict p = PolicyVerdict.ALLOW \<or>
         (\<exists>a. current_human_approval db action environment now a)))"

lemma require_write_authority_Inr:
  assumes "require_write_authority ops db action d arguments environment service scope now = Inr ()"
  shows "write_permitted ops db action d arguments environment service scope now"
proof -
  obtain t p where m: "matches_descriptor action d arguments"
    and h: "current_version_hash ops action = Inr (ac_version_hash action)"
    and t: "find_target db action environment = Inr (Some t)"
    and s: "scope_frozen t action service scope"
    and p: "scalar_one_or_none (policy_rows db (ac_tenant action) (ac_id action)) = Inr (Some p)"
    and v: "pd_verdict p \<noteq> PolicyVerdict.DENY" "node_scope_ok d action arguments (pd_verdict p)"
      "pd_verdict p = PolicyVerdict.ALLOW \<or>
       approval_current db action environment (newest_approval db action (ac_version_hash action)) now =
         Inr True"
    using assms unfolding require_write_authority_def raise_simps
    by (elim exE conjE) (auto simp: raise_simps split: if_splits)
  have t': "t \<in> set (rd_targets db)" "tg_id t = ac_target action" "tg_environment t = environment"
    using t filter_singleton unfolding find_target_def query_simps by fastforce+
  have "p \<in> set (policy_rows db (ac_tenant action) (ac_id action))"
    using p by (simp add: query_simps)
  then have p': "p \<in> set (rd_policies db)" "pd_tenant p = ac_tenant action" "pd_action p = ac_id action"
    by (simp_all add: policy_rows_def)
  have "pd_verdict p = PolicyVerdict.ALLOW \<or> (\<exists>a. current_human_approval db action environment now a)"
    using v(3) approval_current_True [OF _ refl] by blast
  then show ?thesis unfolding write_permitted_def using m h t' s p' v(1,2) by blast
qed

text \<open>An approval is bound to the content of the action, not only to its row.\<close>

definition plain_action :: "action_row \<Rightarrow> bool" where
  "plain_action a \<longleftrightarrow>
     (\<forall>s \<in> {ac_id a, ac_tool_name a, ac_tool_version a}. SEPARATOR \<notin> set s)"

lemma tier_plain: "SEPARATOR \<notin> set (RiskTier_value t)"
  by (cases t) (simp_all add: SEPARATOR_def)

lemma same_hash_same_content:
  assumes "inj (sha256_hex ops)" and "plain_action a" and "plain_action a'"
    and "current_version_hash ops a = Inr h" and "current_version_hash ops a' = Inr h"
  shows "ac_id a = ac_id a' \<and> ac_tool_name a = ac_tool_name a' \<and>
    ac_tool_version a = ac_tool_version a' \<and> ac_risk_tier a = ac_risk_tier a' \<and>
    ac_preconditions a = ac_preconditions a' \<and>
    canonical_entries ops (ac_arguments a) = canonical_entries ops (ac_arguments a') \<and>
    canonical_entries ops (ac_permission_scope a) = canonical_entries ops (ac_permission_scope a')"
proof -
  have "\<forall>s \<in> {ac_id a, ac_tool_name a, ac_tool_version a, RiskTier_value (ac_risk_tier a),
      ac_id a', ac_tool_name a', ac_tool_version a', RiskTier_value (ac_risk_tier a')}.
      SEPARATOR \<notin> set s"
    using assms(2,3) tier_plain by (simp add: plain_action_def)
  from action_hash_binds [OF assms(1) assms(4) [unfolded current_version_hash_def]
      assms(5) [unfolded current_version_hash_def] this]
  show ?thesis by (cases "ac_risk_tier a"; cases "ac_risk_tier a'") simp_all
qed

end
