(* ===== verification/Broker_Types.thy ===== *)
theory Broker_Types
  imports Connector_Scope Write_Authority Py_Text
begin

text \<open>
  The data of the tool broker, \<open>src/asic/tools/broker.py\<close>: requests, failures and results, the
  execution and audit rows it writes (\<open>db/models/tools.py\<close>, \<open>db/models/audit.py\<close>), and the
  broker's own state. A provider is a record of its methods, so an adapter is arbitrary. Two
  components of the state do not roll back with the caller's session: the effect claims, which
  the broker commits in a session of its own, and \<open>bs_calls\<close>, the calls the adapters have
  received, which are not rows of any table. Citations, durations, spans, metrics and logs are
  left out; a failure keeps the exception in place of its message.
\<close>

record CapabilityRequest =
  cr_node :: NodeId
  cr_capability :: string
  cr_service :: string
  cr_arguments :: arg_map
  cr_incident :: string
  cr_action :: "string option"

record BrokerFailure =
  bf_stage :: BrokerStage
  bf_error :: py_error
  bf_operation_class :: OperationClass
  bf_retryable :: bool
  bf_failure_class :: "IntegrationFailureClass option"
  bf_effect_not_applied :: bool
  bf_retry_after :: "rat option"

record ToolResult =
  res_request :: CapabilityRequest
  res_tool_name :: string
  res_tool_version :: string
  res_capability :: string
  res_risk_tier :: RiskTier
  res_outcome :: ToolExecutionOutcome
  res_provenance :: ProvenanceLabel
  res_payload :: arg_map
  res_scope :: arg_map
  res_execution :: "string option"
  res_attempts :: nat
  res_deduplicated :: bool
  res_injection_flags :: "string list"
  res_failure :: "BrokerFailure option"

definition result_succeeded :: "ToolResult \<Rightarrow> bool" where
  "result_succeeded r \<longleftrightarrow> res_outcome r = ToolExecutionOutcome.SUCCEEDED \<and> res_failure r = None"

section \<open>Providers\<close>

record InvocationContext =
  iv_tenant :: string
  iv_key :: string
  iv_credential :: "string option"
  iv_timeout :: int
  iv_attempt :: nat
  iv_connector :: "ConnectorGrant option"

record provider =
  pv_kind :: ToolProviderKind
  pv_external :: bool
  pv_supports :: "ToolDescriptor \<Rightarrow> bool"
  pv_connector_kind :: "ToolDescriptor \<Rightarrow> IntegrationKind"
  pv_invoke :: "ToolDescriptor \<Rightarrow> arg_map \<Rightarrow> InvocationContext \<Rightarrow> (py_error, pyval) result"

section \<open>Rows\<close>

record execution_row =
  ex_id :: string
  ex_tenant :: string
  ex_incident :: string
  ex_action :: "string option"
  ex_definition :: string
  ex_tool_name :: string
  ex_tool_version :: string
  ex_capability :: string
  ex_risk_tier :: RiskTier
  ex_scope_redacted :: arg_map
  ex_arguments_redacted :: arg_map
  ex_key :: string
  ex_node :: NodeId
  ex_attempt :: nat
  ex_outcome :: "ToolExecutionOutcome option"
  ex_failure :: "BrokerFailure option"
  ex_failure_class :: "IntegrationFailureClass option"
  ex_effect_class :: ToolEffectClass
  ex_connector :: "string option"
  ex_external_reference :: "string option"
  ex_observed_effect :: arg_map
  ex_started_at :: int
  ex_completed_at :: "int option"
  ex_created_at :: int

record audit_row =
  au_tenant :: string
  au_event :: AuditEventType
  au_outcome :: string
  au_incident :: string
  au_target_type :: string
  au_target_id :: string
  au_effect_key :: "string option"
  au_dispatch_claimed :: bool
  au_stage :: "BrokerStage option"
  au_execution :: "string option"

record broker_db =
  bk_tenant :: "string option"
  bk_remediation :: remediation_db
  bk_services :: "service_row list"
  bk_connectors :: "connector_row list"
  bk_bindings :: "binding_row list"
  bk_grants :: "grant_row list"
  bk_tools :: "tool_row list"
  bk_executions :: "execution_row list"
  bk_audit :: "audit_row list"

record adapter_call =
  cl_key :: string
  cl_tier :: RiskTier
  cl_attempt :: nat

record broker_state =
  bs_db :: broker_db
  bs_menus :: "(NodeId \<times> CapabilityMenu) list"
  bs_claims :: "audit_row list"
  bs_calls :: "adapter_call list"

record broker =
  br_resolver :: CapabilityResolver
  br_providers :: "provider list"
  br_scope :: IncidentScope
  br_claim_store :: bool
  br_keys :: key_ops
  br_render :: render_ops
  br_parsers :: py_parsers

text \<open>The values a call draws from outside: the clock and the generated identifiers.\<close>

record call_inputs =
  ci_now :: int
  ci_completed :: int
  ci_execution_id :: string
  ci_observation_id :: string

text \<open>The check and unique constraints of \<open>tool_execution\<close>.\<close>

definition execution_checks :: "execution_row list \<Rightarrow> execution_row \<Rightarrow> bool" where
  "execution_checks rows e \<longleftrightarrow>
     (\<forall>f \<in> set rows. \<not> (ex_tenant f = ex_tenant e \<and> ex_key f = ex_key e)) \<and>
     1 \<le> ex_attempt e \<and>
     (ex_outcome e = Some ToolExecutionOutcome.UNKNOWN \<longrightarrow> ex_failure e \<noteq> None) \<and>
     (ex_risk_tier e = RiskTier.RO \<or> ex_effect_class e = ToolEffectClass.EXTERNAL_RECORD \<or>
        ex_action e \<noteq> None) \<and>
     (ex_effect_class e = ToolEffectClass.EXTERNAL_RECORD \<longrightarrow>
        ex_action e = None \<and> ex_node e = NodeId.S2_NOTIFICATION_SERVICE) \<and>
     (ex_outcome e = Some ToolExecutionOutcome.SUCCEEDED \<longrightarrow> ex_failure_class e = None)"

text \<open>\<open>_assert_no_simulated_fallback\<close> and the construction of a broker.\<close>

definition assert_no_simulated_fallback :: "provider list \<Rightarrow> (py_error, unit) result" where
  "assert_no_simulated_fallback ps =
     guard (\<not> ((\<exists>p \<in> set ps. pv_external p) \<and> (\<exists>p \<in> set ps. pv_kind p \<noteq> ToolProviderKind.NATIVE)))
       ValueError"

definition make_broker :: "broker \<Rightarrow> (py_error, broker) result" where
  "make_broker b =
     (if br_providers b = [] then Inl ValueError
      else andThen (assert_no_simulated_fallback (br_providers b)) (\<lambda>_. Inr b))"

end
