(* ===== verification/Broker.thy ===== *)
theory Broker
  imports Broker_Types
begin

text \<open>
  The pipeline of the tool broker, \<open>src/asic/tools/broker.py\<close>: authorization (stages 1 to 4),
  provider and connector, argument binding, the execution key, the recorded execution, the
  effect claim, the attempts against the adapter with the classification of every exception,
  and the rows written at the end. A call returns a result or raises, with the new state.
\<close>

section \<open>Refusals\<close>

definition stage_of :: "py_error \<Rightarrow> BrokerStage" where
  "stage_of e =
     (if isinstance e C_RiskTierNotPermitted then BrokerStage.RISK_BOUNDARY
      else if isinstance e C_UnregisteredCapability then BrokerStage.CAPABILITY_RESOLUTION
      else if isinstance e C_CapabilityNotGranted then BrokerStage.CAPABILITY_RESOLUTION
      else if isinstance e C_SchemaViolation then BrokerStage.ARGUMENT_VALIDATION
      else BrokerStage.TENANT_CONTEXT)"

definition classify_refusal :: "BrokerStage \<Rightarrow> py_error \<Rightarrow> BrokerFailure" where
  "classify_refusal stage e =
     \<lparr>bf_stage = stage, bf_error = e,
      bf_operation_class = OperationClass.C6_DETERMINISTIC_REJECTION, bf_retryable = False,
      bf_failure_class =
        (if isinstance e C_ConnectorScopeDenied then Some IntegrationFailureClass.SCOPE_DENIED
         else None),
      bf_effect_not_applied = True, bf_retry_after = None\<rparr>"

definition argument_refusal :: "py_error \<Rightarrow> BrokerFailure" where
  "argument_refusal e =
     \<lparr>bf_stage = BrokerStage.ARGUMENT_VALIDATION, bf_error = e,
      bf_operation_class = OperationClass.C6_DETERMINISTIC_REJECTION, bf_retryable = False,
      bf_failure_class = None, bf_effect_not_applied = False, bf_retry_after = None\<rparr>"

definition refused :: "CapabilityRequest \<Rightarrow> BrokerFailure \<Rightarrow> ToolResult" where
  "refused q f =
     \<lparr>res_request = q, res_tool_name = [], res_tool_version = [],
      res_capability = cr_capability q, res_risk_tier = RiskTier.RO,
      res_outcome = ToolExecutionOutcome.PRECONDITION_FAILED,
      res_provenance = ProvenanceLabel.SYSTEM, res_payload = [], res_scope = [],
      res_execution = None, res_attempts = 0, res_deduplicated = False,
      res_injection_flags = [], res_failure = Some f\<rparr>"

definition audit_refusal :: "broker \<Rightarrow> CapabilityRequest \<Rightarrow> BrokerFailure \<Rightarrow> audit_row" where
  "audit_refusal b q f =
     \<lparr>au_tenant = is_tenant (br_scope b), au_event = AuditEventType.TOOL_AUTHORIZATION_EVALUATED,
      au_outcome = ''denied'', au_incident = cr_incident q, au_target_type = ''capability'',
      au_target_id = cr_capability q, au_effect_key = None, au_dispatch_claimed = False,
      au_stage = Some (bf_stage f), au_execution = None\<rparr>"

definition add_audit :: "audit_row \<Rightarrow> broker_state \<Rightarrow> broker_state" where
  "add_audit a st = st\<lparr>bs_db := (bs_db st)\<lparr>bk_audit := bk_audit (bs_db st) @ [a]\<rparr>\<rparr>"

definition refuse ::
  "broker \<Rightarrow> CapabilityRequest \<Rightarrow> BrokerFailure \<Rightarrow> broker_state \<Rightarrow>
   (py_error, ToolResult) result \<times> broker_state" where
  "refuse b q f st = (Inr (refused q f), add_audit (audit_refusal b q f) st)"

text \<open>\<open>except DomainError\<close>: a refusal; any other exception leaves the call.\<close>

definition refuse_or_raise ::
  "broker \<Rightarrow> CapabilityRequest \<Rightarrow> py_error \<Rightarrow> broker_state \<Rightarrow>
   (py_error, ToolResult) result \<times> broker_state" where
  "refuse_or_raise b q e st =
     (if isinstance e C_DomainError then refuse b q (classify_refusal (stage_of e) e) st
      else (Inl e, st))"

section \<open>Stages 1 to 4\<close>

definition require_tenant :: "broker_db \<Rightarrow> (py_error, string) result" where
  "require_tenant db = (case bk_tenant db of None \<Rightarrow> Inl TenantContextMissing | Some t \<Rightarrow> Inr t)"

definition starts_with :: "string \<Rightarrow> string \<Rightarrow> bool" where
  "starts_with s p \<longleftrightarrow> take (length p) s = p"

definition request_is_effect :: "CapabilityRequest \<Rightarrow> bool" where
  "request_is_effect q \<longleftrightarrow> \<not> starts_with (cr_capability q) ''read.''"

definition admit_request ::
  "broker \<Rightarrow> broker_db \<Rightarrow> CapabilityRequest \<Rightarrow> NodeContract \<Rightarrow> (py_error, string) result" where
  "admit_request b db q contract =
     (if \<not> permits_capability contract (cr_capability q) then Inl CapabilityNotGranted
      else andThen (require_tenant db) (\<lambda>bound.
        andThen (assert_tenant_matches bound (is_tenant (br_scope b))) (\<lambda>_.
          if cr_incident q \<noteq> is_incident (br_scope b) then Inl CapabilityNotGranted
          else Inr bound)))"

definition menu_for ::
  "broker \<Rightarrow> broker_state \<Rightarrow> NodeContract \<Rightarrow> bool \<Rightarrow> (py_error, CapabilityMenu) result \<times> broker_state" where
  "menu_for b st contract refresh =
     (case (if refresh then None else map_of (bs_menus st) (nc_node_id contract)) of
        Some m \<Rightarrow> (Inr m, st)
      | None \<Rightarrow>
          (case resolve (br_resolver b) (bk_grants (bs_db st)) (bk_tools (bs_db st)) (br_scope b) contract of
             Inl e \<Rightarrow> (Inl e, st)
           | Inr m \<Rightarrow>
               (Inr m, st\<lparr>bs_menus := AList.update (nc_node_id contract) m (bs_menus st)\<rparr>)))"

definition scoped_action ::
  "remediation_db \<Rightarrow> string \<Rightarrow> CapabilityRequest \<Rightarrow> (py_error, action_row option) result" where
  "scoped_action rdb bound q =
     scalar_one_or_none (filter (\<lambda>a. ac_tenant a = bound \<and> ac_incident a = cr_incident q \<and>
       cr_action q = Some (ac_id a)) (rd_actions rdb))"

text \<open>The write branch: the action names the tool, which must be granted for the capability.\<close>

definition select_write ::
  "remediation_db \<Rightarrow> string \<Rightarrow> CapabilityRequest \<Rightarrow> CapabilityMenu \<Rightarrow>
   (py_error, action_row \<times> GrantedCapability) result" where
  "select_write rdb bound q menu =
     andThen (scoped_action rdb bound q) (\<lambda>found.
       case found of
         None \<Rightarrow> Inl CapabilityNotGranted
       | Some action \<Rightarrow>
           (case menu_get_by_tool_name menu (ac_tool_name action) of
              None \<Rightarrow> Inl CapabilityNotGranted
            | Some selected \<Rightarrow>
                if gc_capability selected \<noteq> cr_capability q then Inl CapabilityNotGranted
                else Inr (action, selected)))"

definition risk_boundary ::
  "broker \<Rightarrow> GrantedCapability \<Rightarrow> (py_error, unit) result" where
  "risk_boundary b granted =
     (if \<not> td_is_enabled (gc_descriptor granted) then Inl CapabilityNotGranted
      else assert_tier_permitted (br_resolver b) (gc_descriptor granted))"

definition authorize_granted ::
  "broker \<Rightarrow> broker_db \<Rightarrow> string \<Rightarrow> CapabilityRequest \<Rightarrow> CapabilityMenu \<Rightarrow> int \<Rightarrow>
   (py_error, GrantedCapability) result" where
  "authorize_granted b db bound q menu now =
     andThen (menu_get menu (cr_capability q)) (\<lambda>granted.
       let effect = td_effect_class (gc_descriptor granted) in
       if request_is_effect q \<longleftrightarrow> effect = ToolEffectClass.READ then Inl CapabilityNotGranted
       else if effect = ToolEffectClass.EXTERNAL_RECORD \<and>
           (cr_node q \<noteq> NodeId.S2_NOTIFICATION_SERVICE \<or> cr_action q \<noteq> None)
         then Inl CapabilityNotGranted
       else if request_is_effect q \<and> effect \<noteq> ToolEffectClass.EXTERNAL_RECORD then
         andThen (select_write (bk_remediation db) bound q menu) (\<lambda>(action, selected).
         andThen (risk_boundary b selected) (\<lambda>_.
         andThen (resolve_arguments (br_scope b) (gc_descriptor selected) (cr_service q)) (\<lambda>resolved.
         andThen (require_write_authority (br_keys b) (bk_remediation db) action
             (gc_descriptor selected) (cr_arguments q) (is_environment (br_scope b)) (cr_service q)
             resolved now) (\<lambda>_. Inr selected))))
       else andThen (risk_boundary b granted) (\<lambda>_. Inr granted))"

definition authorize ::
  "broker \<Rightarrow> broker_state \<Rightarrow> CapabilityRequest \<Rightarrow> NodeContract \<Rightarrow> int \<Rightarrow>
   (py_error, GrantedCapability) result \<times> broker_state" where
  "authorize b st q contract now =
     (case admit_request b (bs_db st) q contract of
        Inl e \<Rightarrow> (Inl e, st)
      | Inr bound \<Rightarrow>
          (case menu_for b st contract (request_is_effect q) of
             (Inl e, st') \<Rightarrow> (Inl e, st')
           | (Inr menu, st') \<Rightarrow> (authorize_granted b (bs_db st') bound q menu now, st')))"

section \<open>Provider and connector\<close>

definition provider_for :: "broker \<Rightarrow> ToolDescriptor \<Rightarrow> (py_error, provider) result" where
  "provider_for b d =
     (case List.find (\<lambda>p. pv_supports p d) (br_providers b) of
        None \<Rightarrow> Inl UnregisteredCapability | Some p \<Rightarrow> Inr p)"

definition connector_for ::
  "broker \<Rightarrow> broker_db \<Rightarrow> CapabilityRequest \<Rightarrow> ToolDescriptor \<Rightarrow> provider \<Rightarrow>
   (py_error, ConnectorGrant option) result" where
  "connector_for b db q d p =
     (if \<not> pv_external p then Inr None
      else andThen (resolve_connector (bk_services db) (bk_connectors db) (bk_bindings db)
          (br_scope b) (cr_service q) (pv_connector_kind p d)) (\<lambda>g. Inr (Some g)))"

section \<open>The execution key\<close>

definition key_safe :: "render_ops \<Rightarrow> pyval \<Rightarrow> pyval" where
  "key_safe ops v =
     (case v of
        PStr s \<Rightarrow> v | PInt i \<Rightarrow> v | PFloat r \<Rightarrow> v | PBool x \<Rightarrow> v | PNone \<Rightarrow> v
      | PUUID u \<Rightarrow> PStr u
      | _ \<Rightarrow> PStr (text_of ops v))"

definition key_arguments ::
  "broker \<Rightarrow> CapabilityRequest \<Rightarrow> ToolDescriptor \<Rightarrow> arg_map \<Rightarrow> string \<Rightarrow> arg_map" where
  "key_arguments b q d bound observation_id =
     (let named = map (\<lambda>(n, v). (n, key_safe (br_render b) v))
            (filter (\<lambda>(n, v). n \<in> set (td_idempotency_key_fields d)) (sort_key fst bound))
      in if td_risk_tier d = RiskTier.RO \<and>
            cr_node q \<in> {NodeId.G9_REMEDIATION_EXECUTOR, NodeId.G10_VERIFIER}
         then AList.update ''observation_id'' (PStr observation_id) named else named)"

definition execution_key ::
  "broker \<Rightarrow> CapabilityRequest \<Rightarrow> ToolDescriptor \<Rightarrow> arg_map \<Rightarrow> string \<Rightarrow> (py_error, string) result" where
  "execution_key b q d bound observation_id =
     tool_execution_key (br_keys b) (is_tenant (br_scope b)) (td_name d) (int (major_version d))
       (key_arguments b q d bound observation_id)"

definition recorded_execution ::
  "broker \<Rightarrow> broker_db \<Rightarrow> string \<Rightarrow> (py_error, execution_row option) result" where
  "recorded_execution b db key =
     scalar_one_or_none (filter (\<lambda>e. ex_tenant e = is_tenant (br_scope b) \<and> ex_key e = key)
       (bk_executions db))"

section \<open>The effect claim\<close>

definition claimed :: "string \<Rightarrow> audit_row list \<Rightarrow> string \<Rightarrow> bool" where
  "claimed tenant rows key \<longleftrightarrow>
     (\<exists>a \<in> set rows. au_tenant a = tenant \<and>
        au_event a = AuditEventType.TOOL_AUTHORIZATION_EVALUATED \<and> au_effect_key a = Some key)"

definition action_text :: "string option \<Rightarrow> string" where
  "action_text a = (case a of None \<Rightarrow> ''None'' | Some i \<Rightarrow> i)"

definition claim_row :: "broker \<Rightarrow> CapabilityRequest \<Rightarrow> ToolDescriptor \<Rightarrow> string \<Rightarrow> audit_row" where
  "claim_row b q d key =
     (let external = td_effect_class d = ToolEffectClass.EXTERNAL_RECORD in
      \<lparr>au_tenant = is_tenant (br_scope b), au_event = AuditEventType.TOOL_AUTHORIZATION_EVALUATED,
       au_outcome = ''allowed'', au_incident = cr_incident q,
       au_target_type = (if external then ''tool_definition'' else ''remediation_action''),
       au_target_id = (if external then td_name d @ ''@'' @ td_version d else action_text (cr_action q)),
       au_effect_key = Some key, au_dispatch_claimed = True, au_stage = None, au_execution = None\<rparr>)"

definition claim_write ::
  "broker \<Rightarrow> CapabilityRequest \<Rightarrow> ToolDescriptor \<Rightarrow> string \<Rightarrow> broker_state \<Rightarrow>
   (py_error, broker_state) result" where
  "claim_write b q d key st =
     (if \<not> br_claim_store b then Inl CapabilityNotGranted
      else if claimed (is_tenant (br_scope b)) (bs_claims st) key then Inl CapabilityNotGranted
      else Inr (st\<lparr>bs_claims := bs_claims st @ [claim_row b q d key]\<rparr>))"

text \<open>\<open>dispatch_claim_exists\<close>, over the committed claims.\<close>

definition dispatch_claim_exists :: "audit_row list \<Rightarrow> string \<Rightarrow> string \<Rightarrow> bool" where
  "dispatch_claim_exists rows tenant action \<longleftrightarrow>
     (\<exists>a \<in> set rows. au_tenant a = tenant \<and>
        au_event a = AuditEventType.TOOL_AUTHORIZATION_EVALUATED \<and>
        au_target_type a = ''remediation_action'' \<and> au_target_id a = action \<and>
        au_dispatch_claimed a)"

section \<open>Attempts\<close>

definition adapter_failure ::
  "py_error \<Rightarrow> OperationClass \<Rightarrow> bool \<Rightarrow> IntegrationFailureClass option \<Rightarrow> bool \<Rightarrow> rat option \<Rightarrow>
   BrokerFailure" where
  "adapter_failure e oc retry fc clean after =
     \<lparr>bf_stage = BrokerStage.ADAPTER_INVOCATION, bf_error = e, bf_operation_class = oc,
      bf_retryable = retry, bf_failure_class = fc, bf_effect_not_applied = clean,
      bf_retry_after = after\<rparr>"

text \<open>The \<open>except\<close> clauses in order; the flag says whether the clause ends the loop.\<close>

definition classify_failure :: "ToolDescriptor \<Rightarrow> py_error \<Rightarrow> BrokerFailure \<times> bool" where
  "classify_failure d e =
     (let effectful = td_risk_tier d \<noteq> RiskTier.RO in
      if isinstance e C_ToolTimeout then
        (adapter_failure e
           (if effectful then OperationClass.C4_UNKNOWN_OUTCOME else OperationClass.C1_PURE_READ)
           (\<not> effectful)
           (Some (if effectful then IntegrationFailureClass.UNKNOWN_OUTCOME
                  else IntegrationFailureClass.TIMEOUT)) False None, False)
      else case e of
        IntegrationError fc transient clean after status \<Rightarrow>
          (adapter_failure e
             (if transient \<and> \<not> effectful then OperationClass.C1_PURE_READ
              else OperationClass.C5_SEMANTIC_FAILURE)
             (transient \<and> \<not> effectful) (Some fc) clean after, False)
      | ToolAdapterError transient \<Rightarrow>
          (adapter_failure e
             (if transient then OperationClass.C1_PURE_READ else OperationClass.C5_SEMANTIC_FAILURE)
             transient None False None, False)
      | SchemaViolation \<Rightarrow>
          ((adapter_failure e OperationClass.C6_DETERMINISTIC_REJECTION False
             (Some IntegrationFailureClass.MALFORMED_RESPONSE) False None)
           \<lparr>bf_stage := BrokerStage.RESULT_VALIDATION\<rparr>, True)
      | ToolFailure \<Rightarrow>
          (adapter_failure e OperationClass.C5_SEMANTIC_FAILURE False None False None, True)
      | _ \<Rightarrow>
          (adapter_failure e
             (if effectful then OperationClass.C4_UNKNOWN_OUTCOME
              else OperationClass.C6_DETERMINISTIC_REJECTION) False
             (Some (if effectful then IntegrationFailureClass.UNKNOWN_OUTCOME
                    else IntegrationFailureClass.MALFORMED_RESPONSE)) (\<not> effectful) None, True))"

definition one_attempt ::
  "provider \<Rightarrow> ToolDescriptor \<Rightarrow> arg_map \<Rightarrow> InvocationContext \<Rightarrow> (py_error, arg_map) result" where
  "one_attempt p d bound context =
     andThen (pv_invoke p d bound context) (\<lambda>raw. validate_result d raw)"

text \<open>
  The loop, with the attempts left and those made; it returns the attempts made, the last
  failure and the payload. The context of an attempt carries its number.
\<close>

fun attempt_loop ::
  "(nat \<Rightarrow> (py_error, arg_map) result) \<Rightarrow> ToolDescriptor \<Rightarrow> nat \<Rightarrow> nat \<Rightarrow> BrokerFailure option \<Rightarrow>
   nat \<times> BrokerFailure option \<times> arg_map" where
  "attempt_loop call d 0 made failure = (made, failure, [])"
| "attempt_loop call d (Suc left) made failure =
     (case call (made + 1) of
        Inr payload \<Rightarrow> (made + 1, None, payload)
      | Inl e \<Rightarrow>
          (case classify_failure d e of
             (f, stop) \<Rightarrow>
               if stop \<or> \<not> bf_retryable f \<or> left = 0 then (made + 1, Some f, [])
               else attempt_loop call d left (made + 1) (Some f)))"

text \<open>The pause before the next attempt: \<open>jitter\<close> is the value drawn.\<close>

definition MAX_RETRY_AFTER_SECONDS :: rat where "MAX_RETRY_AFTER_SECONDS = 5"

definition retry_delay :: "ToolDescriptor \<Rightarrow> nat \<Rightarrow> rat \<Rightarrow> rat option \<Rightarrow> rat" where
  "retry_delay d attempts jitter retry_after =
     (let base = td_retry_backoff_seconds d * of_nat attempts;
          delay = base / 2 + (base / 2) * min (max jitter 0) 1
      in case retry_after of
           None \<Rightarrow> delay
         | Some t \<Rightarrow> max delay (min t MAX_RETRY_AFTER_SECONDS))"

section \<open>Outcome and rows\<close>

definition outcome_of :: "ToolDescriptor \<Rightarrow> BrokerFailure option \<Rightarrow> ToolExecutionOutcome" where
  "outcome_of d failure =
     (case failure of
        None \<Rightarrow> ToolExecutionOutcome.SUCCEEDED
      | Some f \<Rightarrow>
          if bf_effect_not_applied f then ToolExecutionOutcome.FAILED_CLEAN
          else if td_risk_tier d \<noteq> RiskTier.RO \<or>
              bf_operation_class f = OperationClass.C4_UNKNOWN_OUTCOME
            then ToolExecutionOutcome.UNKNOWN
          else ToolExecutionOutcome.FAILED_CLEAN)"

definition provenance_for :: "ToolDescriptor \<Rightarrow> ProvenanceLabel" where
  "provenance_for d =
     (if \<exists>x \<in> RETRIEVED_DOMAINS. capability_for_domain x = Inr (td_capability d)
      then ProvenanceLabel.RETRIEVED else ProvenanceLabel.VERIFIED_FACT)"

definition external_reference :: "arg_map \<Rightarrow> string option" where
  "external_reference payload =
     (case map_of payload ''external_reference'' of
        Some (PStr s) \<Rightarrow> if s = [] then None else Some (take 255 s)
      | _ \<Rightarrow> None)"

definition tool_definition_id :: "broker \<Rightarrow> broker_db \<Rightarrow> ToolDescriptor \<Rightarrow> (py_error, string) result" where
  "tool_definition_id b db d =
     andThen (assert_matches_database (rs_registry (br_resolver b)) (bk_tools db)) (\<lambda>joined.
       case map_of joined (td_name d) of
         None \<Rightarrow> Inl KeyError | Some t \<Rightarrow> Inr (rt_definition_id t))"

text \<open>\<open>_result_summary\<close>: counts and provenance, and the last sample of a measurement.\<close>

definition count_entry :: "string \<times> pyval \<Rightarrow> arg_map \<Rightarrow> arg_map" where
  "count_entry kv d =
     (case snd kv of
        PList xs \<Rightarrow> AList.update (fst kv @ ''_count'') (PInt (int (length xs))) d
      | _ \<Rightarrow> d)"

definition result_summary :: "(pyval \<Rightarrow> string) \<Rightarrow> arg_map \<Rightarrow> arg_map" where
  "result_summary fmt payload =
     (let source = (case map_of payload ''source'' of None \<Rightarrow> PStr ''unknown'' | Some v \<Rightarrow> v);
          counted = fold count_entry payload
            [(''source'', PStr (str_of fmt source)),
             (''schema_version'', dict_get payload ''schema_version'')];
          referenced = (case external_reference payload of
              None \<Rightarrow> counted | Some r \<Rightarrow> AList.update ''external_reference'' (PStr r) counted)
      in case (map_of payload ''series'', map_of payload ''samples'') of
           (Some (PStr series), Some (PList samples)) \<Rightarrow>
             if samples = [] then referenced
             else AList.update ''latest_sample'' (PStr (take 256 (str_of fmt (last samples))))
               (AList.update ''measurement_series'' (PStr (take 256 series)) referenced)
         | _ \<Rightarrow> referenced)"

definition execution_record ::
  "broker \<Rightarrow> CapabilityRequest \<Rightarrow> ToolDescriptor \<Rightarrow> ConnectorGrant option \<Rightarrow> arg_map \<Rightarrow> arg_map \<Rightarrow> string \<Rightarrow>
   call_inputs \<Rightarrow> string \<Rightarrow> nat \<Rightarrow> BrokerFailure option \<Rightarrow> arg_map \<Rightarrow> execution_row" where
  "execution_record b q d connector bound scope key ci definition_id attempts failure payload =
     \<lparr>ex_id = ci_execution_id ci, ex_tenant = is_tenant (br_scope b), ex_incident = cr_incident q,
      ex_action = cr_action q, ex_definition = definition_id, ex_tool_name = td_name d,
      ex_tool_version = td_version d, ex_capability = td_capability d,
      ex_risk_tier = td_risk_tier d,
      ex_scope_redacted = redact_mapping (br_render b) scope 0,
      ex_arguments_redacted = redact_arguments (br_render b) bound, ex_key = key,
      ex_node = cr_node q, ex_attempt = attempts, ex_outcome = Some (outcome_of d failure),
      ex_failure = failure,
      ex_failure_class = (case failure of None \<Rightarrow> None | Some f \<Rightarrow> bf_failure_class f),
      ex_effect_class = td_effect_class d, ex_connector = map_option cg_connector connector,
      ex_external_reference = (if failure = None then external_reference payload else None),
      ex_observed_effect =
        (if failure = None then result_summary (text_of (br_render b)) payload else []),
      ex_started_at = ci_now ci, ex_completed_at = Some (ci_completed ci),
      ex_created_at = ci_now ci\<rparr>"

definition audit_executed :: "broker \<Rightarrow> CapabilityRequest \<Rightarrow> ToolDescriptor \<Rightarrow> call_inputs \<Rightarrow>
   BrokerFailure option \<Rightarrow> audit_row" where
  "audit_executed b q d ci failure =
     \<lparr>au_tenant = is_tenant (br_scope b), au_event = AuditEventType.TOOL_EXECUTED,
      au_outcome = (if failure = None then ''succeeded'' else ''failed''),
      au_incident = cr_incident q, au_target_type = ''tool_definition'',
      au_target_id = td_name d @ ''@'' @ td_version d, au_effect_key = None,
      au_dispatch_claimed = False, au_stage = None, au_execution = Some (ci_execution_id ci)\<rparr>"

definition executed_result ::
  "CapabilityRequest \<Rightarrow> ToolDescriptor \<Rightarrow> arg_map \<Rightarrow> call_inputs \<Rightarrow> nat \<Rightarrow> BrokerFailure option \<Rightarrow> arg_map \<Rightarrow>
   ToolResult" where
  "executed_result q d scope ci attempts failure payload =
     \<lparr>res_request = q, res_tool_name = td_name d, res_tool_version = td_version d,
      res_capability = td_capability d, res_risk_tier = td_risk_tier d,
      res_outcome = outcome_of d failure, res_provenance = provenance_for d,
      res_payload = (if failure = None then payload else []), res_scope = scope,
      res_execution = Some (ci_execution_id ci), res_attempts = attempts,
      res_deduplicated = False,
      res_injection_flags = (if failure = None then scan_structure (PDict payload) else []),
      res_failure = failure\<rparr>"

definition from_recorded ::
  "CapabilityRequest \<Rightarrow> ToolDescriptor \<Rightarrow> execution_row \<Rightarrow> arg_map \<Rightarrow> ToolResult" where
  "from_recorded q d e scope =
     \<lparr>res_request = q, res_tool_name = ex_tool_name e, res_tool_version = ex_tool_version e,
      res_capability = ex_capability e, res_risk_tier = ex_risk_tier e,
      res_outcome = (case ex_outcome e of None \<Rightarrow> ToolExecutionOutcome.SUCCEEDED | Some out \<Rightarrow> out),
      res_provenance = provenance_for d, res_payload = [], res_scope = scope,
      res_execution = Some (ex_id e), res_attempts = ex_attempt e, res_deduplicated = True,
      res_injection_flags = [], res_failure = None\<rparr>"

section \<open>Dispatch\<close>

definition invocation ::
  "broker \<Rightarrow> GrantedCapability \<Rightarrow> ConnectorGrant option \<Rightarrow> string \<Rightarrow> nat \<Rightarrow> InvocationContext" where
  "invocation b granted connector key attempt =
     \<lparr>iv_tenant = is_tenant (br_scope b), iv_key = key,
      iv_credential = (case connector of None \<Rightarrow> gc_credential_ref granted
                       | Some g \<Rightarrow> cg_credential g),
      iv_timeout = td_timeout_seconds (gc_descriptor granted), iv_attempt = attempt,
      iv_connector = connector\<rparr>"

definition calls_made :: "string \<Rightarrow> RiskTier \<Rightarrow> nat \<Rightarrow> adapter_call list" where
  "calls_made key tier n =
     map (\<lambda>k. \<lparr>cl_key = key, cl_tier = tier, cl_attempt = k\<rparr>) [1..<Suc n]"

definition dispatch ::
  "broker \<Rightarrow> broker_state \<Rightarrow> CapabilityRequest \<Rightarrow> GrantedCapability \<Rightarrow> provider \<Rightarrow>
   ConnectorGrant option \<Rightarrow> arg_map \<Rightarrow> arg_map \<Rightarrow> string \<Rightarrow> call_inputs \<Rightarrow>
   (py_error, ToolResult) result \<times> broker_state" where
  "dispatch b st q granted p connector bound scope key ci =
     (let d = gc_descriptor granted;
          (attempts, failure, payload) =
            attempt_loop (\<lambda>k. one_attempt p d bound (invocation b granted connector key k)) d
              (nat (td_max_attempts d)) 0 None;
          st1 = st\<lparr>bs_calls := bs_calls st @ calls_made key (td_risk_tier d) attempts\<rparr>
      in case tool_definition_id b (bs_db st1) d of
           Inl e \<Rightarrow> (Inl e, st1)
         | Inr definition_id \<Rightarrow>
             let e = execution_record b q d connector bound scope key ci definition_id attempts
                   failure payload
             in if \<not> execution_checks (bk_executions (bs_db st1)) e then (Inl IntegrityError, st1)
                else (Inr (executed_result q d scope ci attempts failure payload),
                  add_audit (audit_executed b q d ci failure)
                    (st1\<lparr>bs_db := (bs_db st1)\<lparr>bk_executions := bk_executions (bs_db st1) @ [e]\<rparr>\<rparr>)))"

section \<open>The call\<close>

text \<open>From the bound arguments on: key, recorded execution, claim, dispatch.\<close>

definition invoke_bound ::
  "broker \<Rightarrow> broker_state \<Rightarrow> CapabilityRequest \<Rightarrow> GrantedCapability \<Rightarrow> provider \<Rightarrow>
   ConnectorGrant option \<Rightarrow> arg_map \<Rightarrow> arg_map \<Rightarrow> call_inputs \<Rightarrow>
   (py_error, ToolResult) result \<times> broker_state" where
  "invoke_bound b st q granted p connector bound scope ci =
     (let d = gc_descriptor granted in
      case execution_key b q d bound (ci_observation_id ci) of
        Inl e \<Rightarrow> (Inl e, st)
      | Inr key \<Rightarrow>
          (case recorded_execution b (bs_db st) key of
             Inl e \<Rightarrow> (Inl e, st)
           | Inr (Some e) \<Rightarrow> (Inr (from_recorded q d e scope), st)
           | Inr None \<Rightarrow>
               if td_risk_tier d = RiskTier.RO then
                 dispatch b st q granted p connector bound scope key ci
               else
                 (case claim_write b q d key st of
                    Inl e \<Rightarrow> refuse_or_raise b q e st
                  | Inr st' \<Rightarrow> dispatch b st' q granted p connector bound scope key ci)))"

definition invoke_granted ::
  "broker \<Rightarrow> broker_state \<Rightarrow> CapabilityRequest \<Rightarrow> GrantedCapability \<Rightarrow> call_inputs \<Rightarrow>
   (py_error, ToolResult) result \<times> broker_state" where
  "invoke_granted b st q granted ci =
     (let d = gc_descriptor granted in
      case andThen (provider_for b d) (\<lambda>p.
          andThen (connector_for b (bs_db st) q d p) (\<lambda>c. Inr (p, c))) of
        Inl e \<Rightarrow> refuse_or_raise b q e st
      | Inr (p, connector) \<Rightarrow>
          (case resolve_arguments (br_scope b) d (cr_service q) of
             Inl e \<Rightarrow> (Inl e, st)
           | Inr scope \<Rightarrow>
               (case bind_arguments (br_parsers b) d (cr_arguments q) scope of
                  Inl e \<Rightarrow>
                    if isinstance e C_SchemaViolation then refuse b q (argument_refusal e) st
                    else (Inl e, st)
                | Inr bound \<Rightarrow> invoke_bound b st q granted p connector bound scope ci)))"

definition invoke ::
  "broker \<Rightarrow> broker_state \<Rightarrow> CapabilityRequest \<Rightarrow> NodeContract \<Rightarrow> call_inputs \<Rightarrow>
   (py_error, ToolResult) result \<times> broker_state" where
  "invoke b st q contract ci =
     (case authorize b st q contract (ci_now ci) of
        (Inl e, st') \<Rightarrow> refuse_or_raise b q e st'
      | (Inr granted, st') \<Rightarrow> invoke_granted b st' q granted ci)"

end
