(* ===== verification/Broker_Run.thy ===== *)
theory Broker_Run
  imports Broker One_Shot
begin

text \<open>
  What the broker guarantees. Of one call: what stands behind an authorization and behind a
  dispatch, what a success is, what a failed write is taken to be. Of any sequence of calls and
  crashes: a write key is sent to an adapter by at most one call, because its claim survives
  the crash that takes the execution row.
\<close>

section \<open>Attempts\<close>

lemma attempt_loop_result:
  "attempt_loop call d n made failure = (a, fo, payload) \<Longrightarrow> 0 < n \<Longrightarrow>
   made < a \<and> a \<le> made + n \<and>
   (case fo of
      None \<Rightarrow> call a = Inr payload
    | Some f \<Rightarrow> payload = [] \<and> (\<exists>e. call a = Inl e \<and> f = fst (classify_failure d e)))"
proof (induction n arbitrary: made failure)
  case (Suc n)
  show ?case
  proof (cases "call (made + 1)")
    case (Inr pl)
    then show ?thesis using Suc.prems by auto
  next
    case (Inl e)
    obtain f stop where c: "classify_failure d e = (f, stop)" by fastforce
    show ?thesis
    proof (cases "stop \<or> \<not> bf_retryable f \<or> n = 0")
      case True
      then show ?thesis using Suc.prems Inl c by auto
    next
      case False
      then have "attempt_loop call d n (made + 1) (Some f) = (a, fo, payload)" "0 < n"
        using Suc.prems(1) Inl c by auto
      from Suc.IH [OF this] show ?thesis by (auto split: option.splits)
    qed
  qed
qed simp

lemma attempt_loop_no_attempt: "attempt_loop call d 0 made failure = (made, failure, [])"
  by simp

text \<open>An attempt that fails is retried only when its classification says so.\<close>

lemma classify_simps:
  "classify_failure d ToolTimeout = (adapter_failure ToolTimeout
     (if td_risk_tier d \<noteq> RiskTier.RO then OperationClass.C4_UNKNOWN_OUTCOME else OperationClass.C1_PURE_READ)
     (td_risk_tier d = RiskTier.RO)
     (Some (if td_risk_tier d \<noteq> RiskTier.RO then IntegrationFailureClass.UNKNOWN_OUTCOME
            else IntegrationFailureClass.TIMEOUT)) False None, False)"
  by (simp add: classify_failure_def isinstance_def eval_nat_numeral)

lemma write_failure_not_clean:
  assumes "td_risk_tier d \<noteq> RiskTier.RO" and "bf_effect_not_applied (fst (classify_failure d e))"
  shows "\<exists>fc t after status. e = IntegrationError fc t True after status"
  using assms by (cases e)
    (auto simp: classify_failure_def adapter_failure_def isinstance_def eval_nat_numeral Let_def
      split: if_splits)

lemma write_failure_retry:
  assumes "td_risk_tier d \<noteq> RiskTier.RO" and "bf_retryable (fst (classify_failure d e))"
  shows "e = ToolAdapterError True"
  using assms by (cases e)
    (auto simp: classify_failure_def adapter_failure_def isinstance_def eval_nat_numeral Let_def
      split: if_splits)

section \<open>Authorization\<close>

lemma admit_request_Inr:
  "admit_request b db q c = Inr bound \<longleftrightarrow>
     permits_capability c (cr_capability q) \<and> bk_tenant db = Some bound \<and>
     bound = is_tenant (br_scope b) \<and> cr_incident q = is_incident (br_scope b)"
  by (auto simp: admit_request_def require_tenant_def assert_tenant_matches_def raise_simps
      result_simps split: option.splits)

lemma menu_for_frame:
  "menu_for b st c refresh = (r, st') \<Longrightarrow>
   bs_db st' = bs_db st \<and> bs_claims st' = bs_claims st \<and> bs_calls st' = bs_calls st"
  by (auto simp: menu_for_def split: option.splits sum.splits if_splits)

lemma menu_for_fresh:
  "menu_for b st c True = (Inr m, st') \<Longrightarrow>
   resolve (br_resolver b) (bk_grants (bs_db st)) (bk_tools (bs_db st)) (br_scope b) c = Inr m"
  by (auto simp: menu_for_def split: sum.splits)

lemma authorize_frame:
  "authorize b st q c now = (r, st') \<Longrightarrow>
   bs_db st' = bs_db st \<and> bs_claims st' = bs_claims st \<and> bs_calls st' = bs_calls st"
  by (auto simp: authorize_def split: sum.splits prod.splits dest: menu_for_frame)

lemma risk_boundary_Inr:
  "risk_boundary b g = Inr () \<longleftrightarrow>
     td_is_enabled (gc_descriptor g) \<and>
     within_ceiling (td_risk_tier (gc_descriptor g)) (rs_max_risk_tier (br_resolver b))"
  by (simp add: risk_boundary_def raise_simps assert_tier_permitted_Inr)

definition write_backed ::
  "broker \<Rightarrow> broker_db \<Rightarrow> CapabilityRequest \<Rightarrow> GrantedCapability \<Rightarrow> int \<Rightarrow> bool" where
  "write_backed b db q g now \<longleftrightarrow>
     (\<exists>action resolved. action \<in> set (rd_actions (bk_remediation db)) \<and>
        ac_tenant action = is_tenant (br_scope b) \<and> ac_incident action = cr_incident q \<and>
        cr_action q = Some (ac_id action) \<and>
        resolve_arguments (br_scope b) (gc_descriptor g) (cr_service q) = Inr resolved \<and>
        write_permitted (br_keys b) (bk_remediation db) action (gc_descriptor g) (cr_arguments q)
          (is_environment (br_scope b)) (cr_service q) resolved now)"

text \<open>What a granted capability rests on.\<close>

definition authorized ::
  "broker \<Rightarrow> broker_db \<Rightarrow> CapabilityRequest \<Rightarrow> NodeContract \<Rightarrow> CapabilityMenu \<Rightarrow>
   GrantedCapability \<Rightarrow> int \<Rightarrow> bool" where
  "authorized b db q c menu g now \<longleftrightarrow>
     permits_capability c (cr_capability q) \<and> bk_tenant db = Some (is_tenant (br_scope b)) \<and>
     cr_incident q = is_incident (br_scope b) \<and>
     td_is_enabled (gc_descriptor g) \<and>
     within_ceiling (td_risk_tier (gc_descriptor g)) (rs_max_risk_tier (br_resolver b)) \<and>
     (\<exists>g0. menu_get menu (cr_capability q) = Inr g0 \<and>
       (if request_is_effect q \<and> td_effect_class (gc_descriptor g0) \<noteq> ToolEffectClass.EXTERNAL_RECORD
        then (\<exists>n. menu_get_by_tool_name menu n = Some g) \<and> gc_capability g = cr_capability q \<and>
          write_backed b db q g now
        else g = g0) \<and>
       (request_is_effect q \<longleftrightarrow> td_effect_class (gc_descriptor g0) \<noteq> ToolEffectClass.READ) \<and>
       (td_effect_class (gc_descriptor g0) = ToolEffectClass.EXTERNAL_RECORD \<longrightarrow>
          cr_node q = NodeId.S2_NOTIFICATION_SERVICE \<and> cr_action q = None))"

lemma select_write_Inr:
  assumes "select_write rdb bound q menu = Inr (action, g)"
  shows "action \<in> set (rd_actions rdb) \<and> ac_tenant action = bound \<and> ac_incident action = cr_incident q \<and>
    cr_action q = Some (ac_id action) \<and> menu_get_by_tool_name menu (ac_tool_name action) = Some g \<and>
    gc_capability g = cr_capability q"
proof -
  let ?P = "\<lambda>a. ac_tenant a = bound \<and> ac_incident a = cr_incident q \<and> cr_action q = Some (ac_id a)"
  have s: "scoped_action rdb bound q = Inr (Some action)"
    and rest: "menu_get_by_tool_name menu (ac_tool_name action) = Some g" "gc_capability g = cr_capability q"
    using assms by (auto simp: select_write_def raise_simps)
  have "filter ?P (rd_actions rdb) = [action]"
    using s by (simp add: scoped_action_def query_simps)
  from filter_singleton [OF this] rest show ?thesis by blast
qed

lemma authorize_granted_Inr:
  assumes "authorize_granted b db (is_tenant (br_scope b)) q menu now = Inr g"
    and "admit_request b db q c = Inr (is_tenant (br_scope b))"
  shows "authorized b db q c menu g now"
proof -
  obtain g0 where g0: "menu_get menu (cr_capability q) = Inr g0"
    using assms(1) by (auto simp: authorize_granted_def andThen_eq_Inr)
  let ?e = "td_effect_class (gc_descriptor g0)"
  have verb: "request_is_effect q \<longleftrightarrow> ?e \<noteq> ToolEffectClass.READ"
    and ext: "?e = ToolEffectClass.EXTERNAL_RECORD \<longrightarrow>
      cr_node q = NodeId.S2_NOTIFICATION_SERVICE \<and> cr_action q = None"
    using assms(1) g0 by (auto simp: authorize_granted_def Let_def split: if_splits)
  show ?thesis
  proof (cases "request_is_effect q \<and> ?e \<noteq> ToolEffectClass.EXTERNAL_RECORD")
    case True
    obtain action resolved where
        sel: "select_write (bk_remediation db) (is_tenant (br_scope b)) q menu = Inr (action, g)"
      and risk: "risk_boundary b g = Inr ()"
      and res: "resolve_arguments (br_scope b) (gc_descriptor g) (cr_service q) = Inr resolved"
      and auth: "require_write_authority (br_keys b) (bk_remediation db) action (gc_descriptor g)
        (cr_arguments q) (is_environment (br_scope b)) (cr_service q) resolved now = Inr ()"
      using assms(1) g0 True verb ext
      by (auto simp: authorize_granted_def Let_def andThen_eq_Inr split: if_splits prod.splits)
    have "write_backed b db q g now"
      unfolding write_backed_def
      using select_write_Inr [OF sel] res require_write_authority_Inr [OF auth] by blast
    then show ?thesis
      unfolding authorized_def using g0 verb ext True select_write_Inr [OF sel] risk assms(2)
      by (auto simp: admit_request_Inr risk_boundary_Inr)
  next
    case False
    then have "risk_boundary b g0 = Inr ()" "g = g0"
      using assms(1) g0 verb ext by (auto simp: authorize_granted_def Let_def andThen_eq_Inr split: if_splits)
    then show ?thesis
      unfolding authorized_def using g0 verb ext False assms(2)
      by (auto simp: admit_request_Inr risk_boundary_Inr)
  qed
qed

lemma authorize_Inr:
  assumes "authorize b st q c now = (Inr g, st')"
  shows "\<exists>menu. menu_for b st c (request_is_effect q) = (Inr menu, st') \<and>
     authorized b (bs_db st) q c menu g now"
proof -
  obtain bound where ad: "admit_request b (bs_db st) q c = Inr bound"
    using assms by (auto simp: authorize_def split: sum.splits)
  then have bound: "bound = is_tenant (br_scope b)" by (simp add: admit_request_Inr)
  obtain menu where m: "menu_for b st c (request_is_effect q) = (Inr menu, st')"
      and g: "authorize_granted b (bs_db st') bound q menu now = Inr g"
    using assms ad by (auto simp: authorize_def split: sum.splits prod.splits)
  have "bs_db st' = bs_db st" using menu_for_frame [OF m] by simp
  then show ?thesis using m authorize_granted_Inr g ad bound by metis
qed

section \<open>Dispatch\<close>

definition dispatched ::
  "broker \<Rightarrow> broker_state \<Rightarrow> CapabilityRequest \<Rightarrow> GrantedCapability \<Rightarrow> provider \<Rightarrow>
   ConnectorGrant option \<Rightarrow> arg_map \<Rightarrow> arg_map \<Rightarrow> string \<Rightarrow> call_inputs \<Rightarrow>
   (py_error, ToolResult) result \<Rightarrow> broker_state \<Rightarrow> bool" where
  "dispatched b st q g p connector bound scope key ci r st' \<longleftrightarrow>
     (\<exists>attempts failure payload.
        attempt_loop (\<lambda>k. one_attempt p (gc_descriptor g) bound (invocation b g connector key k))
          (gc_descriptor g) (nat (td_max_attempts (gc_descriptor g))) 0 None =
          (attempts, failure, payload) \<and>
        bs_calls st' = bs_calls st @ calls_made key (td_risk_tier (gc_descriptor g)) attempts \<and>
        bs_claims st' = bs_claims st \<and>
        (\<forall>res. r = Inr res \<longrightarrow>
           res = executed_result q (gc_descriptor g) scope ci attempts failure payload \<and>
           (\<exists>definition_id. bk_executions (bs_db st') = bk_executions (bs_db st) @
              [execution_record b q (gc_descriptor g) connector bound scope key ci definition_id
                 attempts failure payload]) \<and>
           bk_audit (bs_db st') = bk_audit (bs_db st) @
             [audit_executed b q (gc_descriptor g) ci failure]))"

lemma dispatch_dispatched:
  assumes "dispatch b st q g p connector bound scope key ci = (r, st')"
  shows "dispatched b st q g p connector bound scope key ci r st'"
proof -
  obtain attempts failure payload where
    loop: "attempt_loop (\<lambda>k. one_attempt p (gc_descriptor g) bound (invocation b g connector key k))
      (gc_descriptor g) (nat (td_max_attempts (gc_descriptor g))) 0 None = (attempts, failure, payload)"
    by (metis prod_cases3)
  let ?st1 = "st\<lparr>bs_calls := bs_calls st @ calls_made key (td_risk_tier (gc_descriptor g)) attempts\<rparr>"
  let ?e = "\<lambda>i. execution_record b q (gc_descriptor g) connector bound scope key ci i
      attempts failure payload"
  have d: "(r, st') = (case tool_definition_id b (bs_db ?st1) (gc_descriptor g) of
        Inl e \<Rightarrow> (Inl e, ?st1)
      | Inr i \<Rightarrow>
          if \<not> execution_checks (bk_executions (bs_db ?st1)) (?e i) then (Inl IntegrityError, ?st1)
          else (Inr (executed_result q (gc_descriptor g) scope ci attempts failure payload),
            add_audit (audit_executed b q (gc_descriptor g) ci failure)
              (?st1\<lparr>bs_db := (bs_db ?st1)\<lparr>bk_executions := bk_executions (bs_db ?st1) @ [?e i]\<rparr>\<rparr>)))"
    using assms by (simp only: dispatch_def loop Let_def prod.case)
  have "bs_calls st' = bs_calls ?st1 \<and> bs_claims st' = bs_claims st \<and>
      (\<forall>res. r = Inr res \<longrightarrow>
        res = executed_result q (gc_descriptor g) scope ci attempts failure payload \<and>
        (\<exists>i. bk_executions (bs_db st') = bk_executions (bs_db st) @ [?e i]) \<and>
        bk_audit (bs_db st') = bk_audit (bs_db st) @ [audit_executed b q (gc_descriptor g) ci failure])"
  proof (cases "tool_definition_id b (bs_db ?st1) (gc_descriptor g)")
    case (Inl e)
    then show ?thesis using d by simp
  next
    case (Inr i)
    then show ?thesis using d
      by (cases "execution_checks (bk_executions (bs_db ?st1)) (?e i)") (auto simp: add_audit_def)
  qed
  then show ?thesis unfolding dispatched_def using loop by auto
qed

text \<open>A call either stays clear of every adapter or reaches one with these facts behind it.\<close>

definition quiet ::
  "broker \<Rightarrow> broker_state \<Rightarrow> CapabilityRequest \<Rightarrow> (py_error, ToolResult) result \<Rightarrow> broker_state \<Rightarrow> bool" where
  "quiet b st q r st' \<longleftrightarrow>
     bs_calls st' = bs_calls st \<and> bs_claims st' = bs_claims st \<and>
     bk_executions (bs_db st') = bk_executions (bs_db st) \<and>
     (\<forall>res. r = Inr res \<longrightarrow>
        (\<exists>f. res = refused q f \<and> bk_audit (bs_db st') = bk_audit (bs_db st) @ [audit_refusal b q f]) \<or>
        (\<exists>d e scope. e \<in> set (bk_executions (bs_db st)) \<and> res = from_recorded q d e scope))"

definition sent ::
  "broker \<Rightarrow> broker_state \<Rightarrow> CapabilityRequest \<Rightarrow> NodeContract \<Rightarrow> call_inputs \<Rightarrow>
   (py_error, ToolResult) result \<Rightarrow> broker_state \<Rightarrow> bool" where
  "sent b st q c ci r st' \<longleftrightarrow>
     (\<exists>g st1 p connector scope bound key st2.
        authorize b st q c (ci_now ci) = (Inr g, st1) \<and>
        provider_for b (gc_descriptor g) = Inr p \<and>
        connector_for b (bs_db st) q (gc_descriptor g) p = Inr connector \<and>
        resolve_arguments (br_scope b) (gc_descriptor g) (cr_service q) = Inr scope \<and>
        bind_arguments (br_parsers b) (gc_descriptor g) (cr_arguments q) scope = Inr bound \<and>
        execution_key b q (gc_descriptor g) bound (ci_observation_id ci) = Inr key \<and>
        recorded_execution b (bs_db st) key = Inr None \<and>
        (if td_risk_tier (gc_descriptor g) = RiskTier.RO then st2 = st1
         else claim_write b q (gc_descriptor g) key st1 = Inr st2) \<and>
        dispatched b st2 q g p connector bound scope key ci r st')"

lemma refuse_is_quiet:
  assumes "bs_db st1 = bs_db st" "bs_claims st1 = bs_claims st" "bs_calls st1 = bs_calls st"
  shows "refuse b q f st1 = (r, st') \<Longrightarrow> quiet b st q r st'"
proof -
  assume "refuse b q f st1 = (r, st')"
  then have r: "r = Inr (refused q f)" and st': "st' = add_audit (audit_refusal b q f) st1"
    by (simp_all add: refuse_def)
  have "bk_audit (bs_db st') = bk_audit (bs_db st) @ [audit_refusal b q f]"
      "bs_calls st' = bs_calls st" "bs_claims st' = bs_claims st"
      "bk_executions (bs_db st') = bk_executions (bs_db st)"
    by (simp_all add: st' add_audit_def assms)
  then show ?thesis unfolding quiet_def r by blast
qed

lemma raise_quiet:
  assumes "bs_db st1 = bs_db st" "bs_claims st1 = bs_claims st" "bs_calls st1 = bs_calls st"
  shows "quiet b st q (Inl e) st1"
  by (simp add: quiet_def assms)

lemma refuse_quiet:
  assumes "refuse_or_raise b q e st1 = (r, st')" and "bs_db st1 = bs_db st"
    and "bs_claims st1 = bs_claims st" and "bs_calls st1 = bs_calls st"
  shows "quiet b st q r st'"
  using assms refuse_is_quiet [OF assms(2-4)] raise_quiet [OF assms(2-4)]
  by (auto simp: refuse_or_raise_def split: if_splits)

lemma invoke_bound_cases:
  assumes inv: "invoke_bound b st1 q g p connector bound scope ci = (r, st')"
    and frame: "bs_db st1 = bs_db st" "bs_claims st1 = bs_claims st" "bs_calls st1 = bs_calls st"
  shows "quiet b st q r st' \<or>
    (\<exists>key st2. execution_key b q (gc_descriptor g) bound (ci_observation_id ci) = Inr key \<and>
       recorded_execution b (bs_db st) key = Inr None \<and>
       (if td_risk_tier (gc_descriptor g) = RiskTier.RO then st2 = st1
        else claim_write b q (gc_descriptor g) key st1 = Inr st2) \<and>
       dispatched b st2 q g p connector bound scope key ci r st')"
proof (cases "execution_key b q (gc_descriptor g) bound (ci_observation_id ci)")
  case (Inl e)
  then show ?thesis using inv frame by (auto simp: invoke_bound_def Let_def quiet_def)
next
  case (Inr key)
  show ?thesis
  proof (cases "recorded_execution b (bs_db st) key")
    case (Inl e)
    then show ?thesis using inv frame Inr by (auto simp: invoke_bound_def Let_def quiet_def)
  next
    case rec: (Inr found)
    show ?thesis
    proof (cases found)
      case (Some e)
      have "filter (\<lambda>e. ex_tenant e = is_tenant (br_scope b) \<and> ex_key e = key)
          (bk_executions (bs_db st)) = [e]"
        using rec Some by (simp add: recorded_execution_def query_simps)
      then have "e \<in> set (bk_executions (bs_db st))" using filter_singleton by metis
      then show ?thesis using inv frame Inr rec Some
        by (auto simp: invoke_bound_def Let_def quiet_def)
    next
      case None
      show ?thesis
      proof (cases "td_risk_tier (gc_descriptor g) = RiskTier.RO")
        case True
        then have "dispatch b st1 q g p connector bound scope key ci = (r, st')"
          using inv frame Inr rec None by (simp add: invoke_bound_def Let_def)
        from dispatch_dispatched [OF this] show ?thesis using True Inr rec None by auto
      next
        case False
        show ?thesis
        proof (cases "claim_write b q (gc_descriptor g) key st1")
          case (Inl e)
          then have "refuse_or_raise b q e st1 = (r, st')"
            using inv frame Inr rec None False by (simp add: invoke_bound_def Let_def)
          from refuse_quiet [OF this frame] show ?thesis by blast
        next
          case claim: (Inr st2)
          then have "dispatch b st2 q g p connector bound scope key ci = (r, st')"
            using inv frame Inr rec None False by (simp add: invoke_bound_def Let_def)
          from dispatch_dispatched [OF this] show ?thesis using False claim Inr rec None by auto
        qed
      qed
    qed
  qed
qed

lemma invoke_cases:
  assumes inv: "invoke b st q c ci = (r, st')"
  shows "quiet b st q r st' \<or> sent b st q c ci r st'"
proof -
  obtain ra st1 where a: "authorize b st q c (ci_now ci) = (ra, st1)" by fastforce
  note frame = authorize_frame [OF a]
  show ?thesis
  proof (cases ra)
    case (Inl e)
    then show ?thesis using inv a frame refuse_quiet by (auto simp: invoke_def)
  next
    case (Inr g)
    then have ig: "invoke_granted b st1 q g ci = (r, st')" using inv a by (simp add: invoke_def)
    show ?thesis
    proof (cases "andThen (provider_for b (gc_descriptor g)) (\<lambda>p.
          andThen (connector_for b (bs_db st1) q (gc_descriptor g) p) (\<lambda>c. Inr (p, c)))")
      case (Inl e)
      then have "refuse_or_raise b q e st1 = (r, st')" using ig by (simp add: invoke_granted_def Let_def)
      then show ?thesis using frame refuse_quiet by blast
    next
      case pc: (Inr pc)
      obtain p connector where p: "provider_for b (gc_descriptor g) = Inr p"
          and con: "connector_for b (bs_db st) q (gc_descriptor g) p = Inr connector"
          and pc': "pc = (p, connector)"
        using pc frame by (auto simp: andThen_eq_Inr)
      show ?thesis
      proof (cases "resolve_arguments (br_scope b) (gc_descriptor g) (cr_service q)")
        case (Inl e)
        then have "r = Inl e" "st' = st1" using ig pc pc' by (simp_all add: invoke_granted_def Let_def)
        then show ?thesis using frame raise_quiet by blast
      next
        case scope: (Inr scope)
        show ?thesis
        proof (cases "bind_arguments (br_parsers b) (gc_descriptor g) (cr_arguments q) scope")
          case (Inl e)
          then have "refuse b q (argument_refusal e) st1 = (r, st') \<or> (r = Inl e \<and> st' = st1)"
            using ig pc pc' scope by (auto simp: invoke_granted_def Let_def split: if_splits)
          then show ?thesis using frame raise_quiet refuse_is_quiet by blast
        next
          case bound: (Inr bound)
          then have "invoke_bound b st1 q g p connector bound scope ci = (r, st')"
            using ig pc pc' scope by (simp add: invoke_granted_def Let_def)
          from invoke_bound_cases [OF this] frame
          consider "quiet b st q r st'" | key st2 where
              "execution_key b q (gc_descriptor g) bound (ci_observation_id ci) = Inr key"
              "recorded_execution b (bs_db st) key = Inr None"
              "if td_risk_tier (gc_descriptor g) = RiskTier.RO then st2 = st1
               else claim_write b q (gc_descriptor g) key st1 = Inr st2"
              "dispatched b st2 q g p connector bound scope key ci r st'"
            by blast
          then show ?thesis
          proof cases
            case 1
            then show ?thesis by blast
          next
            case 2
            have "authorize b st q c (ci_now ci) = (Inr g, st1)" using a Inr by simp
            then show ?thesis unfolding sent_def using p con scope bound 2 by blast
          qed
        qed
      qed
    qed
  qed
qed

lemma claim_write_Inr:
  assumes "claim_write b q d key st = Inr st'"
  shows "\<not> claimed (is_tenant (br_scope b)) (bs_claims st) key \<and>
    claimed (is_tenant (br_scope b)) (bs_claims st') key \<and> bs_calls st' = bs_calls st \<and>
    set (bs_claims st) \<subseteq> set (bs_claims st') \<and> bs_db st' = bs_db st"
  using assms by (auto simp: claim_write_def claimed_def claim_row_def Let_def split: if_splits)

text \<open>What stands behind a call that an adapter received: one menu, one grant, one key.\<close>

definition menu_in_force ::
  "broker \<Rightarrow> broker_state \<Rightarrow> CapabilityRequest \<Rightarrow> NodeContract \<Rightarrow> CapabilityMenu \<Rightarrow> bool" where
  "menu_in_force b st q c menu \<longleftrightarrow>
     (if request_is_effect q \<or> map_of (bs_menus st) (nc_node_id c) = None
      then resolve (br_resolver b) (bk_grants (bs_db st)) (bk_tools (bs_db st)) (br_scope b) c = Inr menu
      else map_of (bs_menus st) (nc_node_id c) = Some menu)"

lemma menu_for_in_force:
  "menu_for b st c (request_is_effect q) = (Inr menu, st') \<Longrightarrow> menu_in_force b st q c menu"
  by (auto simp: menu_for_def menu_in_force_def split: option.splits sum.splits if_splits)

lemma sent_rests_on:
  assumes "sent b st q c ci r st'"
  shows "\<exists>g menu p connector scope bound key n failure payload.
    menu_in_force b st q c menu \<and> authorized b (bs_db st) q c menu g (ci_now ci) \<and>
    provider_for b (gc_descriptor g) = Inr p \<and>
    connector_for b (bs_db st) q (gc_descriptor g) p = Inr connector \<and>
    resolve_arguments (br_scope b) (gc_descriptor g) (cr_service q) = Inr scope \<and>
    bind_arguments (br_parsers b) (gc_descriptor g) (cr_arguments q) scope = Inr bound \<and>
    execution_key b q (gc_descriptor g) bound (ci_observation_id ci) = Inr key \<and>
    attempt_loop (\<lambda>k. one_attempt p (gc_descriptor g) bound (invocation b g connector key k))
      (gc_descriptor g) (nat (td_max_attempts (gc_descriptor g))) 0 None = (n, failure, payload) \<and>
    bs_calls st' = bs_calls st @ calls_made key (td_risk_tier (gc_descriptor g)) n \<and>
    (case r of Inl e \<Rightarrow> True
      | Inr res \<Rightarrow> res = executed_result q (gc_descriptor g) scope ci n failure payload) \<and>
    (if td_risk_tier (gc_descriptor g) = RiskTier.RO then True
     else \<not> claimed (is_tenant (br_scope b)) (bs_claims st) key \<and>
       claimed (is_tenant (br_scope b)) (bs_claims st') key)"
proof -
  obtain g st1 p connector scope bound key st2 where a: "authorize b st q c (ci_now ci) = (Inr g, st1)"
    and args: "provider_for b (gc_descriptor g) = Inr p"
      "connector_for b (bs_db st) q (gc_descriptor g) p = Inr connector"
      "resolve_arguments (br_scope b) (gc_descriptor g) (cr_service q) = Inr scope"
      "bind_arguments (br_parsers b) (gc_descriptor g) (cr_arguments q) scope = Inr bound"
      "execution_key b q (gc_descriptor g) bound (ci_observation_id ci) = Inr key"
    and cl: "if td_risk_tier (gc_descriptor g) = RiskTier.RO then st2 = st1
         else claim_write b q (gc_descriptor g) key st1 = Inr st2"
    and d: "dispatched b st2 q g p connector bound scope key ci r st'"
    using assms unfolding sent_def by blast
  obtain menu where m: "menu_in_force b st q c menu" "authorized b (bs_db st) q c menu g (ci_now ci)"
    using authorize_Inr [OF a] menu_for_in_force by blast
  have st2: "bs_calls st2 = bs_calls st" "bs_claims st1 = bs_claims st"
    using cl authorize_frame [OF a] claim_write_Inr by (auto split: if_splits)
  obtain n failure payload where n: "attempt_loop (\<lambda>k. one_attempt p (gc_descriptor g) bound
        (invocation b g connector key k)) (gc_descriptor g)
        (nat (td_max_attempts (gc_descriptor g))) 0 None = (n, failure, payload)"
      "bs_calls st' = bs_calls st2 @ calls_made key (td_risk_tier (gc_descriptor g)) n"
      "bs_claims st' = bs_claims st2"
      "case r of Inl e \<Rightarrow> True | Inr res \<Rightarrow> res = executed_result q (gc_descriptor g) scope ci n failure payload"
    using d unfolding dispatched_def by (auto split: sum.split)
  have claim: "if td_risk_tier (gc_descriptor g) = RiskTier.RO then True
     else \<not> claimed (is_tenant (br_scope b)) (bs_claims st) key \<and>
       claimed (is_tenant (br_scope b)) (bs_claims st') key"
    using cl claim_write_Inr [of b q "gc_descriptor g" key st1 st2] st2(2) n(3) by (auto split: if_splits)
  show ?thesis
    by (rule exI [of _ g], rule exI [of _ menu], rule exI [of _ p], rule exI [of _ connector],
        rule exI [of _ scope], rule exI [of _ bound], rule exI [of _ key], rule exI [of _ n],
        rule exI [of _ failure], rule exI [of _ payload])
      (intro conjI m args n(1,4) claim; simp add: n(2) st2(1))
qed

text \<open>Where the result of a call comes from.\<close>

lemma quiet_success:
  assumes "quiet b st q (Inr res) st'" and "result_succeeded res"
  shows "(\<exists>e \<in> set (bk_executions (bs_db st)). res_execution res = Some (ex_id e) \<and>
      ex_outcome e \<in> {None, Some ToolExecutionOutcome.SUCCEEDED} \<and> res_payload res = [] \<and>
      bs_calls st' = bs_calls st) \<or> R"
proof -
  have calls: "bs_calls st' = bs_calls st"
    and r: "(\<exists>f. res = refused q f) \<or>
      (\<exists>d e scope. e \<in> set (bk_executions (bs_db st)) \<and> res = from_recorded q d e scope)"
    using assms(1) unfolding quiet_def by blast+
  have "\<not> (\<exists>f. res = refused q f)"
    using assms(2) by (auto simp: result_succeeded_def refused_def)
  then obtain d e scope where e: "e \<in> set (bk_executions (bs_db st))"
      and res: "res = from_recorded q d e scope"
    using r by blast
  have "ex_outcome e \<in> {None, Some ToolExecutionOutcome.SUCCEEDED}"
    using assms(2) res by (auto simp: result_succeeded_def from_recorded_def split: option.splits)
  moreover have "res_execution res = Some (ex_id e)" "res_payload res = []"
    using res by (simp_all add: from_recorded_def)
  ultimately show ?thesis using e calls by blast
qed

lemma provider_for_mem: "provider_for b d = Inr p \<Longrightarrow> p \<in> set (br_providers b) \<and> pv_supports p d"
  by (auto simp: provider_for_def split: option.splits dest: find_SomeD)

lemma sent_result:
  assumes "sent b st q c ci (Inr res) st'"
  obtains p g bound scope attempts failure payload connector key i where
    "p \<in> set (br_providers b)"
    "attempt_loop (\<lambda>k. one_attempt p (gc_descriptor g) bound (invocation b g connector key k))
       (gc_descriptor g) (nat (td_max_attempts (gc_descriptor g))) 0 None = (attempts, failure, payload)"
    "res = executed_result q (gc_descriptor g) scope ci attempts failure payload"
    "bk_executions (bs_db st') = bk_executions (bs_db st) @
       [execution_record b q (gc_descriptor g) connector bound scope key ci i attempts failure payload]"
proof -
  obtain g st1 p connector scope bound key st2 where
      a: "authorize b st q c (ci_now ci) = (Inr g, st1)"
    and p: "provider_for b (gc_descriptor g) = Inr p"
    and cl: "if td_risk_tier (gc_descriptor g) = RiskTier.RO then st2 = st1
         else claim_write b q (gc_descriptor g) key st1 = Inr st2"
    and d: "dispatched b st2 q g p connector bound scope key ci (Inr res) st'"
    using assms unfolding sent_def by blast
  have "bs_db st2 = bs_db st"
    using cl authorize_frame [OF a] claim_write_Inr by (cases "td_risk_tier (gc_descriptor g) = RiskTier.RO") auto
  then show ?thesis using d provider_for_mem [OF p] that unfolding dispatched_def by fastforce
qed

lemma sent_success:
  assumes "sent b st q c ci (Inr res) st'" and "result_succeeded res" and "0 < res_attempts res"
  shows "L \<or> (\<exists>p \<in> set (br_providers b). \<exists>d bound context raw. td_name d = res_tool_name res \<and>
      pv_invoke p d bound context = Inr raw \<and> validate_result d raw = Inr (res_payload res) \<and>
      (\<exists>e. bk_executions (bs_db st') = bk_executions (bs_db st) @ [e] \<and>
         ex_outcome e = Some ToolExecutionOutcome.SUCCEEDED \<and> res_execution res = Some (ex_id e)))"
  using assms(1)
proof (cases rule: sent_result)
  case (1 p g bound scope attempts failure payload connector key i)
  then have f: "failure = None" using assms(2) by (simp add: result_succeeded_def executed_result_def)
  have "0 < nat (td_max_attempts (gc_descriptor g))"
    using 1(2,3) assms(3) by (cases "nat (td_max_attempts (gc_descriptor g))")
      (auto simp: executed_result_def)
  from attempt_loop_result [OF 1(2) this] f
  have "one_attempt p (gc_descriptor g) bound (invocation b g connector key attempts) = Inr payload"
    by simp
  then obtain raw where "pv_invoke p (gc_descriptor g) bound (invocation b g connector key attempts) = Inr raw"
      "validate_result (gc_descriptor g) raw = Inr payload"
    by (auto simp: one_attempt_def andThen_eq_Inr)
  moreover have "td_name (gc_descriptor g) = res_tool_name res" "res_payload res = payload"
      "res_execution res = Some (ci_execution_id ci)"
    using 1(3) f by (simp_all add: executed_result_def)
  moreover have "ex_outcome (execution_record b q (gc_descriptor g) connector bound scope key ci i
        attempts failure payload) = Some ToolExecutionOutcome.SUCCEEDED"
      "ex_id (execution_record b q (gc_descriptor g) connector bound scope key ci i
        attempts failure payload) = ci_execution_id ci"
    using f by (simp_all add: execution_record_def outcome_of_def)
  ultimately show ?thesis using 1(1,4)
    by (intro disjI2 bexI [of _ p] exI [of _ "gc_descriptor g"] exI [of _ bound]
        exI [of _ "invocation b g connector key attempts"] exI [of _ raw] conjI
        exI [of _ "execution_record b q (gc_descriptor g) connector bound scope key ci i
          attempts failure payload"]) simp_all
qed

lemma sent_failure:
  assumes "sent b st q c ci (Inr res) st'" and "res_risk_tier res \<noteq> RiskTier.RO"
    and "res_failure res = Some f" and "0 < res_attempts res"
  shows "res_outcome res = ToolExecutionOutcome.UNKNOWN \<or>
    res_outcome res = ToolExecutionOutcome.FAILED_CLEAN \<and>
      (\<exists>fc transient after status. bf_error f = IntegrationError fc transient True after status)"
  using assms(1)
proof (cases rule: sent_result)
  case (1 p g bound scope attempts failure payload connector key i)
  have tier: "td_risk_tier (gc_descriptor g) \<noteq> RiskTier.RO" and fail: "failure = Some f"
    using 1(3) assms(2,3) by (simp_all add: executed_result_def)
  have "0 < nat (td_max_attempts (gc_descriptor g))"
    using 1(2,3) assms(4) by (cases "nat (td_max_attempts (gc_descriptor g))")
      (auto simp: executed_result_def)
  from attempt_loop_result [OF 1(2) this] fail
  obtain e where e: "f = fst (classify_failure (gc_descriptor g) e)" by auto
  have out: "res_outcome res = outcome_of (gc_descriptor g) (Some f)"
    using 1(3) fail by (simp add: executed_result_def)
  show ?thesis
  proof (cases "bf_effect_not_applied f")
    case True
    then have "bf_effect_not_applied (fst (classify_failure (gc_descriptor g) e))" using e by simp
    from write_failure_not_clean [OF tier this] obtain fc t after status where
      "e = IntegrationError fc t True after status" by blast
    then have "bf_error f = IntegrationError fc t True after status"
      using e by (simp add: classify_failure_def adapter_failure_def isinstance_def eval_nat_numeral Let_def)
    then show ?thesis using True out by (simp add: outcome_of_def)
  next
    case False
    then show ?thesis using out tier by (simp add: outcome_of_def)
  qed
qed

section \<open>Runs\<close>

definition write_keys :: "adapter_call list \<Rightarrow> string list" where
  "write_keys cs = map cl_key (filter (\<lambda>c. cl_tier c \<noteq> RiskTier.RO \<and> cl_attempt c = 1) cs)"

lemma write_keys_append: "write_keys (cs @ ds) = write_keys cs @ write_keys ds"
  by (simp add: write_keys_def)

lemma write_keys_made:
  "write_keys (calls_made key tier n) = (if tier = RiskTier.RO \<or> n = 0 then [] else [key])"
proof (induction n)
  case 0
  then show ?case by (simp add: write_keys_def calls_made_def)
next
  case (Suc n)
  have "calls_made key tier (Suc n) =
      calls_made key tier n @ [\<lparr>cl_key = key, cl_tier = tier, cl_attempt = Suc n\<rparr>]"
    by (simp add: calls_made_def)
  then show ?case using Suc by (auto simp: write_keys_append) (auto simp: write_keys_def)
qed

definition new_write :: "broker_state \<Rightarrow> broker_state \<Rightarrow> string option" where
  "new_write st st' =
     (case write_keys (drop (length (bs_calls st)) (bs_calls st')) of [] \<Rightarrow> None | k # _ \<Rightarrow> Some k)"

text \<open>
  A step of the deployment for one tenant: a call of any broker of the tenant, or anything
  that happens to the database and the menus between calls (other transactions, a crash
  that rolls the session back). Claims and adapter calls stay.
\<close>

inductive broker_step :: "string \<Rightarrow> broker_state \<Rightarrow> string option \<Rightarrow> broker_state \<Rightarrow> bool" for tenant where
  call: "is_tenant (br_scope b) = tenant \<Longrightarrow> invoke b st q c ci = (r, st') \<Longrightarrow>
    broker_step tenant st (new_write st st') st'"
| between: "bs_claims st' = bs_claims st \<Longrightarrow> bs_calls st' = bs_calls st \<Longrightarrow>
    broker_step tenant st None st'"

lemma claimed_mono: "set xs \<subseteq> set ys \<Longrightarrow> claimed t xs k \<Longrightarrow> claimed t ys k"
  by (auto simp: claimed_def)

lemma sent_effect:
  assumes "sent b st q c ci r st'"
  shows "\<exists>key tier n. bs_calls st' = bs_calls st @ calls_made key tier n \<and>
    set (bs_claims st) \<subseteq> set (bs_claims st') \<and>
    (tier \<noteq> RiskTier.RO \<longrightarrow> \<not> claimed (is_tenant (br_scope b)) (bs_claims st) key \<and>
       claimed (is_tenant (br_scope b)) (bs_claims st') key)"
proof -
  obtain g st1 p connector scope bound key st2 where
      a: "authorize b st q c (ci_now ci) = (Inr g, st1)"
    and cl: "if td_risk_tier (gc_descriptor g) = RiskTier.RO then st2 = st1
         else claim_write b q (gc_descriptor g) key st1 = Inr st2"
    and d: "dispatched b st2 q g p connector bound scope key ci r st'"
    using assms unfolding sent_def by blast
  note frame = authorize_frame [OF a]
  obtain n where n: "bs_calls st' = bs_calls st2 @ calls_made key (td_risk_tier (gc_descriptor g)) n"
      "bs_claims st' = bs_claims st2"
    using d unfolding dispatched_def by blast
  show ?thesis
  proof (cases "td_risk_tier (gc_descriptor g) = RiskTier.RO")
    case True
    then show ?thesis using n cl frame by (intro exI [of _ key] exI [of _ RiskTier.RO] exI [of _ n]) simp
  next
    case False
    then have "claim_write b q (gc_descriptor g) key st1 = Inr st2" using cl by simp
    from claim_write_Inr [OF this] show ?thesis using n frame
      by (intro exI [of _ key] exI [of _ "td_risk_tier (gc_descriptor g)"] exI [of _ n]) simp
  qed
qed

lemma broker_step_effect:
  assumes "broker_step tenant st l st'"
  shows "write_keys (bs_calls st') = write_keys (bs_calls st) @ (case l of None \<Rightarrow> [] | Some k \<Rightarrow> [k]) \<and>
    set (bs_claims st) \<subseteq> set (bs_claims st') \<and>
    (\<forall>k. l = Some k \<longrightarrow> \<not> claimed tenant (bs_claims st) k \<and> claimed tenant (bs_claims st') k)"
  using assms
proof cases
  case (call b q c ci r)
  from invoke_cases [OF call(3)] show ?thesis
  proof
    assume "quiet b st q r st'"
    then show ?thesis using call(1) by (simp add: quiet_def new_write_def write_keys_def)
  next
    assume "sent b st q c ci r st'"
    from sent_effect [OF this] obtain key tier n where
        e: "bs_calls st' = bs_calls st @ calls_made key tier n" "set (bs_claims st) \<subseteq> set (bs_claims st')"
          "tier \<noteq> RiskTier.RO \<longrightarrow> \<not> claimed tenant (bs_claims st) key \<and> claimed tenant (bs_claims st') key"
      using call(2) by blast
    have "new_write st st' = (if tier = RiskTier.RO \<or> n = 0 then None else Some key)"
      by (simp add: new_write_def e(1) write_keys_made)
    then show ?thesis using e call(1) by (simp add: write_keys_append write_keys_made)
  qed
next
  case between
  then show ?thesis by simp
qed

interpretation effect_claims: one_shot "\<lambda>st. claimed tenant (bs_claims st)" "broker_step tenant" for tenant
  by unfold_locales (auto dest: broker_step_effect claimed_mono)

lemma run_write_keys:
  "labelled_run (broker_step tenant) st ks st' \<Longrightarrow>
   write_keys (bs_calls st') = write_keys (bs_calls st) @ ks"
  by (induction rule: labelled_run.induct) (auto dest: broker_step_effect)

end
