(* ===== verification/Dispatch_Recovery.thy ===== *)
theory Dispatch_Recovery
  imports Broker_Run
begin

text \<open>
  Durable dispatch evidence, \<open>src/asic/remediation/dispatch_recovery.py\<close>: what an interrupted
  execution left behind (the execution intent, the effect claim, the receipt), the state it
  means, and the intent itself, which is committed in a transaction of its own and moves an
  action to \<open>executing\<close> only from a status before dispatch.
\<close>

definition PRE_DISPATCH :: "RemediationActionStatus list" where
  "PRE_DISPATCH =
     [RemediationActionStatus.AUTHORIZED, RemediationActionStatus.APPROVED,
      RemediationActionStatus.AWAITING_APPROVAL, RemediationActionStatus.EXECUTING]"

datatype DispatchState = NO_EFFECT_ATTEMPTED | EFFECT_MAY_HAVE_OCCURRED | RECEIPT_RECORDED

record DispatchEvidence =
  de_intent_recorded :: bool
  de_claimed :: bool
  de_receipt :: "ToolExecutionOutcome option"

definition evidence_state :: "DispatchEvidence \<Rightarrow> DispatchState" where
  "evidence_state v =
     (if de_receipt v \<noteq> None then RECEIPT_RECORDED
      else if de_claimed v then EFFECT_MAY_HAVE_OCCURRED
      else NO_EFFECT_ATTEMPTED)"

definition evidence_interrupted :: "DispatchEvidence \<Rightarrow> bool" where
  "evidence_interrupted v \<longleftrightarrow> de_intent_recorded v \<or> de_claimed v \<or> de_receipt v \<noteq> None"

text \<open>The receipt is the outcome of the newest execution of the action that is not a read.\<close>

definition write_receipt :: "execution_row list \<Rightarrow> string \<Rightarrow> string \<Rightarrow> ToolExecutionOutcome option" where
  "write_receipt rows tenant action =
     (case newest ex_created_at (filter (\<lambda>e. ex_tenant e = tenant \<and> ex_action e = Some action \<and>
         ex_risk_tier e \<noteq> RiskTier.RO) rows) of
        None \<Rightarrow> None | Some e \<Rightarrow> ex_outcome e)"

definition dispatch_evidence :: "broker_state \<Rightarrow> string \<Rightarrow> action_row \<Rightarrow> DispatchEvidence" where
  "dispatch_evidence st tenant action =
     \<lparr>de_intent_recorded = (ac_status action = RemediationActionStatus.EXECUTING),
      de_claimed = dispatch_claim_exists (bs_claims st @ bk_audit (bs_db st)) tenant (ac_id action),
      de_receipt = write_receipt (bk_executions (bs_db st)) tenant (ac_id action)\<rparr>"

text \<open>\<open>UPDATE remediation_action SET status ... WHERE tenant, id [, status IN ...]\<close>.\<close>

definition set_status ::
  "string \<Rightarrow> string \<Rightarrow> RemediationActionStatus list \<Rightarrow> RemediationActionStatus \<Rightarrow> action_row \<Rightarrow> action_row" where
  "set_status tenant action from_statuses new_status a =
     (if ac_tenant a = tenant \<and> ac_id a = action \<and> ac_status a \<in> set from_statuses
      then a\<lparr>ac_status := new_status\<rparr> else a)"

definition record_execution_intent ::
  "remediation_db \<Rightarrow> string \<Rightarrow> string \<Rightarrow> bool \<times> remediation_db" where
  "record_execution_intent db tenant action =
     (\<exists>a \<in> set (rd_actions db). ac_tenant a = tenant \<and> ac_id a = action \<and>
         ac_status a \<in> set PRE_DISPATCH,
      db\<lparr>rd_actions := map (set_status tenant action PRE_DISPATCH RemediationActionStatus.EXECUTING)
           (rd_actions db)\<rparr>)"

section \<open>Facts\<close>

lemma evidence_clean:
  "evidence_state v = NO_EFFECT_ATTEMPTED \<longleftrightarrow> \<not> de_claimed v \<and> de_receipt v = None"
  "evidence_state v = EFFECT_MAY_HAVE_OCCURRED \<longleftrightarrow> de_claimed v \<and> de_receipt v = None"
  "evidence_state v = RECEIPT_RECORDED \<longleftrightarrow> de_receipt v \<noteq> None"
  by (simp_all add: evidence_state_def)

lemma write_receipt_Some:
  "write_receipt rows tenant action = Some out \<Longrightarrow>
   \<exists>e \<in> set rows. ex_tenant e = tenant \<and> ex_action e = Some action \<and> ex_risk_tier e \<noteq> RiskTier.RO \<and>
     ex_outcome e = Some out"
  by (auto simp: write_receipt_def split: option.splits dest!: newest_SomeD)

lemma set_status_simps [simp]:
  "ac_id (set_status tenant action ss s a) = ac_id a"
  "ac_tenant (set_status tenant action ss s a) = ac_tenant a"
  by (simp_all add: set_status_def)

text \<open>A write that was claimed for a remediation action leaves evidence.\<close>

lemma claim_is_evidence:
  assumes "claim_write b q d key st = Inr st'" and "td_effect_class d \<noteq> ToolEffectClass.EXTERNAL_RECORD"
    and "cr_action q = Some action"
  shows "dispatch_claim_exists (bs_claims st') (is_tenant (br_scope b)) action"
  using assms
  by (auto simp: claim_write_def claim_row_def dispatch_claim_exists_def action_text_def Let_def
      split: if_splits)

lemma dispatch_claim_mono:
  "set xs \<subseteq> set ys \<Longrightarrow> dispatch_claim_exists xs t a \<Longrightarrow> dispatch_claim_exists ys t a"
  by (auto simp: dispatch_claim_exists_def)

end
