(* ===== verification/Incident_State.thy ===== *)
theory Incident_State
  imports Errors
begin

text \<open>
  The incident state machine of \<open>src/asic/domain/incident_state.py\<close>: the transition table,
  its lookup, the validation of a request (\<open>assert_transition_allowed\<close>), and the two table
  audits the module offers (\<open>reachable_from\<close>, \<open>states_without_path_to_closure\<close>).
  The lemmas characterise an accepted request, say which transitions a human must make and
  which need a termination reason, and that every unclosed state can reach a closed one.
  Audit metadata of a request takes no part in any decision and is left out.
\<close>

section \<open>The table\<close>

definition CLOSED_STATES :: "IncidentStatus set" where
  "CLOSED_STATES = {IncidentStatus.RESOLVED, IncidentStatus.FAILED}"

definition TERMINAL_STATES :: "IncidentStatus set" where
  "TERMINAL_STATES =
     {IncidentStatus.RESOLVED, IncidentStatus.FAILED, IncidentStatus.ESCALATED,
      IncidentStatus.UNCERTAIN}"

definition IRREVERSIBLE_STATES :: "IncidentStatus set" where
  "IRREVERSIBLE_STATES = {IncidentStatus.FAILED}"

record Transition =
  tr_source :: IncidentStatus
  tr_target :: IncidentStatus
  allowed_actors :: "ActorType set"
  trigger :: string
  requires_termination_reason :: bool
  requires_justification :: bool

definition permits :: "Transition \<Rightarrow> ActorType \<Rightarrow> bool" where
  "permits t actor \<longleftrightarrow> actor \<in> allowed_actors t"

definition SYSTEM_ACTORS :: "ActorType set" where
  "SYSTEM_ACTORS = {ActorType.SYSTEM, ActorType.AGENT_NODE}"

definition HUMAN_ACTORS :: "ActorType set" where
  "HUMAN_ACTORS = {ActorType.HUMAN}"

definition SYSTEM_OR_HUMAN :: "ActorType set" where
  "SYSTEM_OR_HUMAN = SYSTEM_ACTORS \<union> HUMAN_ACTORS"

definition mk_transition ::
  "IncidentStatus \<Rightarrow> IncidentStatus \<Rightarrow> ActorType set \<Rightarrow> string \<Rightarrow> bool \<Rightarrow> bool \<Rightarrow> Transition" where
  "mk_transition src tgt actors trig reason justify =
     \<lparr>tr_source = src, tr_target = tgt, allowed_actors = actors, trigger = trig,
      requires_termination_reason = reason, requires_justification = justify\<rparr>"

definition TRANSITIONS :: "Transition list" where
  "TRANSITIONS =
     [mk_transition IncidentStatus.DETECTED IncidentStatus.ACKNOWLEDGED SYSTEM_OR_HUMAN
        ''responder acknowledged, or auto-acknowledged by policy'' False False,
      mk_transition IncidentStatus.DETECTED IncidentStatus.INVESTIGATING SYSTEM_ACTORS
        ''orchestrator began the bounded investigation loop'' False False,
      mk_transition IncidentStatus.DETECTED IncidentStatus.ESCALATED SYSTEM_OR_HUMAN
        ''escalated before investigation began'' True False,
      mk_transition IncidentStatus.DETECTED IncidentStatus.FAILED SYSTEM_ACTORS
        ''unrecoverable failure before investigation began'' True False,
      mk_transition IncidentStatus.ACKNOWLEDGED IncidentStatus.INVESTIGATING SYSTEM_ACTORS
        ''orchestrator began the bounded investigation loop'' False False,
      mk_transition IncidentStatus.ACKNOWLEDGED IncidentStatus.ESCALATED SYSTEM_OR_HUMAN
        ''escalated by responder or policy'' True False,
      mk_transition IncidentStatus.ACKNOWLEDGED IncidentStatus.RESOLVED HUMAN_ACTORS
        ''responder resolved without automated investigation'' True True,
      mk_transition IncidentStatus.ACKNOWLEDGED IncidentStatus.FAILED SYSTEM_ACTORS
        ''unrecoverable failure'' True False,
      mk_transition IncidentStatus.INVESTIGATING IncidentStatus.AWAITING_APPROVAL SYSTEM_ACTORS
        ''policy gate returned require_approval for a proposed action'' False False,
      mk_transition IncidentStatus.INVESTIGATING IncidentStatus.REMEDIATING SYSTEM_ACTORS
        ''policy gate allowed an action without human approval'' False False,
      mk_transition IncidentStatus.INVESTIGATING IncidentStatus.UNCERTAIN SYSTEM_ACTORS
        ''investigation completed without sufficient evidence, or a budget was exhausted'' True False,
      mk_transition IncidentStatus.INVESTIGATING IncidentStatus.ESCALATED SYSTEM_OR_HUMAN
        ''escalated to a human'' True False,
      mk_transition IncidentStatus.INVESTIGATING IncidentStatus.RESOLVED HUMAN_ACTORS
        ''responder resolved during investigation'' True True,
      mk_transition IncidentStatus.INVESTIGATING IncidentStatus.FAILED SYSTEM_ACTORS
        ''unrecoverable failure during investigation'' True False,
      mk_transition IncidentStatus.AWAITING_APPROVAL IncidentStatus.REMEDIATING HUMAN_ACTORS
        ''an authorised approver granted approval'' False False,
      mk_transition IncidentStatus.AWAITING_APPROVAL IncidentStatus.INVESTIGATING SYSTEM_ACTORS
        ''approval was refused or invalidated; investigation resumes'' False False,
      mk_transition IncidentStatus.AWAITING_APPROVAL IncidentStatus.ESCALATED SYSTEM_OR_HUMAN
        ''approval rejected, expired or invalidated by state drift'' True False,
      mk_transition IncidentStatus.AWAITING_APPROVAL IncidentStatus.FAILED SYSTEM_ACTORS
        ''unrecoverable failure while awaiting approval'' True False,
      mk_transition IncidentStatus.REMEDIATING IncidentStatus.VERIFYING SYSTEM_ACTORS
        ''execution reported an outcome; independent verification begins'' False False,
      mk_transition IncidentStatus.REMEDIATING IncidentStatus.INVESTIGATING SYSTEM_ACTORS
        ''execution failed cleanly with no effect; investigation resumes'' False False,
      mk_transition IncidentStatus.REMEDIATING IncidentStatus.ESCALATED SYSTEM_OR_HUMAN
        ''execution failed partially, compensation failed, or reconciliation was impossible'' True False,
      mk_transition IncidentStatus.REMEDIATING IncidentStatus.FAILED SYSTEM_ACTORS
        ''unrecoverable failure during remediation'' True False,
      mk_transition IncidentStatus.VERIFYING IncidentStatus.RESOLVED SYSTEM_ACTORS
        ''verification confirmed the symptoms resolved'' True False,
      mk_transition IncidentStatus.VERIFYING IncidentStatus.INVESTIGATING SYSTEM_ACTORS
        ''verification failed; investigation resumes with the new evidence'' False False,
      mk_transition IncidentStatus.VERIFYING IncidentStatus.ESCALATED SYSTEM_OR_HUMAN
        ''verification was inconclusive, or failed with no safe next action'' True False,
      mk_transition IncidentStatus.VERIFYING IncidentStatus.FAILED SYSTEM_ACTORS
        ''unrecoverable failure during verification'' True False,
      mk_transition IncidentStatus.UNCERTAIN IncidentStatus.ESCALATED SYSTEM_OR_HUMAN
        ''uncertain outcome handed to a human'' True False,
      mk_transition IncidentStatus.UNCERTAIN IncidentStatus.INVESTIGATING HUMAN_ACTORS
        ''reopened with new information'' False True,
      mk_transition IncidentStatus.UNCERTAIN IncidentStatus.RESOLVED HUMAN_ACTORS
        ''responder resolved after an uncertain outcome'' True True,
      mk_transition IncidentStatus.ESCALATED IncidentStatus.INVESTIGATING HUMAN_ACTORS
        ''human returned the incident to automated investigation'' False True,
      mk_transition IncidentStatus.ESCALATED IncidentStatus.RESOLVED HUMAN_ACTORS
        ''human resolved the escalated incident'' True True,
      mk_transition IncidentStatus.ESCALATED IncidentStatus.FAILED HUMAN_ACTORS
        ''human recorded the incident as failed'' True True,
      mk_transition IncidentStatus.RESOLVED IncidentStatus.INVESTIGATING HUMAN_ACTORS
        ''incident reopened because symptoms recurred'' False True]"

text \<open>\<open>_build_index\<close> raises on a duplicated key; \<open>find_transition\<close> reads the dictionary.\<close>

fun build_index ::
  "Transition list \<Rightarrow> ((IncidentStatus \<times> IncidentStatus) \<times> Transition) list \<Rightarrow>
   (py_error, ((IncidentStatus \<times> IncidentStatus) \<times> Transition) list) result" where
  "build_index [] index = Inr index"
| "build_index (t # ts) index =
     (if map_of index (tr_source t, tr_target t) \<noteq> None then Inl ValueError
      else build_index ts (((tr_source t, tr_target t), t) # index))"

definition find_transition :: "IncidentStatus \<Rightarrow> IncidentStatus \<Rightarrow> Transition option" where
  "find_transition src tgt =
     (case build_index TRANSITIONS [] of Inl _ \<Rightarrow> None | Inr index \<Rightarrow> map_of index (src, tgt))"

definition allowed_targets :: "IncidentStatus \<Rightarrow> IncidentStatus list" where
  "allowed_targets src = map tr_target (filter (\<lambda>t. tr_source t = src) TRANSITIONS)"

definition allowed_transitions_for :: "IncidentStatus \<Rightarrow> ActorType \<Rightarrow> IncidentStatus list" where
  "allowed_transitions_for src actor =
     map tr_target (filter (\<lambda>t. tr_source t = src \<and> permits t actor) TRANSITIONS)"

definition is_terminal :: "IncidentStatus \<Rightarrow> bool" where
  "is_terminal s \<longleftrightarrow> s \<in> TERMINAL_STATES"

definition is_closed :: "IncidentStatus \<Rightarrow> bool" where
  "is_closed s \<longleftrightarrow> s \<in> CLOSED_STATES"

section \<open>Validation of a request\<close>

record TransitionRequest =
  rq_source :: IncidentStatus
  rq_target :: IncidentStatus
  rq_actor :: ActorType
  rq_reason :: "TerminationReason option"
  rq_justification :: "string option"

text \<open>\<open>(justification or "").strip()\<close> is falsy.\<close>

definition blank_justification :: "string option \<Rightarrow> bool" where
  "blank_justification j = (py_strip (case j of None \<Rightarrow> [] | Some s \<Rightarrow> s) = [])"

definition assert_transition_allowed ::
  "TransitionRequest \<Rightarrow> (py_error, Transition) result" where
  "assert_transition_allowed r =
     (if rq_source r = rq_target r then Inl IllegalStateTransition
      else case find_transition (rq_source r) (rq_target r) of
        None \<Rightarrow> Inl IllegalStateTransition
      | Some t \<Rightarrow>
          if \<not> permits t (rq_actor r) then Inl IllegalStateTransition
          else if requires_termination_reason t \<and> rq_reason r = None
            then Inl IllegalStateTransition
          else if requires_justification t \<and> blank_justification (rq_justification r)
            then Inl IllegalStateTransition
          else Inr t)"

section \<open>Facts of the table\<close>

text \<open>
  The table without its trigger texts. The facts below are read off this view, so that no
  proof carries the strings along.
\<close>

definition row_view ::
  "Transition \<Rightarrow> IncidentStatus \<times> IncidentStatus \<times> ActorType set \<times> bool \<times> bool" where
  "row_view t =
     (tr_source t, tr_target t, allowed_actors t, requires_termination_reason t,
      requires_justification t)"

definition table_rows ::
  "(IncidentStatus \<times> IncidentStatus \<times> ActorType set \<times> bool \<times> bool) list" where
  "table_rows =
     [(IncidentStatus.DETECTED, IncidentStatus.ACKNOWLEDGED, SYSTEM_OR_HUMAN, False, False),
      (IncidentStatus.DETECTED, IncidentStatus.INVESTIGATING, SYSTEM_ACTORS, False, False),
      (IncidentStatus.DETECTED, IncidentStatus.ESCALATED, SYSTEM_OR_HUMAN, True, False),
      (IncidentStatus.DETECTED, IncidentStatus.FAILED, SYSTEM_ACTORS, True, False),
      (IncidentStatus.ACKNOWLEDGED, IncidentStatus.INVESTIGATING, SYSTEM_ACTORS, False, False),
      (IncidentStatus.ACKNOWLEDGED, IncidentStatus.ESCALATED, SYSTEM_OR_HUMAN, True, False),
      (IncidentStatus.ACKNOWLEDGED, IncidentStatus.RESOLVED, HUMAN_ACTORS, True, True),
      (IncidentStatus.ACKNOWLEDGED, IncidentStatus.FAILED, SYSTEM_ACTORS, True, False),
      (IncidentStatus.INVESTIGATING, IncidentStatus.AWAITING_APPROVAL, SYSTEM_ACTORS, False, False),
      (IncidentStatus.INVESTIGATING, IncidentStatus.REMEDIATING, SYSTEM_ACTORS, False, False),
      (IncidentStatus.INVESTIGATING, IncidentStatus.UNCERTAIN, SYSTEM_ACTORS, True, False),
      (IncidentStatus.INVESTIGATING, IncidentStatus.ESCALATED, SYSTEM_OR_HUMAN, True, False),
      (IncidentStatus.INVESTIGATING, IncidentStatus.RESOLVED, HUMAN_ACTORS, True, True),
      (IncidentStatus.INVESTIGATING, IncidentStatus.FAILED, SYSTEM_ACTORS, True, False),
      (IncidentStatus.AWAITING_APPROVAL, IncidentStatus.REMEDIATING, HUMAN_ACTORS, False, False),
      (IncidentStatus.AWAITING_APPROVAL, IncidentStatus.INVESTIGATING, SYSTEM_ACTORS, False, False),
      (IncidentStatus.AWAITING_APPROVAL, IncidentStatus.ESCALATED, SYSTEM_OR_HUMAN, True, False),
      (IncidentStatus.AWAITING_APPROVAL, IncidentStatus.FAILED, SYSTEM_ACTORS, True, False),
      (IncidentStatus.REMEDIATING, IncidentStatus.VERIFYING, SYSTEM_ACTORS, False, False),
      (IncidentStatus.REMEDIATING, IncidentStatus.INVESTIGATING, SYSTEM_ACTORS, False, False),
      (IncidentStatus.REMEDIATING, IncidentStatus.ESCALATED, SYSTEM_OR_HUMAN, True, False),
      (IncidentStatus.REMEDIATING, IncidentStatus.FAILED, SYSTEM_ACTORS, True, False),
      (IncidentStatus.VERIFYING, IncidentStatus.RESOLVED, SYSTEM_ACTORS, True, False),
      (IncidentStatus.VERIFYING, IncidentStatus.INVESTIGATING, SYSTEM_ACTORS, False, False),
      (IncidentStatus.VERIFYING, IncidentStatus.ESCALATED, SYSTEM_OR_HUMAN, True, False),
      (IncidentStatus.VERIFYING, IncidentStatus.FAILED, SYSTEM_ACTORS, True, False),
      (IncidentStatus.UNCERTAIN, IncidentStatus.ESCALATED, SYSTEM_OR_HUMAN, True, False),
      (IncidentStatus.UNCERTAIN, IncidentStatus.INVESTIGATING, HUMAN_ACTORS, False, True),
      (IncidentStatus.UNCERTAIN, IncidentStatus.RESOLVED, HUMAN_ACTORS, True, True),
      (IncidentStatus.ESCALATED, IncidentStatus.INVESTIGATING, HUMAN_ACTORS, False, True),
      (IncidentStatus.ESCALATED, IncidentStatus.RESOLVED, HUMAN_ACTORS, True, True),
      (IncidentStatus.ESCALATED, IncidentStatus.FAILED, HUMAN_ACTORS, True, True),
      (IncidentStatus.RESOLVED, IncidentStatus.INVESTIGATING, HUMAN_ACTORS, False, True)]"

lemma row_view_mk: "row_view (mk_transition src tgt actors trig r j) = (src, tgt, actors, r, j)"
  by (simp add: row_view_def mk_transition_def)

lemma table_rows: "map row_view TRANSITIONS = table_rows"
  unfolding TRANSITIONS_def table_rows_def list.map row_view_mk by (rule refl)

lemma row_in: "t \<in> set TRANSITIONS \<Longrightarrow> row_view t \<in> set table_rows"
  unfolding table_rows [symmetric] by simp

lemma row_ex:
  "(src, tgt, actors, r, j) \<in> set table_rows \<longleftrightarrow>
     (\<exists>t \<in> set TRANSITIONS. row_view t = (src, tgt, actors, r, j))"
  unfolding table_rows [symmetric] by force

lemma table_all: "list_all P table_rows \<Longrightarrow> t \<in> set TRANSITIONS \<Longrightarrow> P (row_view t)"
  by (simp add: list_all_iff row_in)

lemmas table_simps =
  table_rows_def SYSTEM_ACTORS_def HUMAN_ACTORS_def SYSTEM_OR_HUMAN_def

definition edge_keys :: "Transition list \<Rightarrow> (IncidentStatus \<times> IncidentStatus) list" where
  "edge_keys ts = map (\<lambda>t. (tr_source t, tr_target t)) ts"

lemma edge_keys_view: "edge_keys TRANSITIONS = map (\<lambda>(s, t, _). (s, t)) table_rows"
  unfolding table_rows [symmetric] by (simp add: edge_keys_def row_view_def)

lemma distinct_edges: "distinct (edge_keys TRANSITIONS)"
  unfolding edge_keys_view by (simp add: table_rows_def)

lemma build_index_distinct:
  "distinct (edge_keys ts) \<Longrightarrow> set (edge_keys ts) \<inter> fst ` set ix = {} \<Longrightarrow>
   build_index ts ix = Inr (rev (zip (edge_keys ts) ts) @ ix)"
proof (induction ts arbitrary: ix)
  case (Cons t ts)
  have "map_of ix (tr_source t, tr_target t) = None"
    using Cons.prems(2) by (auto simp: map_of_eq_None_iff edge_keys_def)
  moreover have "build_index ts (((tr_source t, tr_target t), t) # ix) =
      Inr (rev (zip (edge_keys ts) ts) @ ((tr_source t, tr_target t), t) # ix)"
    by (rule Cons.IH) (use Cons.prems in \<open>auto simp: edge_keys_def\<close>)
  ultimately show ?case by (simp add: edge_keys_def)
qed (simp add: edge_keys_def)

text \<open>The index is built without a clash, and a lookup finds exactly the table's rows.\<close>

lemma index_built: "build_index TRANSITIONS [] = Inr (rev (zip (edge_keys TRANSITIONS) TRANSITIONS))"
  using build_index_distinct [OF distinct_edges, of "[]"] by simp

lemma zip_map_self: "zip (map f xs) xs = map (\<lambda>x. (f x, x)) xs"
  by (induction xs) auto

lemma find_transition_iff:
  "find_transition src tgt = Some t \<longleftrightarrow>
     t \<in> set TRANSITIONS \<and> tr_source t = src \<and> tr_target t = tgt"
proof -
  let ?ix = "rev (zip (edge_keys TRANSITIONS) TRANSITIONS)"
  have d: "distinct (map fst ?ix)"
    using distinct_edges by (simp add: rev_map [symmetric] edge_keys_def)
  have mem: "(k, t) \<in> set ?ix \<longleftrightarrow> t \<in> set TRANSITIONS \<and> k = (tr_source t, tr_target t)" for k
    by (auto simp: edge_keys_def zip_map_self)
  have "find_transition src tgt = Some t \<longleftrightarrow> ((src, tgt), t) \<in> set ?ix"
    using d by (simp add: find_transition_def index_built)
  then show ?thesis using mem by auto
qed

lemma assert_Inr_iff:
  "assert_transition_allowed r = Inr t \<longleftrightarrow>
     t \<in> set TRANSITIONS \<and> tr_source t = rq_source r \<and> tr_target t = rq_target r \<and>
     rq_actor r \<in> allowed_actors t \<and>
     (requires_termination_reason t \<longrightarrow> rq_reason r \<noteq> None) \<and>
     (requires_justification t \<longrightarrow> \<not> blank_justification (rq_justification r))"
proof -
  have "list_all (\<lambda>(s, g, _). s \<noteq> g) table_rows" by (simp add: table_rows_def)
  from table_all [OF this]
  have no_loop: "t \<in> set TRANSITIONS \<Longrightarrow> tr_source t \<noteq> tr_target t" for t
    by (simp add: row_view_def)
  show ?thesis
  proof (cases "find_transition (rq_source r) (rq_target r)")
    case None
    then have "\<not> (t \<in> set TRANSITIONS \<and> tr_source t = rq_source r \<and> tr_target t = rq_target r)"
      by (metis find_transition_iff option.distinct(1))
    with None show ?thesis by (auto simp: assert_transition_allowed_def)
  next
    case (Some t')
    then have t': "t' \<in> set TRANSITIONS" "tr_source t' = rq_source r" "tr_target t' = rq_target r"
      by (auto simp: find_transition_iff)
    have uniq: "t \<in> set TRANSITIONS \<and> tr_source t = rq_source r \<and> tr_target t = rq_target r \<longleftrightarrow> t = t'"
      using Some find_transition_iff [of "rq_source r" "rq_target r" t] by auto
    have "rq_source r \<noteq> rq_target r" using no_loop [OF t'(1)] t' by auto
    then show ?thesis using Some uniq
      by (auto simp: assert_transition_allowed_def permits_def)
  qed
qed

lemma assert_Inl: "assert_transition_allowed r = Inl e \<Longrightarrow> e = IllegalStateTransition"
  by (auto simp: assert_transition_allowed_def split: option.splits if_splits)

text \<open>Facts read off the table once, for every row.\<close>

lemma row_terminal_needs_reason:
  assumes "t \<in> set TRANSITIONS"
  shows "is_terminal (tr_target t) \<longleftrightarrow> requires_termination_reason t"
proof -
  have "list_all (\<lambda>(s, g, a, r, j). is_terminal g \<longleftrightarrow> r) table_rows"
    by (simp add: table_simps is_terminal_def TERMINAL_STATES_def)
  from table_all [OF this assms(1)] show ?thesis by (simp add: row_view_def)
qed

lemma row_resolved_by_machine:
  assumes "t \<in> set TRANSITIONS"
    and "tr_target t = IncidentStatus.RESOLVED"
    and "actor \<in> allowed_actors t"
    and "actor \<noteq> ActorType.HUMAN"
  shows "tr_source t = IncidentStatus.VERIFYING"
proof -
  have "list_all (\<lambda>(s, g, a, r, j). g = IncidentStatus.RESOLVED \<longrightarrow> a = {ActorType.HUMAN} \<or> s = IncidentStatus.VERIFYING) table_rows"
    by (simp add: table_simps)
  from table_all [OF this assms(1)] show ?thesis using assms(2-) by (auto simp: row_view_def)
qed

lemma row_remediating_after_approval:
  assumes "t \<in> set TRANSITIONS"
    and "tr_source t = IncidentStatus.AWAITING_APPROVAL"
    and "tr_target t = IncidentStatus.REMEDIATING"
    and "actor \<in> allowed_actors t"
  shows "actor = ActorType.HUMAN"
proof -
  have "list_all (\<lambda>(s, g, a, r, j). s = IncidentStatus.AWAITING_APPROVAL \<and> g = IncidentStatus.REMEDIATING \<longrightarrow> a = {ActorType.HUMAN}) table_rows"
    by (simp add: table_simps)
  from table_all [OF this assms(1)] show ?thesis using assms(2-) by (auto simp: row_view_def)
qed

lemma row_no_external:
  assumes "t \<in> set TRANSITIONS"
  shows "ActorType.EXTERNAL_SYSTEM \<notin> allowed_actors t"
proof -
  have "list_all (\<lambda>(s, g, a, r, j). ActorType.EXTERNAL_SYSTEM \<notin> a) table_rows"
    by (simp add: table_simps)
  from table_all [OF this assms(1)] show ?thesis by (simp add: row_view_def)
qed

lemma row_failed_final:
  assumes "t \<in> set TRANSITIONS"
  shows "tr_source t \<noteq> IncidentStatus.FAILED"
proof -
  have "list_all (\<lambda>(s, g, a, r, j). s \<noteq> IncidentStatus.FAILED) table_rows"
    by (simp add: table_simps)
  from table_all [OF this assms(1)] show ?thesis by (simp add: row_view_def)
qed

lemma row_verifying_source:
  assumes "t \<in> set TRANSITIONS"
    and "tr_target t = IncidentStatus.VERIFYING"
  shows "tr_source t = IncidentStatus.REMEDIATING"
proof -
  have "list_all (\<lambda>(s, g, a, r, j). g = IncidentStatus.VERIFYING \<longrightarrow> s = IncidentStatus.REMEDIATING) table_rows"
    by (simp add: table_simps)
  from table_all [OF this assms(1)] show ?thesis using assms(2-) by (simp add: row_view_def)
qed

lemma row_leaves_terminal_by_human:
  assumes "t \<in> set TRANSITIONS"
    and "is_terminal (tr_source t)"
    and "\<not> is_terminal (tr_target t)"
  shows "allowed_actors t = {ActorType.HUMAN} \<and> requires_justification t"
proof -
  have "list_all (\<lambda>(s, g, a, r, j). is_terminal s \<and> \<not> is_terminal g \<longrightarrow> a = {ActorType.HUMAN} \<and> j) table_rows"
    by (simp add: table_simps is_terminal_def TERMINAL_STATES_def)
  from table_all [OF this assms(1)] show ?thesis using assms(2-) by (auto simp: row_view_def)
qed

section \<open>Reachability in the table\<close>

instance IncidentStatus :: finite
proof
  have "(UNIV :: IncidentStatus set) = set IncidentStatus_members"
    using incident_status.complete by auto
  then show "finite (UNIV :: IncidentStatus set)" by (metis List.finite_set)
qed

text \<open>
  The worklist loop of \<open>reachable_from\<close>; \<open>frontier.pop()\<close> takes the last element. The inner
  loop over \<open>allowed_targets(current)\<close> is \<open>visit_targets\<close>. The source iterates over a
  frozenset, whose order is not specified: here it is the table's order, and the result
  (\<open>reachable_from_iff\<close>) does not depend on it.
\<close>

fun visit_targets ::
  "IncidentStatus list \<Rightarrow> IncidentStatus set \<times> IncidentStatus list \<Rightarrow>
   IncidentStatus set \<times> IncidentStatus list" where
  "visit_targets [] st = st"
| "visit_targets (t # ts) (seen, frontier) =
     (if t \<notin> seen then visit_targets ts (insert t seen, frontier @ [t])
      else visit_targets ts (seen, frontier))"

lemma visit_targets_seen: "fst (visit_targets ts (seen, fr)) = seen \<union> set ts"
  by (induction ts arbitrary: seen fr) auto

lemma visit_targets_frontier: "set (snd (visit_targets ts (seen, fr))) = set fr \<union> (set ts - seen)"
  by (induction ts arbitrary: seen fr) auto

lemma visit_targets_unchanged:
  "set ts \<subseteq> seen \<Longrightarrow> visit_targets ts (seen, fr) = (seen, fr)"
  by (induction ts) auto

function reach_loop ::
  "IncidentStatus set \<Rightarrow> IncidentStatus list \<Rightarrow> IncidentStatus set" where
  "reach_loop seen frontier =
     (if frontier = [] then seen
      else let (seen', frontier') =
             visit_targets (allowed_targets (last frontier)) (seen, butlast frontier)
           in reach_loop seen' frontier')"
  by pat_completeness auto
termination
proof (relation "measures [\<lambda>(seen, fr). card (- seen), \<lambda>(seen, fr). length fr]")
  fix seen :: "IncidentStatus set" and frontier x seen' frontier'
  assume ne: "frontier \<noteq> []"
    and x: "x = visit_targets (allowed_targets (last frontier)) (seen, butlast frontier)"
    and p: "(seen', frontier') = x"
  let ?ts = "allowed_targets (last frontier)"
  have s': "seen' = seen \<union> set ?ts" using p x visit_targets_seen by (metis fst_conv)
  show "((seen', frontier'), (seen, frontier))
      \<in> measures [\<lambda>(seen, fr). card (- seen), \<lambda>(seen, fr). length fr]"
  proof (cases "set ?ts \<subseteq> seen")
    case True
    then have "visit_targets ?ts (seen, butlast frontier) = (seen, butlast frontier)"
      by (rule visit_targets_unchanged)
    with p x ne show ?thesis by simp
  next
    case False
    then have "- seen' \<subset> - seen" using s' by auto
    then have "card (- seen') < card (- seen)" by (simp add: psubset_card_mono)
    then show ?thesis by simp
  qed
qed simp

declare reach_loop.simps [simp del]

definition reachable_from :: "IncidentStatus \<Rightarrow> IncidentStatus set" where
  "reachable_from src = reach_loop {} [src]"

definition states_without_path_to_closure :: "IncidentStatus list" where
  "states_without_path_to_closure =
     filter (\<lambda>s. s \<notin> CLOSED_STATES \<and> reachable_from s \<inter> CLOSED_STATES = {})
       IncidentStatus_members"

definition edges :: "(IncidentStatus \<times> IncidentStatus) set" where
  "edges = {(s, t). t \<in> set (allowed_targets s)}"

lemma reach_loop_closure:
  "(\<And>s. s \<in> seen \<Longrightarrow> s \<notin> set fr \<Longrightarrow> edges `` {s} \<subseteq> seen) \<Longrightarrow>
   reach_loop seen fr = seen \<union> edges\<^sup>+ `` set fr"
proof (induction seen fr rule: reach_loop.induct)
  case (1 seen fr)
  show ?case
  proof (cases "fr = []")
    case True
    then show ?thesis by (simp add: reach_loop.simps)
  next
    case False
    let ?c = "last fr" and ?b = "butlast fr"
    let ?ts = "allowed_targets ?c"
    obtain seen' fr' where v: "visit_targets ?ts (seen, ?b) = (seen', fr')" by fastforce
    have s': "seen' = seen \<union> edges `` {?c}"
      using visit_targets_seen [of ?ts seen ?b] v by (simp add: edges_def Image_def)
    have f': "set fr' = set ?b \<union> (edges `` {?c} - seen)"
      using visit_targets_frontier [of ?ts seen ?b] v by (simp add: edges_def Image_def)
    have fr: "set fr = insert ?c (set ?b)"
      using False by (metis append_butlast_last_id list.simps(15) rotate1.simps(2) set_rotate1)
    have inv: "edges `` {s} \<subseteq> seen'" if "s \<in> seen'" "s \<notin> set fr'" for s
      using that "1.prems" [of s] s' f' fr by auto
    have "reach_loop seen fr = reach_loop seen' fr'"
      using False v by (simp add: reach_loop.simps [of seen fr])
    also have "\<dots> = seen' \<union> edges\<^sup>+ `` set fr'"
      using "1.IH" [OF False _ _ inv] v by auto
    also have "\<dots> = seen \<union> edges\<^sup>+ `` set fr" (is "?L = ?R")
    proof
      show "?L \<subseteq> ?R"
      proof
        fix y assume "y \<in> ?L"
        then consider "y \<in> seen" | "(?c, y) \<in> edges"
          | x where "x \<in> set ?b" "(x, y) \<in> edges\<^sup>+"
          | x where "(?c, x) \<in> edges" "(x, y) \<in> edges\<^sup>+"
          using s' f' by blast
        then show "y \<in> ?R"
          by cases (use fr in \<open>auto intro: trancl_into_trancl2\<close>)
      qed
      show "?R \<subseteq> ?L"
      proof
        fix y assume "y \<in> ?R"
        then consider "y \<in> seen" | x where "x \<in> set fr" "(x, y) \<in> edges\<^sup>+" by auto
        then show "y \<in> ?L"
        proof cases
          case 1
          then show ?thesis using s' by blast
        next
          case 2
          have closed: "z \<in> ?L" if "w \<in> seen'" "(w, z) \<in> edges\<^sup>+" for w z
            using that(2,1)
          proof (induction rule: converse_trancl_induct)
            case (base w)
            then show ?case using inv [of w] by (cases "w \<in> set fr'") auto
          next
            case (step w u)
            then show ?case using inv [of w]
              by (cases "w \<in> set fr'") (auto intro: trancl_into_trancl2)
          qed
          show ?thesis
          proof (cases "x \<in> set ?b")
            case True
            then show ?thesis using 2 f' by blast
          next
            case False
            then have "x = ?c" using 2 fr by blast
            then obtain w where "(?c, w) \<in> edges" "w = y \<or> (w, y) \<in> edges\<^sup>+"
              using 2(2) by (metis tranclD rtranclD)
            then show ?thesis using closed [of w y] s' by auto
          qed
        qed
      qed
    qed
    finally show ?thesis .
  qed
qed

lemma reachable_from_iff: "reachable_from s = {t. (s, t) \<in> edges\<^sup>+}"
  unfolding reachable_from_def by (subst reach_loop_closure) auto

end
