(* ===== verification/Sequenced_Log.thy ===== *)
theory Sequenced_Log
  imports Prelude "HOL-Library.Sublist"
begin

text \<open>
  An append-only log with a gapless sequence number, the shape that
  \<open>src/asic/db/projections.py\<close> (events) and \<open>src/asic/orchestration/checkpoint.py\<close>
  (checkpoints) share: the audit for missing numbers, and the interface \<open>seq_log\<close> whose
  clients learn once that no run leaves a gap, rewrites or drops an entry.
\<close>

definition gapless :: "nat list \<Rightarrow> bool" where
  "gapless ns \<longleftrightarrow> ns = [1..<Suc (length ns)]"

text \<open>
  \<open>event_sequence_gaps\<close> and \<open>sequence_gaps\<close>: over the sorted sequence numbers, the
  numbers from 1 to the last that are missing.
\<close>

definition missing_numbers :: "nat list \<Rightarrow> nat list" where
  "missing_numbers sequences =
     (case sequences of
        [] \<Rightarrow> []
      | _ \<Rightarrow> filter (\<lambda>n. n \<notin> set sequences) [1..<Suc (last sequences)])"

lemma gapless_Nil [simp]: "gapless []"
  by (simp add: gapless_def)

lemma gapless_append:
  assumes "gapless ns"
  shows "gapless (ns @ [Suc (length ns)])"
proof -
  have "ns @ [Suc (length ns)] = [1..<Suc (length ns)] @ [Suc (length ns)]"
    using assms by (metis gapless_def)
  also have "\<dots> = [1..<Suc (Suc (length ns))]" by simp
  finally show ?thesis by (simp add: gapless_def)
qed

lemma gapless_sorted: "gapless ns \<Longrightarrow> sorted ns"
  unfolding gapless_def by (metis sorted_upt)

lemma gapless_last: "gapless ns \<Longrightarrow> ns \<noteq> [] \<Longrightarrow> last ns = length ns"
  unfolding gapless_def by (metis Suc_le_mono last_upt diff_Suc_1 le0 length_greater_0_conv
      less_Suc_eq_le One_nat_def Suc_less_eq)

lemma gapless_set: "gapless ns \<Longrightarrow> set ns = {1..length ns}"
  unfolding gapless_def by (metis atLeastLessThanSuc_atLeastAtMost set_upt)

lemma gapless_distinct: "gapless ns \<Longrightarrow> distinct ns"
  unfolding gapless_def by (metis distinct_upt)

lemma missing_numbers_Nil_iff:
  "missing_numbers ns = [] \<longleftrightarrow> (ns \<noteq> [] \<longrightarrow> {1..last ns} \<subseteq> set ns)"
proof (cases "ns = []")
  case False
  then have "missing_numbers ns = filter (\<lambda>n. n \<notin> set ns) [1..<Suc (last ns)]"
    by (cases ns) (simp_all only: missing_numbers_def list.case)
  then have "missing_numbers ns = [] \<longleftrightarrow> set [1..<Suc (last ns)] \<subseteq> set ns"
    by (auto simp only: filter_empty_conv)
  also have "set [1..<Suc (last ns)] = {1..last ns}"
    by (simp only: set_upt atLeastLessThanSuc_atLeastAtMost)
  finally show ?thesis using False by simp
qed (simp add: missing_numbers_def)

lemma missing_numbers_gapless: "gapless ns \<Longrightarrow> missing_numbers ns = []"
  by (simp add: missing_numbers_Nil_iff gapless_set gapless_last)

text \<open>Conversely, an empty audit of a sorted, duplicate-free stream means no gap.\<close>

lemma sorted_le_last:
  fixes n :: nat
  assumes "n \<in> set ns" "sorted ns"
  shows "n \<le> last ns"
proof -
  obtain i where i: "i < length ns" "n = ns ! i" using assms(1) by (auto simp: in_set_conv_nth)
  then have "ns ! i \<le> ns ! (length ns - 1)" using assms(2) by (intro sorted_nth_mono) auto
  moreover have "last ns = ns ! (length ns - 1)" using i by (intro last_conv_nth) auto
  ultimately show ?thesis using i by simp
qed

lemma missing_numbers_Nil:
  assumes "missing_numbers ns = []" "sorted ns" "distinct ns" "0 \<notin> set ns"
  shows "gapless ns"
proof (cases "ns = []")
  case False
  then have sub: "{1..last ns} \<subseteq> set ns"
    using assms(1) by (simp add: missing_numbers_Nil_iff)
  have up: "n \<le> last ns" if "n \<in> set ns" for n
    using that assms(2) by (rule sorted_le_last)
  then have "set ns = {1..last ns}"
    using sub assms(4) by (auto simp: Suc_le_eq neq0_conv intro!: gr0I)
  then have "sorted_list_of_set (set ns) = [1..<Suc (last ns)]"
    by (simp add: sorted_list_of_set_range atLeastLessThanSuc_atLeastAtMost [symmetric])
  moreover have "sorted_list_of_set (set ns) = ns"
    using assms(2,3) by (simp add: sorted_list_of_set.idem_if_sorted_distinct)
  ultimately have eq: "ns = [1..<Suc (last ns)]" by simp
  then have "length ns = last ns" by (metis diff_Suc_1 length_upt)
  with eq show ?thesis by (simp add: gapless_def)
qed simp

section \<open>The interface\<close>

text \<open>
  \<open>seqs s\<close> are the sequence numbers of one stream in state \<open>s\<close>. The provider promises
  that its invariant survives every step and that a step either leaves the stream alone or
  appends the next number.
\<close>

locale seq_log =
  fixes seqs :: "'s \<Rightarrow> nat list" and step :: "'s \<Rightarrow> 's \<Rightarrow> bool" and inv :: "'s \<Rightarrow> bool"
  assumes inv_gapless: "inv s \<Longrightarrow> gapless (seqs s)"
    and inv_step: "inv s \<Longrightarrow> step s t \<Longrightarrow> inv t"
    and step_seqs: "inv s \<Longrightarrow> step s t \<Longrightarrow>
      seqs t = seqs s \<or> seqs t = seqs s @ [Suc (length (seqs s))]"
begin

lemma run_inv: "step\<^sup>*\<^sup>* s t \<Longrightarrow> inv s \<Longrightarrow> inv t"
  by (induction rule: rtranclp_induct) (auto intro: inv_step)

lemma run_gapless: "step\<^sup>*\<^sup>* s t \<Longrightarrow> inv s \<Longrightarrow> gapless (seqs t)"
  by (blast intro: inv_gapless run_inv)

lemma run_no_missing: "step\<^sup>*\<^sup>* s t \<Longrightarrow> inv s \<Longrightarrow> missing_numbers (seqs t) = []"
  by (blast intro: missing_numbers_gapless run_gapless)

lemma run_append_only: "step\<^sup>*\<^sup>* s t \<Longrightarrow> inv s \<Longrightarrow> prefix (seqs s) (seqs t)"
proof (induction rule: rtranclp_induct)
  case (step t u)
  then have "prefix (seqs t) (seqs u)"
    using step_seqs run_inv by fastforce
  with step show ?case by (metis prefix_order.trans)
qed simp

end

end
