(* ===== verification/Event_Log.thy ===== *)
theory Event_Log
  imports Incident_State Events Sequenced_Log
begin

text \<open>
  The event store of \<open>src/asic/db/projections.py\<close> over the tables of
  \<open>src/asic/db/models/incident.py\<close>: the append, the transition that writes status and event
  together, the status derived from the log, the gap audit and the timeline projection.
  The database is a record of tables; a call is one transaction, the clock reading and the
  generated event id are arguments. A JSON payload is a map whose values are a string or
  null. \<open>None\<close> of an order-by-limit query is SQLAlchemy's \<open>None\<close>, a violated check or
  unique constraint of the tables is \<open>IntegrityError\<close>.
\<close>

type_synonym payload = "string \<rightharpoonup> string option"
type_synonym stream = "string \<times> string"

record incident_row =
  ir_status :: IncidentStatus
  ir_termination_reason :: "TerminationReason option"
  ir_acknowledged_at :: "int option"
  ir_terminated_at :: "int option"
  ir_high_water :: nat

record event_row =
  er_id :: string
  er_tenant :: string
  er_incident :: string
  er_sequence :: nat
  er_type :: IncidentEventType
  er_category :: EventCategory
  er_source :: string
  er_occurred_at :: int
  er_correlation :: string
  er_causation :: "string option"
  er_actor_type :: ActorType
  er_actor_id :: "string option"
  er_provenance :: ProvenanceLabel
  er_version :: int
  er_payload :: payload
  er_key :: "string option"

record timeline_row =
  tm_tenant :: string
  tm_incident :: string
  tm_sequence :: nat
  tm_occurred_at :: int
  tm_category :: TimelineCategory
  tm_summary :: string
  tm_source_event :: string
  tm_version :: int

record log_db =
  db_incidents :: "stream \<rightharpoonup> incident_row"
  db_events :: "event_row list"
  db_timeline :: "timeline_row list"

text \<open>A new incident row: the column defaults of the table.\<close>

definition new_incident :: incident_row where
  "new_incident =
     \<lparr>ir_status = IncidentStatus.DETECTED, ir_termination_reason = None,
      ir_acknowledged_at = None, ir_terminated_at = None, ir_high_water = 0\<rparr>"

text \<open>The check constraints \<open>terminal_status_has_terminated_at\<close> and \<open>terminated_has_reason\<close>.\<close>

definition incident_checks :: "incident_row \<Rightarrow> bool" where
  "incident_checks r \<longleftrightarrow>
     (is_terminal (ir_status r) \<longleftrightarrow> ir_terminated_at r \<noteq> None) \<and>
     (ir_terminated_at r = None \<or> ir_termination_reason r \<noteq> None)"

definition of_stream :: "stream \<Rightarrow> event_row \<Rightarrow> bool" where
  "of_stream k e \<longleftrightarrow> er_tenant e = fst k \<and> er_incident e = snd k"

text \<open>The check and unique constraints of \<open>incident_event\<close>.\<close>

definition event_checks :: "event_row list \<Rightarrow> event_row \<Rightarrow> bool" where
  "event_checks events e \<longleftrightarrow>
     1 \<le> er_sequence e \<and> 1 \<le> er_version e \<and>
     (er_category e \<noteq> EventCategory.EXTERNAL \<or>
        er_provenance e \<notin> {ProvenanceLabel.SYSTEM, ProvenanceLabel.HUMAN}) \<and>
     (\<forall>f \<in> set events. \<not> (er_tenant f = er_tenant e \<and> er_incident f = er_incident e \<and>
        er_sequence f = er_sequence e)) \<and>
     (\<forall>f \<in> set events. \<not> (er_tenant f = er_tenant e \<and> er_key e \<noteq> None \<and> er_key f = er_key e))"

text \<open>\<open>select ... order_by(IncidentEvent.sequence)\<close> of one incident.\<close>

definition stream_events :: "log_db \<Rightarrow> stream \<Rightarrow> event_row list" where
  "stream_events db k = sort_key er_sequence (filter (of_stream k) (db_events db))"

section \<open>Append\<close>

record event_args =
  ea_type :: IncidentEventType
  ea_source :: string
  ea_actor_type :: ActorType
  ea_correlation :: string
  ea_provenance :: ProvenanceLabel
  ea_actor_id :: "string option"
  ea_causation :: "string option"
  ea_occurred_at :: "int option"
  ea_payload :: payload
  ea_version :: int
  ea_key :: "string option"

definition find_by_key :: "log_db \<Rightarrow> string \<Rightarrow> string option \<Rightarrow> event_row option" where
  "find_by_key db tenant key =
     (if key = None then None
      else List.find (\<lambda>e. er_tenant e = tenant \<and> er_key e = key) (db_events db))"

text \<open>\<open>occurred_at or datetime.now(UTC)\<close>.\<close>

definition make_event :: "stream \<Rightarrow> event_args \<Rightarrow> nat \<Rightarrow> int \<Rightarrow> string \<Rightarrow> event_row" where
  "make_event k a seq now eid =
     \<lparr>er_id = eid, er_tenant = fst k, er_incident = snd k, er_sequence = seq,
      er_type = ea_type a, er_category = classify (ea_type a), er_source = ea_source a,
      er_occurred_at = (case ea_occurred_at a of None \<Rightarrow> now | Some t \<Rightarrow> t),
      er_correlation = ea_correlation a, er_causation = ea_causation a,
      er_actor_type = ea_actor_type a, er_actor_id = ea_actor_id a,
      er_provenance = ea_provenance a, er_version = ea_version a, er_payload = ea_payload a,
      er_key = ea_key a\<rparr>"

text \<open>The result is the event, whether it was created, and the database.\<close>

definition append_incident_event ::
  "log_db \<Rightarrow> stream \<Rightarrow> event_args \<Rightarrow> int \<Rightarrow> string \<Rightarrow>
   (py_error, event_row \<times> bool \<times> log_db) result" where
  "append_incident_event db k a now eid =
     (case find_by_key db (fst k) (ea_key a) of
        Some existing \<Rightarrow> Inr (existing, False, db)
      | None \<Rightarrow>
          (case db_incidents db k of
             None \<Rightarrow> Inl NoResultFound
           | Some row \<Rightarrow>
               let next_sequence = ir_high_water row + 1;
                   event = make_event k a next_sequence now eid
               in if \<not> event_checks (db_events db) event then Inl IntegrityError
                  else Inr (event, True,
                    db\<lparr>db_events := db_events db @ [event],
                       db_incidents := (db_incidents db)
                         (k \<mapsto> row\<lparr>ir_high_water := next_sequence\<rparr>)\<rparr>)))"

section \<open>Transition\<close>

record transition_args =
  ta_target :: IncidentStatus
  ta_actor_type :: ActorType
  ta_source :: string
  ta_correlation :: string
  ta_actor_id :: "string option"
  ta_reason :: "TerminationReason option"
  ta_justification :: "string option"

definition transition_request :: "incident_row \<Rightarrow> transition_args \<Rightarrow> TransitionRequest" where
  "transition_request row a =
     \<lparr>rq_source = ir_status row, rq_target = ta_target a, rq_actor = ta_actor_type a,
      rq_reason = ta_reason a, rq_justification = ta_justification a\<rparr>"

definition moved_row :: "incident_row \<Rightarrow> transition_args \<Rightarrow> int \<Rightarrow> incident_row" where
  "moved_row row a now =
     (let r1 = row\<lparr>ir_status := ta_target a\<rparr>;
          r2 = (if ta_target a = IncidentStatus.ACKNOWLEDGED \<and> ir_acknowledged_at row = None
                then r1\<lparr>ir_acknowledged_at := Some now\<rparr> else r1)
      in if is_terminal (ta_target a)
         then r2\<lparr>ir_terminated_at := Some now, ir_termination_reason := ta_reason a\<rparr>
         else r2\<lparr>ir_terminated_at := None, ir_termination_reason := None\<rparr>)"

definition state_change_event :: "incident_row \<Rightarrow> transition_args \<Rightarrow> event_args" where
  "state_change_event row a =
     \<lparr>ea_type = IncidentEventType.INCIDENT_STATE_CHANGED, ea_source = ta_source a,
      ea_actor_type = ta_actor_type a, ea_correlation = ta_correlation a,
      ea_provenance = ProvenanceLabel.SYSTEM, ea_actor_id = ta_actor_id a, ea_causation = None,
      ea_occurred_at = None,
      ea_payload =
        [''from'' \<mapsto> Some (IncidentStatus_value (ir_status row)),
         ''to'' \<mapsto> Some (IncidentStatus_value (ta_target a)),
         ''termination_reason'' \<mapsto> map_option TerminationReason_value (ta_reason a),
         ''justification'' \<mapsto> ta_justification a],
      ea_version = 1, ea_key = None\<rparr>"

definition apply_transition ::
  "log_db \<Rightarrow> stream \<Rightarrow> transition_args \<Rightarrow> int \<Rightarrow> string \<Rightarrow>
   (py_error, event_row \<times> log_db) result" where
  "apply_transition db k a now eid =
     (case db_incidents db k of
        None \<Rightarrow> Inl NoResultFound
      | Some row \<Rightarrow>
          andThen (assert_transition_allowed (transition_request row a)) (\<lambda>_.
            let row' = moved_row row a now in
            if \<not> incident_checks row' then Inl IntegrityError
            else andThen
              (append_incident_event (db\<lparr>db_incidents := (db_incidents db)(k \<mapsto> row')\<rparr>) k
                 (state_change_event row a) now eid)
              (\<lambda>(event, _, db'). Inr (event, db'))))"

section \<open>Queries on the log\<close>

definition state_changes :: "log_db \<Rightarrow> stream \<Rightarrow> event_row list" where
  "state_changes db k =
     sort_key er_sequence
       (filter (\<lambda>e. of_stream k e \<and> er_type e = IncidentEventType.INCIDENT_STATE_CHANGED)
         (db_events db))"

text \<open>
  \<open>recompute_incident_status\<close>: the payload of the newest state change, parsed. \<open>KeyError\<close>
  where \<open>to\<close> is missing, \<open>ValueError\<close> where it is not a status.
\<close>

definition recompute_incident_status ::
  "log_db \<Rightarrow> stream \<Rightarrow> (py_error, IncidentStatus option) result" where
  "recompute_incident_status db k =
     (case rev (state_changes db k) of
        [] \<Rightarrow> Inr None
      | e # _ \<Rightarrow>
          (case er_payload e ''to'' of
             None \<Rightarrow> Inl KeyError
           | Some None \<Rightarrow> Inl ValueError
           | Some (Some s) \<Rightarrow>
               (case enum_of IncidentStatus_members IncidentStatus_value s of
                  None \<Rightarrow> Inl ValueError
                | Some st \<Rightarrow> Inr (Some st))))"

definition assert_status_matches_log :: "log_db \<Rightarrow> stream \<Rightarrow> (py_error, unit) result" where
  "assert_status_matches_log db k =
     (case db_incidents db k of
        None \<Rightarrow> Inl NoResultFound
      | Some row \<Rightarrow>
          andThen (recompute_incident_status db k) (\<lambda>derived.
            case derived of
              None \<Rightarrow> Inr ()
            | Some st \<Rightarrow> guard (st = ir_status row) IllegalStateTransition))"

definition event_sequence_gaps :: "log_db \<Rightarrow> stream \<Rightarrow> nat list" where
  "event_sequence_gaps db k = missing_numbers (map er_sequence (stream_events db k))"

section \<open>Timeline\<close>

definition TIMELINE_PROJECTION_VERSION :: int where "TIMELINE_PROJECTION_VERSION = 1"

text \<open>\<open>f"{payload.get(key)}"\<close>: a missing key and null both render as \<open>None\<close>.\<close>

definition show_field :: "payload \<Rightarrow> string \<Rightarrow> string \<Rightarrow> string" where
  "show_field p key dflt =
     (case p key of None \<Rightarrow> dflt | Some None \<Rightarrow> ''None'' | Some (Some s) \<Rightarrow> s)"

definition replace_char :: "char \<Rightarrow> string \<Rightarrow> string \<Rightarrow> string" where
  "replace_char c r s = concat (map (\<lambda>x. if x = c then r else [x]) s)"

definition summarise :: "event_row \<Rightarrow> string" where
  "summarise e =
     (let p = er_payload e in
      if er_type e = IncidentEventType.INCIDENT_STATE_CHANGED then
        (let suffix = (case p ''termination_reason'' of
                         Some (Some r) \<Rightarrow> if r = [] then [] else '' ('' @ r @ '')''
                       | _ \<Rightarrow> [])
         in ''Status changed from '' @ show_field p ''from'' ''None'' @ '' to '' @
            show_field p ''to'' ''None'' @ suffix)
      else if er_type e = IncidentEventType.EVIDENCE_RECORDED then
        ''Evidence recorded from '' @ show_field p ''domain'' ''unknown'' @ '' source''
      else if er_type e = IncidentEventType.POLICY_EVALUATED then
        ''Policy gate returned '' @ show_field p ''verdict'' ''None'' @ '' (rule '' @
          show_field p ''rule_id'' ''None'' @ '')''
      else replace_char (CHR ''_'') '' ''
             (replace_char (CHR ''.'') '': '' (IncidentEventType_value (er_type e))))"

definition timeline_row_of :: "event_row \<Rightarrow> TimelineRule \<Rightarrow> timeline_row" where
  "timeline_row_of e r =
     \<lparr>tm_tenant = er_tenant e, tm_incident = er_incident e, tm_sequence = er_sequence e,
      tm_occurred_at = er_occurred_at e, tm_category = tl_category r,
      tm_summary = summarise e, tm_source_event = er_id e,
      tm_version = TIMELINE_PROJECTION_VERSION\<rparr>"

fun project_rows :: "string set \<Rightarrow> event_row list \<Rightarrow> (py_error, timeline_row list) result" where
  "project_rows already [] = Inr []"
| "project_rows already (e # es) =
     (if er_id e \<in> already then project_rows already es
      else andThen (is_visible_on_timeline (er_type e)) (\<lambda>visible.
        if \<not> visible then project_rows already es
        else andThen (timeline_rule (er_type e)) (\<lambda>r.
          andThen (project_rows already es) (\<lambda>rows. Inr (timeline_row_of e r # rows)))))"

definition project_timeline :: "log_db \<Rightarrow> stream \<Rightarrow> (py_error, nat \<times> log_db) result" where
  "project_timeline db k =
     (let already_projected =
            tm_source_event ` set (filter (\<lambda>t. tm_tenant t = fst k \<and> tm_incident t = snd k)
              (db_timeline db))
      in andThen (project_rows already_projected (stream_events db k)) (\<lambda>rows.
           Inr (length rows, db\<lparr>db_timeline := db_timeline db @ rows\<rparr>)))"

end
