(* ===== verification/Event_Log_Run.thy ===== *)
theory Event_Log_Run
  imports Event_Log
begin

text \<open>
  Runs of the event store: the step relation of its writers, the invariant \<open>log_wf\<close> they
  keep (gapless streams, status equal to the newest state change, terminal markers), and
  the instance of the interface \<open>seq_log\<close>. State-change events are written by
  \<open>apply_transition\<close> only, as every caller of \<open>append_incident_event\<close> does; generated event
  ids are fresh.
\<close>

section \<open>Steps\<close>

inductive log_step :: "log_db \<Rightarrow> log_db \<Rightarrow> bool" where
  opened: "db_incidents db k = None \<Longrightarrow>
     log_step db (db\<lparr>db_incidents := (db_incidents db)(k \<mapsto> new_incident)\<rparr>)"
| appended: "append_incident_event db k a now eid = Inr (e, c, db') \<Longrightarrow>
     ea_type a \<noteq> IncidentEventType.INCIDENT_STATE_CHANGED \<Longrightarrow>
     eid \<notin> er_id ` set (db_events db) \<Longrightarrow> log_step db db'"
| moved: "apply_transition db k a now eid = Inr (e, db') \<Longrightarrow>
     eid \<notin> er_id ` set (db_events db) \<Longrightarrow> log_step db db'"
| projected: "project_timeline db k = Inr (n, db') \<Longrightarrow> log_step db db'"

inductive_cases log_stepE: "log_step db db'"

definition empty_db :: log_db where
  "empty_db = \<lparr>db_incidents = Map.empty, db_events = [], db_timeline = []\<rparr>"

section \<open>The invariant\<close>

definition stream_of :: "log_db \<Rightarrow> stream \<Rightarrow> event_row list" where
  "stream_of db k = filter (of_stream k) (db_events db)"

definition is_change :: "event_row \<Rightarrow> bool" where
  "is_change e \<longleftrightarrow> er_type e = IncidentEventType.INCIDENT_STATE_CHANGED"

text \<open>The status the newest state change of a stream, in append order, records.\<close>

definition status_payload :: "event_row \<Rightarrow> IncidentStatus \<Rightarrow> bool" where
  "status_payload e st \<longleftrightarrow> er_payload e ''to'' = Some (Some (IncidentStatus_value st))"

definition status_agrees :: "event_row list \<Rightarrow> IncidentStatus \<Rightarrow> bool" where
  "status_agrees es st =
     (case rev (filter is_change es) of
        [] \<Rightarrow> st = IncidentStatus.DETECTED
      | e # _ \<Rightarrow> status_payload e st)"

definition row_wf :: "event_row list \<Rightarrow> incident_row \<Rightarrow> bool" where
  "row_wf es row \<longleftrightarrow>
     gapless (map er_sequence es) \<and> ir_high_water row = length es \<and>
     incident_checks row \<and> status_agrees es (ir_status row)"

definition entry_wf :: "log_db \<Rightarrow> stream \<Rightarrow> bool" where
  "entry_wf db k =
     (case db_incidents db k of
        None \<Rightarrow> stream_of db k = []
      | Some row \<Rightarrow> row_wf (stream_of db k) row)"

definition log_wf :: "log_db \<Rightarrow> bool" where
  "log_wf db \<longleftrightarrow> (\<forall>k. entry_wf db k) \<and> distinct (map er_id (db_events db))"

lemma log_wf_entry: "log_wf db \<Longrightarrow> entry_wf db k"
  unfolding log_wf_def by blast

lemma log_wf_row:
  "log_wf db \<Longrightarrow> db_incidents db k = Some row \<Longrightarrow> row_wf (stream_of db k) row"
  using log_wf_entry [of db k] by (simp add: entry_wf_def)

lemma log_wf_gapless: "log_wf db \<Longrightarrow> gapless (map er_sequence (stream_of db k))"
  using log_wf_entry [of db k]
  by (auto simp: entry_wf_def row_wf_def split: option.splits)

lemma log_wf_distinct: "log_wf db \<Longrightarrow> distinct (map er_id (db_events db))"
  by (simp add: log_wf_def)

text \<open>On a well-formed store the queries' \<open>order by sequence\<close> is the append order.\<close>

lemma stream_events_eq: "log_wf db \<Longrightarrow> stream_events db k = stream_of db k"
  unfolding stream_events_def stream_of_def [symmetric]
  by (intro sort_key_id_if_sorted gapless_sorted log_wf_gapless)

lemma state_changes_eq: "log_wf db \<Longrightarrow> state_changes db k = filter is_change (stream_of db k)"
proof -
  assume wf: "log_wf db"
  have "state_changes db k = sort_key er_sequence (filter is_change (stream_of db k))"
    by (simp add: state_changes_def stream_of_def is_change_def conj_commute)
  also have "\<dots> = filter is_change (sort_key er_sequence (stream_of db k))"
    by (simp add: filter_sort)
  also have "\<dots> = filter is_change (stream_of db k)"
    using stream_events_eq [OF wf] by (simp add: stream_events_def stream_of_def)
  finally show ?thesis .
qed

lemma log_wf_empty: "log_wf empty_db"
  by (simp add: log_wf_def entry_wf_def empty_db_def stream_of_def)

section \<open>What a write does\<close>

lemma append_cases:
  assumes "append_incident_event db k a now eid = Inr (e, c, db')"
  obtains (old) "c = False" "db' = db" "find_by_key db (fst k) (ea_key a) = Some e"
  | (new) row where "c = True" "find_by_key db (fst k) (ea_key a) = None"
      "db_incidents db k = Some row"
      "e = make_event k a (ir_high_water row + 1) now eid"
      "event_checks (db_events db) e"
      "db' = db\<lparr>db_events := db_events db @ [e],
                db_incidents := (db_incidents db)(k \<mapsto> row\<lparr>ir_high_water := ir_high_water row + 1\<rparr>)\<rparr>"
  using assms
  by (auto simp: append_incident_event_def Let_def split: option.splits if_splits)

lemma make_event_stream [simp]: "of_stream k' (make_event k a n now eid) \<longleftrightarrow> k' = k"
  by (auto simp: of_stream_def make_event_def prod_eq_iff)

lemma make_event_simps [simp]:
  "er_sequence (make_event k a n now eid) = n"
  "er_id (make_event k a n now eid) = eid"
  "er_type (make_event k a n now eid) = ea_type a"
  "er_payload (make_event k a n now eid) = ea_payload a"
  by (simp_all add: make_event_def)

lemma status_agrees_other: "\<not> is_change e \<Longrightarrow> status_agrees (es @ [e]) st = status_agrees es st"
  by (simp add: status_agrees_def)

lemma status_agrees_change: "is_change e \<Longrightarrow> status_agrees (es @ [e]) st = status_payload e st"
  by (simp add: status_agrees_def)

text \<open>Appending one event to a stream whose row is well formed up to its status.\<close>

lemma log_wf_extend:
  assumes wf: "log_wf db" and k: "db_incidents db k = Some row"
    and e: "e = make_event k a (ir_high_water row + 1) now eid"
    and fresh: "eid \<notin> er_id ` set (db_events db)"
    and row': "ir_high_water row' = ir_high_water row + 1" "incident_checks row'"
      "status_agrees (stream_of db k @ [e]) (ir_status row')"
    and db': "db_events db' = db_events db @ [e]" "db_incidents db' = (db_incidents db)(k \<mapsto> row')"
  shows "log_wf db'"
proof -
  have str: "stream_of db' k' = stream_of db k' @ (if k' = k then [e] else [])" for k'
    by (simp add: stream_of_def db' e)
  have r: "row_wf (stream_of db k) row" using wf k by (rule log_wf_row)
  then have "row_wf (stream_of db' k) row'"
    using row' gapless_append [of "map er_sequence (stream_of db k)"]
    by (simp add: row_wf_def str e)
  moreover have "distinct (map er_id (db_events db'))"
    using log_wf_distinct [OF wf] fresh by (simp add: db' e)
  moreover have "entry_wf db' k'" if "k' \<noteq> k" for k'
    using log_wf_entry [OF wf, of k'] that
    by (simp add: entry_wf_def str db'(2) split: option.splits)
  ultimately show ?thesis
    by (metis db'(2) entry_wf_def fun_upd_same log_wf_def option.simps(5))
qed

lemma append_wf:
  assumes "append_incident_event db k a now eid = Inr (e, c, db')" and wf: "log_wf db"
    and "ea_type a \<noteq> IncidentEventType.INCIDENT_STATE_CHANGED"
    and "eid \<notin> er_id ` set (db_events db)"
  shows "log_wf db'"
  using assms(1)
proof (cases rule: append_cases)
  case old
  then show ?thesis using wf by simp
next
  case (new row)
  have r: "row_wf (stream_of db k) row" using wf new(3) by (rule log_wf_row)
  show ?thesis
    by (rule log_wf_extend [OF wf new(3,4) assms(4), where row' =
          "row\<lparr>ir_high_water := ir_high_water row + 1\<rparr>"])
      (use r new assms(3) in \<open>auto simp: row_wf_def incident_checks_def is_change_def
          status_agrees_other\<close>)
qed

lemma apply_transition_cases:
  assumes "apply_transition db k a now eid = Inr (e, db')"
  obtains row t where "db_incidents db k = Some row"
    "assert_transition_allowed (transition_request row a) = Inr t"
    "incident_checks (moved_row row a now)"
    "e = make_event k (state_change_event row a) (ir_high_water row + 1) now eid"
    "db' = db\<lparr>db_events := db_events db @ [e],
              db_incidents := (db_incidents db)
                (k \<mapsto> (moved_row row a now)\<lparr>ir_high_water := ir_high_water row + 1\<rparr>)\<rparr>"
proof -
  have hw: "ir_high_water (moved_row row a now) = ir_high_water row" for row
    by (simp add: moved_row_def Let_def)
  have nokey: "find_by_key d t (ea_key (state_change_event row a)) = None" for d t row
    by (simp add: find_by_key_def state_change_event_def)
  show thesis
    using assms that
    by (auto simp: apply_transition_def result_simps Let_def append_incident_event_def nokey hw
        split: option.splits if_splits)
qed

lemma apply_transition_wf:
  assumes "apply_transition db k a now eid = Inr (e, db')" and wf: "log_wf db"
    and "eid \<notin> er_id ` set (db_events db)"
  shows "log_wf db'"
  using assms(1)
proof (cases rule: apply_transition_cases)
  case (1 row t)
  have st: "ir_status (moved_row row a now) = ta_target a"
    by (simp add: moved_row_def Let_def)
  show ?thesis
    by (rule log_wf_extend [OF wf 1(1,4) assms(3), where row' =
          "(moved_row row a now)\<lparr>ir_high_water := ir_high_water row + 1\<rparr>"])
      (use 1 st in \<open>auto simp: incident_checks_def is_change_def status_agrees_change
          status_payload_def state_change_event_def\<close>)
qed

lemma project_events:
  "project_timeline db k = Inr (n, db') \<Longrightarrow>
   db_events db' = db_events db \<and> db_incidents db' = db_incidents db"
  by (auto simp: project_timeline_def result_simps Let_def)

lemma log_step_wf: "log_step db db' \<Longrightarrow> log_wf db \<Longrightarrow> log_wf db'"
proof (induction rule: log_step.induct)
  case (opened db k)
  let ?d = "db\<lparr>db_incidents := (db_incidents db)(k \<mapsto> new_incident)\<rparr>"
  have str: "stream_of ?d k' = stream_of db k'" for k' by (simp add: stream_of_def)
  have "stream_of db k = []" using opened log_wf_entry [of db k] by (simp add: entry_wf_def)
  then have "row_wf (stream_of ?d k) new_incident"
    unfolding row_wf_def str
    by (simp add: new_incident_def incident_checks_def status_agrees_def
        is_terminal_def TERMINAL_STATES_def)
  moreover have "entry_wf ?d k'" if "k' \<noteq> k" for k'
    using log_wf_entry [OF opened(2), of k'] that
    by (simp add: entry_wf_def str split: option.splits)
  ultimately have "entry_wf ?d k'" for k' by (cases "k' = k") (simp_all add: entry_wf_def)
  then show ?case using log_wf_distinct [OF opened(2)] by (simp add: log_wf_def)
next
  case (projected db k n db')
  have same: "db_events db' = db_events db" "db_incidents db' = db_incidents db"
    using project_events [OF projected(1)] by simp_all
  then have "entry_wf db' = entry_wf db"
    by (intro ext) (simp add: entry_wf_def stream_of_def split: option.split)
  with same show ?case using projected(2) by (simp add: log_wf_def)
qed (blast intro: append_wf apply_transition_wf)+

lemma log_step_stream:
  "log_step db db' \<Longrightarrow> log_wf db \<Longrightarrow>
   map er_sequence (stream_of db' k) = map er_sequence (stream_of db k) \<or>
   map er_sequence (stream_of db' k) =
     map er_sequence (stream_of db k) @ [Suc (length (map er_sequence (stream_of db k)))]"
proof (induction rule: log_step.induct)
  case (appended db k' a now eid e c db')
  from appended(1) show ?case
  proof (cases rule: append_cases)
    case (new row)
    then have "row_wf (stream_of db k') row" using appended by (auto intro: log_wf_row)
    with new show ?thesis by (cases "k = k'") (auto simp: stream_of_def row_wf_def)
  qed simp
next
  case (moved db k' a now eid e db')
  from moved(1) show ?case
  proof (cases rule: apply_transition_cases)
    case (1 row t)
    then have "row_wf (stream_of db k') row" using moved by (auto intro: log_wf_row)
    with 1 show ?thesis by (cases "k = k'") (auto simp: stream_of_def row_wf_def)
  qed
qed (auto simp: stream_of_def dest: project_events)

interpretation event_log: seq_log "\<lambda>db. map er_sequence (stream_of db k)" log_step log_wf
  for k
proof unfold_locales
  show "gapless (map er_sequence (stream_of s k))" if "log_wf s" for s
    using that by (rule log_wf_gapless)
  show "log_wf t" if "log_wf s" "log_step s t" for s t
    using that(2,1) by (rule log_step_wf)
  show "map er_sequence (stream_of t k) = map er_sequence (stream_of s k) \<or>
      map er_sequence (stream_of t k) =
        map er_sequence (stream_of s k) @ [Suc (length (map er_sequence (stream_of s k)))]"
    if "log_wf s" "log_step s t" for s t
    using that(2,1) by (rule log_step_stream)
qed

text \<open>No step drops or rewrites an event.\<close>

lemma log_step_events: "log_step db db' \<Longrightarrow> \<exists>es. db_events db' = db_events db @ es"
proof (induction rule: log_step.induct)
  case (appended db k a now eid e c db')
  from appended(1) show ?case by (cases rule: append_cases) auto
next
  case (moved db k a now eid e db')
  from moved(1) show ?case by (cases rule: apply_transition_cases) auto
qed (auto dest: project_events)

lemma log_run_events: "log_step\<^sup>*\<^sup>* db db' \<Longrightarrow> \<exists>es. db_events db' = db_events db @ es"
proof (induction rule: rtranclp_induct)
  case (step db1 db2)
  then show ?case using log_step_events by fastforce
qed simp

lemma log_run_prefix:
  assumes "log_step\<^sup>*\<^sup>* db db'"
  shows "prefix (stream_of db k) (stream_of db' k)"
  using log_run_events [OF assms] by (auto simp: stream_of_def)

section \<open>Status and timeline on a well-formed store\<close>

lemma recompute_wf:
  assumes wf: "log_wf db" and k: "db_incidents db k = Some row"
  shows "recompute_incident_status db k = Inr None \<and> ir_status row = IncidentStatus.DETECTED \<or>
    recompute_incident_status db k = Inr (Some (ir_status row))"
proof -
  have "status_agrees (stream_of db k) (ir_status row)"
    using log_wf_row [OF wf k] by (simp add: row_wf_def)
  then show ?thesis
    by (auto simp: recompute_incident_status_def state_changes_eq [OF wf] status_agrees_def
        status_payload_def split: list.splits)
qed

lemma project_rows_eq:
  "project_rows already es =
     Inr (map (\<lambda>e. timeline_row_of e (projr (timeline_rule (er_type e))))
       (filter (\<lambda>e. er_id e \<notin> already \<and> is_visible_on_timeline (er_type e) = Inr True) es))"
proof (induction es)
  case (Cons e es)
  obtain r where "timeline_rule (er_type e) = Inr r" using timeline_rule_total by blast
  with Cons show ?case by (auto simp: is_visible_on_timeline_def)
qed simp

text \<open>Projecting again finds nothing to do.\<close>

lemma project_again:
  assumes "project_timeline db k = Inr (n, db')"
  shows "project_timeline db' k = Inr (0, db')"
proof -
  let ?rows = "\<lambda>al. map (\<lambda>e. timeline_row_of e (projr (timeline_rule (er_type e))))
       (filter (\<lambda>e. er_id e \<notin> al \<and> is_visible_on_timeline (er_type e) = Inr True)
         (stream_events db k))"
  let ?al = "\<lambda>d. tm_source_event ` set (filter (\<lambda>t. tm_tenant t = fst k \<and> tm_incident t = snd k)
              (db_timeline d))"
  have db': "db' = db\<lparr>db_timeline := db_timeline db @ ?rows (?al db)\<rparr>"
    using assms by (auto simp: project_timeline_def project_rows_eq Let_def)
  have str: "e \<in> set (stream_events db k) \<Longrightarrow> er_tenant e = fst k \<and> er_incident e = snd k" for e
    by (auto simp: stream_events_def of_stream_def)
  have "er_id e \<in> ?al db'" if "e \<in> set (stream_events db k)"
      "is_visible_on_timeline (er_type e) = Inr True" for e
  proof (cases "er_id e \<in> ?al db")
    case True
    then show ?thesis by (auto simp: db')
  next
    case False
    then have "timeline_row_of e (projr (timeline_rule (er_type e))) \<in> set (?rows (?al db))"
      using that by (auto simp: image_iff)
    then show ?thesis using str [OF that(1)]
      by (force simp: db' timeline_row_of_def)
  qed
  then have "?rows (?al db') = []" by (auto simp: filter_empty_conv)
  moreover have "stream_events db' k = stream_events db k"
    by (simp add: db' stream_events_def)
  ultimately show ?thesis by (simp add: project_timeline_def project_rows_eq Let_def)
qed

text \<open>A second append under a stored key finds the first one.\<close>

lemma find_append:
  "List.find P (xs @ ys) = (case List.find P xs of None \<Rightarrow> List.find P ys | Some x \<Rightarrow> Some x)"
  by (induction xs) auto

lemma find_by_key_append:
  "find_by_key db (fst k) key = None \<Longrightarrow> key \<noteq> None \<Longrightarrow> er_tenant e = fst k \<Longrightarrow> er_key e = key \<Longrightarrow>
   find_by_key (db\<lparr>db_events := db_events db @ [e], db_incidents := m\<rparr>) (fst k) key = Some e"
  by (auto simp: find_by_key_def find_append)

lemma append_same_key:
  assumes "append_incident_event db k a now eid = Inr (e, True, db')" and "ea_key a \<noteq> None"
    and "ea_key a' = ea_key a"
  shows "append_incident_event db' k a' now' eid' = Inr (e, False, db')"
  using assms(1)
proof (cases rule: append_cases)
  case (new row)
  then have "find_by_key db' (fst k) (ea_key a) = Some e"
    using assms(2) find_by_key_append [of db k "ea_key a" e]
    by (simp add: make_event_def)
  then show ?thesis using assms(3) by (simp add: append_incident_event_def)
qed simp

end
