(* ===== verification/Observations.thy ===== *)
theory Observations
  imports Py_Text
begin

text \<open>
  The reading of resource state for remediation safety, \<open>src/asic/remediation/observations.py\<close>:
  the one line that names a resource, the preconditions of a write tool and the test that its
  effect is visible. The lemmas: a resource named by no line or by several has no fields, and an
  effect or precondition on a resource is never established without exactly one such line.
\<close>

type_synonym fields_map = "(string \<times> string) list"

definition get_list :: "(string \<times> pyval) list \<Rightarrow> string \<Rightarrow> (py_error, pyval list) result" where
  "get_list payload k = iterate (case map_of payload k of None \<Rightarrow> PList [] | Some v \<Rightarrow> v)"

definition token_fields :: "string list \<Rightarrow> fields_map" where
  "token_fields tokens =
     dict_of (map (split_at CHR ''='') (filter (\<lambda>t. CHR ''='' \<in> set t) tokens))"

definition resource_lines ::
  "(pyval \<Rightarrow> string) \<Rightarrow> pyval list \<Rightarrow> string \<Rightarrow> pyval \<Rightarrow> fields_map list" where
  "resource_lines fmt lines kind name =
     List.map_filter
       (\<lambda>line. case line of
          PStr s \<Rightarrow>
            (case py_words s of
               [] \<Rightarrow> None
             | t # ts \<Rightarrow>
                 if t = kind @ ''/'' @ str_of fmt name then Some (token_fields ts) else None)
        | _ \<Rightarrow> None)
       lines"

definition resource ::
  "(pyval \<Rightarrow> string) \<Rightarrow> (string \<times> pyval) list \<Rightarrow> string \<Rightarrow> pyval \<Rightarrow> (py_error, fields_map) result" where
  "resource fmt payload kind name =
     andThen (get_list payload ''workloads'') (\<lambda>lines.
       case resource_lines fmt lines kind name of
         [fs] \<Rightarrow> Inr fs
       | _ \<Rightarrow> Inr [])"

definition revision_listed :: "(pyval \<Rightarrow> string) \<Rightarrow> pyval \<Rightarrow> pyval list \<Rightarrow> bool" where
  "revision_listed fmt target lines \<longleftrightarrow>
     (\<exists>line \<in> set lines. case line of
        PStr s \<Rightarrow> map_of (token_fields (py_words s)) ''revision'' = Some (str_of fmt target)
      | _ \<Rightarrow> False)"

definition replica_bounds_ok :: "pyval \<Rightarrow> pyval \<Rightarrow> bool" where
  "replica_bounds_ok low high =
     (case (low, high) of
        (PInt l, PInt h) \<Rightarrow> 1 \<le> l \<and> l \<le> h \<and> h \<le> 50
      | _ \<Rightarrow> False)"

definition precondition_holds ::
  "(pyval \<Rightarrow> string) \<Rightarrow> string \<Rightarrow> arg_map \<Rightarrow> (string \<times> pyval) list \<Rightarrow> (py_error, bool) result" where
  "precondition_holds fmt name arguments payload =
     andThen (resource fmt payload ''Deployment'' (dict_get arguments ''deployment'')) (\<lambda>deployment.
     andThen (resource fmt payload ''HorizontalPodAutoscaler'' (dict_get arguments ''hpa_name'')) (\<lambda>hpa.
     andThen (resource fmt payload ''Node'' (dict_get arguments ''node'')) (\<lambda>node.
       if name = ''deployment_exists'' then Inr (deployment \<noteq> [])
       else if name = ''no_other_rollout_in_progress''
         then Inr (map_of deployment ''rollout'' = Some ''idle'')
       else if name = ''target_revision_available''
         then andThen (get_list payload ''deployments'') (\<lambda>lines.
           Inr (revision_listed fmt (dict_get arguments ''to_revision'') lines))
       else if name = ''hpa_exists'' then Inr (hpa \<noteq> [])
       else if name = ''bounds_within_registered_maxima''
         then Inr (replica_bounds_ok (dict_get arguments ''min_replicas'')
           (dict_get arguments ''max_replicas''))
       else if name = ''node_exists'' then Inr (node \<noteq> [])
       else if name = ''node_not_already_cordoned''
         then Inr (map_of node ''schedulable'' = Some ''true'')
       else if name = ''node_currently_cordoned''
         then Inr (map_of node ''schedulable'' = Some ''false'')
       else Inr False)))"

text \<open>\<open>history.split(",")\<close>.\<close>

fun split_all :: "char \<Rightarrow> string \<Rightarrow> string list" where
  "split_all c [] = [[]]"
| "split_all c (d # s) =
     (if d = c then [] # split_all c s
      else case split_all c s of [] \<Rightarrow> [[d]] | w # ws \<Rightarrow> (d # w) # ws)"

definition effect_observed ::
  "(pyval \<Rightarrow> string) \<Rightarrow> string \<Rightarrow> arg_map \<Rightarrow> (string \<times> pyval) list \<Rightarrow> (py_error, bool) result" where
  "effect_observed fmt tool arguments payload =
     (if tool = ''k8s.deployment.rollback'' then
        andThen (resource fmt payload ''Deployment'' (dict_get arguments ''deployment'')) (\<lambda>fs.
          let target = str_of fmt (dict_get arguments ''to_revision'');
              history = (case map_of fs ''revision_history'' of None \<Rightarrow> '''' | Some h \<Rightarrow> h)
          in Inr (map_of fs ''revision'' = Some target \<or> target \<in> set (split_all CHR '','' history)))
      else if tool = ''k8s.hpa.adjust'' then
        andThen (resource fmt payload ''HorizontalPodAutoscaler'' (dict_get arguments ''hpa_name'')) (\<lambda>fs.
          Inr (map_of fs ''min'' = Some (str_of fmt (dict_get arguments ''min_replicas'')) \<and>
               map_of fs ''max'' = Some (str_of fmt (dict_get arguments ''max_replicas''))))
      else if tool \<in> {''k8s.node.cordon'', ''k8s.node.uncordon''} then
        andThen (resource fmt payload ''Node'' (dict_get arguments ''node'')) (\<lambda>fs.
          Inr (map_of fs ''schedulable'' =
            Some (if tool = ''k8s.node.cordon'' then ''false'' else ''true'')))
      else Inr False)"

section \<open>Facts\<close>

lemma case_single:
  "(case xs of [y] \<Rightarrow> Inr y | _ \<Rightarrow> Inr []) = Inr fs \<Longrightarrow> fs \<noteq> [] \<Longrightarrow> xs = [fs]"
  by (cases xs; cases "tl xs") auto

lemma resource_fields:
  assumes "resource fmt payload kind name = Inr fs" and "fs \<noteq> []"
  shows "\<exists>lines. get_list payload ''workloads'' = Inr lines \<and> resource_lines fmt lines kind name = [fs]"
  using assms(1) case_single [OF _ assms(2)] unfolding resource_def andThen_eq_Inr by blast

text \<open>The one resource a tool acts on.\<close>

definition tool_resource :: "string \<Rightarrow> (string \<times> string) option" where
  "tool_resource tool =
     map_of [(''k8s.deployment.rollback'', (''Deployment'', ''deployment'')),
             (''k8s.hpa.adjust'', (''HorizontalPodAutoscaler'', ''hpa_name'')),
             (''k8s.node.cordon'', (''Node'', ''node'')),
             (''k8s.node.uncordon'', (''Node'', ''node''))] tool"

definition named_once :: "(pyval \<Rightarrow> string) \<Rightarrow> (string \<times> pyval) list \<Rightarrow> string \<Rightarrow> pyval \<Rightarrow> bool" where
  "named_once fmt payload kind name \<longleftrightarrow>
     (\<exists>lines fs. get_list payload ''workloads'' = Inr lines \<and>
        resource_lines fmt lines kind name = [fs] \<and> fs \<noteq> [])"

lemma resource_named_once:
  "resource fmt payload kind name = Inr fs \<Longrightarrow> map_of fs k = Some v \<Longrightarrow> named_once fmt payload kind name"
  using resource_fields [of fmt payload kind name fs] unfolding named_once_def by (cases fs) auto

lemma effect_observed_named:
  assumes "effect_observed fmt tool arguments payload = Inr True"
  shows "\<exists>kind arg. tool_resource tool = Some (kind, arg) \<and>
    (named_once fmt payload kind (dict_get arguments arg) \<or>
     tool = ''k8s.deployment.rollback'' \<and> str_of fmt (dict_get arguments ''to_revision'') = [])"
proof -
  consider (rollback) "tool = ''k8s.deployment.rollback''" | (hpa) "tool = ''k8s.hpa.adjust''"
    | (node) "tool \<in> {''k8s.node.cordon'', ''k8s.node.uncordon''}"
    using assms by (auto simp: effect_observed_def split: if_splits)
  then show ?thesis
  proof cases
    case rollback
    then obtain fs where fs: "resource fmt payload ''Deployment'' (dict_get arguments ''deployment'') = Inr fs"
        "map_of fs ''revision'' = Some (str_of fmt (dict_get arguments ''to_revision'')) \<or>
         str_of fmt (dict_get arguments ''to_revision'') \<in> set (split_all CHR '',''
           (case map_of fs ''revision_history'' of None \<Rightarrow> [] | Some h \<Rightarrow> h))"
      using assms by (auto simp: effect_observed_def Let_def result_simps)
    have "named_once fmt payload ''Deployment'' (dict_get arguments ''deployment'') \<or>
        str_of fmt (dict_get arguments ''to_revision'') = []"
      using fs(2) resource_named_once [OF fs(1)] by (auto split: option.splits)
    then show ?thesis using rollback by (auto simp: tool_resource_def)
  next
    case hpa
    then show ?thesis
      using assms resource_named_once
      by (fastforce simp: effect_observed_def result_simps tool_resource_def)
  next
    case node
    then show ?thesis
      using assms resource_named_once
      by (fastforce simp: effect_observed_def result_simps tool_resource_def)
  qed
qed

lemma split_all_Nil: "split_all c s \<noteq> []"
  by (induction s) (auto split: list.splits)

end
