(* ===== verification/Verification_Profile.thy ===== *)
theory Verification_Profile
  imports Observations
begin

text \<open>
  The deterministic verification policy, \<open>src/asic/remediation/verification.py\<close>: the registered
  profiles, the selection of a profile by a proposal or by frozen criteria; and the judgement
  \<open>_evaluate\<close> of the verifier (\<open>src/asic/orchestration/remediation/nodes/verifier.py\<close>) from the
  moment both measurements are at hand. Thresholds are exact rationals. The lemmas: whatever a
  proposal says, the profile that judges is a registered one, and criteria frozen under a version
  keep selecting that version.
\<close>

record VerificationProfile =
  vp_profile_id :: string
  vp_profile_version :: int
  vp_source_capability :: string
  vp_metric :: string
  vp_direction :: string
  vp_operator :: string
  vp_threshold :: rat
  vp_window_seconds :: int
  vp_minimum_samples :: int
  vp_require_improvement :: bool
  vp_max_baseline_age_seconds :: int
  vp_approved_sources :: "string list"

definition profile_to_dict :: "VerificationProfile \<Rightarrow> arg_map" where
  "profile_to_dict p =
     [(''profile_id'', PStr (vp_profile_id p)),
      (''profile_version'', PInt (vp_profile_version p)),
      (''source_capability'', PStr (vp_source_capability p)),
      (''metric'', PStr (vp_metric p)),
      (''direction'', PStr (vp_direction p)),
      (''operator'', PStr (vp_operator p)),
      (''threshold'', PFloat (vp_threshold p)),
      (''window_seconds'', PInt (vp_window_seconds p)),
      (''minimum_samples'', PInt (vp_minimum_samples p)),
      (''require_improvement'', PBool (vp_require_improvement p)),
      (''max_baseline_age_seconds'', PInt (vp_max_baseline_age_seconds p)),
      (''approved_sources'', PList (map PStr (vp_approved_sources p)))]"

definition LATENCY_RECOVERY_V1 :: VerificationProfile where
  "LATENCY_RECOVERY_V1 =
     \<lparr>vp_profile_id = ''latency-p95-recovery-v1'', vp_profile_version = 1,
      vp_source_capability = ''read.metrics'', vp_metric = ''http_request_duration_p95_seconds'',
      vp_direction = ''decrease'', vp_operator = ''<'', vp_threshold = 25 / 100,
      vp_window_seconds = 300, vp_minimum_samples = 1, vp_require_improvement = True,
      vp_max_baseline_age_seconds = 300, vp_approved_sources = [''prometheus-simulator'']\<rparr>"

definition LATENCY_RECOVERY_V2 :: VerificationProfile where
  "LATENCY_RECOVERY_V2 = LATENCY_RECOVERY_V1
     \<lparr>vp_profile_id := ''latency-p95-recovery-v2'', vp_profile_version := 2,
      vp_approved_sources := [''prometheus'', ''prometheus-simulator'']\<rparr>"

definition PROFILE_TOOLS :: "string list" where
  "PROFILE_TOOLS =
     [''k8s.deployment.rollback'', ''k8s.hpa.adjust'', ''k8s.node.cordon'', ''k8s.node.uncordon'']"

definition PROFILES :: "(string \<times> VerificationProfile) list" where
  "PROFILES = map (\<lambda>t. (t, LATENCY_RECOVERY_V2)) PROFILE_TOOLS"

definition PROFILE_HISTORY :: "(string \<times> VerificationProfile list) list" where
  "PROFILE_HISTORY = map (\<lambda>t. (t, [LATENCY_RECOVERY_V1, LATENCY_RECOVERY_V2])) PROFILE_TOOLS"

definition profile_for :: "string \<Rightarrow> (py_error, VerificationProfile) result" where
  "profile_for tool =
     (case map_of PROFILES tool of None \<Rightarrow> Inl SchemaViolation | Some p \<Rightarrow> Inr p)"

definition profile_for_criteria :: "string \<Rightarrow> arg_map \<Rightarrow> (py_error, VerificationProfile) result" where
  "profile_for_criteria tool criteria =
     andThen (profile_for tool) (\<lambda>_.
       case map_of PROFILE_HISTORY tool of
         None \<Rightarrow> Inl KeyError
       | Some ps \<Rightarrow>
           (case List.find (\<lambda>p. py_eq (PDict (profile_to_dict p)) (PDict criteria)) ps of
              None \<Rightarrow> Inl SchemaViolation
            | Some p \<Rightarrow> Inr p))"

text \<open>The three forms a proposal may take.\<close>

definition permitted_forms :: "VerificationProfile \<Rightarrow> arg_map list" where
  "permitted_forms p =
     [profile_to_dict p,
      [(''metric'', PStr (vp_metric p)), (''operator'', PStr (vp_operator p)),
       (''threshold'', PFloat (vp_threshold p)), (''window_seconds'', PInt (vp_window_seconds p))],
      [(''profile_id'', PStr (vp_profile_id p))]]"

definition require_permitted_proposal ::
  "string \<Rightarrow> arg_map \<Rightarrow> (py_error, VerificationProfile) result" where
  "require_permitted_proposal tool proposed =
     andThen (profile_for tool) (\<lambda>p.
       if \<exists>f \<in> set (permitted_forms p). py_eq (PDict proposed) (PDict f) then Inr p
       else Inl SchemaViolation)"

section \<open>The judgement\<close>

record judgement =
  jd_verdict :: VerificationVerdict
  jd_threshold_passed :: bool
  jd_direction_passed :: bool
  jd_margin :: rat

text \<open>
  Both measurements at hand. Python's \<open>round(x, 6)\<close> of a float is the nearest multiple of
  \<open>10\<^sup>-\<^sup>6\<close>, ties to even.
\<close>

definition round_half_even :: "rat \<Rightarrow> int" where
  "round_half_even x =
     (let f = floor x; d = x - of_int f in
      if d < 1 / 2 then f else if 1 / 2 < d then f + 1 else if even f then f else f + 1)"

definition round6 :: "rat \<Rightarrow> rat" where
  "round6 x = of_int (round_half_even (x * 1000000)) / 1000000"

definition judge :: "VerificationProfile \<Rightarrow> rat \<Rightarrow> rat \<Rightarrow> judgement" where
  "judge profile baseline_value observed_value =
     (let threshold_passed = observed_value < vp_threshold profile;
          direction_passed =
            (if vp_direction profile = ''decrease'' then observed_value < baseline_value
             else baseline_value < observed_value);
          passed = (threshold_passed \<and> (direction_passed \<or> \<not> vp_require_improvement profile))
      in \<lparr>jd_verdict = (if passed then VerificationVerdict.VERIFIED
                       else VerificationVerdict.NOT_VERIFIED),
          jd_threshold_passed = threshold_passed, jd_direction_passed = direction_passed,
          jd_margin = round6 (observed_value - vp_threshold profile)\<rparr>)"

text \<open>
  The verdict of \<open>_evaluate\<close>: the criteria must be the profile's own, the baseline trusted
  and the observation present (\<open>None\<close> when the read failed or was refused).
\<close>

definition evaluate_verdict ::
  "VerificationProfile \<Rightarrow> arg_map \<Rightarrow> bool \<Rightarrow> rat \<Rightarrow> rat option \<Rightarrow> VerificationVerdict" where
  "evaluate_verdict profile criteria baseline_trusted baseline_value observation =
     (if \<not> py_eq (PDict criteria) (PDict (profile_to_dict profile))
      then VerificationVerdict.INCONCLUSIVE
      else if \<not> baseline_trusted then VerificationVerdict.INCONCLUSIVE
      else case observation of
        None \<Rightarrow> VerificationVerdict.INCONCLUSIVE
      | Some observed \<Rightarrow> jd_verdict (judge profile baseline_value observed))"

section \<open>Facts\<close>

lemma profile_for_Inr:
  "profile_for tool = Inr p \<longleftrightarrow> tool \<in> set PROFILE_TOOLS \<and> p = LATENCY_RECOVERY_V2"
  by (auto simp: profile_for_def PROFILES_def map_of_map_restrict o_def restrict_map_def
      split: if_splits)

lemma history_of:
  "tool \<in> set PROFILE_TOOLS \<Longrightarrow>
   map_of PROFILE_HISTORY tool = Some [LATENCY_RECOVERY_V1, LATENCY_RECOVERY_V2]"
  by (simp add: PROFILE_HISTORY_def map_of_map_restrict)

lemma profiles_differ:
  "py_eq (PDict (profile_to_dict LATENCY_RECOVERY_V1)) (PDict (profile_to_dict LATENCY_RECOVERY_V1))"
  "py_eq (PDict (profile_to_dict LATENCY_RECOVERY_V2)) (PDict (profile_to_dict LATENCY_RECOVERY_V2))"
  "\<not> py_eq (PDict (profile_to_dict LATENCY_RECOVERY_V1)) (PDict (profile_to_dict LATENCY_RECOVERY_V2))"
  by code_simp+

text \<open>Criteria frozen under a registered version select exactly that version.\<close>

lemma frozen_criteria_select:
  assumes "tool \<in> set PROFILE_TOOLS" and "p \<in> {LATENCY_RECOVERY_V1, LATENCY_RECOVERY_V2}"
  shows "profile_for_criteria tool (profile_to_dict p) = Inr p"
proof -
  have "profile_for tool = Inr LATENCY_RECOVERY_V2" using assms(1) by (simp add: profile_for_Inr)
  then show ?thesis
    using assms(2) history_of [OF assms(1)] profiles_differ
    by (auto simp: profile_for_criteria_def simp del: py_eq.simps)
qed

lemma criteria_registered:
  assumes "profile_for_criteria tool c = Inr p"
  shows "tool \<in> set PROFILE_TOOLS \<and> p \<in> {LATENCY_RECOVERY_V1, LATENCY_RECOVERY_V2} \<and>
    py_eq (PDict (profile_to_dict p)) (PDict c)"
proof -
  obtain q where "profile_for tool = Inr q"
    using assms by (auto simp: profile_for_criteria_def result_simps)
  then have t: "tool \<in> set PROFILE_TOOLS" by (simp add: profile_for_Inr)
  then have found: "List.find (\<lambda>p. py_eq (PDict (profile_to_dict p)) (PDict c))
      [LATENCY_RECOVERY_V1, LATENCY_RECOVERY_V2] = Some p"
    using assms history_of [OF t]
    by (auto simp: profile_for_criteria_def result_simps simp del: py_eq.simps List.find.simps
        split: option.splits)
  show ?thesis using t find_SomeD [OF found] by (simp del: py_eq.simps)
qed

lemma proposal_registered:
  "require_permitted_proposal tool proposed = Inr p \<Longrightarrow> profile_for tool = Inr p"
  by (auto simp: require_permitted_proposal_def result_simps simp del: py_eq.simps split: if_splits)

lemma judge_verified:
  "jd_verdict (judge p b v) = VerificationVerdict.VERIFIED \<longleftrightarrow>
     v < vp_threshold p \<and>
     (vp_require_improvement p \<longrightarrow> (if vp_direction p = ''decrease'' then v < b else b < v))"
  by (auto simp: judge_def Let_def)

lemma evaluate_verified:
  "evaluate_verdict p c trusted b obs = VerificationVerdict.VERIFIED \<longleftrightarrow>
     py_eq (PDict c) (PDict (profile_to_dict p)) \<and> trusted \<and>
     (\<exists>v. obs = Some v \<and> jd_verdict (judge p b v) = VerificationVerdict.VERIFIED)"
  by (auto simp: evaluate_verdict_def simp del: py_eq.simps split: option.split)

end
