(* ===== verification/Remediation_World.thy ===== *)
theory Remediation_World
  imports Graph_State Model_Budget Dispatch_Recovery Event_Log_Run Observations Verification_Profile
    Node_Contracts
begin

text \<open>
  What the nodes of the remediation graph share: the references they return
  (\<open>src/asic/contracts/remediation_state.py\<close>), their dependencies
  (\<open>orchestration/remediation/context.py\<close>), the database they work on, and the statements they
  issue against it. A node is a function from the world to a result and the new world; an
  exception keeps the world of the moment it was raised, and \<open>rolled_back\<close> says what of it
  survives the rollback of the unit of work: the effect claims, the calls the adapters received,
  the execution intents and the model calls, which are committed in transactions of their own.
\<close>

section \<open>References and updates\<close>

record RemediationActionRef =
  rf_action :: string
  rf_tool_name :: string
  rf_tool_version :: string
  rf_capability :: string
  rf_risk_tier :: RiskTier
  rf_status :: RemediationActionStatus
  rf_version_hash :: string
  rf_approval_required :: bool

record PolicyDecisionRef =
  pf_verdict :: PolicyVerdict
  pf_rule :: string
  pf_signals :: "string list"

record ApprovalRef =
  af_approval :: string
  af_decision :: "ApprovalDecision option"
  af_expires_at :: int

record VerificationRef =
  vf_verification :: string
  vf_attempt :: nat
  vf_verdict :: VerificationVerdict
  vf_margin :: "rat option"

datatype update_value =
    UText string
  | UFlag bool
  | UNone
  | UAction RemediationActionRef
  | UPolicy PolicyDecisionRef
  | UApproval ApprovalRef
  | UVerification VerificationRef
  | UBudget BudgetSnapshot
  | UFailures "NodeFailureRef list"

type_synonym node_update = "(string \<times> update_value) list"

section \<open>The world\<close>

record baseline_row =
  bl_id :: string
  bl_tenant :: string
  bl_incident :: string
  bl_target :: string
  bl_action :: string
  bl_service :: string
  bl_environment :: string
  bl_profile :: string
  bl_profile_version :: int
  bl_criteria_hash :: string
  bl_metric :: string
  bl_capability :: string
  bl_provider :: string
  bl_execution :: string
  bl_observed_at :: int
  bl_captured_at :: int
  bl_value :: rat
  bl_provenance :: string

record verification_row =
  ve_id :: string
  ve_tenant :: string
  ve_action :: string
  ve_baseline :: "string option"
  ve_execution :: "string option"
  ve_profile :: "string option"
  ve_profile_version :: "int option"
  ve_metric :: "string option"
  ve_value :: "rat option"
  ve_observed_at :: "int option"
  ve_provider :: "string option"
  ve_capability :: "string option"
  ve_provenance :: "string option"
  ve_attempt :: nat
  ve_callback_key :: string
  ve_criteria_hash :: string
  ve_verdict :: VerificationVerdict
  ve_observed :: arg_map
  ve_baseline_json :: arg_map
  ve_margin :: "rat option"
  ve_window_start :: int
  ve_window_end :: int
  ve_verified_at :: int

record hypothesis_row =
  hy_id :: string
  hy_tenant :: string
  hy_incident :: string
  hy_run :: string
  hy_class :: string
  hy_statement :: string
  hy_confidence :: rat
  hy_status :: HypothesisStatus

record evidence_row =
  ev_id :: string
  ev_tenant :: string
  ev_domain :: EvidenceDomain
  ev_content :: arg_map
  ev_gathered_at :: int

record link_row =
  hl_hypothesis :: string
  hl_evidence :: string
  hl_relation :: EvidenceRelation

text \<open>\<open>rw_incidents\<close> lists the keys of the incident table: tenant, incident, environment.\<close>

record remediation_world =
  rw_broker :: broker_state
  rw_log :: log_db
  rw_incidents :: "(string \<times> string \<times> string) list"
  rw_hypotheses :: "hypothesis_row list"
  rw_evidence :: "evidence_row list"
  rw_links :: "link_row list"
  rw_baselines :: "baseline_row list"
  rw_verifications :: "verification_row list"
  rw_intents :: "(string \<times> string) list"
  rw_models :: model_db

definition rw_db :: "remediation_world \<Rightarrow> remediation_db" where
  "rw_db w = bk_remediation (bs_db (rw_broker w))"

definition with_db :: "remediation_db \<Rightarrow> remediation_world \<Rightarrow> remediation_world" where
  "with_db db w =
     w\<lparr>rw_broker := (rw_broker w)\<lparr>bs_db := (bs_db (rw_broker w))\<lparr>bk_remediation := db\<rparr>\<rparr>\<rparr>"

definition update_actions :: "(action_row \<Rightarrow> action_row) \<Rightarrow> remediation_world \<Rightarrow> remediation_world" where
  "update_actions f w = with_db ((rw_db w)\<lparr>rd_actions := map f (rd_actions (rw_db w))\<rparr>) w"

text \<open>What a rollback of the unit of work that began at \<open>w0\<close> leaves of \<open>w\<close>.\<close>

definition rolled_back :: "remediation_world \<Rightarrow> remediation_world \<Rightarrow> remediation_world" where
  "rolled_back w0 w =
     (let new_intents = drop (length (rw_intents w0)) (rw_intents w);
          kept = fold (\<lambda>(t, a). update_actions
              (set_status t a PRE_DISPATCH RemediationActionStatus.EXECUTING)) new_intents w0
      in kept\<lparr>rw_broker := (rw_broker kept)\<lparr>bs_claims := bs_claims (rw_broker w),
                bs_calls := bs_calls (rw_broker w)\<rparr>,
              rw_intents := rw_intents w, rw_models := rw_models w\<rparr>)"

section \<open>Dependencies of a node\<close>

text \<open>\<open>nd_message\<close> is the text of a failure, which the model does not build.\<close>

record node_deps =
  nd_tenant :: string
  nd_incident :: string
  nd_correlation :: string
  nd_service :: string
  nd_service_name :: string
  nd_environment :: string
  nd_environment_name :: string
  nd_broker :: broker
  nd_message :: "BrokerFailure \<Rightarrow> string"

text \<open>
  What a node draws from outside, in the order of its readings: the clock, the inputs of its
  broker calls, the identifiers it generates.
\<close>

record node_inputs =
  ni_clock :: "nat \<Rightarrow> int"
  ni_calls :: "nat \<Rightarrow> call_inputs"
  ni_ids :: "nat \<Rightarrow> string"

definition stream_of_run :: "node_deps \<Rightarrow> stream" where
  "stream_of_run d = (nd_tenant d, nd_incident d)"

section \<open>Steps\<close>

type_synonym 'a step = "remediation_world \<Rightarrow> (py_error, 'a) result \<times> remediation_world"

definition sreturn :: "'a \<Rightarrow> 'a step" where "sreturn x w = (Inr x, w)"

definition slift :: "(py_error, 'a) result \<Rightarrow> 'a step" where "slift r w = (r, w)"

definition sthen :: "'a step \<Rightarrow> ('a \<Rightarrow> 'b step) \<Rightarrow> 'b step" where
  "sthen m f w = (case m w of (Inl e, w') \<Rightarrow> (Inl e, w') | (Inr x, w') \<Rightarrow> f x w')"

definition sread :: "(remediation_world \<Rightarrow> (py_error, 'a) result) \<Rightarrow> 'a step" where
  "sread f w = (f w, w)"

definition smodify :: "(remediation_world \<Rightarrow> remediation_world) \<Rightarrow> unit step" where
  "smodify f w = (Inr (), f w)"

definition find_run_action :: "node_deps \<Rightarrow> string \<Rightarrow> action_row step" where
  "find_run_action d action = sread (\<lambda>w.
     scalar_one (filter (\<lambda>a. ac_tenant a = nd_tenant d \<and> ac_id a = action) (rd_actions (rw_db w))))"

definition load_incident :: "node_deps \<Rightarrow> incident_row step" where
  "load_incident d = sread (\<lambda>w.
     case db_incidents (rw_log w) (stream_of_run d) of None \<Rightarrow> Inl NoResultFound | Some r \<Rightarrow> Inr r)"

definition move_incident :: "node_deps \<Rightarrow> transition_args \<Rightarrow> int \<Rightarrow> string \<Rightarrow> unit step" where
  "move_incident d a now eid w =
     (case apply_transition (rw_log w) (stream_of_run d) a now eid of
        Inl e \<Rightarrow> (Inl e, w)
      | Inr (_, db) \<Rightarrow> (Inr (), w\<lparr>rw_log := db\<rparr>))"

definition append_event :: "node_deps \<Rightarrow> event_args \<Rightarrow> int \<Rightarrow> string \<Rightarrow> unit step" where
  "append_event d a now eid w =
     (case append_incident_event (rw_log w) (stream_of_run d) a now eid of
        Inl e \<Rightarrow> (Inl e, w)
      | Inr (_, _, db) \<Rightarrow> (Inr (), w\<lparr>rw_log := db\<rparr>))"

text \<open>The event a node appends about an action, under the key of its type and the action.\<close>

definition action_event ::
  "node_deps \<Rightarrow> NodeId \<Rightarrow> IncidentEventType \<Rightarrow> ActorType \<Rightarrow> string \<Rightarrow> payload \<Rightarrow> string option \<Rightarrow>
   int \<Rightarrow> string \<Rightarrow> unit step" where
  "action_event d node type actor action payload discriminator now eid =
     sthen (slift (incident_event_key (br_keys (nd_broker d)) (nd_tenant d) (nd_incident d)
         (IncidentEventType_value type) (PUUID action) discriminator)) (\<lambda>key.
       append_event d
         \<lparr>ea_type = type, ea_source = NodeId_value node, ea_actor_type = actor,
          ea_correlation = nd_correlation d, ea_provenance = ProvenanceLabel.SYSTEM,
          ea_actor_id = None, ea_causation = None, ea_occurred_at = None, ea_payload = payload,
          ea_version = 1, ea_key = Some key\<rparr> now eid)"

definition run_transition ::
  "node_deps \<Rightarrow> NodeId \<Rightarrow> IncidentStatus \<Rightarrow> ActorType \<Rightarrow> string option \<Rightarrow> TerminationReason option \<Rightarrow>
   int \<Rightarrow> string \<Rightarrow> unit step" where
  "run_transition d node target actor actor_id reason now eid =
     move_incident d
       \<lparr>ta_target = target, ta_actor_type = actor, ta_source = NodeId_value node,
        ta_correlation = nd_correlation d, ta_actor_id = actor_id, ta_reason = reason,
        ta_justification = None\<rparr> now eid"

definition call_broker ::
  "node_deps \<Rightarrow> NodeContract \<Rightarrow> CapabilityRequest \<Rightarrow> call_inputs \<Rightarrow> ToolResult step" where
  "call_broker d contract q ci w =
     (case invoke (nd_broker d) (rw_broker w) q contract ci of
        (r, st) \<Rightarrow> (r, w\<lparr>rw_broker := st\<rparr>))"

text \<open>\<open>AuditWriter.record\<close> for an event about an action; the payload is not kept.\<close>

definition ALLOWED_OUTCOMES :: "string list" where
  "ALLOWED_OUTCOMES =
     [''allowed'', ''denied'', ''succeeded'', ''failed'', ''requested'', ''expired'', ''invalidated'',
      ''recorded'']"

definition record_audit :: "node_deps \<Rightarrow> AuditEventType \<Rightarrow> string \<Rightarrow> string \<Rightarrow> unit step" where
  "record_audit d event outcome action w =
     (if outcome \<notin> set ALLOWED_OUTCOMES then (Inl ValueError, w)
      else (Inr (), w\<lparr>rw_broker := (rw_broker w)\<lparr>bs_db := (bs_db (rw_broker w))\<lparr>bk_audit :=
        bk_audit (bs_db (rw_broker w)) @
          [\<lparr>au_tenant = nd_tenant d, au_event = event, au_outcome = outcome,
            au_incident = nd_incident d, au_target_type = ''remediation_action'',
            au_target_id = action, au_effect_key = None, au_dispatch_claimed = False,
            au_stage = None, au_execution = None\<rparr>]\<rparr>\<rparr>\<rparr>))"

definition return_update :: "NodeContract \<Rightarrow> node_update \<Rightarrow> node_update step" where
  "return_update contract update =
     sthen (slift (validate_update contract update)) (\<lambda>_. sreturn update)"

end
