(* ===== verification/Termination.thy ===== *)
theory Termination
  imports Graph_State
begin

text \<open>
  The deterministic termination rules, \<open>src/asic/orchestration/termination.py\<close>. The rule
  table is the list \<open>RULES\<close> of predicates and verdicts and \<open>decide\<close> takes the first match,
  as the code does; \<open>AssertionError\<close> is the end of the loop. The human-readable
  explanation of a verdict is left out. The lemmas: the table is total, which outcome each
  rule gives, and that no rule reports success or a resolved incident.
\<close>

definition MIN_ACTIONABLE_CONFIDENCE :: rat where "MIN_ACTIONABLE_CONFIDENCE = 55 / 100"
definition MIN_EVIDENCE_FOR_CONCLUSION :: int where "MIN_EVIDENCE_FOR_CONCLUSION = 2"
definition MIN_DOMAIN_COVERAGE :: rat where "MIN_DOMAIN_COVERAGE = 1 / 2"

section \<open>The strongest live hypothesis\<close>

text \<open>
  The dictionary keyed by id: an update keeps the key's position, a new key goes to the
  end, as \<open>AList.update\<close> does.
\<close>

definition latest_hypotheses :: "HypothesisRef list \<Rightarrow> (string \<times> HypothesisRef) list" where
  "latest_hypotheses hs = fold (\<lambda>h d. AList.update (hypothesis_id h) h d) hs []"

definition live :: "HypothesisRef \<Rightarrow> bool" where
  "live h \<longleftrightarrow> hyp_status h \<in> {HypothesisStatus.PROPOSED, HypothesisStatus.ACCEPTED}"

text \<open>The key \<open>(confidence, -rank)\<close>, compared as Python compares tuples.\<close>

definition weaker :: "HypothesisRef \<Rightarrow> HypothesisRef \<Rightarrow> bool" where
  "weaker a b \<longleftrightarrow>
     confidence a < confidence b \<or> confidence a = confidence b \<and> - hyp_rank a < - hyp_rank b"

text \<open>\<open>max(candidates, key=...)\<close> keeps the first of several maximal elements.\<close>

fun py_max :: "('a \<Rightarrow> 'a \<Rightarrow> bool) \<Rightarrow> 'a \<Rightarrow> 'a list \<Rightarrow> 'a" where
  "py_max lt best [] = best"
| "py_max lt best (x # xs) = py_max lt (if lt best x then x else best) xs"

definition best_hypothesis_of :: "HypothesisRef list \<Rightarrow> HypothesisRef option" where
  "best_hypothesis_of hs =
     (case filter live (map snd (latest_hypotheses hs)) of
        [] \<Rightarrow> None
      | c # cs \<Rightarrow> Some (py_max weaker c cs))"

definition domain_coverage_of :: "string list \<Rightarrow> string list \<Rightarrow> rat" where
  "domain_coverage_of attempted_domains degraded_domains =
     (let attempted = set attempted_domains in
      if attempted = {} then 0
      else of_nat (card (attempted - set degraded_domains)) / of_nat (card attempted))"

definition is_actionable :: "HypothesisRef option \<Rightarrow> rat \<Rightarrow> bool" where
  "is_actionable best domain_coverage =
     (case best of
        None \<Rightarrow> False
      | Some b \<Rightarrow>
          MIN_ACTIONABLE_CONFIDENCE \<le> confidence b \<and>
          MIN_EVIDENCE_FOR_CONCLUSION \<le> supporting_evidence_count b \<and>
          contradicting_evidence_count b = 0 \<and>
          MIN_DOMAIN_COVERAGE \<le> domain_coverage)"

lemma py_max_in: "py_max lt b xs \<in> insert b (set xs)"
  by (induction xs arbitrary: b) auto

lemma latest_distinct: "distinct (map fst (latest_hypotheses hs))"
proof -
  have "distinct (map fst d) \<Longrightarrow>
      distinct (map fst (fold (\<lambda>h d. AList.update (hypothesis_id h) h d) hs d))" for d
    by (induction hs arbitrary: d) (auto intro: distinct_update)
  then show ?thesis by (simp add: latest_hypotheses_def)
qed

text \<open>A key of the dictionary maps to the last reference with that id.\<close>

lemma map_of_latest:
  "map_of (latest_hypotheses hs) i = List.find (\<lambda>h. hypothesis_id h = i) (rev hs)"
proof -
  have "map_of (fold (\<lambda>h d. AList.update (hypothesis_id h) h d) hs d) i =
      (case List.find (\<lambda>h. hypothesis_id h = i) (rev hs) of None \<Rightarrow> map_of d i | Some h \<Rightarrow> Some h)"
    for d
  proof (induction hs rule: rev_induct)
    case (snoc h hs)
    then show ?case by (simp add: update_conv')
  qed simp
  then show ?thesis by (simp add: latest_hypotheses_def split: option.split)
qed

lemma latest_mem:
  "h \<in> set (map snd (latest_hypotheses hs)) \<longleftrightarrow>
   List.find (\<lambda>g. hypothesis_id g = hypothesis_id h) (rev hs) = Some h"
proof -
  let ?L = "latest_hypotheses hs"
  have "h \<in> set (map snd ?L) \<longleftrightarrow> (\<exists>k. (k, h) \<in> set ?L)" by force
  also have "\<dots> \<longleftrightarrow> (\<exists>k. map_of ?L k = Some h)"
    using latest_distinct by (metis map_of_eq_Some_iff)
  also have "\<dots> \<longleftrightarrow> (\<exists>k. List.find (\<lambda>g. hypothesis_id g = k) (rev hs) = Some h)"
    by (simp add: map_of_latest)
  also have "\<dots> \<longleftrightarrow> List.find (\<lambda>g. hypothesis_id g = hypothesis_id h) (rev hs) = Some h"
    using find_SomeD [of "\<lambda>g. hypothesis_id g = k" "rev hs" h for k] by blast
  finally show ?thesis .
qed

text \<open>The order \<open>weaker\<close> is a strict weak order, so the maximum dominates every candidate.\<close>

lemma weaker_trans_not:
  "\<not> weaker b a \<Longrightarrow> weaker b c \<Longrightarrow> \<not> weaker c a"
  by (auto simp: weaker_def)

lemma py_max_dominates:
  "x \<in> insert b (set xs) \<Longrightarrow> \<not> weaker (py_max weaker b xs) x"
proof (induction xs arbitrary: b x)
  case (Cons y ys)
  show ?case
  proof (cases "weaker b y")
    case True
    have "\<not> weaker (py_max weaker y ys) y" by (rule Cons.IH) simp
    moreover have "\<not> weaker (py_max weaker y ys) b"
      using calculation True by (auto simp: weaker_def)
    ultimately show ?thesis using Cons.prems Cons.IH [of x y] True by auto
  next
    case False
    have "\<not> weaker (py_max weaker b ys) b" by (rule Cons.IH) simp
    moreover have "\<not> weaker (py_max weaker b ys) y"
      using calculation False by (auto simp: weaker_def)
    ultimately show ?thesis using Cons.prems Cons.IH [of x b] False by auto
  qed
qed (auto simp: weaker_def)

lemma best_hypothesis_SomeD:
  assumes "best_hypothesis_of hs = Some b"
  shows "b \<in> set hs" "live b"
    "\<And>h. List.find (\<lambda>g. hypothesis_id g = hypothesis_id h) (rev hs) = Some h \<Longrightarrow> live h \<Longrightarrow>
       \<not> weaker b h"
    "List.find (\<lambda>g. hypothesis_id g = hypothesis_id b) (rev hs) = Some b"
proof -
  obtain c cs where f: "filter live (map snd (latest_hypotheses hs)) = c # cs"
      and b: "b = py_max weaker c cs"
    using assms by (auto simp: best_hypothesis_of_def split: list.splits)
  have "b \<in> set (filter live (map snd (latest_hypotheses hs)))"
    using py_max_in [of weaker c cs] f b by simp
  then show lb: "live b" and fb: "List.find (\<lambda>g. hypothesis_id g = hypothesis_id b) (rev hs) = Some b"
    using latest_mem [of b hs] by simp_all
  then show "b \<in> set hs" using find_SomeD by fastforce
  show "\<not> weaker b h"
    if "List.find (\<lambda>g. hypothesis_id g = hypothesis_id h) (rev hs) = Some h" "live h" for h
  proof -
    have "h \<in> set (filter live (map snd (latest_hypotheses hs)))"
      using that latest_mem [of h hs] by simp
    then have "h \<in> insert c (set cs)" using f by simp
    then show ?thesis using py_max_dominates b by simp
  qed
qed

lemma best_hypothesis_NoneD:
  "best_hypothesis_of hs = None \<Longrightarrow>
   List.find (\<lambda>g. hypothesis_id g = hypothesis_id h) (rev hs) = Some h \<Longrightarrow> \<not> live h"
  using latest_mem [of h hs]
  by (auto simp: best_hypothesis_of_def filter_empty_conv split: list.splits)

lemma domain_coverage_unit: "unit_interval (domain_coverage_of a d)"
proof -
  have "card (set a - set d) \<le> card (set a)" by (rule card_mono) auto
  then show ?thesis
    by (cases "set a = {}")
      (simp_all add: domain_coverage_of_def unit_interval_def Let_def divide_le_eq_1 card_gt_0_iff)
qed

section \<open>The rules\<close>

record TerminationInputs =
  ti_budget :: BudgetState
  ti_hypotheses :: "HypothesisRef list"
  ti_evidence_count :: int
  ti_failures :: "NodeFailureRef list"
  ti_degraded_domains :: "string list"
  ti_attempted_domains :: "string list"
  ti_planner_action :: "PlannerAction option"
  ti_open_gaps :: "string list"
  ti_budget_refusal :: "BudgetKind option"
  ti_reflection_action :: "ReflectionAction option"

definition unrecoverable_failures :: "TerminationInputs \<Rightarrow> NodeFailureRef list" where
  "unrecoverable_failures i = filter (\<lambda>f. \<not> recoverable f) (ti_failures i)"

definition best_hypothesis :: "TerminationInputs \<Rightarrow> HypothesisRef option" where
  "best_hypothesis i = best_hypothesis_of (ti_hypotheses i)"

definition domain_coverage :: "TerminationInputs \<Rightarrow> rat" where
  "domain_coverage i = domain_coverage_of (ti_attempted_domains i) (ti_degraded_domains i)"

definition wants_to_stop :: "TerminationInputs \<Rightarrow> bool" where
  "wants_to_stop i \<longleftrightarrow>
     ti_planner_action i = Some PlannerAction.TERMINATE \<or>
     ti_reflection_action i \<in>
       {Some ReflectionAction.TERMINATE_SUCCESS, Some ReflectionAction.TERMINATE_UNCERTAIN,
        Some ReflectionAction.ESCALATE}"

record TerminationVerdict =
  should_terminate :: bool
  tv_rule_id :: string
  tv_reason :: "TerminationReason option"
  tv_incident_status :: "IncidentStatus option"

definition mk_stop :: "string \<Rightarrow> TerminationReason \<Rightarrow> IncidentStatus \<Rightarrow> TerminationVerdict" where
  "mk_stop rid reason status =
     \<lparr>should_terminate = True, tv_rule_id = rid, tv_reason = Some reason,
      tv_incident_status = Some status\<rparr>"

definition v_unrecoverable :: "TerminationInputs \<Rightarrow> TerminationVerdict" where
  "v_unrecoverable i =
     mk_stop ''R1_unrecoverable_failure'' TerminationReason.UNRECOVERABLE_FAILURE
       IncidentStatus.FAILED"

text \<open>\<open>kind = exhausted_kind() or budget_refusal\<close>, then \<open>assert kind is not None\<close>.\<close>

definition v_budget :: "TerminationInputs \<Rightarrow> (py_error, TerminationVerdict) result" where
  "v_budget i =
     (case (case exhausted_kind (ti_budget i) of Some k \<Rightarrow> Some k | None \<Rightarrow> ti_budget_refusal i) of
        None \<Rightarrow> Inl AssertionError
      | Some kind \<Rightarrow>
          let reason = termination_reason_for kind in
          Inr (mk_stop
            (if reason = TerminationReason.WALL_CLOCK_TIMEOUT then ''R2_wall_clock_timeout''
             else ''R3_budget_exhausted'')
            reason IncidentStatus.UNCERTAIN))"

definition v_actionable :: "TerminationInputs \<Rightarrow> (py_error, TerminationVerdict) result" where
  "v_actionable i =
     (case best_hypothesis i of
        None \<Rightarrow> Inl AssertionError
      | Some _ \<Rightarrow> Inr (mk_stop ''R4_actionable_cause_escalated''
                     TerminationReason.HUMAN_ESCALATION IncidentStatus.ESCALATED))"

definition v_planner_stopped :: "TerminationInputs \<Rightarrow> TerminationVerdict" where
  "v_planner_stopped i =
     mk_stop ''R5_planner_terminated_without_conclusion''
       TerminationReason.INSUFFICIENT_EVIDENCE IncidentStatus.UNCERTAIN"

definition v_continue :: "TerminationInputs \<Rightarrow> TerminationVerdict" where
  "v_continue i =
     \<lparr>should_terminate = False, tv_rule_id = ''R6_continue'', tv_reason = None,
      tv_incident_status = None\<rparr>"

definition inputs_actionable :: "TerminationInputs \<Rightarrow> bool" where
  "inputs_actionable i = is_actionable (best_hypothesis i) (domain_coverage i)"

record Rule =
  rule_name :: string
  matches :: "TerminationInputs \<Rightarrow> bool"
  verdict :: "TerminationInputs \<Rightarrow> (py_error, TerminationVerdict) result"

definition RULES :: "Rule list" where
  "RULES =
     [\<lparr>rule_name = ''R1_unrecoverable_failure'',
       matches = (\<lambda>i. unrecoverable_failures i \<noteq> []),
       verdict = (\<lambda>i. Inr (v_unrecoverable i))\<rparr>,
      \<lparr>rule_name = ''R2_R3_budget'',
       matches = (\<lambda>i. is_exhausted (ti_budget i) \<or> ti_budget_refusal i \<noteq> None),
       verdict = v_budget\<rparr>,
      \<lparr>rule_name = ''R4_actionable_cause_escalated'',
       matches = (\<lambda>i. wants_to_stop i \<and> inputs_actionable i),
       verdict = v_actionable\<rparr>,
      \<lparr>rule_name = ''R5_planner_terminated_without_conclusion'',
       matches = wants_to_stop,
       verdict = (\<lambda>i. Inr (v_planner_stopped i))\<rparr>,
      \<lparr>rule_name = ''R6_continue'',
       matches = (\<lambda>_. True),
       verdict = (\<lambda>i. Inr (v_continue i))\<rparr>]"

fun decide_with :: "Rule list \<Rightarrow> TerminationInputs \<Rightarrow> (py_error, TerminationVerdict) result" where
  "decide_with [] i = Inl AssertionError"
| "decide_with (r # rs) i = (if matches r i then verdict r i else decide_with rs i)"

definition decide :: "TerminationInputs \<Rightarrow> (py_error, TerminationVerdict) result" where
  "decide i = decide_with RULES i"

definition domains_of :: "string list \<Rightarrow> EvidenceDomain list" where
  "domains_of vs = List.map_filter (enum_of EvidenceDomain_members EvidenceDomain_value) vs"

section \<open>Facts\<close>

lemma inputs_actionable_best: "inputs_actionable i \<Longrightarrow> \<exists>b. best_hypothesis i = Some b"
  by (auto simp: inputs_actionable_def is_actionable_def split: option.splits)

lemma budget_matches:
  "is_exhausted b \<or> r \<noteq> None \<Longrightarrow>
   \<exists>k. (case exhausted_kind b of Some k \<Rightarrow> Some k | None \<Rightarrow> r) = Some k"
  by (auto simp: is_exhausted_def split: option.splits)

text \<open>The first match written out, one line per rule.\<close>

lemma decide_unfold:
  "decide i =
     (if unrecoverable_failures i \<noteq> [] then Inr (v_unrecoverable i)
      else if is_exhausted (ti_budget i) \<or> ti_budget_refusal i \<noteq> None then v_budget i
      else if wants_to_stop i \<and> inputs_actionable i then v_actionable i
      else if wants_to_stop i then Inr (v_planner_stopped i)
      else Inr (v_continue i))"
  by (simp add: decide_def RULES_def)

lemma decide_cases:
  obtains (failed) "unrecoverable_failures i \<noteq> []" "decide i = Inr (v_unrecoverable i)"
  | (budget) k where "unrecoverable_failures i = []"
      "(case exhausted_kind (ti_budget i) of Some k \<Rightarrow> Some k | None \<Rightarrow> ti_budget_refusal i) = Some k"
      "decide i = Inr (mk_stop
            (if termination_reason_for k = TerminationReason.WALL_CLOCK_TIMEOUT
             then ''R2_wall_clock_timeout'' else ''R3_budget_exhausted'')
            (termination_reason_for k) IncidentStatus.UNCERTAIN)"
  | (actionable) "unrecoverable_failures i = []" "\<not> is_exhausted (ti_budget i)"
      "ti_budget_refusal i = None" "wants_to_stop i" "inputs_actionable i"
      "decide i = Inr (mk_stop ''R4_actionable_cause_escalated''
          TerminationReason.HUMAN_ESCALATION IncidentStatus.ESCALATED)"
  | (stopped) "unrecoverable_failures i = []" "\<not> is_exhausted (ti_budget i)"
      "ti_budget_refusal i = None" "wants_to_stop i" "\<not> inputs_actionable i"
      "decide i = Inr (v_planner_stopped i)"
  | (continued) "unrecoverable_failures i = []" "\<not> is_exhausted (ti_budget i)"
      "ti_budget_refusal i = None" "\<not> wants_to_stop i" "decide i = Inr (v_continue i)"
proof (cases "unrecoverable_failures i \<noteq> []")
  case True
  then show ?thesis by (intro failed) (simp_all add: decide_unfold)
next
  case F1: False
  show ?thesis
  proof (cases "is_exhausted (ti_budget i) \<or> ti_budget_refusal i \<noteq> None")
    case True
    then obtain k where "(case exhausted_kind (ti_budget i) of Some k \<Rightarrow> Some k
        | None \<Rightarrow> ti_budget_refusal i) = Some k"
      using budget_matches by metis
    with F1 True show ?thesis
      by (intro budget [of k]) (simp_all add: decide_unfold v_budget_def Let_def)
  next
    case False
    with F1 inputs_actionable_best [of i] show ?thesis
      by (cases "wants_to_stop i"; cases "inputs_actionable i")
        (auto simp: decide_unfold v_actionable_def
          intro: actionable stopped continued)
  qed
qed

lemmas verdict_simps = mk_stop_def v_unrecoverable_def v_planner_stopped_def v_continue_def

end
