(* ===== verification/Reflection.thy ===== *)
theory Reflection
  imports Termination
begin

text \<open>
  Bounded reflection, \<open>src/asic/orchestration/reflection.py\<close>: the guards that turn a
  model's proposal into a decision. The text of a refusal is the datatype
  \<open>refusal\<close>, one constructor per message; a verdict's rationale is either the model's
  text or that message. An empty string is falsy, as in the source. The lemmas:
  every input gives a verdict, a targeted action names a persisted hypothesis, and a
  claim of success clears the planner's own bar.
\<close>

definition TARGETED_ACTIONS :: "ReflectionAction list" where
  "TARGETED_ACTIONS =
     [ReflectionAction.REVISE_HYPOTHESIS, ReflectionAction.COLLECT_COUNTER_EVIDENCE]"

record ReflectionProposal =
  rp_action :: "ReflectionAction option"
  rp_rationale :: string
  rp_target :: "string option"
  rp_gap :: "string option"
  rp_confidence :: rat

record ReflectionInputs =
  ri_proposal :: ReflectionProposal
  ri_hypotheses :: "HypothesisRef list"
  ri_new_ids :: "string set"
  ri_open_gaps :: "string list"
  ri_degraded :: "string list"
  ri_attempted :: "string list"

definition known_hypothesis_ids :: "ReflectionInputs \<Rightarrow> string set" where
  "known_hypothesis_ids i = set (map hypothesis_id (ri_hypotheses i))"

definition ri_best :: "ReflectionInputs \<Rightarrow> HypothesisRef option" where
  "ri_best i = best_hypothesis_of (ri_hypotheses i)"

definition ri_coverage :: "ReflectionInputs \<Rightarrow> rat" where
  "ri_coverage i = domain_coverage_of (ri_attempted i) (ri_degraded i)"

definition ri_hypothesis :: "ReflectionInputs \<Rightarrow> string \<Rightarrow> HypothesisRef option" where
  "ri_hypothesis i hid = List.find (\<lambda>h. hypothesis_id h = hid) (ri_hypotheses i)"

datatype refusal =
    NoProposal
  | NoTarget ReflectionAction
  | UnknownTarget ReflectionAction string
  | NoReplacement
  | AlreadySuperseded string
  | NoGap
  | NotActionable
  | NothingToEscalate

record ReflectionVerdict =
  rv_action :: ReflectionAction
  rv_rationale :: "refusal + string"
  rv_target :: "string option"
  rv_gap :: "string option"
  rv_confidence :: rat
  rv_rule_id :: string
  rv_overridden :: "refusal option"

text \<open>A string value is truthy when it is present and not empty.\<close>

fun truthy :: "string option \<Rightarrow> bool" where
  "truthy None = False"
| "truthy (Some s) = (s \<noteq> [])"

definition refused :: "ReflectionAction \<Rightarrow> string option \<Rightarrow> string \<Rightarrow> refusal \<Rightarrow> ReflectionVerdict" where
  "refused a gap rid reason =
     \<lparr>rv_action = a, rv_rationale = Inl reason, rv_target = None, rv_gap = gap,
      rv_confidence = 0, rv_rule_id = rid, rv_overridden = Some reason\<rparr>"

definition ri_actionable :: "ReflectionInputs \<Rightarrow> bool" where
  "ri_actionable i = is_actionable (ri_best i) (ri_coverage i)"

definition reflection_fallback :: "ReflectionInputs \<Rightarrow> string \<Rightarrow> refusal \<Rightarrow> ReflectionVerdict" where
  "reflection_fallback i rid reason =
     (case ri_open_gaps i of
        g # _ \<Rightarrow> refused ReflectionAction.CONTINUE_WITH_GAP (Some g) rid reason
      | [] \<Rightarrow>
          if ri_actionable i then refused ReflectionAction.ESCALATE None rid reason
          else refused ReflectionAction.TERMINATE_UNCERTAIN None rid reason)"

definition accepted ::
  "ReflectionProposal \<Rightarrow> ReflectionAction \<Rightarrow> string option \<Rightarrow> string option \<Rightarrow> ReflectionVerdict" where
  "accepted p a target gap =
     \<lparr>rv_action = a, rv_rationale = Inr (rp_rationale p), rv_target = target, rv_gap = gap,
      rv_confidence = rp_confidence p, rv_rule_id = ''G6_accepted'', rv_overridden = None\<rparr>"

text \<open>Guard G1, \<open>None\<close> when the proposal passes it.\<close>

definition target_guard ::
  "ReflectionInputs \<Rightarrow> ReflectionAction \<Rightarrow> ReflectionVerdict option" where
  "target_guard i a =
     (let p = ri_proposal i in
      if a \<in> set TARGETED_ACTIONS then
        (if \<not> truthy (rp_target p)
         then Some (reflection_fallback i ''G1_missing_target'' (NoTarget a))
         else if the (rp_target p) \<notin> known_hypothesis_ids i
         then Some (reflection_fallback i ''G1_unknown_target'' (UnknownTarget a (the (rp_target p))))
         else None)
      else None)"

definition first_gap :: "string list \<Rightarrow> string option" where
  "first_gap gaps = (case gaps of [] \<Rightarrow> None | g # _ \<Rightarrow> Some g)"

definition decide_revise :: "ReflectionInputs \<Rightarrow> ReflectionVerdict" where
  "decide_revise i =
     (let p = ri_proposal i;
          tid = the (rp_target p);
          replacement_exists = (ri_new_ids i - {tid} \<noteq> {});
          already_superseded =
            (case ri_hypothesis i tid of
               None \<Rightarrow> False | Some h \<Rightarrow> hyp_status h = HypothesisStatus.SUPERSEDED)
      in if \<not> replacement_exists \<or> already_superseded
         then reflection_fallback i ''G2_no_replacement_hypothesis''
                (if \<not> replacement_exists then NoReplacement else AlreadySuperseded tid)
         else accepted p ReflectionAction.REVISE_HYPOTHESIS (rp_target p) (rp_gap p))"

definition decide_continue :: "ReflectionInputs \<Rightarrow> ReflectionVerdict" where
  "decide_continue i =
     (let p = ri_proposal i;
          gap = (if truthy (rp_gap p) then rp_gap p else first_gap (ri_open_gaps i))
      in if \<not> truthy gap then reflection_fallback i ''G3_no_gap_to_continue_on'' NoGap
         else accepted p ReflectionAction.CONTINUE_WITH_GAP None gap)"

definition decide_counter :: "ReflectionInputs \<Rightarrow> ReflectionVerdict" where
  "decide_counter i =
     (let p = ri_proposal i;
          gap = (if truthy (rp_gap p) then rp_gap p
                 else Some (''evidence that would contradict hypothesis '' @ the (rp_target p)))
      in accepted p ReflectionAction.COLLECT_COUNTER_EVIDENCE (rp_target p) gap)"

definition decide_reflection :: "ReflectionInputs \<Rightarrow> ReflectionVerdict" where
  "decide_reflection i =
     (let p = ri_proposal i in
      case rp_action p of
        None \<Rightarrow> reflection_fallback i ''G0_no_proposal'' NoProposal
      | Some a \<Rightarrow>
         (case target_guard i a of
            Some v \<Rightarrow> v
          | None \<Rightarrow>
             (case a of
                ReflectionAction.REVISE_HYPOTHESIS \<Rightarrow> decide_revise i
              | ReflectionAction.CONTINUE_WITH_GAP \<Rightarrow> decide_continue i
              | ReflectionAction.COLLECT_COUNTER_EVIDENCE \<Rightarrow> decide_counter i
              | ReflectionAction.TERMINATE_SUCCESS \<Rightarrow>
                  if \<not> ri_actionable i
                  then reflection_fallback i ''G4_not_actionable'' NotActionable
                  else accepted p ReflectionAction.TERMINATE_SUCCESS None None
              | ReflectionAction.ESCALATE \<Rightarrow>
                  if ri_best i = None
                  then reflection_fallback i ''G5_nothing_to_escalate'' NothingToEscalate
                  else accepted p ReflectionAction.ESCALATE None None
              | ReflectionAction.TERMINATE_UNCERTAIN \<Rightarrow>
                  accepted p ReflectionAction.TERMINATE_UNCERTAIN None None)))"

section \<open>Facts\<close>

lemmas verdict_defs = refused_def accepted_def

lemma fallback_shape:
  "rv_target (reflection_fallback i rid r) = None"
  "rv_overridden (reflection_fallback i rid r) = Some r"
  "rv_confidence (reflection_fallback i rid r) = 0"
  "rv_rule_id (reflection_fallback i rid r) = rid"
  by (simp_all add: reflection_fallback_def refused_def split: list.split)

lemma fallback_action:
  "rv_action (reflection_fallback i rid r) =
     (if ri_open_gaps i \<noteq> [] then ReflectionAction.CONTINUE_WITH_GAP
      else if ri_actionable i then ReflectionAction.ESCALATE
      else ReflectionAction.TERMINATE_UNCERTAIN)"
  by (simp add: reflection_fallback_def refused_def split: list.split)

lemma fallback_gap:
  "rv_gap (reflection_fallback i rid r) = first_gap (ri_open_gaps i)"
  by (simp add: reflection_fallback_def refused_def first_gap_def split: list.split)

lemma fallback_distinct: "reflection_fallback i rid r \<noteq> accepted p a tgt gap"
proof
  assume eq: "reflection_fallback i rid r = accepted p a tgt gap"
  show False using fallback_shape(2) [of i rid r] unfolding eq by (simp add: accepted_def)
qed

lemma accepted_inject:
  "accepted p a t g = accepted p a' t' g' \<longleftrightarrow> a = a' \<and> t = t' \<and> g = g'"
  by (auto simp: accepted_def)

lemma target_guard_None:
  "target_guard i a = None \<Longrightarrow> a \<in> set TARGETED_ACTIONS \<Longrightarrow>
   \<exists>t. rp_target (ri_proposal i) = Some t \<and> t \<in> known_hypothesis_ids i"
  by (cases "rp_target (ri_proposal i)")
    (auto simp: target_guard_def Let_def split: if_splits)

lemma target_guard_Some:
  "target_guard i a = Some v \<Longrightarrow> \<exists>rid r. v = reflection_fallback i rid r"
  by (auto simp: target_guard_def Let_def split: if_splits)

text \<open>
  Every verdict is a refusal on the common ladder or the model's own action, accepted
  unchanged.
\<close>

definition ladder_or_accepted ::
  "ReflectionInputs \<Rightarrow> ReflectionAction \<Rightarrow> ReflectionVerdict \<Rightarrow> bool" where
  "ladder_or_accepted i a v \<longleftrightarrow>
     (\<exists>rid r. v = reflection_fallback i rid r) \<or>
     (\<exists>tgt gap. v = accepted (ri_proposal i) a tgt gap)"

lemma ladder_or_acceptedI:
  "ladder_or_accepted i a (reflection_fallback i rid r)"
  "ladder_or_accepted i a (accepted (ri_proposal i) a tgt gap)"
  by (auto simp: ladder_or_accepted_def)

lemma decide_action_shape:
  "rp_action (ri_proposal i) = Some a \<Longrightarrow> target_guard i a = None \<Longrightarrow>
   ladder_or_accepted i a (decide_reflection i)"
  by (cases a)
    (simp_all add: decide_reflection_def decide_revise_def decide_continue_def
      decide_counter_def Let_def ladder_or_acceptedI)

lemma decide_reflection_cases:
  obtains (refused) rid r where "decide_reflection i = reflection_fallback i rid r"
  | (accepted) a tgt gap where "decide_reflection i = accepted (ri_proposal i) a tgt gap"
      "rp_action (ri_proposal i) = Some a" "target_guard i a = None"
proof (cases "rp_action (ri_proposal i)")
  case None
  then show ?thesis by (intro refused) (simp add: decide_reflection_def)
next
  case a: (Some a)
  show ?thesis
  proof (cases "target_guard i a")
    case (Some v)
    then show ?thesis
      using a target_guard_Some [OF Some] refused by (auto simp: decide_reflection_def)
  next
    case None
    then show ?thesis
      using decide_action_shape [OF a None] a refused accepted
      by (auto simp: ladder_or_accepted_def)
  qed
qed

lemma accepted_success_actionable:
  "rv_action (decide_reflection i) = ReflectionAction.TERMINATE_SUCCESS \<Longrightarrow> ri_actionable i"
  by (auto simp: decide_reflection_def target_guard_def decide_revise_def decide_continue_def
      decide_counter_def Let_def fallback_action accepted_def
      split: option.splits ReflectionAction.splits if_splits)

lemma reflection_target_known:
  assumes "rv_target (decide_reflection i) = Some h"
  shows "h \<in> known_hypothesis_ids i"
proof (cases i rule: decide_reflection_cases)
  case (refused rid r)
  then show ?thesis using assms by (simp add: fallback_shape)
next
  case (accepted a tgt gap)
  note acc = accepted
  have "a \<in> set TARGETED_ACTIONS \<and> tgt = rp_target (ri_proposal i) \<or> tgt = None"
    using acc by (cases a) (auto simp: decide_reflection_def decide_revise_def decide_continue_def
        decide_counter_def Let_def TARGETED_ACTIONS_def fallback_distinct accepted_inject
        split: if_splits)
  then show ?thesis using target_guard_None [OF acc(3)] assms acc(1) by (auto simp: accepted_def)
qed

lemma reflection_override_shape:
  assumes "rv_overridden (decide_reflection i) \<noteq> None"
  shows "rv_confidence (decide_reflection i) = 0 \<and> rv_target (decide_reflection i) = None \<and>
     rv_action (decide_reflection i) \<in> {ReflectionAction.CONTINUE_WITH_GAP,
       ReflectionAction.ESCALATE, ReflectionAction.TERMINATE_UNCERTAIN}"
proof (cases i rule: decide_reflection_cases)
  case (refused rid r)
  then show ?thesis by (simp add: fallback_shape fallback_action)
next
  case (accepted a tgt gap)
  then show ?thesis using assms by (simp add: accepted_def)
qed

end
