(* ===== verification/Hypothesis_Engine.thy ===== *)
theory Hypothesis_Engine
  imports Remediation_World Reflection
begin

text \<open>
  The hypothesis engine, \<open>src/asic/orchestration/nodes/hypothesis.py\<close>, with the rows it reads and
  writes (\<open>db/models/investigation.py\<close>): which citations of a draft count, the confidence its
  evidence can justify, the rows of an accepted hypothesis, and the revision a reflection may
  win. A node runs in one unit of work, so a raised exception is the value \<open>Inl\<close> and keeps no row;
  the model calls are committed on their own. The text of the prompt, the decoding of the answer
  and the texts of failures are parameters. The lemmas: what a stored confidence rests on, and
  two shapes of model output that abort the run.
\<close>

section \<open>What the model proposes\<close>

definition ENGINE_REPAIR_ATTEMPTS :: nat where "ENGINE_REPAIR_ATTEMPTS = 1"

definition SINGLE_SUPPORT_CEILING :: rat where "SINGLE_SUPPORT_CEILING = 4 / 10"
definition CONTRADICTED_CEILING :: rat where "CONTRADICTED_CEILING = 35 / 100"
definition UNSUPPORTED_CEILING :: rat where "UNSUPPORTED_CEILING = 1 / 10"

record HypothesisDraft =
  hd_statement :: string
  hd_class :: string
  hd_confidence :: rat
  hd_supporting :: "string list"
  hd_contradicting :: "string list"
  hd_gaps :: "string list"

definition valid_draft :: "HypothesisDraft \<Rightarrow> bool" where
  "valid_draft d \<longleftrightarrow>
     1 \<le> length (hd_statement d) \<and> length (hd_statement d) \<le> 2000 \<and>
     1 \<le> length (hd_class d) \<and> length (hd_class d) \<le> 64 \<and> unit_interval (hd_confidence d)"

record ReflectionProposalModel =
  rm_action :: ReflectionAction
  rm_rationale :: string
  rm_target :: "string option"
  rm_gap :: "string option"
  rm_confidence :: rat

definition valid_reflection :: "ReflectionProposalModel \<Rightarrow> bool" where
  "valid_reflection r \<longleftrightarrow>
     1 \<le> length (rm_rationale r) \<and> length (rm_rationale r) \<le> 1000 \<and>
     (case rm_gap r of None \<Rightarrow> True | Some g \<Rightarrow> length g \<le> 500) \<and> unit_interval (rm_confidence r)"

record HypothesisOutput =
  ho_hypotheses :: "HypothesisDraft list"
  ho_insufficient :: "string option"
  ho_reflection :: "ReflectionProposalModel option"

definition valid_output :: "HypothesisOutput \<Rightarrow> bool" where
  "valid_output o' \<longleftrightarrow> list_all valid_draft (ho_hypotheses o') \<and>
     (case ho_reflection o' of None \<Rightarrow> True | Some r \<Rightarrow> valid_reflection r)"

section \<open>Rows\<close>

record inv_evidence = evidence_row +
  ie_incident :: string
  ie_quality :: "rat option"

record confidence_basis =
  cb_stated :: rat
  cb_ceiling :: rat
  cb_applied :: rat
  cb_supporting :: nat
  cb_contradicting :: nat
  cb_mean_quality :: rat
  cb_rule :: string

record inv_hypothesis = hypothesis_row +
  ih_rank :: int
  ih_basis :: confidence_basis
  ih_superseded_by :: "string option"
  ih_gaps :: "string list"

record inv_link = link_row +
  il_tenant :: string

record inv_db =
  iv_evidence :: "inv_evidence list"
  iv_hypotheses :: "inv_hypothesis list"
  iv_links :: "inv_link list"

definition hypothesis_checks :: "inv_hypothesis \<Rightarrow> bool" where
  "hypothesis_checks h \<longleftrightarrow>
     1 \<le> ih_rank h \<and> 0 \<le> hy_confidence h \<and> hy_confidence h \<le> 1 \<and>
     ih_superseded_by h \<noteq> Some (hy_id h) \<and>
     (hy_status h = HypothesisStatus.SUPERSEDED \<longrightarrow> ih_superseded_by h \<noteq> None)"

text \<open>The unique key of a link and its two foreign keys.\<close>

definition link_allowed :: "inv_db \<Rightarrow> inv_link \<Rightarrow> bool" where
  "link_allowed db l \<longleftrightarrow>
     \<not> list_ex (\<lambda>k. il_tenant k = il_tenant l \<and> hl_hypothesis k = hl_hypothesis l \<and>
                  hl_evidence k = hl_evidence l) (iv_links db) \<and>
     list_ex (\<lambda>h. hy_tenant h = il_tenant l \<and> hy_id h = hl_hypothesis l) (iv_hypotheses db) \<and>
     list_ex (\<lambda>e. ev_tenant e = il_tenant l \<and> ev_id e = hl_evidence l) (iv_evidence db)"

definition add_hypothesis :: "inv_hypothesis \<Rightarrow> inv_db \<Rightarrow> (py_error, inv_db) result" where
  "add_hypothesis h db =
     (if hypothesis_checks h \<and> hy_id h \<notin> hy_id ` set (iv_hypotheses db)
      then Inr (db\<lparr>iv_hypotheses := iv_hypotheses db @ [h]\<rparr>) else Inl IntegrityError)"

definition add_link :: "inv_link \<Rightarrow> inv_db \<Rightarrow> (py_error, inv_db) result" where
  "add_link l db =
     (if link_allowed db l then Inr (db\<lparr>iv_links := iv_links db @ [l]\<rparr>) else Inl IntegrityError)"

fun add_links :: "inv_link list \<Rightarrow> inv_db \<Rightarrow> (py_error, inv_db) result" where
  "add_links [] db = Inr db"
| "add_links (l # ls) db = andThen (add_link l db) (add_links ls)"

section \<open>Citations\<close>

definition upper_char :: "char \<Rightarrow> char" where
  "upper_char c = (let n = of_char c :: nat in if 97 \<le> n \<and> n \<le> 122 then char_of (n - 32) else c)"

definition py_upper :: "string \<Rightarrow> string" where "py_upper s = map upper_char s"

definition DOMAIN_SENTINELS :: "string list" where
  "DOMAIN_SENTINELS =
     [''METRICS'', ''LOGS'', ''TRACES'', ''DEPLOYMENTS'', ''KUBERNETES_STATE'', ''KNOWLEDGE'']"

definition known_evidence :: "EvidenceRef list \<Rightarrow> (string \<times> EvidenceRef) list" where
  "known_evidence refs = fold (\<lambda>r. AList.update (evidence_id r) r) refs []"

definition persisted_ids ::
  "string \<Rightarrow> string \<Rightarrow> (string \<times> EvidenceRef) list \<Rightarrow> inv_db \<Rightarrow> string list" where
  "persisted_ids tenant incident known db =
     (if known = [] then []
      else map ev_id (filter (\<lambda>e. ev_tenant e = tenant \<and> ie_incident e = incident) (iv_evidence db)))"

definition expand_entry ::
  "(string \<times> EvidenceRef) list \<Rightarrow> string list \<Rightarrow> string \<Rightarrow> string list" where
  "expand_entry known persisted entry =
     (if py_upper entry \<in> set (map py_upper DOMAIN_SENTINELS)
      then map fst (filter (\<lambda>(i, r). py_upper (EvidenceDomain_value (EvidenceRef.ev_domain r)) = py_upper entry \<and>
                                    i \<in> set persisted) known)
      else if entry \<in> set persisted then [entry] else [])"

definition expand_citations ::
  "string list \<Rightarrow> (string \<times> EvidenceRef) list \<Rightarrow> string list \<Rightarrow> string list" where
  "expand_citations cited known persisted =
     (if cited \<in> {[''ALL''], [''all'']} then filter (\<lambda>i. i \<in> set persisted) (map fst known)
      else if cited \<in> {[''NONE''], [''none''], []} then []
      else concat (map (expand_entry known persisted) cited))"

definition partition_citations ::
  "HypothesisDraft \<Rightarrow> (string \<times> EvidenceRef) list \<Rightarrow> string list \<Rightarrow> string list \<times> string list" where
  "partition_citations d known persisted =
     (let contradicting = expand_citations (hd_contradicting d) known persisted
      in (filter (\<lambda>i. i \<notin> set contradicting) (expand_citations (hd_supporting d) known persisted),
          contradicting))"

definition unknown_citations :: "HypothesisDraft \<Rightarrow> string list \<Rightarrow> string list" where
  "unknown_citations d persisted =
     filter (\<lambda>e. \<not> (py_upper e \<in> set (''ALL'' # ''NONE'' # DOMAIN_SENTINELS) \<or> e \<in> set persisted))
       (hd_supporting d @ hd_contradicting d)"

section \<open>Confidence\<close>

definition round3 :: "rat \<Rightarrow> rat" where
  "round3 x = of_int (round_half_even (x * 1000)) / 1000"

definition confidence_ceiling :: "nat \<Rightarrow> nat \<Rightarrow> rat \<Rightarrow> rat" where
  "confidence_ceiling supporting contradicting mean_quality =
     (if supporting = 0 then UNSUPPORTED_CEILING
      else if 0 < contradicting then CONTRADICTED_CEILING
      else if supporting = 1 then min SINGLE_SUPPORT_CEILING (2 / 10 + mean_quality * (4 / 10))
      else round3 (min (95 / 100)
             (45 / 100 + 1 / 10 * of_nat (min supporting 4) + 2 / 10 * mean_quality)))"

definition ceiling_rule :: "nat \<Rightarrow> nat \<Rightarrow> string" where
  "ceiling_rule supporting contradicting =
     (if supporting = 0 then ''unsupported''
      else if 0 < contradicting then ''contradicted''
      else if supporting = 1 then ''single_support''
      else ''corroborated'')"

definition cited_qualities :: "string \<Rightarrow> string list \<Rightarrow> inv_db \<Rightarrow> rat list" where
  "cited_qualities tenant ids db =
     (if ids = [] then []
      else List.map_filter ie_quality
        (filter (\<lambda>e. ev_tenant e = tenant \<and> ev_id e \<in> set ids) (iv_evidence db)))"

definition mean_of :: "rat list \<Rightarrow> rat" where
  "mean_of qs = (if qs = [] then 0 else sum_list qs / of_nat (length qs))"

section \<open>Storing a hypothesis\<close>

record engine_deps =
  en_tenant :: string
  en_incident :: string
  en_run :: string
  en_new_id :: "int \<Rightarrow> string"

definition evidence_links :: "string \<Rightarrow> string \<Rightarrow> string list \<Rightarrow> EvidenceRelation \<Rightarrow> inv_link list" where
  "evidence_links tenant hypothesis ids relation =
     map (\<lambda>i. \<lparr>hl_hypothesis = hypothesis, hl_evidence = i, hl_relation = relation,
              il_tenant = tenant\<rparr>) ids"

definition drafted_row ::
  "engine_deps \<Rightarrow> HypothesisDraft \<Rightarrow> string list \<Rightarrow> string list \<Rightarrow> int \<Rightarrow> rat \<Rightarrow> inv_hypothesis" where
  "drafted_row d draft supporting contradicting rank mean_quality =
     (let ceiling' = confidence_ceiling (length supporting) (length contradicting) mean_quality;
          final = round3 (min (hd_confidence draft) ceiling')
      in \<lparr>hy_id = en_new_id d rank, hy_tenant = en_tenant d, hy_incident = en_incident d,
          hy_run = en_run d, hy_class = hd_class draft, hy_statement = hd_statement draft,
          hy_confidence = final, hy_status = HypothesisStatus.PROPOSED, ih_rank = rank,
          ih_basis = \<lparr>cb_stated = hd_confidence draft, cb_ceiling = ceiling', cb_applied = final,
            cb_supporting = length supporting, cb_contradicting = length contradicting,
            cb_mean_quality = round3 mean_quality,
            cb_rule = ceiling_rule (length supporting) (length contradicting)\<rparr>,
          ih_superseded_by = None, ih_gaps = hd_gaps draft\<rparr>)"

text \<open>The reference is a pydantic model that strips the white space of its strings.\<close>

definition hypothesis_ref :: "inv_hypothesis \<Rightarrow> nat \<Rightarrow> nat \<Rightarrow> HypothesisRef" where
  "hypothesis_ref h supporting contradicting =
     \<lparr>hypothesis_id = hy_id h, hyp_rank = ih_rank h, root_cause_class = py_strip (hy_class h),
      confidence = hy_confidence h, hyp_status = HypothesisStatus.PROPOSED,
      supporting_evidence_count = int supporting, contradicting_evidence_count = int contradicting,
      remaining_gaps = map py_strip (ih_gaps h)\<rparr>"

definition persist_hypothesis ::
  "engine_deps \<Rightarrow> HypothesisDraft \<Rightarrow> string list \<Rightarrow> string list \<Rightarrow> int \<Rightarrow> inv_db \<Rightarrow>
   (py_error, HypothesisRef \<times> inv_db) result" where
  "persist_hypothesis d draft supporting contradicting rank db =
     (let qs = cited_qualities (en_tenant d) (supporting @ contradicting) db;
          h = drafted_row d draft supporting contradicting rank (mean_of qs) in
      andThen (add_hypothesis h db) (\<lambda>db1.
      andThen (add_links
          (evidence_links (en_tenant d) (hy_id h) supporting EvidenceRelation.SUPPORTS @
           evidence_links (en_tenant d) (hy_id h) contradicting EvidenceRelation.CONTRADICTS) db1) (\<lambda>db2.
      Inr (hypothesis_ref h (length supporting) (length contradicting), db2))))"

text \<open>A draft with an unknown citation is dropped, the others are stored under the next rank.\<close>

fun accept_drafts ::
  "engine_deps \<Rightarrow> (string \<times> EvidenceRef) list \<Rightarrow> string list \<Rightarrow> HypothesisDraft list \<Rightarrow> int \<Rightarrow> inv_db \<Rightarrow>
   (py_error, HypothesisRef list \<times> inv_db) result" where
  "accept_drafts d known persisted [] rank db = Inr ([], db)"
| "accept_drafts d known persisted (draft # later) rank db =
     (if unknown_citations draft persisted \<noteq> [] then accept_drafts d known persisted later rank db
      else case partition_citations draft known persisted of (supporting, contradicting) \<Rightarrow>
        andThen (persist_hypothesis d draft supporting contradicting (rank + 1) db) (\<lambda>(ref, db1).
        andThen (accept_drafts d known persisted later (rank + 1) db1) (\<lambda>(refs, db2).
        Inr (ref # refs, db2))))"

section \<open>Reflection\<close>

text \<open>\<open>max\<close> with a key: the first of the largest.\<close>

fun strongest :: "HypothesisRef \<Rightarrow> HypothesisRef list \<Rightarrow> HypothesisRef" where
  "strongest h [] = h"
| "strongest h (k # ks) = strongest (if confidence h < confidence k then k else h) ks"

definition rank_sentinel :: "string \<Rightarrow> nat option" where
  "rank_sentinel s =
     (let digits = drop 5 s in
      if py_upper (take 5 s) = ''RANK:'' \<and> digits \<noteq> [] \<and> list_all is_digit digits
      then Some (parse_digits digits) else None)"

definition resolve_target ::
  "string option \<Rightarrow> HypothesisRef list \<Rightarrow> HypothesisRef list \<Rightarrow> string option" where
  "resolve_target raw prior news =
     (case raw of
        None \<Rightarrow> None
      | Some t \<Rightarrow>
          if py_upper (py_strip t) = ''LATEST'' then
            (case news of [] \<Rightarrow> Some t | h # hs \<Rightarrow> Some (hypothesis_id (strongest h hs)))
          else
            (case rank_sentinel (py_strip t) of
               None \<Rightarrow> Some t
             | Some n \<Rightarrow>
                 (case List.find (\<lambda>h. hyp_rank h = int n) (prior @ news) of
                    None \<Rightarrow> Some t | Some h \<Rightarrow> Some (hypothesis_id h))))"

record ReflectionDecisionRef =
  rd_action :: ReflectionAction
  rd_rationale :: "refusal + string"
  rd_target :: "string option"
  rd_gap :: "string option"
  rd_confidence :: rat
  rd_overridden :: "refusal option"
  rd_rule_id :: string

definition reflection_proposal ::
  "ReflectionProposalModel option \<Rightarrow> HypothesisRef list \<Rightarrow> HypothesisRef list \<Rightarrow> ReflectionProposal" where
  "reflection_proposal r prior news =
     (case r of
        None \<Rightarrow> \<lparr>rp_action = None, rp_rationale = ''no reflection was proposed'', rp_target = None,
                 rp_gap = None, rp_confidence = 0\<rparr>
      | Some m \<Rightarrow> \<lparr>rp_action = Some (rm_action m), rp_rationale = rm_rationale m,
                   rp_target = resolve_target (rm_target m) prior news, rp_gap = rm_gap m,
                   rp_confidence = rm_confidence m\<rparr>)"

definition reflection_ref :: "ReflectionVerdict \<Rightarrow> ReflectionDecisionRef" where
  "reflection_ref v =
     \<lparr>rd_action = rv_action v,
      rd_rationale = map_sum id (\<lambda>t. py_strip (take 1000 t)) (rv_rationale v),
      rd_target = map_option py_strip (rv_target v), rd_gap = map_option py_strip (rv_gap v),
      rd_confidence = rv_confidence v, rd_overridden = rv_overridden v, rd_rule_id = rv_rule_id v\<rparr>"

text \<open>The update of the superseded row, checked by the table.\<close>

definition supersede :: "string \<Rightarrow> string \<Rightarrow> string \<Rightarrow> inv_db \<Rightarrow> (py_error, inv_db) result" where
  "supersede tenant target successor db =
     (let rows = map (\<lambda>h. if hy_tenant h = tenant \<and> hy_id h = target
                          then h\<lparr>hy_status := HypothesisStatus.SUPERSEDED,
                                 ih_superseded_by := Some successor\<rparr> else h) (iv_hypotheses db) in
      if list_all hypothesis_checks rows then Inr (db\<lparr>iv_hypotheses := rows\<rparr>)
      else Inl IntegrityError)"

definition StopIteration :: py_error where "StopIteration = OtherException ''StopIteration''"

definition max_of_none :: py_error where "max_of_none = ValueError"

text \<open>
  \<open>next(h for h in prior if ...)\<close> raises \<open>StopIteration\<close> when no hypothesis of an earlier step has
  the target's identifier.
\<close>

definition apply_revision ::
  "engine_deps \<Rightarrow> HypothesisRef list \<Rightarrow> HypothesisRef list \<Rightarrow> string \<Rightarrow> inv_db \<Rightarrow>
   (py_error, HypothesisRef list \<times> inv_db) result" where
  "apply_revision d prior news target db =
     (case news of
        [] \<Rightarrow> Inl max_of_none
      | h # hs \<Rightarrow>
          andThen (supersede (en_tenant d) target (hypothesis_id (strongest h hs)) db) (\<lambda>db1.
          case List.find (\<lambda>p. hypothesis_id p = target) prior of
            None \<Rightarrow> Inl StopIteration
          | Some p \<Rightarrow> Inr (news @ [p\<lparr>hyp_status := HypothesisStatus.SUPERSEDED\<rparr>], db1)))"

record engine_state =
  es_evidence :: "EvidenceRef list"
  es_hypotheses :: "HypothesisRef list"
  es_open_gaps :: "string list"
  es_covered :: "string list"
  es_degraded :: "string list"
  es_iteration :: int
  es_budget :: "BudgetSnapshot option"

definition reflection_inputs ::
  "engine_state \<Rightarrow> HypothesisOutput \<Rightarrow> HypothesisRef list \<Rightarrow> string list \<Rightarrow> ReflectionInputs" where
  "reflection_inputs s output news gaps =
     \<lparr>ri_proposal = reflection_proposal (ho_reflection output) (es_hypotheses s) news,
      ri_hypotheses = es_hypotheses s @ news, ri_new_ids = set (map hypothesis_id news),
      ri_open_gaps = gaps, ri_degraded = es_degraded s,
      ri_attempted = es_covered s @ es_degraded s\<rparr>"

definition reflect ::
  "engine_deps \<Rightarrow> engine_state \<Rightarrow> HypothesisOutput \<Rightarrow> HypothesisRef list \<Rightarrow> string list \<Rightarrow> inv_db \<Rightarrow>
   (py_error, ReflectionDecisionRef \<times> HypothesisRef list \<times> inv_db) result" where
  "reflect d s output news gaps db =
     (let v = decide_reflection (reflection_inputs s output news gaps) in
      if rv_action v \<noteq> ReflectionAction.REVISE_HYPOTHESIS then Inr (reflection_ref v, news, db)
      else case rv_target v of
        None \<Rightarrow> Inl AssertionError
      | Some t \<Rightarrow>
          andThen (apply_revision d (es_hypotheses s) news t db) (\<lambda>(refs, db1).
          Inr (reflection_ref v, refs, db1)))"

section \<open>The node\<close>

datatype inv_value =
    IPhase InvestigationPhase
  | ITexts "string list"
  | IEvidence "EvidenceRef list"
  | ISteps "StepRef list"
  | IHypotheses "HypothesisRef list"
  | IFailures "NodeFailureRef list"
  | IDecision PlannerDecisionRef
  | IReflection ReflectionDecisionRef
  | IBudget BudgetSnapshot
  | IText "string option"
  | ICount int
  | IFlag bool

type_synonym inv_update = "(string \<times> inv_value) list"

record engine_model =
  em_provider :: model_provider
  em_durable :: "(string \<times> string) option"
  em_policy :: BudgetPolicy
  em_started_at :: int
  em_prompt :: "engine_state \<Rightarrow> string"
  em_prompt_hash :: string
  em_decode :: "string \<Rightarrow> HypothesisOutput option"
  em_error_text :: "py_error \<Rightarrow> string"
  em_scrub :: "string \<Rightarrow> string"

text \<open>\<open>budget_from\<close>, \<open>durable_budget\<close> and the snapshot of the investigation's context.\<close>

definition run_budget ::
  "BudgetPolicy \<Rightarrow> int \<Rightarrow> int \<Rightarrow> BudgetSnapshot option \<Rightarrow> (py_error, BudgetState) result" where
  "run_budget p started now snapshot =
     observe_elapsed
       (case snapshot of
          None \<Rightarrow> budget_initial (Some p)
        | Some s \<Rightarrow> \<lparr>policy = p, ledger = ledger_from_dict (bs_consumed s)\<rparr>)
       (max 0 (of_int (now - started) / 1000000))"

definition reloaded_budget :: "string \<Rightarrow> BudgetState \<Rightarrow> model_db \<Rightarrow> (py_error, BudgetState) result" where
  "reloaded_budget run fallback models =
     (case find_run models run of None \<Rightarrow> Inr fallback | Some row \<Rightarrow> budget_from_dict (lr_budget row))"

definition run_snapshot :: "BudgetState \<Rightarrow> BudgetSnapshot" where
  "run_snapshot b =
     \<lparr>bs_consumed = ledger_to_dict (ledger b), bs_remaining = remaining b,
      bs_exhausted_kind = map_option BudgetKind_value (exhausted_kind b)\<rparr>"

definition engine_request :: "engine_deps \<Rightarrow> engine_model \<Rightarrow> engine_state \<Rightarrow> nat \<Rightarrow> ModelRequest" where
  "engine_request d m s attempt =
     \<lparr>mq_node = NodeId.G5_HYPOTHESIS_ENGINE, mq_prompt_id = ''hypothesis_engine'',
      mq_prompt_version = ''1.3.0'', mq_prompt_hash = em_prompt_hash m,
      mq_prompt_text = em_prompt m s, mq_temperature = 0, mq_max_output_tokens = 2048,
      mq_metadata = [(''workflow_run_id'', en_run d), (''attempt'', nat_digits attempt)]\<rparr>"

definition engine_key :: "int \<Rightarrow> nat \<Rightarrow> string" where
  "engine_key iteration attempt =
     NodeId_value NodeId.G5_HYPOTHESIS_ENGINE @ '':'' @ int_digits iteration @ '':'' @ nat_digits attempt"

definition validated_output :: "engine_model \<Rightarrow> string \<Rightarrow> HypothesisOutput option" where
  "validated_output m t =
     (case em_decode m t of None \<Rightarrow> None | Some o' \<Rightarrow> if valid_output o' then Some o' else None)"

fun engine_attempts ::
  "engine_deps \<Rightarrow> engine_model \<Rightarrow> engine_state \<Rightarrow> BudgetState \<Rightarrow> nat list \<Rightarrow> int \<Rightarrow> rat \<Rightarrow> model_db \<Rightarrow>
   (py_error, HypothesisOutput \<times> int \<times> rat) result \<times> model_db" where
  "engine_attempts d m s budget [] used cost models = (Inl SchemaViolation, models)"
| "engine_attempts d m s budget (attempt # later) used cost models =
     (case charge budget (call_charge used cost) of
        Inl e \<Rightarrow> (Inl e, models)
      | Inr charged \<Rightarrow>
          (case complete_with_budget (em_provider m) (engine_request d m s attempt) charged (em_durable m)
               (Some (engine_key (es_iteration s) attempt)) models of
             (Inl e, models') \<Rightarrow> (Inl e, models')
           | (Inr (a, _), models') \<Rightarrow>
               (case validated_output m (mr_text a) of
                  Some o' \<Rightarrow> (Inr (o', used + total_tokens a, cost + mr_cost_usd a), models')
                | None \<Rightarrow> engine_attempts d m s budget later (used + total_tokens a)
                           (cost + mr_cost_usd a) models')))"

definition engine_update :: "inv_update \<Rightarrow> inv_db \<Rightarrow> (py_error, inv_update \<times> inv_db) result" where
  "engine_update u db = andThen (validate_update G5_HYPOTHESIS_ENGINE u) (\<lambda>_. Inr (u, db))"

definition sorted_texts :: "string list \<Rightarrow> string list" where "sorted_texts xs = sort (remdups xs)"

definition store_output ::
  "engine_deps \<Rightarrow> engine_state \<Rightarrow> inv_db \<Rightarrow> BudgetState \<Rightarrow> HypothesisOutput \<Rightarrow>
   (py_error, inv_update \<times> inv_db) result" where
  "store_output d s db charged output =
     (let known = known_evidence (es_evidence s);
          persisted = persisted_ids (en_tenant d) (en_incident d) known db in
      andThen (accept_drafts d known persisted (ho_hypotheses output) (int (length (es_hypotheses s))) db)
        (\<lambda>(news, db1).
      let gaps = sorted_texts (es_open_gaps s @ concat (map remaining_gaps news)) in
      andThen (reflect d s output news gaps db1) (\<lambda>(ref, refs, db2).
      engine_update
        [(''phase'', IPhase InvestigationPhase.PLANNING), (''hypotheses'', IHypotheses refs),
         (''reflection_decision'', IReflection ref), (''budget'', IBudget (run_snapshot charged)),
         (''open_gaps'', ITexts (sorted_texts (gaps @
            (case rd_gap ref of None \<Rightarrow> [] | Some g \<Rightarrow> if g = [] then [] else [g]))))] db2)))"

definition engine_failure :: "engine_model \<Rightarrow> string \<Rightarrow> string \<Rightarrow> py_error \<Rightarrow> NodeFailureRef" where
  "engine_failure m occurred name e =
     \<lparr>nf_node_id = NodeId.G5_HYPOTHESIS_ENGINE, nf_node_version = nc_node_version G5_HYPOTHESIS_ENGINE,
      nf_error_type = name, nf_message = em_scrub m (py_strip (take 1000 (em_error_text m e))), recoverable = True,
      nf_occurred_at = occurred, nf_stage = None,
      nf_category = Some EvidenceFailureCategory.MODEL_FAILURE\<rparr>"

definition engine_caught :: "py_error \<Rightarrow> string option" where
  "engine_caught e =
     (if isinstance e C_BudgetExhausted then Some ''BudgetExhausted''
      else if isinstance e C_SchemaViolation then Some ''SchemaViolation''
      else if isinstance e C_ModelProviderError then Some ''ModelProviderError''
      else None)"

definition engine_recovers ::
  "engine_deps \<Rightarrow> engine_model \<Rightarrow> string \<Rightarrow> inv_db \<Rightarrow> BudgetState \<Rightarrow> py_error \<Rightarrow> string \<Rightarrow> model_db \<Rightarrow>
   (py_error, inv_update \<times> inv_db) result" where
  "engine_recovers d m occurred db budget e name models =
     andThen (reloaded_budget (en_run d) budget models) (\<lambda>b.
     andThen (charge b no_charge) (\<lambda>charged.
     engine_update
       [(''phase'', IPhase InvestigationPhase.PLANNING), (''budget'', IBudget (run_snapshot charged)),
        (''failures'', IFailures [engine_failure m occurred name e])] db))"

definition hypothesis_node ::
  "engine_deps \<Rightarrow> engine_model \<Rightarrow> int \<Rightarrow> string \<Rightarrow> engine_state \<Rightarrow> inv_db \<Rightarrow> model_db \<Rightarrow>
   (py_error, inv_update \<times> inv_db) result \<times> model_db" where
  "hypothesis_node d m now occurred s db models =
     (case run_budget (em_policy m) (em_started_at m) now (es_budget s) of
        Inl e \<Rightarrow> (Inl e, models)
      | Inr budget \<Rightarrow>
          if es_evidence s = [] then
            (engine_update [(''phase'', IPhase InvestigationPhase.PLANNING),
                            (''budget'', IBudget (run_snapshot budget))] db, models)
          else (case engine_attempts d m s budget [1 ..< ENGINE_REPAIR_ATTEMPTS + 2] 0 0 models of
             (Inl e, models') \<Rightarrow>
               (case engine_caught e of
                  None \<Rightarrow> (Inl e, models')
                | Some name \<Rightarrow> (engine_recovers d m occurred db budget e name models', models'))
           | (Inr (output, used, cost), models') \<Rightarrow>
               (andThen (charge budget (call_charge used cost)) (\<lambda>charged.
                  store_output d s db charged output), models')))"

section \<open>Rounding and ceilings\<close>

lemma round_half_even_le: "x \<le> of_int n \<Longrightarrow> round_half_even x \<le> n"
proof -
  assume "x \<le> of_int n"
  then have f: "\<lfloor>x\<rfloor> \<le> n" "\<lfloor>x\<rfloor> = n \<Longrightarrow> x = of_int n" by linarith+
  show ?thesis
  proof (cases "\<lfloor>x\<rfloor> = n")
    case True
    then show ?thesis using f(2) by (simp add: round_half_even_def)
  next
    case False
    then have "\<lfloor>x\<rfloor> + 1 \<le> n" using f(1) by simp
    then show ?thesis by (auto simp: round_half_even_def Let_def)
  qed
qed

lemma round3_le: "x \<le> of_int n / 1000 \<Longrightarrow> round3 x \<le> of_int n / 1000"
  using round_half_even_le [of "x * 1000" n] by (simp add: round3_def divide_right_mono)

lemma ceiling_bounds:
  shows "confidence_ceiling 0 c q = 1 / 10"
    and "0 < c \<Longrightarrow> confidence_ceiling n c q \<le> 35 / 100"
    and "confidence_ceiling (Suc 0) c q \<le> 4 / 10"
    and "confidence_ceiling n c q \<le> 95 / 100"
proof -
  have "round3 (min (95 / 100) (45 / 100 + 1 / 10 * of_nat (min n 4) + 2 / 10 * q)) \<le> of_int 950 / 1000"
    by (intro round3_le min.coboundedI1) simp
  then show "confidence_ceiling n c q \<le> 95 / 100"
    by (auto simp: confidence_ceiling_def UNSUPPORTED_CEILING_def CONTRADICTED_CEILING_def
        SINGLE_SUPPORT_CEILING_def min_def)
qed (auto simp: confidence_ceiling_def UNSUPPORTED_CEILING_def CONTRADICTED_CEILING_def
    SINGLE_SUPPORT_CEILING_def min_def)

text \<open>The confidence \<open>s\<close> supporting and \<open>c\<close> contradicting records can earn, in thousandths.\<close>

definition earned :: "nat \<Rightarrow> nat \<Rightarrow> int" where
  "earned s c = (if s = 0 then 100 else if 0 < c then 350 else if s = 1 then 400 else 950)"

lemma applied_earned: "round3 (min x (confidence_ceiling s c q)) \<le> of_int (earned s c) / 1000"
proof (rule round3_le)
  have "confidence_ceiling s c q \<le> of_int (earned s c) / 1000"
    using ceiling_bounds(1) [of c q] ceiling_bounds(2) [of c s q] ceiling_bounds(3) [of c q]
      ceiling_bounds(4) [of s c q]
    by (auto simp: earned_def)
  then show "min x (confidence_ceiling s c q) \<le> of_int (earned s c) / 1000" by simp
qed

section \<open>What is stored\<close>

lemma expand_persisted: "set (expand_citations cited known persisted) \<subseteq> set persisted"
  by (auto simp: expand_citations_def expand_entry_def split: if_splits)

lemma partition_persisted:
  "partition_citations d known persisted = (s, c) \<Longrightarrow>
   set s \<subseteq> set persisted \<and> set c \<subseteq> set persisted \<and> set s \<inter> set c = {}"
  using expand_persisted [of _ known persisted] by (fastforce simp: partition_citations_def Let_def)

lemma persisted_ids_in:
  "i \<in> set (persisted_ids tenant incident known db) \<Longrightarrow>
   \<exists>e \<in> set (iv_evidence db). ev_tenant e = tenant \<and> ie_incident e = incident \<and> ev_id e = i"
  by (auto simp: persisted_ids_def split: if_splits)

definition link_key :: "inv_link \<Rightarrow> string \<times> string \<times> string" where
  "link_key l = (il_tenant l, hl_hypothesis l, hl_evidence l)"

lemma add_links_Inr:
  assumes "add_links ls db = Inr db'"
  shows "db' = db\<lparr>iv_links := iv_links db @ ls\<rparr>" and "distinct (map link_key ls)"
    and "\<And>l. l \<in> set ls \<Longrightarrow> link_key l \<notin> link_key ` set (iv_links db)"
proof -
  have "db' = db\<lparr>iv_links := iv_links db @ ls\<rparr> \<and> distinct (map link_key ls) \<and>
    (\<forall>l \<in> set ls. link_key l \<notin> link_key ` set (iv_links db))"
    using assms
  proof (induction ls arbitrary: db)
    case (Cons l ls)
    from Cons.prems obtain db1 where a: "add_link l db = Inr db1" "add_links ls db1 = Inr db'"
      by (auto simp: andThen_eq_Inr)
    have db1: "db1 = db\<lparr>iv_links := iv_links db @ [l]\<rparr>" "link_key l \<notin> link_key ` set (iv_links db)"
      using a(1) by (auto simp: add_link_def link_allowed_def list_ex_iff link_key_def split: if_splits)
    then show ?case using Cons.IH [OF a(2)] by auto
  qed simp
  then show "db' = db\<lparr>iv_links := iv_links db @ ls\<rparr>" "distinct (map link_key ls)"
    "\<And>l. l \<in> set ls \<Longrightarrow> link_key l \<notin> link_key ` set (iv_links db)" by auto
qed

definition links_of :: "string \<Rightarrow> string \<Rightarrow> inv_db \<Rightarrow> inv_link list" where
  "links_of tenant hypothesis db =
     filter (\<lambda>l. il_tenant l = tenant \<and> hl_hypothesis l = hypothesis) (iv_links db)"

definition count_links :: "EvidenceRelation \<Rightarrow> inv_link list \<Rightarrow> nat" where
  "count_links relation ls = length (filter (\<lambda>l. hl_relation l = relation) ls)"

text \<open>
  A stored hypothesis rests on its links: they name different records of the incident, and its
  confidence is at most what their number and direction earn.
\<close>

definition grounded :: "engine_deps \<Rightarrow> inv_db \<Rightarrow> inv_hypothesis \<Rightarrow> bool" where
  "grounded d db h \<longleftrightarrow>
     (let ls = links_of (en_tenant d) (hy_id h) db in
      hy_confidence h \<le> of_int (earned (count_links EvidenceRelation.SUPPORTS ls)
        (count_links EvidenceRelation.CONTRADICTS ls)) / 1000 \<and>
      distinct (map hl_evidence ls) \<and>
      list_all (\<lambda>l. list_ex (\<lambda>e. ev_tenant e = en_tenant d \<and> ie_incident e = en_incident d \<and>
        ev_id e = hl_evidence l) (iv_evidence db)) ls)"

definition linked :: "inv_db \<Rightarrow> bool" where
  "linked db \<longleftrightarrow> list_all (\<lambda>l. hl_hypothesis l \<in> hy_id ` set (iv_hypotheses db)) (iv_links db)"

lemma grounded_mono:
  assumes "grounded d db h" "iv_evidence db' = iv_evidence db" "iv_links db' = iv_links db @ ls"
    and "\<And>l. l \<in> set ls \<Longrightarrow> hl_hypothesis l \<noteq> hy_id h"
  shows "grounded d db' h"
proof -
  have "links_of (en_tenant d) (hy_id h) db' = links_of (en_tenant d) (hy_id h) db"
    using assms(3,4) by (auto simp: links_of_def filter_empty_conv)
  then show ?thesis using assms(1,2) by (simp add: grounded_def Let_def)
qed

lemma count_evidence_links:
  "count_links r (evidence_links t h s EvidenceRelation.SUPPORTS @
     evidence_links t h c EvidenceRelation.CONTRADICTS) =
   (if r = EvidenceRelation.SUPPORTS then length s
    else if r = EvidenceRelation.CONTRADICTS then length c else 0)"
  by (auto simp: count_links_def evidence_links_def filter_map comp_def)

definition evidenced :: "engine_deps \<Rightarrow> inv_db \<Rightarrow> string set \<Rightarrow> bool" where
  "evidenced d db ids \<longleftrightarrow> (\<forall>i \<in> ids. list_ex (\<lambda>e. ev_tenant e = en_tenant d \<and>
     ie_incident e = en_incident d \<and> ev_id e = i) (iv_evidence db))"

lemma persist_grounded:
  assumes "persist_hypothesis d draft s c rank db = Inr (ref, db')"
    and "evidenced d db (set s \<union> set c)" "linked db"
  obtains h ls where "iv_hypotheses db' = iv_hypotheses db @ [h]" "iv_links db' = iv_links db @ ls"
    "iv_evidence db' = iv_evidence db" "hypothesis_id ref = hy_id h"
    "hy_id h \<notin> hy_id ` set (iv_hypotheses db)" "\<forall>l \<in> set ls. hl_hypothesis l = hy_id h"
    "grounded d db' h" "linked db'"
proof -
  define h where "h = drafted_row d draft s c rank
    (mean_of (cited_qualities (en_tenant d) (s @ c) db))"
  define ls where "ls = evidence_links (en_tenant d) (hy_id h) s EvidenceRelation.SUPPORTS @
    evidence_links (en_tenant d) (hy_id h) c EvidenceRelation.CONTRADICTS"
  from assms(1) obtain db1 where db1: "add_hypothesis h db = Inr db1" "add_links ls db1 = Inr db'"
    and ref: "ref = hypothesis_ref h (length s) (length c)"
    by (auto simp: persist_hypothesis_def Let_def andThen_eq_Inr h_def ls_def)
  have new: "hy_id h \<notin> hy_id ` set (iv_hypotheses db)"
    and d1: "db1 = db\<lparr>iv_hypotheses := iv_hypotheses db @ [h]\<rparr>"
    using db1(1) by (auto simp: add_hypothesis_def split: if_splits)
  note links = add_links_Inr [OF db1(2)]
  have own: "\<forall>l \<in> set ls. hl_hypothesis l = hy_id h \<and> il_tenant l = en_tenant d \<and>
      hl_evidence l \<in> set s \<union> set c"
    by (auto simp: ls_def evidence_links_def)
  have fresh: "\<forall>l \<in> set (iv_links db). hl_hypothesis l \<noteq> hy_id h"
    using assms(3) new unfolding linked_def list_all_iff by metis
  have of: "links_of (en_tenant d) (hy_id h) db' = ls"
    using own fresh by (auto simp: links(1) d1 links_of_def filter_empty_conv filter_id_conv)
  have "hy_confidence h \<le> of_int (earned (length s) (length c)) / 1000"
    using applied_earned [of "hd_confidence draft" "length s" "length c"
      "mean_of (cited_qualities (en_tenant d) (s @ c) db)"]
    by (simp add: h_def drafted_row_def Let_def)
  then have conf: "hy_confidence h \<le> of_int (earned (count_links EvidenceRelation.SUPPORTS ls)
      (count_links EvidenceRelation.CONTRADICTS ls)) / 1000"
    by (simp add: ls_def count_evidence_links)
  have "map link_key ls = map (\<lambda>i. (en_tenant d, hy_id h, i)) (map hl_evidence ls)"
    using own by (auto simp: link_key_def)
  then have "distinct (map hl_evidence ls)" using links(2) by (metis distinct_map)
  moreover have "list_all (\<lambda>l. list_ex (\<lambda>e. ev_tenant e = en_tenant d \<and> ie_incident e = en_incident d \<and>
      ev_id e = hl_evidence l) (iv_evidence db')) ls"
    using assms(2) own by (auto simp: evidenced_def list_all_iff links(1) d1)
  ultimately have "grounded d db' h" using conf by (simp add: grounded_def of)
  moreover have "linked db'"
    using assms(3) own by (auto simp: linked_def links(1) d1 list_all_iff)
  ultimately show thesis
    using that [of h ls] new own by (simp add: links(1) d1 ref hypothesis_ref_def)
qed

lemma accepted_grounded:
  assumes "accept_drafts d known persisted drafts rank db = Inr (refs, db')"
    and "evidenced d db (set persisted)" "linked db"
  shows "\<exists>rows ls. iv_hypotheses db' = iv_hypotheses db @ rows \<and> iv_links db' = iv_links db @ ls \<and>
    iv_evidence db' = iv_evidence db \<and> map hypothesis_id refs = map hy_id rows \<and>
    (\<forall>h \<in> set rows. grounded d db' h \<and> hy_id h \<notin> hy_id ` set (iv_hypotheses db)) \<and>
    (\<forall>l \<in> set ls. hl_hypothesis l \<in> hy_id ` set rows) \<and> linked db'"
  using assms
proof (induction drafts arbitrary: rank db refs)
  case Nil
  then show ?case by (intro exI [of _ "[]"]) simp
next
  case (Cons draft later)
  show ?case
  proof (cases "unknown_citations draft persisted = []")
    case False
    then show ?thesis using Cons.prems by (intro Cons.IH) auto
  next
    case True
    obtain s c where sc: "partition_citations draft known persisted = (s, c)" by fastforce
    from Cons.prems(1) True obtain ref db1 refs1 where
      p: "persist_hypothesis d draft s c (rank + 1) db = Inr (ref, db1)"
      and l: "accept_drafts d known persisted later (rank + 1) db1 = Inr (refs1, db')"
      and refs: "refs = ref # refs1"
      by (auto simp: sc andThen_eq_Inr)
    have "evidenced d db (set s \<union> set c)"
      using Cons.prems(2) partition_persisted [OF sc] by (auto simp: evidenced_def)
    then obtain h ls where h: "iv_hypotheses db1 = iv_hypotheses db @ [h]"
      "iv_links db1 = iv_links db @ ls" "iv_evidence db1 = iv_evidence db" "hypothesis_id ref = hy_id h"
      "hy_id h \<notin> hy_id ` set (iv_hypotheses db)" "\<forall>l \<in> set ls. hl_hypothesis l = hy_id h"
      "grounded d db1 h" "linked db1"
      using persist_grounded [OF p _ Cons.prems(3)] by metis
    have "evidenced d db1 (set persisted)" using Cons.prems(2) by (simp add: evidenced_def h(3))
    from Cons.IH [OF l this h(8)] obtain rows ls1 where
      r: "iv_hypotheses db' = iv_hypotheses db1 @ rows" "iv_links db' = iv_links db1 @ ls1"
      "iv_evidence db' = iv_evidence db1" "map hypothesis_id refs1 = map hy_id rows"
      "\<forall>g \<in> set rows. grounded d db' g \<and> hy_id g \<notin> hy_id ` set (iv_hypotheses db1)"
      "\<forall>l \<in> set ls1. hl_hypothesis l \<in> hy_id ` set rows" "linked db'" by blast
    have "grounded d db' h"
      by (rule grounded_mono [OF h(7) r(3,2)]) (use r(5,6) h(1) in auto)
    then show ?thesis
      using h r by (intro exI [of _ "h # rows"] exI [of _ "ls @ ls1"]) (auto simp: refs)
  qed
qed

text \<open>A revision changes no identifier, no confidence and no link.\<close>

lemma reflect_keeps:
  assumes "reflect d s output news gaps db = Inr (ref, refs, db')"
  shows "iv_links db' = iv_links db \<and> iv_evidence db' = iv_evidence db \<and>
    (\<exists>g. iv_hypotheses db' = map g (iv_hypotheses db) \<and>
       (\<forall>h. hy_id (g h) = hy_id h \<and> hy_confidence (g h) = hy_confidence h))"
proof -
  have same: "\<exists>g. iv_hypotheses db = map g (iv_hypotheses db) \<and>
      (\<forall>h. hy_id (g h) = hy_id h \<and> hy_confidence (g h) = hy_confidence h)" for db :: inv_db
    by (intro exI [of _ "\<lambda>h. h"]) simp
  show ?thesis
  proof (cases "rv_action (decide_reflection (reflection_inputs s output news gaps)) =
      ReflectionAction.REVISE_HYPOTHESIS")
    case False
    then show ?thesis using assms same [of db] by (simp add: reflect_def Let_def)
  next
    case True
    with assms obtain t h hs where
      "supersede (en_tenant d) t (hypothesis_id (strongest h hs)) db = Inr db'"
      by (auto simp: reflect_def Let_def apply_revision_def andThen_eq_Inr
          split: option.splits list.splits)
    then have db': "db' = db\<lparr>iv_hypotheses := map (\<lambda>k. if hy_tenant k = en_tenant d \<and> hy_id k = t
        then k\<lparr>hy_status := HypothesisStatus.SUPERSEDED,
               ih_superseded_by := Some (hypothesis_id (strongest h hs))\<rparr> else k) (iv_hypotheses db)\<rparr>"
      by (simp add: supersede_def Let_def split: if_splits)
    show ?thesis
      unfolding db'
      by (intro conjI exI [of _ "\<lambda>k. if hy_tenant k = en_tenant d \<and> hy_id k = t
        then k\<lparr>hy_status := HypothesisStatus.SUPERSEDED,
               ih_superseded_by := Some (hypothesis_id (strongest h hs))\<rparr> else k"]) simp_all
  qed
qed

lemma store_output_grounded:
  assumes "store_output d s db charged output = Inr (u, db')" "linked db"
  shows "list_all (grounded d db') (drop (length (iv_hypotheses db)) (iv_hypotheses db'))"
proof -
  define known where "known = known_evidence (es_evidence s)"
  from assms(1) obtain news db1 ref refs where
    a: "accept_drafts d known (persisted_ids (en_tenant d) (en_incident d) known db)
      (ho_hypotheses output) (int (length (es_hypotheses s))) db = Inr (news, db1)"
    and r: "reflect d s output news (sorted_texts (es_open_gaps s @ concat (map remaining_gaps news))) db1 =
      Inr (ref, refs, db')"
    by (auto simp: store_output_def engine_update_def Let_def andThen_eq_Inr known_def)
  have "evidenced d db (set (persisted_ids (en_tenant d) (en_incident d) known db))"
    using persisted_ids_in by (fastforce simp: evidenced_def list_ex_iff)
  then obtain rows where rows: "iv_hypotheses db1 = iv_hypotheses db @ rows"
      "\<forall>h \<in> set rows. grounded d db1 h"
    using accepted_grounded [OF a _ assms(2)] by blast
  from reflect_keeps [OF r] obtain g where
    g: "iv_links db' = iv_links db1" "iv_evidence db' = iv_evidence db1"
      "iv_hypotheses db' = map g (iv_hypotheses db1)"
      "\<forall>h. hy_id (g h) = hy_id h \<and> hy_confidence (g h) = hy_confidence h" by blast
  have "grounded d db' (g h) = grounded d db1 h" for h
    using g by (simp add: grounded_def links_of_def)
  then show ?thesis using rows g(3) by (simp add: list_all_iff)
qed

section \<open>Output that aborts the run\<close>

text \<open>A record cited twice for one side meets the unique key of the links.\<close>

lemma duplicate_citation:
  assumes "\<not> distinct s"
  shows "\<exists>e. persist_hypothesis d draft s c rank db = Inl e"
proof (rule ccontr)
  assume "\<nexists>e. persist_hypothesis d draft s c rank db = Inl e"
  then obtain ref db' where "persist_hypothesis d draft s c rank db = Inr (ref, db')"
    by (cases "persist_hypothesis d draft s c rank db") auto
  then obtain t h db1 where "add_links (evidence_links t h s EvidenceRelation.SUPPORTS @
      evidence_links t h c EvidenceRelation.CONTRADICTS) db1 = Inr db'"
    by (auto simp: persist_hypothesis_def Let_def andThen_eq_Inr)
  then have "distinct (map link_key (evidence_links t h s EvidenceRelation.SUPPORTS))"
    using add_links_Inr(2) by fastforce
  then have "distinct (map (\<lambda>i. (t, h, i)) s)" by (simp add: evidence_links_def comp_def link_key_def)
  then show False using assms by (simp add: distinct_map)
qed

text \<open>
  A revision of a hypothesis that the same answer proposed passes the guards, which look among all
  hypotheses, and then finds no earlier reference to correct.
\<close>

lemma revising_new_hypothesis:
  assumes "ho_reflection output = Some m" "rm_action m = ReflectionAction.REVISE_HYPOTHESIS"
    and "resolve_target (rm_target m) (es_hypotheses s) news = Some t" "t \<noteq> []"
    and "t \<in> set (map hypothesis_id news)" "t \<notin> set (map hypothesis_id (es_hypotheses s))"
    and "\<exists>h \<in> set news. hypothesis_id h \<noteq> t"
    and "\<forall>h \<in> set news. hyp_status h = HypothesisStatus.PROPOSED"
  shows "\<exists>e. reflect d s output news gaps db = Inl e"
proof -
  let ?i = "reflection_inputs s output news gaps"
  have p: "rp_action (ri_proposal ?i) = Some ReflectionAction.REVISE_HYPOTHESIS"
    "rp_target (ri_proposal ?i) = Some t"
    using assms(1-3) by (simp_all add: reflection_inputs_def reflection_proposal_def)
  have known: "t \<in> known_hypothesis_ids ?i"
    using assms(5) by (auto simp: known_hypothesis_ids_def reflection_inputs_def)
  then have "target_guard ?i ReflectionAction.REVISE_HYPOTHESIS = None"
    using p assms(4) by (simp add: target_guard_def Let_def)
  then have "decide_reflection ?i = decide_revise ?i" using p by (simp add: decide_reflection_def)
  moreover have "ri_new_ids ?i - {t} \<noteq> {}" using assms(7) by (auto simp: reflection_inputs_def)
  moreover have "hyp_status h = HypothesisStatus.PROPOSED" if h: "ri_hypothesis ?i t = Some h" for h
  proof -
    have "h \<in> set (es_hypotheses s @ news)" "hypothesis_id h = t"
      using find_SomeD h by (fastforce simp: ri_hypothesis_def reflection_inputs_def)+
    then show ?thesis using assms(6,8) by auto
  qed
  ultimately have v: "decide_reflection ?i =
      Reflection.accepted (ri_proposal ?i) ReflectionAction.REVISE_HYPOTHESIS (Some t) (rp_gap (ri_proposal ?i))"
    using p by (auto simp: decide_revise_def Let_def split: option.splits)
  have "List.find (\<lambda>h. hypothesis_id h = t) (es_hypotheses s) = None"
    using assms(6) by (auto simp: find_None_iff)
  then have "\<exists>e. apply_revision d (es_hypotheses s) news t db = Inl e"
    by (cases news) (auto simp: apply_revision_def andThen_def split: sum.splits)
  then show ?thesis using v by (auto simp: reflect_def Let_def Reflection.accepted_def)
qed

end
