(* ===== verification/Investigation_Graph.thy ===== *)
theory Investigation_Graph
  imports Hypothesis_Engine
begin

text \<open>
  The investigation loop: its topology and step ceiling (\<open>src/asic/orchestration/graph.py\<close>), the
  coordinator and the terminator (\<open>orchestration/nodes/coordinator.py\<close>), and what the planner does
  with a proposal (\<open>orchestration/nodes/planner.py\<close>): the domains the menu offers, the guards that
  override a choice, the stored step, and the node around them. The text of its prompt, the
  decoding of the answer, the rendering of exceptions and \<open>scrub_text\<close> are parameters. The lemmas: a walk visits the planner in every
  three steps, the terminator always ends the run with a category or hands back to the planner,
  and a guarded decision collects only from a granted domain.
\<close>

section \<open>The state the nodes thread\<close>

record inv_state = engine_state +
  gs_failures :: "NodeFailureRef list"
  gs_decision :: "PlannerDecisionRef option"
  gs_reflection :: "ReflectionDecisionRef option"
  gs_refusal :: "string option"
  gs_steps :: "StepRef list"
  gs_menu :: "string list"

section \<open>Topology\<close>

datatype inv_node = COORDINATOR | INV_PLANNER | EVIDENCE_COLLECTOR | HYPOTHESIS_ENGINE | TERMINATOR

definition NODES_PER_ITERATION :: int where "NODES_PER_ITERATION = 3"
definition LOOP_ENTRY_STEPS :: int where "LOOP_ENTRY_STEPS = 2"
definition MAX_RECURSION_LIMIT :: int where "MAX_RECURSION_LIMIT = 600"
definition INVESTIGATION_RECURSION_LIMIT :: int where "INVESTIGATION_RECURSION_LIMIT = 120"

definition recursion_limit_for :: "int \<Rightarrow> int" where
  "recursion_limit_for n =
     min MAX_RECURSION_LIMIT
       (max INVESTIGATION_RECURSION_LIMIT
         (n * NODES_PER_ITERATION + LOOP_ENTRY_STEPS + NODES_PER_ITERATION * 2))"

definition route_after_planner :: "PlannerDecisionRef option \<Rightarrow> inv_node" where
  "route_after_planner decision =
     (case decision of
        None \<Rightarrow> TERMINATOR
      | Some d \<Rightarrow>
          if PlannerDecisionRef.pd_action d = PlannerAction.COLLECT_EVIDENCE \<and> pd_domain d \<noteq> None
          then EVIDENCE_COLLECTOR
          else if PlannerDecisionRef.pd_action d = PlannerAction.FORM_HYPOTHESIS then HYPOTHESIS_ENGINE
          else TERMINATOR)"

definition route_after_terminator :: "bool \<Rightarrow> inv_node option" where
  "route_after_terminator terminated = (if terminated then None else Some INV_PLANNER)"

fun inv_next :: "inv_node \<Rightarrow> PlannerDecisionRef option \<Rightarrow> bool \<Rightarrow> inv_node option" where
  "inv_next COORDINATOR d t = Some INV_PLANNER"
| "inv_next INV_PLANNER d t = Some (route_after_planner d)"
| "inv_next EVIDENCE_COLLECTOR d t = Some TERMINATOR"
| "inv_next HYPOTHESIS_ENGINE d t = Some TERMINATOR"
| "inv_next TERMINATOR d t = route_after_terminator t"

text \<open>The nodes a run executes, given what the state shows after each of them.\<close>

fun inv_walk :: "inv_node \<Rightarrow> (PlannerDecisionRef option \<times> bool) list \<Rightarrow> inv_node list" where
  "inv_walk n [] = [n]"
| "inv_walk n ((d, t) # seen) =
     n # (case inv_next n d t of None \<Rightarrow> [] | Some n' \<Rightarrow> inv_walk n' seen)"

section \<open>The coordinator\<close>

definition initial_gap :: "IncidentScope \<Rightarrow> string" where
  "initial_gap scope =
     (let services = py_join '', '' (map sv_name (is_services scope)) in
      ''the cause of the reported symptoms in '' @
      (if services = [] then ''the affected service'' else services) @ '' is unknown'')"

record coordinator_deps =
  co_broker :: broker
  co_tenant :: string
  co_incident :: string
  co_run :: string
  co_policy :: BudgetPolicy
  co_started_at :: int

definition menu_audit :: "coordinator_deps \<Rightarrow> audit_row" where
  "menu_audit c =
     \<lparr>au_tenant = co_tenant c, au_event = AuditEventType.AUTHORIZATION_GRANTED,
      au_outcome = ''allowed'', au_incident = co_incident c, au_target_type = ''capability_menu'',
      au_target_id = co_run c, au_effect_key = None, au_dispatch_claimed = False, au_stage = None,
      au_execution = None\<rparr>"

definition coordinator_node ::
  "coordinator_deps \<Rightarrow> int \<Rightarrow> inv_state \<Rightarrow> broker_state \<Rightarrow> (py_error, inv_update) result \<times> broker_state" where
  "coordinator_node c now s st =
     (case menu_for (co_broker c) st G4_EVIDENCE_COLLECTOR False of
        (Inl e, st') \<Rightarrow> (Inl e, st')
      | (Inr menu, st') \<Rightarrow>
          (case run_budget (co_policy c) (co_started_at c) now (es_budget s) of
             Inl e \<Rightarrow> (Inl e, st')
           | Inr budget \<Rightarrow>
               (let u = [(''phase'', IPhase InvestigationPhase.PLANNING),
                         (''capability_menu'', ITexts (menu_names menu)),
                         (''budget'', IBudget (run_snapshot budget))] @
                        (if es_open_gaps s = []
                         then [(''open_gaps'', ITexts [initial_gap (br_scope (co_broker c))])] else [])
                in (andThen (validate_update G2_INCIDENT_COORDINATOR u) (\<lambda>_. Inr u),
                    st'\<lparr>bs_db := (bs_db st')\<lparr>bk_audit := bk_audit (bs_db st') @ [menu_audit c]\<rparr>\<rparr>))))"

section \<open>The terminator\<close>

definition budget_refusal_of :: "inv_state \<Rightarrow> (py_error, BudgetKind option) result" where
  "budget_refusal_of s =
     (case gs_refusal s of
        None \<Rightarrow> Inr None
      | Some raw \<Rightarrow>
          if raw = [] then Inr None
          else (case enum_of BudgetKind_members BudgetKind_value raw of
                  None \<Rightarrow> Inl ValueError | Some k \<Rightarrow> Inr (Some k)))"

definition termination_inputs :: "inv_state \<Rightarrow> BudgetState \<Rightarrow> BudgetKind option \<Rightarrow> TerminationInputs" where
  "termination_inputs s budget refusal =
     \<lparr>ti_budget = budget, ti_hypotheses = es_hypotheses s,
      ti_evidence_count = int (length (es_evidence s)), ti_failures = gs_failures s,
      ti_degraded_domains = es_degraded s, ti_attempted_domains = es_covered s @ es_degraded s,
      ti_planner_action = map_option PlannerDecisionRef.pd_action (gs_decision s),
      ti_open_gaps = es_open_gaps s, ti_budget_refusal = refusal,
      ti_reflection_action = map_option rd_action (gs_reflection s)\<rparr>"

definition terminator_update :: "BudgetState \<Rightarrow> TerminationVerdict \<Rightarrow> inv_update" where
  "terminator_update budget v =
     [(''terminated'', IFlag (should_terminate v)),
      (''termination_rule_id'', IText (Some (tv_rule_id v))),
      (''budget'', IBudget (run_snapshot budget))] @
     (if should_terminate v
      then [(''phase'', IPhase InvestigationPhase.TERMINATED),
            (''termination_reason'', IText (map_option TerminationReason_value (tv_reason v))),
            (''terminal_incident_status'',
              IText (map_option IncidentStatus_value (tv_incident_status v)))]
      else [(''phase'', IPhase InvestigationPhase.PLANNING)])"

definition terminator_node ::
  "BudgetPolicy \<Rightarrow> int \<Rightarrow> int \<Rightarrow> inv_state \<Rightarrow> (py_error, inv_update) result" where
  "terminator_node p started now s =
     andThen (run_budget p started now (es_budget s)) (\<lambda>budget.
     andThen (budget_refusal_of s) (\<lambda>refusal.
     andThen (Termination.decide (termination_inputs s budget refusal)) (\<lambda>v.
     let u = terminator_update budget v in
     andThen (validate_update G2_TERMINATOR u) (\<lambda>_. Inr u))))"

section \<open>The planner's proposal\<close>

record PlannerDecision =
  pl_action :: PlannerAction
  pl_gap :: string
  pl_rationale :: string
  pl_domain :: "EvidenceDomain option"
  pl_expected_gain :: rat
  pl_candidates :: "CandidateTask list"

definition valid_decision :: "PlannerDecision \<Rightarrow> bool" where
  "valid_decision d \<longleftrightarrow>
     1 \<le> length (pl_gap d) \<and> length (pl_gap d) \<le> 500 \<and>
     1 \<le> length (pl_rationale d) \<and> length (pl_rationale d) \<le> 1000 \<and>
     unit_interval (pl_expected_gain d) \<and>
     list_all (\<lambda>c. unit_interval (cand_expected_gain c)) (pl_candidates d)"

definition available_domains :: "string list \<Rightarrow> EvidenceDomain list" where
  "available_domains menu = map fst (filter (\<lambda>(d, c). c \<in> set menu) DOMAIN_CAPABILITY)"

datatype override_reason =
    NoDomainNamed
  | DomainNotOffered EvidenceDomain
  | DomainAlreadyCollected EvidenceDomain

text \<open>The guards, in their order; an override turns the step into a hypothesis step.\<close>

definition apply_guards ::
  "PlannerDecision \<Rightarrow> inv_state \<Rightarrow> EvidenceDomain list \<Rightarrow> PlannerDecision \<times> override_reason option" where
  "apply_guards d s available =
     (let hypothesise = d\<lparr>pl_action := PlannerAction.FORM_HYPOTHESIS\<rparr> in
      if pl_action d \<noteq> PlannerAction.COLLECT_EVIDENCE then (d, None)
      else case pl_domain d of
        None \<Rightarrow> (hypothesise, Some NoDomainNamed)
      | Some area \<Rightarrow>
          if area \<notin> set available then (hypothesise, Some (DomainNotOffered area))
          else if EvidenceDomain_value area \<in> set (es_covered s) \<union> set (es_degraded s) \<and>
                  pl_gap d \<in> step_gap ` set (gs_steps s)
          then (hypothesise, Some (DomainAlreadyCollected area))
          else (d, None))"

definition phase_for :: "PlannerAction \<Rightarrow> InvestigationPhase" where
  "phase_for a =
     (if a = PlannerAction.COLLECT_EVIDENCE then InvestigationPhase.COLLECTING
      else if a = PlannerAction.FORM_HYPOTHESIS then InvestigationPhase.ANALYSING
      else InvestigationPhase.TERMINATING)"

definition remaining_open_gaps :: "inv_state \<Rightarrow> string \<Rightarrow> string list" where
  "remaining_open_gaps s answered = filter (\<lambda>g. g \<noteq> answered) (es_open_gaps s)"

record step_row =
  sp_id :: string
  sp_tenant :: string
  sp_incident :: string
  sp_run :: string
  sp_sequence :: nat
  sp_gap :: string
  sp_domain :: EvidenceDomain
  sp_rationale :: string
  sp_status :: InvestigationStepStatus
  sp_budget_before :: "num_dict \<times> num_dict"
  sp_started_at :: int
  sp_degradation :: "string option"
  sp_budget_after :: "(num_dict \<times> num_dict) option"
  sp_completed_at :: "int option"

text \<open>The unique key of a step and its two checks.\<close>

definition step_allowed :: "step_row list \<Rightarrow> step_row \<Rightarrow> bool" where
  "step_allowed rows r \<longleftrightarrow>
     1 \<le> sp_sequence r \<and>
     (sp_status r = InvestigationStepStatus.DEGRADED \<longrightarrow> sp_degradation r \<noteq> None) \<and>
     \<not> list_ex (\<lambda>q. sp_id q = sp_id r \<or>
         sp_tenant q = sp_tenant r \<and> sp_incident q = sp_incident r \<and> sp_sequence q = sp_sequence r) rows"

definition step_ref :: "step_row \<Rightarrow> StepRef" where
  "step_ref r =
     \<lparr>step_id = sp_id r, step_sequence = int (sp_sequence r), step_domain = sp_domain r,
      step_gap = py_strip (sp_gap r), step_status = InvestigationStepStatus.PLANNED,
      step_evidence_count = 0, degradation_reason = None\<rparr>"

definition persist_step ::
  "engine_deps \<Rightarrow> inv_state \<Rightarrow> PlannerDecision \<Rightarrow> BudgetState \<Rightarrow> string \<Rightarrow> int \<Rightarrow> step_row list \<Rightarrow>
   (py_error, StepRef \<times> step_row list) result" where
  "persist_step d s decision budget new_id now rows =
     (case pl_domain decision of
        None \<Rightarrow> Inl AssertionError
      | Some area \<Rightarrow>
          (let r = \<lparr>sp_id = new_id, sp_tenant = en_tenant d, sp_incident = en_incident d,
                    sp_run = en_run d, sp_sequence = length (gs_steps s) + 1, sp_gap = pl_gap decision,
                    sp_domain = area, sp_rationale = pl_rationale decision,
                    sp_status = InvestigationStepStatus.PLANNED,
                    sp_budget_before = budget_to_dict budget, sp_started_at = now,
                    sp_degradation = None, sp_budget_after = None, sp_completed_at = None\<rparr> in
           if step_allowed rows r then Inr (step_ref r, rows @ [r]) else Inl IntegrityError))"

section \<open>The planner\<close>

record plan_model =
  pm_provider :: model_provider
  pm_durable :: "(string \<times> string) option"
  pm_policy :: BudgetPolicy
  pm_started_at :: int
  pm_prompt :: "inv_state \<Rightarrow> string list \<Rightarrow> string"
  pm_prompt_hash :: string
  pm_decode :: "string \<Rightarrow> PlannerDecision option"
  pm_scrub :: "string \<Rightarrow> string"
  pm_error_text :: "py_error \<Rightarrow> string"

definition PLANNER_REPAIR_ATTEMPTS :: nat where "PLANNER_REPAIR_ATTEMPTS = 1"

definition domain_names :: "EvidenceDomain list \<Rightarrow> string list" where
  "domain_names available = sorted_texts (map EvidenceDomain_value available)"

definition planner_prompted ::
  "engine_deps \<Rightarrow> plan_model \<Rightarrow> inv_state \<Rightarrow> EvidenceDomain list \<Rightarrow> nat \<Rightarrow> ModelRequest" where
  "planner_prompted d m s available attempt =
     \<lparr>mq_node = NodeId.G3_INVESTIGATION_PLANNER, mq_prompt_id = ''investigation_planner'',
      mq_prompt_version = ''1.1.0'', mq_prompt_hash = pm_prompt_hash m,
      mq_prompt_text = pm_prompt m s (domain_names available), mq_temperature = 0,
      mq_max_output_tokens = 2048,
      mq_metadata = [(''workflow_run_id'', en_run d), (''attempt'', nat_digits attempt)]\<rparr>"

definition planning_key :: "int \<Rightarrow> nat \<Rightarrow> string" where
  "planning_key iteration attempt =
     NodeId_value NodeId.G3_INVESTIGATION_PLANNER @ '':'' @ int_digits iteration @ '':'' @
     nat_digits attempt"

definition validated_decision :: "plan_model \<Rightarrow> string \<Rightarrow> PlannerDecision option" where
  "validated_decision m t =
     (case pm_decode m t of None \<Rightarrow> None | Some p \<Rightarrow> if valid_decision p then Some p else None)"

fun planner_attempts ::
  "engine_deps \<Rightarrow> plan_model \<Rightarrow> inv_state \<Rightarrow> EvidenceDomain list \<Rightarrow> BudgetState \<Rightarrow> nat list \<Rightarrow> int \<Rightarrow>
   rat \<Rightarrow> model_db \<Rightarrow> (py_error, PlannerDecision \<times> int \<times> rat) result \<times> model_db" where
  "planner_attempts d m s available budget [] used cost models = (Inl SchemaViolation, models)"
| "planner_attempts d m s available budget (attempt # later) used cost models =
     (case charge budget (call_charge used cost) of
        Inl e \<Rightarrow> (Inl e, models)
      | Inr charged \<Rightarrow>
          (case complete_with_budget (pm_provider m) (planner_prompted d m s available attempt) charged
               (pm_durable m) (Some (planning_key (es_iteration s) attempt)) models of
             (Inl e, models') \<Rightarrow> (Inl e, models')
           | (Inr (a, _), models') \<Rightarrow>
               (case validated_decision m (mr_text a) of
                  Some p \<Rightarrow> (Inr (p, used + total_tokens a, cost + mr_cost_usd a), models')
                | None \<Rightarrow> planner_attempts d m s available budget later (used + total_tokens a)
                           (cost + mr_cost_usd a) models')))"

text \<open>A text of a reference: the white space is stripped, then secrets are scrubbed.\<close>

definition scrubbed :: "plan_model \<Rightarrow> string \<Rightarrow> string" where
  "scrubbed m t = pm_scrub m (py_strip t)"

definition override_text :: "EvidenceDomain list \<Rightarrow> override_reason \<Rightarrow> string" where
  "override_text available r =
     (case r of
        NoDomainNamed \<Rightarrow>
          ''collect_evidence was proposed with no domain; converted to hypothesis formation''
      | DomainNotOffered area \<Rightarrow>
          ''domain '' @ py_repr (EvidenceDomain_value area) @
          '' maps to a capability that is not on this run's menu (['' @
          py_join '', '' (map py_repr (domain_names available)) @
          '']); the selection is rejected rather than repaired''
      | DomainAlreadyCollected area \<Rightarrow>
          ''domain '' @ py_repr (EvidenceDomain_value area) @
          '' was already collected for the same gap; a repeated collection would spend budget '' @
          ''without closing anything'')"

definition planner_update :: "inv_update \<Rightarrow> step_row list \<Rightarrow> (py_error, inv_update \<times> step_row list) result" where
  "planner_update u rows = andThen (validate_update G3_INVESTIGATION_PLANNER u) (\<lambda>_. Inr (u, rows))"

text \<open>The update that stops the loop; the terminator decides the outcome.\<close>

definition end_planning ::
  "plan_model \<Rightarrow> BudgetState \<Rightarrow> string \<Rightarrow> string \<Rightarrow> NodeFailureRef option \<Rightarrow> BudgetKind option \<Rightarrow>
   step_row list \<Rightarrow> (py_error, inv_update \<times> step_row list) result" where
  "end_planning m budget gap reason failure refusal rows =
     planner_update
       ([(''last_decision'', IDecision
            \<lparr>PlannerDecisionRef.pd_action = PlannerAction.TERMINATE, pd_gap = scrubbed m gap,
             pd_rationale = scrubbed m reason, pd_domain = None, pd_expected_gain = 0,
             pd_candidates = [], pd_overridden_reason = Some (scrubbed m reason)\<rparr>),
         (''phase'', IPhase InvestigationPhase.TERMINATING),
         (''budget'', IBudget (run_snapshot budget))] @
        (case failure of None \<Rightarrow> [] | Some f \<Rightarrow> [(''failures'', IFailures [f])]) @
        (case refusal of None \<Rightarrow> []
           | Some k \<Rightarrow> [(''budget_refusal'', IText (Some (BudgetKind_value k)))])) rows"

definition planner_failure :: "plan_model \<Rightarrow> string \<Rightarrow> string \<Rightarrow> bool \<Rightarrow> py_error \<Rightarrow> NodeFailureRef" where
  "planner_failure m occurred name transient e =
     \<lparr>nf_node_id = NodeId.G3_INVESTIGATION_PLANNER,
      nf_node_version = nc_node_version G3_INVESTIGATION_PLANNER, nf_error_type = name,
      nf_message = scrubbed m (pm_error_text m e), recoverable = transient,
      nf_occurred_at = py_strip occurred, nf_stage = None, nf_category = None\<rparr>"

text \<open>The three \<open>except\<close> clauses around the model call.\<close>

definition planner_recovers ::
  "engine_deps \<Rightarrow> plan_model \<Rightarrow> string \<Rightarrow> BudgetState \<Rightarrow> py_error \<Rightarrow> step_row list \<Rightarrow> model_db \<Rightarrow>
   (py_error, inv_update \<times> step_row list) result" where
  "planner_recovers d m occurred charged e rows models =
     (case e of
        BudgetExhausted k \<Rightarrow>
          end_planning m charged ''budget exhausted before the planner's model call could be afforded''
            (pm_error_text m e) None (Some k) rows
      | SchemaViolation \<Rightarrow>
          andThen (reloaded_budget (en_run d) charged models) (\<lambda>b.
          end_planning m b ''the planner could not produce a valid step'' (pm_error_text m e)
            (Some (planner_failure m occurred ''SchemaViolation'' True e)) None rows)
      | ModelProviderError transient \<Rightarrow>
          andThen (reloaded_budget (en_run d) charged models) (\<lambda>b.
          end_planning m b ''the model provider was unavailable'' (pm_error_text m e)
            (Some (planner_failure m occurred ''ModelProviderError'' transient e)) None rows)
      | _ \<Rightarrow> Inl e)"

definition decision_reference ::
  "plan_model \<Rightarrow> EvidenceDomain list \<Rightarrow> PlannerDecision \<Rightarrow> override_reason option \<Rightarrow> PlannerDecisionRef" where
  "decision_reference m available p r =
     \<lparr>PlannerDecisionRef.pd_action = pl_action p, pd_gap = scrubbed m (pl_gap p), pd_rationale = scrubbed m (pl_rationale p),
      pd_domain = pl_domain p, pd_expected_gain = pl_expected_gain p, pd_candidates = pl_candidates p,
      pd_overridden_reason = map_option (\<lambda>o'. scrubbed m (override_text available o')) r\<rparr>"

definition accept_decision ::
  "engine_deps \<Rightarrow> plan_model \<Rightarrow> inv_state \<Rightarrow> EvidenceDomain list \<Rightarrow> BudgetState \<Rightarrow> PlannerDecision \<Rightarrow>
   string \<Rightarrow> int \<Rightarrow> step_row list \<Rightarrow> (py_error, inv_update \<times> step_row list) result" where
  "accept_decision d m s available charged proposed new_id now rows =
     (case apply_guards proposed s available of (p, override) \<Rightarrow>
       let u = [(''last_decision'', IDecision (decision_reference m available p override)),
                (''iteration'', ICount (es_iteration s + 1)),
                (''budget'', IBudget (run_snapshot charged)),
                (''phase'', IPhase (phase_for (pl_action p)))] in
       if pl_action p = PlannerAction.COLLECT_EVIDENCE \<and> pl_domain p \<noteq> None then
         andThen (persist_step d s p charged new_id now rows) (\<lambda>(step, rows').
         planner_update (u @ [(''steps'', ISteps [step]),
           (''open_gaps'', ITexts (remaining_open_gaps s (pl_gap p)))]) rows')
       else if pl_action p = PlannerAction.TERMINATE then
         planner_update (u @ [(''terminated'', IFlag False), (''open_gaps'', ITexts (es_open_gaps s))]) rows
       else planner_update (u @ [(''open_gaps'', ITexts (es_open_gaps s))]) rows)"

definition investigation_planner ::
  "engine_deps \<Rightarrow> plan_model \<Rightarrow> int \<Rightarrow> string \<Rightarrow> string \<Rightarrow> inv_state \<Rightarrow> step_row list \<Rightarrow> model_db \<Rightarrow>
   (py_error, inv_update \<times> step_row list) result \<times> model_db" where
  "investigation_planner d m now occurred new_id s rows models =
     (case run_budget (pm_policy m) (pm_started_at m) now (es_budget s) of
        Inl e \<Rightarrow> (Inl e, models)
      | Inr budget \<Rightarrow>
        (case require_headroom budget (no_charge\<lparr>c_iterations := 1\<rparr>) of
           Inl e \<Rightarrow>
             (case e of
                BudgetExhausted k \<Rightarrow>
                  (end_planning m budget ''budget exhausted before a further step could be taken''
                    (pm_error_text m e) None (Some k) rows, models)
              | _ \<Rightarrow> (Inl e, models))
         | Inr _ \<Rightarrow>
           (case charge budget (no_charge\<lparr>c_iterations := 1\<rparr>) of
              Inl e \<Rightarrow> (Inl e, models)
            | Inr charged \<Rightarrow>
                let available = available_domains (gs_menu s) in
                (case planner_attempts d m s available charged [1 ..< PLANNER_REPAIR_ATTEMPTS + 2] 0 0 models of
                   (Inl e, models') \<Rightarrow> (planner_recovers d m occurred charged e rows models', models')
                 | (Inr (p, used, cost), models') \<Rightarrow>
                     (andThen (charge charged (call_charge used cost)) (\<lambda>b.
                        accept_decision d m s available b p new_id now rows), models')))))"

section \<open>Facts\<close>

definition planner_visits :: "inv_node list \<Rightarrow> nat" where
  "planner_visits w = length (filter (\<lambda>n. n = INV_PLANNER) w)"

text \<open>Steps a walk may take before it is at the planner again.\<close>

fun slack :: "inv_node \<Rightarrow> nat" where
  "slack INV_PLANNER = 0"
| "slack COORDINATOR = 1"
| "slack TERMINATOR = 1"
| "slack EVIDENCE_COLLECTOR = 2"
| "slack HYPOTHESIS_ENGINE = 2"

lemma slack_after_planner: "slack (route_after_planner d) \<le> 2"
  by (cases "route_after_planner d") simp_all

lemma walk_bound: "length (inv_walk n seen) \<le> slack n + 3 * planner_visits (inv_walk n seen)"
proof (induction n seen rule: inv_walk.induct)
  case (1 n)
  then show ?case by (cases n) (simp_all add: planner_visits_def)
next
  case (2 n d t seen)
  show ?case
  proof (cases "inv_next n d t")
    case None
    then show ?thesis by (cases n) (simp_all add: planner_visits_def)
  next
    case (Some n')
    have "length (inv_walk n' seen) \<le> slack n' + 3 * planner_visits (inv_walk n' seen)"
      by (rule 2 [OF Some])
    moreover have "slack n' + 1 \<le> slack n + (if n = INV_PLANNER then 3 else 0)"
      using Some slack_after_planner [of d]
      by (cases n) (auto simp: route_after_terminator_def split: if_splits)
    ultimately show ?thesis
      using Some by (cases "n = INV_PLANNER") (simp_all add: planner_visits_def)
  qed
qed

lemma recursion_limit_enough:
  "1 \<le> n \<Longrightarrow> n \<le> 197 \<Longrightarrow> 3 * n + 1 < recursion_limit_for n"
  by (simp add: recursion_limit_for_def MAX_RECURSION_LIMIT_def INVESTIGATION_RECURSION_LIMIT_def
      NODES_PER_ITERATION_def LOOP_ENTRY_STEPS_def)

lemma available_granted:
  "d \<in> set (available_domains menu) \<longleftrightarrow> (\<exists>c. (d, c) \<in> set DOMAIN_CAPABILITY \<and> c \<in> set menu)"
  by (force simp: available_domains_def)

lemma run_budget_ok: "is_ok (run_budget p started now snapshot)"
  by (simp add: run_budget_def observe_elapsed_def with_elapsed_def is_ok_andThen)

lemma terminator_contract: "is_ok (validate_update G2_TERMINATOR (terminator_update budget v))"
proof -
  have "validate_update G2_TERMINATOR (terminator_update budget v) = Inr ()"
    by (rule validate_update_ok [where ks = "[''terminated'', ''termination_rule_id'', ''budget'', ''phase'',
      ''termination_reason'', ''terminal_incident_status'']"])
      (simp add: terminator_update_def, code_simp)
  then show ?thesis by simp
qed

text \<open>The outcomes of a pass through the terminator.\<close>

lemma terminator_decides:
  assumes "budget_refusal_of s = Inr refusal"
  shows "\<exists>budget v. run_budget p started now (es_budget s) = Inr budget \<and>
    Termination.decide (termination_inputs s budget refusal) = Inr v \<and>
    terminator_node p started now s = Inr (terminator_update budget v)"
proof -
  obtain budget where b: "run_budget p started now (es_budget s) = Inr budget"
    using run_budget_ok by (metis is_ok_iff)
  obtain v where v: "Termination.decide (termination_inputs s budget refusal) = Inr v"
    by (cases "termination_inputs s budget refusal" rule: decide_cases) auto
  have "validate_update G2_TERMINATOR (terminator_update budget v) = Inr ()"
    using terminator_contract by (metis is_ok_iff old.unit.exhaust)
  then show ?thesis by (simp add: terminator_node_def b v assms Let_def)
qed

lemma guarded_decision:
  assumes "apply_guards p s (available_domains menu) = (q, r)" "pl_action q = PlannerAction.COLLECT_EVIDENCE"
  obtains area capability where "pl_domain q = Some area" "(area, capability) \<in> set DOMAIN_CAPABILITY"
    "capability \<in> set menu" "q = p" "r = None"
proof -
  have "\<exists>area capability. pl_domain q = Some area \<and> (area, capability) \<in> set DOMAIN_CAPABILITY \<and>
      capability \<in> set menu \<and> q = p \<and> r = None"
    using assms available_granted [of _ menu]
    by (cases "pl_domain p") (auto simp: apply_guards_def Let_def split: if_splits)
  then show thesis using that by blast
qed

text \<open>What an update of the planner says about the stored steps.\<close>

definition decision_of :: "inv_update \<Rightarrow> PlannerDecisionRef option" where
  "decision_of u = (case map_of u ''last_decision'' of Some (IDecision ref) \<Rightarrow> Some ref | _ \<Rightarrow> None)"

definition step_accounted ::
  "engine_deps \<Rightarrow> inv_state \<Rightarrow> step_row list \<Rightarrow> inv_update \<Rightarrow> step_row list \<Rightarrow> bool" where
  "step_accounted d s rows u rows' \<longleftrightarrow>
     (case decision_of u of
        None \<Rightarrow> False
      | Some ref \<Rightarrow>
          if route_after_planner (Some ref) = EVIDENCE_COLLECTOR
          then \<exists>r capability. rows' = rows @ [r] \<and> pd_domain ref = Some (sp_domain r) \<and>
            (sp_domain r, capability) \<in> set DOMAIN_CAPABILITY \<and> capability \<in> set (gs_menu s) \<and>
            pd_overridden_reason ref = None \<and> sp_run r = en_run d \<and> sp_incident r = en_incident d \<and>
            sp_sequence r = length (gs_steps s) + 1 \<and>
            map_of u ''iteration'' = Some (ICount (es_iteration s + 1)) \<and>
            map_of u ''steps'' = Some (ISteps [step_ref r])
          else rows' = rows \<and> map_of u ''steps'' = None)"

lemma planner_update_Inr: "planner_update u rows = Inr (v, rows') \<Longrightarrow> v = u \<and> rows' = rows"
  by (auto simp: planner_update_def andThen_eq_Inr)

lemma end_planning_accounted:
  "end_planning m budget gap reason failure refusal rows = Inr (u, rows') \<Longrightarrow>
   step_accounted d s rows u rows'"
  by (auto simp: end_planning_def step_accounted_def decision_of_def route_after_planner_def
      dest!: planner_update_Inr split: option.splits)

lemma planner_recovers_accounted:
  "planner_recovers d m occurred charged e rows models = Inr (u, rows') \<Longrightarrow>
   step_accounted d s rows u rows'"
  by (auto simp: planner_recovers_def andThen_eq_Inr dest!: end_planning_accounted split: py_error.splits)

lemma accept_accounted:
  assumes "accept_decision d m s (available_domains (gs_menu s)) charged proposed new_id now rows =
    Inr (u, rows')"
  shows "step_accounted d s rows u rows'"
proof -
  obtain p r where g: "apply_guards proposed s (available_domains (gs_menu s)) = (p, r)" by fastforce
  show ?thesis
  proof (cases "pl_action p = PlannerAction.COLLECT_EVIDENCE")
    case True
    from guarded_decision [OF g True] obtain area capability where
      a: "pl_domain p = Some area" "(area, capability) \<in> set DOMAIN_CAPABILITY"
        "capability \<in> set (gs_menu s)" "r = None" by blast
    show ?thesis
      using assms True a
      by (auto simp: accept_decision_def g Let_def andThen_eq_Inr persist_step_def step_accounted_def decision_of_def
          route_after_planner_def decision_reference_def step_ref_def dest!: planner_update_Inr
          split: if_splits)
  next
    case False
    then show ?thesis
      using assms
      by (auto simp: accept_decision_def g Let_def step_accounted_def decision_of_def
          route_after_planner_def
          decision_reference_def dest!: planner_update_Inr split: if_splits)
  qed
qed

lemma planner_accounted:
  "fst (investigation_planner d m now occurred new_id s rows models) = Inr (u, rows') \<Longrightarrow>
   step_accounted d s rows u rows'"
  by (auto simp: investigation_planner_def Let_def andThen_eq_Inr
      dest!: end_planning_accounted planner_recovers_accounted accept_accounted
      split: sum.splits prod.splits py_error.splits)

text \<open>The stored gap is stripped, the guard compares the raw one.\<close>

lemma padded_gap_escapes_guard:
  assumes "persist_step e s d budget new_id now rows = Inr (ref, rows')"
    and "py_strip (pl_gap d) \<noteq> pl_gap d" "apply_guards d s available = (d, None)"
    and "pl_gap d \<notin> step_gap ` set (gs_steps s)"
  shows "apply_guards d (s\<lparr>gs_steps := gs_steps s @ [ref], es_covered := covered\<rparr>) available = (d, None)"
proof -
  have "step_gap ref = py_strip (pl_gap d)"
    using assms(1) by (auto simp: persist_step_def Let_def step_ref_def split: option.splits if_splits)
  then show ?thesis
    using assms(2-4) by (auto simp: apply_guards_def Let_def split: option.splits if_splits)
qed

end
