(* ===== verification/Knowledge_Access.thy ===== *)
theory Knowledge_Access
  imports Investigation_Graph
begin

text \<open>
  Access to retrieved knowledge: who an investigation retrieves as and what it may see now
  (\<open>src/asic/knowledge/authorization.py\<close>), the verification of a provider's manifest, its record
  and the blocks a prompt may quote (\<open>src/asic/orchestration/knowledge_context.py\<close>), the content
  behind a citation (\<open>knowledge/retrieval.py\<close>, \<open>current_content\<close>) and the resolution of a citation
  (\<open>knowledge/citations.py\<close>). The decoding of the manifest by pydantic and SHA-256 are parameters;
  identifiers are texts. A refusal with a code is \<open>Coded\<close>, any other exception \<open>Raised\<close>. The
  lemmas: what a verified retrieval rests on, and that content is shown only under an access that
  holds when it is shown.
\<close>

section \<open>Rows\<close>

record knowledge_source =
  ks_id :: string
  ks_tenant :: string
  ks_provider :: string
  ks_ref :: string
  ks_type :: KnowledgeDocumentType
  ks_services :: "string list"
  ks_environments :: "string list"
  ks_labels :: "string list"
  ks_status :: KnowledgeSourceStatus

record knowledge_document =
  kd_id :: string
  kd_tenant :: string
  kd_source :: "string option"
  kd_version :: int
  kd_lifecycle :: KnowledgeVersionState

record knowledge_chunk =
  kc_id :: string
  kc_tenant :: string
  kc_document :: string
  kc_text :: string
  kc_hash :: "string option"
  kc_section :: "string list"
  kc_lines :: "int option \<times> int option"
  kc_offsets :: "int option \<times> int option"

record retrieval_principal =
  pr_tenant :: string
  pr_kind :: RetrievalPrincipalKind
  pr_id :: string
  pr_clearances :: "string list"

record retrieval_scope =
  sc_environment :: string
  sc_services :: "string list"
  sc_types :: "KnowledgeDocumentType list"

record manifest_result =
  mi_rank :: int
  mi_chunk :: string
  mi_version :: string
  mi_source :: string
  mi_lexical :: "int option \<times> rat option"
  mi_vector :: "int option \<times> rat option"
  mi_fused :: rat
  mi_stale :: bool
  mi_hash :: string

text \<open>The measurements of a retrieval, which are stored as the manifest states them.\<close>

record retrieval_facts =
  mf_embedding_model :: string
  mf_dimensions :: int
  mf_query_text :: string
  mf_as_of :: int
  mf_include_stale :: bool
  mf_counts :: "int \<times> int \<times> int"
  mf_excluded :: "(string \<times> int) list"
  mf_latency_ms :: int

record retrieval_manifest =
  mn_retrieval :: string
  mn_tenant :: string
  mn_key :: string
  mn_correlation :: string
  mn_kind :: RetrievalPrincipalKind
  mn_principal :: string
  mn_clearances :: "string list"
  mn_policy :: string
  mn_digest :: string
  mn_facts :: retrieval_facts
  mn_results :: "manifest_result list"

record retrieval_row =
  kt_id :: string
  kt_tenant :: string
  kt_kind :: RetrievalPrincipalKind
  kt_principal :: string
  kt_clearances :: "string list"
  kt_incident :: string
  kt_run :: string
  kt_execution :: "string option"
  kt_evidence :: string
  kt_correlation :: string
  kt_key :: string
  kt_policy :: string
  kt_digest :: string
  kt_scope :: "string \<times> string list \<times> string list"
  kt_facts :: retrieval_facts
  kt_result_count :: nat

record result_row = manifest_result +
  kq_tenant :: string
  kq_retrieval :: string

record knowledge_db =
  kb_grants :: "grant_row list"
  kb_tools :: "tool_row list"
  kb_executions :: "execution_row list"
  kb_sources :: "knowledge_source list"
  kb_documents :: "knowledge_document list"
  kb_chunks :: "knowledge_chunk list"
  kb_retrievals :: "retrieval_row list"
  kb_results :: "result_row list"

datatype knowledge_error = Coded string | Raised py_error

section \<open>The principal\<close>

definition KNOWLEDGE_TOOL :: string where "KNOWLEDGE_TOOL = ''knowledge.search''"
definition KNOWLEDGE_CAPABILITY :: string where "KNOWLEDGE_CAPABILITY = ''read.knowledge''"

definition CLEARANCE_OVERRIDE_KEY :: string where
  "CLEARANCE_OVERRIDE_KEY = ''knowledge_acl_clearances''"

fun label_form :: "string \<Rightarrow> bool" where
  "label_form [] = False"
| "label_form (c # cs) \<longleftrightarrow>
     is_lower c \<and> length cs \<le> 63 \<and>
     list_all (\<lambda>x. is_lower x \<or> is_digit x \<or> x \<in> set ''_.:-'') cs"

text \<open>In \<open>re.match\<close> the end of the pattern also matches before a final line break.\<close>

definition label_matches :: "string \<Rightarrow> bool" where
  "label_matches s \<longleftrightarrow> label_form s \<or> (s \<noteq> [] \<and> last s = CHR 0x0A \<and> label_form (butlast s))"

definition knowledge_grants :: "string \<Rightarrow> string \<Rightarrow> knowledge_db \<Rightarrow> grant_row list" where
  "knowledge_grants tenant environment db =
     filter (\<lambda>g. gr_tenant g = tenant \<and> gr_enabled g \<and>
         list_ex (\<lambda>t. tr_id t = gr_definition_id g \<and> tr_name t = KNOWLEDGE_TOOL \<and>
                     tr_capability t = KNOWLEDGE_CAPABILITY \<and> tr_is_enabled t) (kb_tools db) \<and>
         (gr_environment g = Some environment \<or> gr_environment g = None)) (kb_grants db)"

text \<open>The clearances of the grant for the environment, or else of the tenant-wide one.\<close>

definition raw_clearances :: "grant_row list \<Rightarrow> pyval" where
  "raw_clearances grants =
     (case sort_key (\<lambda>g. gr_environment g = None) grants of
        [] \<Rightarrow> PList []
      | g # _ \<Rightarrow>
          (case map_of (gr_scope_overrides g) CLEARANCE_OVERRIDE_KEY of
             None \<Rightarrow> PList [] | Some v \<Rightarrow> v))"

definition clearance_labels :: "pyval \<Rightarrow> string list option" where
  "clearance_labels raw =
     (case raw of
        PList vs \<Rightarrow>
          if length vs \<le> 32 \<and> list_all (\<lambda>v. case v of PStr s \<Rightarrow> label_matches s | _ \<Rightarrow> False) vs
          then Some (List.map_filter (\<lambda>v. case v of PStr s \<Rightarrow> Some s | _ \<Rightarrow> None) vs) else None
      | _ \<Rightarrow> None)"

definition investigation_principal ::
  "string \<Rightarrow> string \<Rightarrow> string \<Rightarrow> knowledge_db \<Rightarrow> (knowledge_error, retrieval_principal) result" where
  "investigation_principal tenant environment principal_id db =
     (case clearance_labels (raw_clearances (knowledge_grants tenant environment db)) of
        None \<Rightarrow> Inl (Coded ''invalid_clearance_configuration'')
      | Some labels \<Rightarrow>
          if list_all label_form labels
          then Inr \<lparr>pr_tenant = tenant, pr_kind = RetrievalPrincipalKind.INVESTIGATION,
                    pr_id = principal_id, pr_clearances = labels\<rparr>
          else Inl (Raised (OtherException ''ValidationError'')))"

definition recompute_context ::
  "string \<Rightarrow> string \<Rightarrow> string list \<Rightarrow> string \<Rightarrow> knowledge_db \<Rightarrow>
   (knowledge_error, retrieval_principal \<times> retrieval_scope) result" where
  "recompute_context tenant environment services correlation db =
     andThen (investigation_principal tenant environment (''investigation:'' @ correlation) db) (\<lambda>p.
       if 1 \<le> length services \<and> length services \<le> 16
       then Inr (p, \<lparr>sc_environment = environment, sc_services = services,
                     sc_types = KnowledgeDocumentType_members\<rparr>)
       else Inl (Raised (OtherException ''ValidationError'')))"

section \<open>Access\<close>

definition disjoint_lists :: "string list \<Rightarrow> string list \<Rightarrow> bool" where
  "disjoint_lists xs ys \<longleftrightarrow> list_all (\<lambda>x. x \<notin> set ys) xs"

definition current_access ::
  "knowledge_source \<Rightarrow> knowledge_document \<Rightarrow> retrieval_principal \<Rightarrow> retrieval_scope \<Rightarrow> string option" where
  "current_access source doc p sc =
     (if ks_status source \<noteq> KnowledgeSourceStatus.ACTIVE
      then Some (''source_'' @ KnowledgeSourceStatus_value (ks_status source))
      else if kd_lifecycle doc = KnowledgeVersionState.REVOKED then Some ''version_revoked''
      else if ks_labels source \<noteq> [] \<and> disjoint_lists (ks_labels source) (pr_clearances p)
      then Some ''acl_denied''
      else if ks_services source \<noteq> [] \<and> disjoint_lists (ks_services source) (sc_services sc)
      then Some ''service_out_of_scope''
      else if ks_environments source \<noteq> [] \<and> sc_environment sc \<notin> set (ks_environments source)
      then Some ''environment_out_of_scope''
      else if sc_types sc \<noteq> [] \<and> ks_type source \<notin> set (sc_types sc)
      then Some ''document_type_out_of_scope''
      else None)"

text \<open>The join of a chunk with its document and source, within one tenant.\<close>

definition chunk_rows ::
  "string \<Rightarrow> knowledge_db \<Rightarrow> (knowledge_chunk \<times> knowledge_document \<times> knowledge_source) list" where
  "chunk_rows tenant db =
     concat (map (\<lambda>c. concat (map (\<lambda>d. map (\<lambda>s. (c, d, s))
         (filter (\<lambda>s. ks_tenant s = kd_tenant d \<and> Some (ks_id s) = kd_source d) (kb_sources db)))
       (filter (\<lambda>d. kd_tenant d = kc_tenant c \<and> kd_id d = kc_document c) (kb_documents db))))
     (filter (\<lambda>c. kc_tenant c = tenant) (kb_chunks db)))"

definition stored_chunk ::
  "string \<Rightarrow> knowledge_db \<Rightarrow> string \<Rightarrow> (knowledge_chunk \<times> knowledge_document \<times> knowledge_source) option" where
  "stored_chunk tenant db i = List.find (\<lambda>(c, d, s). kc_id c = i) (rev (chunk_rows tenant db))"

section \<open>Verification of a manifest\<close>

definition DEFAULT_POLICY_IDENTIFIER :: string where
  "DEFAULT_POLICY_IDENTIFIER = ''knowledge-retrieval/1:hybrid:rrf/1''"

record verified_retrieval =
  vr_retrieval :: string
  vr_manifest :: "retrieval_manifest option"
  vr_citations :: "string list"
  vr_flags :: "string list"
  vr_replayed :: bool
  vr_principal :: "retrieval_principal option"
  vr_scope :: "retrieval_scope option"

definition citation_token :: "string \<Rightarrow> string \<Rightarrow> string \<Rightarrow> string" where
  "citation_token retrieval chunk version =
     ''knowledge:'' @ retrieval @ ''/'' @ chunk @ ''@'' @ version"

definition replayed_retrieval ::
  "string \<Rightarrow> ToolResult \<Rightarrow> knowledge_db \<Rightarrow> verified_retrieval option" where
  "replayed_retrieval tenant r db =
     (case List.find (\<lambda>t. kt_tenant t = tenant \<and> kt_execution t = res_execution r \<and>
                          res_execution r \<noteq> None) (kb_retrievals db) of
        None \<Rightarrow> None
      | Some t \<Rightarrow>
          Some \<lparr>vr_retrieval = kt_id t, vr_manifest = None,
                vr_citations = map (\<lambda>q. citation_token (kt_id t) (mi_chunk q) (mi_version q))
                  (sort_key mi_rank (filter (\<lambda>q. kq_tenant q = tenant \<and> kq_retrieval q = kt_id t)
                    (kb_results db))),
                vr_flags = [], vr_replayed = True, vr_principal = None, vr_scope = None\<rparr>)"

definition coded :: "bool \<Rightarrow> string \<Rightarrow> (knowledge_error, unit) result" where
  "coded ok code = guard ok (Coded code)"

definition execution_keys :: "string \<Rightarrow> string option \<Rightarrow> knowledge_db \<Rightarrow> string list" where
  "execution_keys tenant execution db =
     map ex_key (filter (\<lambda>e. ex_tenant e = tenant \<and> Some (ex_id e) = execution) (kb_executions db))"

text \<open>Each result against the stored rows; the flags of the texts found.\<close>

fun check_results ::
  "string \<Rightarrow> retrieval_principal \<Rightarrow> retrieval_scope \<Rightarrow> knowledge_db \<Rightarrow> manifest_result list \<Rightarrow>
   (knowledge_error, string list) result" where
  "check_results tenant p sc db [] = Inr []"
| "check_results tenant p sc db (i # is) =
     (case stored_chunk tenant db (mi_chunk i) of
        None \<Rightarrow> Inl (Coded ''manifest_unknown_chunk'')
      | Some (c, d, s) \<Rightarrow>
          andThen (coded (kc_document c = mi_version i \<and> ks_id s = mi_source i)
            ''manifest_version_mismatch'') (\<lambda>_.
          andThen (coded (kc_hash c = Some (mi_hash i)) ''manifest_content_mismatch'') (\<lambda>_.
          andThen (coded (current_access s d p sc = None) ''manifest_unauthorized_result'') (\<lambda>_.
          andThen (check_results tenant p sc db is) (\<lambda>flags. Inr (scan (kc_text c) @ flags))))))"

text \<open>\<open>payload.get("documents") or []\<close>, when it is a list.\<close>

definition listed_documents :: "arg_map \<Rightarrow> pyval list option" where
  "listed_documents payload =
     (case dict_get payload ''documents'' of
        PList vs \<Rightarrow> Some vs
      | PNone \<Rightarrow> Some [] | PBool b \<Rightarrow> if b then None else Some []
      | PInt n \<Rightarrow> if n = 0 then Some [] else None | PFloat x \<Rightarrow> if x = 0 then Some [] else None
      | PStr t \<Rightarrow> if t = [] then Some [] else None | PBytes t \<Rightarrow> if t = [] then Some [] else None
      | PDict m \<Rightarrow> if m = [] then Some [] else None
      | _ \<Rightarrow> None)"

definition verified_of ::
  "retrieval_manifest \<Rightarrow> retrieval_principal \<Rightarrow> retrieval_scope \<Rightarrow> string list \<Rightarrow> verified_retrieval" where
  "verified_of m p sc flags =
     \<lparr>vr_retrieval = mn_retrieval m, vr_manifest = Some m,
      vr_citations = map (\<lambda>i. citation_token (mn_retrieval m) (mi_chunk i) (mi_version i)) (mn_results m),
      vr_flags = sorted_texts flags, vr_replayed = False, vr_principal = Some p, vr_scope = Some sc\<rparr>"

definition check_manifest ::
  "(string \<Rightarrow> string) \<Rightarrow> string \<Rightarrow> string \<Rightarrow> retrieval_principal \<Rightarrow> retrieval_scope \<Rightarrow> string \<Rightarrow>
   ToolResult \<Rightarrow> knowledge_db \<Rightarrow> retrieval_manifest \<Rightarrow> (knowledge_error, verified_retrieval) result" where
  "check_manifest sha tenant correlation p sc query r db m =
     andThen (coded (mn_tenant m = tenant) ''manifest_tenant_mismatch'') (\<lambda>_.
     andThen (coded (mn_correlation m = correlation) ''manifest_correlation_mismatch'') (\<lambda>_.
     andThen (coded (case execution_keys tenant (res_execution r) db of
           [] \<Rightarrow> False | key # _ \<Rightarrow> key = mn_key m) ''manifest_not_from_this_call'') (\<lambda>_.
     andThen (coded (mn_kind m = pr_kind p \<and> mn_principal m = pr_id p \<and>
           set (mn_clearances m) = set (pr_clearances p)) ''manifest_principal_mismatch'') (\<lambda>_.
     andThen (coded (mn_policy m = DEFAULT_POLICY_IDENTIFIER) ''manifest_policy_mismatch'') (\<lambda>_.
     andThen (coded (mn_digest m = sha query) ''manifest_query_digest_mismatch'') (\<lambda>_.
     andThen (coded (\<not> list_ex (\<lambda>t. kt_tenant t = tenant \<and> kt_id t = mn_retrieval m) (kb_retrievals db))
           ''manifest_retrieval_id_reused'') (\<lambda>_.
     andThen (coded (map mi_rank (mn_results m) = map int [1 ..< length (mn_results m) + 1])
           ''manifest_ranks_not_contiguous'') (\<lambda>_.
     andThen (coded (distinct (map mi_chunk (mn_results m))) ''manifest_duplicate_chunk'') (\<lambda>_.
     andThen (coded (case listed_documents (res_payload r) of
           None \<Rightarrow> False | Some ds \<Rightarrow> length ds = length (mn_results m))
           ''manifest_document_count_mismatch'') (\<lambda>_.
     andThen (check_results tenant p sc db (mn_results m)) (\<lambda>flags.
     Inr (verified_of m p sc flags))))))))))))"

definition validate_manifest ::
  "(string \<Rightarrow> string) \<Rightarrow> (pyval \<Rightarrow> retrieval_manifest option) \<Rightarrow> string \<Rightarrow> string \<Rightarrow> retrieval_principal \<Rightarrow>
   retrieval_scope \<Rightarrow> string \<Rightarrow> ToolResult \<Rightarrow> knowledge_db \<Rightarrow>
   (knowledge_error, verified_retrieval option) result" where
  "validate_manifest sha decode tenant correlation p sc query r db =
     (if res_deduplicated r then Inr (replayed_retrieval tenant r db)
      else case dict_get (res_payload r) ''retrieval'' of
        PNone \<Rightarrow> Inl (Coded ''manifest_missing'')
      | raw \<Rightarrow>
          (case decode raw of
             None \<Rightarrow> Inl (Coded ''manifest_malformed'')
           | Some m \<Rightarrow>
               andThen (check_manifest sha tenant correlation p sc query r db m) (\<lambda>v. Inr (Some v))))"

section \<open>The record of a retrieval\<close>

definition result_rows :: "string \<Rightarrow> retrieval_manifest \<Rightarrow> result_row list" where
  "result_rows tenant m =
     map (\<lambda>i. \<lparr>mi_rank = mi_rank i, mi_chunk = mi_chunk i, mi_version = mi_version i,
              mi_source = mi_source i, mi_lexical = mi_lexical i, mi_vector = mi_vector i,
              mi_fused = mi_fused i, mi_stale = mi_stale i, mi_hash = mi_hash i,
              kq_tenant = tenant, kq_retrieval = mn_retrieval m\<rparr>) (mn_results m)"

text \<open>A result names a rank, and at least one of the two signals that found it.\<close>

definition result_checks :: "result_row \<Rightarrow> bool" where
  "result_checks q \<longleftrightarrow> 1 \<le> mi_rank q \<and> (fst (mi_lexical q) \<noteq> None \<or> fst (mi_vector q) \<noteq> None)"

text \<open>The primary key of a retrieval is unique over all tenants.\<close>

definition record_manifest ::
  "verified_retrieval \<Rightarrow> string \<Rightarrow> string \<Rightarrow> string \<Rightarrow> string option \<Rightarrow> string \<Rightarrow> knowledge_db \<Rightarrow>
   (knowledge_error, knowledge_db) result" where
  "record_manifest v tenant incident run execution evidence db =
     (case (vr_manifest v, vr_principal v, vr_scope v) of
        (None, _, _) \<Rightarrow> Inr db
      | (Some m, Some p, Some sc) \<Rightarrow>
          if vr_replayed v then Inr db
          else if mn_retrieval m \<in> kt_id ` set (kb_retrievals db) \<or>
                  \<not> list_all result_checks (result_rows tenant m) \<or>
                  \<not> distinct (map mi_rank (mn_results m)) \<or> \<not> distinct (map mi_chunk (mn_results m))
          then Inl (Coded ''manifest_retrieval_id_reused'')
          else Inr (db\<lparr>kb_retrievals := kb_retrievals db @
                 [\<lparr>kt_id = mn_retrieval m, kt_tenant = tenant, kt_kind = pr_kind p,
                   kt_principal = pr_id p, kt_clearances = sorted_texts (pr_clearances p),
                   kt_incident = incident, kt_run = run, kt_execution = execution,
                   kt_evidence = evidence, kt_correlation = mn_correlation m, kt_key = mn_key m,
                   kt_policy = mn_policy m, kt_digest = mn_digest m,
                   kt_scope = (sc_environment sc, sort (sc_services sc),
                     sort (map KnowledgeDocumentType_value (sc_types sc))),
                   kt_facts = mn_facts m, kt_result_count = length (mn_results m)\<rparr>],
               kb_results := kb_results db @ result_rows tenant m\<rparr>)
      | (Some m, _, _) \<Rightarrow> if vr_replayed v then Inr db else Inl (Raised AssertionError))"

section \<open>Content behind citations\<close>

record knowledge_citation =
  ci_retrieval :: string
  ci_chunk :: string
  ci_version :: string

definition current_content ::
  "string \<Rightarrow> knowledge_citation list \<Rightarrow> retrieval_principal \<Rightarrow> retrieval_scope \<Rightarrow> knowledge_db \<Rightarrow>
   string \<Rightarrow> string option" where
  "current_content tenant citations p sc db i =
     (if i \<notin> ci_chunk ` set citations then None
      else map_option (\<lambda>(c, d, s). kc_text c)
        (List.find (\<lambda>(c, d, s). kc_id c = i \<and> current_access s d p sc = None)
          (rev (chunk_rows tenant db))))"

definition MAX_KNOWLEDGE_BLOCKS :: nat where "MAX_KNOWLEDGE_BLOCKS = 10"
definition MAX_RESULT_CONTENT_CHARS :: nat where "MAX_RESULT_CONTENT_CHARS = 2000"

definition withheld :: string where "withheld = ''[content withheld: access withdrawn]''"

text \<open>
  The citations of the retrievals that the evidence names, in the order of the retrievals;
  \<open>retrievals\<close> are the identifiers that the citations of the evidence rows hold, in row order.
\<close>

definition position_of :: "string list \<Rightarrow> string \<Rightarrow> nat" where
  "position_of xs x =
     (case filter (\<lambda>(i, y). y = x) (List.enumerate 0 xs) of [] \<Rightarrow> 0 | hits \<Rightarrow> fst (last hits))"

definition result_order :: "result_row \<Rightarrow> string \<times> int" where
  "result_order q = (kq_retrieval q, mi_rank q)"

definition retrieval_citations ::
  "string \<Rightarrow> string list \<Rightarrow> knowledge_db \<Rightarrow> knowledge_citation list" where
  "retrieval_citations tenant retrievals db =
     take MAX_KNOWLEDGE_BLOCKS (sort_key (\<lambda>c. position_of retrievals (ci_retrieval c))
       (map (\<lambda>q. \<lparr>ci_retrieval = kq_retrieval q, ci_chunk = mi_chunk q, ci_version = mi_version q\<rparr>)
         (sort_key kq_retrieval (sort_key mi_rank
           (filter (\<lambda>q. kq_tenant q = tenant \<and> kq_retrieval q \<in> set retrievals) (kb_results db))))))"

definition knowledge_block ::
  "(string \<Rightarrow> string option) \<Rightarrow> knowledge_citation \<Rightarrow> UntrustedBlock" where
  "knowledge_block content c =
     \<lparr>ub_source = citation_token (ci_retrieval c) (ci_chunk c) (ci_version c),
      ub_provenance = ProvenanceLabel.RETRIEVED,
      ub_content = take MAX_RESULT_CONTENT_CHARS
        (case content (ci_chunk c) of None \<Rightarrow> withheld | Some t \<Rightarrow> if t = [] then withheld else t)\<rparr>"

definition knowledge_blocks ::
  "string \<Rightarrow> string list \<Rightarrow> retrieval_principal \<Rightarrow> retrieval_scope \<Rightarrow> knowledge_db \<Rightarrow> UntrustedBlock list" where
  "knowledge_blocks tenant retrievals p sc db =
     (let citations = retrieval_citations tenant retrievals db in
      map (knowledge_block (current_content tenant citations p sc db)) citations)"

section \<open>Resolving a citation\<close>

definition locate ::
  "string \<Rightarrow> knowledge_citation \<Rightarrow> knowledge_db \<Rightarrow>
   (knowledge_error, result_row \<times> knowledge_chunk \<times> knowledge_document \<times> knowledge_source) result" where
  "locate tenant c db =
     (case concat (map (\<lambda>q. map (\<lambda>(k, d, s). (q, k, d, s))
         (filter (\<lambda>(k, d, s). kc_id k = mi_chunk q) (chunk_rows tenant db)))
       (filter (\<lambda>q. kq_tenant q = tenant \<and> kq_retrieval q = ci_retrieval c \<and> mi_chunk q = ci_chunk c)
         (kb_results db))) of
        [] \<Rightarrow> Inl (Coded ''unknown_citation'')
      | [(q, k, d, s)] \<Rightarrow>
          andThen (coded (mi_version q = ci_version c \<and> kc_document k = ci_version c) ''version_mismatch'')
            (\<lambda>_. andThen (coded (kc_hash k = Some (mi_hash q)) ''content_changed'') (\<lambda>_. Inr (q, k, d, s)))
      | _ \<Rightarrow> Inl (Raised MultipleResultsFound))"

record resolved_citation =
  rc_citation :: knowledge_citation
  rc_source :: string
  rc_provider :: string
  rc_ref :: string
  rc_version :: int
  rc_section :: "string list"
  rc_lines :: "int \<times> int"
  rc_offsets :: "int \<times> int"
  rc_hash :: string
  rc_stale :: bool
  rc_available :: bool

definition or_zero :: "int option \<Rightarrow> int" where
  "or_zero x = (case x of None \<Rightarrow> 0 | Some n \<Rightarrow> n)"

definition resolve_citation ::
  "string \<Rightarrow> knowledge_citation \<Rightarrow> retrieval_principal \<Rightarrow> retrieval_scope \<Rightarrow> knowledge_db \<Rightarrow>
   (knowledge_error, resolved_citation) result" where
  "resolve_citation tenant c p sc db =
     andThen (locate tenant c db) (\<lambda>(q, k, d, s).
       Inr \<lparr>rc_citation = c, rc_source = ks_id s, rc_provider = ks_provider s, rc_ref = ks_ref s,
            rc_version = kd_version d, rc_section = kc_section k,
            rc_lines = map_prod or_zero or_zero (kc_lines k),
            rc_offsets = map_prod or_zero or_zero (kc_offsets k), rc_hash = mi_hash q,
            rc_stale = mi_stale q, rc_available = (current_access s d p sc = None)\<rparr>)"

section \<open>Facts\<close>

text \<open>What the access check allows, spelled out.\<close>

definition may_see ::
  "retrieval_principal \<Rightarrow> retrieval_scope \<Rightarrow> knowledge_source \<Rightarrow> knowledge_document \<Rightarrow> bool" where
  "may_see p sc s d \<longleftrightarrow>
     ks_status s = KnowledgeSourceStatus.ACTIVE \<and> kd_lifecycle d \<noteq> KnowledgeVersionState.REVOKED \<and>
     (ks_labels s = [] \<or> set (ks_labels s) \<inter> set (pr_clearances p) \<noteq> {}) \<and>
     (ks_services s = [] \<or> set (ks_services s) \<inter> set (sc_services sc) \<noteq> {}) \<and>
     (ks_environments s = [] \<or> sc_environment sc \<in> set (ks_environments s)) \<and>
     (sc_types sc = [] \<or> ks_type s \<in> set (sc_types sc))"

text \<open>A chunk of the tenant whose document and source the principal may see now.\<close>

definition visible_chunk ::
  "string \<Rightarrow> retrieval_principal \<Rightarrow> retrieval_scope \<Rightarrow> knowledge_db \<Rightarrow> knowledge_chunk \<Rightarrow> bool" where
  "visible_chunk tenant p sc db c \<longleftrightarrow>
     c \<in> set (kb_chunks db) \<and> kc_tenant c = tenant \<and>
     (\<exists>d \<in> set (kb_documents db). \<exists>s \<in> set (kb_sources db).
        kd_tenant d = tenant \<and> kd_id d = kc_document c \<and> ks_tenant s = tenant \<and>
        kd_source d = Some (ks_id s) \<and> may_see p sc s d)"

lemma current_access_None: "current_access s d p sc = None \<longleftrightarrow> may_see p sc s d"
  by (auto simp: current_access_def may_see_def disjoint_lists_def list_all_iff)

lemma chunk_rows_visible:
  assumes "(c, d, s) \<in> set (chunk_rows tenant db)" "current_access s d p sc = None"
  shows "visible_chunk tenant p sc db c"
proof -
  have "c \<in> set (kb_chunks db)" "kc_tenant c = tenant" "d \<in> set (kb_documents db)"
    "s \<in> set (kb_sources db)" "kd_tenant d = tenant" "kd_id d = kc_document c" "ks_tenant s = tenant"
    "kd_source d = Some (ks_id s)"
    using assms(1) by (auto simp: chunk_rows_def)
  then show ?thesis using assms(2) unfolding visible_chunk_def current_access_None by blast
qed

lemma check_results_visible:
  "check_results tenant p sc db is = Inr flags \<Longrightarrow> i \<in> set is \<Longrightarrow>
   \<exists>c. visible_chunk tenant p sc db c \<and> kc_id c = mi_chunk i \<and> kc_document c = mi_version i \<and>
     kc_hash c = Some (mi_hash i) \<and> set (scan (kc_text c)) \<subseteq> set flags"
proof (induction "is" arbitrary: flags)
  case (Cons j js)
  from Cons.prems(1) obtain c d s flags' where
    f: "stored_chunk tenant db (mi_chunk j) = Some (c, d, s)"
    and ok: "kc_document c = mi_version j" "kc_hash c = Some (mi_hash j)" "current_access s d p sc = None"
    and r: "check_results tenant p sc db js = Inr flags'" "flags = scan (kc_text c) @ flags'"
    by (auto simp: coded_def andThen_eq_Inr guard_eq split: option.splits)
  have "(c, d, s) \<in> set (chunk_rows tenant db)" "kc_id c = mi_chunk j"
    using find_SomeD [OF f [unfolded stored_chunk_def]] by auto
  then have here: "visible_chunk tenant p sc db c \<and> kc_id c = mi_chunk j"
    using chunk_rows_visible ok(3) by blast
  show ?case
  proof (cases "i = j")
    case True
    then show ?thesis using here ok r(2) by auto
  next
    case False
    then obtain c' where "visible_chunk tenant p sc db c' \<and> kc_id c' = mi_chunk i \<and>
        kc_document c' = mi_version i \<and> kc_hash c' = Some (mi_hash i) \<and>
        set (scan (kc_text c')) \<subseteq> set flags'"
      using Cons.IH [OF r(1)] Cons.prems(2) by auto
    then show ?thesis using r(2) by auto
  qed
qed simp

lemma knowledge_block_content:
  assumes "b \<in> set (knowledge_blocks tenant retrievals p sc db)"
  shows "ub_content b = withheld \<or>
    (\<exists>c. visible_chunk tenant p sc db c \<and> ub_content b = take MAX_RESULT_CONTENT_CHARS (kc_text c))"
proof -
  obtain c where b: "b = knowledge_block (current_content tenant
      (retrieval_citations tenant retrievals db) p sc db) c"
    using assms by (auto simp: knowledge_blocks_def Let_def)
  have w: "take MAX_RESULT_CONTENT_CHARS withheld = withheld"
    by (simp add: MAX_RESULT_CONTENT_CHARS_def withheld_def)
  show ?thesis
  proof (cases "current_content tenant (retrieval_citations tenant retrievals db) p sc db (ci_chunk c)")
    case None
    then show ?thesis by (simp add: b knowledge_block_def w)
  next
    case (Some t)
    then obtain k d s where f: "List.find (\<lambda>(k, d, s). kc_id k = ci_chunk c \<and> current_access s d p sc = None)
        (rev (chunk_rows tenant db)) = Some (k, d, s)" and t: "t = kc_text k"
      by (auto simp: current_content_def split: if_splits)
    have "visible_chunk tenant p sc db k"
      using find_SomeD [OF f] by (auto intro: chunk_rows_visible)
    then show ?thesis using t Some by (cases "t = []") (auto simp: b knowledge_block_def w)
  qed
qed

text \<open>
  What a verified manifest states: the principal and the tenant recomputed by the caller, the query
  and the execution of this very call, and only results that the principal may see now, each with
  the version and the hash of the stored chunk.
\<close>

definition visible_result ::
  "string \<Rightarrow> retrieval_principal \<Rightarrow> retrieval_scope \<Rightarrow> knowledge_db \<Rightarrow> manifest_result \<Rightarrow> bool" where
  "visible_result tenant p sc db i \<longleftrightarrow>
     (\<exists>c. visible_chunk tenant p sc db c \<and> kc_id c = mi_chunk i \<and> kc_document c = mi_version i \<and>
        kc_hash c = Some (mi_hash i))"

definition trusted_manifest ::
  "(string \<Rightarrow> string) \<Rightarrow> string \<Rightarrow> string \<Rightarrow> retrieval_principal \<Rightarrow> retrieval_scope \<Rightarrow> string \<Rightarrow>
   ToolResult \<Rightarrow> knowledge_db \<Rightarrow> retrieval_manifest \<Rightarrow> bool" where
  "trusted_manifest sha tenant correlation p sc query r db m \<longleftrightarrow>
     mn_tenant m = tenant \<and> mn_correlation m = correlation \<and> mn_digest m = sha query \<and>
     mn_policy m = DEFAULT_POLICY_IDENTIFIER \<and> mn_kind m = pr_kind p \<and>
     mn_principal m = pr_id p \<and> set (mn_clearances m) = set (pr_clearances p) \<and>
     (\<forall>t \<in> set (kb_retrievals db). kt_tenant t = tenant \<longrightarrow> kt_id t \<noteq> mn_retrieval m) \<and>
     map mi_rank (mn_results m) = map int [1 ..< length (mn_results m) + 1] \<and>
     (\<exists>e \<in> set (kb_executions db). ex_tenant e = tenant \<and> Some (ex_id e) = res_execution r \<and>
        ex_key e = mn_key m) \<and>
     distinct (map mi_chunk (mn_results m)) \<and>
     (\<forall>i \<in> set (mn_results m). visible_result tenant p sc db i)"

lemma check_manifest_trusted:
  assumes "check_manifest sha tenant correlation p sc query r db m = Inr v"
  shows "trusted_manifest sha tenant correlation p sc query r db m"
    and "vr_manifest v = Some m" "\<not> vr_replayed v"
proof -
  obtain flags key keys where k: "execution_keys tenant (res_execution r) db = key # keys" "key = mn_key m"
    and c: "check_results tenant p sc db (mn_results m) = Inr flags" "v = verified_of m p sc flags"
    and m: "mn_tenant m = tenant" "mn_correlation m = correlation" "mn_digest m = sha query"
      "mn_principal m = pr_id p" "set (mn_clearances m) = set (pr_clearances p)"
      "mn_policy m = DEFAULT_POLICY_IDENTIFIER" "mn_kind m = pr_kind p"
      "\<forall>t \<in> set (kb_retrievals db). kt_tenant t = tenant \<longrightarrow> kt_id t \<noteq> mn_retrieval m"
      "map mi_rank (mn_results m) = map int [1 ..< length (mn_results m) + 1]"
      "distinct (map mi_chunk (mn_results m))"
    using assms by (auto simp: check_manifest_def coded_def andThen_eq_Inr guard_eq list_ex_iff
        simp del: upt_Suc split: list.splits)
  have "mn_key m \<in> set (execution_keys tenant (res_execution r) db)" using k by simp
  then have "\<exists>e \<in> set (kb_executions db). ex_tenant e = tenant \<and> Some (ex_id e) = res_execution r \<and>
      ex_key e = mn_key m"
    by (auto simp: execution_keys_def)
  moreover have "visible_result tenant p sc db i" if "i \<in> set (mn_results m)" for i
    using check_results_visible [OF c(1) that] by (auto simp: visible_result_def)
  ultimately show "trusted_manifest sha tenant correlation p sc query r db m"
    unfolding trusted_manifest_def using m by blast
  show "vr_manifest v = Some m" "\<not> vr_replayed v" by (simp_all add: c(2) verified_of_def)
qed

end
