(* ===== verification/Evidence_Collector.thy ===== *)
theory Evidence_Collector
  imports Knowledge_Access
begin

text \<open>
  The evidence collector, \<open>src/asic/orchestration/nodes/evidence.py\<close>: the one node of an
  investigation that calls tools. It takes a domain from the planner's decision, calls the broker
  once, verifies what a knowledge provider returned, and stores one evidence row or degrades the
  domain. The database is that of the broker with the steps, the evidence and the knowledge
  tables. The rendering of a payload as JSON, \<open>scrub_text\<close> and the texts of failures are
  parameters. The lemmas: an update reports evidence exactly when one row was stored for an
  execution that exists, and what a replayed call leads to.
\<close>

section \<open>Rows and parameters\<close>

record collected_evidence = inv_evidence +
  ce_step :: "string option"
  ce_execution :: string
  ce_provenance :: ProvenanceLabel
  ce_citation :: arg_map
  ce_flagged :: bool

record collect_db =
  cd_broker :: broker_state
  cd_steps :: "step_row list"
  cd_evidence :: "collected_evidence list"
  cd_knowledge :: knowledge_db

record collector =
  ec_broker :: broker
  ec_tenant :: string
  ec_incident :: string
  ec_run :: string
  ec_correlation :: string
  ec_objective :: InvestigationObjective
  ec_policy :: BudgetPolicy
  ec_started_at :: int
  ec_json :: "arg_map \<Rightarrow> string"
  ec_decode :: "pyval \<Rightarrow> retrieval_manifest option"
  ec_scrub :: "string \<Rightarrow> string"
  ec_error_text :: "py_error \<Rightarrow> string"
  ec_failure_text :: "BrokerFailure \<Rightarrow> string"

record collect_inputs =
  ei_now :: int
  ei_call :: call_inputs
  ei_evidence :: string
  ei_gathered_at :: int
  ei_completed_at :: int
  ei_occurred :: string

text \<open>The grants, tools and executions the knowledge checks read are those of the broker.\<close>

definition knowledge_view :: "collect_db \<Rightarrow> knowledge_db" where
  "knowledge_view db =
     (cd_knowledge db)\<lparr>kb_grants := bk_grants (bs_db (cd_broker db)),
       kb_tools := bk_tools (bs_db (cd_broker db)),
       kb_executions := bk_executions (bs_db (cd_broker db))\<rparr>"

section \<open>The request\<close>

definition COLLECTION_KEY :: "(EvidenceDomain \<times> string) list" where
  "COLLECTION_KEY =
     [(EvidenceDomain.METRICS, ''samples''), (EvidenceDomain.LOGS, ''lines''),
      (EvidenceDomain.TRACES, ''operations''), (EvidenceDomain.DEPLOYMENTS, ''deployments''),
      (EvidenceDomain.KUBERNETES_STATE, ''workloads''), (EvidenceDomain.KNOWLEDGE, ''documents'')]"

definition FULL_COVERAGE_ITEMS :: nat where "FULL_COVERAGE_ITEMS = 3"

definition collector_error :: py_error where "collector_error = OtherException ''DomainError''"

definition service_for :: "collector \<Rightarrow> (py_error, string) result" where
  "service_for c =
     (case service_names (br_scope (ec_broker c)) of [] \<Rightarrow> Inl collector_error | n # _ \<Rightarrow> Inr n)"

definition control_char :: "char \<Rightarrow> bool" where
  "control_char c \<longleftrightarrow> (let n = of_char c :: nat in n < 32 \<or> n = 127)"

function words_of :: "string \<Rightarrow> string list" where
  "words_of [] = []"
| "words_of (c # cs) =
     (if is_space c then words_of cs
      else (c # takeWhile (Not \<circ> is_space) cs) # words_of (dropWhile (Not \<circ> is_space) cs))"
  by pat_completeness auto
termination by (relation "measure length") (auto simp: le_imp_less_Suc length_dropWhile_le)

definition knowledge_topic :: "string \<Rightarrow> string \<Rightarrow> string" where
  "knowledge_topic gap fallback =
     (let topic = py_strip (take 200 (py_join '' ''
            (words_of (map (\<lambda>c. if control_char c then CHR '' '' else c) gap))))
      in if topic = [] then take 200 fallback else topic)"

definition arguments_for :: "EvidenceDomain \<Rightarrow> InvestigationObjective \<Rightarrow> string \<Rightarrow> arg_map" where
  "arguments_for area ob gap =
     (let window = [(''window_start'', PStr (InvestigationObjective.window_start ob)), (''window_end'', PStr (InvestigationObjective.window_end ob))] in
      case area of
        EvidenceDomain.METRICS \<Rightarrow>
          window @ [(''metric'', PStr ''http_request_duration_p95_seconds''), (''step_seconds'', PInt 60)]
      | EvidenceDomain.LOGS \<Rightarrow> window @ [(''min_level'', PStr ''warn''), (''limit'', PInt 100)]
      | EvidenceDomain.TRACES \<Rightarrow> window @ [(''min_duration_ms'', PInt 250)]
      | EvidenceDomain.DEPLOYMENTS \<Rightarrow> window
      | EvidenceDomain.KUBERNETES_STATE \<Rightarrow> [(''include_events'', PBool True)]
      | _ \<Rightarrow> [(''topic'', PStr (knowledge_topic gap (statement ob))), (''limit'', PInt 5)])"

definition collect_request ::
  "collector \<Rightarrow> EvidenceDomain \<Rightarrow> string \<Rightarrow> (py_error, CapabilityRequest) result" where
  "collect_request c area gap =
     andThen (capability_for_domain area) (\<lambda>capability.
     andThen (service_for c) (\<lambda>service.
       Inr \<lparr>cr_node = NodeId.G4_EVIDENCE_COLLECTOR, cr_capability = capability, cr_service = service,
            cr_arguments = arguments_for area (ec_objective c) gap, cr_incident = ec_incident c,
            cr_action = None\<rparr>))"

section \<open>The step\<close>

definition current_step :: "inv_state \<Rightarrow> StepRef option" where
  "current_step s = (if gs_steps s = [] then None else Some (last (gs_steps s)))"

definition complete_step ::
  "collector \<Rightarrow> StepRef option \<Rightarrow> BudgetState \<Rightarrow> InvestigationStepStatus \<Rightarrow> string option \<Rightarrow> int \<Rightarrow>
   step_row list \<Rightarrow> step_row list" where
  "complete_step c ref budget status reason now rows =
     (case ref of
        None \<Rightarrow> rows
      | Some r \<Rightarrow>
          map (\<lambda>q. if sp_tenant q = ec_tenant c \<and> sp_id q = step_id r
                   then q\<lparr>sp_status := status, sp_degradation := reason,
                          sp_budget_after := Some (budget_to_dict budget),
                          sp_completed_at := Some now\<rparr> else q) rows)"

definition collector_update ::
  "inv_update \<Rightarrow> collect_db \<Rightarrow> collect_db \<Rightarrow> (py_error, inv_update) result \<times> collect_db" where
  "collector_update u db db' =
     (case validate_update G4_EVIDENCE_COLLECTOR u of Inl e \<Rightarrow> (Inl e, db) | Inr _ \<Rightarrow> (Inr u, db'))"

definition degrade ::
  "collector \<Rightarrow> collect_inputs \<Rightarrow> inv_state \<Rightarrow> EvidenceDomain \<Rightarrow> BudgetState \<Rightarrow> string \<Rightarrow> BudgetKind option \<Rightarrow>
   collect_db \<Rightarrow> (py_error, inv_update) result \<times> collect_db" where
  "degrade c inp s area budget reason refusal db =
     collector_update
       ([(''phase'', IPhase InvestigationPhase.PLANNING),
         (''degraded_domains'', ITexts (sorted_texts (es_degraded s @ [EvidenceDomain_value area]))),
         (''budget'', IBudget (run_snapshot budget)),
         (''failures'', IFailures
            [\<lparr>nf_node_id = NodeId.G4_EVIDENCE_COLLECTOR,
              nf_node_version = nc_node_version G4_EVIDENCE_COLLECTOR,
              nf_error_type = ''EvidenceUnavailable'',
              nf_message = ec_scrub c (py_strip (take 1000 reason)), recoverable = True,
              nf_occurred_at = py_strip (ei_occurred inp), nf_stage = Some ''adapter_invocation'',
              nf_category = None\<rparr>])] @
        (case refusal of None \<Rightarrow> []
           | Some k \<Rightarrow> [(''budget_refusal'', IText (Some (BudgetKind_value k)))]))
       db (db\<lparr>cd_steps := complete_step c (current_step s) budget InvestigationStepStatus.DEGRADED
            (Some (take 1000 reason)) (ei_completed_at inp) (cd_steps db)\<rparr>)"

section \<open>The evidence row\<close>

definition item_texts :: "collector \<Rightarrow> EvidenceDomain \<Rightarrow> arg_map \<Rightarrow> string list" where
  "item_texts c area payload =
     (case map_of COLLECTION_KEY area of
        None \<Rightarrow> []
      | Some k \<Rightarrow>
          (case dict_get payload k of
             PList vs \<Rightarrow> map (str_of (text_of (br_render (ec_broker c)))) vs | _ \<Rightarrow> []))"

definition evidence_headline :: "EvidenceDomain \<Rightarrow> string list \<Rightarrow> string" where
  "evidence_headline area items =
     (case items of
        [] \<Rightarrow> EvidenceDomain_value area @ '': no matching records in the requested window''
      | i # _ \<Rightarrow> EvidenceDomain_value area @ '': '' @ nat_digits (length items) @
                '' record(s); first = '' @ take 160 i)"

definition evidence_quality :: "string list \<Rightarrow> rat" where
  "evidence_quality items =
     (if items = [] then 1 / 10
      else round3 (min 1 (of_nat (length items) / of_nat FULL_COVERAGE_ITEMS)))"

definition evidence_flags :: "ToolResult \<Rightarrow> verified_retrieval option \<Rightarrow> string list" where
  "evidence_flags r v =
     (let flags = (if res_injection_flags r \<noteq> [] then res_injection_flags r
                   else scan_structure (PDict (res_payload r)))
      in case v of None \<Rightarrow> flags | Some w \<Rightarrow> sorted_texts (flags @ vr_flags w))"

text \<open>The citation of the tool result, which the broker model leaves out, is not repeated here.\<close>

definition new_evidence ::
  "collector \<Rightarrow> collect_inputs \<Rightarrow> inv_state \<Rightarrow> EvidenceDomain \<Rightarrow> string \<Rightarrow> ToolResult \<Rightarrow> string \<Rightarrow>
   verified_retrieval option \<Rightarrow> collected_evidence" where
  "new_evidence c inp s area gap r execution v =
     (let items = item_texts c area (res_payload r) in
      \<lparr>ev_id = ei_evidence inp, ev_tenant = ec_tenant c, ev_domain = area,
       ev_content =
         [(''headline'', PStr (evidence_headline area items)), (''items'', PList (map PStr items)),
          (''envelope'', PDict (filter (\<lambda>(k, x). k \<notin> snd ` set COLLECTION_KEY \<and> k \<noteq> ''retrieval'')
             (res_payload r)))],
       ev_gathered_at = ei_gathered_at inp, ie_incident = ec_incident c,
       ie_quality = Some (evidence_quality items),
       ce_step = map_option step_id (current_step s), ce_execution = execution,
       ce_provenance = res_provenance r,
       ce_citation =
         [(''content_digest'', PStr (sha256_hex (br_keys (ec_broker c)) (ec_json c (res_payload r)))),
          (''gap'', PStr gap)] @
         (case v of None \<Rightarrow> []
            | Some w \<Rightarrow> [(''retrieval_id'', PStr (vr_retrieval w)),
                        (''citations'', PList (map PStr (vr_citations w)))]),
       ce_flagged = (evidence_flags r v \<noteq> [])\<rparr>)"

definition evidence_reference :: "collected_evidence \<Rightarrow> EvidenceRef" where
  "evidence_reference e =
     \<lparr>evidence_id = ev_id e, ev_tool_execution_id = ce_execution e,
      EvidenceRef.ev_domain = ev_domain e, ev_provenance = ce_provenance e,
      headline = py_strip (take 240
        (case dict_get (ev_content e) ''headline'' of PStr t \<Rightarrow> t | _ \<Rightarrow> [])),
      content_digest = (case dict_get (ce_citation e) ''content_digest'' of PStr t \<Rightarrow> t | _ \<Rightarrow> []),
      quality_score = (case ie_quality e of None \<Rightarrow> 0 | Some q \<Rightarrow> q),
      injection_flagged = ce_flagged e\<rparr>"

text \<open>The checks and foreign keys of the table of evidence.\<close>

definition evidence_allowed :: "collect_db \<Rightarrow> collected_evidence \<Rightarrow> bool" where
  "evidence_allowed db e \<longleftrightarrow>
     ce_provenance e \<in> {ProvenanceLabel.VERIFIED_FACT, ProvenanceLabel.RETRIEVED} \<and>
     (case ie_quality e of None \<Rightarrow> True | Some q \<Rightarrow> 0 \<le> q \<and> q \<le> 1) \<and>
     ev_id e \<notin> ev_id ` set (cd_evidence db) \<and>
     list_ex (\<lambda>x. ex_tenant x = ev_tenant e \<and> ex_id x = ce_execution e)
       (bk_executions (bs_db (cd_broker db))) \<and>
     (case ce_step e of None \<Rightarrow> True
        | Some i \<Rightarrow> list_ex (\<lambda>q. sp_tenant q = ev_tenant e \<and> sp_id q = i) (cd_steps db))"

text \<open>What the verification raises with a code, the node turns into a reason.\<close>

definition verify_knowledge ::
  "collector \<Rightarrow> EvidenceDomain \<Rightarrow> CapabilityRequest \<Rightarrow> ToolResult \<Rightarrow> collect_db \<Rightarrow>
   (knowledge_error, verified_retrieval option) result" where
  "verify_knowledge c area q r db =
     (if area \<noteq> EvidenceDomain.KNOWLEDGE then Inr None
      else case scope_service (br_scope (ec_broker c)) (cr_service q) of
        Inl e \<Rightarrow> Inl (Raised e)
      | Inr service \<Rightarrow>
          andThen (recompute_context (ec_tenant c) (is_environment (br_scope (ec_broker c)))
              [sv_id service] (ec_correlation c) (knowledge_view db)) (\<lambda>(p, sc).
            validate_manifest (sha256_hex (br_keys (ec_broker c))) (ec_decode c) (ec_tenant c)
              (ec_correlation c) p sc
              (case dict_get (cr_arguments q) ''topic'' of PStr t \<Rightarrow> t | _ \<Rightarrow> []) r (knowledge_view db)))"

text \<open>
  A retrieval whose identifier another tenant holds raises where the node no longer expects it,
  so the exception leaves the node.
\<close>

definition record_retrieval ::
  "collector \<Rightarrow> verified_retrieval option \<Rightarrow> string option \<Rightarrow> string \<Rightarrow> collect_db \<Rightarrow>
   (py_error, collect_db) result" where
  "record_retrieval c v execution evidence db =
     (case v of
        None \<Rightarrow> Inr db
      | Some w \<Rightarrow>
          (case record_manifest w (ec_tenant c) (ec_incident c) (ec_run c) execution evidence
               (cd_knowledge db) of
             Inl (Coded code) \<Rightarrow> Inl (OtherException ''KnowledgeManifestInvalid'')
           | Inl (Raised e) \<Rightarrow> Inl e
           | Inr k \<Rightarrow> Inr (db\<lparr>cd_knowledge := k\<rparr>)))"

definition store_evidence ::
  "collector \<Rightarrow> collect_inputs \<Rightarrow> inv_state \<Rightarrow> EvidenceDomain \<Rightarrow> string \<Rightarrow> ToolResult \<Rightarrow>
   verified_retrieval option \<Rightarrow> BudgetState \<Rightarrow> collect_db \<Rightarrow> (py_error, inv_update) result \<times> collect_db" where
  "store_evidence c inp s area gap r v charged db =
     (case res_execution r of
        None \<Rightarrow> (Inl collector_error, db)
      | Some execution \<Rightarrow>
          let e = new_evidence c inp s area gap r execution v in
          if \<not> evidence_allowed db e then (Inl IntegrityError, db)
          else case record_retrieval c v (Some execution) (ev_id e)
                 (db\<lparr>cd_evidence := cd_evidence db @ [e]\<rparr>) of
            Inl x \<Rightarrow> (Inl x, db)
          | Inr db1 \<Rightarrow>
              collector_update
                [(''phase'', IPhase InvestigationPhase.PLANNING),
                 (''evidence'', IEvidence [evidence_reference e]), (''steps'', ISteps []),
                 (''covered_domains'',
                   ITexts (sorted_texts (es_covered s @ [EvidenceDomain_value area]))),
                 (''budget'', IBudget (run_snapshot charged))] db
                (db1\<lparr>cd_steps := complete_step c (current_step s) charged
                   InvestigationStepStatus.COMPLETED None (ei_completed_at inp) (cd_steps db1)\<rparr>))"

section \<open>The node\<close>

definition use_result ::
  "collector \<Rightarrow> collect_inputs \<Rightarrow> inv_state \<Rightarrow> EvidenceDomain \<Rightarrow> string \<Rightarrow> BudgetState \<Rightarrow>
   CapabilityRequest \<Rightarrow> ToolResult \<Rightarrow> collect_db \<Rightarrow> (py_error, inv_update) result \<times> collect_db" where
  "use_result c inp s area gap budget q r db =
     (case charge budget (no_charge\<lparr>c_tool_calls := (if res_deduplicated r then 0 else 1)\<rparr>) of
        Inl e \<Rightarrow> (Inl e, db)
      | Inr charged \<Rightarrow>
          if \<not> result_succeeded r then
            degrade c inp s area charged
              (case res_failure r of None \<Rightarrow> ''the source did not answer'' | Some f \<Rightarrow> ec_failure_text c f)
              None db
          else (case verify_knowledge c area q r db of
             Inl (Coded code) \<Rightarrow>
               degrade c inp s area charged
                 (''knowledge retrieval could not be verified: '' @ code) None db
           | Inl (Raised e) \<Rightarrow> (Inl e, db)
           | Inr v \<Rightarrow> store_evidence c inp s area gap r v charged db))"

definition collect ::
  "collector \<Rightarrow> collect_inputs \<Rightarrow> inv_state \<Rightarrow> EvidenceDomain \<Rightarrow> string \<Rightarrow> BudgetState \<Rightarrow> collect_db \<Rightarrow>
   (py_error, inv_update) result \<times> collect_db" where
  "collect c inp s area gap budget db =
     (case require_headroom budget (no_charge\<lparr>c_tool_calls := 1\<rparr>) of
        Inl e \<Rightarrow>
          (case e of
             BudgetExhausted k \<Rightarrow> degrade c inp s area budget (ec_error_text c e) (Some k) db
           | _ \<Rightarrow> (Inl e, db))
      | Inr _ \<Rightarrow>
          (case collect_request c area gap of
             Inl e \<Rightarrow> (Inl e, db)
           | Inr q \<Rightarrow>
               (case invoke (ec_broker c) (cd_broker db) q G4_EVIDENCE_COLLECTOR (ei_call inp) of
                  (Inl e, st) \<Rightarrow>
                    if isinstance e C_DomainError
                    then degrade c inp s area budget (ec_error_text c e) None (db\<lparr>cd_broker := st\<rparr>)
                    else (Inl e, db\<lparr>cd_broker := st\<rparr>)
                | (Inr r, st) \<Rightarrow> use_result c inp s area gap budget q r (db\<lparr>cd_broker := st\<rparr>))))"

definition evidence_node ::
  "collector \<Rightarrow> collect_inputs \<Rightarrow> inv_state \<Rightarrow> collect_db \<Rightarrow> (py_error, inv_update) result \<times> collect_db" where
  "evidence_node c inp s db =
     (case run_budget (ec_policy c) (ec_started_at c) (ei_now inp) (es_budget s) of
        Inl e \<Rightarrow> (Inl e, db)
      | Inr budget \<Rightarrow>
          (case gs_decision s of
             Some d \<Rightarrow>
               (case pd_domain d of
                  Some area \<Rightarrow> collect c inp s area (pd_gap d) budget db
                | None \<Rightarrow> collector_update [(''phase'', IPhase InvestigationPhase.PLANNING),
                            (''budget'', IBudget (run_snapshot budget))] db db)
           | None \<Rightarrow> collector_update [(''phase'', IPhase InvestigationPhase.PLANNING),
                       (''budget'', IBudget (run_snapshot budget))] db db))"

section \<open>Facts\<close>

text \<open>
  An update with evidence goes with one stored row, for an execution of the tenant that exists,
  from an origin that is no authority; an update without it stores neither evidence nor retrieval.
\<close>

definition evidence_accounted ::
  "collector \<Rightarrow> inv_state \<Rightarrow> collect_db \<Rightarrow> inv_update \<Rightarrow> collect_db \<Rightarrow> bool" where
  "evidence_accounted c s db u db' \<longleftrightarrow>
     (case map_of u ''evidence'' of
        None \<Rightarrow> cd_evidence db' = cd_evidence db \<and> cd_knowledge db' = cd_knowledge db \<and>
          map_of u ''covered_domains'' = None
      | Some v \<Rightarrow> \<exists>e d. cd_evidence db' = cd_evidence db @ [e] \<and> v = IEvidence [evidence_reference e] \<and>
          gs_decision s = Some d \<and> pd_domain d = Some (ev_domain e) \<and>
          ev_tenant e = ec_tenant c \<and> ie_incident e = ec_incident c \<and>
          ce_provenance e \<in> {ProvenanceLabel.VERIFIED_FACT, ProvenanceLabel.RETRIEVED} \<and>
          (\<exists>x \<in> set (bk_executions (bs_db (cd_broker db'))).
             ex_tenant x = ec_tenant c \<and> ex_id x = ce_execution e) \<and>
          map_of u ''failures'' = None)"

lemma collector_update_Inr:
  "collector_update u db db' = (Inr v, db'') \<longleftrightarrow>
   is_ok (validate_update G4_EVIDENCE_COLLECTOR u) \<and> v = u \<and> db'' = db'"
  by (auto simp: collector_update_def split: sum.splits)

lemma degrade_accounted:
  assumes "degrade c inp s area budget reason refusal db = (Inr u, db')"
    and "cd_evidence db = cd_evidence db0" "cd_knowledge db = cd_knowledge db0"
  shows "evidence_accounted c s db0 u db'"
  using assms
  by (auto simp: degrade_def collector_update_Inr evidence_accounted_def split: option.splits)

lemma record_retrieval_frame:
  "record_retrieval c v x i db = Inr db' \<Longrightarrow>
   cd_evidence db' = cd_evidence db \<and> cd_broker db' = cd_broker db \<and> cd_steps db' = cd_steps db"
  by (auto simp: record_retrieval_def split: option.splits sum.splits knowledge_error.splits)

lemma new_evidence_fields:
  "ev_tenant (new_evidence c inp s area gap r x v) = ec_tenant c"
  "ie_incident (new_evidence c inp s area gap r x v) = ec_incident c"
  "ev_domain (new_evidence c inp s area gap r x v) = area"
  "ce_execution (new_evidence c inp s area gap r x v) = x"
  "ce_provenance (new_evidence c inp s area gap r x v) = res_provenance r"
  "ie_quality (new_evidence c inp s area gap r x v) =
     Some (evidence_quality (item_texts c area (res_payload r)))"
  "dict_get (ev_content (new_evidence c inp s area gap r x v)) ''headline'' =
     PStr (evidence_headline area (item_texts c area (res_payload r)))"
  by (simp_all add: new_evidence_def Let_def dict_get_def)

lemma store_evidence_stores:
  assumes "store_evidence c inp s area gap r v charged db = (Inr u, db')"
  obtains x where "res_execution r = Some x"
    "cd_evidence db' = cd_evidence db @ [new_evidence c inp s area gap r x v]"
    "evidence_allowed db (new_evidence c inp s area gap r x v)" "cd_broker db' = cd_broker db"
    "map_of u ''evidence'' = Some (IEvidence [evidence_reference (new_evidence c inp s area gap r x v)])"
    "map_of u ''failures'' = None"
    "map_of u ''covered_domains'' =
       Some (ITexts (sorted_texts (es_covered s @ [EvidenceDomain_value area])))"
  using assms
  by (auto simp: store_evidence_def Let_def collector_update_Inr dest!: record_retrieval_frame
      split: option.splits if_splits sum.splits)

lemma store_evidence_accounted:
  assumes "store_evidence c inp s area gap r v charged db = (Inr u, db')"
    and "cd_evidence db = cd_evidence db0" "gs_decision s = Some d" "pd_domain d = Some area"
  shows "evidence_accounted c s db0 u db'"
proof -
  obtain x where "res_execution r = Some x"
    and e: "cd_evidence db' = cd_evidence db @ [new_evidence c inp s area gap r x v]"
    and ok: "evidence_allowed db (new_evidence c inp s area gap r x v)" and b: "cd_broker db' = cd_broker db"
    and u: "map_of u ''evidence'' =
        Some (IEvidence [evidence_reference (new_evidence c inp s area gap r x v)])"
      "map_of u ''failures'' = None"
    using store_evidence_stores [OF assms(1)] by blast
  have "\<exists>y \<in> set (bk_executions (bs_db (cd_broker db'))). ex_tenant y = ec_tenant c \<and> ex_id y = x"
    and "res_provenance r \<in> {ProvenanceLabel.VERIFIED_FACT, ProvenanceLabel.RETRIEVED}"
    using ok b by (auto simp: evidence_allowed_def new_evidence_fields list_ex_iff)
  then show ?thesis
    unfolding evidence_accounted_def u option.case
    by (intro exI [of _ "new_evidence c inp s area gap r x v"] exI [of _ d])
      (simp add: e new_evidence_fields assms u)
qed

lemma use_result_accounted:
  assumes "use_result c inp s area gap budget q r db = (Inr u, db')"
    and "cd_evidence db = cd_evidence db0" "cd_knowledge db = cd_knowledge db0"
    and "gs_decision s = Some d" "pd_domain d = Some area"
  shows "evidence_accounted c s db0 u db'"
  using assms degrade_accounted store_evidence_accounted
  by (auto simp: use_result_def split: sum.splits if_splits knowledge_error.splits)

lemma evidence_node_accounted:
  assumes "evidence_node c inp s db = (Inr u, db')"
  shows "evidence_accounted c s db u db'"
proof -
  obtain budget where run: "run_budget (ec_policy c) (ec_started_at c) (ei_now inp) (es_budget s) = Inr budget"
    using assms by (auto simp: evidence_node_def split: sum.splits)
  show ?thesis
  proof (cases "\<exists>d area. gs_decision s = Some d \<and> pd_domain d = Some area")
    case False
    then show ?thesis
      using assms run
      by (auto simp: evidence_node_def collector_update_Inr evidence_accounted_def split: option.splits)
  next
    case True
    then obtain d area where d: "gs_decision s = Some d" "pd_domain d = Some area" by blast
    then have "collect c inp s area (pd_gap d) budget db = (Inr u, db')"
      using assms run by (simp add: evidence_node_def)
    then show ?thesis
      using d
      by (auto simp: collect_def intro: degrade_accounted use_result_accounted
          split: sum.splits if_splits prod.splits py_error.splits)
  qed
qed

text \<open>A replayed call carries no payload.\<close>

lemma replayed_payload:
  assumes "invoke b st q k ci = (Inr r, st')" "res_deduplicated r"
  shows "res_payload r = []"
  using assms
  by (auto simp: invoke_def invoke_granted_def invoke_bound_def dispatch_def refuse_or_raise_def
      refuse_def Broker.refused_def executed_result_def from_recorded_def Let_def
      split: sum.splits prod.splits if_splits option.splits)

text \<open>
  What the node makes of a replayed call: a row that says nothing was found, as evidence of the
  origin of the tool, and a domain that counts as covered.
\<close>

definition reports_nothing ::
  "inv_state \<Rightarrow> EvidenceDomain \<Rightarrow> ToolResult \<Rightarrow> collect_db \<Rightarrow> inv_update \<Rightarrow> collect_db \<Rightarrow> bool" where
  "reports_nothing s area r db u db' \<longleftrightarrow>
     (\<exists>e. cd_evidence db' = cd_evidence db @ [e] \<and> ie_quality e = Some (1 / 10) \<and>
        dict_get (ev_content e) ''headline'' =
          PStr (EvidenceDomain_value area @ '': no matching records in the requested window'') \<and>
        ce_provenance e = res_provenance r) \<and>
     map_of u ''covered_domains'' =
       Some (ITexts (sorted_texts (es_covered s @ [EvidenceDomain_value area])))"

lemma no_items: "item_texts c area [] = []"
  by (auto simp: item_texts_def dict_get_def split: option.splits)

lemma replayed_reports_nothing:
  assumes "use_result c inp s area gap budget q r db = (Inr u, db')"
    and "result_succeeded r" "res_payload r = []" "area \<noteq> EvidenceDomain.KNOWLEDGE"
    and "cd_evidence db = cd_evidence db0"
  shows "reports_nothing s area r db0 u db'"
proof -
  have "verify_knowledge c area q r db = Inr None" using assms(4) by (simp add: verify_knowledge_def)
  then obtain charged where st: "store_evidence c inp s area gap r None charged db = (Inr u, db')"
    using assms(1,2) by (auto simp: use_result_def split: sum.splits)
  obtain x where "cd_evidence db' = cd_evidence db @ [new_evidence c inp s area gap r x None]"
    and "map_of u ''covered_domains'' =
       Some (ITexts (sorted_texts (es_covered s @ [EvidenceDomain_value area])))"
    using store_evidence_stores [OF st] by blast
  then show ?thesis
    unfolding reports_nothing_def
    by (intro conjI exI [of _ "new_evidence c inp s area gap r x None"])
      (simp_all add: assms(3,5) new_evidence_fields no_items evidence_quality_def evidence_headline_def)
qed

text \<open>An incident without a service in scope: the exception leaves the node.\<close>

lemma no_service_raises:
  assumes "is_services (br_scope (ec_broker c)) = []" "gs_decision s = Some d" "pd_domain d = Some area"
    and "evidence_node c inp s db = (Inr u, db')"
  shows "map_of u ''budget_refusal'' \<noteq> None"
proof -
  have "\<exists>e. collect_request c area (pd_gap d) = Inl e"
    using assms(1) by (auto simp: collect_request_def service_for_def service_names_def andThen_def
        split: sum.splits)
  then show ?thesis
    using assms(2-4)
    by (auto simp: evidence_node_def collect_def degrade_def collector_update_Inr
        split: sum.splits py_error.splits)
qed

end
