(* ===== verification/Remediation_Trust.thy ===== *)
theory Remediation_Trust
  imports Remediation_World "HOL-Library.Sublist"
begin

text \<open>
  The persisted lineage of a verified remediation, \<open>src/asic/remediation/trust.py\<close>: the JSON of a
  baseline and its provenance hash, the trust in a baseline for a dispatch, and the
  reconstruction of a verified outcome from its rows. The rendering and parsing of instants and
  the parsing of floats are parameters.
\<close>

record trust_ops =
  to_keys :: key_ops
  to_iso :: "int \<Rightarrow> string"
  to_parse_iso :: "string \<Rightarrow> py_datetime option"
  to_parse_float :: "string \<Rightarrow> rat option"
  to_text :: "pyval \<Rightarrow> string"

section \<open>Provenance\<close>

definition baseline_json :: "trust_ops \<Rightarrow> baseline_row \<Rightarrow> arg_map" where
  "baseline_json ops b =
     [(''tenant_id'', PStr (bl_tenant b)), (''incident_id'', PStr (bl_incident b)),
      (''remediation_target_id'', PStr (bl_target b)),
      (''remediation_action_id'', PStr (bl_action b)),
      (''target_service_id'', PStr (bl_service b)),
      (''target_environment_id'', PStr (bl_environment b)),
      (''profile_id'', PStr (bl_profile b)), (''profile_version'', PInt (bl_profile_version b)),
      (''criteria_hash'', PStr (bl_criteria_hash b)), (''metric'', PStr (bl_metric b)),
      (''source_capability'', PStr (bl_capability b)), (''source'', PStr (bl_provider b)),
      (''tool_execution_id'', PStr (bl_execution b)),
      (''observed_at'', PStr (to_iso ops (bl_observed_at b))),
      (''captured_at'', PStr (to_iso ops (bl_captured_at b))),
      (''observed_value'', PFloat (bl_value b)), (''provenance_hash'', PStr (bl_provenance b))]"

text \<open>\<open>json.dumps(value, sort_keys=True)\<close> of a flat mapping, hashed.\<close>

definition json_scalar :: "key_ops \<Rightarrow> pyval \<Rightarrow> string" where
  "json_scalar ops v =
     (case v of
        PStr s \<Rightarrow> json_str s
      | PInt i \<Rightarrow> int_digits i
      | PFloat r \<Rightarrow> repr_float ops r
      | PBool b \<Rightarrow> (if b then ''true'' else ''false'')
      | _ \<Rightarrow> ''null'')"

definition flat_digest :: "key_ops \<Rightarrow> arg_map \<Rightarrow> string" where
  "flat_digest ops value =
     sha256_hex ops (''{'' @ py_join '',''
       (map (\<lambda>(k, v). json_str k @ '':'' @ json_scalar ops v) (sort_key fst value)) @ ''}'')"

definition baseline_provenance :: "trust_ops \<Rightarrow> baseline_row \<Rightarrow> string" where
  "baseline_provenance ops b =
     flat_digest (to_keys ops) (filter (\<lambda>(k, v). k \<noteq> ''provenance_hash'') (baseline_json ops b))"

text \<open>What an observation's provenance hash covers.\<close>

definition observation_provenance ::
  "trust_ops \<Rightarrow> baseline_row \<Rightarrow> action_row \<Rightarrow> target_row \<Rightarrow> VerificationProfile \<Rightarrow> string \<Rightarrow> string \<Rightarrow> string \<Rightarrow>
   int \<Rightarrow> rat \<Rightarrow> string" where
  "observation_provenance ops b action target profile tenant provider execution observed_at value =
     flat_digest (to_keys ops)
       [(''tenant_id'', PStr tenant), (''incident_id'', PStr (ac_incident action)),
        (''remediation_target_id'', PStr (tg_id target)),
        (''remediation_action_id'', PStr (ac_id action)),
        (''remediation_baseline_id'', PStr (bl_id b)),
        (''target_service_id'', PStr (tg_service target)),
        (''target_environment_id'', PStr (tg_environment target)),
        (''profile_id'', PStr (vp_profile_id profile)),
        (''profile_version'', PInt (vp_profile_version profile)),
        (''criteria_hash'', PStr (ac_criteria_hash action)),
        (''metric'', PStr (vp_metric profile)),
        (''source_capability'', PStr (vp_source_capability profile)),
        (''source'', PStr provider), (''tool_execution_id'', PStr execution),
        (''observed_at'', PStr (to_iso ops observed_at)), (''observed_value'', PFloat value)]"

section \<open>The read behind a value\<close>

text \<open>\<open>sample.rsplit("=", 1)\<close> into two parts; \<open>None\<close> where there is no separator.\<close>

definition rsplit_at :: "char \<Rightarrow> string \<Rightarrow> (string \<times> string) option" where
  "rsplit_at c s =
     (if c \<in> set s
      then Some (rev (tl (dropWhile (\<lambda>d. d \<noteq> c) (rev s))), rev (takeWhile (\<lambda>d. d \<noteq> c) (rev s)))
      else None)"

definition execution_matches_observation ::
  "trust_ops \<Rightarrow> execution_row \<Rightarrow> string \<Rightarrow> int \<Rightarrow> rat \<Rightarrow> bool" where
  "execution_matches_observation ops e metric observed_at value =
     (case (dict_get (ex_observed_effect e) ''measurement_series'',
            dict_get (ex_observed_effect e) ''latest_sample'') of
        (PStr series, PStr sample) \<Rightarrow>
          sublist metric series \<and>
          (case rsplit_at CHR ''='' sample of
             None \<Rightarrow> False
           | Some (t, v) \<Rightarrow>
               (case to_parse_iso ops t of
                  None \<Rightarrow> False
                | Some d \<Rightarrow> tz_aware d \<and> instant d = observed_at) \<and>
               to_parse_float ops v = Some value)
      | _ \<Rightarrow> False)"

definition trusted_read :: "execution_row \<Rightarrow> bool" where
  "trusted_read e \<longleftrightarrow>
     ex_outcome e = Some ToolExecutionOutcome.SUCCEEDED \<and> ex_node e = NodeId.G10_VERIFIER \<and>
     ex_risk_tier e = RiskTier.RO \<and> ex_completed_at e \<noteq> None"

definition find_read ::
  "execution_row list \<Rightarrow> string \<Rightarrow> string \<Rightarrow> string \<Rightarrow> string \<Rightarrow> execution_row option" where
  "find_read rows tenant i action capability =
     List.find (\<lambda>e. ex_tenant e = tenant \<and> ex_id e = i \<and> ex_action e = Some action \<and>
       ex_capability e = capability) rows"

definition completed_between :: "execution_row \<Rightarrow> int \<Rightarrow> int \<Rightarrow> bool" where
  "completed_between e low high =
     (case ex_completed_at e of
        None \<Rightarrow> False | Some t \<Rightarrow> low \<le> ex_started_at e \<and> ex_started_at e \<le> t \<and> t \<le> high)"

definition scope_matches :: "execution_row \<Rightarrow> string \<Rightarrow> string \<Rightarrow> bool" where
  "scope_matches e service_name environment_name \<longleftrightarrow>
     dict_get (ex_scope_redacted e) ''service'' = PStr service_name \<and>
     dict_get (ex_scope_redacted e) ''environment'' = PStr environment_name"

section \<open>A trusted baseline\<close>

definition baseline_lineage ::
  "trust_ops \<Rightarrow> string \<Rightarrow> VerificationProfile \<Rightarrow> baseline_row \<Rightarrow> action_row \<Rightarrow> target_row \<Rightarrow> bool" where
  "baseline_lineage ops tenant profile b action target \<longleftrightarrow>
     bl_tenant b = tenant \<and> ac_tenant action = tg_tenant target \<and> tg_tenant target = tenant \<and>
     bl_incident b = ac_incident action \<and> ac_incident action = tg_incident target \<and>
     bl_action b = ac_id action \<and> bl_target b = tg_id target \<and> tg_id target = ac_target action \<and>
     bl_service b = tg_service target \<and> bl_environment b = tg_environment target \<and>
     bl_profile b = vp_profile_id profile \<and> bl_profile_version b = vp_profile_version profile \<and>
     bl_criteria_hash b = ac_criteria_hash action \<and> bl_metric b = vp_metric profile \<and>
     bl_capability b = vp_source_capability profile \<and>
     bl_provider b \<in> set (vp_approved_sources profile) \<and>
     bl_provenance b = baseline_provenance ops b"

definition trusted_baseline_record ::
  "trust_ops \<Rightarrow> execution_row list \<Rightarrow> string \<Rightarrow> VerificationProfile \<Rightarrow> baseline_row \<Rightarrow> action_row \<Rightarrow>
   target_row \<Rightarrow> string \<Rightarrow> string \<Rightarrow> int \<Rightarrow> int \<Rightarrow> bool" where
  "trusted_baseline_record ops rows tenant profile b action target service_name environment_name
       dispatch_at as_of =
     (case find_read rows tenant (bl_execution b) (ac_id action) (vp_source_capability profile) of
        None \<Rightarrow> False
      | Some e \<Rightarrow>
          trusted_read e \<and> baseline_lineage ops tenant profile b action target \<and>
          scope_matches e service_name environment_name \<and>
          dict_get (ex_observed_effect e) ''source'' = PStr (bl_provider b) \<and>
          execution_matches_observation ops e (vp_metric profile) (bl_observed_at b) (bl_value b) \<and>
          (case ex_completed_at e of
             None \<Rightarrow> False | Some t \<Rightarrow> ex_started_at e \<le> t \<and> t \<le> bl_captured_at b) \<and>
          bl_observed_at b \<le> bl_captured_at b \<and> bl_captured_at b \<le> dispatch_at \<and>
          dispatch_at \<le> as_of \<and>
          dispatch_at - bl_observed_at b \<le> microseconds (vp_max_baseline_age_seconds profile))"

section \<open>A trusted outcome\<close>

text \<open>The columns of the lineage, all of which must be present.\<close>

record lineage =
  ln_baseline :: string
  ln_execution :: string
  ln_profile :: string
  ln_profile_version :: int
  ln_metric :: string
  ln_value :: rat
  ln_observed_at :: int
  ln_provider :: string
  ln_capability :: string
  ln_provenance :: string

definition lineage_of :: "verification_row \<Rightarrow> lineage option" where
  "lineage_of v =
     (case (ve_baseline v, ve_execution v, ve_profile v, ve_profile_version v, ve_metric v) of
        (Some b, Some e, Some p, Some n, Some m) \<Rightarrow>
          (case (ve_value v, ve_observed_at v, ve_provider v, ve_capability v, ve_provenance v) of
             (Some x, Some t, Some s, Some c, Some h) \<Rightarrow>
               Some \<lparr>ln_baseline = b, ln_execution = e, ln_profile = p, ln_profile_version = n,
                     ln_metric = m, ln_value = x, ln_observed_at = t, ln_provider = s,
                     ln_capability = c, ln_provenance = h\<rparr>
           | _ \<Rightarrow> None)
      | _ \<Rightarrow> None)"

definition find_baseline :: "baseline_row list \<Rightarrow> string \<Rightarrow> string \<Rightarrow> string \<Rightarrow> baseline_row option" where
  "find_baseline rows tenant i action =
     List.find (\<lambda>b. bl_tenant b = tenant \<and> bl_id b = i \<and> bl_action b = action) rows"

text \<open>The verdict, the criteria and the stored baseline agree with the rows.\<close>

definition verdict_consistent ::
  "trust_ops \<Rightarrow> verification_row \<Rightarrow> lineage \<Rightarrow> action_row \<Rightarrow> baseline_row \<Rightarrow> VerificationProfile \<Rightarrow> bool" where
  "verdict_consistent ops v lin action b profile \<longleftrightarrow>
     ve_verdict v = VerificationVerdict.VERIFIED \<and>
     ac_status action = RemediationActionStatus.VERIFIED \<and>
     py_eq (PDict (ac_criteria action)) (PDict (profile_to_dict profile)) \<and>
     ve_criteria_hash v = ac_criteria_hash action \<and> ln_profile lin = vp_profile_id profile \<and>
     ln_profile_version lin = vp_profile_version profile \<and>
     py_eq (PDict (ve_baseline_json v)) (PDict (baseline_json ops b))"

definition post_read_ok ::
  "trust_ops \<Rightarrow> execution_row \<Rightarrow> verification_row \<Rightarrow> lineage \<Rightarrow> VerificationProfile \<Rightarrow> string \<Rightarrow> string \<Rightarrow> int \<Rightarrow> bool" where
  "post_read_ok ops e v lin profile service_name environment_name executed_at \<longleftrightarrow>
     trusted_read e \<and> scope_matches e service_name environment_name \<and>
     dict_get (ex_observed_effect e) ''source'' = PStr (ln_provider lin) \<and>
     execution_matches_observation ops e (vp_metric profile) (ln_observed_at lin) (ln_value lin) \<and>
     ln_metric lin = vp_metric profile \<and> ln_capability lin = vp_source_capability profile \<and>
     ln_provider lin \<in> set (vp_approved_sources profile) \<and>
     completed_between e executed_at (ve_verified_at v) \<and>
     ve_window_start v \<le> ln_observed_at lin \<and> ln_observed_at lin \<le> ve_window_end v \<and>
     ve_window_end v \<le> ve_verified_at v \<and>
     ve_verified_at v - ln_observed_at lin \<le> microseconds (vp_window_seconds profile)"

definition expected_fields :: "trust_ops \<Rightarrow> lineage \<Rightarrow> execution_row \<Rightarrow> target_row \<Rightarrow> VerificationProfile \<Rightarrow> arg_map" where
  "expected_fields ops lin e target profile =
     [(''metric'', PStr (vp_metric profile)), (''observed_value'', PFloat (ln_value lin)),
      (''observed_at'', PStr (to_iso ops (ln_observed_at lin))), (''source'', PStr (ln_provider lin)),
      (''tool_execution_id'', PStr (ex_id e)), (''target_service_id'', PStr (tg_service target)),
      (''target_environment_id'', PStr (tg_environment target)),
      (''source_capability'', PStr (vp_source_capability profile)),
      (''profile_id'', PStr (vp_profile_id profile)),
      (''profile_version'', PInt (vp_profile_version profile))]"

definition outcome_reproduced ::
  "verification_row \<Rightarrow> lineage \<Rightarrow> baseline_row \<Rightarrow> VerificationProfile \<Rightarrow> bool" where
  "outcome_reproduced v lin b profile \<longleftrightarrow>
     (let j = judge profile (bl_value b) (ln_value lin);
          observed = ve_observed v
      in jd_threshold_passed j \<and> (jd_direction_passed j \<or> \<not> vp_require_improvement profile) \<and>
         py_eq (dict_get observed ''baseline_value'') (PFloat (bl_value b)) \<and>
         py_eq (dict_get observed ''threshold'') (PFloat (vp_threshold profile)) \<and>
         dict_get observed ''threshold_passed'' = PBool (jd_threshold_passed j) \<and>
         dict_get observed ''direction_passed'' = PBool (jd_direction_passed j))"

text \<open>The part after the rows are found: action, its execution time, target, baseline, names.\<close>

definition outcome_trusted ::
  "trust_ops \<Rightarrow> execution_row list \<Rightarrow> string \<Rightarrow> verification_row \<Rightarrow> lineage \<Rightarrow> action_row \<Rightarrow> int \<Rightarrow>
   target_row \<Rightarrow> baseline_row \<Rightarrow> string \<Rightarrow> string \<Rightarrow> VerificationProfile \<Rightarrow> bool" where
  "outcome_trusted ops rows tenant v lin action executed_at target b service_name environment_name profile \<longleftrightarrow>
     verdict_consistent ops v lin action b profile \<and>
     trusted_baseline_record ops rows tenant profile b action target service_name environment_name
       executed_at (ve_verified_at v) \<and>
     (case find_read rows tenant (ln_execution lin) (ac_id action) (vp_source_capability profile) of
        None \<Rightarrow> False
      | Some e \<Rightarrow>
          post_read_ok ops e v lin profile service_name environment_name executed_at \<and>
          ln_provenance lin = observation_provenance ops b action target profile tenant
            (ln_provider lin) (ex_id e) (ln_observed_at lin) (ln_value lin) \<and>
          (\<forall>(k, x) \<in> set (expected_fields ops lin e target profile).
             py_eq (dict_get (ve_observed v) k) x) \<and>
          outcome_reproduced v lin b profile)"

definition trusted_verified_outcome ::
  "trust_ops \<Rightarrow> broker_db \<Rightarrow> baseline_row list \<Rightarrow> string \<Rightarrow> verification_row \<Rightarrow> (py_error, bool) result" where
  "trusted_verified_outcome ops db baselines tenant v =
     (case lineage_of v of
        None \<Rightarrow> Inr False
      | Some lin \<Rightarrow>
     (case List.find (\<lambda>a. ac_tenant a = tenant \<and> ac_id a = ve_action v) (rd_actions (bk_remediation db)) of
        None \<Rightarrow> Inr False
      | Some action \<Rightarrow>
     (case ac_executed_at action of
        None \<Rightarrow> Inr False
      | Some executed_at \<Rightarrow>
     (case (List.find (\<lambda>t. tg_tenant t = tenant \<and> tg_id t = ac_target action) (rd_targets (bk_remediation db)),
            find_baseline baselines tenant (ln_baseline lin) (ac_id action)) of
        (Some target, Some b) \<Rightarrow>
          (case (List.find (\<lambda>s. srv_tenant s = tenant \<and> srv_id s = tg_service target) (bk_services db),
                 List.find (\<lambda>e. env_tenant e = tenant \<and> env_id e = tg_environment target)
                   (rd_environments (bk_remediation db))) of
             (Some service, Some environment) \<Rightarrow>
               (case profile_for_criteria (ac_tool_name action) (ac_criteria action) of
                  Inl e \<Rightarrow> (if isinstance e C_SchemaViolation then Inr False else Inl e)
                | Inr profile \<Rightarrow>
                    Inr (outcome_trusted ops (bk_executions db) tenant v lin action executed_at target b
                      (srv_name service) (env_name environment) profile))
           | _ \<Rightarrow> Inr False)
      | _ \<Rightarrow> Inr False))))"

section \<open>Facts\<close>

lemma find_read_Some:
  "find_read rows tenant i action capability = Some e \<Longrightarrow>
   e \<in> set rows \<and> ex_tenant e = tenant \<and> ex_id e = i \<and> ex_action e = Some action \<and>
     ex_capability e = capability"
  by (auto simp: find_read_def dest: find_SomeD)

text \<open>What a trusted baseline is.\<close>

definition baseline_vouched ::
  "execution_row list \<Rightarrow> VerificationProfile \<Rightarrow> baseline_row \<Rightarrow> action_row \<Rightarrow> target_row \<Rightarrow> string \<Rightarrow> int \<Rightarrow> bool" where
  "baseline_vouched rows profile b action target service_name dispatch_at \<longleftrightarrow>
     bl_action b = ac_id action \<and> bl_target b = tg_id target \<and>
     bl_criteria_hash b = ac_criteria_hash action \<and>
     (\<exists>e \<in> set rows. ex_id e = bl_execution b \<and> ex_action e = Some (ac_id action) \<and>
        ex_node e = NodeId.G10_VERIFIER \<and> ex_risk_tier e = RiskTier.RO \<and>
        ex_outcome e = Some ToolExecutionOutcome.SUCCEEDED \<and>
        dict_get (ex_scope_redacted e) ''service'' = PStr service_name) \<and>
     bl_observed_at b \<le> dispatch_at \<and>
     dispatch_at \<le> bl_observed_at b + microseconds (vp_max_baseline_age_seconds profile)"

lemma trusted_baseline_vouched:
  "trusted_baseline_record ops rows tenant profile b action target service environment at_time as_of \<Longrightarrow>
   baseline_vouched rows profile b action target service at_time"
  by (auto simp: trusted_baseline_record_def baseline_vouched_def baseline_lineage_def trusted_read_def
      scope_matches_def dest!: find_read_Some split: option.splits)

lemma trusted_outcome_elim:
  assumes "trusted_verified_outcome ops db baselines tenant v = Inr True"
  obtains lin action executed_at target b service environment profile where
    "lineage_of v = Some lin" "action \<in> set (rd_actions (bk_remediation db))"
    "ac_tenant action = tenant" "ac_id action = ve_action v" "ac_executed_at action = Some executed_at"
    "b \<in> set baselines" "bl_id b = ln_baseline lin"
    "profile_for_criteria (ac_tool_name action) (ac_criteria action) = Inr profile"
    "outcome_trusted ops (bk_executions db) tenant v lin action executed_at target b
       service environment profile"
  using assms
  by (auto simp: trusted_verified_outcome_def find_baseline_def dest!: find_SomeD
      split: option.splits sum.splits if_splits)

lemma outcome_trusted_judged:
  "outcome_trusted ops rows tenant v lin action t target b s e profile \<Longrightarrow>
   jd_verdict (judge profile (bl_value b) (ln_value lin)) = VerificationVerdict.VERIFIED"
  by (auto simp: outcome_trusted_def outcome_reproduced_def judge_def Let_def split: option.splits)

lemma outcome_trusted_post:
  assumes "outcome_trusted ops rows tenant v lin action t target b s e profile"
  shows "\<exists>x \<in> set rows. ex_id x = ln_execution lin \<and> ex_node x = NodeId.G10_VERIFIER \<and>
    ex_risk_tier x = RiskTier.RO \<and> ex_outcome x = Some ToolExecutionOutcome.SUCCEEDED \<and>
    t \<le> ex_started_at x"
  using assms
  by (auto simp: outcome_trusted_def post_read_ok_def trusted_read_def completed_between_def
      dest!: find_read_Some split: option.splits)

end
