(* ===== verification/Remediation_Executor.thy ===== *)
theory Remediation_Executor
  imports Remediation_Trust
begin

text \<open>
  The executor node, \<open>src/asic/orchestration/remediation/nodes/executor.py\<close>: replay of a terminal
  action, recovery of an interrupted one from durable evidence, and the dispatch: the version
  hash, the preconditions read afresh, the trusted baseline, the durable intent, the write, the
  reconciliation of an unknown outcome and the routing of the incident.
\<close>

section \<open>Reads\<close>

definition at_utc :: "int \<Rightarrow> pyval" where "at_utc t = PDatetime \<lparr>instant = t, tz_aware = True\<rparr>"

definition read_arguments :: "string \<Rightarrow> int \<Rightarrow> arg_map" where
  "read_arguments capability now =
     (if capability = ''read.deploy''
      then [(''window_start'', at_utc (now - microseconds (24 * 3600))), (''window_end'', at_utc now)]
      else [(''include_events'', PBool False)])"

definition executor_read :: "node_deps \<Rightarrow> node_inputs \<Rightarrow> nat \<Rightarrow> string \<Rightarrow> ToolResult step" where
  "executor_read d inp i capability =
     call_broker d G9_REMEDIATION_EXECUTOR
       \<lparr>cr_node = NodeId.G9_REMEDIATION_EXECUTOR, cr_capability = capability,
        cr_service = nd_service_name d,
        cr_arguments = read_arguments capability (ni_clock inp i),
        cr_incident = nd_incident d, cr_action = None\<rparr> (ni_calls inp i)"

definition text_fmt :: "node_deps \<Rightarrow> pyval \<Rightarrow> string" where
  "text_fmt d = text_of (br_render (nd_broker d))"

text \<open>The first precondition that a fresh read no longer supports.\<close>

fun drifted_precondition ::
  "node_deps \<Rightarrow> node_inputs \<Rightarrow> action_row \<Rightarrow> nat \<Rightarrow> string list \<Rightarrow> string option step" where
  "drifted_precondition d inp action i [] = sreturn None"
| "drifted_precondition d inp action i (name # names) =
     (case map_of PRECONDITION_CAPABILITY name of
        None \<Rightarrow> sreturn (Some name)
      | Some capability \<Rightarrow>
          sthen (executor_read d inp i capability) (\<lambda>res.
            if \<not> result_succeeded res \<or> res_deduplicated res then sreturn (Some name)
            else sthen (slift (precondition_holds (text_fmt d) name (ac_arguments action) (res_payload res)))
              (\<lambda>ok. if ok then drifted_precondition d inp action (Suc i) names
                    else sreturn (Some name))))"

definition reconcile :: "node_deps \<Rightarrow> node_inputs \<Rightarrow> nat \<Rightarrow> action_row \<Rightarrow> bool step" where
  "reconcile d inp i action =
     (case (case ac_preconditions action of [] \<Rightarrow> None | p # _ \<Rightarrow> map_of PRECONDITION_CAPABILITY p) of
        None \<Rightarrow> sreturn False
      | Some capability \<Rightarrow>
          sthen (executor_read d inp i capability) (\<lambda>res.
            if result_succeeded res \<and> \<not> res_deduplicated res
            then slift (effect_observed (text_fmt d) (ac_tool_name action) (ac_arguments action)
              (res_payload res))
            else sreturn False))"

section \<open>Routing\<close>

definition assign_status ::
  "string \<Rightarrow> string \<Rightarrow> RemediationActionStatus \<Rightarrow> action_row \<Rightarrow> action_row" where
  "assign_status tenant action new_status a =
     (if ac_tenant a = tenant \<and> ac_id a = action then a\<lparr>ac_status := new_status\<rparr> else a)"

definition mark_succeeded :: "string \<Rightarrow> string \<Rightarrow> int \<Rightarrow> action_row \<Rightarrow> action_row" where
  "mark_succeeded tenant action executed_at a =
     (if ac_tenant a = tenant \<and> ac_id a = action
      then a\<lparr>ac_status := RemediationActionStatus.SUCCEEDED, ac_executed_at := Some executed_at\<rparr>
      else a)"

definition fail_closed ::
  "node_deps \<Rightarrow> node_inputs \<Rightarrow> action_row \<Rightarrow> string \<Rightarrow> IncidentStatus \<Rightarrow> RemediationActionStatus \<Rightarrow> bool \<Rightarrow>
   node_update step" where
  "fail_closed d inp action reason target new_status emit_compensation =
     sthen (smodify (update_actions (assign_status (nd_tenant d) (ac_id action) new_status))) (\<lambda>_.
     sthen (load_incident d) (\<lambda>incident.
     sthen (if target = ir_status incident then sreturn ()
            else run_transition d NodeId.G9_REMEDIATION_EXECUTOR target ActorType.SYSTEM None
              (if target = IncidentStatus.ESCALATED
               then Some TerminationReason.UNRECOVERABLE_FAILURE else None)
              (ni_clock inp 100) (ni_ids inp 100)) (\<lambda>_.
     sthen (action_event d NodeId.G9_REMEDIATION_EXECUTOR IncidentEventType.EXECUTION_FAILED
              ActorType.SYSTEM (ac_id action)
              [''action_id'' \<mapsto> Some (ac_id action), ''reason'' \<mapsto> Some (take 1000 reason)] None
              (ni_clock inp 101) (ni_ids inp 101)) (\<lambda>_.
     sthen (if emit_compensation
            then action_event d NodeId.G9_REMEDIATION_EXECUTOR IncidentEventType.COMPENSATION_STARTED
              ActorType.SYSTEM (ac_id action) [''action_id'' \<mapsto> Some (ac_id action)] None
              (ni_clock inp 102) (ni_ids inp 102)
            else sreturn ()) (\<lambda>_.
     return_update G9_REMEDIATION_EXECUTOR
       [(''phase'', UText ''terminated''), (''terminated'', UFlag True),
        (''termination_reason'', UText (take 1000 reason)),
        (''target_incident_status'', UText (IncidentStatus_value target))])))))"

definition route_success ::
  "node_deps \<Rightarrow> node_inputs \<Rightarrow> action_row \<Rightarrow> RemediationActionRef \<Rightarrow> node_update step" where
  "route_success d inp action ref =
     sthen (load_incident d) (\<lambda>incident.
     sthen (smodify (update_actions (mark_succeeded (nd_tenant d) (ac_id action)
         (case ac_executed_at action of None \<Rightarrow> ni_clock inp 103 | Some t \<Rightarrow> t)))) (\<lambda>_.
     sthen (if ir_status incident = IncidentStatus.VERIFYING then sreturn ()
            else sthen (run_transition d NodeId.G9_REMEDIATION_EXECUTOR IncidentStatus.VERIFYING
                ActorType.SYSTEM None None (ni_clock inp 104) (ni_ids inp 104)) (\<lambda>_.
              action_event d NodeId.G9_REMEDIATION_EXECUTOR IncidentEventType.EXECUTION_COMPLETED
                ActorType.SYSTEM (ac_id action) [''action_id'' \<mapsto> Some (ac_id action)] None
                (ni_clock inp 105) (ni_ids inp 105))) (\<lambda>_.
     return_update G9_REMEDIATION_EXECUTOR
       [(''phase'', UText ''verifying''),
        (''remediation_action'', UAction (ref\<lparr>rf_status := RemediationActionStatus.SUCCEEDED\<rparr>)),
        (''terminated'', UFlag False)])))"

section \<open>Recovery\<close>

definition recover_interrupted ::
  "node_deps \<Rightarrow> node_inputs \<Rightarrow> action_row \<Rightarrow> RemediationActionRef \<Rightarrow> DispatchEvidence \<Rightarrow> node_update step" where
  "recover_interrupted d inp action ref evidence =
     sthen (load_incident d) (\<lambda>_.
       if evidence_state evidence = NO_EFFECT_ATTEMPTED then
         fail_closed d inp action
           ''a prior pass recorded execution intent but no effect was ever claimed, so nothing reached the target; the action is not dispatched again''
           IncidentStatus.INVESTIGATING RemediationActionStatus.FAILED_CLEAN False
       else if de_receipt evidence = Some ToolExecutionOutcome.SUCCEEDED then
         route_success d inp action ref
       else if de_receipt evidence = Some ToolExecutionOutcome.FAILED_CLEAN then
         fail_closed d inp action
           ''the recorded execution receipt reports that no effect was applied''
           IncidentStatus.INVESTIGATING RemediationActionStatus.FAILED_CLEAN False
       else sthen (reconcile d inp 0 action) (\<lambda>confirmed.
         if confirmed then route_success d inp action ref
         else fail_closed d inp action
           ''an effect was claimed for this action but no conclusive receipt exists, and reconciliation could not confirm whether the effect took hold''
           IncidentStatus.ESCALATED RemediationActionStatus.FAILED_PARTIAL True))"

section \<open>Dispatch\<close>

text \<open>
  \<open>trusted_baseline\<close> of the verifier: the session of the run, its clock and names. The rows are
  looked up without a tenant filter, as the code does; row-level security is not modelled.
\<close>

definition baseline_trusted ::
  "trust_ops \<Rightarrow> node_deps \<Rightarrow> VerificationProfile \<Rightarrow> baseline_row \<Rightarrow> action_row \<Rightarrow> target_row \<Rightarrow> int \<Rightarrow> int \<Rightarrow>
   remediation_world \<Rightarrow> bool" where
  "baseline_trusted ops d profile b action target dispatch_at as_of w =
     trusted_baseline_record ops (bk_executions (bs_db (rw_broker w))) (nd_tenant d) profile b action
       target (nd_service_name d) (nd_environment_name d) dispatch_at as_of"

definition executor_baseline_ok ::
  "trust_ops \<Rightarrow> node_deps \<Rightarrow> node_inputs \<Rightarrow> action_row \<Rightarrow> remediation_world \<Rightarrow> (py_error, bool) result" where
  "executor_baseline_ok ops d inp action w =
     (case (List.find (\<lambda>b. bl_action b = ac_id action) (rw_baselines w),
            List.find (\<lambda>t. tg_id t = ac_target action) (rd_targets (rw_db w))) of
        (Some b, Some target) \<Rightarrow>
          andThen (profile_for_criteria (ac_tool_name action) (ac_criteria action)) (\<lambda>profile.
            Inr (baseline_trusted ops d profile b action target (ni_clock inp 106) (ni_clock inp 107) w))
      | _ \<Rightarrow> Inr False)"

definition commit_intent :: "node_deps \<Rightarrow> string \<Rightarrow> bool step" where
  "commit_intent d action w =
     (case record_execution_intent (rw_db w) (nd_tenant d) action of
        (moved, db) \<Rightarrow>
          (Inr moved,
           if moved then (with_db db w)\<lparr>rw_intents := rw_intents w @ [(nd_tenant d, action)]\<rparr> else w))"

definition write_request :: "node_deps \<Rightarrow> action_row \<Rightarrow> ToolDescriptor \<Rightarrow> CapabilityRequest" where
  "write_request d action descriptor =
     \<lparr>cr_node = NodeId.G9_REMEDIATION_EXECUTOR, cr_capability = td_capability descriptor,
      cr_service = nd_service_name d, cr_arguments = ac_arguments action,
      cr_incident = nd_incident d, cr_action = Some (ac_id action)\<rparr>"

definition after_write ::
  "node_deps \<Rightarrow> node_inputs \<Rightarrow> action_row \<Rightarrow> RemediationActionRef \<Rightarrow> ToolResult \<Rightarrow> node_update step" where
  "after_write d inp action ref res =
     sthen (if res_outcome res = ToolExecutionOutcome.UNKNOWN
            then sthen (reconcile d inp (Suc (length (ac_preconditions action))) action) (\<lambda>confirmed.
              sreturn (if confirmed then ToolExecutionOutcome.SUCCEEDED
                       else ToolExecutionOutcome.FAILED_PARTIAL))
            else sreturn (res_outcome res)) (\<lambda>final.
       if final = ToolExecutionOutcome.SUCCEEDED then route_success d inp action ref
       else let no_effect = (res_outcome res = ToolExecutionOutcome.FAILED_CLEAN) in
         fail_closed d inp action
           (case res_failure res of
              Some f \<Rightarrow> nd_message d f
            | None \<Rightarrow> ''execution outcome '' @ ToolExecutionOutcome_value final)
           (if no_effect then IncidentStatus.INVESTIGATING else IncidentStatus.ESCALATED)
           (if no_effect then RemediationActionStatus.FAILED_CLEAN
            else RemediationActionStatus.FAILED_PARTIAL) (\<not> no_effect))"

definition send_write ::
  "node_deps \<Rightarrow> node_inputs \<Rightarrow> action_row \<Rightarrow> RemediationActionRef \<Rightarrow> ToolDescriptor \<Rightarrow> node_update step" where
  "send_write d inp action ref descriptor =
     sthen (load_incident d) (\<lambda>_.
     sthen (action_event d NodeId.G9_REMEDIATION_EXECUTOR IncidentEventType.EXECUTION_STARTED
              ActorType.SYSTEM (ac_id action)
              [''action_id'' \<mapsto> Some (ac_id action), ''tool_name'' \<mapsto> Some (ac_tool_name action)] None
              (ni_clock inp 108) (ni_ids inp 108)) (\<lambda>_.
     sthen (call_broker d G9_REMEDIATION_EXECUTOR (write_request d action descriptor)
              (ni_calls inp (length (ac_preconditions action)))) (\<lambda>res.
       after_write d inp action ref res)))"

definition dispatch_action ::
  "trust_ops \<Rightarrow> node_deps \<Rightarrow> node_inputs \<Rightarrow> action_row \<Rightarrow> RemediationActionRef \<Rightarrow> ToolDescriptor \<Rightarrow>
   node_update step" where
  "dispatch_action ops d inp action ref descriptor =
     sthen (slift (current_version_hash (br_keys (nd_broker d)) action)) (\<lambda>recomputed.
     if recomputed \<noteq> ac_version_hash action then
       fail_closed d inp action
         ''the action's recorded version no longer matches its own row; refusing to execute against a version that has drifted (SI-6)''
         IncidentStatus.ESCALATED RemediationActionStatus.FAILED_CLEAN False
     else sthen (drifted_precondition d inp action 0 (ac_preconditions action)) (\<lambda>drifted.
     case drifted of
       Some name \<Rightarrow>
         fail_closed d inp action (''precondition '' @ py_repr name @ '' no longer holds (SI-7)'')
           IncidentStatus.INVESTIGATING RemediationActionStatus.FAILED_CLEAN False
     | None \<Rightarrow>
     sthen (sread (executor_baseline_ok ops d inp action)) (\<lambda>trusted.
     if \<not> trusted then
       fail_closed d inp action
         ''trusted pre-action baseline is missing, stale, or mismatched''
         IncidentStatus.ESCALATED RemediationActionStatus.FAILED_CLEAN False
     else sthen (commit_intent d (ac_id action)) (\<lambda>intended.
     if \<not> intended then
       fail_closed d inp action
         ''execution intent could not be recorded durably before dispatch; refusing to send an effect that recovery could not classify''
         IncidentStatus.ESCALATED RemediationActionStatus.FAILED_CLEAN False
     else send_write d inp action ref descriptor))))"

definition remediation_executor ::
  "trust_ops \<Rightarrow> node_deps \<Rightarrow> node_inputs \<Rightarrow> RemediationActionRef \<Rightarrow> node_update step" where
  "remediation_executor ops d inp ref =
     sthen (find_run_action d (rf_action ref)) (\<lambda>action.
     sthen (slift (andThen registry_remediation_full (\<lambda>r. by_name r (ac_tool_name action)))) (\<lambda>descriptor.
     if ac_status action = RemediationActionStatus.SUCCEEDED then
       return_update G9_REMEDIATION_EXECUTOR
         [(''phase'', UText ''verifying''),
          (''remediation_action'', UAction (ref\<lparr>rf_status := RemediationActionStatus.SUCCEEDED\<rparr>)),
          (''terminated'', UFlag False)]
     else if ac_status action \<in> {RemediationActionStatus.FAILED_CLEAN, RemediationActionStatus.FAILED_PARTIAL} then
       return_update G9_REMEDIATION_EXECUTOR
         [(''phase'', UText ''terminated''),
          (''remediation_action'', UAction (ref\<lparr>rf_status := ac_status action\<rparr>)),
          (''terminated'', UFlag True),
          (''termination_reason'', UText ''replayed from a prior pass of this run'')]
     else sthen (sread (\<lambda>w. Inr (dispatch_evidence (rw_broker w) (nd_tenant d) action))) (\<lambda>evidence.
       if evidence_interrupted evidence then recover_interrupted d inp action ref evidence
       else dispatch_action ops d inp action ref descriptor)))"

end
