(* ===== verification/Policy.thy ===== *)
theory Policy
  imports Errors
begin

text \<open>
  The policy gate's rule engine, \<open>src/asic/domain/policy.py\<close>. The rationale text of a
  verdict is left out; its rule id, verdict and ambiguity signals are kept. The lemmas:
  the autonomy matrix (when an action may run without a human), that an ambiguity signal
  never makes the verdict more permissive, and the signals that are reported.
\<close>

definition DEFAULT_CONFIDENCE_THRESHOLD :: rat where
  "DEFAULT_CONFIDENCE_THRESHOLD = 6 / 10"

record PolicyInputs =
  pi_risk_tier :: RiskTier
  pi_is_production :: bool
  pi_hypothesis_confidence :: rat
  pi_supporting_evidence_count :: int
  pi_contradicting_evidence_count :: int
  pi_competing_hypotheses_conflict :: bool
  pi_unexplained_counter_evidence :: bool
  pi_evidence_stale :: bool
  pi_concurrent_incident_same_scope :: bool
  pi_tenant_requires_approval_override :: "bool option"
  pi_confidence_threshold :: rat

record PolicyVerdictResult =
  pv_verdict :: PolicyVerdict
  pv_rule_id :: string
  pv_ambiguity :: "string list"

definition detect_ambiguity :: "PolicyInputs \<Rightarrow> string list" where
  "detect_ambiguity i =
     (if pi_hypothesis_confidence i < pi_confidence_threshold i
      then [''confidence_below_threshold''] else []) @
     (if pi_competing_hypotheses_conflict i then [''competing_hypotheses_conflict''] else []) @
     (if pi_unexplained_counter_evidence i \<or> pi_contradicting_evidence_count i > 0
      then [''unexplained_counter_evidence''] else []) @
     (if pi_evidence_stale i then [''evidence_stale''] else []) @
     (if pi_concurrent_incident_same_scope i then [''concurrent_incident_same_scope''] else [])"

definition forced_approval :: "PolicyInputs \<Rightarrow> bool" where
  "forced_approval i =
     (case pi_tenant_requires_approval_override i of None \<Rightarrow> False | Some b \<Rightarrow> b)"

definition pv :: "PolicyVerdict \<Rightarrow> string \<Rightarrow> string list \<Rightarrow> PolicyVerdictResult" where
  "pv v rid amb = \<lparr>pv_verdict = v, pv_rule_id = rid, pv_ambiguity = amb\<rparr>"

definition evaluate_policy :: "PolicyInputs \<Rightarrow> (py_error, PolicyVerdictResult) result" where
  "evaluate_policy i =
     (if pi_risk_tier i = RiskTier.R3 then Inl PolicyEvaluationFailed
      else let ambiguity = detect_ambiguity i in
        if pi_risk_tier i = RiskTier.RO
        then Inr (pv PolicyVerdict.ALLOW ''P0_read_only_always_autonomous'' [])
        else if pi_risk_tier i = RiskTier.R2 then
          (if ambiguity \<noteq> [] \<or> pi_concurrent_incident_same_scope i
           then Inr (pv PolicyVerdict.DENY ''P4_high_risk_ambiguous_denied'' ambiguity)
           else Inr (pv PolicyVerdict.REQUIRE_APPROVAL ''P3_high_risk_requires_approval'' []))
        else if forced_approval i
        then Inr (pv PolicyVerdict.REQUIRE_APPROVAL ''P5_tenant_requires_approval'' ambiguity)
        else if ambiguity \<noteq> []
        then Inr (pv PolicyVerdict.REQUIRE_APPROVAL
                    ''P2_reversible_ambiguous_requires_approval'' ambiguity)
        else if pi_is_production i
        then Inr (pv PolicyVerdict.REQUIRE_APPROVAL
                    ''P1_reversible_production_requires_approval'' [])
        else Inr (pv PolicyVerdict.ALLOW ''P6_reversible_non_production_autonomous'' []))"

section \<open>Facts\<close>

lemma ambiguity_Nil_iff:
  "detect_ambiguity i = [] \<longleftrightarrow>
     pi_confidence_threshold i \<le> pi_hypothesis_confidence i \<and>
     \<not> pi_competing_hypotheses_conflict i \<and> \<not> pi_unexplained_counter_evidence i \<and>
     pi_contradicting_evidence_count i \<le> 0 \<and> \<not> pi_evidence_stale i \<and>
     \<not> pi_concurrent_incident_same_scope i"
  by (auto simp: detect_ambiguity_def not_less)

lemma evaluate_policy_total: "is_ok (evaluate_policy i) \<longleftrightarrow> pi_risk_tier i \<noteq> RiskTier.R3"
  by (simp add: evaluate_policy_def Let_def)

lemma evaluate_policy_allow_iff:
  "(\<exists>rid amb. evaluate_policy i = Inr (pv PolicyVerdict.ALLOW rid amb)) \<longleftrightarrow>
     pi_risk_tier i = RiskTier.RO \<or>
     (pi_risk_tier i = RiskTier.R1 \<and> \<not> forced_approval i \<and> detect_ambiguity i = [] \<and>
      \<not> pi_is_production i)"
  by (cases "pi_risk_tier i") (auto simp: evaluate_policy_def Let_def pv_def)

lemma evaluate_policy_deny_iff:
  "(\<exists>rid amb. evaluate_policy i = Inr (pv PolicyVerdict.DENY rid amb)) \<longleftrightarrow>
     pi_risk_tier i = RiskTier.R2 \<and> detect_ambiguity i \<noteq> []"
  by (cases "pi_risk_tier i")
    (auto simp: evaluate_policy_def Let_def pv_def ambiguity_Nil_iff)

text \<open>How permissive a verdict is; an error counts as a refusal (it fails closed).\<close>

fun permissiveness :: "PolicyVerdict \<Rightarrow> nat" where
  "permissiveness PolicyVerdict.DENY = 0"
| "permissiveness PolicyVerdict.REQUIRE_APPROVAL = 1"
| "permissiveness PolicyVerdict.ALLOW = 2"

definition policy_level :: "PolicyInputs \<Rightarrow> nat" where
  "policy_level i =
     (case evaluate_policy i of Inl _ \<Rightarrow> 0 | Inr v \<Rightarrow> permissiveness (pv_verdict v))"

lemma policy_level_eq:
  "policy_level i =
     (case pi_risk_tier i of
        RiskTier.RO \<Rightarrow> 2
      | RiskTier.R1 \<Rightarrow>
          if forced_approval i \<or> detect_ambiguity i \<noteq> [] \<or> pi_is_production i then 1 else 2
      | RiskTier.R2 \<Rightarrow> if detect_ambiguity i \<noteq> [] then 0 else 1
      | RiskTier.R3 \<Rightarrow> 0)"
  by (cases "pi_risk_tier i")
    (auto simp: policy_level_def evaluate_policy_def Let_def pv_def ambiguity_Nil_iff)

text \<open>
  Inputs ordered by how alarming they are: \<open>riskier a b\<close> says that every signal of \<open>a\<close>
  is also raised by \<open>b\<close> on the same tier.
\<close>

definition riskier :: "PolicyInputs \<Rightarrow> PolicyInputs \<Rightarrow> bool" where
  "riskier a b \<longleftrightarrow>
     pi_risk_tier a = pi_risk_tier b \<and>
     (pi_is_production a \<longrightarrow> pi_is_production b) \<and>
     (forced_approval a \<longrightarrow> forced_approval b) \<and>
     (detect_ambiguity a \<noteq> [] \<longrightarrow> detect_ambiguity b \<noteq> [])"

lemma policy_level_antimono: "riskier a b \<Longrightarrow> policy_level b \<le> policy_level a"
  by (auto simp: riskier_def policy_level_eq split: RiskTier.splits)

end
