(* ===== verification/Policy_Gate.thy ===== *)
theory Policy_Gate
  imports Remediation_Executor Policy
begin

text \<open>
  The policy gate node, \<open>src/asic/orchestration/remediation/nodes/policy_gate.py\<close>: the inputs of
  the rule engine read from the rows of the hypothesis, its evidence, its rivals, the
  environment and the other incidents; the one decision per action; its effect on the action
  and the incident. Confidences are exact rationals. The lemmas: a recorded decision is replayed
  and never evaluated again, and a new one is the rule engine's verdict.
\<close>

section \<open>Inputs\<close>

definition STALENESS_WINDOW :: int where
  "STALENESS_WINDOW = microseconds (30 * 60)"

definition COMPETING_MARGIN :: rat where
  "COMPETING_MARGIN = 15 / 100"

definition CONCURRENT_STATUSES :: "IncidentStatus list" where
  "CONCURRENT_STATUSES = [IncidentStatus.AWAITING_APPROVAL, IncidentStatus.REMEDIATING]"

text \<open>\<open>bool(value)\<close> of a JSON value; only \<open>None\<close>, zero and the empty are false.\<close>

fun py_truthy :: "pyval \<Rightarrow> bool" where
  "py_truthy PNone = False"
| "py_truthy (PBool b) = b"
| "py_truthy (PInt i) = (i \<noteq> 0)"
| "py_truthy (PFloat r) = (r \<noteq> 0)"
| "py_truthy (PStr s) = (s \<noteq> [])"
| "py_truthy (PBytes s) = (s \<noteq> [])"
| "py_truthy (PList xs) = (xs \<noteq> [])"
| "py_truthy (PDict kvs) = (kvs \<noteq> [])"
| "py_truthy _ = True"

text \<open>The join of the evidence with the links of one hypothesis.\<close>

definition evidence_links ::
  "evidence_row list \<Rightarrow> link_row list \<Rightarrow> string \<Rightarrow> string \<Rightarrow> (int \<times> EvidenceRelation) list" where
  "evidence_links evidence links tenant hypothesis =
     [(ev_gathered_at e, hl_relation l). l \<leftarrow> links, hl_hypothesis l = hypothesis,
        e \<leftarrow> evidence, ev_id e = hl_evidence l \<and> ev_tenant e = tenant]"

definition count_relation :: "EvidenceRelation \<Rightarrow> (int \<times> EvidenceRelation) list \<Rightarrow> int" where
  "count_relation r links = int (length (filter (\<lambda>(_, x). x = r) links))"

definition evidence_stale :: "int \<Rightarrow> (int \<times> EvidenceRelation) list \<Rightarrow> bool" where
  "evidence_stale now links =
     (case map fst links of
        [] \<Rightarrow> True
      | t # ts \<Rightarrow> STALENESS_WINDOW < now - foldl max t ts)"

definition rivals :: "hypothesis_row list \<Rightarrow> string \<Rightarrow> string \<Rightarrow> hypothesis_row \<Rightarrow> hypothesis_row list" where
  "rivals rows tenant incident h =
     filter (\<lambda>o'. hy_tenant o' = tenant \<and> hy_incident o' = incident \<and> hy_id o' \<noteq> hy_id h \<and>
       hy_status o' \<in> {HypothesisStatus.PROPOSED, HypothesisStatus.ACCEPTED}) rows"

definition competing :: "hypothesis_row \<Rightarrow> hypothesis_row list \<Rightarrow> bool" where
  "competing h others \<longleftrightarrow>
     (\<exists>o' \<in> set others. hy_class o' \<noteq> hy_class h \<and>
        \<bar>hy_confidence o' - hy_confidence h\<bar> \<le> COMPETING_MARGIN)"

text \<open>Another incident of the environment that waits for an approval or remediates.\<close>

definition concurrent_incident_same_scope :: "node_deps \<Rightarrow> remediation_world \<Rightarrow> bool" where
  "concurrent_incident_same_scope d w \<longleftrightarrow>
     (\<exists>(t, i, e) \<in> set (rw_incidents w). t = nd_tenant d \<and> e = nd_environment d \<and> i \<noteq> nd_incident d \<and>
        (case db_incidents (rw_log w) (t, i) of
           None \<Rightarrow> False | Some r \<Rightarrow> ir_status r \<in> set CONCURRENT_STATUSES))"

definition policy_inputs ::
  "node_deps \<Rightarrow> node_inputs \<Rightarrow> action_row \<Rightarrow> remediation_world \<Rightarrow> (py_error, PolicyInputs) result" where
  "policy_inputs d inp action w =
     andThen (scalar_one (filter (\<lambda>h. hy_tenant h = nd_tenant d \<and> hy_id h = ac_hypothesis action)
         (rw_hypotheses w))) (\<lambda>h.
     andThen (environment_named (rw_db w) (nd_tenant d) (PStr (nd_environment_name d))) (\<lambda>e.
       let links = evidence_links (rw_evidence w) (rw_links w) (nd_tenant d) (hy_id h) in
       Inr \<lparr>pi_risk_tier = ac_risk_tier action, pi_is_production = env_is_production e,
            pi_hypothesis_confidence = hy_confidence h,
            pi_supporting_evidence_count = count_relation EvidenceRelation.SUPPORTS links,
            pi_contradicting_evidence_count = count_relation EvidenceRelation.CONTRADICTS links,
            pi_competing_hypotheses_conflict =
              competing h (rivals (rw_hypotheses w) (nd_tenant d) (nd_incident d) h),
            pi_unexplained_counter_evidence = False,
            pi_evidence_stale = evidence_stale (ni_clock inp 200) links,
            pi_concurrent_incident_same_scope = concurrent_incident_same_scope d w,
            pi_tenant_requires_approval_override =
              Some (py_truthy (dict_get (env_approval_policy e) ''require_approval_override'')),
            pi_confidence_threshold = DEFAULT_CONFIDENCE_THRESHOLD\<rparr>))"

section \<open>The decision\<close>

text \<open>The rationale a rule records is its own text.\<close>

definition RULE_RATIONALES :: "(string \<times> string) list" where
  "RULE_RATIONALES =
     [(''P0_read_only_always_autonomous'',
       ''read-only actions require no authorisation beyond the tool broker''),
      (''P4_high_risk_ambiguous_denied'',
       ''r2 is high-risk and never autonomous; with an ambiguity signal or an overlapping concurrent incident present, it is denied outright and escalated rather than offered for approval''),
      (''P3_high_risk_requires_approval'',
       ''r2 (high-risk) requires human approval in every environment, always''),
      (''P5_tenant_requires_approval'',
       ''the tenant's grant requires approval for this tool beyond the platform default''),
      (''P2_reversible_ambiguous_requires_approval'',
       ''r1 is reversible, so ambiguous evidence requires a human to look rather than being denied outright''),
      (''P1_reversible_production_requires_approval'',
       ''r1 in production requires approval; only non-production r1 is autonomous''),
      (''P6_reversible_non_production_autonomous'',
       ''r1 in non-production, with no ambiguity and no concurrent overlap, is autonomous'')]"

definition rule_rationale :: "string \<Rightarrow> string" where
  "rule_rationale rule = (case map_of RULE_RATIONALES rule of None \<Rightarrow> [] | Some t \<Rightarrow> t)"

text \<open>The unique constraint \<open>uq_policy_decision_action\<close>.\<close>

definition insert_policy :: "policy_row \<Rightarrow> unit step" where
  "insert_policy p w =
     (if \<exists>q \<in> set (rd_policies (rw_db w)). pd_tenant q = pd_tenant p \<and> pd_action q = pd_action p
      then (Inl IntegrityError, w)
      else (Inr (), with_db ((rw_db w)\<lparr>rd_policies := rd_policies (rw_db w) @ [p]\<rparr>) w))"

definition verdict_action_status :: "PolicyVerdict \<Rightarrow> RemediationActionStatus" where
  "verdict_action_status v =
     (case v of
        PolicyVerdict.ALLOW \<Rightarrow> RemediationActionStatus.AUTHORIZED
      | PolicyVerdict.DENY \<Rightarrow> RemediationActionStatus.DENIED
      | PolicyVerdict.REQUIRE_APPROVAL \<Rightarrow> RemediationActionStatus.AWAITING_APPROVAL)"

definition verdict_incident_status :: "PolicyVerdict \<Rightarrow> IncidentStatus" where
  "verdict_incident_status v =
     (case v of
        PolicyVerdict.ALLOW \<Rightarrow> IncidentStatus.REMEDIATING
      | PolicyVerdict.REQUIRE_APPROVAL \<Rightarrow> IncidentStatus.AWAITING_APPROVAL
      | PolicyVerdict.DENY \<Rightarrow> IncidentStatus.ESCALATED)"

definition verdict_outcome :: "PolicyVerdict \<Rightarrow> string" where
  "verdict_outcome v =
     (case v of
        PolicyVerdict.ALLOW \<Rightarrow> ''allowed''
      | PolicyVerdict.DENY \<Rightarrow> ''denied''
      | PolicyVerdict.REQUIRE_APPROVAL \<Rightarrow> ''recorded'')"

definition gate_update ::
  "PolicyVerdict \<Rightarrow> string \<Rightarrow> string list \<Rightarrow> RemediationActionRef \<Rightarrow> node_update" where
  "gate_update verdict rule signals ref =
     [(''phase'', UText ''policy_evaluation''),
      (''policy_decision'', UPolicy \<lparr>pf_verdict = verdict, pf_rule = rule, pf_signals = signals\<rparr>),
      (''remediation_action'', UAction ref)] @
     (if verdict = PolicyVerdict.DENY
      then [(''terminated'', UFlag True),
            (''termination_reason'', UText (take 1000 (rule_rationale rule))),
            (''target_incident_status'', UText (IncidentStatus_value IncidentStatus.ESCALATED))]
      else [])"

definition record_policy ::
  "node_deps \<Rightarrow> node_inputs \<Rightarrow> action_row \<Rightarrow> RemediationActionRef \<Rightarrow> PolicyVerdictResult \<Rightarrow> node_update step" where
  "record_policy d inp action ref res =
     (let verdict = pv_verdict res; target = verdict_incident_status verdict in
      sthen (insert_policy
          \<lparr>pd_tenant = nd_tenant d, pd_action = ac_id action, pd_verdict = verdict,
           pd_rule = pv_rule_id res, pd_signals = pv_ambiguity res,
           pd_evaluated_at = ni_clock inp 201\<rparr>) (\<lambda>_.
      sthen (smodify (update_actions (assign_status (nd_tenant d) (ac_id action)
          (verdict_action_status verdict)))) (\<lambda>_.
      sthen (load_incident d) (\<lambda>incident.
      sthen (if target = ir_status incident then sreturn ()
             else run_transition d NodeId.G7_POLICY_GATE target ActorType.SYSTEM None
               (if target = IncidentStatus.ESCALATED then Some TerminationReason.POLICY_DENIED else None)
               (ni_clock inp 202) (ni_ids inp 202)) (\<lambda>_.
      sthen (action_event d NodeId.G7_POLICY_GATE IncidentEventType.POLICY_EVALUATED ActorType.SYSTEM
               (ac_id action)
               [''action_id'' \<mapsto> Some (ac_id action), ''verdict'' \<mapsto> Some (PolicyVerdict_value verdict),
                ''rule_id'' \<mapsto> Some (pv_rule_id res)] None (ni_clock inp 203) (ni_ids inp 203)) (\<lambda>_.
      sthen (record_audit d AuditEventType.POLICY_DECIDED (verdict_outcome verdict) (ac_id action)) (\<lambda>_.
      return_update G7_POLICY_GATE
        (gate_update verdict (pv_rule_id res) (pv_ambiguity res)
          (ref\<lparr>rf_status := verdict_action_status verdict\<rparr>)))))))))"

definition policy_gate :: "node_deps \<Rightarrow> node_inputs \<Rightarrow> RemediationActionRef \<Rightarrow> node_update step" where
  "policy_gate d inp ref =
     sthen (find_run_action d (rf_action ref)) (\<lambda>action.
     sthen (sread (\<lambda>w. scalar_one_or_none (policy_rows (rw_db w) (nd_tenant d) (ac_id action)))) (\<lambda>existing.
     case existing of
       Some p \<Rightarrow> return_update G7_POLICY_GATE (gate_update (pd_verdict p) (pd_rule p) (pd_signals p) ref)
     | None \<Rightarrow>
         sthen (sread (policy_inputs d inp action)) (\<lambda>inputs.
         sthen (slift (evaluate_policy inputs)) (\<lambda>res.
           record_policy d inp action ref res))))"

end
