(* ===== verification/Planner_Node.thy ===== *)
theory Planner_Node
  imports Policy_Gate
begin

text \<open>
  The remediation planner node, \<open>src/asic/orchestration/remediation/nodes/planner.py\<close>: one
  model call and one repair under the budget, the checks of the proposal against the executor's
  menu and the evidence of the hypothesis, and the action row whose risk tier, scope,
  preconditions, rollback, approval and timeout come from the registry and the run. The text of
  the prompt, the decoding of the answer into the fields of a proposal (\<open>json\<close> and pydantic) and
  the texts of exceptions are parameters; the \<open>Field\<close> bounds are \<open>valid_proposal\<close>.
\<close>

section \<open>The proposal\<close>

definition SCHEMA_REPAIR_ATTEMPTS :: nat where "SCHEMA_REPAIR_ATTEMPTS = 1"

record RemediationProposal =
  rp_tool_name :: "string option"
  rp_arguments :: arg_map
  rp_reason :: string
  rp_evidence_ids :: "string list"
  rp_expected_effect :: arg_map
  rp_criteria :: arg_map
  rp_confidence :: rat

definition valid_proposal :: "RemediationProposal \<Rightarrow> bool" where
  "valid_proposal p \<longleftrightarrow>
     1 \<le> length (rp_reason p) \<and> length (rp_reason p) \<le> 2000 \<and> unit_interval (rp_confidence p)"

type_synonym evidence_entry = "EvidenceDomain \<times> EvidenceRelation \<times> string"

text \<open>What the planner uses beside the dependencies every node has.\<close>

record planner_deps =
  pn_provider :: model_provider
  pn_durable :: "(string \<times> string) option"
  pn_run :: string
  pn_hypothesis :: string
  pn_scope :: IncidentScope
  pn_permission_scope :: arg_map
  pn_policy :: BudgetPolicy
  pn_started_at :: int
  pn_prompt :: "string list \<Rightarrow> (string \<times> evidence_entry) list \<Rightarrow> string"
  pn_prompt_hash :: string
  pn_decode :: "string \<Rightarrow> RemediationProposal option"
  pn_error_text :: "py_error \<Rightarrow> string"

section \<open>The budget of the pass\<close>

definition elapsed_since :: "int \<Rightarrow> int \<Rightarrow> rat" where
  "elapsed_since started now = max 0 (of_int (now - started) / 1000000)"

definition budget_from ::
  "BudgetPolicy \<Rightarrow> int \<Rightarrow> int \<Rightarrow> BudgetSnapshot option \<Rightarrow> (py_error, BudgetState) result" where
  "budget_from p started now snapshot =
     observe_elapsed
       (case snapshot of
          None \<Rightarrow> budget_initial (Some p)
        | Some s \<Rightarrow> \<lparr>policy = p, ledger = ledger_from_dict (bs_consumed s)\<rparr>)
       (elapsed_since started now)"

definition durable_budget :: "string \<Rightarrow> BudgetState \<Rightarrow> BudgetState step" where
  "durable_budget run fallback = sread (\<lambda>w.
     case find_run (rw_models w) run of
       None \<Rightarrow> Inr fallback | Some row \<Rightarrow> budget_from_dict (lr_budget row))"

definition budget_snapshot :: "BudgetState \<Rightarrow> BudgetSnapshot" where
  "budget_snapshot b =
     \<lparr>bs_consumed = ledger_to_dict (ledger b), bs_remaining = remaining b,
      bs_exhausted_kind = map_option BudgetKind_value (exhausted_kind b)\<rparr>"

section \<open>Evidence and citations\<close>

definition evidence_headline :: "trust_ops \<Rightarrow> arg_map \<Rightarrow> string" where
  "evidence_headline ops content =
     take 240 (case map_of content ''headline'' of None \<Rightarrow> [] | Some v \<Rightarrow> to_text ops v)"

text \<open>A dictionary by evidence id: an evidence linked twice keeps its last relation.\<close>

definition evidence_index ::
  "trust_ops \<Rightarrow> node_deps \<Rightarrow> planner_deps \<Rightarrow> remediation_world \<Rightarrow> (string \<times> evidence_entry) list" where
  "evidence_index ops d pl w =
     fold (\<lambda>(k, v). AList.update k v)
       [(ev_id e, (ev_domain e, hl_relation l, evidence_headline ops (ev_content e))).
          l \<leftarrow> rw_links w, hl_hypothesis l = pn_hypothesis pl,
          e \<leftarrow> rw_evidence w, ev_id e = hl_evidence l \<and> ev_tenant e = nd_tenant d] []"

definition resolve_citations :: "string list \<Rightarrow> string list \<Rightarrow> string list \<times> string list" where
  "resolve_citations cited valid =
     (if cited \<in> {[''ALL''], [''all'']} then (sort (remdups valid), [])
      else if cited \<in> {[''NONE''], [''none''], []} then ([], [])
      else (filter (\<lambda>e. e \<in> set valid) cited, filter (\<lambda>e. e \<notin> set valid) cited))"

section \<open>The model call\<close>

definition planner_request ::
  "planner_deps \<Rightarrow> string list \<Rightarrow> (string \<times> evidence_entry) list \<Rightarrow> nat \<Rightarrow> ModelRequest" where
  "planner_request pl menu index attempt =
     \<lparr>mq_node = NodeId.G6_REMEDIATION_PLANNER, mq_prompt_id = ''remediation_planner'',
      mq_prompt_version = ''1.0.0'', mq_prompt_hash = pn_prompt_hash pl,
      mq_prompt_text = pn_prompt pl menu index, mq_temperature = 0, mq_max_output_tokens = 2048,
      mq_metadata = [(''workflow_run_id'', pn_run pl), (''attempt'', nat_digits attempt)]\<rparr>"

definition planner_key :: "nat \<Rightarrow> string" where
  "planner_key attempt = NodeId_value NodeId.G6_REMEDIATION_PLANNER @ '':0:'' @ nat_digits attempt"

definition call_model :: "planner_deps \<Rightarrow> ModelRequest \<Rightarrow> BudgetState \<Rightarrow> string \<Rightarrow> ModelResponse step" where
  "call_model pl q budget key w =
     (case complete_with_budget (pn_provider pl) q budget (pn_durable pl) (Some key) (rw_models w) of
        (Inl e, db) \<Rightarrow> (Inl e, w\<lparr>rw_models := db\<rparr>)
      | (Inr (a, _), db) \<Rightarrow> (Inr a, w\<lparr>rw_models := db\<rparr>))"

text \<open>\<open>model_validate(json.loads(text))\<close>; any refusal leads to the next attempt.\<close>

definition validated_proposal :: "planner_deps \<Rightarrow> string \<Rightarrow> RemediationProposal option" where
  "validated_proposal pl t =
     (case pn_decode pl t of
        None \<Rightarrow> None | Some p \<Rightarrow> if valid_proposal p then Some p else None)"

fun ask_attempts ::
  "planner_deps \<Rightarrow> string list \<Rightarrow> (string \<times> evidence_entry) list \<Rightarrow> BudgetState \<Rightarrow> nat list \<Rightarrow> int \<Rightarrow> rat \<Rightarrow>
   (RemediationProposal \<times> int \<times> rat) step" where
  "ask_attempts pl menu index budget [] used cost = slift (Inl SchemaViolation)"
| "ask_attempts pl menu index budget (attempt # later) used cost =
     sthen (slift (charge budget (call_charge used cost))) (\<lambda>charged.
     sthen (call_model pl (planner_request pl menu index attempt) charged (planner_key attempt)) (\<lambda>a.
       case validated_proposal pl (mr_text a) of
         Some p \<Rightarrow> sreturn (p, used + total_tokens a, cost + mr_cost_usd a)
       | None \<Rightarrow>
           ask_attempts pl menu index budget later (used + total_tokens a) (cost + mr_cost_usd a)))"

definition ask_model ::
  "planner_deps \<Rightarrow> string list \<Rightarrow> (string \<times> evidence_entry) list \<Rightarrow> BudgetState \<Rightarrow>
   (RemediationProposal \<times> int \<times> rat) step" where
  "ask_model pl menu index budget =
     ask_attempts pl menu index budget [1 ..< SCHEMA_REPAIR_ATTEMPTS + 2] 0 0"

section \<open>The action row\<close>

definition target_of_run :: "node_deps \<Rightarrow> planner_deps \<Rightarrow> remediation_world \<Rightarrow> (py_error, string) result" where
  "target_of_run d pl w =
     andThen (scalar_one_or_none (filter (\<lambda>t. tg_tenant t = nd_tenant d \<and> tg_run t = pn_run pl \<and>
         tg_hypothesis t = pn_hypothesis pl \<and> tg_service t = nd_service d \<and>
         tg_environment t = nd_environment d) (rd_targets (rw_db w)))) (\<lambda>found.
       case found of None \<Rightarrow> Inl SchemaViolation | Some t \<Rightarrow> Inr (tg_id t))"

text \<open>The key and check constraints of \<open>remediation_action\<close>.\<close>

definition action_row_checks :: "action_row list \<Rightarrow> action_row \<Rightarrow> bool" where
  "action_row_checks rows a \<longleftrightarrow>
     (\<forall>b \<in> set rows. ac_id b \<noteq> ac_id a \<and>
        \<not> (ac_tenant b = ac_tenant a \<and> ac_request_key b = ac_request_key a)) \<and>
     ac_risk_tier a \<noteq> RiskTier.R3 \<and>
     (ac_risk_tier a = RiskTier.RO \<or> ac_rollback_tool a \<noteq> None) \<and>
     (ac_risk_tier a = RiskTier.R2 \<longrightarrow> ac_approval_required a) \<and>
     0 < ac_timeout a \<and>
     (ac_executed_at a \<noteq> None \<longrightarrow> ac_status a \<noteq> RemediationActionStatus.PROPOSED)"

definition insert_action :: "action_row \<Rightarrow> unit step" where
  "insert_action a w =
     (if action_row_checks (rd_actions (rw_db w)) a
      then (Inr (), with_db ((rw_db w)\<lparr>rd_actions := rd_actions (rw_db w) @ [a]\<rparr>) w)
      else (Inl IntegrityError, w))"

definition proposed_action ::
  "node_deps \<Rightarrow> planner_deps \<Rightarrow> RemediationProposal \<Rightarrow> GrantedCapability \<Rightarrow> string \<Rightarrow> string \<Rightarrow> arg_map \<Rightarrow>
   string \<Rightarrow> string \<Rightarrow> string \<Rightarrow> action_row" where
  "proposed_action d pl p g new_id target criteria criteria_hash version_hash request_key =
     (let t = gc_descriptor g in
      \<lparr>ac_id = new_id, ac_tenant = nd_tenant d, ac_incident = nd_incident d, ac_run = pn_run pl,
       ac_hypothesis = pn_hypothesis pl, ac_target = target, ac_tool_name = td_name t,
       ac_tool_version = td_version t, ac_risk_tier = td_risk_tier t, ac_arguments = rp_arguments p,
       ac_permission_scope = pn_permission_scope pl, ac_preconditions = td_preconditions t,
       ac_version_hash = version_hash, ac_status = RemediationActionStatus.PROPOSED,
       ac_reason = take 4000 (rp_reason p), ac_approval_required = (td_risk_tier t \<noteq> RiskTier.RO),
       ac_criteria = criteria, ac_criteria_hash = criteria_hash, ac_executed_at = None,
       ac_tool_definition = gc_definition_id g, ac_expected_effect = rp_expected_effect p,
       ac_rollback_tool = td_rollback_tool_name t, ac_timeout = td_timeout_seconds t,
       ac_baseline = [], ac_request_key = request_key\<rparr>)"

definition action_ref :: "action_row \<Rightarrow> string \<Rightarrow> RemediationActionRef" where
  "action_ref a capability =
     \<lparr>rf_action = ac_id a, rf_tool_name = ac_tool_name a, rf_tool_version = ac_tool_version a,
      rf_capability = capability, rf_risk_tier = ac_risk_tier a, rf_status = ac_status a,
      rf_version_hash = ac_version_hash a, rf_approval_required = ac_approval_required a\<rparr>"

definition persist_action ::
  "node_deps \<Rightarrow> planner_deps \<Rightarrow> node_inputs \<Rightarrow> RemediationProposal \<Rightarrow> GrantedCapability \<Rightarrow>
   RemediationActionRef step" where
  "persist_action d pl inp p g =
     (let t = gc_descriptor g; keys = br_keys (nd_broker d); new_id = ni_ids inp 500;
          tier = RiskTier_value (td_risk_tier t) in
      sthen (slift (require_permitted_proposal (td_name t) (rp_criteria p))) (\<lambda>profile.
      let criteria = profile_to_dict profile in
      sthen (slift (resolve_arguments (pn_scope pl) t (nd_service_name d))) (\<lambda>resolved.
      sthen (slift (action_version_hash keys new_id (td_name t) (td_version t) (rp_arguments p)
               (pn_permission_scope pl) (td_preconditions t) tier)) (\<lambda>version_hash.
      sthen (slift (remediation_request_key keys (nd_tenant d) (nd_incident d) (pn_hypothesis pl)
               (td_name t) resolved)) (\<lambda>request_key.
      sthen (slift (action_version_hash keys new_id ''verification_criteria'' ''1'' criteria [] [] tier))
        (\<lambda>criteria_hash.
      sthen (sread (\<lambda>w. scalar_one_or_none (filter (\<lambda>a. ac_tenant a = nd_tenant d \<and>
               ac_request_key a = request_key) (rd_actions (rw_db w))))) (\<lambda>existing.
      case existing of
        Some a \<Rightarrow> sreturn (action_ref a (td_capability t))
      | None \<Rightarrow>
          sthen (sread (target_of_run d pl)) (\<lambda>target.
          let a = proposed_action d pl p g new_id target criteria criteria_hash version_hash request_key in
          sthen (insert_action a) (\<lambda>_.
          sthen (record_audit d AuditEventType.REMEDIATION_PLANNED ''recorded'' new_id) (\<lambda>_.
          sreturn (action_ref a (td_capability t))))))))))))"

section \<open>The node\<close>

definition terminate_planner ::
  "trust_ops \<Rightarrow> node_deps \<Rightarrow> node_inputs \<Rightarrow> BudgetState \<Rightarrow> string \<Rightarrow> string \<Rightarrow> bool \<Rightarrow>
   IncidentStatus option \<Rightarrow> node_update step" where
  "terminate_planner ops d inp budget reason error_type may_recover target =
     sthen (if target \<noteq> Some IncidentStatus.ESCALATED then sreturn ()
            else sthen (load_incident d) (\<lambda>incident.
              if ir_status incident = IncidentStatus.ESCALATED then sreturn ()
              else run_transition d NodeId.G6_REMEDIATION_PLANNER IncidentStatus.ESCALATED
                ActorType.SYSTEM None (Some TerminationReason.INSUFFICIENT_EVIDENCE)
                (ni_clock inp 502) (ni_ids inp 502))) (\<lambda>_.
     return_update G6_REMEDIATION_PLANNER
       [(''phase'', UText ''terminated''), (''terminated'', UFlag True),
        (''termination_reason'', UText (take 1000 reason)),
        (''target_incident_status'',
          case target of None \<Rightarrow> UNone | Some s \<Rightarrow> UText (IncidentStatus_value s)),
        (''budget'', UBudget (budget_snapshot budget)),
        (''failures'', UFailures
          [\<lparr>nf_node_id = NodeId.G6_REMEDIATION_PLANNER,
            nf_node_version = nc_node_version G6_REMEDIATION_PLANNER, nf_error_type = error_type,
            nf_message = take 1000 reason, recoverable = may_recover,
            nf_occurred_at = to_iso ops (ni_clock inp 501), nf_stage = None, nf_category = None\<rparr>])])"

text \<open>\<open>except\<close>: a handled exception keeps what was written before it was raised.\<close>

definition shandle :: "'a step \<Rightarrow> (py_error \<Rightarrow> bool) \<Rightarrow> (py_error \<Rightarrow> 'b step) \<Rightarrow> ('a \<Rightarrow> 'b step) \<Rightarrow> 'b step" where
  "shandle m caught h f w =
     (case m w of
        (Inr x, w') \<Rightarrow> f x w'
      | (Inl e, w') \<Rightarrow> if caught e then h e w' else (Inl e, w'))"

definition planner_caught :: "py_error \<Rightarrow> string option" where
  "planner_caught e =
     (if isinstance e C_BudgetExhausted then Some ''BudgetExhausted''
      else if isinstance e C_SchemaViolation then Some ''SchemaViolation''
      else if isinstance e C_ModelProviderError then Some ''ModelProviderError''
      else None)"

definition executor_menu :: "node_deps \<Rightarrow> CapabilityMenu step" where
  "executor_menu d w =
     (case menu_for (nd_broker d) (rw_broker w) G9_REMEDIATION_EXECUTOR False of
        (r, st) \<Rightarrow> (r, w\<lparr>rw_broker := st\<rparr>))"

definition escalate :: "IncidentStatus option" where "escalate = Some IncidentStatus.ESCALATED"

text \<open>The rejections are in the order of the code; none is repaired.\<close>

definition accept_proposal ::
  "trust_ops \<Rightarrow> node_deps \<Rightarrow> planner_deps \<Rightarrow> node_inputs \<Rightarrow> CapabilityMenu \<Rightarrow> (string \<times> evidence_entry) list \<Rightarrow>
   RemediationProposal \<Rightarrow> BudgetState \<Rightarrow> node_update step" where
  "accept_proposal ops d pl inp menu index p charged =
     (case rp_tool_name p of
        None \<Rightarrow> terminate_planner ops d inp charged
          ''the planner proposed no action for this hypothesis'' ''NoActionProposed'' True None
      | Some tool \<Rightarrow>
          (case menu_get_by_tool_name menu tool of
             None \<Rightarrow> terminate_planner ops d inp charged
               (''proposed tool '' @ py_repr tool @ '' is not a granted capability'')
               ''CapabilityNotGranted'' True escalate
           | Some g \<Rightarrow>
               (case resolve_citations (rp_evidence_ids p) (map fst index) of (cited, unknown) \<Rightarrow>
                  if unknown \<noteq> [] \<or> cited = [] then
                    terminate_planner ops d inp charged
                      ''the proposal cited evidence this incident does not hold''
                      ''UnsupportedCitation'' True escalate
                  else shandle (persist_action d pl inp p g) (\<lambda>e. isinstance e C_SchemaViolation)
                    (\<lambda>e. terminate_planner ops d inp charged (pn_error_text pl e)
                       ''VerificationProfileRejected'' False escalate)
                    (\<lambda>ref. return_update G6_REMEDIATION_PLANNER
                       [(''phase'', UText ''policy_evaluation''), (''remediation_action'', UAction ref),
                        (''budget'', UBudget (budget_snapshot charged))]))))"

definition remediation_planner ::
  "trust_ops \<Rightarrow> node_deps \<Rightarrow> planner_deps \<Rightarrow> node_inputs \<Rightarrow> RemediationActionRef option \<Rightarrow>
   BudgetSnapshot option \<Rightarrow> node_update step" where
  "remediation_planner ops d pl inp known snapshot =
     sthen (slift (budget_from (pn_policy pl) (pn_started_at pl) (ni_clock inp 500) snapshot)) (\<lambda>budget.
     if known \<noteq> None then
       return_update G6_REMEDIATION_PLANNER
         [(''phase'', UText ''policy_evaluation''), (''budget'', UBudget (budget_snapshot budget))]
     else sthen (executor_menu d) (\<lambda>menu.
       sthen (sread (\<lambda>w. Inr (evidence_index ops d pl w))) (\<lambda>index.
       shandle (ask_model pl (menu_tool_names menu) index budget) (\<lambda>e. planner_caught e \<noteq> None)
         (\<lambda>e. sthen (durable_budget (pn_run pl) budget) (\<lambda>b.
            terminate_planner ops d inp b (pn_error_text pl e)
              (case planner_caught e of None \<Rightarrow> [] | Some n \<Rightarrow> n) True escalate))
         (\<lambda>(p, used, cost).
            sthen (slift (charge budget (call_charge used cost))) (\<lambda>charged.
              accept_proposal ops d pl inp menu index p charged)))))"

end
