(* ===== verification/Approval_Node.thy ===== *)
theory Approval_Node
  imports Policy_Gate
begin

text \<open>
  The approval node, \<open>src/asic/orchestration/remediation/nodes/approval.py\<close>: it waits for the
  decision that \<open>approval_service.decide\<close> records, notices that the window has elapsed, and
  applies the consequence of a decision once. The instants in payloads are rendered by the
  parameter \<open>to_iso\<close>.
\<close>

section \<open>Helpers\<close>

definition approval_deadline :: "node_deps \<Rightarrow> action_row \<Rightarrow> remediation_world \<Rightarrow> (py_error, int) result" where
  "approval_deadline d action w =
     andThen (scalar_one (policy_rows (rw_db w) (nd_tenant d) (ac_id action))) (\<lambda>p.
       case map_of APPROVAL_WINDOW_SECONDS (ac_risk_tier action) of
         None \<Rightarrow> Inl KeyError
       | Some window \<Rightarrow> Inr (pd_evaluated_at p + microseconds window))"

text \<open>The newest decision on the version of the action.\<close>

definition recorded_decision :: "node_deps \<Rightarrow> action_row \<Rightarrow> remediation_world \<Rightarrow> approval_row option" where
  "recorded_decision d action w =
     newest ap_created_at (filter (\<lambda>a. ap_tenant a = nd_tenant d \<and> ap_action a = ac_id action \<and>
       ap_version_hash a = ac_version_hash action) (rd_approvals (rw_db w)))"

definition system_decision ::
  "node_deps \<Rightarrow> action_row \<Rightarrow> ApprovalDecision \<Rightarrow> string \<Rightarrow> int \<Rightarrow> int \<Rightarrow> int \<Rightarrow> string \<Rightarrow> approval_row" where
  "system_decision d action decision key requested_at expires_at decided_at new_id =
     \<lparr>ap_id = new_id, ap_tenant = nd_tenant d, ap_action = ac_id action,
      ap_version_hash = ac_version_hash action, ap_callback_key = key @ '':system_expiry'',
      ap_required_role = REMEDIATION_APPROVE_PERMISSION, ap_proposer = None, ap_approver = None,
      ap_decision = decision,
      ap_justification = Some ''approval window elapsed with no human decision recorded'',
      ap_channel = Some ''system'', ap_requested_at = requested_at, ap_expires_at = expires_at,
      ap_decided_at = Some decided_at, ap_created_at = decided_at\<rparr>"

definition insert_approval :: "approval_row \<Rightarrow> approval_row step" where
  "insert_approval a w =
     (case add_approval (rw_db w) a of
        Inl e \<Rightarrow> (Inl e, w)
      | Inr (b, db) \<Rightarrow> (Inr b, with_db db w))"

definition record_system_decision ::
  "node_deps \<Rightarrow> node_inputs \<Rightarrow> action_row \<Rightarrow> ApprovalDecision \<Rightarrow> int \<Rightarrow> int \<Rightarrow> approval_row step" where
  "record_system_decision d inp action decision requested_at expires_at =
     sthen (slift (approval_callback_key (br_keys (nd_broker d)) (nd_tenant d) (ac_id action)
         (ac_version_hash action))) (\<lambda>key.
       insert_approval (system_decision d action decision key requested_at expires_at
         (ni_clock inp 301) (ni_ids inp 301)))"

section \<open>The consequence of a decision\<close>

definition decision_outcome :: "ApprovalDecision \<Rightarrow> string" where
  "decision_outcome x =
     (case x of
        ApprovalDecision.APPROVED \<Rightarrow> ''allowed''
      | ApprovalDecision.REJECTED \<Rightarrow> ''denied''
      | ApprovalDecision.EXPIRED \<Rightarrow> ''expired''
      | ApprovalDecision.INVALIDATED \<Rightarrow> ''invalidated'')"

definition approval_ref :: "approval_row \<Rightarrow> ApprovalRef" where
  "approval_ref a =
     \<lparr>af_approval = ap_id a, af_decision = Some (ap_decision a), af_expires_at = ap_expires_at a\<rparr>"

definition decider :: "approval_row \<Rightarrow> ActorType" where
  "decider a = (if ap_approver a = None then ActorType.SYSTEM else ActorType.HUMAN)"

text \<open>The event and the reason of a decision that is not an approval; approved raises.\<close>

definition refusal_of :: "ApprovalDecision \<Rightarrow> (py_error, IncidentEventType \<times> string) result" where
  "refusal_of x =
     (case x of
        ApprovalDecision.REJECTED \<Rightarrow> Inr (IncidentEventType.APPROVAL_REJECTED, ''approval was rejected'')
      | ApprovalDecision.EXPIRED \<Rightarrow> Inr (IncidentEventType.APPROVAL_EXPIRED, ''approval window elapsed'')
      | ApprovalDecision.INVALIDATED \<Rightarrow>
          Inr (IncidentEventType.APPROVAL_INVALIDATED_STALE, ''the action changed after approval was requested'')
      | ApprovalDecision.APPROVED \<Rightarrow> Inl KeyError)"

definition approval_granted ::
  "node_deps \<Rightarrow> node_inputs \<Rightarrow> action_row \<Rightarrow> approval_row \<Rightarrow> bool \<Rightarrow> node_update step" where
  "approval_granted d inp action a first_pass =
     sthen (if \<not> first_pass then sreturn ()
            else sthen (run_transition d NodeId.G8_APPROVAL_SERVICE IncidentStatus.REMEDIATING
                ActorType.HUMAN (Some (action_text (ap_approver a))) None
                (ni_clock inp 302) (ni_ids inp 302)) (\<lambda>_.
              action_event d NodeId.G8_APPROVAL_SERVICE IncidentEventType.APPROVAL_GRANTED (decider a)
                (ac_id action) [''action_id'' \<mapsto> Some (ac_id action)] None
                (ni_clock inp 303) (ni_ids inp 303))) (\<lambda>_.
     return_update G8_APPROVAL_SERVICE
       [(''phase'', UText ''executing''), (''approval'', UApproval (approval_ref a)),
        (''terminated'', UFlag False)])"

definition approval_refused ::
  "node_deps \<Rightarrow> node_inputs \<Rightarrow> action_row \<Rightarrow> approval_row \<Rightarrow> node_update step" where
  "approval_refused d inp action a =
     sthen (slift (refusal_of (ap_decision a))) (\<lambda>(event, reason).
     sthen (run_transition d NodeId.G8_APPROVAL_SERVICE IncidentStatus.ESCALATED ActorType.SYSTEM None
              (Some TerminationReason.APPROVAL_NOT_GRANTED) (ni_clock inp 304) (ni_ids inp 304)) (\<lambda>_.
     sthen (action_event d NodeId.G8_APPROVAL_SERVICE event (decider a) (ac_id action)
              [''action_id'' \<mapsto> Some (ac_id action), ''reason'' \<mapsto> Some reason] None
              (ni_clock inp 305) (ni_ids inp 305)) (\<lambda>_.
     return_update G8_APPROVAL_SERVICE
       [(''phase'', UText ''terminated''), (''approval'', UApproval (approval_ref a)),
        (''terminated'', UFlag True), (''termination_reason'', UText reason),
        (''target_incident_status'', UText (IncidentStatus_value IncidentStatus.ESCALATED))])))"

definition route_decided ::
  "node_deps \<Rightarrow> node_inputs \<Rightarrow> action_row \<Rightarrow> approval_row \<Rightarrow> node_update step" where
  "route_decided d inp action a =
     sthen (load_incident d) (\<lambda>incident.
       let first_pass = (ir_status incident = IncidentStatus.AWAITING_APPROVAL) in
       sthen (if first_pass
              then record_audit d AuditEventType.APPROVAL_DECIDED (decision_outcome (ap_decision a))
                (ac_id action)
              else sreturn ()) (\<lambda>_.
       if ap_decision a = ApprovalDecision.APPROVED then approval_granted d inp action a first_pass
       else approval_refused d inp action a))"

section \<open>The node\<close>

definition request_approval :: "trust_ops \<Rightarrow> node_deps \<Rightarrow> node_inputs \<Rightarrow> action_row \<Rightarrow> int \<Rightarrow> node_update step" where
  "request_approval ops d inp action deadline =
     sthen (load_incident d) (\<lambda>_.
     sthen (record_audit d AuditEventType.APPROVAL_REQUESTED ''requested'' (ac_id action)) (\<lambda>_.
     sthen (action_event d NodeId.G8_APPROVAL_SERVICE IncidentEventType.APPROVAL_REQUESTED ActorType.SYSTEM
              (ac_id action)
              [''action_id'' \<mapsto> Some (ac_id action), ''expires_at'' \<mapsto> Some (to_iso ops deadline)]
              (Some ''requested'') (ni_clock inp 306) (ni_ids inp 306)) (\<lambda>_.
     return_update G8_APPROVAL_SERVICE
       [(''phase'', UText ''awaiting_approval''), (''approval'', UNone), (''terminated'', UFlag False)])))"

definition approval_service ::
  "trust_ops \<Rightarrow> node_deps \<Rightarrow> node_inputs \<Rightarrow> RemediationActionRef \<Rightarrow> node_update step" where
  "approval_service ops d inp ref =
     sthen (find_run_action d (rf_action ref)) (\<lambda>action.
     sthen (sread (\<lambda>w. Inr (recorded_decision d action w))) (\<lambda>existing.
     case existing of
       Some a \<Rightarrow> route_decided d inp action a
     | None \<Rightarrow>
         sthen (sread (approval_deadline d action)) (\<lambda>deadline.
         if deadline \<le> ni_clock inp 300 then
           sthen (slift (case map_of APPROVAL_WINDOW_SECONDS (ac_risk_tier action) of
                    None \<Rightarrow> Inl KeyError | Some window \<Rightarrow> Inr (deadline - microseconds window))) (\<lambda>requested_at.
           sthen (record_system_decision d inp action ApprovalDecision.EXPIRED requested_at deadline) (\<lambda>a.
             route_decided d inp action a))
         else request_approval ops d inp action deadline)))"

end
