(* ===== verification/Verifier_Node.thy ===== *)
theory Verifier_Node
  imports Remediation_Trust Remediation_Executor Py_Text "HOL-Library.AList"
begin

text \<open>
  The verifier node, \<open>src/asic/orchestration/remediation/nodes/verifier.py\<close>: its own read of the
  target through the broker, the baseline it freezes before the write, the settling window, the
  judgement against the frozen criteria, the verification row and the routing of the incident.
  Instants are rendered and parsed by the parameters of \<open>trust_ops\<close>; numeric columns keep the
  value they are given (the adapter renders a sample with six decimals, which is their scale).
\<close>

section \<open>The independent read\<close>

definition get_text :: "trust_ops \<Rightarrow> arg_map \<Rightarrow> string \<Rightarrow> string" where
  "get_text ops m k = (case map_of m k of None \<Rightarrow> [] | Some v \<Rightarrow> to_text ops v)"

definition reason_only :: "string \<Rightarrow> arg_map" where
  "reason_only r = [(''reason'', PStr r)]"

text \<open>
  \<open>payload.get("samples") or []\<close>: the result schema of the broker admits a list only, any other
  value is a type error here.
\<close>

definition samples_of :: "arg_map \<Rightarrow> (py_error, pyval list) result" where
  "samples_of payload =
     (case dict_get payload ''samples'' of
        PList xs \<Rightarrow> Inr xs | PNone \<Rightarrow> Inr [] | _ \<Rightarrow> Inl TypeError)"

text \<open>The last sample as instant and value; a naive instant cannot be compared.\<close>

definition parse_sample :: "trust_ops \<Rightarrow> string \<Rightarrow> (py_datetime \<times> rat) option" where
  "parse_sample ops s =
     (case rsplit_at CHR ''='' s of
        None \<Rightarrow> None
      | Some (t, v) \<Rightarrow>
          (case (to_parse_iso ops t, to_parse_float ops v) of
             (Some i, Some r) \<Rightarrow> Some (i, r) | _ \<Rightarrow> None))"

definition observed_fields ::
  "trust_ops \<Rightarrow> node_deps \<Rightarrow> VerificationProfile \<Rightarrow> int \<Rightarrow> rat \<Rightarrow> string \<Rightarrow> string \<Rightarrow> arg_map" where
  "observed_fields ops d profile at_time value source execution =
     [(''metric'', PStr (vp_metric profile)), (''observed_value'', PFloat value),
      (''observed_at'', PStr (to_iso ops at_time)), (''source'', PStr source),
      (''tool_execution_id'', PStr execution), (''target_service_id'', PStr (nd_service d)),
      (''target_environment_id'', PStr (nd_environment d)),
      (''source_capability'', PStr (vp_source_capability profile)),
      (''profile_id'', PStr (vp_profile_id profile)),
      (''profile_version'', PInt (vp_profile_version profile))]"

text \<open>What a result of the read says, in the order of the tests.\<close>

definition read_observation ::
  "trust_ops \<Rightarrow> node_deps \<Rightarrow> VerificationProfile \<Rightarrow> int \<Rightarrow> int \<Rightarrow> ToolResult \<Rightarrow> (py_error, arg_map) result" where
  "read_observation ops d profile opened now res =
     (if \<not> result_succeeded res
      then Inr (reason_only (case res_failure res of Some f \<Rightarrow> nd_message d f | None \<Rightarrow> ''read failed''))
      else andThen (samples_of (res_payload res)) (\<lambda>samples.
        if int (length samples) < vp_minimum_samples profile
        then Inr (reason_only ''insufficient samples in observation window'')
        else if samples = [] then Inr (reason_only ''could not parse observed sample'')
        else case parse_sample ops (to_text ops (last samples)) of
          None \<Rightarrow> Inr (reason_only ''could not parse observed sample'')
        | Some (t, value) \<Rightarrow>
            if \<not> tz_aware t then Inl TypeError
            else if instant t < opened \<or> now < instant t
            then Inr (reason_only ''post-action evidence is stale or future-dated'')
            else if \<not> sublist (vp_metric profile) (get_text ops (res_payload res) ''series'')
            then Inr (reason_only ''observation returned an unrelated metric'')
            else let source = py_strip (get_text ops (res_payload res) ''source'') in
              case res_execution res of
                None \<Rightarrow> Inr (reason_only ''observation has no independently attributable source'')
              | Some execution \<Rightarrow>
                  if source = [] then Inr (reason_only ''observation has no independently attributable source'')
                  else if dict_get (res_scope res) ''service'' \<noteq> PStr (nd_service_name d) \<or>
                    dict_get (res_scope res) ''environment'' \<noteq> PStr (nd_environment_name d)
                  then Inr (reason_only ''observation scope differs from immutable remediation target'')
                  else Inr (observed_fields ops d profile (instant t) value source execution)))"

definition observe ::
  "trust_ops \<Rightarrow> node_deps \<Rightarrow> node_inputs \<Rightarrow> nat \<Rightarrow> VerificationProfile \<Rightarrow> action_row \<Rightarrow> arg_map step" where
  "observe ops d inp i profile action =
     (let now = ni_clock inp i; opened = now - microseconds (vp_window_seconds profile) in
      sthen (call_broker d G10_VERIFIER
          \<lparr>cr_node = NodeId.G10_VERIFIER, cr_capability = vp_source_capability profile,
           cr_service = nd_service_name d,
           cr_arguments = [(''window_start'', at_utc opened), (''window_end'', at_utc now),
             (''metric'', PStr (vp_metric profile))],
           cr_incident = nd_incident d, cr_action = Some (ac_id action)\<rparr> (ni_calls inp i)) (\<lambda>res.
        slift (read_observation ops d profile opened now res)))"

section \<open>The baseline\<close>

definition was_observed :: "arg_map \<Rightarrow> bool" where
  "was_observed m \<longleftrightarrow> ''observed_value'' \<in> set (map fst m)"

definition observed_number :: "arg_map \<Rightarrow> (py_error, rat) result" where
  "observed_number m = (case dict_get m ''observed_value'' of PFloat r \<Rightarrow> Inr r | _ \<Rightarrow> Inl TypeError)"

definition observed_instant :: "trust_ops \<Rightarrow> arg_map \<Rightarrow> (py_error, int) result" where
  "observed_instant ops m =
     (case to_parse_iso ops (get_text ops m ''observed_at'') of None \<Rightarrow> Inl ValueError | Some t \<Rightarrow> Inr (instant t))"

definition verifier_ref :: "action_row \<Rightarrow> string \<Rightarrow> RemediationActionRef" where
  "verifier_ref a capability =
     \<lparr>rf_action = ac_id a, rf_tool_name = ac_tool_name a, rf_tool_version = ac_tool_version a,
      rf_capability = capability, rf_risk_tier = ac_risk_tier a, rf_status = ac_status a,
      rf_version_hash = ac_version_hash a, rf_approval_required = ac_approval_required a\<rparr>"

definition baseline_update :: "action_row \<Rightarrow> string \<Rightarrow> node_update" where
  "baseline_update a capability =
     [(''phase'', UText ''baseline_captured''), (''baseline_captured'', UFlag True),
      (''remediation_action'', UAction (verifier_ref a capability)), (''terminated'', UFlag False)]"

text \<open>The snapshot of the action: the observation with the identity of the run.\<close>

definition baseline_snapshot ::
  "trust_ops \<Rightarrow> node_deps \<Rightarrow> VerificationProfile \<Rightarrow> action_row \<Rightarrow> target_row \<Rightarrow> int \<Rightarrow> arg_map \<Rightarrow> arg_map" where
  "baseline_snapshot ops d profile action target captured_at m =
     fold (\<lambda>(k, v). AList.update k v)
       [(''tenant_id'', PStr (nd_tenant d)), (''incident_id'', PStr (ac_incident action)),
        (''remediation_target_id'', PStr (tg_id target)), (''remediation_action_id'', PStr (ac_id action)),
        (''profile_id'', PStr (vp_profile_id profile)),
        (''profile_version'', PInt (vp_profile_version profile)),
        (''criteria_hash'', PStr (ac_criteria_hash action)), (''captured_at'', PStr (to_iso ops captured_at))] m"

definition new_baseline ::
  "trust_ops \<Rightarrow> node_deps \<Rightarrow> VerificationProfile \<Rightarrow> action_row \<Rightarrow> target_row \<Rightarrow> int \<Rightarrow> string \<Rightarrow> arg_map \<Rightarrow>
   int \<Rightarrow> rat \<Rightarrow> baseline_row" where
  "new_baseline ops d profile action target captured_at new_id m observed_at value =
     (let b = \<lparr>bl_id = new_id, bl_tenant = nd_tenant d, bl_incident = ac_incident action,
            bl_target = tg_id target, bl_action = ac_id action, bl_service = tg_service target,
            bl_environment = tg_environment target, bl_profile = vp_profile_id profile,
            bl_profile_version = vp_profile_version profile, bl_criteria_hash = ac_criteria_hash action,
            bl_metric = vp_metric profile, bl_capability = vp_source_capability profile,
            bl_provider = get_text ops m ''source'', bl_execution = get_text ops m ''tool_execution_id'',
            bl_observed_at = observed_at, bl_captured_at = captured_at, bl_value = value,
            bl_provenance = []\<rparr>
      in b\<lparr>bl_provenance := baseline_provenance ops b\<rparr>)"

text \<open>The constraints of \<open>remediation_baseline\<close>.\<close>

definition insert_baseline :: "baseline_row \<Rightarrow> unit step" where
  "insert_baseline b w =
     (if (\<exists>c \<in> set (rw_baselines w). bl_tenant c = bl_tenant b \<and> bl_action c = bl_action b) \<or>
         \<not> 0 < bl_profile_version b \<or> \<not> bl_observed_at b \<le> bl_captured_at b
      then (Inl IntegrityError, w) else (Inr (), w\<lparr>rw_baselines := rw_baselines w @ [b]\<rparr>))"

definition store_snapshot :: "string \<Rightarrow> string \<Rightarrow> arg_map \<Rightarrow> action_row \<Rightarrow> action_row" where
  "store_snapshot tenant i m a =
     (if ac_tenant a = tenant \<and> ac_id a = i then a\<lparr>ac_baseline := m\<rparr> else a)"

definition capture_baseline ::
  "trust_ops \<Rightarrow> node_deps \<Rightarrow> node_inputs \<Rightarrow> VerificationProfile \<Rightarrow> action_row \<Rightarrow> target_row \<Rightarrow> string \<Rightarrow>
   node_update step" where
  "capture_baseline ops d inp profile action target capability =
     sthen (observe ops d inp 400 profile action) (\<lambda>m.
     if \<not> was_observed m then
       return_update G10_VERIFIER
         [(''phase'', UText ''terminated''), (''terminated'', UFlag True),
          (''termination_reason'', UText ''independent pre-action baseline unavailable''),
          (''target_incident_status'', UNone)]
     else
       sthen (slift (observed_instant ops m)) (\<lambda>observed_at.
       sthen (slift (observed_number m)) (\<lambda>value.
       let captured_at = ni_clock inp 401 in
       sthen (insert_baseline (new_baseline ops d profile action target captured_at (ni_ids inp 401) m
                observed_at value)) (\<lambda>_.
       sthen (smodify (update_actions (store_snapshot (nd_tenant d) (ac_id action)
                (baseline_snapshot ops d profile action target captured_at m)))) (\<lambda>_.
       return_update G10_VERIFIER (baseline_update action capability))))))"

text \<open>An executed action without a baseline is escalated.\<close>

definition missing_baseline :: "node_deps \<Rightarrow> node_inputs \<Rightarrow> node_update step" where
  "missing_baseline d inp =
     sthen (load_incident d) (\<lambda>_.
     sthen (run_transition d NodeId.G10_VERIFIER IncidentStatus.ESCALATED ActorType.SYSTEM None
              (Some TerminationReason.HUMAN_ESCALATION) (ni_clock inp 402) (ni_ids inp 402)) (\<lambda>_.
     return_update G10_VERIFIER
       [(''phase'', UText ''terminated''), (''terminated'', UFlag True),
        (''termination_reason'', UText ''executed action has no trusted pre-action baseline''),
        (''target_incident_status'', UText (IncidentStatus_value IncidentStatus.ESCALATED))]))"

section \<open>The judgement\<close>

definition judged_fields :: "VerificationProfile \<Rightarrow> rat \<Rightarrow> judgement \<Rightarrow> arg_map \<Rightarrow> arg_map" where
  "judged_fields profile baseline_value j m =
     fold (\<lambda>(k, v). AList.update k v)
       [(''baseline_value'', PFloat baseline_value), (''threshold'', PFloat (vp_threshold profile)),
        (''threshold_passed'', PBool (jd_threshold_passed j)),
        (''direction_passed'', PBool (jd_direction_passed j)), (''profile_id'', PStr (vp_profile_id profile))] m"

definition evaluate_outcome ::
  "trust_ops \<Rightarrow> node_deps \<Rightarrow> node_inputs \<Rightarrow> VerificationProfile \<Rightarrow> arg_map \<Rightarrow> baseline_row \<Rightarrow> action_row \<Rightarrow>
   int \<Rightarrow> target_row \<Rightarrow> (VerificationVerdict \<times> arg_map \<times> rat option) step" where
  "evaluate_outcome ops d inp profile criteria b action executed_at target =
     (if \<not> py_eq (PDict criteria) (PDict (profile_to_dict profile))
      then sreturn (VerificationVerdict.INCONCLUSIVE, reason_only ''malformed verification criteria'', None)
      else sthen (sread (\<lambda>w. Inr (baseline_trusted ops d profile b action target executed_at
          (ni_clock inp 410) w))) (\<lambda>trusted.
        if \<not> trusted
        then sreturn (VerificationVerdict.INCONCLUSIVE, reason_only ''invalid trusted baseline'', None)
        else sthen (observe ops d inp 411 profile action) (\<lambda>m.
          if \<not> was_observed m then sreturn (VerificationVerdict.INCONCLUSIVE, m, None)
          else sthen (slift (observed_number m)) (\<lambda>value.
            let j = judge profile (bl_value b) value in
            sreturn (jd_verdict j, judged_fields profile (bl_value b) j m, Some (jd_margin j))))))"

text \<open>The row: the lineage columns are all set or all null.\<close>

definition lineage_columns ::
  "trust_ops \<Rightarrow> node_deps \<Rightarrow> VerificationProfile \<Rightarrow> baseline_row \<Rightarrow> action_row \<Rightarrow> target_row \<Rightarrow> arg_map \<Rightarrow>
   (py_error, lineage option) result" where
  "lineage_columns ops d profile b action target m =
     (if \<not> was_observed m then Inr None
      else andThen (observed_instant ops m) (\<lambda>observed_at.
        andThen (observed_number m) (\<lambda>value.
          let execution = get_text ops m ''tool_execution_id''; source = get_text ops m ''source'' in
          Inr (Some \<lparr>ln_baseline = bl_id b, ln_execution = execution, ln_profile = vp_profile_id profile,
            ln_profile_version = vp_profile_version profile, ln_metric = vp_metric profile,
            ln_value = value, ln_observed_at = observed_at, ln_provider = source,
            ln_capability = vp_source_capability profile,
            ln_provenance = observation_provenance ops b action target profile (nd_tenant d) source
              execution observed_at value\<rparr>))))"

definition verification_record ::
  "node_deps \<Rightarrow> action_row \<Rightarrow> lineage option \<Rightarrow> nat \<Rightarrow> string \<Rightarrow> string \<Rightarrow> VerificationVerdict \<Rightarrow> arg_map \<Rightarrow> arg_map \<Rightarrow>
   rat option \<Rightarrow> int \<Rightarrow> int \<Rightarrow> string \<Rightarrow> verification_row" where
  "verification_record d action lin attempt key criteria_hash verdict observed baseline margin opened
       judged_at new_id =
     \<lparr>ve_id = new_id, ve_tenant = nd_tenant d, ve_action = ac_id action,
      ve_baseline = map_option ln_baseline lin, ve_execution = map_option ln_execution lin,
      ve_profile = map_option ln_profile lin, ve_profile_version = map_option ln_profile_version lin,
      ve_metric = map_option ln_metric lin, ve_value = map_option ln_value lin,
      ve_observed_at = map_option ln_observed_at lin, ve_provider = map_option ln_provider lin,
      ve_capability = map_option ln_capability lin, ve_provenance = map_option ln_provenance lin,
      ve_attempt = attempt, ve_callback_key = key, ve_criteria_hash = criteria_hash,
      ve_verdict = verdict, ve_observed = observed, ve_baseline_json = baseline, ve_margin = margin,
      ve_window_start = opened, ve_window_end = judged_at, ve_verified_at = judged_at\<rparr>"

text \<open>The unique and check constraints of \<open>verification\<close>; \<open>lineage_of\<close> covers all-or-none.\<close>

definition verification_checks :: "verification_row list \<Rightarrow> verification_row \<Rightarrow> bool" where
  "verification_checks rows v \<longleftrightarrow>
     (\<forall>u \<in> set rows. ve_tenant u = ve_tenant v \<longrightarrow>
        ve_callback_key u \<noteq> ve_callback_key v \<and>
        \<not> (ve_action u = ve_action v \<and> ve_attempt u = ve_attempt v) \<and>
        \<not> (ve_execution v \<noteq> None \<and> ve_execution u = ve_execution v)) \<and>
     1 \<le> ve_attempt v \<and> ve_window_start v \<le> ve_window_end v \<and>
     (case ve_profile_version v of None \<Rightarrow> True | Some n \<Rightarrow> 0 < n)"

definition insert_verification :: "verification_row \<Rightarrow> unit step" where
  "insert_verification v w =
     (if verification_checks (rw_verifications w) v
      then (Inr (), w\<lparr>rw_verifications := rw_verifications w @ [v]\<rparr>) else (Inl IntegrityError, w))"

definition verdict_status :: "VerificationVerdict \<Rightarrow> RemediationActionStatus" where
  "verdict_status v =
     (case v of
        VerificationVerdict.VERIFIED \<Rightarrow> RemediationActionStatus.VERIFIED
      | VerificationVerdict.NOT_VERIFIED \<Rightarrow> RemediationActionStatus.NOT_VERIFIED
      | VerificationVerdict.INCONCLUSIVE \<Rightarrow> RemediationActionStatus.INCONCLUSIVE)"

definition verdict_audit :: "VerificationVerdict \<Rightarrow> string" where
  "verdict_audit v =
     (case v of
        VerificationVerdict.VERIFIED \<Rightarrow> ''succeeded''
      | VerificationVerdict.NOT_VERIFIED \<Rightarrow> ''failed''
      | VerificationVerdict.INCONCLUSIVE \<Rightarrow> ''recorded'')"

definition verdict_route :: "VerificationVerdict \<Rightarrow> IncidentStatus \<times> string \<times> TerminationReason option" where
  "verdict_route v =
     (case v of
        VerificationVerdict.VERIFIED \<Rightarrow>
          (IncidentStatus.RESOLVED, ''verification confirmed the symptoms resolved'',
           Some TerminationReason.SUCCESS)
      | VerificationVerdict.NOT_VERIFIED \<Rightarrow>
          (IncidentStatus.INVESTIGATING, ''verification found the criteria not met; investigation resumes'', None)
      | VerificationVerdict.INCONCLUSIVE \<Rightarrow>
          (IncidentStatus.ESCALATED, ''verification could not reach a verdict; escalated rather than assumed'',
           Some TerminationReason.HUMAN_ESCALATION))"

text \<open>\<open>int(criteria.get("window_seconds", 300))\<close>; registered criteria hold a number there.\<close>

definition window_seconds_of :: "arg_map \<Rightarrow> (py_error, int) result" where
  "window_seconds_of criteria =
     (case map_of criteria ''window_seconds'' of
        None \<Rightarrow> Inr 300
      | Some (PInt n) \<Rightarrow> Inr n
      | Some (PFloat r) \<Rightarrow> Inr (if 0 \<le> r then \<lfloor>r\<rfloor> else - \<lfloor>- r\<rfloor>)
      | _ \<Rightarrow> Inl TypeError)"

definition conclude ::
  "node_deps \<Rightarrow> node_inputs \<Rightarrow> action_row \<Rightarrow> verification_row \<Rightarrow> node_update step" where
  "conclude d inp action v =
     (case verdict_route (ve_verdict v) of (target, reason, termination_reason) \<Rightarrow>
      sthen (insert_verification v) (\<lambda>_.
      sthen (smodify (update_actions (assign_status (nd_tenant d) (ac_id action)
               (verdict_status (ve_verdict v))))) (\<lambda>_.
      sthen (record_audit d AuditEventType.VERIFICATION_RECORDED (verdict_audit (ve_verdict v))
               (ac_id action)) (\<lambda>_.
      sthen (load_incident d) (\<lambda>_.
      sthen (run_transition d NodeId.G10_VERIFIER target ActorType.SYSTEM None termination_reason
               (ni_clock inp 420) (ni_ids inp 420)) (\<lambda>_.
      sthen (action_event d NodeId.G10_VERIFIER IncidentEventType.VERIFICATION_RESULT ActorType.SYSTEM
               (ac_id action)
               [''action_id'' \<mapsto> Some (ac_id action),
                ''verdict'' \<mapsto> Some (VerificationVerdict_value (ve_verdict v))]
               (Some (nat_digits (ve_attempt v))) (ni_clock inp 421) (ni_ids inp 421)) (\<lambda>_.
      return_update G10_VERIFIER
        [(''phase'', UText ''terminated''),
         (''verification'', UVerification \<lparr>vf_verification = ve_id v, vf_attempt = ve_attempt v,
            vf_verdict = ve_verdict v, vf_margin = ve_margin v\<rparr>),
         (''terminated'', UFlag True), (''termination_reason'', UText reason),
         (''target_incident_status'', UText (IncidentStatus_value target))])))))))"

text \<open>The number of verifications of the action so far, plus one.\<close>

definition next_attempt :: "node_deps \<Rightarrow> action_row \<Rightarrow> remediation_world \<Rightarrow> nat" where
  "next_attempt d action w =
     1 + length (filter (\<lambda>v. ve_tenant v = nd_tenant d \<and> ve_action v = ac_id action) (rw_verifications w))"

definition criteria_digest :: "node_deps \<Rightarrow> action_row \<Rightarrow> (py_error, string) result" where
  "criteria_digest d action =
     action_version_hash (br_keys (nd_broker d)) (ac_id action) ''verification_criteria'' ''1''
       (ac_criteria action) [] [] (RiskTier_value (ac_risk_tier action))"

definition verify_settled ::
  "trust_ops \<Rightarrow> node_deps \<Rightarrow> node_inputs \<Rightarrow> VerificationProfile \<Rightarrow> baseline_row \<Rightarrow> action_row \<Rightarrow> int \<Rightarrow> target_row \<Rightarrow>
   node_update step" where
  "verify_settled ops d inp profile b action executed_at target =
     sthen (sread (\<lambda>w. Inr (next_attempt d action w))) (\<lambda>attempt.
     sthen (slift (criteria_digest d action)) (\<lambda>criteria_hash.
     sthen (if criteria_hash \<noteq> ac_criteria_hash action
            then sreturn (VerificationVerdict.INCONCLUSIVE, [], None)
            else evaluate_outcome ops d inp profile (ac_criteria action) b action executed_at target)
       (\<lambda>(verdict, observed, margin).
     let judged_at = ni_clock inp 412 in
     sthen (slift (window_seconds_of (ac_criteria action))) (\<lambda>seconds.
     sthen (slift (lineage_columns ops d profile b action target observed)) (\<lambda>lin.
     sthen (slift (verification_callback_key (br_keys (nd_broker d)) (nd_tenant d) (ac_id action)
              (int attempt))) (\<lambda>key.
     conclude d inp action
       (verification_record d action lin attempt key criteria_hash verdict observed
         (baseline_json ops b) margin (judged_at - microseconds seconds) judged_at (ni_ids inp 412))))))))"

section \<open>The node\<close>

definition verifier ::
  "trust_ops \<Rightarrow> node_deps \<Rightarrow> node_inputs \<Rightarrow> RemediationActionRef \<Rightarrow> node_update step" where
  "verifier ops d inp ref =
     sthen (find_run_action d (rf_action ref)) (\<lambda>action.
     sthen (slift (andThen registry_remediation_full (\<lambda>r. by_name r (ac_tool_name action)))) (\<lambda>descriptor.
     sthen (slift (profile_for_criteria (ac_tool_name action) (ac_criteria action))) (\<lambda>profile.
     sthen (sread (\<lambda>w. scalar_one (filter (\<lambda>t. tg_id t = ac_target action) (rd_targets (rw_db w))))) (\<lambda>target.
     sthen (sread (\<lambda>w. Inr (List.find (\<lambda>b. bl_action b = ac_id action) (rw_baselines w)))) (\<lambda>baseline.
     case baseline of
       None \<Rightarrow>
         if ac_executed_at action \<noteq> None then missing_baseline d inp
         else capture_baseline ops d inp profile action target (td_capability descriptor)
     | Some b \<Rightarrow>
         (case ac_executed_at action of
            None \<Rightarrow> return_update G10_VERIFIER (baseline_update action (td_capability descriptor))
          | Some executed_at \<Rightarrow>
              if ni_clock inp 403 < executed_at + microseconds (td_settling_seconds descriptor)
              then return_update G10_VERIFIER
                [(''phase'', UText ''awaiting_settling''), (''terminated'', UFlag False)]
              else verify_settled ops d inp profile b action executed_at target))))))"

end
