(* ===== verification/Step_Frame.thy ===== *)
theory Step_Frame
  imports Remediation_World
begin

text \<open>
  Reasoning about steps: \<open>swp m P w\<close> says that \<open>P\<close> holds of every value and world with which
  \<open>m\<close> returns from \<open>w\<close>; \<open>log_frame\<close> is the interface of a relation on worlds that survives
  any change of the event log, and \<open>step_frame\<close> of one that also survives updates of action
  rows. The statements every node issues are proved framed once, inside the locales.
\<close>

section \<open>What a step returns\<close>

definition swp :: "'a step \<Rightarrow> ('a \<Rightarrow> remediation_world \<Rightarrow> bool) \<Rightarrow> remediation_world \<Rightarrow> bool" where
  "swp m P w \<longleftrightarrow> (\<forall>x w'. m w = (Inr x, w') \<longrightarrow> P x w')"

lemma swpI: "(\<And>x w'. m w = (Inr x, w') \<Longrightarrow> P x w') \<Longrightarrow> swp m P w"
  by (simp add: swp_def)

lemma swpD: "swp m P w \<Longrightarrow> m w = (Inr x, w') \<Longrightarrow> P x w'"
  by (simp add: swp_def)

lemma swp_mono: "swp m P w \<Longrightarrow> (\<And>x w'. P x w' \<Longrightarrow> Q x w') \<Longrightarrow> swp m Q w"
  by (auto simp: swp_def)

lemma swp_then: "swp (sthen m f) P w \<longleftrightarrow> swp m (\<lambda>x. swp (f x) P) w"
  by (fastforce simp: swp_def sthen_def split: prod.splits sum.splits)

lemma swp_basic:
  "swp (sreturn x) P w \<longleftrightarrow> P x w"
  "swp (slift r) P w \<longleftrightarrow> (case r of Inl e \<Rightarrow> True | Inr x \<Rightarrow> P x w)"
  "swp (sread f) P w \<longleftrightarrow> (case f w of Inl e \<Rightarrow> True | Inr x \<Rightarrow> P x w)"
  by (auto simp: swp_def sreturn_def slift_def sread_def split: sum.splits)

lemma swp_modify: "swp (smodify g) P w \<longleftrightarrow> P () (g w)"
  by (simp add: swp_def smodify_def)

lemma swp_all: "(\<And>x w'. P x w') \<Longrightarrow> swp m P w"
  by (simp add: swp_def)

lemma swp_thenI: "(\<And>x w'. swp (f x) P w') \<Longrightarrow> swp (sthen m f) P w"
  by (simp add: swp_then swp_all)

lemma swp_return_update: "P u w \<Longrightarrow> swp (return_update c u) P w"
  by (auto simp: return_update_def swp_then swp_basic split: sum.splits)

lemmas swp_simps = swp_then swp_basic swp_modify

lemma sthen_cases:
  assumes "sthen m f w = (r, w')"
  obtains (raised) e where "m w = (Inl e, w')" "r = Inl e"
    | (went) x w1 where "m w = (Inr x, w1)" "f x w1 = (r, w')"
  using assms by (auto simp: sthen_def split: prod.splits sum.splits)

section \<open>Relations kept by steps\<close>

locale log_frame =
  fixes keeps :: "remediation_world \<Rightarrow> remediation_world \<Rightarrow> bool"
  assumes keeps_refl: "keeps w w"
    and keeps_trans: "keeps w w' \<Longrightarrow> keeps w' w'' \<Longrightarrow> keeps w w''"
    and keeps_log: "keeps w (w\<lparr>rw_log := log'\<rparr>)"
begin

definition framed :: "'a step \<Rightarrow> bool" where
  "framed m \<longleftrightarrow> (\<forall>w r w'. m w = (r, w') \<longrightarrow> keeps w w')"

lemma framedI: "(\<And>w r w'. m w = (r, w') \<Longrightarrow> keeps w w') \<Longrightarrow> framed m"
  by (simp add: framed_def)

lemma framedD: "framed m \<Longrightarrow> m w = (r, w') \<Longrightarrow> keeps w w'"
  by (simp add: framed_def)

lemma framed_swp: "framed m \<Longrightarrow> swp m (\<lambda>x w'. keeps w w') w"
  by (auto simp: swp_def framed_def)

lemma framed_basic: "framed (sreturn x)" "framed (slift y)" "framed (sread f)"
  by (auto simp: framed_def sreturn_def slift_def sread_def keeps_refl)

lemma framed_then:
  assumes "framed m" and "\<And>x. framed (f x)"
  shows "framed (sthen m f)"
  unfolding framed_def
proof (intro allI impI)
  fix w r w'
  assume "sthen m f w = (r, w')"
  then show "keeps w w'"
  proof (cases rule: sthen_cases)
    case (raised e)
    then show ?thesis using assms(1) framedD by blast
  next
    case (went x w1)
    show ?thesis by (rule keeps_trans [OF framedD [OF assms(1) went(1)] framedD [OF assms(2) went(2)]])
  qed
qed

lemma framed_if: "framed m \<Longrightarrow> framed m' \<Longrightarrow> framed (if c then m else m')"
  by simp

lemma framed_option:
  "framed m \<Longrightarrow> (\<And>x. framed (f x)) \<Longrightarrow> framed (case y of None \<Rightarrow> m | Some x \<Rightarrow> f x)"
  by (cases y) auto

lemma framed_log:
  "framed (load_incident d)" "framed (find_run_action d i)" "framed (move_incident d a now eid)"
  "framed (append_event d e now eid)"
  by (auto simp: framed_def load_incident_def find_run_action_def sread_def move_incident_def
      append_event_def keeps_refl keeps_log split: sum.splits)

lemma framed_events:
  "framed (run_transition d node target actor actor_id reason now eid)"
  "framed (action_event d node type actor i p disc now eid)"
  "framed (return_update c u)"
  by (auto simp: run_transition_def action_event_def return_update_def
      intro!: framed_then framed_log framed_basic)

lemmas framed_intros = framed_then framed_if framed_option framed_log framed_events framed_basic

end

locale step_frame = log_frame +
  assumes keeps_actions: "keeps w (update_actions f w)"
begin

lemma framed_actions: "framed (smodify (update_actions g))"
  by (auto simp: framed_def smodify_def keeps_actions)

end

section \<open>A broker call leaves the remediation tables alone\<close>

lemma audit_keeps_remediation [simp]: "bk_remediation (bs_db (add_audit x st)) = bk_remediation (bs_db st)"
  by (simp add: add_audit_def)

lemma refuse_remediation:
  "refuse b q f st = (r, st') \<Longrightarrow> bk_remediation (bs_db st') = bk_remediation (bs_db st)"
  "refuse_or_raise b q e st = (r, st') \<Longrightarrow> bk_remediation (bs_db st') = bk_remediation (bs_db st)"
  by (auto simp: refuse_def refuse_or_raise_def split: if_splits)

lemma dispatch_remediation:
  "dispatch b st q g p connector bound scope key ci = (r, st') \<Longrightarrow>
   bk_remediation (bs_db st') = bk_remediation (bs_db st)"
  by (auto simp: dispatch_def Let_def split: prod.splits sum.splits if_splits)

lemma claim_remediation: "claim_write b q d key st = Inr st' \<Longrightarrow> bs_db st' = bs_db st"
  by (auto simp: claim_write_def split: if_splits)

lemma invoke_bound_remediation:
  "invoke_bound b st q g p connector bound scope ci = (r, st') \<Longrightarrow>
   bk_remediation (bs_db st') = bk_remediation (bs_db st)"
  by (auto simp: invoke_bound_def Let_def split: sum.splits option.splits if_splits
      dest!: dispatch_remediation refuse_remediation(2) claim_remediation)

lemma invoke_remediation:
  assumes "invoke b st q c ci = (r, st')"
  shows "bk_remediation (bs_db st') = bk_remediation (bs_db st)"
proof -
  obtain a st1 where au: "authorize b st q c (ci_now ci) = (a, st1)" by fastforce
  have st1: "bs_db st1 = bs_db st" using authorize_frame [OF au] by simp
  show ?thesis
    using assms au st1
    by (auto simp: invoke_def invoke_granted_def Let_def split: sum.splits if_splits prod.splits
        dest!: invoke_bound_remediation refuse_remediation)
qed

definition same_tables :: "remediation_world \<Rightarrow> remediation_world \<Rightarrow> bool" where
  "same_tables w w' \<longleftrightarrow> rw_db w' = rw_db w"

interpretation tables: log_frame same_tables
  by unfold_locales (simp_all add: same_tables_def rw_db_def)

lemma call_keeps_tables: "tables.framed (call_broker d c q ci)"
  by (rule tables.framedI)
    (auto simp: call_broker_def same_tables_def rw_db_def split: prod.splits dest: invoke_remediation)

lemma audit_keeps_tables: "tables.framed (record_audit d event outcome action)"
  by (rule tables.framedI) (auto simp: record_audit_def same_tables_def rw_db_def split: if_splits)

text \<open>A step that keeps the tables is followed by a step that sees the same rows.\<close>

lemma swp_tables:
  "tables.framed m \<Longrightarrow> (\<And>x w'. rw_db w' = rw_db w \<Longrightarrow> P x w') \<Longrightarrow> swp m P w"
  by (auto simp: swp_def same_tables_def dest: tables.framedD)

lemma swp_then_tables:
  "tables.framed m \<Longrightarrow> (\<And>x w'. rw_db w' = rw_db w \<Longrightarrow> swp (f x) P w') \<Longrightarrow> swp (sthen m f) P w"
  unfolding swp_then by (rule swp_tables)

end
