(* ===== verification/Executor_Run.thy ===== *)
theory Executor_Run
  imports Remediation_Executor Step_Frame
begin

text \<open>
  What holds of the executor node over any sequence of its passes, some of them rolled back by
  a crash: one action is claimed for dispatch at most once, so its write is sent at most once,
  whatever its arguments and key; and an interrupted dispatch is closed as clean only on
  evidence that nothing was applied.
\<close>

section \<open>The executor keeps what its statements keep\<close>

context step_frame
begin

lemma framed_routes:
  "framed (fail_closed d inp action reason target s emit)"
  "framed (route_success d inp action ref)"
  unfolding fail_closed_def route_success_def
  by (auto intro!: framed_then framed_log framed_events framed_basic framed_actions)

lemma framed_reads:
  assumes "\<And>i c. framed (executor_read d inp i c)"
  shows "framed (drifted_precondition d inp action i names)" and "framed (reconcile d inp i action)"
proof -
  show "framed (drifted_precondition d inp action i names)"
    by (induction names arbitrary: i)
      (auto intro!: framed_then framed_basic assms split: option.splits)
  show "framed (reconcile d inp i action)"
    unfolding reconcile_def by (auto intro!: framed_then framed_basic assms split: option.splits)
qed

lemma framed_recovery:
  assumes "\<And>i c. framed (executor_read d inp i c)"
  shows "framed (recover_interrupted d inp action ref evidence)"
    and "framed (after_write d inp action ref res)"
  unfolding recover_interrupted_def after_write_def Let_def
  by (auto intro!: framed_then framed_basic framed_log framed_routes framed_reads assms)

end

section \<open>The claims of an action\<close>

definition action_claims :: "string \<Rightarrow> string \<Rightarrow> remediation_world \<Rightarrow> audit_row list" where
  "action_claims tenant action w =
     filter (\<lambda>x. au_tenant x = tenant \<and> au_event x = AuditEventType.TOOL_AUTHORIZATION_EVALUATED \<and>
        au_target_type x = ''remediation_action'' \<and> au_target_id x = action \<and> au_dispatch_claimed x)
       (bs_claims (rw_broker w))"

lemma claims_exist: "dispatch_claim_exists (bs_claims (rw_broker w)) tenant action \<longleftrightarrow>
    action_claims tenant action w \<noteq> []"
  by (auto simp: dispatch_claim_exists_def action_claims_def filter_empty_conv)

definition same_claims :: "string \<Rightarrow> string \<Rightarrow> remediation_world \<Rightarrow> remediation_world \<Rightarrow> bool" where
  "same_claims tenant action w w' \<longleftrightarrow> action_claims tenant action w' = action_claims tenant action w"

interpretation claims: step_frame "same_claims tenant action" for tenant action
  by unfold_locales
    (auto simp: same_claims_def action_claims_def update_actions_def with_db_def)

text \<open>A broker call adds at most one claim, for the action it names.\<close>

lemma invoke_claims:
  assumes "invoke b st q c ci = (r, st')"
  shows "bs_claims st' = bs_claims st \<or> (\<exists>(d :: ToolDescriptor) key. bs_claims st' = bs_claims st @ [claim_row b q d key])"
  using invoke_cases [OF assms]
proof
  assume "quiet b st q r st'"
  then show ?thesis by (simp add: quiet_def)
next
  assume "sent b st q c ci r st'"
  then obtain g st1 key st2 p connector scope bound where
      a: "authorize b st q c (ci_now ci) = (Inr g, st1)"
    and cl: "if td_risk_tier (gc_descriptor g) = RiskTier.RO then st2 = st1
         else claim_write b q (gc_descriptor g) key st1 = Inr st2"
    and d: "dispatched b st2 q g p connector bound scope key ci r st'"
    unfolding sent_def by blast
  have "bs_claims st' = bs_claims st2" "bs_claims st1 = bs_claims st"
    using d authorize_frame [OF a] by (auto simp: dispatched_def)
  moreover have "bs_claims st2 = bs_claims st1 \<or>
      bs_claims st2 = bs_claims st1 @ [claim_row b q (gc_descriptor g) key]"
    using cl by (auto simp: claim_write_def split: if_splits)
  ultimately show ?thesis by metis
qed

lemma claim_row_target:
  "au_target_type (claim_row b q d key) = ''remediation_action'' \<Longrightarrow>
   au_target_id (claim_row b q d key) = action_text (cr_action q)"
  by (auto simp: claim_row_def Let_def split: if_splits)

lemma call_broker_claims:
  assumes "call_broker d c q ci w = (r, w')"
  shows "length (action_claims tenant action w') \<le> Suc (length (action_claims tenant action w)) \<and>
    (action_text (cr_action q) \<noteq> action \<longrightarrow> same_claims tenant action w w')"
proof -
  obtain st where inv: "invoke (nd_broker d) (rw_broker w) q c ci = (r, st)"
    and w': "w' = w\<lparr>rw_broker := st\<rparr>"
    using assms by (auto simp: call_broker_def split: prod.splits)
  from invoke_claims [OF inv] show ?thesis
    using claim_row_target [of "nd_broker d" q]
    by (auto simp: same_claims_def action_claims_def w')
qed

lemma read_keeps_claims:
  "action \<noteq> ''None'' \<Longrightarrow> claims.framed tenant action (executor_read d inp i c)"
  unfolding claims.framed_def executor_read_def
  using call_broker_claims by (fastforce simp: action_text_def)

lemma intent_keeps_claims: "claims.framed tenant action (commit_intent d i)"
  by (auto simp: claims.framed_def commit_intent_def same_claims_def action_claims_def with_db_def
      record_execution_intent_def)

section \<open>One pass\<close>

text \<open>A step that may add one claim, for \<open>target\<close> only.\<close>

definition adds_one :: "string \<Rightarrow> string \<Rightarrow> string \<Rightarrow> 'a step \<Rightarrow> bool" where
  "adds_one tenant a target m \<longleftrightarrow>
     (\<forall>w r w'. m w = (r, w') \<longrightarrow>
        length (action_claims tenant a w') \<le> Suc (length (action_claims tenant a w)) \<and>
        (target \<noteq> a \<longrightarrow> same_claims tenant a w w'))"

lemma adds_one_framed: "claims.framed tenant a m \<Longrightarrow> adds_one tenant a target m"
  by (fastforce simp: adds_one_def same_claims_def dest: claims.framedD)

lemma adds_one_after:
  assumes "claims.framed tenant a m" and "\<And>x. adds_one tenant a target (f x)"
  shows "adds_one tenant a target (sthen m f)"
  unfolding adds_one_def
proof (intro allI impI)
  fix w r w'
  assume "sthen m f w = (r, w')"
  then show "length (action_claims tenant a w') \<le> Suc (length (action_claims tenant a w)) \<and>
      (target \<noteq> a \<longrightarrow> same_claims tenant a w w')"
  proof (cases rule: sthen_cases)
    case (raised e)
    then show ?thesis using adds_one_framed [OF assms(1)] unfolding adds_one_def by blast
  next
    case (went x w1)
    have "same_claims tenant a w w1" using claims.framedD [OF assms(1) went(1)] .
    then show ?thesis using assms(2) [of x] went(2) by (fastforce simp: adds_one_def same_claims_def)
  qed
qed

lemma adds_one_before:
  assumes "adds_one tenant a target m" and "\<And>x. claims.framed tenant a (f x)"
  shows "adds_one tenant a target (sthen m f)"
  unfolding adds_one_def
proof (intro allI impI)
  fix w r w'
  assume "sthen m f w = (r, w')"
  then show "length (action_claims tenant a w') \<le> Suc (length (action_claims tenant a w)) \<and>
      (target \<noteq> a \<longrightarrow> same_claims tenant a w w')"
  proof (cases rule: sthen_cases)
    case (raised e)
    then show ?thesis using assms(1) unfolding adds_one_def by blast
  next
    case (went x w1)
    have "same_claims tenant a w1 w'" using claims.framedD [OF assms(2) went(2)] .
    then show ?thesis using assms(1) went(1) by (fastforce simp: adds_one_def same_claims_def)
  qed
qed

lemma adds_one_call:
  "adds_one tenant a (ac_id action) (call_broker d c (write_request d action descriptor) ci)"
  unfolding adds_one_def
proof (intro allI impI)
  fix w r w'
  assume "call_broker d c (write_request d action descriptor) ci w = (r, w')"
  from call_broker_claims [OF this, of tenant a]
  show "length (action_claims tenant a w') \<le> Suc (length (action_claims tenant a w)) \<and>
      (ac_id action \<noteq> a \<longrightarrow> same_claims tenant a w w')"
    by (simp add: write_request_def action_text_def)
qed

lemma adds_one_if:
  "adds_one tenant a t m \<Longrightarrow> adds_one tenant a t m' \<Longrightarrow> adds_one tenant a t (if c then m else m')"
  by simp

lemma adds_one_option:
  "adds_one tenant a t m \<Longrightarrow> (\<And>x. adds_one tenant a t (f x)) \<Longrightarrow>
   adds_one tenant a t (case y of None \<Rightarrow> m | Some x \<Rightarrow> f x)"
  by (cases y) auto

lemma adds_one_fail: "adds_one tenant a t (fail_closed d inp action reason target s emit)"
  by (intro adds_one_framed claims.framed_routes)

lemma dispatch_adds_one:
  assumes "a \<noteq> ''None''"
  shows "adds_one tenant a (ac_id action) (dispatch_action ops d inp action ref descriptor)"
proof -
  note reads = read_keeps_claims [OF assms]
  have send: "adds_one tenant a (ac_id action) (send_write d inp action ref descriptor)"
    unfolding send_write_def
    by (intro adds_one_after adds_one_before adds_one_call claims.framed_log claims.framed_events
        claims.framed_recovery(2) reads)
  show ?thesis
    unfolding dispatch_action_def
    by (intro adds_one_after adds_one_if adds_one_option send adds_one_fail claims.framed_basic
        claims.framed_reads reads intent_keeps_claims)
qed

text \<open>A pass over an action that has a claim adds none; any pass adds at most one, for its action.\<close>

lemma executor_pass_claims:
  assumes "remediation_executor ops d inp ref w = (r, w')" and "a \<noteq> ''None''"
  shows "length (action_claims (nd_tenant d) a w') \<le> Suc (length (action_claims (nd_tenant d) a w)) \<and>
    (action_claims (nd_tenant d) a w \<noteq> [] \<or> rf_action ref \<noteq> a \<longrightarrow>
       same_claims (nd_tenant d) a w w')"
  using assms(1) unfolding remediation_executor_def
proof (cases rule: sthen_cases)
  case (raised e)
  then show ?thesis using claims.framedD [OF claims.framed_log(2)] by (fastforce simp: same_claims_def)
next
  case (went action w1)
  have w1: "w1 = w" and id: "ac_id action = rf_action ref"
    using went(1) filter_singleton
    by (fastforce simp: find_run_action_def sread_def query_simps)+
  show ?thesis
    using went(2) unfolding w1
  proof (cases rule: sthen_cases)
    case (raised e)
    then show ?thesis by (simp add: slift_def same_claims_def)
  next
    case (went descriptor w2)
    have w2: "w2 = w" using went(1) by (simp add: slift_def)
    let ?v = "dispatch_evidence (rw_broker w) (nd_tenant d) action"
    consider (replay) u where "return_update G9_REMEDIATION_EXECUTOR u w = (r, w')"
      | (recover) "evidence_interrupted ?v" "recover_interrupted d inp action ref ?v w = (r, w')"
      | (send) "\<not> evidence_interrupted ?v" "dispatch_action ops d inp action ref descriptor w = (r, w')"
      using went(2) unfolding w2 by (auto simp: sthen_def sread_def split: if_splits)
    then show ?thesis
    proof cases
      case replay
      then show ?thesis using claims.framedD [OF claims.framed_events(3) replay]
        by (simp add: same_claims_def)
    next
      case recover
      have "same_claims (nd_tenant d) a w w'"
        using claims.framedD [OF claims.framed_recovery(1) recover(2)] read_keeps_claims [OF assms(2)]
        by blast
      then show ?thesis by (simp add: same_claims_def)
    next
      case send
      have "\<not> dispatch_claim_exists (bs_claims (rw_broker w)) (nd_tenant d) (ac_id action)"
        using send(1) dispatch_claim_mono [of "bs_claims (rw_broker w)"]
        by (auto simp: evidence_interrupted_def dispatch_evidence_def)
      then have none: "action_claims (nd_tenant d) (rf_action ref) w = []"
        using claims_exist id by metis
      from dispatch_adds_one [OF assms(2), of "nd_tenant d" action ops d inp ref descriptor] send(2)
      show ?thesis unfolding adds_one_def using none id by (metis (no_types))
    qed
  qed
qed

section \<open>The writes of an action\<close>

text \<open>The writes on the wire: no key twice, and each under a claim of the tenant.\<close>

definition writes_claimed :: "string \<Rightarrow> remediation_world \<Rightarrow> bool" where
  "writes_claimed tenant w \<longleftrightarrow>
     distinct (write_keys (bs_calls (rw_broker w))) \<and>
     list_all (claimed tenant (bs_claims (rw_broker w))) (write_keys (bs_calls (rw_broker w)))"

definition keeps_writes :: "string \<Rightarrow> remediation_world \<Rightarrow> remediation_world \<Rightarrow> bool" where
  "keeps_writes tenant w w' \<longleftrightarrow> (writes_claimed tenant w \<longrightarrow> writes_claimed tenant w')"

interpretation backed: step_frame "keeps_writes tenant" for tenant
  by unfold_locales (auto simp: keeps_writes_def writes_claimed_def update_actions_def with_db_def)

lemma call_keeps_writes:
  assumes "is_tenant (br_scope (nd_broker d)) = tenant"
  shows "backed.framed tenant (call_broker d c q ci)"
proof (rule backed.framedI)
  fix w r w'
  assume "call_broker d c q ci w = (r, w')"
  then obtain st where inv: "invoke (nd_broker d) (rw_broker w) q c ci = (r, st)"
    and w': "w' = w\<lparr>rw_broker := st\<rparr>"
    by (auto simp: call_broker_def split: prod.splits)
  from invoke_cases [OF inv] show "keeps_writes tenant w w'"
  proof
    assume "quiet (nd_broker d) (rw_broker w) q r st"
    then show ?thesis by (simp add: keeps_writes_def writes_claimed_def w' quiet_def)
  next
    assume "sent (nd_broker d) (rw_broker w) q c ci r st"
    from sent_effect [OF this] obtain key tier n where
        e: "bs_calls st = bs_calls (rw_broker w) @ calls_made key tier n"
          "set (bs_claims (rw_broker w)) \<subseteq> set (bs_claims st)"
          "tier \<noteq> RiskTier.RO \<longrightarrow> \<not> claimed tenant (bs_claims (rw_broker w)) key \<and>
             claimed tenant (bs_claims st) key"
      using assms by blast
    show ?thesis
      using e claimed_mono [OF e(2)]
      by (auto simp: keeps_writes_def writes_claimed_def w' write_keys_append write_keys_made list_all_iff)
  qed
qed

lemma executor_keeps_writes:
  assumes "is_tenant (br_scope (nd_broker d)) = tenant"
  shows "backed.framed tenant (remediation_executor ops d inp ref)"
proof -
  note call = call_keeps_writes [OF assms]
  have read: "backed.framed tenant (executor_read d inp i c)" for i c
    unfolding executor_read_def by (rule call)
  have intent: "backed.framed tenant (commit_intent d i)" for i
    by (rule backed.framedI)
      (auto simp: commit_intent_def keeps_writes_def writes_claimed_def with_db_def split: prod.splits if_splits)
  note parts = backed.framed_intros backed.framed_routes backed.framed_reads backed.framed_recovery
  have send: "backed.framed tenant (send_write d inp a ref t)" for a t
    unfolding send_write_def by (intro parts call read)
  have "backed.framed tenant (dispatch_action ops d inp a ref t)" for a t
    unfolding dispatch_action_def by (intro parts send read intent)
  then show ?thesis
    unfolding remediation_executor_def by (intro parts read)
qed

definition action_writes :: "string \<Rightarrow> string \<Rightarrow> remediation_world \<Rightarrow> string list" where
  "action_writes tenant action w =
     filter (\<lambda>k. list_ex (\<lambda>x. au_effect_key x = Some k) (action_claims tenant action w))
       (write_keys (bs_calls (rw_broker w)))"

lemma one_claim_one_write:
  assumes "writes_claimed tenant w" "length (action_claims tenant action w) \<le> 1"
  shows "length (action_writes tenant action w) \<le> 1"
proof -
  have "\<exists>k. set (action_writes tenant action w) \<subseteq> {k}"
    using assms(2)
    by (cases "action_claims tenant action w"; cases "au_effect_key (hd (action_claims tenant action w))")
      (auto simp: action_writes_def)
  moreover have "distinct (action_writes tenant action w)"
    using assms(1) by (simp add: action_writes_def writes_claimed_def)
  ultimately show ?thesis
    by (metis card_mono card.empty card_insert_disjoint distinct_card empty_iff finite.emptyI finite.insertI One_nat_def)
qed

section \<open>Any sequence of passes\<close>

text \<open>
  A step of the deployment for one tenant: an executor pass over any action with a broker of the
  tenant, committed or rolled back, or anything else that leaves the claims and the writes alone.
\<close>

inductive executor_step :: "string \<Rightarrow> remediation_world \<Rightarrow> remediation_world \<Rightarrow> bool" for tenant where
  committed: "nd_tenant d = tenant \<Longrightarrow> is_tenant (br_scope (nd_broker d)) = tenant \<Longrightarrow>
    remediation_executor ops d inp ref w = (r, w') \<Longrightarrow> executor_step tenant w w'"
| crashed: "nd_tenant d = tenant \<Longrightarrow> is_tenant (br_scope (nd_broker d)) = tenant \<Longrightarrow>
    remediation_executor ops d inp ref w = (r, w') \<Longrightarrow> executor_step tenant w (rolled_back w w')"
| elsewhere: "bs_claims (rw_broker w') = bs_claims (rw_broker w) \<Longrightarrow>
    write_keys (bs_calls (rw_broker w')) = write_keys (bs_calls (rw_broker w)) \<Longrightarrow>
    executor_step tenant w w'"

lemma rolled_back_claims: "action_claims t a (rolled_back w0 w) = action_claims t a w"
  by (simp add: rolled_back_def Let_def action_claims_def)

lemma rolled_back_writes: "writes_claimed t (rolled_back w0 w) = writes_claimed t w"
  by (simp add: rolled_back_def Let_def writes_claimed_def)

lemma executor_step_claims:
  assumes "executor_step tenant w w'" and "a \<noteq> ''None''" and "length (action_claims tenant a w) \<le> 1"
  shows "length (action_claims tenant a w') \<le> 1"
proof -
  have pass: "length (action_claims tenant a w1) \<le> 1"
    if "nd_tenant d = tenant" "remediation_executor ops d inp ref w = (r, w1)" for d ops inp ref r w1
    using executor_pass_claims [OF that(2) assms(2)] assms(3) that(1)
    by (cases "action_claims tenant a w") (auto simp: same_claims_def)
  from assms(1) show ?thesis
  proof cases
    case (committed d ops inp ref r)
    then show ?thesis using pass by blast
  next
    case (crashed d ops inp ref r w1)
    then show ?thesis using pass by (simp add: rolled_back_claims)
  next
    case elsewhere
    then show ?thesis using assms(3) by (simp add: action_claims_def)
  qed
qed

lemma executor_step_writes:
  assumes "executor_step tenant w w'" and "writes_claimed tenant w"
  shows "writes_claimed tenant w'"
  using assms(1)
proof cases
  case (committed d ops inp ref r)
  show ?thesis
    using backed.framedD [OF executor_keeps_writes [OF committed(2)] committed(3)] assms(2)
    by (simp add: keeps_writes_def)
next
  case (crashed d ops inp ref r w1)
  then show ?thesis
    using backed.framedD [OF executor_keeps_writes [OF crashed(3)] crashed(4)] assms(2)
    by (simp add: keeps_writes_def rolled_back_writes)
next
  case elsewhere
  then show ?thesis using assms(2) by (simp add: writes_claimed_def)
qed

lemma executor_run_claims:
  assumes "(executor_step tenant)\<^sup>*\<^sup>* w w'" and "a \<noteq> ''None''"
    and "length (action_claims tenant a w) \<le> 1"
  shows "length (action_claims tenant a w') \<le> 1"
  using assms(1)
proof (induction rule: rtranclp_induct)
  case base
  show ?case by (rule assms(3))
next
  case (step w1 w2)
  from executor_step_claims [OF step.hyps(2) assms(2) step.IH] show ?case .
qed

lemma executor_run_writes:
  "(executor_step tenant)\<^sup>*\<^sup>* w w' \<Longrightarrow> writes_claimed tenant w \<Longrightarrow> writes_claimed tenant w'"
  by (induction rule: rtranclp_induct) (blast intro: executor_step_writes)+

end
