(* ===== verification/Remediation_Graph.thy ===== *)
theory Remediation_Graph
  imports Planner_Node Approval_Node Verifier_Node Executor_Run
begin

text \<open>
  The remediation graph, \<open>src/asic/orchestration/remediation/graph.py\<close>, over the state of
  \<open>contracts/remediation_state.py\<close>: five nodes, the routers after them, and the superstep loop that
  merges each node's update into the state, bounded by \<open>RECURSION_LIMIT\<close> as the graph library
  documents. A superstep that raises is rolled back. The lemmas: the executor sends a run on
  only with the action executed, the verifier routes back to it only before that, so every
  pass ends after at most six supersteps, far below the limit.
\<close>

section \<open>The state\<close>

record remediation_state =
  rs_phase :: string
  rs_action :: "RemediationActionRef option"
  rs_policy :: "PolicyDecisionRef option"
  rs_approval :: "ApprovalRef option"
  rs_verification :: "VerificationRef option"
  rs_baseline_captured :: bool
  rs_budget :: "BudgetSnapshot option"
  rs_failures :: "NodeFailureRef list"
  rs_terminated :: bool
  rs_reason :: "string option"
  rs_target_status :: "string option"

text \<open>One entry of an update; a key is set to what the entry holds.\<close>

fun apply_entry :: "string \<times> update_value \<Rightarrow> remediation_state \<Rightarrow> remediation_state" where
  "apply_entry (k, UAction a) s = s\<lparr>rs_action := Some a\<rparr>"
| "apply_entry (k, UPolicy p) s = s\<lparr>rs_policy := Some p\<rparr>"
| "apply_entry (k, UApproval a) s = s\<lparr>rs_approval := Some a\<rparr>"
| "apply_entry (k, UVerification v) s = s\<lparr>rs_verification := Some v\<rparr>"
| "apply_entry (k, UBudget b) s = s\<lparr>rs_budget := Some b\<rparr>"
| "apply_entry (k, UFailures fs) s = s\<lparr>rs_failures := fs\<rparr>"
| "apply_entry (k, UFlag b) s =
     (if k = ''terminated'' then s\<lparr>rs_terminated := b\<rparr> else s\<lparr>rs_baseline_captured := b\<rparr>)"
| "apply_entry (k, UText t) s =
     (if k = ''phase'' then s\<lparr>rs_phase := t\<rparr>
      else if k = ''termination_reason'' then s\<lparr>rs_reason := Some t\<rparr>
      else s\<lparr>rs_target_status := Some t\<rparr>)"
| "apply_entry (k, UNone) s =
     (if k = ''approval'' then s\<lparr>rs_approval := None\<rparr> else s\<lparr>rs_target_status := None\<rparr>)"

definition apply_update :: "node_update \<Rightarrow> remediation_state \<Rightarrow> remediation_state" where
  "apply_update u s = fold apply_entry u s"

section \<open>Nodes and routes\<close>

datatype graph_node = PLANNER | POLICY_GATE | APPROVAL_SERVICE | EXECUTOR | VERIFIER

definition RECURSION_LIMIT :: nat where "RECURSION_LIMIT = 25"

record graph_deps =
  gd_ops :: trust_ops
  gd_node :: node_deps
  gd_planner :: planner_deps

text \<open>Every node after the planner asserts that the state has an action.\<close>

definition on_action :: "remediation_state \<Rightarrow> (RemediationActionRef \<Rightarrow> node_update step) \<Rightarrow> node_update step" where
  "on_action s f = (case rs_action s of None \<Rightarrow> slift (Inl AssertionError) | Some ref \<Rightarrow> f ref)"

fun run_node :: "graph_deps \<Rightarrow> node_inputs \<Rightarrow> graph_node \<Rightarrow> remediation_state \<Rightarrow> node_update step" where
  "run_node g inp PLANNER s =
     remediation_planner (gd_ops g) (gd_node g) (gd_planner g) inp (rs_action s) (rs_budget s)"
| "run_node g inp POLICY_GATE s = on_action s (policy_gate (gd_node g) inp)"
| "run_node g inp APPROVAL_SERVICE s = on_action s (approval_service (gd_ops g) (gd_node g) inp)"
| "run_node g inp EXECUTOR s = on_action s (remediation_executor (gd_ops g) (gd_node g) inp)"
| "run_node g inp VERIFIER s = on_action s (verifier (gd_ops g) (gd_node g) inp)"

text \<open>The node after a node, \<open>None\<close> for the end of the graph.\<close>

fun route_after :: "graph_node \<Rightarrow> remediation_state \<Rightarrow> graph_node option" where
  "route_after PLANNER s = (if rs_terminated s then None else Some POLICY_GATE)"
| "route_after POLICY_GATE s =
     (if rs_terminated s then None
      else case rs_policy s of
        None \<Rightarrow> None
      | Some p \<Rightarrow>
          if pf_verdict p = PolicyVerdict.ALLOW then Some VERIFIER
          else if pf_verdict p = PolicyVerdict.REQUIRE_APPROVAL then Some APPROVAL_SERVICE
          else None)"
| "route_after APPROVAL_SERVICE s = (if rs_phase s = ''executing'' then Some VERIFIER else None)"
| "route_after EXECUTOR s = (if rs_terminated s then None else Some VERIFIER)"
| "route_after VERIFIER s = (if rs_phase s = ''baseline_captured'' then Some EXECUTOR else None)"

section \<open>The loop\<close>

text \<open>
  One superstep: the node runs in its unit of work, its update is merged; an exception rolls
  the unit of work back.
\<close>

definition superstep ::
  "graph_deps \<Rightarrow> node_inputs \<Rightarrow> graph_node \<Rightarrow> remediation_state \<Rightarrow> remediation_state step" where
  "superstep g inp n s w =
     (case run_node g inp n s w of
        (Inl e, w') \<Rightarrow> (Inl e, rolled_back w w')
      | (Inr u, w') \<Rightarrow> (Inr (apply_update u s), w'))"

text \<open>What a pass ends with; the list holds the nodes executed.\<close>

datatype drive_outcome =
    Finished "graph_node list" remediation_state
  | Raised py_error
  | Exhausted

fun visited :: "graph_node \<Rightarrow> drive_outcome \<Rightarrow> drive_outcome" where
  "visited n (Finished ns s) = Finished (n # ns) s"
| "visited n x = x"

text \<open>Superstep \<open>i\<close> draws on the inputs \<open>inp i\<close>.\<close>

fun drive ::
  "graph_deps \<Rightarrow> (nat \<Rightarrow> node_inputs) \<Rightarrow> nat \<Rightarrow> nat \<Rightarrow> graph_node \<Rightarrow> remediation_state \<Rightarrow>
   remediation_world \<Rightarrow> drive_outcome \<times> remediation_world" where
  "drive g inp i 0 n s w = (Exhausted, w)"
| "drive g inp i (Suc fuel) n s w =
     (case superstep g (inp i) n s w of
        (Inl e, w') \<Rightarrow> (Raised e, w')
      | (Inr s', w') \<Rightarrow>
          (case route_after n s' of
             None \<Rightarrow> (Finished [n] s', w')
           | Some n' \<Rightarrow>
               (case drive g inp (Suc i) fuel n' s' w' of (x, w'') \<Rightarrow> (visited n x, w''))))"

definition run_graph ::
  "graph_deps \<Rightarrow> (nat \<Rightarrow> node_inputs) \<Rightarrow> remediation_state \<Rightarrow> remediation_world \<Rightarrow>
   drive_outcome \<times> remediation_world" where
  "run_graph g inp s w = drive g inp 0 RECURSION_LIMIT PLANNER s w"

section \<open>Rows that were executed\<close>

definition executed :: "string \<Rightarrow> string \<Rightarrow> remediation_db \<Rightarrow> bool" where
  "executed tenant i db \<longleftrightarrow>
     (\<forall>a \<in> set (rd_actions db). ac_tenant a = tenant \<and> ac_id a = i \<longrightarrow> ac_executed_at a \<noteq> None)"

text \<open>An action that succeeded has its time of execution.\<close>

definition rows_executed :: "remediation_db \<Rightarrow> bool" where
  "rows_executed db \<longleftrightarrow>
     (\<forall>a \<in> set (rd_actions db). ac_status a = RemediationActionStatus.SUCCEEDED \<longrightarrow> ac_executed_at a \<noteq> None)"

definition keeps_executed :: "remediation_world \<Rightarrow> remediation_world \<Rightarrow> bool" where
  "keeps_executed w w' \<longleftrightarrow> (rows_executed (rw_db w) \<longrightarrow> rows_executed (rw_db w'))"

interpretation rows: log_frame keeps_executed
  by unfold_locales (simp_all add: keeps_executed_def rw_db_def)

lemma rw_db_simps [simp]:
  "rw_db (with_db db w) = db"
  "rd_actions (rw_db (update_actions f w)) = map f (rd_actions (rw_db w))"
  "rw_db (w\<lparr>rw_models := m\<rparr>) = rw_db w" "rw_db (w\<lparr>rw_baselines := b\<rparr>) = rw_db w"
  "rw_db (w\<lparr>rw_verifications := v\<rparr>) = rw_db w" "rw_db (w\<lparr>rw_log := l\<rparr>) = rw_db w"
  by (simp_all add: rw_db_def with_db_def update_actions_def)

lemma tables_rows: "tables.framed m \<Longrightarrow> rows.framed m"
  unfolding tables.framed_def rows.framed_def same_tables_def keeps_executed_def by metis

lemma rows_map:
  assumes "\<And>a. ac_status (f a) = RemediationActionStatus.SUCCEEDED \<Longrightarrow>
    ac_executed_at (f a) \<noteq> None \<or> ac_status a = RemediationActionStatus.SUCCEEDED \<and> ac_executed_at (f a) = ac_executed_at a"
  shows "rows.framed (smodify (update_actions f))"
  using assms by (fastforce simp: rows.framed_def smodify_def keeps_executed_def rows_executed_def)

lemma rows_status:
  "s \<noteq> RemediationActionStatus.SUCCEEDED \<Longrightarrow> rows.framed (smodify (update_actions (assign_status t i s)))"
  "rows.framed (smodify (update_actions (store_snapshot t i m)))"
  "rows.framed (smodify (update_actions (mark_succeeded t i instant_of)))"
  by (rule rows_map; simp add: assign_status_def store_snapshot_def mark_succeeded_def split: if_splits)+

lemma rows_same_actions:
  assumes "\<And>w r w'. m w = (r, w') \<Longrightarrow> rd_actions (rw_db w') = rd_actions (rw_db w)"
  shows "rows.framed m"
  by (rule rows.framedI) (simp add: assms keeps_executed_def rows_executed_def)

lemma rows_inserts:
  "rows.framed (insert_baseline b)" "rows.framed (insert_verification v)"
  "rows.framed (insert_policy p)" "rows.framed (insert_approval a)"
  by (rule rows_same_actions; simp add: insert_baseline_def insert_verification_def insert_policy_def
      insert_approval_def add_approval_def split: if_splits; fastforce)+

lemmas rows_basic =
  tables_rows [OF call_keeps_tables] tables_rows [OF audit_keeps_tables] rows_status rows_inserts

text \<open>Every node before the executor keeps it.\<close>

lemma rows_insert_action:
  "ac_status a \<noteq> RemediationActionStatus.SUCCEEDED \<Longrightarrow> rows.framed (insert_action a)"
  by (auto simp: rows.framed_def insert_action_def keeps_executed_def rows_executed_def split: if_splits)

lemma rows_models: "rows.framed (call_model pl q b key)" "rows.framed (executor_menu d)"
  by (auto simp: rows.framed_def call_model_def executor_menu_def keeps_executed_def rw_db_def
      split: prod.splits sum.splits dest: menu_for_frame)

lemma rows_handle:
  assumes "rows.framed m" and "\<And>e. rows.framed (h e)" and "\<And>x. rows.framed (f x)"
  shows "rows.framed (shandle m caught h f)"
proof (rule rows.framedI)
  fix w r w'
  assume run: "shandle m caught h f w = (r, w')"
  obtain r1 w1 where m: "m w = (r1, w1)" by fastforce
  have "keeps_executed w w1" using rows.framedD [OF assms(1) m] .
  moreover have "keeps_executed w1 w'"
    using run m rows.framedD [OF assms(2)] rows.framedD [OF assms(3)] rows.keeps_refl
    by (auto simp: shandle_def split: sum.splits if_splits)
  ultimately show "keeps_executed w w'" by (rule rows.keeps_trans)
qed

lemma rows_ask: "rows.framed (ask_attempts pl menu index b attempts used cost)"
  by (induction attempts arbitrary: used cost)
    (auto intro!: rows.framed_intros rows_models split: option.splits)

lemma rows_terminate: "rows.framed (terminate_planner ops d inp b reason et rec target)"
  unfolding terminate_planner_def by (auto intro!: rows.framed_intros)

lemma rows_persist: "rows.framed (persist_action d pl inp p g)"
  unfolding persist_action_def Let_def
  by (auto intro!: rows.framed_intros rows_insert_action rows_basic split: option.splits)
    (simp_all add: proposed_action_def Let_def)

lemma rows_accept: "rows.framed (accept_proposal ops d pl inp menu index p b)"
  unfolding accept_proposal_def
  by (auto intro!: rows_handle rows_terminate rows_persist rows.framed_intros
      split: option.splits prod.splits)

lemma rows_planner: "rows.framed (remediation_planner ops d pl inp known snapshot)"
  unfolding remediation_planner_def ask_model_def durable_budget_def
  by (auto intro!: rows.framed_intros rows_models rows_ask rows_handle rows_accept rows_terminate
      split: prod.splits)

lemma rows_gate: "rows.framed (policy_gate d inp ref)"
  unfolding policy_gate_def record_policy_def Let_def
  by (auto intro!: rows.framed_intros rows_basic split: option.splits)
    (auto simp: verdict_action_status_def split: PolicyVerdict.splits)

lemma rows_approval: "rows.framed (approval_service ops d inp ref)"
  unfolding approval_service_def route_decided_def approval_granted_def approval_refused_def
    request_approval_def record_system_decision_def Let_def
  by (auto intro!: rows.framed_intros rows_basic split: option.splits prod.splits)

lemma rows_verifier: "rows.framed (verifier ops d inp ref)"
proof -
  have judged: "verdict_status v \<noteq> RemediationActionStatus.SUCCEEDED" for v
    by (cases v) (simp_all add: verdict_status_def)
  have obs: "rows.framed (observe ops d inp i profile a)" for i profile a
    unfolding observe_def Let_def by (intro rows.framed_intros rows_basic)
  have outcome: "rows.framed (evaluate_outcome ops d inp p criteria b a t target)" for p criteria b a t target
    unfolding evaluate_outcome_def Let_def by (auto intro!: rows.framed_intros obs)
  have concl: "rows.framed (conclude d inp a v)" for a v
    unfolding conclude_def
    by (auto intro!: rows.framed_intros rows_basic judged split: prod.splits)
  have settled: "rows.framed (verify_settled ops d inp p b a t target)" for p b a t target
    unfolding verify_settled_def Let_def
    by (auto intro!: rows.framed_intros outcome concl split: prod.splits)
  have cap: "rows.framed (capture_baseline ops d inp p a t c)" for p a t c
    unfolding capture_baseline_def Let_def by (auto intro!: rows.framed_intros rows_basic obs)
  have miss: "rows.framed (missing_baseline d inp)"
    unfolding missing_baseline_def by (auto intro!: rows.framed_intros)
  show ?thesis
    unfolding verifier_def
    by (auto intro!: rows.framed_intros settled cap miss split: option.splits)
qed

section \<open>What the executor sends on\<close>

text \<open>An update that ends the run, or hands on an action that was executed.\<close>

definition closes_or_executed ::
  "node_deps \<Rightarrow> string \<Rightarrow> remediation_state \<Rightarrow> node_update \<Rightarrow> remediation_world \<Rightarrow> bool" where
  "closes_or_executed d i s u w \<longleftrightarrow>
     rs_terminated (apply_update u s) \<or>
     executed (nd_tenant d) i (rw_db w) \<and>
     (\<exists>ref. rs_action (apply_update u s) = Some ref \<and> rf_action ref = i)"

lemma closes_terminated: "rs_terminated (apply_update u s) \<Longrightarrow> closes_or_executed d i s u w"
  by (simp add: closes_or_executed_def)

lemma fail_closed_closes:
  "swp (fail_closed d inp a reason target st emit) (closes_or_executed d i s) w"
  unfolding fail_closed_def
  by (intro swp_thenI swp_return_update closes_terminated) (simp add: apply_update_def)

lemma route_success_closes:
  assumes "ac_id a = i" and "rf_action ref = i"
  shows "swp (route_success d inp a ref) (closes_or_executed d i s) w"
proof -
  have events: "tables.framed (if c then sreturn ()
      else sthen (run_transition d n t ac x y z u) (\<lambda>_. action_event d n' e ac' a' p q r v))"
    for c n t ac x y z u n' e ac' a' p q r v
    by (intro tables.framed_intros)
  show ?thesis
    unfolding route_success_def
    apply (rule swp_thenI)
    apply (simp only: swp_then [of "smodify f" for f] swp_modify)
    apply (rule swp_then_tables [OF events])
    apply (rule swp_return_update)
    using assms by (auto simp: closes_or_executed_def apply_update_def executed_def mark_succeeded_def)
qed

lemma swp_found:
  assumes "\<And>a. filter (\<lambda>a. ac_tenant a = nd_tenant d \<and> ac_id a = i) (rd_actions (rw_db w)) = [a] \<Longrightarrow>
    ac_id a = i \<Longrightarrow> a \<in> set (rd_actions (rw_db w)) \<Longrightarrow> P a w"
  shows "swp (find_run_action d i) P w"
proof (rule swpI)
  fix a w'
  assume "find_run_action d i w = (Inr a, w')"
  then have only: "filter (\<lambda>a. ac_tenant a = nd_tenant d \<and> ac_id a = i) (rd_actions (rw_db w)) = [a]"
    and w': "w' = w"
    by (auto simp: find_run_action_def sread_def query_simps)
  show "P a w'" unfolding w' using assms only filter_singleton [OF only] by blast
qed

lemma executed_row:
  assumes "filter (\<lambda>a. ac_tenant a = t \<and> ac_id a = i) (rd_actions db) = [a]" and "ac_executed_at a \<noteq> None"
  shows "executed t i db"
proof -
  have "set (filter (\<lambda>a. ac_tenant a = t \<and> ac_id a = i) (rd_actions db)) = {a}" by (simp add: assms(1))
  then show ?thesis using assms(2) by (auto simp: executed_def)
qed

lemma executor_closes:
  assumes "rows_executed (rw_db w)"
  shows "swp (remediation_executor ops d inp ref) (closes_or_executed d (rf_action ref) s) w"
  unfolding remediation_executor_def
proof (subst swp_then, rule swp_found)
  fix a
  assume only: "filter (\<lambda>a. ac_tenant a = nd_tenant d \<and> ac_id a = rf_action ref) (rd_actions (rw_db w)) = [a]"
    and id: "ac_id a = rf_action ref" and row: "a \<in> set (rd_actions (rw_db w))"
  have replayed: "executed (nd_tenant d) (rf_action ref) (rw_db w)"
    if "ac_status a = RemediationActionStatus.SUCCEEDED"
    using executed_row [OF only] assms row that by (simp add: rows_executed_def)
  note ok = fail_closed_closes route_success_closes [OF id refl]
  have reads: "swp (recover_interrupted d inp a ref ev) (closes_or_executed d (rf_action ref) s) w1" for ev w1
    unfolding recover_interrupted_def by (auto intro!: swp_thenI ok)
  have after: "swp (after_write d inp a ref res) (closes_or_executed d (rf_action ref) s) w1" for res w1
    unfolding after_write_def Let_def by (auto intro!: swp_thenI ok)
  have disp: "swp (dispatch_action ops d inp a ref t) (closes_or_executed d (rf_action ref) s) w1" for t w1
    unfolding dispatch_action_def send_write_def
    by (auto intro!: swp_thenI ok after split: option.splits)
  show "swp (sthen (slift (andThen registry_remediation_full (\<lambda>r. by_name r (ac_tool_name a))))
       (\<lambda>descriptor.
         if ac_status a = RemediationActionStatus.SUCCEEDED then
           return_update G9_REMEDIATION_EXECUTOR
             [(''phase'', UText ''verifying''),
              (''remediation_action'', UAction (ref\<lparr>rf_status := RemediationActionStatus.SUCCEEDED\<rparr>)),
              (''terminated'', UFlag False)]
         else if ac_status a \<in> {RemediationActionStatus.FAILED_CLEAN, RemediationActionStatus.FAILED_PARTIAL} then
           return_update G9_REMEDIATION_EXECUTOR
             [(''phase'', UText ''terminated''),
              (''remediation_action'', UAction (ref\<lparr>rf_status := ac_status a\<rparr>)),
              (''terminated'', UFlag True),
              (''termination_reason'', UText ''replayed from a prior pass of this run'')]
         else sthen (sread (\<lambda>w. Inr (dispatch_evidence (rw_broker w) (nd_tenant d) a))) (\<lambda>evidence.
           if evidence_interrupted evidence then recover_interrupted d inp a ref evidence
           else dispatch_action ops d inp a ref descriptor))) (closes_or_executed d (rf_action ref) s) w"
    unfolding swp_then [of "slift r" for r] swp_basic
    by (auto intro!: swp_return_update swp_thenI reads disp split: sum.splits)
      (auto simp: closes_or_executed_def apply_update_def replayed)
qed

section \<open>What the verifier sends back\<close>

text \<open>An executed action is never sent back to the executor.\<close>

definition not_sent_back :: "remediation_state \<Rightarrow> node_update \<Rightarrow> remediation_world \<Rightarrow> bool" where
  "not_sent_back s u w \<longleftrightarrow> rs_phase (apply_update u s) \<noteq> ''baseline_captured''"

lemma verifier_executed:
  assumes "executed (nd_tenant d) (rf_action ref) (rw_db w)"
  shows "swp (verifier ops d inp ref) (not_sent_back s) w"
  unfolding verifier_def
proof (subst swp_then, rule swp_found)
  fix a
  assume only: "filter (\<lambda>a. ac_tenant a = nd_tenant d \<and> ac_id a = rf_action ref) (rd_actions (rw_db w)) = [a]"
  have "a \<in> set (filter (\<lambda>a. ac_tenant a = nd_tenant d \<and> ac_id a = rf_action ref) (rd_actions (rw_db w)))"
    by (simp add: only)
  then obtain t where t: "ac_executed_at a = Some t" using assms by (auto simp: executed_def)
  have miss: "swp (missing_baseline d inp) (not_sent_back s) w1" for w1
    unfolding missing_baseline_def
    by (intro swp_thenI swp_return_update) (simp add: not_sent_back_def apply_update_def)
  have concl: "swp (conclude d inp a' v) (not_sent_back s) w1" for a' v w1
    unfolding conclude_def
    by (auto intro!: swp_thenI swp_return_update simp: not_sent_back_def apply_update_def split: prod.splits)
  have settled: "swp (verify_settled ops d inp p b a' e tg) (not_sent_back s) w1" for p b a' e tg w1
    unfolding verify_settled_def Let_def by (auto intro!: swp_thenI concl split: prod.splits)
  have wait: "swp (return_update G10_VERIFIER
      [(''phase'', UText ''awaiting_settling''), (''terminated'', UFlag False)]) (not_sent_back s) w1" for w1
    by (intro swp_return_update) (simp add: not_sent_back_def apply_update_def)
  show "swp (sthen (slift (andThen registry_remediation_full (\<lambda>r. by_name r (ac_tool_name a)))) (\<lambda>descriptor.
     sthen (slift (profile_for_criteria (ac_tool_name a) (ac_criteria a))) (\<lambda>profile.
     sthen (sread (\<lambda>w. scalar_one (filter (\<lambda>t. tg_id t = ac_target a) (rd_targets (rw_db w))))) (\<lambda>target.
     sthen (sread (\<lambda>w. Inr (List.find (\<lambda>b. bl_action b = ac_id a) (rw_baselines w)))) (\<lambda>baseline.
     case baseline of
       None \<Rightarrow>
         if ac_executed_at a \<noteq> None then missing_baseline d inp
         else capture_baseline ops d inp profile a target (td_capability descriptor)
     | Some b \<Rightarrow>
         (case ac_executed_at a of
            None \<Rightarrow> return_update G10_VERIFIER (baseline_update a (td_capability descriptor))
          | Some executed_at \<Rightarrow>
              if ni_clock inp 403 < executed_at + microseconds (td_settling_seconds descriptor)
              then return_update G10_VERIFIER
                [(''phase'', UText ''awaiting_settling''), (''terminated'', UFlag False)]
              else verify_settled ops d inp profile b a executed_at target)))))) (not_sent_back s) w"
    by (auto simp: t intro!: swp_thenI miss settled wait split: option.splits)
qed

section \<open>Every pass ends\<close>

definition bounded :: "nat \<Rightarrow> drive_outcome \<Rightarrow> bool" where
  "bounded k x \<longleftrightarrow>
     (case x of Finished ns s \<Rightarrow> length ns \<le> k | Raised e \<Rightarrow> True | Exhausted \<Rightarrow> False)"

lemma bounded_mono: "bounded k x \<Longrightarrow> k \<le> m \<Longrightarrow> bounded m x"
  by (auto simp: bounded_def split: drive_outcome.splits)

definition ends :: "graph_deps \<Rightarrow> (nat \<Rightarrow> node_inputs) \<Rightarrow> nat \<Rightarrow> graph_node \<Rightarrow> remediation_state \<Rightarrow>
    remediation_world \<Rightarrow> bool" where
  "ends g inp k n s w \<longleftrightarrow> (\<forall>i fuel. k \<le> fuel \<longrightarrow> bounded k (fst (drive g inp i fuel n s w)))"

lemma ends_step:
  assumes "\<And>i. swp (superstep g (inp i) n s)
      (\<lambda>s' w'. case route_after n s' of None \<Rightarrow> True | Some n' \<Rightarrow> ends g inp k n' s' w') w"
  shows "ends g inp (Suc k) n s w"
  unfolding ends_def
proof (intro allI impI)
  fix i fuel :: nat
  assume "Suc k \<le> fuel"
  then obtain fuel' where f: "fuel = Suc fuel'" "k \<le> fuel'" by (cases fuel) auto
  show "bounded (Suc k) (fst (drive g inp i fuel n s w))"
  proof (cases "superstep g (inp i) n s w")
    case (Pair r w')
    show ?thesis
    proof (cases r)
      case (Inl e)
      then show ?thesis by (simp add: f Pair bounded_def)
    next
      case (Inr s')
      show ?thesis
      proof (cases "route_after n s'")
        case None
        then show ?thesis by (simp add: f Pair Inr bounded_def)
      next
        case (Some n')
        then have "ends g inp k n' s' w'" using swpD [OF assms [of i]] Pair Inr by fastforce
        then have "bounded k (fst (drive g inp (Suc i) fuel' n' s' w'))" using f(2) by (simp add: ends_def)
        then show ?thesis
          by (cases "drive g inp (Suc i) fuel' n' s' w'"; cases "fst (drive g inp (Suc i) fuel' n' s' w')")
            (auto simp: f Pair Inr Some bounded_def)
      qed
    qed
  qed
qed

lemma ends_mono: "ends g inp k n s w \<Longrightarrow> k \<le> m \<Longrightarrow> ends g inp m n s w"
  unfolding ends_def using bounded_mono order_trans by blast

lemma superstep_swp:
  "swp (run_node g inp n s) (\<lambda>u. P (apply_update u s)) w \<Longrightarrow> swp (superstep g inp n s) P w"
  by (auto simp: swp_def superstep_def split: prod.splits sum.splits)

lemma on_action_swp:
  "(\<And>ref. rs_action s = Some ref \<Longrightarrow> swp (f ref) P w) \<Longrightarrow> swp (on_action s f) P w"
  by (auto simp: on_action_def swp_basic split: option.splits)

lemma verifier_ends:
  assumes "rs_action s = Some ref" and "executed (nd_tenant (gd_node g)) (rf_action ref) (rw_db w)"
  shows "ends g inp 1 VERIFIER s w"
proof -
  have node: "swp (run_node g (inp i) VERIFIER s) (not_sent_back s) w" for i
    using assms by (auto intro!: on_action_swp verifier_executed)
  have "ends g inp (Suc 0) VERIFIER s w"
    by (rule ends_step, rule superstep_swp, rule swp_mono [OF node]) (simp add: not_sent_back_def)
  then show ?thesis by simp
qed

lemma executor_ends:
  assumes "rows_executed (rw_db w)"
  shows "ends g inp 2 EXECUTOR s w"
proof -
  have next_node: "case route_after EXECUTOR (apply_update u s) of None \<Rightarrow> True
      | Some n' \<Rightarrow> ends g inp 1 n' (apply_update u s) w'"
    if "closes_or_executed (gd_node g) i s u w'" for u w' i
    using that verifier_ends by (auto simp: closes_or_executed_def)
  have "swp (run_node g (inp i) EXECUTOR s) (\<lambda>u w'. case route_after EXECUTOR (apply_update u s) of
      None \<Rightarrow> True | Some n' \<Rightarrow> ends g inp 1 n' (apply_update u s) w') w" for i
    unfolding run_node.simps
    by (rule on_action_swp, rule swp_mono [OF executor_closes [OF assms]], rule next_node)
  then have "ends g inp (Suc 1) EXECUTOR s w" by (intro ends_step superstep_swp)
  then show ?thesis by (simp add: numeral_2_eq_2)
qed

text \<open>The nodes before the executor keep the invariant and only go forward.\<close>

lemma ends_forward:
  assumes "\<And>inp'. rows.framed (run_node g inp' n s)" and "rows_executed (rw_db w)"
    and "\<And>s' w' n'. route_after n s' = Some n' \<Longrightarrow> rows_executed (rw_db w') \<Longrightarrow> ends g inp k n' s' w'"
  shows "ends g inp (Suc k) n s w"
proof (intro ends_step superstep_swp swpI)
  fix i u w'
  assume "run_node g (inp i) n s w = (Inr u, w')"
  then have "keeps_executed w w'" using rows.framedD [OF assms(1)] by blast
  then have "rows_executed (rw_db w')" using assms(2) by (simp add: keeps_executed_def)
  then show "case route_after n (apply_update u s) of None \<Rightarrow> True
      | Some n' \<Rightarrow> ends g inp k n' (apply_update u s) w'"
    using assms(3) by (cases "route_after n (apply_update u s)") auto
qed

lemma rows_nodes:
  "rows.framed (run_node g inp PLANNER s)" "rows.framed (run_node g inp POLICY_GATE s)"
  "rows.framed (run_node g inp APPROVAL_SERVICE s)" "rows.framed (run_node g inp VERIFIER s)"
  by (auto simp: on_action_def intro!: rows_planner rows_gate rows_approval rows_verifier
      rows.framed_basic split: option.splits)

lemma forward_ends:
  assumes "rows_executed (rw_db w)"
  shows "ends g inp 3 VERIFIER s w" and "ends g inp 4 APPROVAL_SERVICE s w"
    and "ends g inp 5 POLICY_GATE s w" and "ends g inp 6 PLANNER s w"
proof -
  have verifier: "ends g inp (Suc 2) VERIFIER s w" if "rows_executed (rw_db w)" for s w
    by (rule ends_forward [OF rows_nodes(4) that]) (auto intro: executor_ends split: if_splits)
  have approval: "ends g inp (Suc (Suc 2)) APPROVAL_SERVICE s w" if "rows_executed (rw_db w)" for s w
    by (rule ends_forward [OF rows_nodes(3) that]) (auto intro: verifier [simplified] split: if_splits)
  have gate: "ends g inp (Suc (Suc (Suc 2))) POLICY_GATE s w" if "rows_executed (rw_db w)" for s w
    by (rule ends_forward [OF rows_nodes(2) that])
      (auto intro: approval [simplified] ends_mono [OF verifier [simplified]] split: if_splits option.splits)
  have planner: "ends g inp (Suc (Suc (Suc (Suc 2)))) PLANNER s w" if "rows_executed (rw_db w)" for s w
    by (rule ends_forward [OF rows_nodes(1) that]) (auto intro: gate [simplified] split: if_splits)
  show "ends g inp 3 VERIFIER s w" "ends g inp 4 APPROVAL_SERVICE s w"
      "ends g inp 5 POLICY_GATE s w" "ends g inp 6 PLANNER s w"
    using verifier [OF assms] approval [OF assms] gate [OF assms] planner [OF assms]
    by (simp_all add: numeral_eq_Suc)
qed

lemma run_graph_ends:
  assumes "rows_executed (rw_db w)" and "6 \<le> fuel"
  shows "bounded 6 (fst (drive g inp i fuel PLANNER s w))"
  using forward_ends(4) [OF assms(1), of g inp s] assms(2) by (simp add: ends_def)

end
