(* ===== verification/Remediation_Checkpoint.thy ===== *)
theory Remediation_Checkpoint
  imports Remediation_Graph
begin

text \<open>
  Checkpoints of a remediation run, \<open>src/asic/orchestration/remediation/checkpoint.py\<close>, on the
  table of \<open>src/asic/db/models/orchestration.py\<close>: what is stored at a node boundary, and how a
  resumed run rebuilds its state from the rows of the database and the stored remainder. The
  lemmas: sequence numbers have no gap, the newest checkpoint gives back the stored keys of the
  state it was written from, and nothing else of a rebuilt state depends on the checkpoint.
\<close>

section \<open>Rows\<close>

definition CHECKPOINT_REASONS :: "string list" where
  "CHECKPOINT_REASONS = [''run_started'', ''node_boundary'', ''terminal'', ''suspended'']"

record checkpoint_row =
  ck_tenant :: string
  ck_run :: string
  ck_incident :: string
  ck_sequence :: nat
  ck_after_node :: "string option"
  ck_reason :: string
  ck_state :: arg_map
  ck_digest :: string
  ck_budget :: "num_dict \<times> num_dict"
  ck_behaviour :: string
  ck_correlation :: string
  ck_taken_at :: int

definition run_checkpoints :: "string \<Rightarrow> string \<Rightarrow> checkpoint_row list \<Rightarrow> checkpoint_row list" where
  "run_checkpoints tenant run rows = filter (\<lambda>c. ck_tenant c = tenant \<and> ck_run c = run) rows"

text \<open>That a digest has 64 characters holds of every value of the hash and is left out.\<close>

definition checkpoint_checks :: "checkpoint_row \<Rightarrow> bool" where
  "checkpoint_checks c \<longleftrightarrow> 1 \<le> ck_sequence c \<and> ck_reason c \<in> set CHECKPOINT_REASONS"

section \<open>Writing\<close>

definition serialise :: "remediation_state \<Rightarrow> arg_map" where
  "serialise s =
     [(''phase'', PStr (rs_phase s)), (''terminated'', PBool (rs_terminated s)),
      (''termination_reason'', opt_str (rs_reason s)),
      (''target_incident_status'', opt_str (rs_target_status s))]"

definition high_water :: "string \<Rightarrow> string \<Rightarrow> checkpoint_row list \<Rightarrow> nat" where
  "high_water tenant run rows = fold max (map ck_sequence (run_checkpoints tenant run rows)) 0"

text \<open>The row of the run, which the code locks first, is in the kernel's table of runs.\<close>

definition write_checkpoint ::
  "key_ops \<Rightarrow> RunIdentity \<Rightarrow> string \<Rightarrow> remediation_state \<Rightarrow> string \<Rightarrow> string option \<Rightarrow> BudgetState \<Rightarrow>
   int \<Rightarrow> checkpoint_row list \<Rightarrow> (py_error, checkpoint_row list) result" where
  "write_checkpoint ops identity correlation s reason after_node budget now rows =
     (if reason \<notin> set CHECKPOINT_REASONS then Inl ValueError
      else
        let tenant = ri_tenant_id identity; run = ri_workflow_run_id identity;
            payload = serialise s;
            row = \<lparr>ck_tenant = tenant, ck_run = run, ck_incident = ri_incident_id identity,
                   ck_sequence = high_water tenant run rows + 1, ck_after_node = after_node,
                   ck_reason = reason, ck_state = payload, ck_digest = flat_digest ops payload,
                   ck_budget = budget_to_dict budget,
                   ck_behaviour = ri_behaviour_version_id identity,
                   ck_correlation = correlation, ck_taken_at = now\<rparr>
        in if checkpoint_checks row then Inr (rows @ [row]) else Inl IntegrityError)"

definition latest_checkpoint :: "string \<Rightarrow> string \<Rightarrow> checkpoint_row list \<Rightarrow> checkpoint_row option" where
  "latest_checkpoint tenant run rows =
     newest (\<lambda>c. int (ck_sequence c)) (run_checkpoints tenant run rows)"

section \<open>Rebuilding the state\<close>

definition stored_text :: "pyval \<Rightarrow> string option" where
  "stored_text v = (case v of PStr s \<Rightarrow> Some s | _ \<Rightarrow> None)"

definition verification_ref :: "verification_row \<Rightarrow> VerificationRef" where
  "verification_ref v =
     \<lparr>vf_verification = ve_id v, vf_attempt = ve_attempt v, vf_verdict = ve_verdict v,
      vf_margin = ve_margin v\<rparr>"

definition policy_ref :: "policy_row \<Rightarrow> PolicyDecisionRef" where
  "policy_ref p = \<lparr>pf_verdict = pd_verdict p, pf_rule = pd_rule p, pf_signals = pd_signals p\<rparr>"

text \<open>The four references, from the rows of the run's action.\<close>

record durable_refs =
  dr_action :: "RemediationActionRef option"
  dr_policy :: "PolicyDecisionRef option"
  dr_approval :: "ApprovalRef option"
  dr_verification :: "VerificationRef option"
  dr_baseline :: bool

definition action_refs :: "string \<Rightarrow> remediation_world \<Rightarrow> action_row \<Rightarrow> (py_error, durable_refs) result" where
  "action_refs tenant w a =
     andThen (scalar_one_or_none (policy_rows (rw_db w) tenant (ac_id a))) (\<lambda>decision.
       let approval = newest ap_created_at
             (filter (\<lambda>p. ap_tenant p = tenant \<and> ap_action p = ac_id a \<and>
                          ap_version_hash p = ac_version_hash a) (rd_approvals (rw_db w)));
           verification = newest (\<lambda>v. int (ve_attempt v))
             (filter (\<lambda>v. ve_tenant v = tenant \<and> ve_action v = ac_id a) (rw_verifications w))
       in Inr \<lparr>dr_action = Some (action_ref a (ac_tool_name a)),
               dr_policy = map_option policy_ref decision,
               dr_approval = map_option approval_ref approval,
               dr_verification = map_option verification_ref verification,
               dr_baseline = (ac_baseline a \<noteq> [])\<rparr>)"

definition durable_references ::
  "string \<Rightarrow> string \<Rightarrow> remediation_world \<Rightarrow> (py_error, durable_refs) result" where
  "durable_references tenant run w =
     andThen (scalar_one_or_none
         (filter (\<lambda>a. ac_tenant a = tenant \<and> ac_run a = run) (rd_actions (rw_db w)))) (\<lambda>action.
       case action of
         None \<Rightarrow> Inr \<lparr>dr_action = None, dr_policy = None, dr_approval = None,
                      dr_verification = None, dr_baseline = False\<rparr>
       | Some a \<Rightarrow> action_refs tenant w a)"

definition rehydrate ::
  "key_ops \<Rightarrow> checkpoint_row \<Rightarrow> RunIdentity \<Rightarrow> remediation_world \<Rightarrow> (py_error, remediation_state) result" where
  "rehydrate ops c identity w =
     (let stored = ck_state c in
      if flat_digest ops stored \<noteq> ck_digest c then Inl CheckpointIntegrityError
      else andThen (durable_references (ri_tenant_id identity) (ri_workflow_run_id identity) w) (\<lambda>refs.
        andThen (budget_from_dict (ck_budget c)) (\<lambda>budget.
          Inr \<lparr>rs_phase = (case stored_text (dict_get stored ''phase'') of
                  None \<Rightarrow> ''planning'' | Some p \<Rightarrow> p),
               rs_action = dr_action refs, rs_policy = dr_policy refs,
               rs_approval = dr_approval refs, rs_verification = dr_verification refs,
               rs_baseline_captured = dr_baseline refs, rs_budget = Some (budget_snapshot budget),
               rs_failures = [],
               rs_terminated = (dict_get stored ''terminated'' = PBool True),
               rs_reason = stored_text (dict_get stored ''termination_reason''),
               rs_target_status = stored_text (dict_get stored ''target_incident_status'')\<rparr>)))"

section \<open>Sequence numbers\<close>

lemma fold_max: "fold max (ns :: nat list) m = Max (insert m (set ns))"
  using Max.set_eq_fold [of m ns] by simp

lemma high_water_bound:
  "c \<in> set rows \<Longrightarrow> ck_tenant c = tenant \<Longrightarrow> ck_run c = run \<Longrightarrow> ck_sequence c \<le> high_water tenant run rows"
  by (simp add: high_water_def fold_max run_checkpoints_def)

definition checkpoint_numbers :: "string \<Rightarrow> string \<Rightarrow> checkpoint_row list \<Rightarrow> nat list" where
  "checkpoint_numbers tenant run rows = map ck_sequence (run_checkpoints tenant run rows)"

lemma write_checkpoint_Inr:
  "write_checkpoint ops identity correlation s reason after budget now rows = Inr rows' \<longleftrightarrow>
   reason \<in> set CHECKPOINT_REASONS \<and>
   rows' = rows @ [\<lparr>ck_tenant = ri_tenant_id identity, ck_run = ri_workflow_run_id identity,
      ck_incident = ri_incident_id identity,
      ck_sequence = high_water (ri_tenant_id identity) (ri_workflow_run_id identity) rows + 1,
      ck_after_node = after, ck_reason = reason, ck_state = serialise s,
      ck_digest = flat_digest ops (serialise s), ck_budget = budget_to_dict budget,
      ck_behaviour = ri_behaviour_version_id identity, ck_correlation = correlation,
      ck_taken_at = now\<rparr>]"
  by (auto simp: write_checkpoint_def checkpoint_checks_def Let_def)

lemma write_checkpoint_ok:
  "is_ok (write_checkpoint ops identity correlation s reason after budget now rows) \<longleftrightarrow>
   reason \<in> set CHECKPOINT_REASONS"
  by (simp add: write_checkpoint_def checkpoint_checks_def Let_def)

lemma high_water_gapless:
  "gapless (checkpoint_numbers tenant run rows) \<Longrightarrow>
   high_water tenant run rows = length (run_checkpoints tenant run rows)"
proof -
  assume g: "gapless (checkpoint_numbers tenant run rows)"
  let ?n = "length (run_checkpoints tenant run rows)"
  have "set (checkpoint_numbers tenant run rows) = {1..?n}"
    using g by (auto simp: gapless_def checkpoint_numbers_def)
  then have "high_water tenant run rows = Max (insert 0 {1..?n})"
    by (simp add: high_water_def fold_max checkpoint_numbers_def)
  also have "\<dots> = ?n" by (cases ?n) (auto intro!: Max_eqI)
  finally show ?thesis .
qed

text \<open>A run's checkpoints form a numbered log: the interface of the event log holds of them too.\<close>

definition checkpoint_step :: "checkpoint_row list \<Rightarrow> checkpoint_row list \<Rightarrow> bool" where
  "checkpoint_step rows rows' \<longleftrightarrow>
     (\<exists>ops identity correlation s reason after budget now.
        write_checkpoint ops identity correlation s reason after budget now rows = Inr rows')"

definition gapless_runs :: "checkpoint_row list \<Rightarrow> bool" where
  "gapless_runs rows \<longleftrightarrow> (\<forall>tenant run. gapless (checkpoint_numbers tenant run rows))"

lemma checkpoint_step_numbers:
  assumes "gapless_runs rows" "checkpoint_step rows rows'"
  shows "checkpoint_numbers t r rows' = checkpoint_numbers t r rows \<or>
    checkpoint_numbers t r rows' =
      checkpoint_numbers t r rows @ [Suc (length (checkpoint_numbers t r rows))]"
  using assms high_water_gapless
  by (auto simp: checkpoint_step_def write_checkpoint_Inr gapless_runs_def checkpoint_numbers_def
      run_checkpoints_def)

interpretation checkpoint_log: seq_log "checkpoint_numbers tenant run" checkpoint_step gapless_runs
proof
  fix s t assume inv: "gapless_runs s" and step: "checkpoint_step s t"
  show "gapless_runs t"
    unfolding gapless_runs_def
  proof (intro allI)
    fix tenant run
    have "gapless (checkpoint_numbers tenant run s)" using inv by (simp add: gapless_runs_def)
    then show "gapless (checkpoint_numbers tenant run t)"
      using checkpoint_step_numbers [OF inv step, of tenant run]
      by (metis gapless_append)
  qed
qed (use checkpoint_step_numbers in \<open>auto simp: gapless_runs_def\<close>)

lemma newest_last:
  assumes "\<forall>d \<in> set xs. key d < key c"
  shows "newest key (xs @ [c]) = Some c"
proof -
  obtain r where r: "newest key (xs @ [c]) = Some r"
    using newest_None [of key "xs @ [c]"] by (cases "newest key (xs @ [c])") auto
  then have "r \<in> set (xs @ [c])" "key c \<le> key r" using newest_SomeD by fastforce+
  then show ?thesis using r assms by fastforce
qed

lemma latest_written:
  assumes "write_checkpoint ops identity correlation s reason after budget now rows = Inr rows'"
  shows "\<exists>c. latest_checkpoint (ri_tenant_id identity) (ri_workflow_run_id identity) rows' = Some c \<and>
     c = last rows' \<and> ck_state c = serialise s \<and> ck_digest c = flat_digest ops (serialise s) \<and>
     ck_budget c = budget_to_dict budget"
proof -
  let ?t = "ri_tenant_id identity" and ?r = "ri_workflow_run_id identity"
  obtain c where c: "rows' = rows @ [c]" "ck_tenant c = ?t" "ck_run c = ?r"
      "ck_sequence c = high_water ?t ?r rows + 1" "ck_state c = serialise s"
      "ck_digest c = flat_digest ops (serialise s)" "ck_budget c = budget_to_dict budget"
    using assms by (auto simp: write_checkpoint_Inr)
  let ?old = "run_checkpoints ?t ?r rows"
  have old: "\<forall>d \<in> set ?old. ck_sequence d < ck_sequence c"
    using high_water_bound [of _ rows ?t ?r] c(4) by (fastforce simp: run_checkpoints_def)
  have "run_checkpoints ?t ?r rows' = ?old @ [c]" using c by (simp add: run_checkpoints_def)
  then have "latest_checkpoint ?t ?r rows' = newest (\<lambda>c. int (ck_sequence c)) (?old @ [c])"
    by (simp add: latest_checkpoint_def)
  also have "\<dots> = Some c"
    using old by (intro newest_last) simp
  finally show ?thesis using c by auto
qed

section \<open>What a resumed run knows\<close>

lemma rehydrate_ephemeral:
  assumes "ck_state c = serialise s" and "rehydrate ops c identity w = Inr s'"
  shows "rs_phase s' = rs_phase s \<and> rs_terminated s' = rs_terminated s \<and>
    rs_reason s' = rs_reason s \<and> rs_target_status s' = rs_target_status s"
  using assms
  by (auto simp: rehydrate_def serialise_def dict_get_def stored_text_def opt_str_def Let_def
      andThen_eq_Inr split: if_splits option.splits)

lemma rehydrate_durable:
  assumes "rehydrate ops c identity w = Inr s"
  shows "\<exists>refs. durable_references (ri_tenant_id identity) (ri_workflow_run_id identity) w = Inr refs \<and>
    rs_action s = dr_action refs \<and> rs_policy s = dr_policy refs \<and> rs_approval s = dr_approval refs \<and>
    rs_verification s = dr_verification refs \<and> rs_baseline_captured s = dr_baseline refs \<and>
    rs_failures s = []"
  using assms by (auto simp: rehydrate_def Let_def andThen_eq_Inr split: if_splits)

end
