(* ===== verification/Remediation_Kernel.thy ===== *)
theory Remediation_Kernel
  imports Remediation_Checkpoint
begin

text \<open>
  The remediation kernel, \<open>src/asic/orchestration/remediation/kernel.py\<close>: starting a run against
  an investigating incident, claiming its lease and resuming it, driving the graph with one
  checkpoint per superstep, and suspending, dead-lettering or completing the run afterwards.
  The tables are those of the remediation world plus runs, traces, checkpoints and requests.
  The bundle a node depends on is built from the objective by an argument of the kernel, since
  providers and model belong to the deployment. The lemmas: a driven run is settled in exactly
  one way, a lease in force excludes every other worker, and what a resumed run works on.
\<close>

section \<open>Rows\<close>

definition LEASE_DURATION :: int where "LEASE_DURATION = microseconds 900"

definition DomainError :: py_error where "DomainError = OtherException ''DomainError''"

definition RequestAlreadyLinked :: py_error where
  "RequestAlreadyLinked = OtherException ''RequestAlreadyLinked''"

record run_row =
  wr_id :: string
  wr_tenant :: string
  wr_incident :: string
  wr_behaviour :: string
  wr_status :: WorkflowRunStatus
  wr_started_at :: int
  wr_completed_at :: "int option"
  wr_lease_owner :: "string option"
  wr_lease_expires_at :: "int option"

definition run_active :: "run_row \<Rightarrow> bool" where
  "run_active r \<longleftrightarrow> wr_status r \<in> {WorkflowRunStatus.RUNNING, WorkflowRunStatus.SUSPENDED}"

text \<open>The CHECK on the lease columns and the partial unique index of active runs.\<close>

definition runs_allowed :: "run_row list \<Rightarrow> bool" where
  "runs_allowed rows \<longleftrightarrow>
     list_all (\<lambda>r. (wr_lease_owner r = None) = (wr_lease_expires_at r = None)) rows \<and>
     distinct (map (\<lambda>r. (wr_tenant r, wr_incident r)) (filter run_active rows))"

record trace_row =
  et_id :: string
  et_tenant :: string
  et_run :: string
  et_correlation :: string
  et_started_at :: int

record kernel_request =
  kr_id :: string
  kr_tenant :: string
  kr_incident :: string
  kr_hypothesis :: string
  kr_service :: string
  kr_requested_by :: string
  kr_status :: string
  kr_run :: "string option"
  kr_last_error :: "string option"

text \<open>
  \<open>kw_alerts\<close> lists tenant, incident and service of the alerts; \<open>kw_investigations\<close> the
  column \<open>investigation_run_id\<close> of the targets. The approval service reads the requests in
  the remediation tables, which \<open>store_requests\<close> keeps equal to these rows.
\<close>

record kernel_world =
  kw_world :: remediation_world
  kw_runs :: "run_row list"
  kw_checkpoints :: "checkpoint_row list"
  kw_traces :: "trace_row list"
  kw_requests :: "kernel_request list"
  kw_behaviours :: "string list"
  kw_alerts :: "(string \<times> string \<times> string) list"
  kw_investigations :: "(string \<times> string) list"

definition request_view :: "kernel_request \<Rightarrow> request_row" where
  "request_view r =
     \<lparr>rq_tenant = kr_tenant r, rq_run = kr_run r, rq_requested_by = kr_requested_by r\<rparr>"

definition store_requests :: "kernel_request list \<Rightarrow> kernel_world \<Rightarrow> kernel_world" where
  "store_requests rs w =
     w\<lparr>kw_requests := rs,
       kw_world := with_db ((rw_db (kw_world w))\<lparr>rd_requests := map request_view rs\<rparr>) (kw_world w)\<rparr>"

definition store_runs :: "run_row list \<Rightarrow> kernel_world \<Rightarrow> (py_error, kernel_world) result" where
  "store_runs rows w =
     (if runs_allowed rows then Inr (w\<lparr>kw_runs := rows\<rparr>) else Inl IntegrityError)"

definition is_run :: "string \<Rightarrow> string \<Rightarrow> run_row \<Rightarrow> bool" where
  "is_run tenant run r \<longleftrightarrow> wr_tenant r = tenant \<and> wr_id r = run"

text \<open>\<open>UPDATE workflow_run ... WHERE tenant_id = ... AND id = ...\<close>\<close>

definition update_run ::
  "string \<Rightarrow> string \<Rightarrow> (run_row \<Rightarrow> run_row) \<Rightarrow> kernel_world \<Rightarrow> (py_error, kernel_world) result" where
  "update_run tenant run f w =
     store_runs (map (\<lambda>r. if is_run tenant run r then f r else r) (kw_runs w)) w"

section \<open>The kernel and a run\<close>

record RemediationObjective =
  ob_tenant :: string
  ob_incident :: string
  ob_run :: string
  ob_investigation_run :: string
  ob_hypothesis :: string
  ob_statement :: string
  ob_class :: string
  ob_service :: string
  ob_service_name :: string
  ob_environment :: string
  ob_environment_name :: string
  ob_scope :: arg_map
  ob_is_production :: bool

record run_context =
  cx_identity :: RunIdentity
  cx_correlation :: string
  cx_scope :: IncidentScope
  cx_objective :: RemediationObjective
  cx_started_at :: int

record kernel =
  kn_owner :: string
  kn_policy :: BudgetPolicy
  kn_keys :: key_ops
  kn_deps :: "run_context \<Rightarrow> graph_deps"

text \<open>What an invocation draws from outside: clock readings, generated identifiers, node inputs.\<close>

record kernel_inputs =
  ki_now :: int
  ki_taken_at :: int
  ki_run :: string
  ki_target :: string
  ki_trace :: string
  ki_correlation :: string
  ki_nodes :: "nat \<Rightarrow> node_inputs"
  ki_budget_clock :: "nat \<Rightarrow> int"
  ki_checkpoint_clock :: "nat \<Rightarrow> int"
  ki_finished_at :: int

record RemediationOutcome =
  ro_run :: string
  ro_incident :: string
  ro_trace :: string
  ro_terminated :: bool
  ro_reason :: "string option"
  ro_incident_status :: IncidentStatus
  ro_nodes :: "graph_node list"

section \<open>Driving\<close>

fun node_name :: "graph_node \<Rightarrow> string" where
  "node_name PLANNER = ''remediation_planner''"
| "node_name POLICY_GATE = ''policy_gate''"
| "node_name APPROVAL_SERVICE = ''approval_service''"
| "node_name EXECUTOR = ''remediation_executor''"
| "node_name VERIFIER = ''verifier''"

text \<open>
  A superstep, its checkpoint and the commit. What raises, raises before the commit, so the
  unit of work is rolled back.
\<close>

definition kernel_step ::
  "kernel \<Rightarrow> run_context \<Rightarrow> kernel_inputs \<Rightarrow> nat \<Rightarrow> graph_node \<Rightarrow> remediation_state \<Rightarrow> kernel_world \<Rightarrow>
   (py_error, remediation_state) result \<times> kernel_world" where
  "kernel_step k cx inp i n s w =
     (case superstep (kn_deps k cx) (ki_nodes inp i) n s (kw_world w) of
        (Inl e, w') \<Rightarrow> (Inl e, w\<lparr>kw_world := w'\<rparr>)
      | (Inr s', w') \<Rightarrow>
          (case andThen (budget_from (kn_policy k) (cx_started_at cx) (ki_budget_clock inp i) (rs_budget s'))
                  (\<lambda>budget. write_checkpoint (kn_keys k) (cx_identity cx) (cx_correlation cx) s'
                     (if rs_terminated s' then ''terminal'' else ''node_boundary'')
                     (Some (node_name n)) budget (ki_checkpoint_clock inp i) (kw_checkpoints w)) of
             Inl e \<Rightarrow> (Inl e, w\<lparr>kw_world := rolled_back (kw_world w) w'\<rparr>)
           | Inr rows \<Rightarrow> (Inr s', w\<lparr>kw_world := w', kw_checkpoints := rows\<rparr>)))"

fun kernel_loop ::
  "kernel \<Rightarrow> run_context \<Rightarrow> kernel_inputs \<Rightarrow> nat \<Rightarrow> nat \<Rightarrow> graph_node \<Rightarrow> remediation_state \<Rightarrow>
   kernel_world \<Rightarrow> drive_outcome \<times> kernel_world" where
  "kernel_loop k cx inp i 0 n s w = (Exhausted, w)"
| "kernel_loop k cx inp i (Suc fuel) n s w =
     (case kernel_step k cx inp i n s w of
        (Inl e, w') \<Rightarrow> (Raised e, w')
      | (Inr s', w') \<Rightarrow>
          (case route_after n s' of
             None \<Rightarrow> (Finished [n] s', w')
           | Some n' \<Rightarrow>
               (case kernel_loop k cx inp (Suc i) fuel n' s' w' of (x, w'') \<Rightarrow> (visited n x, w''))))"

definition find_incident :: "string \<Rightarrow> string \<Rightarrow> kernel_world \<Rightarrow> (py_error, incident_row) result" where
  "find_incident tenant incident w =
     (case db_incidents (rw_log (kw_world w)) (tenant, incident) of
        None \<Rightarrow> Inl DomainError | Some r \<Rightarrow> Inr r)"

definition suspend :: "run_context \<Rightarrow> kernel_world \<Rightarrow> (py_error, kernel_world) result" where
  "suspend cx w =
     update_run (ri_tenant_id (cx_identity cx)) (ri_workflow_run_id (cx_identity cx))
       (\<lambda>r. r\<lparr>wr_status := WorkflowRunStatus.SUSPENDED, wr_lease_owner := None,
             wr_lease_expires_at := None\<rparr>) w"

text \<open>Whatever its update raises is swallowed.\<close>

definition mark_dead_letter :: "run_context \<Rightarrow> kernel_world \<Rightarrow> kernel_world" where
  "mark_dead_letter cx w =
     (case update_run (ri_tenant_id (cx_identity cx)) (ri_workflow_run_id (cx_identity cx))
         (\<lambda>r. r\<lparr>wr_status := WorkflowRunStatus.DEAD_LETTERED, wr_lease_owner := None,
               wr_lease_expires_at := None\<rparr>) w of
        Inl e \<Rightarrow> w | Inr w' \<Rightarrow> w')"

definition finalise ::
  "run_context \<Rightarrow> int \<Rightarrow> kernel_world \<Rightarrow> (py_error, IncidentStatus \<times> kernel_world) result" where
  "finalise cx now w =
     andThen (find_incident (ri_tenant_id (cx_identity cx)) (ri_incident_id (cx_identity cx)) w) (\<lambda>incident.
     andThen (update_run (ri_tenant_id (cx_identity cx)) (ri_workflow_run_id (cx_identity cx))
         (\<lambda>r. r\<lparr>wr_status := WorkflowRunStatus.COMPLETED, wr_completed_at := Some now,
               wr_lease_owner := None, wr_lease_expires_at := None\<rparr>) w) (\<lambda>w'.
       Inr (ir_status incident, w')))"

definition run_outcome ::
  "run_context \<Rightarrow> bool \<Rightarrow> string option \<Rightarrow> IncidentStatus \<Rightarrow> graph_node list \<Rightarrow> RemediationOutcome" where
  "run_outcome cx terminated reason status nodes =
     \<lparr>ro_run = ri_workflow_run_id (cx_identity cx), ro_incident = ri_incident_id (cx_identity cx),
      ro_trace = ri_execution_trace_id (cx_identity cx), ro_terminated = terminated,
      ro_reason = reason, ro_incident_status = status, ro_nodes = nodes\<rparr>"

text \<open>What is raised after a commit keeps what was committed.\<close>

definition settle_run ::
  "run_context \<Rightarrow> int \<Rightarrow> graph_node list \<Rightarrow> remediation_state \<Rightarrow> kernel_world \<Rightarrow>
   (py_error, RemediationOutcome) result \<times> kernel_world" where
  "settle_run cx now nodes s w =
     (if \<not> rs_terminated s
      then (case suspend cx w of
          Inl e \<Rightarrow> (Inl e, w)
        | Inr w' \<Rightarrow>
            (case find_incident (ri_tenant_id (cx_identity cx)) (ri_incident_id (cx_identity cx)) w' of
               Inl e \<Rightarrow> (Inl e, w')
             | Inr r \<Rightarrow> (Inr (run_outcome cx False None (ir_status r) nodes), w')))
      else (case finalise cx now w of
          Inl e \<Rightarrow> (Inl e, w)
        | Inr (status, w') \<Rightarrow> (Inr (run_outcome cx True (rs_reason s) status nodes), w')))"

text \<open>\<open>GraphRecursionError\<close> is what the graph library raises at the limit.\<close>

definition drive_run ::
  "kernel \<Rightarrow> run_context \<Rightarrow> kernel_inputs \<Rightarrow> remediation_state \<Rightarrow> kernel_world \<Rightarrow>
   (py_error, RemediationOutcome) result \<times> kernel_world" where
  "drive_run k cx inp s w =
     (case kernel_loop k cx inp 0 RECURSION_LIMIT PLANNER s w of
        (Raised e, w') \<Rightarrow> (Inl e, mark_dead_letter cx w')
      | (Exhausted, w') \<Rightarrow> (Inl (OtherException ''GraphRecursionError''), mark_dead_letter cx w')
      | (Finished nodes s', w') \<Rightarrow> settle_run cx (ki_finished_at inp) nodes s' w')"

section \<open>Starting\<close>

record start_args =
  sa_tenant :: string
  sa_incident :: string
  sa_hypothesis :: string
  sa_behaviour :: string
  sa_service :: string
  sa_request :: "string option"

definition linked_request :: "start_args \<Rightarrow> kernel_world \<Rightarrow> (py_error, unit) result" where
  "linked_request a w = (case sa_request a of
       None \<Rightarrow> Inr ()
     | Some i \<Rightarrow>
         (case List.find (\<lambda>r. kr_tenant r = sa_tenant a \<and> kr_id r = i \<and> kr_incident r = sa_incident a \<and>
              kr_hypothesis r = sa_hypothesis a \<and> kr_service r = sa_service a) (kw_requests w) of
            None \<Rightarrow> Inl DomainError
          | Some r \<Rightarrow>
              guard (kr_run r = None \<and> kr_status r = ''pending'') RequestAlreadyLinked))"

definition link_request :: "start_args \<Rightarrow> string \<Rightarrow> kernel_world \<Rightarrow> kernel_world" where
  "link_request a run w = (case sa_request a of
       None \<Rightarrow> w
     | Some i \<Rightarrow> store_requests
         (map (\<lambda>r. if kr_tenant r = sa_tenant a \<and> kr_id r = i
                   then r\<lparr>kr_run := Some run, kr_status := ''started'', kr_last_error := None\<rparr> else r)
           (kw_requests w)) w)"

definition live_hypothesis :: "start_args \<Rightarrow> kernel_world \<Rightarrow> (py_error, hypothesis_row) result" where
  "live_hypothesis a w =
     andThen (scalar_one_or_none (filter (\<lambda>h. hy_tenant h = sa_tenant a \<and> hy_id h = sa_hypothesis a \<and>
         hy_incident h = sa_incident a) (rw_hypotheses (kw_world w)))) (\<lambda>h.
       case h of
         None \<Rightarrow> Inl DomainError
       | Some h \<Rightarrow>
           if hy_status h \<in> {HypothesisStatus.PROPOSED, HypothesisStatus.ACCEPTED} then Inr h
           else Inl DomainError)"

definition environment_of :: "string \<Rightarrow> string \<Rightarrow> kernel_world \<Rightarrow> string option" where
  "environment_of tenant incident w =
     map_option (\<lambda>(t, i, e). e)
       (List.find (\<lambda>(t, i, e). t = tenant \<and> i = incident) (rw_incidents (kw_world w)))"

definition world_services :: "kernel_world \<Rightarrow> service_row list" where
  "world_services w = bk_services (bs_db (rw_broker (kw_world w)))"

definition find_environment :: "string \<Rightarrow> string \<Rightarrow> kernel_world \<Rightarrow> (py_error, environment_row) result" where
  "find_environment tenant environment w =
     scalar_one (filter (\<lambda>e. env_tenant e = tenant \<and> env_id e = environment)
       (rd_environments (rw_db (kw_world w))))"

definition find_service :: "string \<Rightarrow> string \<Rightarrow> kernel_world \<Rightarrow> (py_error, service_row) result" where
  "find_service tenant service w =
     scalar_one (filter (\<lambda>s. srv_tenant s = tenant \<and> srv_id s = service) (world_services w))"

definition frozen_scope :: "string \<Rightarrow> string \<Rightarrow> string \<Rightarrow> string list \<Rightarrow> arg_map" where
  "frozen_scope tenant environment service namespaces =
     [(''tenant_id'', PStr tenant), (''environment'', PStr environment), (''service'', PStr service)] @
     (case namespaces of [] \<Rightarrow> [] | n # _ \<Rightarrow> [(''namespace'', PStr n)])"

definition initial_state :: "remediation_state" where
  "initial_state =
     \<lparr>rs_phase = ''planning'', rs_action = None, rs_policy = None, rs_approval = None,
      rs_verification = None, rs_baseline_captured = False, rs_budget = None, rs_failures = [],
      rs_terminated = False, rs_reason = None, rs_target_status = None\<rparr>"

definition start_context ::
  "start_args \<Rightarrow> kernel_inputs \<Rightarrow> hypothesis_row \<Rightarrow> IncidentScope \<Rightarrow> environment_row \<Rightarrow> service_row \<Rightarrow>
   run_context" where
  "start_context a inp h scope e srv =
     \<lparr>cx_identity = \<lparr>ri_tenant_id = sa_tenant a, ri_incident_id = sa_incident a,
        ri_workflow_run_id = ki_run inp, ri_behaviour_version_id = sa_behaviour a,
        ri_environment_id = env_id e, ri_execution_trace_id = ki_trace inp\<rparr>,
      cx_correlation = ki_correlation inp, cx_scope = scope,
      cx_objective = \<lparr>ob_tenant = sa_tenant a, ob_incident = sa_incident a, ob_run = ki_run inp,
        ob_investigation_run = hy_run h, ob_hypothesis = hy_id h, ob_statement = hy_statement h,
        ob_class = hy_class h, ob_service = srv_id srv, ob_service_name = srv_name srv,
        ob_environment = env_id e, ob_environment_name = env_name e,
        ob_scope = frozen_scope (sa_tenant a) (env_name e) (srv_name srv) (srv_namespaces srv),
        ob_is_production = env_is_production e\<rparr>,
      cx_started_at = ki_now inp\<rparr>"

text \<open>The run with its ledger, the target and the trace.\<close>

definition add_run ::
  "kernel \<Rightarrow> start_args \<Rightarrow> kernel_inputs \<Rightarrow> kernel_world \<Rightarrow> (py_error, kernel_world) result" where
  "add_run k a inp w =
     andThen (store_runs (kw_runs w @
         [\<lparr>wr_id = ki_run inp, wr_tenant = sa_tenant a, wr_incident = sa_incident a,
           wr_behaviour = sa_behaviour a, wr_status = WorkflowRunStatus.RUNNING,
           wr_started_at = ki_now inp, wr_completed_at = None, wr_lease_owner = Some (kn_owner k),
           wr_lease_expires_at = Some (ki_now inp + LEASE_DURATION)\<rparr>]) w) (\<lambda>w1.
       Inr (w1\<lparr>kw_world := (kw_world w1)\<lparr>rw_models := (rw_models (kw_world w1))\<lparr>md_runs :=
              md_runs (rw_models (kw_world w1)) @
              [\<lparr>lr_id = ki_run inp, lr_tenant = sa_tenant a,
                lr_budget = budget_to_dict (budget_initial (Some (kn_policy k)))\<rparr>]\<rparr>\<rparr>\<rparr>))"

definition add_target ::
  "start_args \<Rightarrow> kernel_inputs \<Rightarrow> hypothesis_row \<Rightarrow> environment_row \<Rightarrow> service_row \<Rightarrow> kernel_world \<Rightarrow>
   kernel_world" where
  "add_target a inp h e srv w =
     w\<lparr>kw_world := with_db ((rw_db (kw_world w))\<lparr>rd_targets := rd_targets (rw_db (kw_world w)) @
         [\<lparr>tg_id = ki_target inp, tg_tenant = sa_tenant a, tg_run = ki_run inp,
           tg_incident = sa_incident a, tg_hypothesis = hy_id h, tg_service = srv_id srv,
           tg_environment = env_id e,
           tg_scope = frozen_scope (sa_tenant a) (env_name e) (srv_name srv) (srv_namespaces srv)\<rparr>]\<rparr>)
         (kw_world w),
       kw_investigations := kw_investigations w @ [(ki_target inp, hy_run h)],
       kw_traces := kw_traces w @
         [\<lparr>et_id = ki_trace inp, et_tenant = sa_tenant a, et_run = ki_run inp,
           et_correlation = ki_correlation inp, et_started_at = ki_now inp\<rparr>]\<rparr>"

definition open_run ::
  "kernel \<Rightarrow> start_args \<Rightarrow> kernel_inputs \<Rightarrow> kernel_world \<Rightarrow> (py_error, run_context \<times> kernel_world) result" where
  "open_run k a inp w =
     andThen (linked_request a w) (\<lambda>_.
     andThen (find_incident (sa_tenant a) (sa_incident a) w) (\<lambda>incident.
     andThen (guard (ir_status incident = IncidentStatus.INVESTIGATING) DomainError) (\<lambda>_.
     andThen (live_hypothesis a w) (\<lambda>h.
     andThen (guard (sa_behaviour a \<in> set (kw_behaviours w)) DomainError) (\<lambda>_.
     andThen (guard ((sa_tenant a, sa_incident a, sa_service a) \<in> set (kw_alerts w)) DomainError) (\<lambda>_.
     case environment_of (sa_tenant a) (sa_incident a) w of
       None \<Rightarrow> Inl DomainError
     | Some environment \<Rightarrow>
         andThen (load_incident_scope (rd_environments (rw_db (kw_world w))) (world_services w)
             (sa_tenant a) (sa_incident a) environment [sa_service a]) (\<lambda>scope.
         andThen (find_environment (sa_tenant a) environment w) (\<lambda>e.
         andThen (add_run k a inp w) (\<lambda>w1.
         andThen (find_service (sa_tenant a) (sa_service a) w1) (\<lambda>srv.
           let cx = start_context a inp h scope e srv;
               w2 = add_target a inp h e srv (link_request a (ki_run inp) w1)
           in andThen (write_checkpoint (kn_keys k) (cx_identity cx) (cx_correlation cx) initial_state
                  ''run_started'' None (budget_initial (Some (kn_policy k))) (ki_taken_at inp)
                  (kw_checkpoints w2)) (\<lambda>rows.
                Inr (cx, w2\<lparr>kw_checkpoints := rows\<rparr>))))))))))))"

definition start_remediation ::
  "kernel \<Rightarrow> start_args \<Rightarrow> kernel_inputs \<Rightarrow> kernel_world \<Rightarrow>
   (py_error, RemediationOutcome) result \<times> kernel_world" where
  "start_remediation k a inp w =
     (case open_run k a inp w of
        Inl e \<Rightarrow> (Inl e, w)
      | Inr (cx, w') \<Rightarrow> drive_run k cx inp initial_state w')"

section \<open>Resuming\<close>

definition lease_free :: "string \<Rightarrow> int \<Rightarrow> run_row \<Rightarrow> bool" where
  "lease_free owner now r \<longleftrightarrow>
     wr_lease_owner r = None \<or> wr_lease_owner r = Some owner \<or>
     (case wr_lease_expires_at r of None \<Rightarrow> False | Some t \<Rightarrow> t < now)"

definition claim_lease ::
  "string \<Rightarrow> int \<Rightarrow> run_row \<Rightarrow> kernel_world \<Rightarrow> (py_error, kernel_world) result" where
  "claim_lease owner now run w =
     (let target = (\<lambda>r. is_run (wr_tenant run) (wr_id run) r \<and> lease_free owner now r) in
      if \<not> list_ex target (kw_runs w) then Inl LeaseNotHeld
      else store_runs (map (\<lambda>r. if target r
          then r\<lparr>wr_lease_owner := Some owner, wr_lease_expires_at := Some (now + LEASE_DURATION)\<rparr>
          else r) (kw_runs w)) w)"

definition bound_hypothesis ::
  "string \<Rightarrow> target_row \<Rightarrow> kernel_world \<Rightarrow> (py_error, hypothesis_row) result" where
  "bound_hypothesis tenant t w =
     andThen (scalar_one_or_none (filter (\<lambda>h. hy_tenant h = tenant \<and> hy_id h = tg_hypothesis t \<and>
         hy_incident h = tg_incident t \<and> map_of (kw_investigations w) (tg_id t) = Some (hy_run h))
         (rw_hypotheses (kw_world w)))) (\<lambda>h.
       case h of None \<Rightarrow> Inl DomainError | Some h \<Rightarrow> Inr h)"

definition resume_context ::
  "string \<Rightarrow> run_row \<Rightarrow> trace_row \<Rightarrow> target_row \<Rightarrow> IncidentScope \<Rightarrow> environment_row \<Rightarrow> hypothesis_row \<Rightarrow>
   ServiceScope \<Rightarrow> run_context" where
  "resume_context tenant r trace t scope e h srv =
     \<lparr>cx_identity = \<lparr>ri_tenant_id = tenant, ri_incident_id = wr_incident r,
        ri_workflow_run_id = wr_id r, ri_behaviour_version_id = wr_behaviour r,
        ri_environment_id = tg_environment t, ri_execution_trace_id = et_id trace\<rparr>,
      cx_correlation = et_correlation trace, cx_scope = scope,
      cx_objective = \<lparr>ob_tenant = tenant, ob_incident = wr_incident r, ob_run = wr_id r,
        ob_investigation_run = hy_run h, ob_hypothesis = hy_id h, ob_statement = hy_statement h,
        ob_class = hy_class h, ob_service = tg_service t, ob_service_name = sv_name srv,
        ob_environment = tg_environment t, ob_environment_name = env_name e,
        ob_scope = frozen_scope tenant (env_name e) (sv_name srv) (sv_namespaces srv),
        ob_is_production = env_is_production e\<rparr>,
      cx_started_at = et_started_at trace\<rparr>"

text \<open>\<open>scope.services[0]\<close> and the comparison of the catalogue's scope with the frozen one.\<close>

definition checked_context ::
  "string \<Rightarrow> run_row \<Rightarrow> trace_row \<Rightarrow> target_row \<Rightarrow> IncidentScope \<Rightarrow> environment_row \<Rightarrow> hypothesis_row \<Rightarrow>
   (py_error, run_context) result" where
  "checked_context tenant r trace t scope e h =
     (case is_services scope of
        [] \<Rightarrow> Inl (OtherException ''IndexError'')
      | srv # _ \<Rightarrow>
          if \<not> py_eq (PDict (frozen_scope tenant (env_name e) (sv_name srv) (sv_namespaces srv)))
                  (PDict (tg_scope t))
          then Inl DomainError
          else Inr (resume_context tenant r trace t scope e h srv))"

text \<open>What is read under the lease.\<close>

definition reopen_context ::
  "string \<Rightarrow> run_row \<Rightarrow> kernel_world \<Rightarrow> (py_error, run_context \<times> checkpoint_row) result" where
  "reopen_context tenant r w =
     andThen (find_incident tenant (wr_incident r) w) (\<lambda>_.
     andThen (scalar_one (filter (\<lambda>t. et_tenant t = tenant \<and> et_run t = wr_id r) (kw_traces w))) (\<lambda>trace.
     case latest_checkpoint tenant (wr_id r) (kw_checkpoints w) of
       None \<Rightarrow> Inl DomainError
     | Some c \<Rightarrow>
         andThen (scalar_one_or_none (filter (\<lambda>t. tg_tenant t = tenant \<and> tg_run t = wr_id r \<and>
             tg_incident t = wr_incident r) (rd_targets (rw_db (kw_world w))))) (\<lambda>target.
         case target of
           None \<Rightarrow> Inl DomainError
         | Some t \<Rightarrow>
             andThen (load_incident_scope (rd_environments (rw_db (kw_world w))) (world_services w)
                 tenant (wr_incident r) (tg_environment t) [tg_service t]) (\<lambda>scope.
             andThen (find_environment tenant (tg_environment t) w) (\<lambda>e.
             andThen (bound_hypothesis tenant t w) (\<lambda>h.
             andThen (checked_context tenant r trace t scope e h) (\<lambda>cx. Inr (cx, c))))))))"

definition reopen_run ::
  "kernel \<Rightarrow> string \<Rightarrow> string \<Rightarrow> int \<Rightarrow> kernel_world \<Rightarrow>
   (py_error, run_context \<times> remediation_state \<times> kernel_world) result" where
  "reopen_run k tenant run now w =
     andThen (scalar_one_or_none (filter (is_run tenant run) (kw_runs w))) (\<lambda>row.
     case row of
       None \<Rightarrow> Inl DomainError
     | Some r \<Rightarrow>
         if wr_status r \<in> {WorkflowRunStatus.COMPLETED, WorkflowRunStatus.FAILED} then Inl DomainError
         else
           andThen (claim_lease (kn_owner k) now r w) (\<lambda>w1.
           andThen (reopen_context tenant r w1) (\<lambda>(cx, c).
           andThen (rehydrate (kn_keys k) c (cx_identity cx) (kw_world w1)) (\<lambda>s.
           andThen (update_run tenant run (\<lambda>r. r\<lparr>wr_status := WorkflowRunStatus.RUNNING\<rparr>) w1) (\<lambda>w2.
             Inr (cx, s, w2))))))"

definition resume_remediation ::
  "kernel \<Rightarrow> string \<Rightarrow> string \<Rightarrow> kernel_inputs \<Rightarrow> kernel_world \<Rightarrow>
   (py_error, RemediationOutcome) result \<times> kernel_world" where
  "resume_remediation k tenant run inp w =
     (case reopen_run k tenant run (ki_now inp) w of
        Inl e \<Rightarrow> (Inl e, w)
      | Inr (cx, s, w') \<Rightarrow> drive_run k cx inp s w')"

section \<open>A step and its checkpoint\<close>

lemma budget_from_ok: "is_ok (budget_from p started now snapshot)"
  by (simp add: budget_from_def observe_elapsed_def with_elapsed_def elapsed_since_def is_ok_andThen)

lemma checkpoint_written:
  "\<exists>rows'. andThen (budget_from p started now snapshot) (\<lambda>budget.
     write_checkpoint ops identity correlation s (if t then ''terminal'' else ''node_boundary'') after
       budget taken rows) = Inr rows' \<and> checkpoint_step rows rows'"
proof -
  obtain b where b: "budget_from p started now snapshot = Inr b"
    using budget_from_ok by (metis is_ok_iff)
  have "is_ok (write_checkpoint ops identity correlation s (if t then ''terminal'' else ''node_boundary'')
      after b taken rows)"
    by (simp add: write_checkpoint_ok CHECKPOINT_REASONS_def)
  then obtain rows' where "write_checkpoint ops identity correlation s
      (if t then ''terminal'' else ''node_boundary'') after b taken rows = Inr rows'"
    by (metis is_ok_iff)
  then show ?thesis unfolding b checkpoint_step_def by (auto simp del: if_splits) blast
qed

text \<open>The kernel runs the graph, and writes checkpoints on the way.\<close>

lemma kernel_loop_drives:
  "\<exists>rows. kernel_loop k cx inp i fuel n s w =
     (fst (drive (kn_deps k cx) (ki_nodes inp) i fuel n s (kw_world w)),
      w\<lparr>kw_world := snd (drive (kn_deps k cx) (ki_nodes inp) i fuel n s (kw_world w)),
        kw_checkpoints := rows\<rparr>) \<and>
   checkpoint_step\<^sup>*\<^sup>* (kw_checkpoints w) rows"
proof (induction fuel arbitrary: i n s w)
  case 0
  then show ?case by (intro exI [of _ "kw_checkpoints w"]) simp
next
  case (Suc fuel)
  let ?g = "kn_deps k cx" and ?in = "ki_nodes inp"
  show ?case
  proof (cases "superstep ?g (?in i) n s (kw_world w)")
    case (Pair r w')
    show ?thesis
    proof (cases r)
      case (Inl e)
      then show ?thesis
        by (intro exI [of _ "kw_checkpoints w"]) (simp add: kernel_step_def Pair)
    next
      case (Inr s')
      obtain rows where rows: "andThen (budget_from (kn_policy k) (cx_started_at cx)
            (ki_budget_clock inp i) (rs_budget s')) (\<lambda>budget. write_checkpoint (kn_keys k)
            (cx_identity cx) (cx_correlation cx) s'
            (if rs_terminated s' then ''terminal'' else ''node_boundary'') (Some (node_name n)) budget
            (ki_checkpoint_clock inp i) (kw_checkpoints w)) = Inr rows"
          "checkpoint_step (kw_checkpoints w) rows"
        using checkpoint_written by blast
      have step: "kernel_step k cx inp i n s w = (Inr s', w\<lparr>kw_world := w', kw_checkpoints := rows\<rparr>)"
        using rows(1) by (simp add: kernel_step_def Pair Inr)
      show ?thesis
      proof (cases "route_after n s'")
        case None
        then show ?thesis
          using rows(2) by (intro exI [of _ rows]) (simp add: step Pair Inr r_into_rtranclp)
      next
        case (Some n')
        obtain rows' where "kernel_loop k cx inp (Suc i) fuel n' s'
              (w\<lparr>kw_world := w', kw_checkpoints := rows\<rparr>) =
            (fst (drive ?g ?in (Suc i) fuel n' s' w'),
             w\<lparr>kw_world := snd (drive ?g ?in (Suc i) fuel n' s' w'), kw_checkpoints := rows'\<rparr>)"
          "checkpoint_step\<^sup>*\<^sup>* rows rows'"
          using Suc.IH [of "Suc i" n' s' "w\<lparr>kw_world := w', kw_checkpoints := rows\<rparr>"] by auto
        then show ?thesis
          using rows(2) by (intro exI [of _ rows'])
            (simp add: step Pair Inr Some split_beta converse_rtranclp_into_rtranclp)
      qed
    qed
  qed
qed

section \<open>Updating the row of a run\<close>

definition run_of :: "string \<Rightarrow> string \<Rightarrow> kernel_world \<Rightarrow> run_row option" where
  "run_of tenant run w = List.find (is_run tenant run) (kw_runs w)"

lemma distinct_map_active:
  assumes "distinct (map key (filter P xs))" "\<And>x. x \<in> set xs \<Longrightarrow> P (f x) \<Longrightarrow> P x"
    "\<And>x. x \<in> set xs \<Longrightarrow> key (f x) = key x"
  shows "distinct (map key (filter P (map f xs)))"
  using assms
proof (induction xs)
  case (Cons x xs)
  have "key ` {y \<in> f ` set xs. P y} \<subseteq> key ` {y \<in> set xs. P y}"
    using Cons.prems(2,3) by force
  then show ?case using Cons by (auto split: if_splits)
qed simp

lemma update_run_ok:
  assumes "runs_allowed (kw_runs w)"
    and "\<And>r. wr_lease_owner (f r) = None \<and> wr_lease_expires_at (f r) = None"
    and "\<And>r. wr_tenant (f r) = wr_tenant r \<and> wr_incident (f r) = wr_incident r"
    and "\<And>r. r \<in> set (kw_runs w) \<Longrightarrow> is_run tenant run r \<Longrightarrow> run_active (f r) \<Longrightarrow> run_active r"
  shows "update_run tenant run f w =
    Inr (w\<lparr>kw_runs := map (\<lambda>r. if is_run tenant run r then f r else r) (kw_runs w)\<rparr>)"
proof -
  have "runs_allowed (map (\<lambda>r. if is_run tenant run r then f r else r) (kw_runs w))"
    unfolding runs_allowed_def
  proof
    show "list_all (\<lambda>r. (wr_lease_owner r = None) = (wr_lease_expires_at r = None))
        (map (\<lambda>r. if is_run tenant run r then f r else r) (kw_runs w))"
      using assms(1,2) by (auto simp: runs_allowed_def list_all_iff)
    show "distinct (map (\<lambda>r. (wr_tenant r, wr_incident r)) (filter run_active
        (map (\<lambda>r. if is_run tenant run r then f r else r) (kw_runs w))))"
      by (rule distinct_map_active) (use assms in \<open>auto simp: runs_allowed_def split: if_splits\<close>)
  qed
  then show ?thesis by (simp add: update_run_def store_runs_def)
qed

lemma find_map:
  "(\<And>r. P (g r) = P r) \<Longrightarrow> List.find P (map g xs) = map_option g (List.find P xs)"
  by (induction xs) auto

lemma run_of_update:
  assumes "\<And>r. is_run tenant run (f r) = is_run tenant run r" "run_of tenant run w = Some r"
  shows "run_of tenant run
      (w\<lparr>kw_runs := map (\<lambda>r. if is_run tenant run r then f r else r) (kw_runs w)\<rparr>) = Some (f r)"
proof -
  have "is_run tenant run r" using assms(2) find_SomeD by (fastforce simp: run_of_def)
  then show ?thesis
    using assms find_map [of "is_run tenant run" "\<lambda>r. if is_run tenant run r then f r else r" "kw_runs w"]
    by (simp add: run_of_def)
qed

section \<open>A driven run is settled\<close>

definition settled :: "string \<Rightarrow> string \<Rightarrow> WorkflowRunStatus \<Rightarrow> int option \<Rightarrow> kernel_world \<Rightarrow> bool" where
  "settled tenant run status completed w \<longleftrightarrow>
     (case run_of tenant run w of
        None \<Rightarrow> False
      | Some r \<Rightarrow> wr_status r = status \<and> wr_lease_owner r = None \<and> wr_lease_expires_at r = None \<and>
          (completed \<noteq> None \<longrightarrow> wr_completed_at r = completed))"

abbreviation cx_tenant :: "run_context \<Rightarrow> string" where "cx_tenant cx \<equiv> ri_tenant_id (cx_identity cx)"
abbreviation cx_run :: "run_context \<Rightarrow> string" where "cx_run cx \<equiv> ri_workflow_run_id (cx_identity cx)"
abbreviation cx_incident :: "run_context \<Rightarrow> string" where "cx_incident cx \<equiv> ri_incident_id (cx_identity cx)"

lemma run_active_status:
  "run_active (r\<lparr>wr_status := s, wr_lease_owner := a, wr_lease_expires_at := b\<rparr>) \<longleftrightarrow>
     s \<in> {WorkflowRunStatus.RUNNING, WorkflowRunStatus.SUSPENDED}"
  by (simp add: run_active_def)

lemma dead_letter_settles:
  assumes "runs_allowed (kw_runs w)" "run_of (cx_tenant cx) (cx_run cx) w = Some r"
  shows "settled (cx_tenant cx) (cx_run cx) WorkflowRunStatus.DEAD_LETTERED None (mark_dead_letter cx w)"
proof -
  let ?f = "\<lambda>r. r\<lparr>wr_status := WorkflowRunStatus.DEAD_LETTERED, wr_lease_owner := None,
    wr_lease_expires_at := None\<rparr>"
  have "update_run (cx_tenant cx) (cx_run cx) ?f w = Inr (w\<lparr>kw_runs :=
      map (\<lambda>r. if is_run (cx_tenant cx) (cx_run cx) r then ?f r else r) (kw_runs w)\<rparr>)"
    using assms(1) by (intro update_run_ok) (simp_all add: run_active_status)
  moreover have "run_of (cx_tenant cx) (cx_run cx) (w\<lparr>kw_runs :=
      map (\<lambda>r. if is_run (cx_tenant cx) (cx_run cx) r then ?f r else r) (kw_runs w)\<rparr>) = Some (?f r)"
    using assms(2) by (intro run_of_update) (simp_all add: is_run_def)
  ultimately show ?thesis by (simp add: mark_dead_letter_def settled_def)
qed

lemma suspend_settles:
  assumes "runs_allowed (kw_runs w)" "run_of (cx_tenant cx) (cx_run cx) w = Some r"
    and "\<forall>q \<in> set (kw_runs w). is_run (cx_tenant cx) (cx_run cx) q \<longrightarrow> run_active q"
  shows "\<exists>w'. suspend cx w = Inr w' \<and> kw_world w' = kw_world w \<and>
    settled (cx_tenant cx) (cx_run cx) WorkflowRunStatus.SUSPENDED None w'"
proof -
  let ?f = "\<lambda>r. r\<lparr>wr_status := WorkflowRunStatus.SUSPENDED, wr_lease_owner := None,
    wr_lease_expires_at := None\<rparr>"
  have "update_run (cx_tenant cx) (cx_run cx) ?f w = Inr (w\<lparr>kw_runs :=
      map (\<lambda>r. if is_run (cx_tenant cx) (cx_run cx) r then ?f r else r) (kw_runs w)\<rparr>)"
    using assms(1,3) by (intro update_run_ok) simp_all
  moreover have "run_of (cx_tenant cx) (cx_run cx) (w\<lparr>kw_runs :=
      map (\<lambda>r. if is_run (cx_tenant cx) (cx_run cx) r then ?f r else r) (kw_runs w)\<rparr>) = Some (?f r)"
    using assms(2) by (intro run_of_update) (simp_all add: is_run_def)
  ultimately show ?thesis by (simp add: suspend_def settled_def)
qed

lemma finalise_settles:
  assumes "runs_allowed (kw_runs w)" "run_of (cx_tenant cx) (cx_run cx) w = Some r"
    and "find_incident (cx_tenant cx) (cx_incident cx) w = Inr incident"
  shows "\<exists>w'. finalise cx now w = Inr (ir_status incident, w') \<and>
    settled (cx_tenant cx) (cx_run cx) WorkflowRunStatus.COMPLETED (Some now) w'"
proof -
  let ?f = "\<lambda>r. r\<lparr>wr_status := WorkflowRunStatus.COMPLETED, wr_completed_at := Some now,
    wr_lease_owner := None, wr_lease_expires_at := None\<rparr>"
  have "update_run (cx_tenant cx) (cx_run cx) ?f w = Inr (w\<lparr>kw_runs :=
      map (\<lambda>r. if is_run (cx_tenant cx) (cx_run cx) r then ?f r else r) (kw_runs w)\<rparr>)"
    using assms(1) by (intro update_run_ok) (simp_all add: run_active_def)
  moreover have "run_of (cx_tenant cx) (cx_run cx) (w\<lparr>kw_runs :=
      map (\<lambda>r. if is_run (cx_tenant cx) (cx_run cx) r then ?f r else r) (kw_runs w)\<rparr>) = Some (?f r)"
    using assms(2) by (intro run_of_update) (simp_all add: is_run_def)
  ultimately show ?thesis by (simp add: finalise_def settled_def assms(3))
qed

lemma only_run:
  assumes "run_of tenant run w = Some r" "distinct (map wr_id (kw_runs w))" "q \<in> set (kw_runs w)"
  shows "is_run tenant run q \<longleftrightarrow> q = r"
proof -
  have "r \<in> set (kw_runs w)" "is_run tenant run r"
    using assms(1) find_SomeD by (fastforce simp: run_of_def)+
  then show ?thesis using assms(2,3) unfolding is_run_def distinct_map by (metis inj_onD)
qed

lemma run_ofD: "run_of tenant run w = Some r \<Longrightarrow> r \<in> set (kw_runs w) \<and> is_run tenant run r"
  using find_SomeD by (fastforce simp: run_of_def)

text \<open>The rows are as the pass found them: no node writes to the table of runs.\<close>

definition run_driven :: "run_context \<Rightarrow> kernel_world \<Rightarrow> bool" where
  "run_driven cx w \<longleftrightarrow>
     runs_allowed (kw_runs w) \<and> distinct (map wr_id (kw_runs w)) \<and>
     (\<exists>r. run_of (cx_tenant cx) (cx_run cx) w = Some r \<and> run_active r)"

lemma run_drivenD:
  assumes "run_driven cx w"
  shows "runs_allowed (kw_runs w)" "\<exists>r. run_of (cx_tenant cx) (cx_run cx) w = Some r"
    "\<forall>q \<in> set (kw_runs w). is_run (cx_tenant cx) (cx_run cx) q \<longrightarrow> run_active q"
proof -
  obtain r where r: "run_of (cx_tenant cx) (cx_run cx) w = Some r" "run_active r"
    using assms by (auto simp: run_driven_def)
  then show "runs_allowed (kw_runs w)" "\<exists>r. run_of (cx_tenant cx) (cx_run cx) w = Some r"
    using assms by (auto simp: run_driven_def)
  show "\<forall>q \<in> set (kw_runs w). is_run (cx_tenant cx) (cx_run cx) q \<longrightarrow> run_active q"
    using assms r only_run [OF r(1)] by (simp add: run_driven_def)
qed

lemma run_driven_cong: "kw_runs w' = kw_runs w \<Longrightarrow> run_driven cx w' = run_driven cx w"
  by (simp add: run_driven_def run_of_def)

lemma settle_run_settles:
  assumes "run_driven cx w" "find_incident (cx_tenant cx) (cx_incident cx) w = Inr incident"
  shows "\<exists>o' w'. settle_run cx now nodes s w = (Inr o', w') \<and> ro_terminated o' = rs_terminated s \<and>
     ro_incident_status o' = ir_status incident \<and> ro_nodes o' = nodes \<and>
     settled (cx_tenant cx) (cx_run cx)
       (if rs_terminated s then WorkflowRunStatus.COMPLETED else WorkflowRunStatus.SUSPENDED)
       (if rs_terminated s then Some now else None) w'"
proof -
  obtain r where r: "run_of (cx_tenant cx) (cx_run cx) w = Some r"
    using run_drivenD(2) [OF assms(1)] by blast
  note d = run_drivenD(1) [OF assms(1)] run_drivenD(3) [OF assms(1)]
  show ?thesis
  proof (cases "rs_terminated s")
    case True
    obtain w' where "finalise cx now w = Inr (ir_status incident, w')"
        "settled (cx_tenant cx) (cx_run cx) WorkflowRunStatus.COMPLETED (Some now) w'"
      using finalise_settles [OF d(1) r assms(2)] by blast
    then show ?thesis using True by (simp add: settle_run_def run_outcome_def)
  next
    case False
    obtain w' where w': "suspend cx w = Inr w'" "kw_world w' = kw_world w"
        "settled (cx_tenant cx) (cx_run cx) WorkflowRunStatus.SUSPENDED None w'"
      using suspend_settles [OF d(1) r d(2)] by blast
    moreover have "find_incident (cx_tenant cx) (cx_incident cx) w' = Inr incident"
      using assms(2) w'(2) by (simp add: find_incident_def)
    ultimately show ?thesis using False by (simp add: settle_run_def run_outcome_def)
  qed
qed

lemma settle_run_world: "kw_world (snd (settle_run cx now nodes s w)) = kw_world w"
  by (auto simp: settle_run_def suspend_def finalise_def update_run_def store_runs_def andThen_eq_Inr
      split: sum.splits if_splits)

lemma mark_dead_letter_world [simp]: "kw_world (mark_dead_letter cx w) = kw_world w"
  by (simp add: mark_dead_letter_def update_run_def store_runs_def split: sum.splits)

text \<open>
  How an invocation leaves its run, given how the graph went: what was raised is raised again, and
  what the terminated flag of the last state says decides between completion and suspension.
\<close>

definition settled_by ::
  "drive_outcome \<Rightarrow> run_context \<Rightarrow> int \<Rightarrow> incident_row \<Rightarrow> (py_error, RemediationOutcome) result \<Rightarrow>
   kernel_world \<Rightarrow> bool" where
  "settled_by graph cx finished_at incident r w \<longleftrightarrow>
     (case graph of
        Raised e \<Rightarrow> r = Inl e \<and> settled (cx_tenant cx) (cx_run cx) WorkflowRunStatus.DEAD_LETTERED None w
      | Exhausted \<Rightarrow> False
      | Finished nodes s \<Rightarrow>
          (\<exists>u. r = Inr u \<and> ro_nodes u = nodes \<and> length nodes \<le> 6 \<and>
             ro_terminated u = rs_terminated s \<and> ro_incident_status u = ir_status incident \<and>
             settled (cx_tenant cx) (cx_run cx)
               (if rs_terminated s then WorkflowRunStatus.COMPLETED else WorkflowRunStatus.SUSPENDED)
               (if rs_terminated s then Some finished_at else None) w))"

lemma kernel_loop_more_fuel:
  "fst (kernel_loop k cx inp i fuel n s w) \<noteq> Exhausted \<Longrightarrow>
   kernel_loop k cx inp i (fuel + m) n s w = kernel_loop k cx inp i fuel n s w"
proof (induction fuel arbitrary: i n s w)
  case (Suc fuel)
  show ?case
  proof (cases "kernel_step k cx inp i n s w")
    case (Pair r w1)
    show ?thesis
    proof (cases r)
      case (Inl e)
      then show ?thesis by (simp add: Pair)
    next
      case (Inr s1)
      show ?thesis
      proof (cases "route_after n s1")
        case None
        then show ?thesis by (simp add: Pair Inr)
      next
        case (Some n1)
        then have "fst (kernel_loop k cx inp (Suc i) fuel n1 s1 w1) \<noteq> Exhausted"
          using Suc.prems by (auto simp: Pair Inr split: prod.splits)
        from Suc.IH [OF this] show ?thesis by (simp add: Pair Inr Some)
      qed
    qed
  qed
qed simp

lemma kernel_loop_ends:
  assumes "rows_executed (rw_db (kw_world w))" "6 \<le> fuel"
  shows "bounded 6 (fst (kernel_loop k cx inp 0 fuel PLANNER s w))"
proof -
  obtain rows where "kernel_loop k cx inp 0 fuel PLANNER s w =
      (fst (drive (kn_deps k cx) (ki_nodes inp) 0 fuel PLANNER s (kw_world w)),
       w\<lparr>kw_world := snd (drive (kn_deps k cx) (ki_nodes inp) 0 fuel PLANNER s (kw_world w)),
         kw_checkpoints := rows\<rparr>)"
    using kernel_loop_drives by blast
  then show ?thesis using run_graph_ends [OF assms] by simp
qed

text \<open>Six supersteps decide the outcome, however the graph ends.\<close>

lemma six_supersteps:
  assumes "rows_executed (rw_db (kw_world w))"
  shows "kernel_loop k cx inp 0 RECURSION_LIMIT PLANNER s w = kernel_loop k cx inp 0 6 PLANNER s w"
proof -
  have "fst (kernel_loop k cx inp 0 6 PLANNER s w) \<noteq> Exhausted"
    using kernel_loop_ends [OF assms, of 6 k cx inp s] by (auto simp: bounded_def)
  from kernel_loop_more_fuel [OF this, of "RECURSION_LIMIT - 6"] show ?thesis
    by (simp add: RECURSION_LIMIT_def)
qed

lemma drive_run_settles:
  assumes "run_driven cx w" and rows: "rows_executed (rw_db (kw_world w))"
    and kept: "find_incident (cx_tenant cx) (cx_incident cx) (snd (drive_run k cx inp s w)) = Inr incident"
  shows "settled_by (fst (kernel_loop k cx inp 0 6 PLANNER s w)) cx (ki_finished_at inp) incident
     (fst (drive_run k cx inp s w)) (snd (drive_run k cx inp s w))"
proof -
  let ?d = "drive (kn_deps k cx) (ki_nodes inp) 0 6 PLANNER s (kw_world w)"
  obtain rows' where loop: "kernel_loop k cx inp 0 6 PLANNER s w =
      (fst ?d, w\<lparr>kw_world := snd ?d, kw_checkpoints := rows'\<rparr>)"
    using kernel_loop_drives by blast
  let ?w = "w\<lparr>kw_world := snd ?d, kw_checkpoints := rows'\<rparr>"
  have b: "bounded 6 (fst ?d)" by (rule run_graph_ends [OF rows]) simp
  have d: "run_driven cx ?w" using assms(1) by (simp add: run_driven_cong [of ?w w])
  show ?thesis
  proof (cases "fst ?d")
    case (Raised e)
    have "drive_run k cx inp s w = (Inl e, mark_dead_letter cx ?w)"
      by (simp add: drive_run_def six_supersteps [OF rows] loop Raised)
    then show ?thesis
      using dead_letter_settles run_drivenD(1,2) [OF d] by (fastforce simp: loop Raised settled_by_def)
  next
    case Exhausted
    then show ?thesis using b by (simp add: bounded_def)
  next
    case (Finished nodes s')
    have run: "drive_run k cx inp s w = settle_run cx (ki_finished_at inp) nodes s' ?w"
      by (simp add: drive_run_def six_supersteps [OF rows] loop Finished)
    have "find_incident (cx_tenant cx) (cx_incident cx) ?w = Inr incident"
      using kept settle_run_world [of cx "ki_finished_at inp" nodes s' ?w]
      by (simp add: run find_incident_def)
    then obtain o' w' where "settle_run cx (ki_finished_at inp) nodes s' ?w = (Inr o', w')"
      "ro_terminated o' = rs_terminated s'" "ro_incident_status o' = ir_status incident"
      "ro_nodes o' = nodes" "settled (cx_tenant cx) (cx_run cx)
       (if rs_terminated s' then WorkflowRunStatus.COMPLETED else WorkflowRunStatus.SUSPENDED)
       (if rs_terminated s' then Some (ki_finished_at inp) else None) w'"
      using settle_run_settles [OF d] by blast
    then show ?thesis using b by (simp add: run loop Finished bounded_def settled_by_def)
  qed
qed

section \<open>Leases\<close>

lemma claim_lease_refused:
  assumes "run_of (wr_tenant r) (wr_id r) w = Some r" "distinct (map wr_id (kw_runs w))"
  shows "claim_lease owner now r w = Inl LeaseNotHeld \<longleftrightarrow> \<not> lease_free owner now r"
proof -
  have "list_ex (\<lambda>q. is_run (wr_tenant r) (wr_id r) q \<and> lease_free owner now q) (kw_runs w) \<longleftrightarrow>
      lease_free owner now r"
    using only_run [OF assms] run_ofD [OF assms(1)] by (auto simp: list_ex_iff)
  then show ?thesis by (simp add: claim_lease_def store_runs_def Let_def)
qed

lemma filter_one: "distinct xs \<Longrightarrow> x \<in> set xs \<Longrightarrow> (\<And>y. y \<in> set xs \<Longrightarrow> P y = (y = x)) \<Longrightarrow> filter P xs = [x]"
proof (induction xs)
  case (Cons y ys)
  then show ?case by (cases "y = x") (auto simp: filter_empty_conv)
qed simp

lemma unexpired_lease_excludes:
  assumes "run_of tenant run w = Some r" "distinct (map wr_id (kw_runs w))"
    and "wr_lease_owner r = Some other" "other \<noteq> kn_owner k"
    and "wr_lease_expires_at r = Some t" "ki_now inp \<le> t"
  shows "\<exists>e. resume_remediation k tenant run inp w = (Inl e, w)"
proof -
  have r: "r \<in> set (kw_runs w)" "wr_tenant r = tenant" "wr_id r = run"
    using run_ofD [OF assms(1)] by (simp_all add: is_run_def)
  then have "claim_lease (kn_owner k) (ki_now inp) r w = Inl LeaseNotHeld"
    using claim_lease_refused [of r w] assms by (simp add: lease_free_def)
  moreover have "filter (is_run tenant run) (kw_runs w) = [r]"
    using assms(2) r(1) only_run [OF assms(1,2)] by (intro filter_one) (auto simp: distinct_map)
  ultimately have "reopen_run k tenant run (ki_now inp) w \<in> {Inl DomainError, Inl LeaseNotHeld}"
    by (simp add: reopen_run_def scalar_one_or_none_def)
  then show ?thesis by (auto simp: resume_remediation_def)
qed

lemma claimed_lease:
  assumes "run_of (wr_tenant r) (wr_id r) w = Some r" "distinct (map wr_id (kw_runs w))"
    and "claim_lease owner now r w = Inr w1"
  shows "run_of (wr_tenant r) (wr_id r) w1 = Some (r\<lparr>wr_lease_owner := Some owner,
      wr_lease_expires_at := Some (now + LEASE_DURATION)\<rparr>)"
    and "distinct (map wr_id (kw_runs w1))"
proof -
  let ?f = "\<lambda>r. r\<lparr>wr_lease_owner := Some owner, wr_lease_expires_at := Some (now + LEASE_DURATION)\<rparr>"
  let ?target = "\<lambda>q. is_run (wr_tenant r) (wr_id r) q \<and> lease_free owner now q"
  have "lease_free owner now r"
    using assms(3) only_run [OF assms(1,2)] by (auto simp: claim_lease_def list_ex_iff Let_def split: if_splits)
  then have target: "\<forall>q \<in> set (kw_runs w). ?target q = is_run (wr_tenant r) (wr_id r) q"
    using only_run [OF assms(1,2)] by blast
  have runs: "kw_runs w1 = map (\<lambda>q. if ?target q then ?f q else q) (kw_runs w)"
    using assms(3) by (auto simp: claim_lease_def store_runs_def Let_def split: if_splits)
  also have "\<dots> = map (\<lambda>q. if is_run (wr_tenant r) (wr_id r) q then ?f q else q) (kw_runs w)"
    using target by (intro map_cong) auto
  finally have w1: "run_of (wr_tenant r) (wr_id r) w1 = run_of (wr_tenant r) (wr_id r)
      (w\<lparr>kw_runs := map (\<lambda>q. if is_run (wr_tenant r) (wr_id r) q then ?f q else q) (kw_runs w)\<rparr>)"
    by (simp add: run_of_def)
  show "run_of (wr_tenant r) (wr_id r) w1 = Some (?f r)"
    unfolding w1 using assms(1) by (intro run_of_update) (simp_all add: is_run_def)
  have "map wr_id (kw_runs w1) = map wr_id (kw_runs w)"
    unfolding runs map_map by (rule map_cong) simp_all
  then show "distinct (map wr_id (kw_runs w1))" using assms(2) by simp
qed

text \<open>Settling compares no lease: a worker whose lease was lost settles the run all the same.\<close>

lemma stale_suspend:
  assumes "runs_allowed (kw_runs w)" "run_of (cx_tenant cx) (cx_run cx) w = Some r"
    and "distinct (map wr_id (kw_runs w))"
    and "\<forall>q \<in> set (kw_runs w). wr_tenant q = wr_tenant r \<and> wr_incident q = wr_incident r \<longrightarrow> \<not> run_active q"
  shows "\<exists>w'. suspend cx w = Inr w' \<and>
    settled (cx_tenant cx) (cx_run cx) WorkflowRunStatus.SUSPENDED None w'"
proof -
  let ?t = "cx_tenant cx" and ?r = "cx_run cx"
  let ?f = "\<lambda>r. r\<lparr>wr_status := WorkflowRunStatus.SUSPENDED, wr_lease_owner := None,
    wr_lease_expires_at := None\<rparr>"
  let ?key = "\<lambda>r. (wr_tenant r, wr_incident r)"
  let ?g = "\<lambda>r. if is_run ?t ?r r then ?f r else r"
  have r: "r \<in> set (kw_runs w)" "is_run ?t ?r r" using run_ofD [OF assms(2)] by simp_all
  obtain xs ys where split: "kw_runs w = xs @ r # ys" using split_list [OF r(1)] by blast
  have "\<forall>q \<in> set (xs @ ys). ?g q = q"
    using assms(3) only_run [OF assms(2,3)] by (auto simp: split)
  then have rows: "map ?g (kw_runs w) = xs @ ?f r # ys"
    using r(2) by (auto simp: split intro: map_idI)
  have "distinct (map ?key (filter run_active (xs @ ?f r # ys)))"
  proof -
    have "distinct (map ?key (filter run_active (xs @ ys)))"
      using assms(1) by (auto simp: runs_allowed_def split split: if_splits)
    moreover have "?key r \<notin> ?key ` set (filter run_active (xs @ ys))"
      using assms(4) by (auto simp: split)
    ultimately show ?thesis by auto
  qed
  then have "runs_allowed (map ?g (kw_runs w))"
    unfolding rows using assms(1) by (simp add: runs_allowed_def split)
  then have "suspend cx w = Inr (w\<lparr>kw_runs := map ?g (kw_runs w)\<rparr>)"
    by (simp add: suspend_def update_run_def store_runs_def)
  moreover have "run_of ?t ?r (w\<lparr>kw_runs := map ?g (kw_runs w)\<rparr>) = Some (?f r)"
    using assms(2) by (intro run_of_update) (simp_all add: is_run_def)
  ultimately show ?thesis by (simp add: settled_def)
qed

section \<open>What a started and a resumed run rest on\<close>

definition pending_request :: "start_args \<Rightarrow> kernel_request \<Rightarrow> bool" where
  "pending_request a q \<longleftrightarrow>
     sa_request a = Some (kr_id q) \<and> kr_tenant q = sa_tenant a \<and> kr_incident q = sa_incident a \<and>
     kr_hypothesis q = sa_hypothesis a \<and> kr_service q = sa_service a \<and>
     kr_run q = None \<and> kr_status q = ''pending''"

lemma linked_requestD:
  "linked_request a w = Inr u \<Longrightarrow> sa_request a = None \<or> list_ex (pending_request a) (kw_requests w)"
  by (auto simp: linked_request_def pending_request_def list_ex_iff split: option.splits
      dest!: find_SomeD)

lemma live_hypothesisD:
  "live_hypothesis a w = Inr h \<Longrightarrow>
   h \<in> set (rw_hypotheses (kw_world w)) \<and> hy_tenant h = sa_tenant a \<and> hy_id h = sa_hypothesis a \<and>
   hy_incident h = sa_incident a \<and> hy_status h \<in> {HypothesisStatus.PROPOSED, HypothesisStatus.ACCEPTED}"
  by (auto simp: live_hypothesis_def andThen_eq_Inr scalar_one_or_none_eq split: option.splits if_splits
      dest!: filter_singleton)

lemma add_runD:
  "add_run k a inp w = Inr w1 \<Longrightarrow>
   runs_allowed (kw_runs w1) \<and> kw_requests w1 = kw_requests w \<and> kw_checkpoints w1 = kw_checkpoints w \<and>
   kw_runs w1 = kw_runs w @
     [\<lparr>wr_id = ki_run inp, wr_tenant = sa_tenant a, wr_incident = sa_incident a,
       wr_behaviour = sa_behaviour a, wr_status = WorkflowRunStatus.RUNNING,
       wr_started_at = ki_now inp, wr_completed_at = None, wr_lease_owner = Some (kn_owner k),
       wr_lease_expires_at = Some (ki_now inp + LEASE_DURATION)\<rparr>]"
  by (auto simp: add_run_def store_runs_def andThen_eq_Inr split: if_splits)

lemma link_request_fields [simp]:
  "kw_runs (link_request a run w) = kw_runs w" "kw_checkpoints (link_request a run w) = kw_checkpoints w"
  "kw_requests (link_request a run w) = map (\<lambda>r. if kr_tenant r = sa_tenant a \<and> sa_request a = Some (kr_id r)
     then r\<lparr>kr_run := Some run, kr_status := ''started'', kr_last_error := None\<rparr> else r) (kw_requests w)"
  by (auto simp: link_request_def store_requests_def split: option.splits intro!: map_cong)

lemma add_target_fields [simp]:
  "kw_runs (add_target a inp h e srv w) = kw_runs w"
  "kw_requests (add_target a inp h e srv w) = kw_requests w"
  "kw_checkpoints (add_target a inp h e srv w) = kw_checkpoints w"
  by (simp_all add: add_target_def)

lemma opened_world:
  assumes "add_run k a inp w = Inr w1"
  shows "world_services w1 = world_services w"
    and "rd_targets (rw_db (kw_world (add_target a inp h e srv (link_request a run w1)))) =
      rd_targets (rw_db (kw_world w)) @
         [\<lparr>tg_id = ki_target inp, tg_tenant = sa_tenant a, tg_run = ki_run inp,
           tg_incident = sa_incident a, tg_hypothesis = hy_id h, tg_service = srv_id srv,
           tg_environment = env_id e,
           tg_scope = frozen_scope (sa_tenant a) (env_name e) (srv_name srv) (srv_namespaces srv)\<rparr>]"
proof -
  have link: "rd_targets (rw_db (kw_world (link_request a run w1))) = rd_targets (rw_db (kw_world w1))"
    by (simp add: link_request_def store_requests_def split: option.splits)
  show "world_services w1 = world_services w"
    using assms by (auto simp: add_run_def store_runs_def andThen_eq_Inr world_services_def split: if_splits)
  have "rd_targets (rw_db (kw_world w1)) = rd_targets (rw_db (kw_world w))"
    using assms by (auto simp: add_run_def store_runs_def andThen_eq_Inr rw_db_def split: if_splits)
  then show "rd_targets (rw_db (kw_world (add_target a inp h e srv (link_request a run w1)))) =
      rd_targets (rw_db (kw_world w)) @
         [\<lparr>tg_id = ki_target inp, tg_tenant = sa_tenant a, tg_run = ki_run inp,
           tg_incident = sa_incident a, tg_hypothesis = hy_id h, tg_service = srv_id srv,
           tg_environment = env_id e,
           tg_scope = frozen_scope (sa_tenant a) (env_name e) (srv_name srv) (srv_namespaces srv)\<rparr>]"
    by (simp add: add_target_def link)
qed

text \<open>
  The objective says what the rows selected by the arguments say: the service of the request, the
  environment of the incident and a live hypothesis of it.
\<close>

definition bound_objective :: "start_args \<Rightarrow> kernel_world \<Rightarrow> RemediationObjective \<Rightarrow> bool" where
  "bound_objective a w ob \<longleftrightarrow>
     ob_tenant ob = sa_tenant a \<and> ob_incident ob = sa_incident a \<and>
     (\<exists>h \<in> set (rw_hypotheses (kw_world w)). hy_tenant h = sa_tenant a \<and> hy_id h = sa_hypothesis a \<and>
        hy_incident h = sa_incident a \<and>
        (hy_status h = HypothesisStatus.PROPOSED \<or> hy_status h = HypothesisStatus.ACCEPTED) \<and>
        ob_hypothesis ob = hy_id h \<and> ob_investigation_run ob = hy_run h) \<and>
     (\<exists>srv \<in> set (world_services w). srv_tenant srv = sa_tenant a \<and> srv_id srv = sa_service a \<and>
        ob_service ob = srv_id srv \<and> ob_service_name ob = srv_name srv \<and>
        dict_get (ob_scope ob) ''service'' = PStr (srv_name srv)) \<and>
     (\<exists>e \<in> set (rd_environments (rw_db (kw_world w))). env_tenant e = sa_tenant a \<and>
        environment_of (sa_tenant a) (sa_incident a) w = Some (env_id e) \<and>
        ob_environment ob = env_id e \<and> ob_environment_name ob = env_name e \<and>
        ob_is_production ob = env_is_production e \<and>
        dict_get (ob_scope ob) ''environment'' = PStr (env_name e)) \<and>
     dict_get (ob_scope ob) ''tenant_id'' = PStr (sa_tenant a)"

text \<open>The stored target repeats the objective.\<close>

definition target_of_objective :: "RemediationObjective \<Rightarrow> target_row \<Rightarrow> bool" where
  "target_of_objective ob t \<longleftrightarrow>
     tg_tenant t = ob_tenant ob \<and> tg_run t = ob_run ob \<and> tg_incident t = ob_incident ob \<and>
     tg_hypothesis t = ob_hypothesis ob \<and> tg_service t = ob_service ob \<and>
     tg_environment t = ob_environment ob \<and> tg_scope t = ob_scope ob"

lemma open_run_justified:
  assumes "open_run k a inp w = Inr (cx, w')"
  shows "(\<exists>incident. find_incident (sa_tenant a) (sa_incident a) w = Inr incident \<and>
        ir_status incident = IncidentStatus.INVESTIGATING)"
    and "sa_behaviour a \<in> set (kw_behaviours w)"
    and "(sa_tenant a, sa_incident a, sa_service a) \<in> set (kw_alerts w)"
    and "sa_request a = None \<or> list_ex (pending_request a) (kw_requests w)"
    and "bound_objective a w (cx_objective cx)"
    and "\<exists>t. rd_targets (rw_db (kw_world w')) = rd_targets (rw_db (kw_world w)) @ [t] \<and>
        target_of_objective (cx_objective cx) t"
    and "runs_allowed (kw_runs w')"
    and "list_all (\<lambda>q. kr_tenant q = sa_tenant a \<and> sa_request a = Some (kr_id q) \<longrightarrow>
        kr_run q = Some (ki_run inp) \<and> kr_status q = ''started'') (kw_requests w')"
    and "\<exists>r. kw_runs w' = kw_runs w @ [r] \<and> wr_id r = ki_run inp \<and> wr_tenant r = sa_tenant a \<and>
        wr_incident r = sa_incident a \<and> wr_behaviour r = sa_behaviour a \<and>
        wr_status r = WorkflowRunStatus.RUNNING \<and> wr_lease_owner r = Some (kn_owner k)"
proof -
  from assms obtain incident h environment scope e w1 srv rows u where
    u: "linked_request a w = Inr u"
    and i: "find_incident (sa_tenant a) (sa_incident a) w = Inr incident"
      "ir_status incident = IncidentStatus.INVESTIGATING"
    and h: "live_hypothesis a w = Inr h"
    and al: "sa_behaviour a \<in> set (kw_behaviours w)"
      "(sa_tenant a, sa_incident a, sa_service a) \<in> set (kw_alerts w)"
    and env: "environment_of (sa_tenant a) (sa_incident a) w = Some environment"
      "find_environment (sa_tenant a) environment w = Inr e"
    and w1: "add_run k a inp w = Inr w1"
    and srv: "find_service (sa_tenant a) (sa_service a) w1 = Inr srv"
    and cx: "cx = start_context a inp h scope e srv"
    and w': "w' = (add_target a inp h e srv (link_request a (ki_run inp) w1))\<lparr>kw_checkpoints := rows\<rparr>"
    unfolding open_run_def
    by (auto simp: andThen_eq_Inr Let_def split: option.splits)
  have e: "e \<in> set (rd_environments (rw_db (kw_world w)))" "env_tenant e = sa_tenant a" "env_id e = environment"
    using env(2) filter_singleton by (fastforce simp: find_environment_def query_simps)+
  have s: "srv \<in> set (world_services w)" "srv_tenant srv = sa_tenant a" "srv_id srv = sa_service a"
    using srv opened_world(1) [OF w1] filter_singleton by (fastforce simp: find_service_def query_simps)+
  show "\<exists>incident. find_incident (sa_tenant a) (sa_incident a) w = Inr incident \<and>
      ir_status incident = IncidentStatus.INVESTIGATING"
    "sa_behaviour a \<in> set (kw_behaviours w)"
    "(sa_tenant a, sa_incident a, sa_service a) \<in> set (kw_alerts w)" using i al by auto
  show "sa_request a = None \<or> list_ex (pending_request a) (kw_requests w)" by (rule linked_requestD [OF u])
  show "bound_objective a w (cx_objective cx)"
    unfolding bound_objective_def
    by (intro conjI bexI [OF _ e(1)] bexI [OF _ s(1)] bexI [OF _ conjunct1 [OF live_hypothesisD [OF h]]])
      (use live_hypothesisD [OF h] e(2,3) s(2,3) env(1) in
        \<open>auto simp: cx start_context_def frozen_scope_def dict_get_def\<close>)
  show "\<exists>t. rd_targets (rw_db (kw_world w')) = rd_targets (rw_db (kw_world w)) @ [t] \<and>
      target_of_objective (cx_objective cx) t"
    by (simp add: w' opened_world(2) [OF w1] target_of_objective_def cx start_context_def)
  show "runs_allowed (kw_runs w')" using conjunct1 [OF add_runD [OF w1]] by (simp add: w')
  show "list_all (\<lambda>q. kr_tenant q = sa_tenant a \<and> sa_request a = Some (kr_id q) \<longrightarrow>
        kr_run q = Some (ki_run inp) \<and> kr_status q = ''started'') (kw_requests w')"
    by (auto simp: w' list_all_iff)
  show "\<exists>r. kw_runs w' = kw_runs w @ [r] \<and> wr_id r = ki_run inp \<and> wr_tenant r = sa_tenant a \<and>
      wr_incident r = sa_incident a \<and> wr_behaviour r = sa_behaviour a \<and>
      wr_status r = WorkflowRunStatus.RUNNING \<and> wr_lease_owner r = Some (kn_owner k)"
    using add_runD [OF w1] by (simp add: w')
qed

lemma claim_leaseD:
  assumes "claim_lease owner now r w = Inr w1"
  shows "kw_world w1 = kw_world w \<and> kw_checkpoints w1 = kw_checkpoints w \<and>
    list_ex (\<lambda>q. is_run (wr_tenant r) (wr_id r) q \<and> lease_free owner now q) (kw_runs w)"
  using assms by (auto simp: claim_lease_def store_runs_def Let_def split: if_splits)

lemma reopen_run_rests_on:
  assumes "reopen_run k tenant run now w = Inr (cx, s, w')"
  obtains r w1 c where
    "is_run tenant run r" "wr_status r \<notin> {WorkflowRunStatus.COMPLETED, WorkflowRunStatus.FAILED}"
    "claim_lease (kn_owner k) now r w = Inr w1" "reopen_context tenant r w1 = Inr (cx, c)"
    "rehydrate (kn_keys k) c (cx_identity cx) (kw_world w) = Inr s" "kw_world w' = kw_world w"
  using assms claim_leaseD unfolding reopen_run_def
  by (auto simp: andThen_eq_Inr scalar_one_or_none_eq update_run_def store_runs_def
      split: option.splits if_splits dest!: filter_singleton)

lemma reopen_contextD:
  assumes "reopen_context tenant r w = Inr (cx, c)"
  shows "latest_checkpoint tenant (wr_id r) (kw_checkpoints w) = Some c"
    and "cx_tenant cx = tenant" "cx_run cx = wr_id r" "cx_incident cx = wr_incident r"
    and "\<exists>t \<in> set (rd_targets (rw_db (kw_world w))). tg_run t = wr_id r \<and> tg_tenant t = tenant \<and>
      tg_incident t = wr_incident r \<and> ob_hypothesis (cx_objective cx) = tg_hypothesis t \<and>
      ob_service (cx_objective cx) = tg_service t \<and> ob_environment (cx_objective cx) = tg_environment t \<and>
      py_eq (PDict (ob_scope (cx_objective cx))) (PDict (tg_scope t))"
proof -
  from assms obtain trace t scope e h where
    c: "latest_checkpoint tenant (wr_id r) (kw_checkpoints w) = Some c"
    and t: "filter (\<lambda>t. tg_tenant t = tenant \<and> tg_run t = wr_id r \<and> tg_incident t = wr_incident r)
        (rd_targets (rw_db (kw_world w))) = [t]"
    and h: "bound_hypothesis tenant t w = Inr h"
    and last: "checked_context tenant r trace t scope e h = Inr cx"
    unfolding reopen_context_def
    by (auto simp: andThen_eq_Inr scalar_one_or_none_eq split: option.splits)
  from last obtain srv where
    eq: "py_eq (PDict (frozen_scope tenant (env_name e) (sv_name srv) (sv_namespaces srv)))
        (PDict (tg_scope t))"
    and cx: "cx = resume_context tenant r trace t scope e h srv"
    unfolding checked_context_def
    by (cases "is_services scope") (auto simp del: py_eq.simps split: if_splits)
  show "latest_checkpoint tenant (wr_id r) (kw_checkpoints w) = Some c" by (rule c)
  show "cx_tenant cx = tenant" "cx_run cx = wr_id r" "cx_incident cx = wr_incident r"
    by (simp_all add: cx resume_context_def)
  have "hy_id h = tg_hypothesis t"
    using h by (auto simp: bound_hypothesis_def andThen_eq_Inr scalar_one_or_none_eq
        split: option.splits dest!: filter_singleton)
  then show "\<exists>t \<in> set (rd_targets (rw_db (kw_world w))). tg_run t = wr_id r \<and> tg_tenant t = tenant \<and>
      tg_incident t = wr_incident r \<and> ob_hypothesis (cx_objective cx) = tg_hypothesis t \<and>
      ob_service (cx_objective cx) = tg_service t \<and> ob_environment (cx_objective cx) = tg_environment t \<and>
      py_eq (PDict (ob_scope (cx_objective cx))) (PDict (tg_scope t))"
    using filter_singleton [OF t] eq
    by (intro bexI [of _ t]) (simp_all add: cx resume_context_def del: py_eq.simps)
qed

end
