(* ===== verification/Investigation_Checkpoint.thy ===== *)
theory Investigation_Checkpoint
  imports Evidence_Collector Remediation_Kernel
begin

text \<open>
  Checkpoints of an investigation, \<open>src/asic/orchestration/checkpoint.py\<close>: the ephemeral
  remainder of the graph state, the counts of durable rows, and the state a resumed run is rebuilt
  to. The remainder is kept as the typed values it is dumped from; its JSON text with the digest
  over it is one parameter. The tables of an investigation are gathered in one world, which the
  kernel shares. The lemmas: sequence numbers have no gap, a rebuilt state takes rows from the
  tables and the rest from the newest checkpoint, and a step that was planned but never collected
  counts as collected after a resume.
\<close>

section \<open>The tables of an investigation\<close>

record inv_world =
  iw_broker :: broker_state
  iw_steps :: "step_row list"
  iw_evidence :: "collected_evidence list"
  iw_hypotheses :: "inv_hypothesis list"
  iw_links :: "inv_link list"
  iw_knowledge :: knowledge_db
  iw_models :: model_db
  iw_log :: log_db
  iw_runs :: "run_row list"
  iw_traces :: "trace_row list"

section \<open>The state of a run\<close>

text \<open>What the nodes read, with the keys only the kernel reads. No approval is ever pending.\<close>

record run_state =
  us_nodes :: inv_state
  us_phase :: InvestigationPhase
  us_resumed :: int
  us_terminated :: bool
  us_reason :: "string option"
  us_rule :: "string option"
  us_status :: "string option"

record ephemeral =
  ep_phase :: InvestigationPhase
  ep_iteration :: int
  ep_resumed :: int
  ep_open_gaps :: "string list"
  ep_covered :: "string list"
  ep_degraded :: "string list"
  ep_menu :: "string list"
  ep_decision :: "PlannerDecisionRef option"
  ep_reflection :: "ReflectionDecisionRef option"
  ep_budget :: "BudgetSnapshot option"
  ep_refusal :: "string option"
  ep_terminated :: bool
  ep_reason :: "string option"
  ep_rule :: "string option"
  ep_status :: "string option"

definition inv_serialise :: "run_state \<Rightarrow> ephemeral" where
  "inv_serialise s =
     (let n = us_nodes s in
      \<lparr>ep_phase = us_phase s, ep_iteration = es_iteration n, ep_resumed = us_resumed s,
       ep_open_gaps = es_open_gaps n, ep_covered = es_covered n, ep_degraded = es_degraded n,
       ep_menu = gs_menu n, ep_decision = gs_decision n, ep_reflection = gs_reflection n,
       ep_budget = es_budget n, ep_refusal = gs_refusal n, ep_terminated = us_terminated s,
       ep_reason = us_reason s, ep_rule = us_rule s, ep_status = us_status s\<rparr>)"

record DurableCounts =
  dc_steps :: nat
  dc_evidence :: nat
  dc_hypotheses :: nat

record inv_checkpoint =
  ic_tenant :: string
  ic_run :: string
  ic_incident :: string
  ic_sequence :: nat
  ic_after_node :: "string option"
  ic_reason :: string
  ic_state :: ephemeral
  ic_digest :: string
  ic_counts :: DurableCounts
  ic_budget :: "num_dict \<times> num_dict"
  ic_behaviour :: string
  ic_correlation :: string
  ic_taken_at :: int

section \<open>Rows of a run\<close>

definition run_steps :: "string \<Rightarrow> string \<Rightarrow> inv_world \<Rightarrow> step_row list" where
  "run_steps tenant run w = filter (\<lambda>q. sp_tenant q = tenant \<and> sp_run q = run) (iw_steps w)"

definition run_evidence :: "string \<Rightarrow> string \<Rightarrow> inv_world \<Rightarrow> collected_evidence list" where
  "run_evidence tenant run w =
     filter (\<lambda>e. ev_tenant e = tenant \<and> ce_step e \<in> Some ` sp_id ` set (run_steps tenant run w))
       (iw_evidence w)"

definition run_hypotheses :: "string \<Rightarrow> string \<Rightarrow> inv_world \<Rightarrow> inv_hypothesis list" where
  "run_hypotheses tenant run w =
     filter (\<lambda>h. hy_tenant h = tenant \<and> hy_run h = run) (iw_hypotheses w)"

definition count_durable :: "string \<Rightarrow> string \<Rightarrow> inv_world \<Rightarrow> DurableCounts" where
  "count_durable tenant run w =
     \<lparr>dc_steps = length (run_steps tenant run w), dc_evidence = length (run_evidence tenant run w),
      dc_hypotheses = length (run_hypotheses tenant run w)\<rparr>"

definition load_steps :: "string \<Rightarrow> string \<Rightarrow> inv_world \<Rightarrow> StepRef list" where
  "load_steps tenant run w =
     map (\<lambda>q. \<lparr>step_id = sp_id q, step_sequence = int (sp_sequence q), step_domain = sp_domain q,
              step_gap = py_strip (sp_gap q), step_status = sp_status q,
              step_evidence_count = int (length (filter (\<lambda>e. ev_tenant e = tenant \<and>
                ce_step e = Some (sp_id q)) (iw_evidence w))),
              degradation_reason = map_option py_strip (sp_degradation q)\<rparr>)
       (sort_key sp_sequence (run_steps tenant run w))"

definition load_evidence :: "string \<Rightarrow> string \<Rightarrow> inv_world \<Rightarrow> EvidenceRef list" where
  "load_evidence tenant run w =
     map evidence_reference (sort_key ev_gathered_at (sort_key ev_id (run_evidence tenant run w)))"

definition relation_count :: "string \<Rightarrow> string \<Rightarrow> bool \<Rightarrow> inv_world \<Rightarrow> int" where
  "relation_count tenant hypothesis supports w =
     int (length (filter (\<lambda>l. il_tenant l = tenant \<and> hl_hypothesis l = hypothesis \<and>
       (hl_relation l = EvidenceRelation.SUPPORTS) = supports) (iw_links w)))"

definition load_hypotheses :: "string \<Rightarrow> string \<Rightarrow> inv_world \<Rightarrow> HypothesisRef list" where
  "load_hypotheses tenant run w =
     map (\<lambda>h. \<lparr>hypothesis_id = hy_id h, hyp_rank = ih_rank h,
              root_cause_class = py_strip (hy_class h), confidence = hy_confidence h,
              hyp_status = hy_status h,
              supporting_evidence_count = relation_count tenant (hy_id h) True w,
              contradicting_evidence_count = relation_count tenant (hy_id h) False w,
              remaining_gaps = map py_strip (ih_gaps h)\<rparr>)
       (sort_key ih_rank (run_hypotheses tenant run w))"

section \<open>Writing\<close>

definition inv_checkpoints :: "string \<Rightarrow> string \<Rightarrow> inv_checkpoint list \<Rightarrow> inv_checkpoint list" where
  "inv_checkpoints tenant run rows = filter (\<lambda>c. ic_tenant c = tenant \<and> ic_run c = run) rows"

definition inv_high_water :: "string \<Rightarrow> string \<Rightarrow> inv_checkpoint list \<Rightarrow> nat" where
  "inv_high_water tenant run rows = fold max (map ic_sequence (inv_checkpoints tenant run rows)) 0"

definition write_inv_checkpoint ::
  "(ephemeral \<Rightarrow> string) \<Rightarrow> RunIdentity \<Rightarrow> string \<Rightarrow> run_state \<Rightarrow> string \<Rightarrow> string option \<Rightarrow> BudgetState \<Rightarrow>
   int \<Rightarrow> inv_world \<Rightarrow> inv_checkpoint list \<Rightarrow> (py_error, inv_checkpoint list) result" where
  "write_inv_checkpoint digest_of identity correlation s reason after_node budget now w rows =
     (let tenant = ri_tenant_id identity; run = ri_workflow_run_id identity in
      if reason \<notin> set CHECKPOINT_REASONS then Inl ValueError
      else andThen (scalar_one (filter (is_run tenant run) (iw_runs w))) (\<lambda>_.
        Inr (rows @
          [\<lparr>ic_tenant = tenant, ic_run = run, ic_incident = ri_incident_id identity,
            ic_sequence = inv_high_water tenant run rows + 1, ic_after_node = after_node,
            ic_reason = reason, ic_state = inv_serialise s, ic_digest = digest_of (inv_serialise s),
            ic_counts = count_durable tenant run w, ic_budget = budget_to_dict budget,
            ic_behaviour = ri_behaviour_version_id identity, ic_correlation = correlation,
            ic_taken_at = now\<rparr>])))"

definition latest_inv_checkpoint ::
  "string \<Rightarrow> string \<Rightarrow> inv_checkpoint list \<Rightarrow> inv_checkpoint option" where
  "latest_inv_checkpoint tenant run rows =
     newest (\<lambda>c. int (ic_sequence c)) (inv_checkpoints tenant run rows)"

definition sequence_gaps :: "string \<Rightarrow> string \<Rightarrow> inv_checkpoint list \<Rightarrow> nat list" where
  "sequence_gaps tenant run rows =
     missing_numbers (sort (map ic_sequence (inv_checkpoints tenant run rows)))"

section \<open>Rebuilding the state\<close>

record RehydrationReport =
  rr_sequence :: nat
  rr_expected :: DurableCounts
  rr_observed :: DurableCounts

definition diverged :: "RehydrationReport \<Rightarrow> bool" where
  "diverged r \<longleftrightarrow> rr_expected r \<noteq> rr_observed r"

definition rebuilt_nodes :: "string \<Rightarrow> string \<Rightarrow> inv_world \<Rightarrow> ephemeral \<Rightarrow> inv_state" where
  "rebuilt_nodes tenant run w e =
     (let steps = load_steps tenant run w in
      \<lparr>es_evidence = load_evidence tenant run w, es_hypotheses = load_hypotheses tenant run w,
       es_open_gaps = ep_open_gaps e,
       es_covered = sorted_texts (map (\<lambda>s. EvidenceDomain_value (step_domain s)) steps),
       es_degraded = ep_degraded e, es_iteration = ep_iteration e,
       es_budget = Some (case ep_budget e of
          None \<Rightarrow> \<lparr>bs_consumed = Map.empty, bs_remaining = Map.empty, bs_exhausted_kind = None\<rparr> | Some b \<Rightarrow> b),
       gs_failures = [], gs_decision = ep_decision e, gs_reflection = ep_reflection e,
       gs_refusal = ep_refusal e, gs_steps = steps, gs_menu = ep_menu e\<rparr>)"

definition inv_rehydrate ::
  "(ephemeral \<Rightarrow> string) \<Rightarrow> inv_checkpoint \<Rightarrow> RunIdentity \<Rightarrow> inv_world \<Rightarrow>
   (py_error, run_state \<times> RehydrationReport) result" where
  "inv_rehydrate digest_of c identity w =
     (let e = ic_state c; tenant = ri_tenant_id identity; run = ri_workflow_run_id identity in
      if digest_of e \<noteq> ic_digest c then Inl CheckpointIntegrityError
      else Inr (\<lparr>us_nodes = rebuilt_nodes tenant run w e, us_phase = ep_phase e,
                 us_resumed = ep_resumed e + 1, us_terminated = ep_terminated e,
                 us_reason = ep_reason e, us_rule = ep_rule e, us_status = ep_status e\<rparr>,
               \<lparr>rr_sequence = ic_sequence c, rr_expected = ic_counts c,
                rr_observed = count_durable tenant run w\<rparr>))"

section \<open>Facts\<close>

definition inv_numbers :: "string \<Rightarrow> string \<Rightarrow> inv_checkpoint list \<Rightarrow> nat list" where
  "inv_numbers tenant run rows = map ic_sequence (inv_checkpoints tenant run rows)"

definition inv_checkpoint_step :: "inv_checkpoint list \<Rightarrow> inv_checkpoint list \<Rightarrow> bool" where
  "inv_checkpoint_step rows rows' \<longleftrightarrow>
     (\<exists>digest_of identity correlation s reason after budget now w.
        write_inv_checkpoint digest_of identity correlation s reason after budget now w rows = Inr rows')"

definition inv_gapless :: "inv_checkpoint list \<Rightarrow> bool" where
  "inv_gapless rows \<longleftrightarrow> (\<forall>tenant run. gapless (inv_numbers tenant run rows))"

lemma inv_high_water_gapless:
  assumes "gapless (inv_numbers tenant run rows)"
  shows "inv_high_water tenant run rows = length (inv_numbers tenant run rows)"
proof -
  let ?n = "length (inv_numbers tenant run rows)"
  have "set (inv_numbers tenant run rows) = {1..?n}" using assms by (rule gapless_set)
  then have "inv_high_water tenant run rows = Max (insert 0 {1..?n})"
    by (simp add: inv_high_water_def fold_max inv_numbers_def)
  also have "\<dots> = ?n" by (cases ?n) (auto intro!: Max_eqI)
  finally show ?thesis .
qed

lemma inv_checkpoint_step_numbers:
  assumes "inv_gapless rows" "inv_checkpoint_step rows rows'"
  shows "inv_numbers t r rows' = inv_numbers t r rows \<or>
    inv_numbers t r rows' = inv_numbers t r rows @ [Suc (length (inv_numbers t r rows))]"
  using assms inv_high_water_gapless
  by (auto simp: inv_checkpoint_step_def write_inv_checkpoint_def Let_def andThen_eq_Inr inv_gapless_def
      inv_numbers_def inv_checkpoints_def split: if_splits)

interpretation inv_checkpoint_log: seq_log "inv_numbers tenant run" inv_checkpoint_step inv_gapless
proof
  fix s t assume inv: "inv_gapless s" and step: "inv_checkpoint_step s t"
  show "inv_gapless t"
    unfolding inv_gapless_def
  proof (intro allI)
    fix tenant run
    have "gapless (inv_numbers tenant run s)" using inv by (simp add: inv_gapless_def)
    then show "gapless (inv_numbers tenant run t)"
      using inv_checkpoint_step_numbers [OF inv step, of tenant run] by (metis gapless_append)
  qed
qed (use inv_checkpoint_step_numbers in \<open>auto simp: inv_gapless_def\<close>)

lemma rebuilt_from_rows:
  assumes "inv_rehydrate digest_of c identity w = Inr (s, report)"
  shows "us_nodes s = rebuilt_nodes (ri_tenant_id identity) (ri_workflow_run_id identity) w (ic_state c)"
    and "digest_of (ic_state c) = ic_digest c"
  using assms by (auto simp: inv_rehydrate_def Let_def split: if_splits)

text \<open>Any step row of the run, whatever became of it, marks its domain and its gap as seen.\<close>

lemma stored_step_is_seen:
  assumes "q \<in> set (run_steps tenant run w)"
  shows "EvidenceDomain_value (sp_domain q) \<in> set (es_covered (rebuilt_nodes tenant run w e))"
    and "py_strip (sp_gap q) \<in> step_gap ` set (gs_steps (rebuilt_nodes tenant run w e))"
  using assms by (force simp: rebuilt_nodes_def Let_def load_steps_def sorted_texts_def)+

lemma planned_step_not_repeated:
  assumes "inv_rehydrate digest_of c identity w = Inr (s, report)"
    and "q \<in> set (run_steps (ri_tenant_id identity) (ri_workflow_run_id identity) w)"
    and "pl_action p = PlannerAction.COLLECT_EVIDENCE" "pl_domain p = Some (sp_domain q)"
    and "pl_gap p = py_strip (sp_gap q)" "sp_domain q \<in> set available"
  shows "apply_guards p (us_nodes s) available =
    (p\<lparr>pl_action := PlannerAction.FORM_HYPOTHESIS\<rparr>, Some (DomainAlreadyCollected (sp_domain q)))"
  using assms(3-6) stored_step_is_seen [OF assms(2), of "ic_state c"]
  by (simp add: apply_guards_def rebuilt_from_rows(1) [OF assms(1)])

end
