(* ===== verification/Engine_Scenario.thy ===== *)
theory Engine_Scenario
  imports Investigation_Graph
begin

text \<open>
  A concrete run of the hypothesis engine: one LOGS record, one draft that cites \<open>ALL\<close> with full
  confidence, and a model whose answer decodes to it. The facts say what each stage computes; the
  witness of the engine's property puts them together.
\<close>

definition the_engine_deps :: engine_deps where
  "the_engine_deps = \<lparr>en_tenant = ''t'', en_incident = ''i'', en_run = ''r'', en_new_id = int_digits\<rparr>"

definition the_draft :: HypothesisDraft where
  "the_draft = \<lparr>hd_statement = ''leak'', hd_class = ''capacity'', hd_confidence = 1,
     hd_supporting = [''ALL''], hd_contradicting = [], hd_gaps = []\<rparr>"

definition the_output :: HypothesisOutput where
  "the_output = \<lparr>ho_hypotheses = [the_draft], ho_insufficient = None, ho_reflection = None\<rparr>"

definition the_engine_model :: engine_model where
  "the_engine_model =
     \<lparr>em_provider = \<lparr>mp_estimate = (\<lambda>q. Inr \<lparr>me_max_input_tokens = 10, me_max_output_tokens = 10,
          me_max_cost_usd = 0, me_replay_safe = True\<rparr>),
        mp_complete = (\<lambda>q n. Inr \<lparr>mr_text = ''x'', mr_provider = ''p'', mr_model = ''m'',
          mr_input_tokens = 1, mr_output_tokens = 1, mr_cost_usd = 0, mr_finish_reason = ''stop''\<rparr>)\<rparr>,
      em_durable = None, em_policy = default_policy, em_started_at = 0, em_prompt = (\<lambda>s. []),
      em_prompt_hash = [],
      em_decode = (\<lambda>t. Some the_output),
      em_error_text = (\<lambda>e. []), em_scrub = (\<lambda>t. t)\<rparr>"

definition the_engine_state :: engine_state where
  "the_engine_state =
     \<lparr>es_evidence = [\<lparr>evidence_id = ''e1'', ev_tool_execution_id = ''x1'',
        ev_domain = EvidenceDomain.LOGS, ev_provenance = ProvenanceLabel.VERIFIED_FACT,
        headline = [], content_digest = [], quality_score = 1, injection_flagged = False\<rparr>],
      es_hypotheses = [], es_open_gaps = [], es_covered = [], es_degraded = [], es_iteration = 0,
      es_budget = None\<rparr>"

definition the_engine_db :: inv_db where
  "the_engine_db =
     \<lparr>iv_evidence = [\<lparr>ev_id = ''e1'', ev_tenant = ''t'', ev_domain = EvidenceDomain.LOGS,
        ev_content = [], ev_gathered_at = 0, ie_incident = ''i'', ie_quality = Some 1\<rparr>],
      iv_hypotheses = [], iv_links = []\<rparr>"

definition no_models :: model_db where
  "no_models = \<lparr>md_runs = [], md_reservations = [], md_calls = []\<rparr>"

lemma the_engine_start: "run_budget default_policy 0 0 None = Inr (budget_initial (Some default_policy))"
  by code_simp

lemma the_engine_attempts:
  "case engine_attempts the_engine_deps the_engine_model the_engine_state
      (budget_initial (Some default_policy)) [1, 2] 0 0 no_models of
     (Inl e, models) \<Rightarrow> False
   | (Inr (out, used, cost), models) \<Rightarrow> out = the_output \<and> used = 2 \<and> cost = 0"
  by code_simp

lemma the_engine_charge: "is_ok (charge (budget_initial (Some default_policy)) (call_charge 2 0))"
  by code_simp

lemma the_engine_stored:
  "case store_output the_engine_deps the_engine_state the_engine_db b the_output of
     Inl e \<Rightarrow> False | Inr (u, db') \<Rightarrow> map hy_confidence (iv_hypotheses db') = [4 / 10]"
  by code_simp

lemma the_engine_runs:
  "\<exists>u db'. fst (hypothesis_node the_engine_deps the_engine_model 0 [] the_engine_state the_engine_db
      no_models) = Inr (u, db') \<and> map hy_confidence (iv_hypotheses db') = [4 / 10]"
proof -
  obtain models where a: "engine_attempts the_engine_deps the_engine_model the_engine_state
      (budget_initial (Some default_policy)) [1, 2] 0 0 no_models = (Inr (the_output, 2, 0), models)"
    using the_engine_attempts by (auto simp del: engine_attempts.simps split: prod.splits sum.splits)
  have attempts: "[1 ..< ENGINE_REPAIR_ATTEMPTS + 2] = [1, 2]" by code_simp
  obtain b where b: "charge (budget_initial (Some default_policy)) (call_charge 2 0) = Inr b"
    using the_engine_charge by (metis is_ok_iff)
  have s: "em_policy the_engine_model = default_policy" "em_started_at the_engine_model = 0"
    "es_budget the_engine_state = None" "(es_evidence the_engine_state = []) = False"
    by (simp_all add: the_engine_model_def the_engine_state_def)
  have "fst (hypothesis_node the_engine_deps the_engine_model 0 [] the_engine_state the_engine_db no_models) =
      store_output the_engine_deps the_engine_state the_engine_db b the_output"
    by (simp only: hypothesis_node_def s the_engine_start sum.case if_False attempts a prod.case b
        andThen_def fst_conv)
  then show ?thesis using the_engine_stored [of b] by (auto split: sum.splits)
qed

lemma the_engine_db_linked: "linked the_engine_db" "iv_hypotheses the_engine_db = []"
  by (simp_all add: linked_def the_engine_db_def)

end
