(* ===== verification/Broker_Scenario.thy ===== *)
theory Broker_Scenario
  imports Broker_Run Node_Contracts
begin

text \<open>
  A small deployment on which the broker of \<open>src/asic/tools/broker.py\<close> is run: one tenant, one
  incident, an approved uncordon of a node, and a simulator that answers it. The results of the
  calls are evaluated in the kernel; the statements about the broker are applied to them.
\<close>

definition plain_ops :: key_ops where
  "plain_ops = \<lparr>repr_float = (\<lambda>r. ''0.0''), iso_local = (\<lambda>i. ''t''), sha256_hex = (\<lambda>s. s)\<rparr>"

definition plain_render :: render_ops where
  "plain_render = \<lparr>text_of = (\<lambda>v. ''?''), never_render = (\<lambda>c. False)\<rparr>"

definition no_parsers :: py_parsers where
  "no_parsers = \<lparr>parse_datetime = (\<lambda>v. None), parse_uuid = (\<lambda>v. None)\<rparr>"

definition tool_row_of :: "string \<Rightarrow> ToolDescriptor \<Rightarrow> tool_row" where
  "tool_row_of i d =
     \<lparr>tr_id = i, tr_name = td_name d, tr_version = td_version d, tr_capability = td_capability d,
      tr_risk_tier = td_risk_tier d, tr_effect_class = td_effect_class d,
      tr_major_version = major_version d, tr_timeout_seconds = td_timeout_seconds d,
      tr_settling_seconds = td_settling_seconds d, tr_is_idempotent = td_is_idempotent d,
      tr_rollback_tool_name = td_rollback_tool_name d, tr_provider_kind = td_provider_kind d,
      tr_input_schema = PDict (input_schema d),
      tr_idempotency_key_fields = td_idempotency_key_fields d, tr_credential_ref = None,
      tr_is_enabled = True\<rparr>"

definition one_tool_registry :: "ToolDescriptor \<Rightarrow> ToolRegistry" where
  "one_tool_registry d =
     \<lparr>by_name_map = [(td_name d, d)], by_capability_map = [(td_capability d, [d])],
      registry_version = ''1''\<rparr>"

definition the_scope :: arg_map where
  "the_scope = [(''tenant_id'', PStr ''t1''), (''environment'', PStr ''prod''), (''service'', PStr ''svc'')]"

definition unsigned_action :: action_row where
  "unsigned_action =
     \<lparr>ac_id = ''a1'', ac_tenant = ''t1'', ac_incident = ''i1'', ac_run = ''r1'', ac_hypothesis = ''h1'',
      ac_target = ''g1'', ac_tool_name = ''k8s.node.uncordon'', ac_tool_version = ''1.0.0'',
      ac_risk_tier = RiskTier.R2, ac_arguments = [(''node'', PStr ''n1'')],
      ac_permission_scope = the_scope, ac_preconditions = td_preconditions K8S_NODE_UNCORDON,
      ac_version_hash = [], ac_status = RemediationActionStatus.EXECUTING, ac_reason = ''drained by mistake'',
      ac_approval_required = True, ac_criteria = [], ac_criteria_hash = [], ac_executed_at = None,
      ac_tool_definition = ''d1'', ac_expected_effect = [],
      ac_rollback_tool = td_rollback_tool_name K8S_NODE_UNCORDON, ac_timeout = 60, ac_baseline = [],
      ac_request_key = []\<rparr>"

definition the_action :: action_row where
  "the_action = unsigned_action\<lparr>ac_version_hash :=
     (case current_version_hash plain_ops unsigned_action of Inr h \<Rightarrow> h | Inl e \<Rightarrow> [])\<rparr>"

definition the_approval :: approval_row where
  "the_approval =
     \<lparr>ap_id = ''p1'', ap_tenant = ''t1'', ap_action = ''a1'', ap_version_hash = ac_version_hash the_action,
      ap_callback_key = ''k'', ap_required_role = REMEDIATION_APPROVE_PERMISSION, ap_proposer = None,
      ap_approver = Some ''alice'', ap_decision = ApprovalDecision.APPROVED, ap_justification = None,
      ap_channel = Some ''api'', ap_requested_at = 0, ap_expires_at = 900000000,
      ap_decided_at = Some 5, ap_created_at = 5\<rparr>"

definition the_remediation :: remediation_db where
  "the_remediation =
     \<lparr>rd_users = [\<lparr>us_id = ''alice'', us_tenant = ''t1'', us_status = UserStatus.ACTIVE\<rparr>],
      rd_assignments = [\<lparr>ra_tenant = ''t1'', ra_user = ''alice'', ra_role = ''sre'',
        ra_environment = None, ra_expires_at = None\<rparr>],
      rd_role_permissions = [\<lparr>rp_role = ''sre'', rp_permission = ''m1''\<rparr>],
      rd_permissions = [\<lparr>pm_id = ''m1'', pm_key = REMEDIATION_APPROVE_PERMISSION,
        pm_max_risk_tier = Some RiskTier.R2\<rparr>],
      rd_environments = [\<lparr>env_id = ''e1'', env_tenant = ''t1'', env_name = ''prod'',
        env_is_production = True, env_approval_policy = []\<rparr>],
      rd_actions = [the_action],
      rd_targets = [\<lparr>tg_id = ''g1'', tg_tenant = ''t1'', tg_run = ''r1'', tg_incident = ''i1'',
        tg_hypothesis = ''h1'', tg_service = ''s1'', tg_environment = ''e1'', tg_scope = the_scope\<rparr>],
      rd_requests = [],
      rd_policies = [\<lparr>pd_tenant = ''t1'', pd_action = ''a1'', pd_verdict = PolicyVerdict.REQUIRE_APPROVAL,
        pd_rule = ''P3_high_risk_requires_approval'', pd_signals = [],
        pd_evaluated_at = 0\<rparr>],
      rd_approvals = [the_approval]\<rparr>"

text \<open>A simulator that gives one answer, and the broker over it.\<close>

definition simulator :: "(py_error, pyval) result \<Rightarrow> provider" where
  "simulator answer =
     \<lparr>pv_kind = ToolProviderKind.SIMULATOR, pv_external = False, pv_supports = (\<lambda>d. True),
      pv_connector_kind = (\<lambda>d. IntegrationKind.KUBERNETES),
      pv_invoke = (\<lambda>d args context. answer)\<rparr>"

definition broker_over :: "(py_error, pyval) result \<Rightarrow> broker" where
  "broker_over answer =
     \<lparr>br_resolver = \<lparr>rs_registry = one_tool_registry K8S_NODE_UNCORDON, rs_max_risk_tier = RiskTier.R2\<rparr>,
      br_providers = [simulator answer],
      br_scope = \<lparr>is_tenant = ''t1'', is_incident = ''i1'', is_environment = ''e1'',
        is_environment_name = ''prod'',
        is_services = [\<lparr>sv_id = ''s1'', sv_name = ''svc'', sv_namespaces = []\<rparr>]\<rparr>,
      br_claim_store = True, br_keys = plain_ops, br_render = plain_render, br_parsers = no_parsers\<rparr>"

definition the_payload :: arg_map where
  "the_payload =
     [(''was_schedulable'', PBool False), (''source'', PStr ''simulator''), (''schema_version'', PInt 1)]"

definition the_broker :: broker where "the_broker = broker_over (Inr (PDict the_payload))"
definition silent_broker :: broker where "silent_broker = broker_over (Inl ToolTimeout)"

definition the_state :: broker_state where
  "the_state =
     \<lparr>bs_db = \<lparr>bk_tenant = Some ''t1'', bk_remediation = the_remediation, bk_services = [],
        bk_connectors = [], bk_bindings = [],
        bk_grants = [\<lparr>gr_id = ''gr1'', gr_tenant = ''t1'', gr_definition_id = ''d1'',
          gr_environment = None, gr_enabled = True, gr_scope_overrides = [],
          gr_blast_radius_limits = []\<rparr>],
        bk_tools = [tool_row_of ''d1'' K8S_NODE_UNCORDON], bk_executions = [], bk_audit = []\<rparr>,
      bs_menus = [], bs_claims = [], bs_calls = []\<rparr>"

text \<open>
  The same action before its approval, and the decision on it, with digests of the width that
  the columns of an approval have.
\<close>

definition wide_ops :: key_ops where
  "wide_ops = plain_ops\<lparr>sha256_hex := (\<lambda>s. take 64 (s @ replicate 64 CHR ''0''))\<rparr>"

definition wide_hash :: string where "wide_hash = replicate 64 CHR ''a''"

definition pending_remediation :: remediation_db where
  "pending_remediation = the_remediation
     \<lparr>rd_actions := [the_action\<lparr>ac_status := RemediationActionStatus.AWAITING_APPROVAL,
        ac_version_hash := wide_hash\<rparr>],
      rd_approvals := []\<rparr>"

definition the_decision :: decision_args where
  "the_decision =
     \<lparr>da_tenant = ''t1'', da_action = ''a1'', da_actor = ''alice'',
      da_decision = ApprovalDecision.APPROVED, da_expected_hash = wide_hash,
      da_justification = ''seen'', da_channel = ''api''\<rparr>"

definition the_request :: CapabilityRequest where
  "the_request =
     \<lparr>cr_node = NodeId.G9_REMEDIATION_EXECUTOR, cr_capability = ''mutate.k8s_node'',
      cr_service = ''svc'', cr_arguments = [(''node'', PStr ''n1'')], cr_incident = ''i1'',
      cr_action = Some ''a1''\<rparr>"

definition the_inputs :: call_inputs where
  "the_inputs = \<lparr>ci_now = 10, ci_completed = 11, ci_execution_id = ''x1'', ci_observation_id = ''o1''\<rparr>"

section \<open>The call, stage by stage\<close>

definition the_grant :: GrantedCapability where
  "the_grant =
     \<lparr>gc_capability = ''mutate.k8s_node'', gc_descriptor = K8S_NODE_UNCORDON,
      gc_definition_id = ''d1'', gc_grant_id = ''gr1'', gc_credential_ref = None,
      gc_scope_overrides = [], gc_blast_radius_limits = []\<rparr>"

definition the_menu :: CapabilityMenu where "the_menu = make_menu [the_grant]"

definition the_resolved :: arg_map where
  "the_resolved = [(''environment'', PStr ''prod''), (''tenant_id'', PUUID ''t1'')]"

definition the_bound :: arg_map where
  "the_bound =
     [(''tenant_id'', PUUID ''t1''), (''environment'', PStr ''prod''), (''node'', PStr ''n1'')]"

definition the_key :: string where
  "the_key = (case execution_key the_broker the_request K8S_NODE_UNCORDON the_bound ''o1'' of
     Inr k \<Rightarrow> k | Inl e \<Rightarrow> [])"

definition after_authorization :: broker_state where
  "after_authorization =
     the_state\<lparr>bs_menus := [(NodeId.G9_REMEDIATION_EXECUTOR, the_menu)]\<rparr>"

lemma wide_digest: "length (sha256_hex wide_ops s) = KEY_LENGTH"
  by (simp add: wide_ops_def KEY_LENGTH_def)

lemma the_authorization:
  "authorize (broker_over answer) the_state the_request G9_REMEDIATION_EXECUTOR 10 =
     (Inr the_grant, after_authorization)"
  by code_simp

lemma the_arguments:
  "resolve_arguments (br_scope (broker_over answer)) K8S_NODE_UNCORDON ''svc'' = Inr the_resolved"
  "bind_arguments (br_parsers (broker_over answer)) K8S_NODE_UNCORDON [(''node'', PStr ''n1'')]
     the_resolved = Inr the_bound"
  "execution_key (broker_over answer) the_request K8S_NODE_UNCORDON the_bound ''o1'' = Inr the_key"
  by code_simp+

lemma the_attempts:
  "one_attempt (simulator (Inr (PDict the_payload))) K8S_NODE_UNCORDON the_bound c = Inr the_payload"
  "one_attempt (simulator (Inl ToolTimeout)) K8S_NODE_UNCORDON the_bound c = Inl ToolTimeout"
  by code_simp+

lemma the_definition_id:
  "tool_definition_id (broker_over answer) (bs_db the_state) K8S_NODE_UNCORDON = Inr ''d1''"
  by code_simp

lemma uncordon_facts:
  "td_risk_tier K8S_NODE_UNCORDON = RiskTier.R2" "td_max_attempts K8S_NODE_UNCORDON = 1"
  "td_effect_class K8S_NODE_UNCORDON = ToolEffectClass.INFRASTRUCTURE_MUTATION"
  by code_simp+

lemma broker_parts:
  "br_providers (broker_over answer) = [simulator answer]" "br_claim_store (broker_over answer)"
  "is_tenant (br_scope (broker_over answer)) = ''t1''" "pv_external (simulator answer) = False"
  "pv_supports (simulator answer) d" "gc_descriptor the_grant = K8S_NODE_UNCORDON"
  "cr_service the_request = ''svc''" "cr_arguments the_request = [(''node'', PStr ''n1'')]"
  "cr_action the_request = Some ''a1''" "ci_now the_inputs = 10" "ci_observation_id the_inputs = ''o1''"
  "bs_claims after_authorization = []" "bs_calls after_authorization = []"
  "bs_db after_authorization = bs_db the_state" "bk_executions (bs_db the_state) = []"
  by (simp_all add: broker_over_def simulator_def the_grant_def the_request_def the_inputs_def
      after_authorization_def the_state_def)

text \<open>The uncordon is claimed, sent once and recorded, whatever the simulator answers.\<close>

lemma the_call:
  assumes loop: "attempt_loop (\<lambda>k. one_attempt (simulator answer) K8S_NODE_UNCORDON the_bound
      (invocation (broker_over answer) the_grant None the_key k)) K8S_NODE_UNCORDON (nat 1) 0 None =
      (1, failure, payload)"
  obtains st' where
    "invoke (broker_over answer) the_state the_request G9_REMEDIATION_EXECUTOR the_inputs =
      (Inr (executed_result the_request K8S_NODE_UNCORDON the_resolved the_inputs 1 failure payload), st')"
    "bs_calls st' = [\<lparr>cl_key = the_key, cl_tier = RiskTier.R2, cl_attempt = 1\<rparr>]"
proof -
  let ?b = "broker_over answer"
  let ?claimed = "after_authorization\<lparr>bs_claims := [claim_row ?b the_request K8S_NODE_UNCORDON the_key]\<rparr>"
  let ?dispatch = "dispatch ?b ?claimed the_request the_grant (simulator answer) None the_bound
      the_resolved the_key the_inputs"
  have claim: "claim_write ?b the_request K8S_NODE_UNCORDON the_key after_authorization = Inr ?claimed"
    by (simp add: claim_write_def broker_parts claimed_def)
  have bound: "invoke_bound ?b after_authorization the_request the_grant (simulator answer) None
        the_bound the_resolved the_inputs = ?dispatch"
    by (simp add: invoke_bound_def broker_parts the_arguments recorded_execution_def
        scalar_one_or_none_def uncordon_facts claim)
  have inv: "invoke ?b the_state the_request G9_REMEDIATION_EXECUTOR the_inputs = ?dispatch"
    by (simp add: invoke_def broker_parts the_authorization invoke_granted_def provider_for_def
        connector_for_def the_arguments bound)
  obtain r st' where d: "?dispatch = (r, st')" by fastforce
  have "r = Inr (executed_result the_request K8S_NODE_UNCORDON the_resolved the_inputs 1 failure payload) \<and>
      bs_calls st' = [\<lparr>cl_key = the_key, cl_tier = RiskTier.R2, cl_attempt = 1\<rparr>]"
    using d unfolding dispatch_def broker_parts Let_def uncordon_facts loop prod.case
    by (auto simp: the_definition_id broker_parts execution_checks_def execution_record_def
        uncordon_facts outcome_of_def calls_made_def add_audit_def split: option.splits if_splits)
  then show ?thesis using that inv d by simp
qed

definition the_result :: ToolResult where
  "the_result = executed_result the_request K8S_NODE_UNCORDON the_resolved the_inputs 1 None the_payload"

definition timed_out_result :: ToolResult where
  "timed_out_result = executed_result the_request K8S_NODE_UNCORDON the_resolved the_inputs 1
     (Some (fst (classify_failure K8S_NODE_UNCORDON ToolTimeout))) []"

lemma the_answer:
  obtains st' where
    "invoke the_broker the_state the_request G9_REMEDIATION_EXECUTOR the_inputs = (Inr the_result, st')"
    "bs_calls st' = [\<lparr>cl_key = the_key, cl_tier = RiskTier.R2, cl_attempt = 1\<rparr>]"
  by (rule the_call [of "Inr (PDict the_payload)" None the_payload])
    (simp_all add: the_attempts nat_1 the_broker_def the_result_def)

lemma the_silence:
  obtains st' where
    "invoke silent_broker the_state the_request G9_REMEDIATION_EXECUTOR the_inputs =
      (Inr timed_out_result, st')"
    "bs_calls st' = [\<lparr>cl_key = the_key, cl_tier = RiskTier.R2, cl_attempt = 1\<rparr>]"
  by (rule the_call [of "Inl ToolTimeout" "Some (fst (classify_failure K8S_NODE_UNCORDON ToolTimeout))" "[]"])
    (simp_all add: the_attempts nat_1 classify_simps silent_broker_def timed_out_result_def)

end
