(* ===== verification/Collector_Scenario.thy ===== *)
theory Collector_Scenario
  imports Investigation_Checkpoint Engine_Scenario Broker_Scenario
begin

text \<open>
  Two concrete runs of an investigation. In the first the workloads of a service are read a second
  time: the broker finds the recorded execution and answers without a payload. In the second a run
  is rebuilt whose planned step was never collected.
\<close>

section \<open>A repeated read\<close>

definition the_reader :: broker where
  "the_reader =
     \<lparr>br_resolver = \<lparr>rs_registry = one_tool_registry K8S_WORKLOAD_READ, rs_max_risk_tier = RiskTier.RO\<rparr>,
      br_providers = [simulator (Inr (PDict []))],
      br_scope = \<lparr>is_tenant = ''t1'', is_incident = ''i1'', is_environment = ''e1'',
        is_environment_name = ''prod'',
        is_services = [\<lparr>sv_id = ''s1'', sv_name = ''svc'', sv_namespaces = [''ns'']\<rparr>]\<rparr>,
      br_claim_store = True, br_keys = plain_ops, br_render = plain_render, br_parsers = no_parsers\<rparr>"

definition the_read :: CapabilityRequest where
  "the_read =
     \<lparr>cr_node = NodeId.G4_EVIDENCE_COLLECTOR, cr_capability = ''read.k8s_workload'',
      cr_service = ''svc'', cr_arguments = [(''include_events'', PBool True)], cr_incident = ''i1'',
      cr_action = None\<rparr>"

definition the_read_grant :: GrantedCapability where
  "the_read_grant =
     \<lparr>gc_capability = ''read.k8s_workload'', gc_descriptor = K8S_WORKLOAD_READ,
      gc_definition_id = ''d1'', gc_grant_id = ''gr1'', gc_credential_ref = None,
      gc_scope_overrides = [], gc_blast_radius_limits = []\<rparr>"

definition the_read_scope :: arg_map where
  "the_read_scope =
     (case resolve_arguments (br_scope the_reader) K8S_WORKLOAD_READ ''svc'' of
        Inr m \<Rightarrow> m | Inl e \<Rightarrow> [])"

definition the_read_bound :: arg_map where
  "the_read_bound =
     (case bind_arguments no_parsers K8S_WORKLOAD_READ [(''include_events'', PBool True)]
        the_read_scope of Inr m \<Rightarrow> m | Inl e \<Rightarrow> [])"

definition the_read_key :: string where
  "the_read_key = (case execution_key the_reader the_read K8S_WORKLOAD_READ the_read_bound ''o1'' of
     Inr k \<Rightarrow> k | Inl e \<Rightarrow> [])"

definition the_first_read :: execution_row where
  "the_first_read =
     \<lparr>ex_id = ''x0'', ex_tenant = ''t1'', ex_incident = ''i1'', ex_action = None, ex_definition = ''d1'',
      ex_tool_name = ''k8s.workload.read'', ex_tool_version = ''1.0.0'',
      ex_capability = ''read.k8s_workload'', ex_risk_tier = RiskTier.RO, ex_scope_redacted = [],
      ex_arguments_redacted = [], ex_key = the_read_key, ex_node = NodeId.G4_EVIDENCE_COLLECTOR,
      ex_attempt = 1, ex_outcome = Some ToolExecutionOutcome.SUCCEEDED, ex_failure = None,
      ex_failure_class = None, ex_effect_class = ToolEffectClass.READ, ex_connector = None,
      ex_external_reference = None, ex_observed_effect = [], ex_started_at = 0,
      ex_completed_at = Some 1, ex_created_at = 1\<rparr>"

definition read_state_over :: "execution_row list \<Rightarrow> broker_state" where
  "read_state_over executions = the_state\<lparr>bs_db := (bs_db the_state)
     \<lparr>bk_tools := [tool_row_of ''d1'' K8S_WORKLOAD_READ], bk_executions := executions\<rparr>\<rparr>"

definition the_read_state :: broker_state where
  "the_read_state = read_state_over [the_first_read]"

definition the_replay :: ToolResult where
  "the_replay = from_recorded the_read K8S_WORKLOAD_READ the_first_read the_read_scope"

definition after_read :: broker_state where
  "after_read = the_read_state\<lparr>bs_menus := [(NodeId.G4_EVIDENCE_COLLECTOR, make_menu [the_read_grant])]\<rparr>"

lemma the_reader_allowed: "permits_capability G4_EVIDENCE_COLLECTOR ''read.k8s_workload''"
  by code_simp

lemma the_read_admitted:
  "admit_request the_reader (bs_db (read_state_over xs)) the_read G4_EVIDENCE_COLLECTOR = Inr ''t1''"
  by (simp add: admit_request_def the_read_def the_reader_allowed require_tenant_def read_state_over_def
      the_state_def assert_tenant_matches_def the_reader_def)

lemma the_read_resolved:
  "resolve (br_resolver the_reader)
     [\<lparr>gr_id = ''gr1'', gr_tenant = ''t1'', gr_definition_id = ''d1'', gr_environment = None,
       gr_enabled = True, gr_scope_overrides = [], gr_blast_radius_limits = []\<rparr>]
     [tool_row_of ''d1'' K8S_WORKLOAD_READ] (br_scope the_reader) G4_EVIDENCE_COLLECTOR =
   Inr (make_menu [the_read_grant])"
  by code_simp

lemma the_read_granted_parts:
  "td_effect_class (gc_descriptor the_read_grant) = ToolEffectClass.READ"
  "risk_boundary the_reader the_read_grant = Inr ()" "\<not> request_is_effect the_read"
  by code_simp+

lemma the_read_on_menu: "menu_get (make_menu [the_read_grant]) (cr_capability the_read) = Inr the_read_grant"
  by (simp add: menu_get_def make_menu_def the_read_def the_read_grant_def)

lemma the_read_menu:
  "menu_for the_reader (read_state_over xs) G4_EVIDENCE_COLLECTOR False =
   (Inr (make_menu [the_read_grant]),
    (read_state_over xs)\<lparr>bs_menus := [(NodeId.G4_EVIDENCE_COLLECTOR, make_menu [the_read_grant])]\<rparr>)"
  using the_read_resolved
  by (simp add: menu_for_def read_state_over_def the_state_def G4_EVIDENCE_COLLECTOR_def)

lemma the_read_authorized:
  "authorize the_reader the_read_state the_read G4_EVIDENCE_COLLECTOR 10 = (Inr the_read_grant, after_read)"
  by (simp add: authorize_def the_read_state_def after_read_def the_read_admitted the_read_menu
      authorize_granted_def the_read_on_menu the_read_granted_parts)

lemma the_read_arguments:
  "resolve_arguments (br_scope the_reader) K8S_WORKLOAD_READ ''svc'' = Inr the_read_scope"
  "bind_arguments (br_parsers the_reader) K8S_WORKLOAD_READ [(''include_events'', PBool True)]
     the_read_scope = Inr the_read_bound"
  "execution_key the_reader the_read K8S_WORKLOAD_READ the_read_bound ''o1'' = Inr the_read_key"
  by code_simp+

lemma the_read_parts:
  "br_providers the_reader = [simulator (Inr (PDict []))]" "is_tenant (br_scope the_reader) = ''t1''"
  "gc_descriptor the_read_grant = K8S_WORKLOAD_READ" "cr_service the_read = ''svc''"
  "cr_arguments the_read = [(''include_events'', PBool True)]"
  "bk_executions (bs_db after_read) = [the_first_read]"
  by (simp_all add: the_reader_def the_read_grant_def the_read_def after_read_def the_read_state_def
      read_state_over_def)

lemma the_read_replayed:
  "invoke the_reader the_read_state the_read G4_EVIDENCE_COLLECTOR the_inputs = (Inr the_replay, after_read)"
proof -
  have "recorded_execution the_reader (bs_db after_read) the_read_key = Inr (Some the_first_read)"
    by (simp add: recorded_execution_def the_read_parts the_first_read_def scalar_one_or_none_def)
  then have "invoke_bound the_reader after_read the_read the_read_grant (simulator (Inr (PDict []))) None
      the_read_bound the_read_scope the_inputs = (Inr the_replay, after_read)"
    by (simp add: invoke_bound_def the_read_parts the_read_arguments the_replay_def broker_parts)
  then show ?thesis
    by (simp add: invoke_def the_read_authorized invoke_granted_def the_read_parts provider_for_def
        connector_for_def the_read_arguments broker_parts)
qed

lemma the_replay_facts:
  "res_deduplicated the_replay" "result_succeeded the_replay"
  by (simp_all add: the_replay_def from_recorded_def result_succeeded_def the_first_read_def)

section \<open>A collector over it\<close>

definition the_objective :: InvestigationObjective where
  "the_objective = \<lparr>statement = ''slow'', obj_service_names = [''svc''],
     obj_environment_name = ''prod'', window_start = ''a'', window_end = ''b'', obj_severity = ''sev2''\<rparr>"

definition the_collector :: collector where
  "the_collector =
     \<lparr>ec_broker = the_reader, ec_tenant = ''t1'', ec_incident = ''i1'', ec_run = ''r1'',
      ec_correlation = ''c1'', ec_objective = the_objective, ec_policy = default_policy,
      ec_started_at = 0, ec_json = (\<lambda>m. []), ec_decode = (\<lambda>v. None), ec_scrub = (\<lambda>t. t),
      ec_error_text = (\<lambda>e. []), ec_failure_text = (\<lambda>f. [])\<rparr>"

definition the_collect_inputs :: collect_inputs where
  "the_collect_inputs = \<lparr>ei_now = 10, ei_call = the_inputs, ei_evidence = ''e1'', ei_gathered_at = 11,
     ei_completed_at = 12, ei_occurred = ''now''\<rparr>"

definition no_knowledge :: knowledge_db where
  "no_knowledge = \<lparr>kb_grants = [], kb_tools = [], kb_executions = [], kb_sources = [],
     kb_documents = [], kb_chunks = [], kb_retrievals = [], kb_results = []\<rparr>"

definition the_collect_db :: collect_db where
  "the_collect_db = \<lparr>cd_broker = the_read_state, cd_steps = [], cd_evidence = [],
     cd_knowledge = no_knowledge\<rparr>"

definition the_collect_state :: inv_state where
  "the_collect_state =
     \<lparr>es_evidence = [], es_hypotheses = [], es_open_gaps = [], es_covered = [], es_degraded = [],
      es_iteration = 1, es_budget = None, gs_failures = [],
      gs_decision = Some \<lparr>PlannerDecisionRef.pd_action = PlannerAction.COLLECT_EVIDENCE,
        pd_gap = ''pods'', pd_rationale = ''first'', pd_domain = Some EvidenceDomain.KUBERNETES_STATE,
        pd_expected_gain = 1, pd_candidates = [], pd_overridden_reason = None\<rparr>,
      gs_reflection = None, gs_refusal = None, gs_steps = [], gs_menu = []\<rparr>"

lemma the_collect_parts:
  "ec_broker the_collector = the_reader" "ei_call the_collect_inputs = the_inputs"
  "cd_broker the_collect_db = the_read_state"
  by (simp_all add: the_collector_def the_collect_inputs_def the_collect_db_def)

lemma the_collect_request:
  "collect_request the_collector EvidenceDomain.KUBERNETES_STATE ''pods'' = Inr the_read"
  by code_simp

lemma the_head_room:
  "require_headroom (budget_initial (Some default_policy)) (no_charge\<lparr>c_tool_calls := 1\<rparr>) = Inr ()"
  by code_simp

lemma the_read_charge:
  "is_ok (charge (budget_initial (Some default_policy)) (no_charge\<lparr>c_tool_calls := 0\<rparr>))"
  by code_simp

lemma collected_update_permitted:
  "validate_update G4_EVIDENCE_COLLECTOR
     [(''phase'', p), (''evidence'', e), (''steps'', t), (''covered_domains'', c), (''budget'', b)] = Inr ()"
  by (simp add: validate_update_def G4_EVIDENCE_COLLECTOR_def Let_def) code_simp

lemma the_replay_row:
  "res_execution the_replay = Some ''x0''" "res_provenance the_replay = ProvenanceLabel.VERIFIED_FACT"
  "res_payload the_replay = []"
  by (simp_all add: the_replay_def from_recorded_def the_first_read_def) code_simp

lemma the_read_allowed:
  "evidence_allowed (the_collect_db\<lparr>cd_broker := after_read\<rparr>)
     (new_evidence the_collector the_collect_inputs the_collect_state EvidenceDomain.KUBERNETES_STATE
        ''pods'' the_replay ''x0'' None)"
  by (simp add: evidence_allowed_def new_evidence_def Let_def the_collect_db_def the_collector_def
      the_collect_state_def current_step_def the_replay_row the_read_parts no_items evidence_quality_def)
    (simp add: the_first_read_def)

lemma the_replay_used:
  "\<exists>u db'. use_result the_collector the_collect_inputs the_collect_state EvidenceDomain.KUBERNETES_STATE
     ''pods'' (budget_initial (Some default_policy)) the_read the_replay
     (the_collect_db\<lparr>cd_broker := after_read\<rparr>) = (Inr u, db')"
proof -
  obtain b where "charge (budget_initial (Some default_policy)) (no_charge\<lparr>c_tool_calls := 0\<rparr>) = Inr b"
    using the_read_charge by (auto simp: is_ok_iff)
  then show ?thesis
    by (simp add: use_result_def the_replay_facts verify_knowledge_def store_evidence_def the_replay_row
        the_read_allowed record_retrieval_def collector_update_def collected_update_permitted Let_def)
qed

lemma the_collection:
  "\<exists>u db'. collect the_collector the_collect_inputs the_collect_state EvidenceDomain.KUBERNETES_STATE
     ''pods'' (budget_initial (Some default_policy)) the_collect_db = (Inr u, db')"
proof -
  obtain u db' where "use_result the_collector the_collect_inputs the_collect_state
      EvidenceDomain.KUBERNETES_STATE ''pods'' (budget_initial (Some default_policy)) the_read the_replay
      (the_collect_db\<lparr>cd_broker := after_read\<rparr>) = (Inr u, db')"
    using the_replay_used by (elim exE) (rule that)
  then show ?thesis
    by (simp add: collect_def the_head_room the_collect_request the_collect_parts the_read_replayed)
qed

section \<open>A resumed run\<close>

definition the_identity :: RunIdentity where
  "the_identity =
     \<lparr>ri_tenant_id = ''t1'', ri_incident_id = ''i1'', ri_workflow_run_id = ''r1'',
      ri_behaviour_version_id = ''b1'', ri_environment_id = ''e1'', ri_execution_trace_id = ''x1''\<rparr>"

definition the_planned_step :: step_row where
  "the_planned_step =
     \<lparr>sp_id = ''s1'', sp_tenant = ''t1'', sp_incident = ''i1'', sp_run = ''r1'', sp_sequence = 1,
      sp_gap = ''pods'', sp_domain = EvidenceDomain.KUBERNETES_STATE, sp_rationale = ''first'',
      sp_status = InvestigationStepStatus.PLANNED, sp_budget_before = (Map.empty, Map.empty),
      sp_started_at = 5, sp_degradation = None, sp_budget_after = None, sp_completed_at = None\<rparr>"

definition the_inv_world :: inv_world where
  "the_inv_world =
     \<lparr>iw_broker = the_read_state, iw_steps = [the_planned_step], iw_evidence = [], iw_hypotheses = [],
      iw_links = [], iw_knowledge = no_knowledge, iw_models = no_models,
      iw_log = \<lparr>db_incidents = Map.empty, db_events = [], db_timeline = []\<rparr>, iw_runs = [],
      iw_traces = []\<rparr>"

definition the_ephemeral :: ephemeral where
  "the_ephemeral =
     \<lparr>ep_phase = InvestigationPhase.COLLECTING, ep_iteration = 1, ep_resumed = 0,
      ep_open_gaps = [''pods''], ep_covered = [], ep_degraded = [], ep_menu = [''read.k8s_workload''],
      ep_decision = gs_decision the_collect_state, ep_reflection = None, ep_budget = None,
      ep_refusal = None, ep_terminated = False, ep_reason = None, ep_rule = None, ep_status = None\<rparr>"

definition the_checkpoint :: inv_checkpoint where
  "the_checkpoint =
     \<lparr>ic_tenant = ''t1'', ic_run = ''r1'', ic_incident = ''i1'', ic_sequence = 3,
      ic_after_node = Some ''planner'', ic_reason = ''node_boundary'', ic_state = the_ephemeral,
      ic_digest = ''d'', ic_counts = \<lparr>dc_steps = 1, dc_evidence = 0, dc_hypotheses = 0\<rparr>,
      ic_budget = (Map.empty, Map.empty), ic_behaviour = ''b1'', ic_correlation = ''c1'',
      ic_taken_at = 6\<rparr>"

definition the_repeated_plan :: PlannerDecision where
  "the_repeated_plan =
     \<lparr>pl_action = PlannerAction.COLLECT_EVIDENCE, pl_gap = ''pods'', pl_rationale = ''first'',
      pl_domain = Some EvidenceDomain.KUBERNETES_STATE, pl_expected_gain = 1, pl_candidates = []\<rparr>"

lemma the_rehydration:
  "\<exists>s report. inv_rehydrate (\<lambda>e. ''d'') the_checkpoint the_identity the_inv_world = Inr (s, report) \<and>
     es_evidence (us_nodes s) = []"
  by (auto simp: inv_rehydrate_def Let_def the_checkpoint_def rebuilt_nodes_def load_evidence_def
      run_evidence_def the_inv_world_def)

lemma the_resumed_parts:
  "run_steps ''t1'' ''r1'' the_inv_world = [the_planned_step]"
  "ri_tenant_id the_identity = ''t1''" "ri_workflow_run_id the_identity = ''r1''"
  "sp_gap the_planned_step = ''pods''" "sp_domain the_planned_step = EvidenceDomain.KUBERNETES_STATE"
  "sp_status the_planned_step = InvestigationStepStatus.PLANNED" "py_strip ''pods'' = ''pods''"
  "pl_action the_repeated_plan = PlannerAction.COLLECT_EVIDENCE"
  "pl_domain the_repeated_plan = Some EvidenceDomain.KUBERNETES_STATE"
  "pl_gap the_repeated_plan = ''pods''"
  by (simp_all add: run_steps_def the_inv_world_def the_planned_step_def the_identity_def
      the_repeated_plan_def) code_simp

end
