(* ===== verification/Rate_Limit.thy ===== *)
theory Rate_Limit
  imports Errors
begin

text \<open>
  The request limiter of the API edge, \<open>src/asic/api/rate_limit.py\<close>: a sliding window per key
  over a table of bounded size, with the instant before which a full table need not be scanned.
  Clock readings are exact rationals and arguments; the lock makes a call one step. The
  reference keeps the whole log of the admitted requests and decides by counting in it; on
  clock readings that do not go back the two decide alike.
\<close>

section \<open>The limiter\<close>

definition DEFAULT_MAX_KEYS :: int where "DEFAULT_MAX_KEYS = 10000"

record rate_limiter =
  rl_limit :: int
  rl_window :: rat
  rl_max_keys :: int
  rl_hits :: "(string \<times> rat list) list"
  rl_prune_not_before :: "rat option"

text \<open>\<open>None\<close> is minus infinity.\<close>

definition make_limiter :: "int \<Rightarrow> rat \<Rightarrow> int \<Rightarrow> (py_error, rate_limiter) result" where
  "make_limiter limit window max_keys =
     (if limit < 1 \<or> window \<le> 0 \<or> max_keys < 1 then Inl ValueError
      else Inr \<lparr>rl_limit = limit, rl_window = window, rl_max_keys = max_keys, rl_hits = [],
                rl_prune_not_before = None\<rparr>)"

definition tracked_keys :: "rate_limiter \<Rightarrow> int" where
  "tracked_keys s = int (length (rl_hits s))"

definition table_full :: "rate_limiter \<Rightarrow> bool" where
  "table_full s \<longleftrightarrow> rl_max_keys s \<le> tracked_keys s"

text \<open>A queue in the table is never empty, so its last element exists.\<close>

definition prune :: "rat \<Rightarrow> rate_limiter \<Rightarrow> rate_limiter" where
  "prune cutoff s =
     (let kept = s\<lparr>rl_hits := filter (\<lambda>(k, h). \<not> (h = [] \<or> last h \<le> cutoff)) (rl_hits s)\<rparr> in
      if table_full kept
      then kept\<lparr>rl_prune_not_before := Some (Min (set (map (\<lambda>(k, h). last h) (rl_hits kept))) + rl_window s)\<rparr>
      else kept)"

definition count_hit :: "rat \<Rightarrow> string \<Rightarrow> rat list \<Rightarrow> rate_limiter \<Rightarrow> bool \<times> rate_limiter" where
  "count_hit now key h s =
     (let recent = dropWhile (\<lambda>t. t \<le> now - rl_window s) h in
      if rl_limit s \<le> int (length recent)
      then (False, s\<lparr>rl_hits := AList.update key recent (rl_hits s)\<rparr>)
      else (True, s\<lparr>rl_hits := AList.update key (recent @ [now]) (rl_hits s)\<rparr>))"

definition scan_due :: "rat \<Rightarrow> rate_limiter \<Rightarrow> bool" where
  "scan_due now s = (case rl_prune_not_before s of None \<Rightarrow> True | Some t \<Rightarrow> t \<le> now)"

definition admit :: "rat \<Rightarrow> string \<Rightarrow> rate_limiter \<Rightarrow> bool \<times> rate_limiter" where
  "admit now key s =
     (case map_of (rl_hits s) key of
        Some h \<Rightarrow> count_hit now key h s
      | None \<Rightarrow>
          if table_full s then
            let s' = (if scan_due now s then prune (now - rl_window s) s else s) in
            if table_full s' then (False, s') else count_hit now key [] s'
          else count_hit now key [] s)"

fun admit_all :: "(rat \<times> string) list \<Rightarrow> rate_limiter \<Rightarrow> bool list" where
  "admit_all [] s = []"
| "admit_all ((now, key) # reqs) s =
     (case admit now key s of (ok, s') \<Rightarrow> ok # admit_all reqs s')"

section \<open>The reference\<close>

text \<open>The admitted requests of a key within the window that ends now, and the keys that have one.\<close>

definition times_of :: "(rat \<times> string) list \<Rightarrow> string \<Rightarrow> rat list" where
  "times_of lg key = map fst (filter (\<lambda>(t, k). k = key) lg)"

definition recent_of :: "rat \<Rightarrow> rat \<Rightarrow> (rat \<times> string) list \<Rightarrow> string \<Rightarrow> rat list" where
  "recent_of window now lg key = filter (\<lambda>t. now - window < t) (times_of lg key)"

definition active_keys :: "rat \<Rightarrow> rat \<Rightarrow> (rat \<times> string) list \<Rightarrow> string set" where
  "active_keys window now lg = {k \<in> set (map snd lg). recent_of window now lg k \<noteq> []}"

definition allowed :: "int \<Rightarrow> rat \<Rightarrow> int \<Rightarrow> (rat \<times> string) list \<Rightarrow> rat \<Rightarrow> string \<Rightarrow> bool" where
  "allowed limit window max_keys lg now key \<longleftrightarrow>
     int (length (recent_of window now lg key)) < limit \<and>
     (recent_of window now lg key \<noteq> [] \<or> int (card (active_keys window now lg)) < max_keys)"

fun allow_all :: "int \<Rightarrow> rat \<Rightarrow> int \<Rightarrow> (rat \<times> string) list \<Rightarrow> (rat \<times> string) list \<Rightarrow> bool list" where
  "allow_all limit window max_keys lg [] = []"
| "allow_all limit window max_keys lg ((now, key) # reqs) =
     (let ok = allowed limit window max_keys lg now key in
      ok # allow_all limit window max_keys (if ok then lg @ [(now, key)] else lg) reqs)"

section \<open>The table represents the log\<close>

text \<open>
  Every queue holds the admitted times of its key after some instant out of the window, keys
  without a queue have none within it, and no queue expires before the instant of the next scan.
\<close>

definition represents :: "rate_limiter \<Rightarrow> (rat \<times> string) list \<Rightarrow> rat \<Rightarrow> bool" where
  "represents s lg now \<longleftrightarrow>
     distinct (map fst (rl_hits s)) \<and> tracked_keys s \<le> rl_max_keys s \<and>
     (\<forall>(k, h) \<in> set (rl_hits s). h \<noteq> [] \<and>
        (\<exists>c. c \<le> now - rl_window s \<and> h = filter (\<lambda>t. c < t) (times_of lg k))) \<and>
     (\<forall>k. map_of (rl_hits s) k = None \<longrightarrow> recent_of (rl_window s) now lg k = []) \<and>
     sorted (map fst lg) \<and> (\<forall>t \<in> set (map fst lg). t \<le> now) \<and>
     (\<forall>p. rl_prune_not_before s = Some p \<longrightarrow> p \<le> now + rl_window s \<and>
        (\<forall>(k, h) \<in> set (rl_hits s). p \<le> last h + rl_window s))"

lemma times_sorted: "sorted (map fst lg) \<Longrightarrow> sorted (times_of lg k)"
  unfolding times_of_def by (rule sorted_filter)

lemma dropWhile_filter_sorted:
  "sorted xs \<Longrightarrow> c \<le> d \<Longrightarrow> dropWhile (\<lambda>t. t \<le> d) (filter (\<lambda>t. c < t) xs) = filter (\<lambda>t. (d :: rat) < t) xs"
proof (induction xs)
  case (Cons x xs)
  have "filter (\<lambda>t. d < t) (x # xs) = x # xs \<and> filter (\<lambda>t. c < t) (x # xs) = x # xs" if "d < x"
    using Cons.prems that by (auto intro!: filter_True)
  then show ?case using Cons by (cases "d < x") auto
qed simp

lemma times_append: "times_of (lg @ [(now, key)]) k = times_of lg k @ (if k = key then [now] else [])"
  by (simp add: times_of_def)

text \<open>The conditions on one queue and on the whole table.\<close>

definition queue_ok :: "rat \<Rightarrow> rat \<Rightarrow> (rat \<times> string) list \<Rightarrow> string \<Rightarrow> rat list \<Rightarrow> bool" where
  "queue_ok window now lg k h \<longleftrightarrow>
     h \<noteq> [] \<and> (\<exists>c. c \<le> now - window \<and> h = filter (\<lambda>t. c < t) (times_of lg k))"

lemma represents_iff:
  "represents s lg now \<longleftrightarrow>
     distinct (map fst (rl_hits s)) \<and> tracked_keys s \<le> rl_max_keys s \<and>
     (\<forall>k h. map_of (rl_hits s) k = Some h \<longrightarrow> queue_ok (rl_window s) now lg k h) \<and>
     (\<forall>k. map_of (rl_hits s) k = None \<longrightarrow> recent_of (rl_window s) now lg k = []) \<and>
     sorted (map fst lg) \<and> (\<forall>t \<in> set (map fst lg). t \<le> now) \<and>
     (\<forall>p. rl_prune_not_before s = Some p \<longrightarrow> p \<le> now + rl_window s \<and>
        (\<forall>k h. map_of (rl_hits s) k = Some h \<longrightarrow> p \<le> last h + rl_window s))"
proof (cases "distinct (map fst (rl_hits s))")
  case True
  have q: "(\<forall>(k, h) \<in> set (rl_hits s). P k h) \<longleftrightarrow> (\<forall>k h. map_of (rl_hits s) k = Some h \<longrightarrow> P k h)" for P
    using map_of_eq_Some_iff [OF True] by (auto simp: case_prod_unfold)
  show ?thesis unfolding represents_def q queue_ok_def using True by simp
qed (simp add: represents_def)

lemma queue_later: "queue_ok window t lg k h \<Longrightarrow> t \<le> now \<Longrightarrow> queue_ok window now lg k h"
proof -
  assume q: "queue_ok window t lg k h" and t: "t \<le> now"
  then obtain c where "c \<le> t - window" "h = filter (\<lambda>t. c < t) (times_of lg k)" by (auto simp: queue_ok_def)
  moreover from this t have "c \<le> now - window" by linarith
  ultimately show ?thesis using q by (auto simp: queue_ok_def)
qed

lemma recent_later: "recent_of window t lg k = [] \<Longrightarrow> t \<le> now \<Longrightarrow> recent_of window now lg k = []"
  unfolding recent_of_def filter_empty_conv by (meson diff_right_mono order_le_less_trans)

lemma represents_later: "represents s lg t \<Longrightarrow> t \<le> now \<Longrightarrow> represents s lg now"
  unfolding represents_iff by (meson add_right_mono order_trans queue_later recent_later)

lemma queue_recent:
  assumes "queue_ok window now lg k h" and "sorted (map fst lg)"
  shows "dropWhile (\<lambda>t. t \<le> now - window) h = recent_of window now lg k"
  using assms dropWhile_filter_sorted [OF times_sorted [OF assms(2), of k]]
  unfolding queue_ok_def recent_of_def by blast

lemma last_dropWhile: "dropWhile P xs \<noteq> [] \<Longrightarrow> last (dropWhile P xs) = last xs"
  by (induction xs) auto

lemma queue_active:
  assumes "queue_ok window now lg k h" and "sorted (map fst lg)"
  shows "recent_of window now lg k \<noteq> [] \<longleftrightarrow> now - window < last h"
proof -
  have "dropWhile (\<lambda>t. t \<le> now - window) h \<noteq> [] \<longleftrightarrow> now - window < last h"
  proof
    assume ne: "dropWhile (\<lambda>t. t \<le> now - window) h \<noteq> []"
    have "set (recent_of window now lg k) \<subseteq> {t. now - window < t}" by (auto simp: recent_of_def)
    then show "now - window < last h"
      using last_in_set [OF ne] last_dropWhile [OF ne] queue_recent [OF assms] by auto
  next
    assume "now - window < last h"
    then show "dropWhile (\<lambda>t. t \<le> now - window) h \<noteq> []"
      using assms(1) last_in_set [of h] by (auto simp: queue_ok_def dropWhile_eq_Nil_conv linorder_not_le simp del: set_filter intro!: bexI [of _ "last h"])
  qed
  then show ?thesis using queue_recent [OF assms] by simp
qed

text \<open>A key with an admitted request in the window has a queue.\<close>

lemma active_subset:
  "represents s lg now \<Longrightarrow> active_keys (rl_window s) now lg \<subseteq> fst ` set (rl_hits s)"
  unfolding represents_iff active_keys_def map_of_eq_None_iff by blast

lemma finite_active: "finite (active_keys window now lg)"
  by (simp add: active_keys_def)

lemma card_keys: "distinct (map fst xs) \<Longrightarrow> card (fst ` set xs) = length xs"
  by (metis distinct_card length_map list.set_map)

lemma active_fewer:
  assumes "represents s lg now" and "map_of (rl_hits s) key \<noteq> None"
    and "recent_of (rl_window s) now lg key = []"
  shows "int (card (active_keys (rl_window s) now lg)) < rl_max_keys s"
proof -
  have "active_keys (rl_window s) now lg \<subset> fst ` set (rl_hits s)"
    using active_subset [OF assms(1)] assms(2,3) by (auto simp: active_keys_def map_of_eq_None_iff)
  then have "card (active_keys (rl_window s) now lg) < length (rl_hits s)"
    using assms(1) psubset_card_mono [of "fst ` set (rl_hits s)"] card_keys [of "rl_hits s"]
    by (simp add: represents_iff)
  then show ?thesis using assms(1) by (simp add: represents_iff tracked_keys_def)
qed

lemma active_all:
  assumes "represents s lg now" and "\<And>k h. map_of (rl_hits s) k = Some h \<Longrightarrow> now - rl_window s < last h"
  shows "card (active_keys (rl_window s) now lg) = length (rl_hits s)"
proof -
  have "fst ` set (rl_hits s) \<subseteq> active_keys (rl_window s) now lg"
  proof
    fix k assume "k \<in> fst ` set (rl_hits s)"
    then obtain h where h: "map_of (rl_hits s) k = Some h" by (metis map_of_eq_None_iff not_None_eq)
    then have r: "recent_of (rl_window s) now lg k \<noteq> []"
      using assms queue_active by (fastforce simp: represents_iff)
    then have "times_of lg k \<noteq> []" by (auto simp: recent_of_def)
    then have "k \<in> set (map snd lg)" by (force simp: times_of_def filter_empty_conv)
    then show "k \<in> active_keys (rl_window s) now lg" using r by (simp add: active_keys_def)
  qed
  then show ?thesis
    using active_subset [OF assms(1)] assms(1) card_keys by (metis represents_iff subset_antisym)
qed

lemma active_at_most:
  "represents s lg now \<Longrightarrow> card (active_keys (rl_window s) now lg) \<le> length (rl_hits s)"
  using card_mono [OF _ active_subset, of s lg now] card_keys [of "rl_hits s"] by (simp add: represents_iff)

section \<open>Pruning\<close>

lemma map_of_kept:
  "distinct (map fst xs) \<Longrightarrow>
   map_of (filter (\<lambda>(k, h). P h) xs) k = (case map_of xs k of Some h \<Rightarrow> if P h then Some h else None | None \<Rightarrow> None)"
  by (induction xs) (auto simp: map_of_eq_None_iff split: option.splits)

lemma prune_hits:
  "rl_hits (prune c s) = filter (\<lambda>(k, h). \<not> (h = [] \<or> last h \<le> c)) (rl_hits s)"
  "rl_limit (prune c s) = rl_limit s" "rl_window (prune c s) = rl_window s"
  "rl_max_keys (prune c s) = rl_max_keys s"
  by (simp_all add: prune_def Let_def)

lemma prune_next:
  assumes "rl_prune_not_before (prune c s) = Some p"
  shows "rl_prune_not_before s = Some p \<or>
    table_full (prune c s) \<and> p = Min (set (map (\<lambda>(k, h). last h) (rl_hits (prune c s)))) + rl_window s"
  using assms by (auto simp: prune_def Let_def table_full_def tracked_keys_def split: if_splits)

lemma represents_prune:
  assumes r: "represents s lg now" and w: "0 < rl_window s" and m: "1 \<le> rl_max_keys s"
  shows "represents (prune (now - rl_window s) s) lg now"
proof -
  let ?s = "prune (now - rl_window s) s"
  have d: "distinct (map fst (rl_hits s))" using r by (simp add: represents_iff)
  have kept: "map_of (rl_hits ?s) k = (case map_of (rl_hits s) k of
      Some h \<Rightarrow> if \<not> (h = [] \<or> last h \<le> now - rl_window s) then Some h else None | None \<Rightarrow> None)" for k
    unfolding prune_hits by (rule map_of_kept [OF d])
  have sub: "map_of (rl_hits ?s) k = Some h \<Longrightarrow> map_of (rl_hits s) k = Some h" for k h
    unfolding kept by (auto split: option.splits if_splits)
  have none: "recent_of (rl_window s) now lg k = []" if "map_of (rl_hits ?s) k = None" for k
  proof (cases "map_of (rl_hits s) k")
    case None
    then show ?thesis using r by (simp add: represents_iff)
  next
    case (Some h)
    then have "\<not> now - rl_window s < last h" "queue_ok (rl_window s) now lg k h"
      using that r unfolding kept by (auto simp: represents_iff queue_ok_def split: if_splits)
    then show ?thesis using queue_active r by (metis represents_iff)
  qed
  have "distinct (map fst (rl_hits ?s))" unfolding prune_hits by (rule distinct_map_filter [OF d])
  moreover have "tracked_keys ?s \<le> rl_max_keys s"
  proof -
    have "tracked_keys ?s \<le> tracked_keys s"
      unfolding tracked_keys_def prune_hits of_nat_le_iff by (rule length_filter_le)
    then show ?thesis using r by (simp add: represents_iff)
  qed
  moreover have "p \<le> now + rl_window s \<and> (\<forall>k h. map_of (rl_hits ?s) k = Some h \<longrightarrow> p \<le> last h + rl_window s)"
    if "rl_prune_not_before ?s = Some p" for p
    using prune_next [OF that]
  proof
    assume "rl_prune_not_before s = Some p"
    then show ?thesis using r sub unfolding represents_iff by blast
  next
    let ?L = "set (map (\<lambda>(k, h). last h) (rl_hits ?s))"
    assume p: "table_full ?s \<and> p = Min ?L + rl_window s"
    then have ne: "rl_hits ?s \<noteq> []" using m by (auto simp: table_full_def tracked_keys_def prune_hits)
    have low: "Min ?L \<le> last h" if "map_of (rl_hits ?s) k = Some h" for k h
      using map_of_SomeD [OF that] by (intro Min_le) force+
    obtain k h where h: "map_of (rl_hits ?s) k = Some h"
      using ne map_of_eq_None_iff [of "rl_hits ?s"] by (cases "rl_hits ?s") (auto, metis fst_conv)
    have "queue_ok (rl_window s) now lg k h" using r sub [OF h] by (simp add: represents_iff)
    then have "last h \<in> set (times_of lg k)" by (metis filter_is_subset last_in_set queue_ok_def subsetD)
    then have "last h \<le> now" using r by (auto simp: represents_iff times_of_def)
    then show ?thesis using low h p by fastforce
  qed
  ultimately show ?thesis using r sub none unfolding represents_iff prune_hits(3,4) by blast
qed

section \<open>One request\<close>

lemma count_hit_represents:
  assumes r: "represents s lg now" and l: "1 \<le> rl_limit s" and w: "0 < rl_window s"
    and h: "map_of (rl_hits s) key = Some h \<or> map_of (rl_hits s) key = None \<and> h = [] \<and> \<not> table_full s"
    and run: "count_hit now key h s = (ok, s')"
  shows "ok \<longleftrightarrow> int (length (recent_of (rl_window s) now lg key)) < rl_limit s"
    and "represents s' (if ok then lg @ [(now, key)] else lg) now"
proof -
  let ?w = "rl_window s"
  have srt: "sorted (map fst lg)" using r by (simp add: represents_iff)
  have recent: "dropWhile (\<lambda>t. t \<le> now - ?w) h = recent_of ?w now lg key"
    using h r queue_recent [OF _ srt] by (auto simp: represents_iff)
  show ok: "ok \<longleftrightarrow> int (length (recent_of ?w now lg key)) < rl_limit s"
    using run by (auto simp: count_hit_def recent Let_def split: if_splits)
  have d: "distinct (map fst (AList.update key q (rl_hits s)))" for q
    using r by (simp add: represents_iff distinct_update)
  have size: "tracked_keys (s\<lparr>rl_hits := AList.update key q (rl_hits s)\<rparr>) \<le> rl_max_keys s" for q
  proof -
    have "length (AList.update key q (rl_hits s)) = card (insert key (fst ` set (rl_hits s)))"
      using card_keys [OF d [of q]] by (simp add: dom_update)
    also have "\<dots> = (if map_of (rl_hits s) key = None then Suc (length (rl_hits s)) else length (rl_hits s))"
      using r card_keys [of "rl_hits s"] by (auto simp: represents_iff map_of_eq_None_iff insert_absorb)
    finally show ?thesis using h r by (auto simp: tracked_keys_def table_full_def represents_iff)
  qed
  show "represents s' (if ok then lg @ [(now, key)] else lg) now"
  proof (cases ok)
    case True
    let ?q = "recent_of ?w now lg key @ [now]"
    have s': "s' = s\<lparr>rl_hits := AList.update key ?q (rl_hits s)\<rparr>"
      using run True by (simp add: count_hit_def recent Let_def split: if_splits)
    have q: "queue_ok ?w now (lg @ [(now, key)]) key ?q"
      using w by (auto simp: queue_ok_def times_append recent_of_def intro!: exI [of _ "now - ?w"])
    have other: "recent_of ?w now (lg @ [(now, key)]) k = recent_of ?w now lg k"
        "queue_ok ?w now (lg @ [(now, key)]) k h' = queue_ok ?w now lg k h'" if "k \<noteq> key" for k h'
      using that by (simp_all add: recent_of_def queue_ok_def times_append)
    have "p \<le> now + ?w" if "rl_prune_not_before s = Some p" for p
      using r that by (simp add: represents_iff)
    then show ?thesis
      using r d [of ?q] size [of ?q] q other True unfolding represents_iff s'
      by (auto simp: update_conv' sorted_append)
  next
    case False
    let ?q = "recent_of ?w now lg key"
    have s': "s' = s\<lparr>rl_hits := AList.update key ?q (rl_hits s)\<rparr>"
      using run False by (simp add: count_hit_def recent Let_def split: if_splits)
    have ne: "?q \<noteq> []" using False ok l by auto
    then have hs: "map_of (rl_hits s) key = Some h" using h recent by auto
    have q: "queue_ok ?w now lg key ?q" using ne by (auto simp: queue_ok_def recent_of_def)
    have lst: "last ?q = last h" using last_dropWhile ne recent by metis
    show ?thesis
      using r d [of ?q] size [of ?q] q lst hs False unfolding represents_iff s'
      by (auto simp: update_conv')
  qed
qed

lemma count_hit_fields:
  "count_hit now key h s = (ok, s') \<Longrightarrow>
   rl_limit s' = rl_limit s \<and> rl_window s' = rl_window s \<and> rl_max_keys s' = rl_max_keys s"
  by (auto simp: count_hit_def Let_def split: if_splits)

lemma admit_represents:
  assumes r: "represents s lg now" and pos: "1 \<le> rl_limit s" "0 < rl_window s" "1 \<le> rl_max_keys s"
    and run: "admit now key s = (ok, s')"
  shows "ok = allowed (rl_limit s) (rl_window s) (rl_max_keys s) lg now key \<and>
    represents s' (if ok then lg @ [(now, key)] else lg) now \<and>
    rl_limit s' = rl_limit s \<and> rl_window s' = rl_window s \<and> rl_max_keys s' = rl_max_keys s"
proof (cases "map_of (rl_hits s) key")
  case (Some h)
  then have c: "count_hit now key h s = (ok, s')" using run by (simp add: admit_def)
  note step = count_hit_represents [OF r pos(1,2) disjI1 [OF Some] c]
  have "recent_of (rl_window s) now lg key = [] \<longrightarrow> int (card (active_keys (rl_window s) now lg)) < rl_max_keys s"
    using active_fewer [OF r, of key] Some by simp
  then show ?thesis using step count_hit_fields [OF c] by (auto simp: allowed_def)
next
  case None
  then have old: "recent_of (rl_window s) now lg key = []" using r by (simp add: represents_iff)
  have fresh: ?thesis
    if p: "represents s1 lg now" "rl_limit s1 = rl_limit s" "rl_window s1 = rl_window s"
        "rl_max_keys s1 = rl_max_keys s" "map_of (rl_hits s1) key = None" "\<not> table_full s1"
      and c: "count_hit now key [] s1 = (ok, s')" for s1
  proof -
    note step = count_hit_represents [OF p(1) _ _ _ c]
    have "int (card (active_keys (rl_window s) now lg)) < rl_max_keys s"
      using active_at_most [OF p(1)] p(3,4,6) by (simp add: table_full_def tracked_keys_def)
    then show ?thesis
      using step p pos old count_hit_fields [OF c] by (simp add: allowed_def)
  qed
  let ?s1 = "if scan_due now s then prune (now - rl_window s) s else s"
  consider (room) "\<not> table_full s" "count_hit now key [] s = (ok, s')"
    | (refused) "table_full s" "table_full ?s1" "ok = False" "s' = ?s1"
    | (pruned) "table_full s" "\<not> table_full ?s1" "count_hit now key [] ?s1 = (ok, s')"
    using run None by (auto simp: admit_def Let_def split: if_splits)
  then show ?thesis
  proof cases
    case room
    show ?thesis by (rule fresh [OF r refl refl refl None room])
  next
    case refused
    have r1: "represents ?s1 lg now" using r represents_prune [OF r pos(2,3)] by simp
    have live: "now - rl_window s < last h" if "map_of (rl_hits ?s1) k = Some h" for k h
    proof (cases "scan_due now s")
      case True
      then show ?thesis using that map_of_SomeD [of "rl_hits ?s1" k h] by (simp add: prune_hits)
    next
      case False
      then obtain p where "rl_prune_not_before s = Some p" "now < p"
        by (auto simp: scan_due_def split: option.splits)
      moreover have "map_of (rl_hits s) k = Some h" using that False by simp
      ultimately show ?thesis using r unfolding represents_iff by fastforce
    qed
    have w1: "rl_window ?s1 = rl_window s" "rl_max_keys ?s1 = rl_max_keys s" "rl_limit ?s1 = rl_limit s"
      by (simp_all add: prune_hits)
    have "card (active_keys (rl_window s) now lg) = length (rl_hits ?s1)"
      using active_all [OF r1] live w1 by simp
    then have "\<not> int (card (active_keys (rl_window s) now lg)) < rl_max_keys s"
      using refused(2) w1 by (simp add: table_full_def tracked_keys_def)
    then show ?thesis using refused r1 w1 old by (simp add: allowed_def)
  next
    case pruned
    have none: "map_of (rl_hits ?s1) key = None"
      using None by (auto simp: prune_hits map_of_eq_None_iff)
    have r1: "represents ?s1 lg now" using r represents_prune [OF r pos(2,3)] by simp
    show ?thesis by (rule fresh [OF r1 _ _ _ none pruned(2,3)]) (simp_all add: prune_hits)
  qed
qed

text \<open>Any sequence of requests whose clock readings do not go back.\<close>

lemma admit_all_allowed:
  assumes "represents s lg t" and "1 \<le> rl_limit s" "0 < rl_window s" "1 \<le> rl_max_keys s"
    and "sorted (t # map fst reqs)"
  shows "admit_all reqs s = allow_all (rl_limit s) (rl_window s) (rl_max_keys s) lg reqs"
  using assms
proof (induction reqs arbitrary: s lg t)
  case (Cons req reqs)
  obtain now key where req: "req = (now, key)" by fastforce
  obtain ok s' where run: "admit now key s = (ok, s')" by fastforce
  have now: "represents s lg now" using represents_later Cons.prems(1,5) req by auto
  note step = admit_represents [OF now Cons.prems(2-4) run]
  then have "admit_all reqs s' = allow_all (rl_limit s') (rl_window s') (rl_max_keys s')
      (if ok then lg @ [(now, key)] else lg) reqs"
    using Cons.prems req by (intro Cons.IH [of s' _ now]) auto
  then show ?case using step by (simp add: req run Let_def)
qed simp

lemma fresh_represents:
  "make_limiter limit window max_keys = Inr s \<Longrightarrow>
   represents s [] t \<and> rl_limit s = limit \<and> rl_window s = window \<and> rl_max_keys s = max_keys \<and>
     1 \<le> limit \<and> 0 < window \<and> 1 \<le> max_keys"
  by (auto simp: make_limiter_def represents_iff tracked_keys_def recent_of_def times_of_def split: if_splits)

end
