(* ===== verification/Correlation.thy ===== *)
theory Correlation
  imports Errors "HOL-Library.List_Lexorder" "HOL-Library.Char_ord" "HOL-Library.Product_Lexorder"
begin

text \<open>
  The correlation of an incoming alert with open incidents, \<open>src/asic/ingestion/correlation.py\<close>:
  five factors per candidate, and the matching candidate nearest in time, ties broken by the
  identifier. Instants are microseconds; the round trip of an anchor through \<open>isoformat\<close> and
  \<open>fromisoformat\<close> is the instant itself. The lemmas characterise the selected incident
  independently of the order of the candidates.
\<close>

definition POLICY_VERSION :: string where "POLICY_VERSION = ''service-category-window/3''"
definition WINDOW_SECONDS :: int where "WINDOW_SECONDS = 900"
definition MAX_CANDIDATES :: nat where "MAX_CANDIDATES = 256"

record Candidate =
  cd_incident :: string
  cd_environment :: string
  cd_service :: "string option"
  cd_category :: "string option"
  cd_started_at :: int
  cd_active :: bool

record alert_facts =
  al_environment :: string
  al_service :: string
  al_category :: string
  al_started_at :: int

record explanation =
  xp_incident :: string
  xp_factors :: "(string \<times> bool) list"
  xp_anchor :: int
  xp_matched :: bool
  xp_reasons :: "string list"

definition anchor_delta :: "int \<Rightarrow> alert_facts \<Rightarrow> int" where
  "anchor_delta anchor a = \<bar>anchor - al_started_at a\<bar>"

definition factors :: "alert_facts \<Rightarrow> Candidate \<Rightarrow> (string \<times> bool) list" where
  "factors a c =
     [(''environment_equal'', cd_environment c = al_environment a),
      (''service_equal'', cd_service c = Some (al_service a)),
      (''category_equal'', cd_category c = Some (al_category a)),
      (''within_window'', anchor_delta (cd_started_at c) a \<le> WINDOW_SECONDS * 1000000),
      (''incident_active'', cd_active c)]"

definition explain :: "alert_facts \<Rightarrow> Candidate \<Rightarrow> explanation" where
  "explain a c =
     \<lparr>xp_incident = cd_incident c, xp_factors = factors a c, xp_anchor = cd_started_at c,
      xp_matched = (\<forall>(k, passed) \<in> set (factors a c). passed),
      xp_reasons = map fst (filter (\<lambda>(k, passed). \<not> passed) (factors a c))\<rparr>"

text \<open>The decision; the constant texts of the report are left out.\<close>

record correlation =
  co_considered :: "explanation list"
  co_selected :: "string option"
  co_joins :: bool
  co_reason :: string
  co_ordered_matches :: "string list"

definition match_order :: "alert_facts \<Rightarrow> explanation \<Rightarrow> int \<times> string" where
  "match_order a x = (anchor_delta (xp_anchor x) a, xp_incident x)"

definition decide_correlation :: "alert_facts \<Rightarrow> Candidate list \<Rightarrow> correlation" where
  "decide_correlation a candidates =
     (let considered = map (explain a) candidates;
          matches = sort_key (match_order a) (filter xp_matched considered) in
      \<lparr>co_considered = considered,
       co_selected = (case matches of [] \<Rightarrow> None | x # xs \<Rightarrow> Some (xp_incident x)),
       co_joins = (matches \<noteq> []),
       co_reason =
         (if length matches = 1 then ''unique_match''
          else if matches \<noteq> [] then ''deterministic_tie_break'' else ''no_match''),
       co_ordered_matches = map xp_incident matches\<rparr>)"

section \<open>Facts\<close>

definition candidate_matches :: "alert_facts \<Rightarrow> Candidate \<Rightarrow> bool" where
  "candidate_matches a c \<longleftrightarrow>
     cd_environment c = al_environment a \<and> cd_service c = Some (al_service a) \<and>
     cd_category c = Some (al_category a) \<and>
     \<bar>cd_started_at c - al_started_at a\<bar> \<le> 900000000 \<and> cd_active c"

lemma explain_matched: "xp_matched (explain a c) \<longleftrightarrow> candidate_matches a c"
  by (simp add: explain_def factors_def candidate_matches_def anchor_delta_def WINDOW_SECONDS_def)

lemma explain_reasons: "xp_reasons (explain a c) = [] \<longleftrightarrow> candidate_matches a c"
  by (auto simp: explain_def factors_def candidate_matches_def anchor_delta_def WINDOW_SECONDS_def)

lemma sort_key_head:
  fixes f :: "'a \<Rightarrow> 'b :: linorder"
  assumes "sort_key f xs = y # ys"
  shows "y \<in> set xs" and "\<forall>x \<in> set xs. f y \<le> f x"
proof -
  have s: "set (sort_key f xs) = set xs" "sorted (map f (sort_key f xs))" by simp_all
  then show "y \<in> set xs" using assms by auto
  show "\<forall>x \<in> set xs. f y \<le> f x" using s assms by auto
qed

definition nearest :: "alert_facts \<Rightarrow> Candidate list \<Rightarrow> Candidate \<Rightarrow> bool" where
  "nearest a candidates c \<longleftrightarrow> c \<in> set candidates \<and> candidate_matches a c \<and>
     (\<forall>c' \<in> set candidates. candidate_matches a c' \<longrightarrow>
        (\<bar>cd_started_at c - al_started_at a\<bar>, cd_incident c) \<le> (\<bar>cd_started_at c' - al_started_at a\<bar>, cd_incident c'))"

lemma matches_head:
  assumes "sort_key (match_order a) (filter xp_matched (map (explain a) cs)) = x # xs"
  obtains c where "x = explain a c" "nearest a cs c"
proof -
  note h = sort_key_head [OF assms]
  obtain c where c: "c \<in> set cs" "x = explain a c" "candidate_matches a c"
    using h(1) explain_matched by auto
  have "match_order a (explain a c) \<le> match_order a (explain a c')"
    if "c' \<in> set cs" "candidate_matches a c'" for c'
    using h(2) that c(2) explain_matched by auto
  then show thesis
    using c that by (simp add: nearest_def match_order_def explain_def anchor_delta_def)
qed

lemma selected_nearest:
  "co_selected (decide_correlation a cs) = Some i \<longleftrightarrow> (\<exists>c. nearest a cs c \<and> cd_incident c = i)"
proof
  assume "co_selected (decide_correlation a cs) = Some i"
  then obtain x xs where "sort_key (match_order a) (filter xp_matched (map (explain a) cs)) = x # xs"
      "xp_incident x = i"
    by (auto simp: decide_correlation_def Let_def split: list.splits)
  then obtain c where "x = explain a c" "nearest a cs c" by (metis matches_head)
  then show "\<exists>c. nearest a cs c \<and> cd_incident c = i"
    using \<open>xp_incident x = i\<close> by (auto simp: explain_def)
next
  assume "\<exists>c. nearest a cs c \<and> cd_incident c = i"
  then obtain c where c: "nearest a cs c" "cd_incident c = i" by blast
  let ?m = "filter xp_matched (map (explain a) cs)"
  have "explain a c \<in> set ?m" using c explain_matched by (auto simp: nearest_def)
  then have "sort_key (match_order a) ?m \<noteq> []" by (metis empty_iff list.set(1) set_sort)
  then obtain x xs where x: "sort_key (match_order a) ?m = x # xs" by (meson list.exhaust)
  then obtain d where d: "x = explain a d" "nearest a cs d" by (rule matches_head)
  have "(\<bar>cd_started_at c - al_started_at a\<bar>, cd_incident c) = (\<bar>cd_started_at d - al_started_at a\<bar>, cd_incident d)"
    using c(1) d(2) unfolding nearest_def by (meson order_antisym)
  then show "co_selected (decide_correlation a cs) = Some i"
    using x d(1) c(2) by (simp add: decide_correlation_def Let_def explain_def)
qed

lemma joins_iff: "co_joins (decide_correlation a cs) \<longleftrightarrow> (\<exists>c \<in> set cs. candidate_matches a c)"
proof -
  let ?m = "filter xp_matched (map (explain a) cs)"
  have "sort_key (match_order a) ?m = [] \<longleftrightarrow> ?m = []" by (metis set_sort set_empty)
  then show ?thesis
    by (simp add: decide_correlation_def Let_def filter_empty_conv explain_matched del: filter_map)
qed

end
