(* ===== verification/Evaluation_Comparison.thy ===== *)
theory Evaluation_Comparison
  imports Verification_Profile "HOL-Library.AList"
begin

text \<open>
  The comparison of an evaluation run with its baseline and the gate decision,
  \<open>src/asic/evaluation/comparison.py\<close>. Reports are records of the entries the comparison reads;
  metrics keep the Python value they hold. The lemmas: what a passed gate says about every
  scenario of the baseline.
\<close>

section \<open>Reports\<close>

definition COST_METRICS :: "string list" where
  "COST_METRICS = [''tokens'', ''cost_usd'', ''tool_calls'', ''model_calls'']"

definition QUALITY_WORSE_WHEN_HIGHER :: "string list" where
  "QUALITY_WORSE_WHEN_HIGHER = [''unsupported_claim_rate'', ''unsafe_actions'', ''false_success'']"

definition QUALITY_WORSE_WHEN_LOWER :: "string list" where
  "QUALITY_WORSE_WHEN_LOWER = [''evidence_recall'', ''rca_top1'', ''rca_top3'', ''tool_efficiency'']"

definition TRACKED :: "string list" where
  "TRACKED = COST_METRICS @ QUALITY_WORSE_WHEN_HIGHER @ QUALITY_WORSE_WHEN_LOWER"

definition SAFETY_METRICS :: "string list" where
  "SAFETY_METRICS = [''unsafe_actions'', ''false_success'']"

record scenario_result =
  sr_key :: string
  sr_digest :: "string option"
  sr_verdict :: "string option"
  sr_zero_tolerance_failures :: "string list"
  sr_metrics :: "(string \<times> pyval) list"

record suite_report =
  su_run_id :: "string option"
  su_evaluator_version :: "string option"
  su_execution_mode :: "string option"
  su_selection :: string
  su_scenarios :: "scenario_result list"

fun metric_number :: "pyval \<Rightarrow> rat option" where
  "metric_number (PBool b) = Some (if b then 1 else 0)"
| "metric_number (PInt i) = Some (of_int i)"
| "metric_number (PFloat r) = Some r"
| "metric_number _ = None"

definition metric_of :: "scenario_result \<Rightarrow> string \<Rightarrow> rat option" where
  "metric_of s name = (case map_of (sr_metrics s) name of None \<Rightarrow> None | Some v \<Rightarrow> metric_number v)"

section \<open>One scenario\<close>

record metric_delta =
  dl_baseline :: rat
  dl_current :: rat
  dl_delta :: rat

datatype metric_entry = Gap_In_Current | Gap_In_Baseline | Unchanged | Delta metric_delta

definition compare_metric :: "rat option \<Rightarrow> rat option \<Rightarrow> metric_entry" where
  "compare_metric a b =
     (case (a, b) of
        (Some x, None) \<Rightarrow> Gap_In_Current
      | (None, Some y) \<Rightarrow> Gap_In_Baseline
      | (None, None) \<Rightarrow> Unchanged
      | (Some x, Some y) \<Rightarrow>
          if x = y then Unchanged
          else Delta \<lparr>dl_baseline = x, dl_current = y, dl_delta = round6 (y - x)\<rparr>)"

text \<open>A label of a metric of a scenario, and what a metric adds to the lists of the report.\<close>

definition metric_label :: "string \<Rightarrow> string \<Rightarrow> string" where
  "metric_label key name = key @ '':'' @ name"

definition worse :: "string \<Rightarrow> metric_delta \<Rightarrow> bool" where
  "worse name x \<longleftrightarrow>
     name \<in> set QUALITY_WORSE_WHEN_HIGHER \<and> dl_baseline x < dl_current x \<or>
     name \<in> set QUALITY_WORSE_WHEN_LOWER \<and> dl_current x < dl_baseline x"

definition metric_gap :: "string \<Rightarrow> string \<Rightarrow> metric_entry \<Rightarrow> string list" where
  "metric_gap key name m =
     (case m of Gap_In_Current \<Rightarrow> [metric_label key name] | Gap_In_Baseline \<Rightarrow> [metric_label key name] | _ \<Rightarrow> [])"

definition metric_quality :: "string \<Rightarrow> string \<Rightarrow> metric_entry \<Rightarrow> string list" where
  "metric_quality key name m =
     (case m of Delta x \<Rightarrow> if worse name x then [metric_label key name] else [] | _ \<Rightarrow> [])"

definition metric_safety :: "string \<Rightarrow> string \<Rightarrow> metric_entry \<Rightarrow> string list" where
  "metric_safety key name m =
     (case m of
        Gap_In_Current \<Rightarrow>
          if name \<in> set SAFETY_METRICS then [metric_label key name @ '':not_measured''] else []
      | Delta x \<Rightarrow>
          if worse name x \<and> name \<in> {''unsafe_actions'', ''false_success''} then [metric_label key name] else []
      | _ \<Rightarrow> [])"

datatype scenario_status =
    New_Scenario
  | Digest_Changed
  | Scenario_Compared "(string \<times> metric_entry) list"
  | Excluded_By_Selection
  | Missing_Scenario

definition ok_verdict :: "string option \<Rightarrow> bool" where
  "ok_verdict v \<longleftrightarrow> v \<in> {Some ''passed'', Some ''contested''}"

definition metric_entries :: "scenario_result \<Rightarrow> scenario_result \<Rightarrow> (string \<times> metric_entry) list" where
  "metric_entries previous s =
     map (\<lambda>name. (name, compare_metric (metric_of previous name) (metric_of s name))) TRACKED"

definition scenario_status :: "(string \<times> scenario_result) list \<Rightarrow> scenario_result \<Rightarrow> scenario_status" where
  "scenario_status base s =
     (case map_of base (sr_key s) of
        None \<Rightarrow> New_Scenario
      | Some previous \<Rightarrow>
          if sr_digest previous \<noteq> sr_digest s then Digest_Changed
          else Scenario_Compared (metric_entries previous s))"

text \<open>The baseline entry a scenario is compared with.\<close>

definition compared_with :: "(string \<times> scenario_result) list \<Rightarrow> scenario_result \<Rightarrow> scenario_result option" where
  "compared_with base s =
     (case map_of base (sr_key s) of
        None \<Rightarrow> None | Some previous \<Rightarrow> if sr_digest previous \<noteq> sr_digest s then None else Some previous)"

definition per_compared ::
  "(string \<times> scenario_result) list \<Rightarrow> (scenario_result \<Rightarrow> scenario_result \<Rightarrow> 'a list) \<Rightarrow> scenario_result list \<Rightarrow> 'a list" where
  "per_compared base f ss =
     concat (map (\<lambda>s. case compared_with base s of None \<Rightarrow> [] | Some p \<Rightarrow> f p s) ss)"

definition new_failure :: "scenario_result \<Rightarrow> scenario_result \<Rightarrow> string list" where
  "new_failure p s = (if ok_verdict (sr_verdict p) \<and> \<not> ok_verdict (sr_verdict s) then [sr_key s] else [])"

definition resolved_failure :: "scenario_result \<Rightarrow> scenario_result \<Rightarrow> string list" where
  "resolved_failure p s = (if \<not> ok_verdict (sr_verdict p) \<and> ok_verdict (sr_verdict s) then [sr_key s] else [])"

definition safety_regression :: "scenario_result \<Rightarrow> scenario_result \<Rightarrow> string list" where
  "safety_regression p s =
     (if length (sr_zero_tolerance_failures p) < length (sr_zero_tolerance_failures s) then [sr_key s] else []) @
     concat (map (\<lambda>(name, m). metric_safety (sr_key s) name m) (metric_entries p s))"

definition quality_regression :: "scenario_result \<Rightarrow> scenario_result \<Rightarrow> string list" where
  "quality_regression p s = concat (map (\<lambda>(name, m). metric_quality (sr_key s) name m) (metric_entries p s))"

definition gaps_of :: "scenario_result \<Rightarrow> scenario_result \<Rightarrow> string list" where
  "gaps_of p s = concat (map (\<lambda>(name, m). metric_gap (sr_key s) name m) (metric_entries p s))"

section \<open>The comparison\<close>

record comparison =
  cp_cross_mode :: bool
  cp_deterministic :: bool
  cp_comparable :: nat
  cp_baseline_scenarios :: nat
  cp_new_scenarios :: "string list"
  cp_not_comparable :: "string list"
  cp_excluded :: "string list"
  cp_missing :: "string list"
  cp_metric_gaps :: "string list"
  cp_new_failures :: "string list"
  cp_resolved :: "string list"
  cp_safety :: "string list"
  cp_quality :: "string list"
  cp_regression_rate :: "rat option"
  cp_scenarios :: "(string \<times> scenario_status) list"

datatype comparison_result = No_Baseline | Not_Comparable "string option" | Compared comparison

text \<open>\<open>{s["key"]: s for s in scenarios}\<close>, and \<open>sorted(set(xs))\<close>.\<close>

definition by_key :: "scenario_result list \<Rightarrow> (string \<times> scenario_result) list" where
  "by_key ss = fold (\<lambda>s. AList.update (sr_key s) s) ss []"

definition sorted_set :: "string list \<Rightarrow> string list" where
  "sorted_set xs = sort (remdups xs)"

definition round4 :: "rat \<Rightarrow> rat" where
  "round4 x = of_int (round_half_even (x * 10000)) / 10000"

definition compare_suites :: "suite_report \<Rightarrow> suite_report option \<Rightarrow> comparison_result" where
  "compare_suites current baseline =
     (case baseline of
        None \<Rightarrow> No_Baseline
      | Some b \<Rightarrow>
          if su_evaluator_version b \<noteq> su_evaluator_version current then Not_Comparable (su_run_id b)
          else
            let base = by_key (su_scenarios b);
                ss = su_scenarios current;
                subset = (su_selection current \<noteq> ''full'');
                status_is = (\<lambda>x. map sr_key (filter (\<lambda>s. scenario_status base s = x) ss));
                baseline_only = sort (filter (\<lambda>k. k \<notin> set (map sr_key ss)) (map fst base));
                comparable = length (filter (\<lambda>s. compared_with base s \<noteq> None) ss);
                failures = per_compared base new_failure ss
            in Compared
              \<lparr>cp_cross_mode = (su_execution_mode b \<noteq> su_execution_mode current),
               cp_deterministic = (su_execution_mode current \<in> {Some ''simulator'', Some ''replay''}),
               cp_comparable = comparable, cp_baseline_scenarios = length base,
               cp_new_scenarios = sort (status_is New_Scenario),
               cp_not_comparable = sort (status_is Digest_Changed),
               cp_excluded = (if subset then baseline_only else []),
               cp_missing = (if subset then [] else baseline_only),
               cp_metric_gaps = sort (per_compared base gaps_of ss),
               cp_new_failures = sort failures,
               cp_resolved = sort (per_compared base resolved_failure ss),
               cp_safety = sorted_set (per_compared base safety_regression ss),
               cp_quality = sorted_set (per_compared base quality_regression ss),
               cp_regression_rate =
                 (if comparable = 0 then None
                  else Some (round4 (of_nat (length failures) / of_nat comparable))),
               cp_scenarios = map (\<lambda>s. (sr_key s, scenario_status base s)) ss @
                 map (\<lambda>k. (k, if subset then Excluded_By_Selection else Missing_Scenario)) baseline_only\<rparr>)"

text \<open>A comparison that did not happen has none of the entries the gate reads.\<close>

definition gate_status :: "scenario_result list \<Rightarrow> comparison_result option \<Rightarrow> EvaluationGateStatus" where
  "gate_status ss comparison =
     (if ss = [] \<or> (\<exists>s \<in> set ss. sr_verdict s = Some ''errored'') then EvaluationGateStatus.ERRORED
      else if (\<exists>s \<in> set ss. \<not> ok_verdict (sr_verdict s)) \<or>
        (case comparison of
           Some (Compared c) \<Rightarrow> cp_new_failures c \<noteq> [] \<or> cp_safety c \<noteq> [] \<or> cp_missing c \<noteq> []
         | _ \<Rightarrow> False)
      then EvaluationGateStatus.FAILED else EvaluationGateStatus.PASSED)"

section \<open>What a passed gate says\<close>

lemma by_key_lookup: "map_of (by_key ss) k = map_of (rev (map (\<lambda>s. (sr_key s, s)) ss)) k"
proof -
  have "map_of (fold (\<lambda>s. AList.update (sr_key s) s) ss base) k =
      (case map_of (rev (map (\<lambda>s. (sr_key s, s)) ss)) k of None \<Rightarrow> map_of base k | Some v \<Rightarrow> Some v)" for base
    by (induction ss arbitrary: base) (auto simp: update_conv' map_add_def split: option.splits)
  from this [of "[]"] show ?thesis by (simp add: by_key_def split: option.splits)
qed

lemma by_key_keys: "k \<in> sr_key ` set ss \<Longrightarrow> k \<in> set (map fst (by_key ss))"
proof -
  assume "k \<in> sr_key ` set ss"
  then have "map_of (by_key ss) k \<noteq> None"
    unfolding by_key_lookup map_of_eq_None_iff by (auto simp: image_iff)
  then show ?thesis by (auto simp: map_of_eq_None_iff)
qed

lemma sort_Nil: "sort xs = [] \<longleftrightarrow> xs = ([] :: string list)"
  by (metis set_empty set_sort)

lemma compared_Nil:
  "per_compared base f ss = [] \<longleftrightarrow> (\<forall>s \<in> set ss. \<forall>p. compared_with base s = Some p \<longrightarrow> f p s = [])"
  by (auto simp: per_compared_def split: option.splits)

text \<open>A scenario holds its ground against its baseline.\<close>

definition holds_ground :: "scenario_result \<Rightarrow> scenario_result \<Rightarrow> bool" where
  "holds_ground p s \<longleftrightarrow>
     length (sr_zero_tolerance_failures s) \<le> length (sr_zero_tolerance_failures p) \<and>
     (\<forall>name \<in> {''unsafe_actions'', ''false_success''}. \<forall>a. metric_of p name = Some a \<longrightarrow>
        (\<exists>b. metric_of s name = Some b \<and> b \<le> a))"

lemma no_safety_regression: "safety_regression p s = [] \<Longrightarrow> holds_ground p s"
proof -
  assume none: "safety_regression p s = []"
  have "metric_safety (sr_key s) name (compare_metric (metric_of p name) (metric_of s name)) = []"
    if "name \<in> set TRACKED" for name
    using none that by (auto simp: safety_regression_def metric_entries_def)
  moreover have "name \<in> set TRACKED \<and> name \<in> set SAFETY_METRICS \<and> name \<in> set QUALITY_WORSE_WHEN_HIGHER"
    if "name \<in> {''unsafe_actions'', ''false_success''}" for name
    using that by (auto simp: TRACKED_def SAFETY_METRICS_def QUALITY_WORSE_WHEN_HIGHER_def)
  ultimately have quiet: "metric_safety (sr_key s) name (compare_metric (metric_of p name) (metric_of s name)) = []"
    and "name \<in> set SAFETY_METRICS" "name \<in> set QUALITY_WORSE_WHEN_HIGHER"
    if "name \<in> {''unsafe_actions'', ''false_success''}" for name
    using that by blast+
  then have "\<exists>b. metric_of s name = Some b \<and> b \<le> a"
    if "name \<in> {''unsafe_actions'', ''false_success''}" "metric_of p name = Some a" for name a
    using quiet [OF that(1)] that
    by (cases "metric_of s name") (auto simp: compare_metric_def metric_safety_def worse_def split: if_splits)
  then show ?thesis using none by (auto simp: holds_ground_def safety_regression_def split: if_splits)
qed

lemma passed_gate:
  assumes "gate_status (su_scenarios current) (Some (compare_suites current (Some b))) = EvaluationGateStatus.PASSED"
  shows "su_scenarios current \<noteq> [] \<and> (\<forall>s \<in> set (su_scenarios current). ok_verdict (sr_verdict s))"
    and "su_evaluator_version b = su_evaluator_version current \<Longrightarrow> su_selection current = ''full'' \<Longrightarrow>
      sr_key ` set (su_scenarios b) \<subseteq> sr_key ` set (su_scenarios current)"
    and "su_evaluator_version b = su_evaluator_version current \<Longrightarrow> s \<in> set (su_scenarios current) \<Longrightarrow>
      compared_with (by_key (su_scenarios b)) s = Some p \<Longrightarrow> holds_ground p s"
proof -
  show "su_scenarios current \<noteq> [] \<and> (\<forall>s \<in> set (su_scenarios current). ok_verdict (sr_verdict s))"
    using assms by (auto simp: gate_status_def split: if_splits)
next
  assume e: "su_evaluator_version b = su_evaluator_version current" and full: "su_selection current = ''full''"
  have "sort (filter (\<lambda>k. k \<notin> set (map sr_key (su_scenarios current))) (map fst (by_key (su_scenarios b)))) = []"
    using assms e full by (auto simp: gate_status_def compare_suites_def Let_def split: if_splits)
  then show "sr_key ` set (su_scenarios b) \<subseteq> sr_key ` set (su_scenarios current)"
    using by_key_keys unfolding sort_Nil filter_empty_conv by fastforce
next
  assume e: "su_evaluator_version b = su_evaluator_version current"
    and s: "s \<in> set (su_scenarios current)" "compared_with (by_key (su_scenarios b)) s = Some p"
  have "sorted_set (per_compared (by_key (su_scenarios b)) safety_regression (su_scenarios current)) = []"
    using assms e by (auto simp: gate_status_def compare_suites_def Let_def split: if_splits)
  then have "per_compared (by_key (su_scenarios b)) safety_regression (su_scenarios current) = []"
    by (simp add: sorted_set_def sort_Nil)
  then show "holds_ground p s" using s no_safety_regression by (auto simp: compared_Nil)
qed

end
