(* ===== verification/Memory_Policy.thy ===== *)
theory Memory_Policy
  imports Idempotency
begin

text \<open>
  The memory-write policy, \<open>src/asic/memory/policy.py\<close>: the request model and its validation,
  the facts resolved from the database, the decision, the keys of a proposal and its support.
  A set or mapping that the code only searches is a list. The lemmas: what verified provenance
  rests on, what an accepted proposal can be, and that the key of a proposal determines the
  proposal up to the order of its references when the hash has no collision.
\<close>

section \<open>Requests and resolved references\<close>

definition MEMORY_POLICY_VERSION :: string where "MEMORY_POLICY_VERSION = ''memory-write/1''"

record memory_write_request =
  mw_category :: MemoryCategory
  mw_statement :: string
  mw_rationale :: string
  mw_root_cause_class :: string
  mw_context_signature :: "(string \<times> string) list"
  mw_incident_ids :: "string list"
  mw_evidence_ids :: "string list"
  mw_verification_ids :: "string list"
  mw_knowledge_citations :: "string list"

definition slug_letter :: "char \<Rightarrow> bool" where
  "slug_letter c \<longleftrightarrow> (let n = of_char c :: nat in 97 \<le> n \<and> n \<le> 122)"

definition slug_tail :: "char \<Rightarrow> bool" where
  "slug_tail c \<longleftrightarrow> slug_letter c \<or> c = CHR ''_'' \<or> (let n = of_char c :: nat in 48 \<le> n \<and> n \<le> 57)"

text \<open>\<open>_ROOT_CAUSE_PATTERN\<close> and \<open>_KEY_PATTERN\<close> differ in the fewest characters of the tail.\<close>

fun slug_matches :: "nat \<Rightarrow> string \<Rightarrow> bool" where
  "slug_matches fewest [] = False"
| "slug_matches fewest (c # cs) \<longleftrightarrow>
     slug_letter c \<and> list_all slug_tail cs \<and> fewest \<le> length cs \<and> length cs \<le> 63"

definition request_valid :: "memory_write_request \<Rightarrow> bool" where
  "request_valid r \<longleftrightarrow>
     1 \<le> length (mw_statement r) \<and> length (mw_statement r) \<le> 2000 \<and>
     1 \<le> length (mw_rationale r) \<and> length (mw_rationale r) \<le> 2000 \<and>
     slug_matches 1 (mw_root_cause_class r) \<and>
     list_all (\<lambda>(k, v). slug_matches 0 k \<and> length v \<le> 200) (mw_context_signature r) \<and>
     length (mw_context_signature r) \<le> 16 \<and>
     length (mw_incident_ids r) \<le> 16 \<and> length (mw_evidence_ids r) \<le> 64 \<and>
     length (mw_verification_ids r) \<le> 32 \<and>
     list_all (\<lambda>c. length c \<le> 160) (mw_knowledge_citations r) \<and>
     length (mw_knowledge_citations r) \<le> 32"

record memory_actor =
  ma_actor_type :: ActorType
  ma_actor_id :: "string option"
  ma_user_id :: "string option"

record verification_fact =
  vfa_verification_id :: string
  vfa_verdict :: VerificationVerdict
  vfa_incident_id :: string
  vfa_remediation_action_id :: string
  vfa_criteria_hash :: string
  vfa_action_criteria_hash :: string
  vfa_baseline :: "(string \<times> pyval) list"
  vfa_observed :: "(string \<times> pyval) list"
  vfa_provenance_valid :: bool
  vfa_action_status :: RemediationActionStatus

record resolved_references =
  rr_incidents :: "(string \<times> bool) list"
  rr_evidence_ids :: "string list"
  rr_verifications :: "verification_fact list"
  rr_citations_resolved :: int
  rr_missing :: "string list"

record memory_decision =
  md_allowed :: bool
  md_reason :: string
  md_target_kind :: "MemoryKind option"
  md_origin_provenance :: "ProvenanceLabel option"

definition memory_refused :: "string \<Rightarrow> memory_decision" where
  "memory_refused reason =
     \<lparr>md_allowed = False, md_reason = reason, md_target_kind = None, md_origin_provenance = None\<rparr>"

definition memory_accepted :: "MemoryKind \<Rightarrow> ProvenanceLabel \<Rightarrow> memory_decision" where
  "memory_accepted kind origin =
     \<lparr>md_allowed = True, md_reason = ''proposal_accepted'', md_target_kind = Some kind,
      md_origin_provenance = Some origin\<rparr>"

section \<open>The decision\<close>

definition evaluate_verified_outcome :: "memory_write_request \<Rightarrow> resolved_references \<Rightarrow> memory_decision" where
  "evaluate_verified_outcome r refs =
     (let vs = rr_verifications refs in
      if mw_verification_ids r = [] then memory_refused ''verification_evidence_required''
      else if list_ex (\<lambda>v. vfa_verdict v \<noteq> VerificationVerdict.VERIFIED) vs
        then memory_refused ''verification_not_verified''
      else if list_ex (\<lambda>v. vfa_criteria_hash v \<noteq> vfa_action_criteria_hash v) vs
        then memory_refused ''verification_criteria_mismatch''
      else if list_ex (\<lambda>v. vfa_baseline v = []) vs
        then memory_refused ''verification_baseline_missing''
      else if list_ex (\<lambda>v. vfa_observed v = []) vs
        then memory_refused ''verification_observed_missing''
      else if list_ex (\<lambda>v. \<not> vfa_provenance_valid v) vs
        then memory_refused ''verification_provenance_invalid''
      else if list_ex (\<lambda>v. vfa_action_status v \<noteq> RemediationActionStatus.VERIFIED) vs
        then memory_refused ''verification_action_status_not_verified''
      else if mw_incident_ids r = [] \<or>
              \<not> list_all (\<lambda>v. vfa_incident_id v \<in> set (mw_incident_ids r)) vs
        then memory_refused ''verification_not_linked_to_incident''
      else memory_accepted MemoryKind.VERIFIED_OUTCOME ProvenanceLabel.VERIFIED_FACT)"

definition evaluate_knowledge ::
  "memory_write_request \<Rightarrow> memory_actor \<Rightarrow> resolved_references \<Rightarrow> memory_decision" where
  "evaluate_knowledge r actor refs =
     (if mw_verification_ids r \<noteq> [] then memory_refused ''verification_only_for_verified_outcomes''
      else if mw_incident_ids r = [] \<and> mw_evidence_ids r = [] \<and> mw_knowledge_citations r = []
        then memory_refused ''source_reference_required''
      else if list_ex (\<lambda>(i, terminal). \<not> terminal) (rr_incidents refs)
        then memory_refused ''incident_not_closed''
      else memory_accepted MemoryKind.OPERATIONAL_FACT
             (if ma_actor_type actor = ActorType.AGENT_NODE then ProvenanceLabel.MODEL_CLAIM
              else ProvenanceLabel.RETRIEVED))"

definition evaluate_memory ::
  "memory_write_request \<Rightarrow> memory_actor \<Rightarrow> resolved_references \<Rightarrow> memory_decision" where
  "evaluate_memory r actor refs =
     (if mw_category r = MemoryCategory.WORKING_STATE
        then memory_refused ''working_state_is_not_durable_memory''
      else if mw_category r = MemoryCategory.INCIDENT_HISTORY
        then memory_refused ''incident_history_is_derived_not_written''
      else if mw_category r = MemoryCategory.MODEL_INFERENCE
        then memory_refused ''model_inferences_are_not_retained''
      else if rr_missing refs \<noteq> [] then memory_refused ''unresolved_reference''
      else if mw_category r = MemoryCategory.VERIFIED_OUTCOME then evaluate_verified_outcome r refs
      else evaluate_knowledge r actor refs)"

section \<open>Keys and support\<close>

text \<open>\<open>_digest\<close> of a mapping whose values are rendered: keys sorted, compact separators.\<close>

definition json_entry :: "string \<times> string \<Rightarrow> string" where
  "json_entry kv = json_str (fst kv) @ '':'' @ snd kv"

definition json_object :: "(string \<times> string) list \<Rightarrow> string" where
  "json_object kvs = ''{'' @ py_join '','' (map json_entry kvs) @ ''}''"

definition references_digest :: "key_ops \<Rightarrow> memory_write_request \<Rightarrow> string" where
  "references_digest ops r =
     sha256_hex ops (json_object
       [(''citations'', json_list (sort (mw_knowledge_citations r))),
        (''evidence'', json_list (sort (mw_evidence_ids r))),
        (''incidents'', json_list (sort (mw_incident_ids r))),
        (''verifications'', json_list (sort (mw_verification_ids r)))])"

definition proposal_key :: "key_ops \<Rightarrow> memory_write_request \<Rightarrow> string" where
  "proposal_key ops r =
     sha256_hex ops (json_object
       [(''category'', json_str (MemoryCategory_value (mw_category r))),
        (''references'', json_str (references_digest ops r)),
        (''root_cause_class'', json_str (mw_root_cause_class r)),
        (''statement'', json_str (sha256_hex ops (mw_statement r)))])"

definition support_count :: "memory_write_request \<Rightarrow> verification_fact list \<Rightarrow> nat" where
  "support_count r vs =
     max 1 (length (remdups
       (if mw_category r = MemoryCategory.VERIFIED_OUTCOME
        then map vfa_incident_id (filter (\<lambda>v. vfa_verdict v = VerificationVerdict.VERIFIED) vs)
        else mw_incident_ids r)))"

section \<open>What a decision rests on\<close>

definition sound_evidence :: "memory_write_request \<Rightarrow> verification_fact \<Rightarrow> bool" where
  "sound_evidence r v \<longleftrightarrow>
     vfa_verdict v = VerificationVerdict.VERIFIED \<and>
     vfa_criteria_hash v = vfa_action_criteria_hash v \<and>
     vfa_baseline v \<noteq> [] \<and> vfa_observed v \<noteq> [] \<and> vfa_provenance_valid v \<and>
     vfa_action_status v = RemediationActionStatus.VERIFIED \<and>
     vfa_incident_id v \<in> set (mw_incident_ids r)"

lemma outcome_accepted:
  "md_allowed (evaluate_verified_outcome r refs) \<longleftrightarrow>
     mw_verification_ids r \<noteq> [] \<and> mw_incident_ids r \<noteq> [] \<and>
     (\<forall>v \<in> set (rr_verifications refs). sound_evidence r v)"
  by (simp add: evaluate_verified_outcome_def sound_evidence_def memory_refused_def memory_accepted_def
      Let_def list_ex_iff list_all_iff ball_conj_distrib)

lemma knowledge_accepted:
  "md_allowed (evaluate_knowledge r actor refs) \<longleftrightarrow>
     mw_verification_ids r = [] \<and>
     (mw_incident_ids r \<noteq> [] \<or> mw_evidence_ids r \<noteq> [] \<or> mw_knowledge_citations r \<noteq> []) \<and>
     (\<forall>(i, terminal) \<in> set (rr_incidents refs). terminal)"
  by (auto simp: evaluate_knowledge_def memory_refused_def memory_accepted_def list_ex_iff)

lemma outcome_origin:
  "md_origin_provenance (evaluate_verified_outcome r refs) =
     (if md_allowed (evaluate_verified_outcome r refs) then Some ProvenanceLabel.VERIFIED_FACT else None)"
  "md_target_kind (evaluate_verified_outcome r refs) =
     (if md_allowed (evaluate_verified_outcome r refs) then Some MemoryKind.VERIFIED_OUTCOME else None)"
  by (auto simp: evaluate_verified_outcome_def memory_refused_def memory_accepted_def Let_def)

lemma knowledge_origin:
  "md_origin_provenance (evaluate_knowledge r actor refs) =
     (if md_allowed (evaluate_knowledge r actor refs)
      then Some (if ma_actor_type actor = ActorType.AGENT_NODE then ProvenanceLabel.MODEL_CLAIM
                 else ProvenanceLabel.RETRIEVED)
      else None)"
  by (auto simp: evaluate_knowledge_def memory_refused_def memory_accepted_def)

lemma verified_origin:
  "md_origin_provenance (evaluate_memory r actor refs) = Some ProvenanceLabel.VERIFIED_FACT \<longleftrightarrow>
     mw_category r = MemoryCategory.VERIFIED_OUTCOME \<and> rr_missing refs = [] \<and>
     mw_verification_ids r \<noteq> [] \<and> mw_incident_ids r \<noteq> [] \<and>
     (\<forall>v \<in> set (rr_verifications refs). sound_evidence r v)"
proof (cases "mw_category r = MemoryCategory.VERIFIED_OUTCOME \<and> rr_missing refs = []")
  case True
  then show ?thesis by (auto simp: evaluate_memory_def outcome_origin outcome_accepted)
next
  case False
  then show ?thesis
    by (auto simp: evaluate_memory_def knowledge_origin memory_refused_def)
qed

lemma support_bounds: "1 \<le> support_count r vs"
  by (simp add: support_count_def)

section \<open>What a key determines\<close>

lemma join_items_cont:
  assumes inj: "\<And>a b x y. f a @ x = f b @ y \<Longrightarrow> a = b \<and> x = y"
    and start: "\<And>a. f a \<noteq> [] \<and> hd (f a) \<noteq> e" and sep: "e \<noteq> CHR '',''"
  shows "py_join '','' (map f xs) @ e # x = py_join '','' (map f ys) @ e # y \<Longrightarrow> xs = ys \<and> x = y"
proof (induction xs arbitrary: ys)
  have no: "e # z \<noteq> f a @ w" for a z w using start [of a] by (cases "f a") auto
  {
    case Nil
    then show ?case using no by (cases ys) (auto simp: py_join_Cons)
  next
    case (Cons a xs)
    show ?case
    proof (cases ys)
      case Nil
      then show ?thesis using Cons.prems no by (metis append_assoc append_Nil list.simps(8,9) py_join.simps(1) py_join_Cons)
    next
      case (Cons b ys')
      let ?t = "\<lambda>zs z. if zs = [] then e # z else CHR '','' # py_join '','' (map f zs) @ e # z"
      have "f a @ ?t xs x = f b @ ?t ys' y"
        using Cons.prems Cons by (simp add: py_join_Cons split: if_splits)
      then have "a = b" "?t xs x = ?t ys' y" using inj by blast+
      then show ?thesis using Cons Cons.IH [of ys'] sep by (auto split: if_splits)
    qed
  }
qed

lemma json_list_cont: "json_list xs @ x = json_list ys @ y \<Longrightarrow> xs = ys \<and> x = y"
  using join_items_cont [of json_str "CHR '']''" xs x ys y, OF json_str_inj]
  by (simp add: json_list_def json_str_def)

lemma json_object_lists:
  "json_object [(a, json_list u), (b, json_list v), (c, json_list w), (d, json_list x)] =
   json_object [(a, json_list u'), (b, json_list v'), (c, json_list w'), (d, json_list x')] \<Longrightarrow>
   u = u' \<and> v = v' \<and> w = w' \<and> x = x'"
  by (auto simp: json_object_def json_entry_def dest!: json_list_cont json_list_inj)

lemma json_str_eq: "json_str s = json_str t \<Longrightarrow> s = t"
  using json_str_inj [of s "[]" t "[]"] by simp

lemma json_object_strings:
  "json_object [(a, json_str u), (b, json_str v), (c, json_str w), (d, json_str x)] =
   json_object [(a, json_str u'), (b, json_str v'), (c, json_str w'), (d, json_str x')] \<Longrightarrow>
   u = u' \<and> v = v' \<and> w = w' \<and> x = x'"
  by (auto simp: json_object_def json_entry_def dest!: json_str_inj json_str_eq)

definition same_references :: "memory_write_request \<Rightarrow> memory_write_request \<Rightarrow> bool" where
  "same_references r s \<longleftrightarrow>
     sort (mw_incident_ids r) = sort (mw_incident_ids s) \<and>
     sort (mw_evidence_ids r) = sort (mw_evidence_ids s) \<and>
     sort (mw_verification_ids r) = sort (mw_verification_ids s) \<and>
     sort (mw_knowledge_citations r) = sort (mw_knowledge_citations s)"

lemma references_digest_iff:
  assumes "inj (sha256_hex ops)"
  shows "references_digest ops r = references_digest ops s \<longleftrightarrow> same_references r s"
proof
  assume "references_digest ops r = references_digest ops s"
  then show "same_references r s"
    unfolding references_digest_def same_references_def
    by (auto dest!: injD [OF assms] json_object_lists)
qed (simp add: references_digest_def same_references_def)

lemma proposal_key_iff:
  assumes "inj (sha256_hex ops)"
  shows "proposal_key ops r = proposal_key ops s \<longleftrightarrow>
      mw_category r = mw_category s \<and> mw_root_cause_class r = mw_root_cause_class s \<and>
      mw_statement r = mw_statement s \<and> same_references r s" (is "_ \<longleftrightarrow> ?same")
proof
  assume "proposal_key ops r = proposal_key ops s"
  then have "MemoryCategory_value (mw_category r) = MemoryCategory_value (mw_category s) \<and>
      references_digest ops r = references_digest ops s \<and>
      mw_root_cause_class r = mw_root_cause_class s \<and>
      sha256_hex ops (mw_statement r) = sha256_hex ops (mw_statement s)"
    unfolding proposal_key_def by (auto dest!: injD [OF assms] json_object_strings)
  then show ?same
    using references_digest_iff [OF assms] injD [OF assms] memory_category.val_inj by blast
next
  assume ?same
  then show "proposal_key ops r = proposal_key ops s"
    using references_digest_iff [OF assms, of r s] by (simp add: proposal_key_def)
qed

end
