(* ===== verification/Retention.thy ===== *)
theory Retention
  imports Idempotency "HOL-Library.Product_Lexorder"
begin

text \<open>
  Data retention: the classification of the tables, the bounds of each class, the validation of
  a tenant's policy and the read-only plan, \<open>src/asic/retention/policy.py\<close>; the lifecycle executor
  with its batches and receipts, \<open>src/asic/retention/executor.py\<close>, and the constraints of the
  receipt table, \<open>src/asic/db/models/retention.py\<close>. Instants are microseconds; the database is the
  policies of the tenants, the rows of the idempotency cache and the receipts. The lemmas: a
  batch takes the oldest expired rows, batches compose, and an execution removes exactly the
  oldest expired rows of its tenant, up to its bound.
\<close>

section \<open>Classes and their bounds\<close>

datatype (plugins only: code size) RetentionClass =
    PROTECTED_EVIDENCE
  | INCIDENT_RECORD
  | EXECUTION_TRACE
  | EVALUATION_HISTORY
  | KNOWLEDGE_CONTENT
  | OPERATIONAL_MEMORY
  | IDENTITY_AND_CONFIG
  | OPERATIONAL_CACHE
  | GLOBAL_CATALOGUE

fun RetentionClass_value :: "RetentionClass \<Rightarrow> string" where
  "RetentionClass_value PROTECTED_EVIDENCE = ''protected_evidence''"
| "RetentionClass_value INCIDENT_RECORD = ''incident_record''"
| "RetentionClass_value EXECUTION_TRACE = ''execution_trace''"
| "RetentionClass_value EVALUATION_HISTORY = ''evaluation_history''"
| "RetentionClass_value KNOWLEDGE_CONTENT = ''knowledge_content''"
| "RetentionClass_value OPERATIONAL_MEMORY = ''operational_memory''"
| "RetentionClass_value IDENTITY_AND_CONFIG = ''identity_and_config''"
| "RetentionClass_value OPERATIONAL_CACHE = ''operational_cache''"
| "RetentionClass_value GLOBAL_CATALOGUE = ''global_catalogue''"

definition RetentionClass_members :: "RetentionClass list" where
  "RetentionClass_members =
     [PROTECTED_EVIDENCE,
      INCIDENT_RECORD,
      EXECUTION_TRACE,
      EVALUATION_HISTORY,
      KNOWLEDGE_CONTENT,
      OPERATIONAL_MEMORY,
      IDENTITY_AND_CONFIG,
      OPERATIONAL_CACHE,
      GLOBAL_CATALOGUE]"

interpretation retention_class: str_enum RetentionClass_members RetentionClass_value
proof
  show "x \<in> set RetentionClass_members" for x
    by (cases x) (simp_all add: RetentionClass_members_def)
  show "distinct (map RetentionClass_value RetentionClass_members)"
    by (simp add: RetentionClass_members_def)
qed

definition TABLE_CLASSIFICATION :: "(string \<times> RetentionClass) list" where
  "TABLE_CLASSIFICATION =
     [(''audit_record'', PROTECTED_EVIDENCE),
      (''approval'', PROTECTED_EVIDENCE),
      (''policy_decision'', PROTECTED_EVIDENCE),
      (''verification'', PROTECTED_EVIDENCE),
      (''remediation_action'', PROTECTED_EVIDENCE),
      (''remediation_target'', PROTECTED_EVIDENCE),
      (''remediation_baseline'', PROTECTED_EVIDENCE),
      (''tool_execution'', PROTECTED_EVIDENCE),
      (''model_call_reservation'', PROTECTED_EVIDENCE),
      (''connector_scope_binding'', PROTECTED_EVIDENCE),
      (''retention_run'', PROTECTED_EVIDENCE),
      (''remediation_request'', PROTECTED_EVIDENCE),
      (''incident'', INCIDENT_RECORD),
      (''incident_event'', INCIDENT_RECORD),
      (''incident_reopen_candidate'', INCIDENT_RECORD),
      (''timeline_event'', INCIDENT_RECORD),
      (''alert'', INCIDENT_RECORD),
      (''signal_receipt'', INCIDENT_RECORD),
      (''evidence'', INCIDENT_RECORD),
      (''hypothesis'', INCIDENT_RECORD),
      (''hypothesis_evidence'', INCIDENT_RECORD),
      (''investigation_step'', INCIDENT_RECORD),
      (''investigation_dispatch'', INCIDENT_RECORD),
      (''postmortem'', INCIDENT_RECORD),
      (''workflow_run'', INCIDENT_RECORD),
      (''workflow_checkpoint'', INCIDENT_RECORD),
      (''execution_trace'', EXECUTION_TRACE),
      (''trace_span'', EXECUTION_TRACE),
      (''evaluation_scenario'', EVALUATION_HISTORY),
      (''evaluation_run'', EVALUATION_HISTORY),
      (''evaluation_suite_run'', EVALUATION_HISTORY),
      (''evaluation_judge_result'', EVALUATION_HISTORY),
      (''evaluation_replay_fixture'', EVALUATION_HISTORY),
      (''knowledge_source'', KNOWLEDGE_CONTENT),
      (''knowledge_document'', KNOWLEDGE_CONTENT),
      (''knowledge_chunk'', KNOWLEDGE_CONTENT),
      (''knowledge_ingestion'', KNOWLEDGE_CONTENT),
      (''knowledge_retrieval'', KNOWLEDGE_CONTENT),
      (''knowledge_retrieval_result'', KNOWLEDGE_CONTENT),
      (''memory_entry'', OPERATIONAL_MEMORY),
      (''memory_promotion'', OPERATIONAL_MEMORY),
      (''memory_write_decision'', OPERATIONAL_MEMORY),
      (''app_user'', IDENTITY_AND_CONFIG),
      (''user_role_assignment'', IDENTITY_AND_CONFIG),
      (''environment'', IDENTITY_AND_CONFIG),
      (''service'', IDENTITY_AND_CONFIG),
      (''service_dependency'', IDENTITY_AND_CONFIG),
      (''tenant_tool_grant'', IDENTITY_AND_CONFIG),
      (''integration_connector'', IDENTITY_AND_CONFIG),
      (''api_idempotency_record'', OPERATIONAL_CACHE),
      (''tenant'', GLOBAL_CATALOGUE),
      (''role'', GLOBAL_CATALOGUE),
      (''permission'', GLOBAL_CATALOGUE),
      (''role_permission'', GLOBAL_CATALOGUE),
      (''tool_definition'', GLOBAL_CATALOGUE),
      (''behaviour_version'', GLOBAL_CATALOGUE),
      (''alembic_version'', GLOBAL_CATALOGUE)]"

record ClassPolicy =
  cp_default_days :: "int option"
  cp_minimum_days :: "int option"
  cp_maximum_days :: "int option"
  cp_time_eligible :: bool

definition class_bounds :: "int option \<Rightarrow> int option \<Rightarrow> int option \<Rightarrow> bool \<Rightarrow> ClassPolicy" where
  "class_bounds d lo hi t =
     \<lparr>cp_default_days = d, cp_minimum_days = lo, cp_maximum_days = hi, cp_time_eligible = t\<rparr>"

fun CLASS_POLICIES :: "RetentionClass \<Rightarrow> ClassPolicy" where
  "CLASS_POLICIES PROTECTED_EVIDENCE = class_bounds None (Some 2555) None False"
| "CLASS_POLICIES INCIDENT_RECORD = class_bounds None (Some 365) None True"
| "CLASS_POLICIES EXECUTION_TRACE = class_bounds None (Some 90) None True"
| "CLASS_POLICIES EVALUATION_HISTORY = class_bounds None (Some 365) None True"
| "CLASS_POLICIES KNOWLEDGE_CONTENT = class_bounds None None None False"
| "CLASS_POLICIES OPERATIONAL_MEMORY = class_bounds None None None False"
| "CLASS_POLICIES IDENTITY_AND_CONFIG = class_bounds None None None False"
| "CLASS_POLICIES OPERATIONAL_CACHE = class_bounds (Some 30) (Some 1) (Some 365) True"
| "CLASS_POLICIES GLOBAL_CATALOGUE = class_bounds None None None False"

definition POLICY_CLASSES :: "RetentionClass list" where
  "POLICY_CLASSES =
     filter (\<lambda>c. cp_time_eligible (CLASS_POLICIES c) \<or> cp_minimum_days (CLASS_POLICIES c) \<noteq> None)
       RetentionClass_members"

definition MAX_DAYS :: int where "MAX_DAYS = 36500"

section \<open>A tenant's policy\<close>

record ClassRetention =
  cr_days :: "int option"
  cr_hold :: bool

type_synonym retention_policy = "(string \<times> pyval) list"
type_synonym resolved_retention = "RetentionClass \<Rightarrow> ClassRetention"

definition default_retention :: resolved_retention where
  "default_retention c = \<lparr>cr_days = cp_default_days (CLASS_POLICIES c), cr_hold = False\<rparr>"

text \<open>\<open>RetentionPolicyError\<close> is a \<open>ValueError\<close>.\<close>

definition days_setting :: "ClassPolicy \<Rightarrow> pyval \<Rightarrow> (py_error, int option) result" where
  "days_setting limits v = (case v of
       PNone \<Rightarrow> Inr None
     | PInt i \<Rightarrow>
         (let lowest = (case cp_minimum_days limits of None \<Rightarrow> 1 | Some m \<Rightarrow> m);
              highest = (case cp_maximum_days limits of None \<Rightarrow> MAX_DAYS | Some m \<Rightarrow> m)
          in if lowest \<le> i \<and> i \<le> highest then Inr (Some i) else Inl ValueError)
     | _ \<Rightarrow> Inl ValueError)"

definition class_setting ::
  "ClassPolicy \<Rightarrow> int option \<Rightarrow> (string \<times> pyval) list \<Rightarrow> (py_error, ClassRetention) result" where
  "class_setting limits current entry =
     andThen (guard (list_all (\<lambda>k. k = ''days'' \<or> k = ''hold'') (map fst entry)) ValueError) (\<lambda>_.
     andThen (case map_of entry ''hold'' of
                None \<Rightarrow> Inr False | Some (PBool b) \<Rightarrow> Inr b | Some _ \<Rightarrow> Inl ValueError) (\<lambda>hold.
     andThen (case map_of entry ''days'' of
                None \<Rightarrow> days_setting limits (case current of None \<Rightarrow> PNone | Some d \<Rightarrow> PInt d)
              | Some v \<Rightarrow> days_setting limits v) (\<lambda>days.
       Inr \<lparr>cr_days = days, cr_hold = hold\<rparr>)))"

fun resolve_entries ::
  "retention_policy \<Rightarrow> resolved_retention \<Rightarrow> (py_error, resolved_retention) result" where
  "resolve_entries [] resolved = Inr resolved"
| "resolve_entries ((key, entry) # rest) resolved =
     (case enum_of RetentionClass_members RetentionClass_value key of
        None \<Rightarrow> Inl ValueError
      | Some c \<Rightarrow>
          if c \<notin> set POLICY_CLASSES then Inl ValueError
          else (case entry of
                  PDict kvs \<Rightarrow>
                    andThen (class_setting (CLASS_POLICIES c) (cr_days (resolved c)) kvs) (\<lambda>s.
                      resolve_entries rest (resolved(c := s)))
                | _ \<Rightarrow> Inl ValueError))"

definition validate_retention_policy ::
  "retention_policy option \<Rightarrow> (py_error, resolved_retention) result" where
  "validate_retention_policy policy =
     resolve_entries (case policy of None \<Rightarrow> [] | Some p \<Rightarrow> p) default_retention"

section \<open>The plan\<close>

datatype (plugins only: code size) RetentionAction =
    RETAIN | HELD | OWNER_LIFECYCLE | PREVIEW_ELIGIBLE

fun RetentionAction_value :: "RetentionAction \<Rightarrow> string" where
  "RetentionAction_value RETAIN = ''retain''"
| "RetentionAction_value HELD = ''held''"
| "RetentionAction_value OWNER_LIFECYCLE = ''owner_lifecycle''"
| "RetentionAction_value PREVIEW_ELIGIBLE = ''preview_eligible''"

text \<open>A plan is its rows; the arguments it repeats are left out.\<close>

record RetentionRow =
  row_table :: string
  row_class :: RetentionClass
  row_action :: RetentionAction
  row_reason :: string
  row_cutoff :: "int option"
  row_eligible :: nat
  row_truncated :: bool

record cache_row =
  cache_id :: string
  cache_tenant :: string
  cache_created :: int

definition DAY :: int where "DAY = 86400000000"

definition plain_row :: "string \<Rightarrow> RetentionClass \<Rightarrow> RetentionAction \<Rightarrow> string \<Rightarrow> RetentionRow" where
  "plain_row t c a reason =
     \<lparr>row_table = t, row_class = c, row_action = a, row_reason = reason, row_cutoff = None,
      row_eligible = 0, row_truncated = False\<rparr>"

text \<open>The rows the preview counts and the batch deletes, oldest first.\<close>

definition expired :: "string \<Rightarrow> int \<Rightarrow> cache_row \<Rightarrow> bool" where
  "expired tenant cutoff r \<longleftrightarrow> cache_tenant r = tenant \<and> cache_created r < cutoff"

definition oldest_expired :: "string \<Rightarrow> int \<Rightarrow> cache_row list \<Rightarrow> cache_row list" where
  "oldest_expired tenant cutoff rows =
     sort_key (\<lambda>r. (cache_created r, cache_id r)) (filter (expired tenant cutoff) rows)"

definition cache_plan_row ::
  "string \<Rightarrow> int \<Rightarrow> nat \<Rightarrow> string \<Rightarrow> int \<Rightarrow> cache_row list \<Rightarrow> RetentionRow" where
  "cache_plan_row tenant now batch_limit table days rows =
     (let cutoff = now - days * DAY;
          counted = length (take (batch_limit + 1) (oldest_expired tenant cutoff rows)) in
      \<lparr>row_table = table, row_class = OPERATIONAL_CACHE,
       row_action = (if counted \<noteq> 0 then PREVIEW_ELIGIBLE else RETAIN),
       row_reason = (if counted \<noteq> 0 then ''older than '' @ int_digits days @ '' days''
                     else ''nothing older than cutoff''),
       row_cutoff = Some cutoff, row_eligible = min counted batch_limit,
       row_truncated = counted > batch_limit\<rparr>)"

definition plan_row ::
  "string \<Rightarrow> resolved_retention \<Rightarrow> int \<Rightarrow> nat \<Rightarrow> cache_row list \<Rightarrow> string \<times> RetentionClass \<Rightarrow>
   RetentionRow" where
  "plan_row tenant resolved now batch_limit rows tc =
     (let (table, klass) = tc; setting = resolved klass in
      if klass = GLOBAL_CATALOGUE then plain_row table klass RETAIN ''platform-owned catalogue''
      else if klass = PROTECTED_EVIDENCE
        then plain_row table klass RETAIN ''protected immutable evidence''
      else if cr_hold setting then plain_row table klass HELD ''retention hold is set''
      else if \<not> cp_time_eligible (CLASS_POLICIES klass)
        then plain_row table klass RETAIN ''no time-based retention applies''
      else (case cr_days setting of
          None \<Rightarrow> plain_row table klass RETAIN ''no time-based retention applies''
        | Some days \<Rightarrow>
            if klass = OPERATIONAL_CACHE
              then cache_plan_row tenant now batch_limit table days rows
            else (plain_row table klass OWNER_LIFECYCLE
                    (''eligible after '' @ int_digits days
                      @ '' days through an owner-run lifecycle job only''))
                 \<lparr>row_cutoff := Some (now - days * DAY)\<rparr>))"

definition plan_retention ::
  "string \<Rightarrow> retention_policy option \<Rightarrow> int \<Rightarrow> int \<Rightarrow> cache_row list \<Rightarrow>
   (py_error, RetentionRow list) result" where
  "plan_retention tenant policy now batch_limit rows =
     (if batch_limit < 1 \<or> batch_limit > 100000 then Inl ValueError
      else andThen (validate_retention_policy policy) (\<lambda>resolved.
        Inr (map (plan_row tenant resolved now (nat batch_limit) rows)
              (sort_key fst TABLE_CLASSIFICATION))))"

section \<open>The executor\<close>

definition EXECUTABLE_CLASS :: RetentionClass where "EXECUTABLE_CLASS = OPERATIONAL_CACHE"
definition EXECUTABLE_TABLE :: string where "EXECUTABLE_TABLE = ''api_idempotency_record''"
definition MAX_BATCH_LIMIT :: int where "MAX_BATCH_LIMIT = 10000"
definition MAX_BATCHES :: int where "MAX_BATCHES = 1000"

record RetentionReceipt =
  re_receipt_id :: string
  re_execution_id :: string
  re_tenant :: string
  re_class :: string
  re_table :: string
  re_held :: bool
  re_dry_run :: bool
  re_policy_days :: "int option"
  re_cutoff :: "int option"
  re_batch_limit :: int
  re_eligible_rows :: nat
  re_deleted_rows :: nat
  re_executed_by :: string
  re_reason :: string

record retention_db =
  db_policies :: "(string \<times> retention_policy option) list"
  db_cache :: "cache_row list"
  db_receipts :: "RetentionReceipt list"

text \<open>The length and CHECK constraints of the table \<open>retention_run\<close>.\<close>

definition receipt_allowed :: "RetentionReceipt \<Rightarrow> bool" where
  "receipt_allowed r \<longleftrightarrow>
     length (re_class r) \<le> 64 \<and> length (re_table r) \<le> 64 \<and> length (re_executed_by r) \<le> 128 \<and>
     length (re_reason r) \<le> 256 \<and>
     (\<not> re_dry_run r \<or> re_deleted_rows r = 0) \<and> (\<not> re_held r \<or> re_deleted_rows r = 0) \<and>
     int (re_deleted_rows r) \<le> re_batch_limit r \<and>
     1 \<le> re_batch_limit r \<and> re_batch_limit r \<le> 10000"

definition validate_bounds :: "int \<Rightarrow> int \<Rightarrow> (py_error, unit) result" where
  "validate_bounds batch_limit max_batches =
     andThen (guard (1 \<le> batch_limit \<and> batch_limit \<le> MAX_BATCH_LIMIT) ValueError) (\<lambda>_.
       guard (1 \<le> max_batches \<and> max_batches \<le> MAX_BATCHES) ValueError)"

record retention_call =
  rc_tenant :: string
  rc_now :: int
  rc_execution_id :: string
  rc_executed_by :: string
  rc_execute :: bool
  rc_batch_limit :: int

definition doomed_ids :: "retention_call \<Rightarrow> int \<Rightarrow> cache_row list \<Rightarrow> string list" where
  "doomed_ids c cutoff rows =
     map cache_id (take (nat (rc_batch_limit c)) (oldest_expired (rc_tenant c) cutoff rows))"

definition delete_doomed :: "retention_call \<Rightarrow> int \<Rightarrow> cache_row list \<Rightarrow> cache_row list \<times> nat" where
  "delete_doomed c cutoff rows =
     (let hit = (\<lambda>r. cache_tenant r = rc_tenant c \<and> cache_id r \<in> set (doomed_ids c cutoff rows)) in
      (filter (\<lambda>r. \<not> hit r) rows, length (filter hit rows)))"

definition batch_receipt ::
  "retention_call \<Rightarrow> string \<Rightarrow> RetentionRow \<Rightarrow> nat \<Rightarrow> nat \<Rightarrow> RetentionReceipt" where
  "batch_receipt c receipt_id row eligible deleted =
     \<lparr>re_receipt_id = receipt_id, re_execution_id = rc_execution_id c, re_tenant = rc_tenant c,
      re_class = RetentionClass_value EXECUTABLE_CLASS, re_table = EXECUTABLE_TABLE,
      re_held = (row_action row = HELD), re_dry_run = (\<not> rc_execute c),
      re_policy_days = map_option (\<lambda>edge. (rc_now c - edge) div DAY) (row_cutoff row),
      re_cutoff = row_cutoff row, re_batch_limit = rc_batch_limit c,
      re_eligible_rows = eligible, re_deleted_rows = deleted,
      re_executed_by = rc_executed_by c, re_reason = take 256 (row_reason row)\<rparr>"

definition one_batch ::
  "retention_call \<Rightarrow> string \<Rightarrow> retention_db \<Rightarrow> (py_error, RetentionReceipt \<times> retention_db) result" where
  "one_batch c receipt_id db =
     (case map_of (db_policies db) (rc_tenant c) of
        None \<Rightarrow> Inl ValueError
      | Some policy \<Rightarrow>
          andThen (plan_retention (rc_tenant c) policy (rc_now c) (rc_batch_limit c) (db_cache db))
            (\<lambda>rows. case filter (\<lambda>r. row_table r = EXECUTABLE_TABLE) rows of
                [row] \<Rightarrow>
                  if row_class row \<noteq> EXECUTABLE_CLASS then Inl (OtherException ''RuntimeError'')
                  else
                    let eligible = (if row_action row = PREVIEW_ELIGIBLE then row_eligible row else 0);
                        (kept, deleted) = (case row_cutoff row of
                            Some cutoff \<Rightarrow>
                              if rc_execute c \<and> row_action row \<noteq> HELD \<and> eligible \<noteq> 0
                              then delete_doomed c cutoff (db_cache db) else (db_cache db, 0)
                          | None \<Rightarrow> (db_cache db, 0));
                        receipt = batch_receipt c receipt_id row eligible deleted
                    in if receipt_allowed receipt
                       then Inr (receipt, db\<lparr>db_cache := kept,
                                             db_receipts := db_receipts db @ [receipt]\<rparr>)
                       else Inl IntegrityError
              | _ \<Rightarrow> Inl ValueError))"

text \<open>\<open>ids\<close> are the identifiers \<open>uuid4\<close> gives the receipts, one for each batch that may run.\<close>

fun run_batches ::
  "retention_call \<Rightarrow> string list \<Rightarrow> retention_db \<Rightarrow>
   (py_error, RetentionReceipt list \<times> retention_db) result" where
  "run_batches c [] db = Inr ([], db)"
| "run_batches c (i # ids) db =
     andThen (one_batch c i db) (\<lambda>(receipt, db').
       if \<not> rc_execute c \<or> re_held receipt \<or> int (re_deleted_rows receipt) < rc_batch_limit c
       then Inr ([receipt], db')
       else andThen (run_batches c ids db') (\<lambda>(receipts, db''). Inr (receipt # receipts, db'')))"

definition execute_retention ::
  "retention_call \<Rightarrow> int \<Rightarrow> (nat \<Rightarrow> string) \<Rightarrow> retention_db \<Rightarrow>
   (py_error, RetentionReceipt list \<times> retention_db) result" where
  "execute_retention c max_batches new_id db =
     andThen (validate_bounds (rc_batch_limit c) max_batches) (\<lambda>_.
     andThen (guard (rc_executed_by c \<noteq> [] \<and> length (rc_executed_by c) \<le> 128) ValueError) (\<lambda>_.
       run_batches c (map new_id [0..<nat max_batches]) db))"

section \<open>What a batch takes\<close>

text \<open>The instant before which a row is expired, when the policy makes rows expire at all.\<close>

definition cache_cutoff :: "resolved_retention \<Rightarrow> int \<Rightarrow> int option" where
  "cache_cutoff resolved now =
     (if cr_hold (resolved OPERATIONAL_CACHE) then None
      else map_option (\<lambda>days. now - days * DAY) (cr_days (resolved OPERATIONAL_CACHE)))"

definition doomed :: "retention_call \<Rightarrow> int option \<Rightarrow> nat \<Rightarrow> cache_row list \<Rightarrow> cache_row list" where
  "doomed c cutoff n rows = (case cutoff of
       None \<Rightarrow> []
     | Some k \<Rightarrow> if rc_execute c then take n (oldest_expired (rc_tenant c) k rows) else [])"

definition survivors :: "retention_call \<Rightarrow> int option \<Rightarrow> nat \<Rightarrow> cache_row list \<Rightarrow> cache_row list" where
  "survivors c cutoff n rows = filter (\<lambda>r. r \<notin> set (doomed c cutoff n rows)) rows"

lemma oldest_expired_facts:
  "set (oldest_expired t k rows) = {r \<in> set rows. expired t k r}"
  "distinct rows \<Longrightarrow> distinct (oldest_expired t k rows)"
  by (simp_all add: oldest_expired_def)

lemma filter_not_taken: "distinct xs \<Longrightarrow> filter (\<lambda>x. x \<notin> set (take n xs)) xs = drop n xs"
proof (induction xs arbitrary: n)
  case (Cons x xs)
  then show ?case
    by (cases n) (auto intro!: filter_cong trans [OF filter_cong Cons.IH])
qed simp

lemma oldest_expired_filter:
  "oldest_expired t k (filter P rows) = filter P (oldest_expired t k rows)"
  by (simp add: oldest_expired_def filter_sort conj_commute)

lemma doomed_survivors:
  assumes "distinct rows"
  shows "doomed c k m (survivors c k n rows) = drop n (doomed c k (n + m) rows)"
proof (cases k)
  case (Some edge)
  let ?o = "oldest_expired (rc_tenant c) edge rows"
  have "filter (\<lambda>r. r \<notin> set (take n ?o)) ?o = drop n ?o"
    using assms by (simp add: filter_not_taken oldest_expired_facts)
  then show ?thesis using Some
    by (simp add: doomed_def survivors_def oldest_expired_filter drop_take)
qed (simp add: doomed_def)

lemma take_doomed: "take n (doomed c k (n + m) rows) = doomed c k n rows"
  by (simp add: doomed_def min_def split: option.splits)

lemma survivors_compose:
  assumes "distinct rows"
  shows "survivors c k m (survivors c k n rows) = survivors c k (n + m) rows"
proof -
  have "set (doomed c k (n + m) rows) =
      set (doomed c k n rows) \<union> set (drop n (doomed c k (n + m) rows))"
    using append_take_drop_id [of n "doomed c k (n + m) rows"] take_doomed [of n c k m rows]
    by (metis set_append)
  then show ?thesis
    by (auto simp: survivors_def [of c k m] doomed_survivors [OF assms])
      (auto simp: survivors_def intro!: filter_cong)
qed

lemma doomed_saturates:
  assumes "length (doomed c k n rows) < n" "n \<le> m"
  shows "doomed c k m rows = doomed c k n rows"
  using assms by (auto simp: doomed_def split: option.splits if_splits)

lemma survivors_distinct:
  "distinct (map cache_id rows) \<Longrightarrow> distinct (map cache_id (survivors c k n rows))"
  by (simp add: survivors_def distinct_map_filter)

section \<open>The row of the executable table\<close>

lemma plan_row_table [simp]: "row_table (plan_row t resolved now n rows tc) = fst tc"
  by (cases tc) (simp add: plan_row_def Let_def plain_row_def cache_plan_row_def split: option.splits)

lemma executable_tables:
  "filter (\<lambda>tc. fst tc = EXECUTABLE_TABLE) (sort_key fst TABLE_CLASSIFICATION) =
     [(EXECUTABLE_TABLE, OPERATIONAL_CACHE)]"
proof -
  have "filter (\<lambda>tc. fst tc = EXECUTABLE_TABLE) TABLE_CLASSIFICATION =
      [(EXECUTABLE_TABLE, OPERATIONAL_CACHE)]"
    by code_simp
  then show ?thesis by (simp only: filter_sort) (simp add: sort_key_simps)
qed

lemma executable_row:
  assumes "plan_retention t policy now l rows = Inr plan"
  obtains resolved where "validate_retention_policy policy = Inr resolved"
    "filter (\<lambda>r. row_table r = EXECUTABLE_TABLE) plan =
       [plan_row t resolved now (nat l) rows (EXECUTABLE_TABLE, OPERATIONAL_CACHE)]"
proof -
  from assms obtain resolved where v: "validate_retention_policy policy = Inr resolved"
    and plan: "plan = map (plan_row t resolved now (nat l) rows) (sort_key fst TABLE_CLASSIFICATION)"
    by (auto simp: plan_retention_def andThen_eq_Inr split: if_splits)
  have "filter (\<lambda>r. row_table r = EXECUTABLE_TABLE) plan =
      map (plan_row t resolved now (nat l) rows)
        (filter (\<lambda>tc. fst tc = EXECUTABLE_TABLE) (sort_key fst TABLE_CLASSIFICATION))"
    by (simp add: plan filter_map o_def)
  then show ?thesis using that [OF v] by (simp only: executable_tables list.map)
qed

text \<open>What the row says, by the three cases of the policy.\<close>

lemma cache_row_held:
  "cr_hold (resolved OPERATIONAL_CACHE) \<Longrightarrow>
   plan_row t resolved now n rows (EXECUTABLE_TABLE, OPERATIONAL_CACHE) =
     plain_row EXECUTABLE_TABLE OPERATIONAL_CACHE HELD ''retention hold is set''"
  by (simp add: plan_row_def)

lemma cache_row_days:
  "\<not> cr_hold (resolved OPERATIONAL_CACHE) \<Longrightarrow>
   plan_row t resolved now n rows (EXECUTABLE_TABLE, OPERATIONAL_CACHE) =
     (case cr_days (resolved OPERATIONAL_CACHE) of
        None \<Rightarrow> plain_row EXECUTABLE_TABLE OPERATIONAL_CACHE RETAIN
                  ''no time-based retention applies''
      | Some d \<Rightarrow> cache_plan_row t now n EXECUTABLE_TABLE d rows)"
  by (simp add: plan_row_def class_bounds_def split: option.splits)

section \<open>One batch\<close>

definition call_valid :: "retention_call \<Rightarrow> bool" where
  "call_valid c \<longleftrightarrow>
     1 \<le> rc_batch_limit c \<and> rc_batch_limit c \<le> MAX_BATCH_LIMIT \<and>
     rc_executed_by c \<noteq> [] \<and> length (rc_executed_by c) \<le> 128"

lemma delete_doomed_eq:
  assumes "distinct (map cache_id rows)" "rc_execute c"
  shows "delete_doomed c edge rows =
     (survivors c (Some edge) (nat (rc_batch_limit c)) rows,
      length (doomed c (Some edge) (nat (rc_batch_limit c)) rows))"
proof -
  let ?d = "take (nat (rc_batch_limit c)) (oldest_expired (rc_tenant c) edge rows)"
  have sub: "set ?d \<subseteq> set rows" "\<And>r. r \<in> set ?d \<Longrightarrow> cache_tenant r = rc_tenant c"
    using oldest_expired_facts(1) [of "rc_tenant c" edge rows] set_take_subset
    by (fastforce simp: expired_def)+
  have inj: "inj_on cache_id (set rows)" using assms(1) by (simp add: distinct_map)
  have hit: "r \<in> set rows \<Longrightarrow>
      (cache_tenant r = rc_tenant c \<and> cache_id r \<in> cache_id ` set ?d) = (r \<in> set ?d)" for r
    using sub inj by (auto dest: inj_onD)
  have "distinct ?d" "distinct rows"
    using assms(1) oldest_expired_facts(2) distinct_take by (auto simp: distinct_map)
  moreover have "set (filter (\<lambda>r. r \<in> set ?d) rows) = set ?d" using sub(1) by auto
  ultimately have "length (filter (\<lambda>r. r \<in> set ?d) rows) = length ?d"
    by (metis distinct_card distinct_filter)
  then show ?thesis
    using assms(2) hit
    by (simp add: delete_doomed_def doomed_ids_def survivors_def doomed_def Let_def cong: filter_cong)
qed

lemma receipt_allowed_batch:
  assumes "call_valid c" "int n \<le> rc_batch_limit c" "\<not> rc_execute c \<longrightarrow> n = 0"
    "row_action row = HELD \<longrightarrow> n = 0"
  shows "receipt_allowed (batch_receipt c i row e n)"
  using assms
  by (auto simp: receipt_allowed_def batch_receipt_def call_valid_def MAX_BATCH_LIMIT_def
      EXECUTABLE_CLASS_def EXECUTABLE_TABLE_def)

lemma batch_receipt_fields [simp]:
  "re_tenant (batch_receipt c i row e n) = rc_tenant c"
  "re_held (batch_receipt c i row e n) \<longleftrightarrow> row_action row = HELD"
  "re_deleted_rows (batch_receipt c i row e n) = n"
  by (simp_all add: batch_receipt_def)

definition batch_outcome ::
  "retention_call \<Rightarrow> int option \<Rightarrow> retention_db \<Rightarrow> RetentionReceipt \<Rightarrow> retention_db \<Rightarrow> bool" where
  "batch_outcome c cutoff db receipt db' \<longleftrightarrow>
     db_cache db' = survivors c cutoff (nat (rc_batch_limit c)) (db_cache db) \<and>
     re_deleted_rows receipt = length (doomed c cutoff (nat (rc_batch_limit c)) (db_cache db)) \<and>
     re_tenant receipt = rc_tenant c \<and> receipt_allowed receipt \<and>
     (re_held receipt \<longrightarrow> cutoff = None) \<and>
     db_receipts db' = db_receipts db @ [receipt] \<and> db_policies db' = db_policies db"

lemma survivors_none [simp]: "survivors c None n rows = rows" "doomed c None n rows = []"
  by (simp_all add: survivors_def doomed_def)

lemma survivors_dry: "\<not> rc_execute c \<Longrightarrow> survivors c k n rows = rows \<and> doomed c k n rows = []"
  by (auto simp: survivors_def doomed_def split: option.splits)

lemma survivors_nothing: "doomed c k n rows = [] \<Longrightarrow> survivors c k n rows = rows"
  by (simp add: survivors_def)

lemma one_batch_ok:
  assumes "call_valid c" "map_of (db_policies db) (rc_tenant c) = Some policy"
    and v: "validate_retention_policy policy = Inr resolved"
    and d: "distinct (map cache_id (db_cache db))"
  shows "\<exists>receipt db'. one_batch c i db = Inr (receipt, db') \<and>
     batch_outcome c (cache_cutoff resolved (rc_now c)) db receipt db'"
proof -
  let ?n = "nat (rc_batch_limit c)" and ?k = "cache_cutoff resolved (rc_now c)"
  let ?row = "plan_row (rc_tenant c) resolved (rc_now c) ?n (db_cache db)
    (EXECUTABLE_TABLE, OPERATIONAL_CACHE)"
  have lim: "1 \<le> rc_batch_limit c" "rc_batch_limit c \<le> 10000"
    using assms(1) by (auto simp: call_valid_def MAX_BATCH_LIMIT_def)
  have "is_ok (plan_retention (rc_tenant c) policy (rc_now c) (rc_batch_limit c) (db_cache db))"
    using v lim by (simp add: plan_retention_def)
  then obtain plan where plan:
    "plan_retention (rc_tenant c) policy (rc_now c) (rc_batch_limit c) (db_cache db) = Inr plan"
    by (auto simp: is_ok_iff)
  have row: "filter (\<lambda>r. row_table r = EXECUTABLE_TABLE) plan = [?row]"
    using executable_row [OF plan] v by (metis sum.inject(2))
  have len: "int (length (doomed c ?k ?n (db_cache db))) \<le> rc_batch_limit c"
    using lim by (auto simp: doomed_def split: option.splits)
  show ?thesis
  proof (cases "?k")
    case None
    then have "row_class ?row = OPERATIONAL_CACHE" "row_cutoff ?row = None"
      by (auto simp: cache_cutoff_def cache_row_held cache_row_days plain_row_def
          split: if_splits)
    then show ?thesis
      using None receipt_allowed_batch [OF assms(1), of 0] lim
      by (auto simp: one_batch_def assms(2) plan row EXECUTABLE_CLASS_def batch_outcome_def
          Let_def)
  next
    case (Some edge)
    then obtain days where days: "\<not> cr_hold (resolved OPERATIONAL_CACHE)"
      "cr_days (resolved OPERATIONAL_CACHE) = Some days" "edge = rc_now c - days * DAY"
      by (auto simp: cache_cutoff_def split: if_splits)
    let ?o = "oldest_expired (rc_tenant c) edge (db_cache db)"
    have r: "row_class ?row = OPERATIONAL_CACHE" "row_cutoff ?row = Some edge"
      "row_action ?row \<noteq> HELD"
      "(if row_action ?row = PREVIEW_ELIGIBLE then row_eligible ?row else 0) = min (length ?o) ?n"
      using days by (auto simp: cache_row_days cache_plan_row_def Let_def)
    have none: "min (length ?o) ?n = 0 \<Longrightarrow> doomed c (Some edge) ?n (db_cache db) = []"
      using lim by (auto simp: doomed_def min_def split: if_splits)
    show ?thesis
    proof (cases "rc_execute c \<and> min (length ?o) ?n \<noteq> 0")
      case True
      then show ?thesis
        using Some receipt_allowed_batch [OF assms(1) len] r(3) delete_doomed_eq [OF d, of c edge]
        by (auto simp: one_batch_def assms(2) plan row EXECUTABLE_CLASS_def batch_outcome_def
            r(1,2,4) Let_def)
    next
      case False
      then have "doomed c ?k ?n (db_cache db) = []"
        using none Some survivors_dry by fastforce
      then show ?thesis
        using False Some receipt_allowed_batch [OF assms(1), of 0] lim r(3) survivors_nothing
        by (auto simp: one_batch_def assms(2) plan row EXECUTABLE_CLASS_def batch_outcome_def
            r(1,2,4) Let_def)
    qed
  qed
qed

section \<open>The whole execution\<close>

lemma run_batches_ok:
  assumes "call_valid c" "map_of (db_policies db) (rc_tenant c) = Some policy"
    "validate_retention_policy policy = Inr resolved" "distinct (map cache_id (db_cache db))"
  shows "\<exists>receipts db'. run_batches c ids db = Inr (receipts, db') \<and>
     db_cache db' = survivors c (cache_cutoff resolved (rc_now c))
       (length ids * nat (rc_batch_limit c)) (db_cache db) \<and>
     sum_list (map re_deleted_rows receipts) =
       length (doomed c (cache_cutoff resolved (rc_now c))
         (length ids * nat (rc_batch_limit c)) (db_cache db)) \<and>
     length receipts \<le> length ids \<and> list_all receipt_allowed receipts \<and>
     db_receipts db' = db_receipts db @ receipts \<and> db_policies db' = db_policies db"
  using assms(2,4)
proof (induction ids arbitrary: db)
  case Nil
  then show ?case by (auto simp: doomed_def survivors_def split: option.splits)
next
  case (Cons i ids)
  let ?k = "cache_cutoff resolved (rc_now c)" and ?n = "nat (rc_batch_limit c)"
  let ?rows = "db_cache db"
  obtain receipt db1 where one: "one_batch c i db = Inr (receipt, db1)"
    and out: "batch_outcome c ?k db receipt db1"
    using one_batch_ok [OF assms(1) Cons.prems(1) assms(3) Cons.prems(2)] by blast
  note o = out [unfolded batch_outcome_def]
  have dr: "distinct ?rows" using Cons.prems(2) by (simp add: distinct_map)
  show ?case
  proof (cases "\<not> rc_execute c \<or> re_held receipt \<or> int (re_deleted_rows receipt) < rc_batch_limit c")
    case True
    have "doomed c ?k (length (i # ids) * ?n) ?rows = doomed c ?k ?n ?rows"
    proof (cases "rc_execute c \<and> \<not> re_held receipt")
      case True
      then have "length (doomed c ?k ?n ?rows) < ?n"
        using \<open>\<not> rc_execute c \<or> _ \<or> _\<close> o by linarith
      then show ?thesis by (rule doomed_saturates) simp
    qed (use o survivors_dry in auto)
    then show ?thesis using True one o by (auto simp: survivors_def)
  next
    case False
    have d1: "distinct (map cache_id (db_cache db1))"
      using o survivors_distinct Cons.prems(2) by simp
    obtain receipts db2 where run: "run_batches c ids db1 = Inr (receipts, db2)"
      "db_cache db2 = survivors c ?k (length ids * ?n) (db_cache db1)"
      "sum_list (map re_deleted_rows receipts) =
         length (doomed c ?k (length ids * ?n) (db_cache db1))"
      "length receipts \<le> length ids" "list_all receipt_allowed receipts"
      "db_receipts db2 = db_receipts db1 @ receipts" "db_policies db2 = db_policies db1"
      using Cons.IH [of db1] Cons.prems(1) o d1 by auto
    have "length (doomed c ?k ?n ?rows) + length (doomed c ?k (length ids * ?n) (db_cache db1)) =
        length (doomed c ?k (?n + length ids * ?n) ?rows)"
      using o doomed_survivors [OF dr] take_doomed [of ?n c ?k "length ids * ?n" ?rows]
      by (metis append_take_drop_id length_append)
    then show ?thesis
      using False one o run survivors_compose [OF dr] by auto
  qed
qed

lemma execute_retention_ok:
  assumes "call_valid c" "1 \<le> m" "m \<le> MAX_BATCHES"
    "map_of (db_policies db) (rc_tenant c) = Some policy"
    "validate_retention_policy policy = Inr resolved" "distinct (map cache_id (db_cache db))"
  shows "\<exists>receipts db'. execute_retention c m new_id db = Inr (receipts, db') \<and>
     db_cache db' = survivors c (cache_cutoff resolved (rc_now c))
       (nat m * nat (rc_batch_limit c)) (db_cache db) \<and>
     sum_list (map re_deleted_rows receipts) =
       length (doomed c (cache_cutoff resolved (rc_now c))
         (nat m * nat (rc_batch_limit c)) (db_cache db)) \<and>
     length receipts \<le> nat m \<and> list_all receipt_allowed receipts \<and>
     db_receipts db' = db_receipts db @ receipts \<and> db_policies db' = db_policies db"
  using run_batches_ok [OF assms(1,4,5,6), of "map new_id [0..<nat m]"] assms(1,2,3)
  by (simp add: execute_retention_def validate_bounds_def call_valid_def)

section \<open>A tenant may lengthen a period, never shorten it\<close>

definition days_within :: "resolved_retention \<Rightarrow> bool" where
  "days_within resolved \<longleftrightarrow> (\<forall>c d. cr_days (resolved c) = Some d \<longrightarrow>
     (case cp_minimum_days (CLASS_POLICIES c) of None \<Rightarrow> 1 | Some m \<Rightarrow> m) \<le> d \<and>
     d \<le> (case cp_maximum_days (CLASS_POLICIES c) of None \<Rightarrow> MAX_DAYS | Some m \<Rightarrow> m))"

lemma default_within: "days_within default_retention"
  unfolding days_within_def default_retention_def
proof (intro allI impI)
  fix c d assume "cr_days \<lparr>cr_days = cp_default_days (CLASS_POLICIES c), cr_hold = False\<rparr> = Some d"
  then show "(case cp_minimum_days (CLASS_POLICIES c) of None \<Rightarrow> 1 | Some m \<Rightarrow> m) \<le> d \<and>
     d \<le> (case cp_maximum_days (CLASS_POLICIES c) of None \<Rightarrow> MAX_DAYS | Some m \<Rightarrow> m)"
    by (cases c) (simp_all add: class_bounds_def)
qed

lemma days_setting_within:
  "days_setting limits v = Inr (Some d) \<Longrightarrow>
     (case cp_minimum_days limits of None \<Rightarrow> 1 | Some m \<Rightarrow> m) \<le> d \<and>
     d \<le> (case cp_maximum_days limits of None \<Rightarrow> MAX_DAYS | Some m \<Rightarrow> m)"
  by (cases v) (auto simp: days_setting_def Let_def split: if_splits)

lemma resolve_within:
  "resolve_entries entries resolved = Inr resolved' \<Longrightarrow> days_within resolved \<Longrightarrow>
   days_within resolved'"
proof (induction entries resolved rule: resolve_entries.induct)
  case (2 key entry rest resolved)
  then obtain c kvs s where c: "enum_of RetentionClass_members RetentionClass_value key = Some c"
    "c \<in> set POLICY_CLASSES" "entry = PDict kvs"
    and s: "class_setting (CLASS_POLICIES c) (cr_days (resolved c)) kvs = Inr s"
    and rest: "resolve_entries rest (resolved(c := s)) = Inr resolved'"
    by (auto simp: andThen_eq_Inr split: option.splits if_splits pyval.splits)
  from s obtain v where v: "days_setting (CLASS_POLICIES c) v = Inr (cr_days s)"
    by (auto simp: class_setting_def andThen_eq_Inr split: option.splits)
  have "days_within (resolved(c := s))"
    unfolding days_within_def
  proof (intro allI impI)
    fix c' d assume d: "cr_days ((resolved(c := s)) c') = Some d"
    show "(case cp_minimum_days (CLASS_POLICIES c') of None \<Rightarrow> 1 | Some m \<Rightarrow> m) \<le> d \<and>
       d \<le> (case cp_maximum_days (CLASS_POLICIES c') of None \<Rightarrow> MAX_DAYS | Some m \<Rightarrow> m)"
    proof (cases "c' = c")
      case True
      then show ?thesis using d v days_setting_within by simp
    next
      case False
      then show ?thesis using d "2.prems"(2) unfolding days_within_def by simp
    qed
  qed
  then show ?case using "2.IH" c s rest by blast
qed simp

lemma validated_within: "validate_retention_policy policy = Inr resolved \<Longrightarrow> days_within resolved"
  using resolve_within default_within unfolding validate_retention_policy_def by blast

lemma cache_cutoff_bounds:
  assumes "validate_retention_policy policy = Inr resolved" "cache_cutoff resolved now = Some edge"
  shows "edge \<le> now - DAY \<and> now - 365 * DAY \<le> edge"
proof -
  obtain d where d: "cr_days (resolved OPERATIONAL_CACHE) = Some d" "edge = now - d * DAY"
    using assms(2) by (auto simp: cache_cutoff_def split: if_splits)
  then have "1 \<le> d \<and> d \<le> 365"
    using validated_within [OF assms(1)] unfolding days_within_def
    by (fastforce simp: class_bounds_def)
  then show ?thesis using d(2) by (simp add: DAY_def)
qed

lemma operational_policy_example:
  "\<exists>resolved. validate_retention_policy
      (Some [(''operational_cache'', PDict [(''days'', PInt 30)])]) = Inr resolved \<and>
     cache_cutoff resolved (40 * DAY) = Some (10 * DAY)"
proof -
  have "enum_of RetentionClass_members RetentionClass_value ''operational_cache'' =
      Some OPERATIONAL_CACHE" and "OPERATIONAL_CACHE \<in> set POLICY_CLASSES"
    by code_simp+
  then show ?thesis
    by (simp add: validate_retention_policy_def class_setting_def days_setting_def class_bounds_def
        default_retention_def cache_cutoff_def DAY_def)
qed

end
