(* ===== verification/Incident_Runs.thy ===== *)
theory Incident_Runs
  imports Incident_State
begin

text \<open>
  Sequences of accepted transition requests of \<open>src/asic/domain/incident_state.py\<close>: what a
  whole history of an incident obeys, as consequences of the table's rows, and the audit
  \<open>states_without_path_to_closure\<close>.
\<close>

fun accepted_run :: "IncidentStatus \<Rightarrow> TransitionRequest list \<Rightarrow> IncidentStatus \<Rightarrow> bool" where
  "accepted_run s [] t \<longleftrightarrow> s = t"
| "accepted_run s (r # rs) t \<longleftrightarrow>
     rq_source r = s \<and> is_ok (assert_transition_allowed r) \<and> accepted_run (rq_target r) rs t"

lemma accepted_run_append:
  "accepted_run s (rs @ qs) t \<longleftrightarrow> (\<exists>m. accepted_run s rs m \<and> accepted_run m qs t)"
  by (induction rs arbitrary: s) auto

lemma accepted_run_snoc:
  "accepted_run s (rs @ [r]) t \<longleftrightarrow>
     accepted_run s rs (rq_source r) \<and> is_ok (assert_transition_allowed r) \<and> rq_target r = t"
  by (auto simp: accepted_run_append)

lemma accepted_row:
  assumes "is_ok (assert_transition_allowed r)"
  obtains t where "t \<in> set TRANSITIONS" "tr_source t = rq_source r" "tr_target t = rq_target r"
    "rq_actor r \<in> allowed_actors t"
    "requires_termination_reason t \<longrightarrow> rq_reason r \<noteq> None"
    "requires_justification t \<longrightarrow> \<not> blank_justification (rq_justification r)"
proof -
  obtain t where "assert_transition_allowed r = Inr t"
    using assms by (auto simp: is_ok_def split: sum.splits)
  then show ?thesis using that by (auto simp: assert_Inr_iff)
qed

lemma is_ok_assert_iff:
  "is_ok (assert_transition_allowed q) \<longleftrightarrow>
     (\<exists>(s, g, a, r, j) \<in> set table_rows. s = rq_source q \<and> g = rq_target q \<and> rq_actor q \<in> a \<and>
        (r \<longrightarrow> rq_reason q \<noteq> None) \<and> (j \<longrightarrow> \<not> blank_justification (rq_justification q)))"
    (is "_ \<longleftrightarrow> (\<exists>x \<in> _. ?P x)")
proof -
  have "is_ok (assert_transition_allowed q) \<longleftrightarrow> (\<exists>t. assert_transition_allowed q = Inr t)"
    by (simp add: is_ok_def split: sum.split)
  also have "\<dots> \<longleftrightarrow> (\<exists>t \<in> set TRANSITIONS. ?P (row_view t))"
    unfolding assert_Inr_iff row_view_def by auto
  also have "\<dots> \<longleftrightarrow> (\<exists>x \<in> set table_rows. ?P x)"
    unfolding table_rows [symmetric] by simp
  finally show ?thesis .
qed

text \<open>A run that ends elsewhere than it starts has a last step.\<close>

lemma run_last_step:
  assumes "accepted_run s rs t" and "s \<noteq> t"
  obtains qs r where "rs = qs @ [r]" "accepted_run s qs (rq_source r)"
    "is_ok (assert_transition_allowed r)" "rq_target r = t"
  using assms by (cases rs rule: rev_exhaust) (auto simp: accepted_run_snoc)

lemma machine_resolution_path:
  assumes run: "accepted_run s rs IncidentStatus.RESOLVED"
    and s: "s \<notin> {IncidentStatus.RESOLVED, IncidentStatus.VERIFYING}"
    and machine: "\<forall>r \<in> set rs. rq_actor r \<noteq> ActorType.HUMAN"
  shows "\<exists>qs r1 r2. rs = qs @ [r1, r2] \<and>
      rq_source r1 = IncidentStatus.REMEDIATING \<and> rq_target r1 = IncidentStatus.VERIFYING \<and>
      rq_source r2 = IncidentStatus.VERIFYING"
proof -
  obtain qs r2 where rs: "rs = qs @ [r2]" "accepted_run s qs (rq_source r2)"
      "is_ok (assert_transition_allowed r2)" "rq_target r2 = IncidentStatus.RESOLVED"
    using run_last_step [OF run] s by auto
  then have v: "rq_source r2 = IncidentStatus.VERIFYING"
    using machine row_resolved_by_machine by (metis accepted_row in_set_conv_decomp)
  then obtain ps r1 where qs: "qs = ps @ [r1]" "is_ok (assert_transition_allowed r1)"
      "rq_target r1 = IncidentStatus.VERIFYING"
    using run_last_step [OF rs(2)] s v by (metis insertCI)
  then have "rq_source r1 = IncidentStatus.REMEDIATING"
    using row_verifying_source by (metis accepted_row)
  with rs qs v show ?thesis by (intro exI [of _ ps] exI [of _ r1] exI [of _ r2]) simp
qed

lemma failed_is_final: "accepted_run IncidentStatus.FAILED rs t \<Longrightarrow> rs = []"
  using row_failed_final by (cases rs) (auto elim: accepted_row)

lemma edge_row: "(s, t) \<in> edges \<longleftrightarrow> (\<exists>r \<in> set TRANSITIONS. tr_source r = s \<and> tr_target r = t)"
  by (auto simp: edges_def allowed_targets_def)

lemma edge_view: "(s, t) \<in> edges \<longleftrightarrow> (\<exists>(a, b, _) \<in> set table_rows. a = s \<and> b = t)"
  unfolding edge_row table_rows [symmetric] by (simp add: row_view_def)

lemma open_state_closes: "s \<notin> CLOSED_STATES \<Longrightarrow> \<exists>t \<in> CLOSED_STATES. (s, t) \<in> edges"
  by (cases s) (simp_all add: CLOSED_STATES_def edge_view table_rows_def)

lemma closure_audit_empty: "states_without_path_to_closure = []"
  unfolding states_without_path_to_closure_def filter_empty_conv reachable_from_iff
  using open_state_closes by blast

end
