(* ===== verification/Gate_Run.thy ===== *)
theory Gate_Run
  imports Remediation_Graph
begin

text \<open>
  What the deciding nodes of the remediation graph guarantee: one policy decision per action,
  which is the rule engine's verdict; execution only on a recorded approval of the action's
  version; resolution only on a judgement the verifier made itself against a trusted baseline.
\<close>

section \<open>The policy gate\<close>

lemma policy_update_permitted: "validate_update G7_POLICY_GATE (gate_update v rule signals ref) = Inr ()"
proof (rule validate_update_ok)
  show "set (map fst (gate_update v rule signals ref)) \<subseteq> set [''phase'', ''policy_decision'',
      ''remediation_action'', ''terminated'', ''termination_reason'', ''target_incident_status'']"
    by (auto simp: gate_update_def)
qed code_simp

lemma find_run_action_Inr:
  "find_run_action d i w = (Inr a, w') \<longleftrightarrow>
     w' = w \<and> filter (\<lambda>a. ac_tenant a = nd_tenant d \<and> ac_id a = i) (rd_actions (rw_db w)) = [a]"
  by (auto simp: find_run_action_def sread_def query_simps)

lemma gate_replays:
  assumes "find_run_action d (rf_action ref) w = (Inr a, w)"
    and "policy_rows (rw_db w) (nd_tenant d) (ac_id a) = [p]"
  shows "policy_gate d inp ref w = (Inr (gate_update (pd_verdict p) (pd_rule p) (pd_signals p) ref), w)"
  using assms policy_update_permitted
  by (simp add: policy_gate_def sthen_def sread_def scalar_one_or_none_def return_update_def slift_def
      sreturn_def)

lemma swp_insert_policy:
  "(policy_rows (rw_db w) (pd_tenant p) (pd_action p) = [] \<Longrightarrow>
     P () (with_db ((rw_db w)\<lparr>rd_policies := rd_policies (rw_db w) @ [p]\<rparr>) w)) \<Longrightarrow>
   swp (insert_policy p) P w"
  by (auto simp: swp_def insert_policy_def policy_rows_def filter_empty_conv split: if_splits)

text \<open>The decision recorded for an action, and the action's new status.\<close>

definition decided_as ::
  "node_deps \<Rightarrow> action_row \<Rightarrow> PolicyVerdictResult \<Rightarrow> remediation_world \<Rightarrow> bool" where
  "decided_as d a res w \<longleftrightarrow>
     (\<exists>p. policy_rows (rw_db w) (nd_tenant d) (ac_id a) = [p] \<and> pd_verdict p = pv_verdict res \<and>
        pd_rule p = pv_rule_id res \<and> pd_signals p = pv_ambiguity res) \<and>
     (\<forall>b \<in> set (rd_actions (rw_db w)). ac_tenant b = nd_tenant d \<and> ac_id b = ac_id a \<longrightarrow>
        ac_status b = verdict_action_status (pv_verdict res))"

lemma record_policy_decides:
  "swp (record_policy d inp a ref res) (\<lambda>u w'. decided_as d a res w' \<and>
     u = gate_update (pv_verdict res) (pv_rule_id res) (pv_ambiguity res)
       (ref\<lparr>rf_status := verdict_action_status (pv_verdict res)\<rparr>)) w"
proof -
  have move: "tables.framed (if c then sreturn () else run_transition d n t ac x y z u)" for c n t ac x y z u
    by (intro tables.framed_intros)
  show ?thesis
    unfolding record_policy_def Let_def
    apply (subst swp_then)
    apply (rule swp_insert_policy)
    apply (subst swp_then)
    apply (subst swp_modify)
    apply (rule swp_then_tables [OF tables.framed_log(1)])
    apply (rule swp_then_tables [OF move])
    apply (rule swp_then_tables [OF tables.framed_events(2)])
    apply (rule swp_then_tables [OF audit_keeps_tables])
    apply (rule swp_return_update)
    apply (auto simp: decided_as_def policy_rows_def update_actions_def assign_status_def)
    done
qed

lemma gate_decides:
  assumes "policy_gate d inp ref w = (Inr u, w')"
    and "find_run_action d (rf_action ref) w = (Inr a, w)"
    and "policy_rows (rw_db w) (nd_tenant d) (ac_id a) = []"
  obtains inputs res where "policy_inputs d inp a w = Inr inputs" "evaluate_policy inputs = Inr res"
    "decided_as d a res w'"
    "u = gate_update (pv_verdict res) (pv_rule_id res) (pv_ambiguity res)
       (ref\<lparr>rf_status := verdict_action_status (pv_verdict res)\<rparr>)"
proof -
  obtain inputs res where "policy_inputs d inp a w = Inr inputs" "evaluate_policy inputs = Inr res"
      and run: "record_policy d inp a ref res w = (Inr u, w')"
    using assms
    by (auto simp: policy_gate_def sthen_def sread_def slift_def scalar_one_or_none_def split: sum.splits)
  moreover have "decided_as d a res w' \<and>
      u = gate_update (pv_verdict res) (pv_rule_id res) (pv_ambiguity res)
        (ref\<lparr>rf_status := verdict_action_status (pv_verdict res)\<rparr>)"
    by (rule swpD [OF record_policy_decides run])
  ultimately show thesis using that by blast
qed

section \<open>The approval node\<close>

text \<open>A recorded approval of one version of an action.\<close>

definition approved_version :: "node_deps \<Rightarrow> action_row \<Rightarrow> remediation_db \<Rightarrow> bool" where
  "approved_version d a db \<longleftrightarrow>
     (\<exists>x \<in> set (rd_approvals db). ap_tenant x = nd_tenant d \<and> ap_action x = ac_id a \<and>
        ap_version_hash x = ac_version_hash a \<and> ap_decision x = ApprovalDecision.APPROVED)"

definition sends_on :: "node_update \<Rightarrow> bool" where
  "sends_on u \<longleftrightarrow> (''phase'', UText ''executing'') \<in> set u"

lemma newest_mem: "newest f xs = Some x \<Longrightarrow> x \<in> set xs"
  unfolding newest_def by (metis list.case_eq_if list.set_sel(1) option.distinct(1) option.inject set_sort)

lemma route_refused:
  assumes "ap_decision x \<noteq> ApprovalDecision.APPROVED"
  shows "swp (route_decided d inp a x) (\<lambda>u w'. \<not> sends_on u) w"
  unfolding route_decided_def approval_refused_def Let_def
  by (auto simp: assms sends_on_def intro!: swp_thenI swp_return_update split: prod.splits)

lemma route_keeps: "tables.framed (route_decided d inp a x)"
  unfolding route_decided_def approval_refused_def approval_granted_def Let_def
  by (auto intro!: tables.framed_intros audit_keeps_tables split: prod.splits)

lemma recorded_mem:
  assumes "recorded_decision d a w = Some x"
  shows "x \<in> set (rd_approvals (rw_db w)) \<and> ap_tenant x = nd_tenant d \<and> ap_action x = ac_id a \<and>
    ap_version_hash x = ac_version_hash a"
  using newest_mem [OF assms [unfolded recorded_decision_def]] by simp

lemma approval_sends_on:
  assumes "approval_service ops d inp ref w = (Inr u, w')" and "sends_on u"
    and "find_run_action d (rf_action ref) w = (Inr a, w)"
  shows "approved_version d a (rw_db w)"
proof -
  have request: "swp (request_approval ops d inp a t) (\<lambda>u w'. \<not> sends_on u) w1" for t w1
    unfolding request_approval_def
    by (intro swp_thenI swp_return_update) (simp add: sends_on_def)
  have expiry: "swp (sthen (record_system_decision d inp a ApprovalDecision.EXPIRED t1 t2)
      (\<lambda>x. route_decided d inp a x)) (\<lambda>u w'. \<not> sends_on u) w1" for t1 t2 w1
    unfolding record_system_decision_def swp_then
    by (auto simp: swp_def insert_approval_def add_approval_def system_decision_def slift_def
        split: sum.splits if_splits dest: swpD [OF route_refused, rotated])
  show ?thesis
  proof (cases "recorded_decision d a w")
    case (Some x)
    then have "route_decided d inp a x w = (Inr u, w')"
      using assms(1,3) by (simp add: approval_service_def sthen_def sread_def)
    then have "ap_decision x = ApprovalDecision.APPROVED"
      using swpD [OF route_refused] assms(2) by blast
    then show ?thesis using recorded_mem [OF Some] unfolding approved_version_def by blast
  next
    case None
    then have "swp (sthen (sread (approval_deadline d a)) (\<lambda>deadline.
         if deadline \<le> ni_clock inp 300 then
           sthen (slift (case map_of APPROVAL_WINDOW_SECONDS (ac_risk_tier a) of
                    None \<Rightarrow> Inl KeyError | Some window \<Rightarrow> Inr (deadline - microseconds window))) (\<lambda>requested_at.
           sthen (record_system_decision d inp a ApprovalDecision.EXPIRED requested_at deadline) (\<lambda>a'.
             route_decided d inp a a'))
         else request_approval ops d inp a deadline)) (\<lambda>u w'. \<not> sends_on u) w"
      by (auto intro!: swp_thenI request expiry)
    moreover have "sthen (sread (approval_deadline d a)) (\<lambda>deadline.
         if deadline \<le> ni_clock inp 300 then
           sthen (slift (case map_of APPROVAL_WINDOW_SECONDS (ac_risk_tier a) of
                    None \<Rightarrow> Inl KeyError | Some window \<Rightarrow> Inr (deadline - microseconds window))) (\<lambda>requested_at.
           sthen (record_system_decision d inp a ApprovalDecision.EXPIRED requested_at deadline) (\<lambda>a'.
             route_decided d inp a a'))
         else request_approval ops d inp a deadline) w = (Inr u, w')"
      using assms(1,3) None by (simp add: approval_service_def sthen_def [of "find_run_action _ _"]
          sthen_def [of "sread (\<lambda>w. Inr (recorded_decision _ _ w))"] sread_def)
    ultimately have "\<not> sends_on u" by (rule swpD)
    then show ?thesis using assms(2) by blast
  qed
qed

text \<open>
  The callback key of the row of an elapsed window is a digest with a suffix of fourteen
  characters, which the column of the key does not hold: the pass always fails. (The row would
  also violate the table's \<open>human_decision_has_timestamp\<close> constraint.)
\<close>

lemma elapsed_window_fails:
  assumes "find_run_action d (rf_action ref) w = (Inr a, w)" and "recorded_decision d a w = None"
    and "approval_deadline d a w = Inr deadline" and "deadline \<le> ni_clock inp 300"
    and "approval_callback_key (br_keys (nd_broker d)) (nd_tenant d) (ac_id a) (ac_version_hash a) = Inr key"
    and "KEY_LENGTH < length key + 14"
  shows "approval_service ops d inp ref w = (Inl (OtherException ''DataError''), w)"
proof -
  have tier: "map_of APPROVAL_WINDOW_SECONDS (ac_risk_tier a) \<noteq> None"
    using assms(3) by (auto simp: approval_deadline_def result_simps split: option.splits)
  then show ?thesis
    using assms
    by (auto simp: approval_service_def sthen_def sread_def slift_def record_system_decision_def
        insert_approval_def add_approval_def approval_widths_def system_decision_def split: option.splits)
qed

text \<open>A callback key is a digest of the digest function it is given.\<close>

lemma callback_key_digest:
  "approval_callback_key ops tenant action h = Inr key \<Longrightarrow> \<exists>s. key = sha256_hex ops s"
  by (auto simp: approval_callback_key_def digest_def andThen_eq_Inr)

section \<open>The verifier\<close>

definition resolves :: "node_update \<Rightarrow> bool" where
  "resolves u \<longleftrightarrow>
     (''target_incident_status'', UText (IncidentStatus_value IncidentStatus.RESOLVED)) \<in> set u"

text \<open>A judgement that the outcome is verified, and the value it was made on.\<close>

definition verified_on ::
  "trust_ops \<Rightarrow> node_deps \<Rightarrow> VerificationProfile \<Rightarrow> arg_map \<Rightarrow> baseline_row \<Rightarrow> action_row \<Rightarrow> int \<Rightarrow> target_row \<Rightarrow>
   int \<Rightarrow> remediation_world \<Rightarrow> rat \<Rightarrow> bool" where
  "verified_on ops d profile criteria b a executed_at target now w value \<longleftrightarrow>
     py_eq (PDict criteria) (PDict (profile_to_dict profile)) \<and>
     baseline_trusted ops d profile b a target executed_at now w \<and>
     jd_verdict (judge profile (bl_value b) value) = VerificationVerdict.VERIFIED"

lemma was_observed_iff: "was_observed m \<longleftrightarrow> map_of m ''observed_value'' \<noteq> None"
  by (simp add: was_observed_def map_of_eq_None_iff)

lemma update_other: "k \<noteq> k' \<Longrightarrow> map_of (AList.update k' v m) k = map_of m k"
  by (simp add: update_conv')

lemma judged_observed:
  "observed_number (judged_fields p v j m) = observed_number m"
  "was_observed (judged_fields p v j m) \<longleftrightarrow> was_observed m"
proof -
  have k: "map_of (judged_fields p v j m) ''observed_value'' = map_of m ''observed_value''"
    by (simp add: judged_fields_def update_other)
  then show "observed_number (judged_fields p v j m) = observed_number m"
    by (simp add: observed_number_def dict_get_def)
  show "was_observed (judged_fields p v j m) \<longleftrightarrow> was_observed m"
    unfolding was_observed_iff k ..
qed

lemma outcome_verified:
  "swp (evaluate_outcome ops d inp p criteria b a e target)
     (\<lambda>(v, m, margin) w'. v = VerificationVerdict.VERIFIED \<longrightarrow>
        was_observed m \<and> (\<exists>value. observed_number m = Inr value \<and>
          verified_on ops d p criteria b a e target (ni_clock inp 410) w value)) w"
proof (cases "py_eq (PDict criteria) (PDict (profile_to_dict p)) \<and>
    baseline_trusted ops d p b a target e (ni_clock inp 410) w")
  case False
  then show ?thesis
    unfolding evaluate_outcome_def
    by (auto simp: swp_then swp_basic simp del: py_eq.simps)
next
  case True
  have "swp (observe ops d inp 411 p a) (\<lambda>m. swp
      (if \<not> was_observed m then sreturn (VerificationVerdict.INCONCLUSIVE, m, None)
       else sthen (slift (observed_number m)) (\<lambda>value.
         let j = judge p (bl_value b) value in
         sreturn (jd_verdict j, judged_fields p (bl_value b) j m, Some (jd_margin j))))
     (\<lambda>(v, m, margin) w'. v = VerificationVerdict.VERIFIED \<longrightarrow>
        was_observed m \<and> (\<exists>value. observed_number m = Inr value \<and>
          verified_on ops d p criteria b a e target (ni_clock inp 410) w value))) w"
    by (rule swp_all) (use True in \<open>auto simp: swp_then swp_basic Let_def judged_observed verified_on_def simp del: py_eq.simps split: sum.splits\<close>)
  then show ?thesis
    using True unfolding evaluate_outcome_def by (simp add: swp_then swp_basic del: py_eq.simps)
qed

text \<open>A verification row that records such a judgement.\<close>

definition records_verified ::
  "trust_ops \<Rightarrow> node_deps \<Rightarrow> VerificationProfile \<Rightarrow> arg_map \<Rightarrow> baseline_row \<Rightarrow> action_row \<Rightarrow> int \<Rightarrow> target_row \<Rightarrow>
   int \<Rightarrow> remediation_world \<Rightarrow> verification_row \<Rightarrow> bool" where
  "records_verified ops d p criteria b a e target now w v \<longleftrightarrow>
     ve_verdict v = VerificationVerdict.VERIFIED \<and> ve_action v = ac_id a \<and> ve_tenant v = nd_tenant d \<and>
     ve_baseline v = Some (bl_id b) \<and> ve_criteria_hash v = ac_criteria_hash a \<and>
     (\<exists>value. ve_value v = Some value \<and> verified_on ops d p criteria b a e target now w value)"

definition same_rows :: "remediation_world \<Rightarrow> remediation_world \<Rightarrow> bool" where
  "same_rows w w' \<longleftrightarrow> rw_verifications w' = rw_verifications w"

interpretation judged: step_frame same_rows
  by unfold_locales (simp_all add: same_rows_def update_actions_def with_db_def)

lemma audit_judged: "judged.framed (record_audit d ev oc a)"
  by (auto simp: judged.framed_def same_rows_def record_audit_def split: if_splits)

lemma observe_judged: "judged.framed (observe ops d inp i p a)"
proof -
  have "judged.framed (call_broker d c q ci)" for c q ci
    by (auto simp: judged.framed_def same_rows_def call_broker_def split: prod.splits)
  then show ?thesis unfolding observe_def Let_def by (intro judged.framed_intros)
qed

lemma outcome_judged: "judged.framed (evaluate_outcome ops d inp p criteria b a e target)"
  unfolding evaluate_outcome_def Let_def by (intro judged.framed_intros observe_judged)

lemma conclude_resolves:
  "swp (conclude d inp a v) (\<lambda>u w'. resolves u \<longrightarrow>
     ve_verdict v = VerificationVerdict.VERIFIED \<and> rw_verifications w' = rw_verifications w @ [v]) w"
proof -
  have rest: "judged.framed (sthen (smodify (update_actions f)) (\<lambda>_. sthen (record_audit d ev oc i) (\<lambda>_.
      sthen (load_incident d) (\<lambda>_. sthen (run_transition d n t ac x y z r) (\<lambda>_.
      sthen (action_event d n' e ac' a' p q s s') (\<lambda>_. return_update G10_VERIFIER u))))))"
    for f ev oc i n t ac x y z r n' e ac' a' p q s s' u
    by (intro judged.framed_intros judged.framed_actions audit_judged)
  obtain target reason why where route: "verdict_route (ve_verdict v) = (target, reason, why)"
    by (cases "verdict_route (ve_verdict v)")
  have res: "target = IncidentStatus.RESOLVED \<longleftrightarrow> ve_verdict v = VerificationVerdict.VERIFIED"
    using route by (auto simp: verdict_route_def split: VerificationVerdict.splits)
  show ?thesis
  proof (rule swpI, rule impI)
    fix u w'
    assume run: "conclude d inp a v w = (Inr u, w')" and u: "resolves u"
    have "swp (conclude d inp a v) (\<lambda>u w'. resolves u \<longrightarrow> target = IncidentStatus.RESOLVED) w"
      unfolding conclude_def route prod.case
      by (intro swp_thenI swp_return_update)
        (cases target; simp add: resolves_def)
    then have "target = IncidentStatus.RESOLVED" using run u by (auto dest: swpD)
    moreover have "rw_verifications w' = rw_verifications w @ [v]"
      using run unfolding conclude_def route prod.case
    proof (cases rule: sthen_cases)
      case (went x w1)
      have "rw_verifications w1 = rw_verifications w @ [v]"
        using went(1) by (auto simp: insert_verification_def split: if_splits)
      then show ?thesis using judged.framedD [OF rest went(2)] by (simp add: same_rows_def)
    qed simp
    ultimately show "ve_verdict v = VerificationVerdict.VERIFIED \<and> rw_verifications w' = rw_verifications w @ [v]"
      using res by blast
  qed
qed

lemma lineage_of_observed:
  assumes "lineage_columns ops d p b a target m = Inr lin" and "was_observed m"
    and "observed_number m = Inr value"
  shows "\<exists>x. lin = Some x \<and> ln_baseline x = bl_id b \<and> ln_value x = value"
  using assms by (auto simp: lineage_columns_def andThen_eq_Inr Let_def)

lemma swp_conj: "swp m P w \<Longrightarrow> swp m Q w \<Longrightarrow> swp m (\<lambda>x w'. P x w' \<and> Q x w') w"
  by (simp add: swp_def)

lemma settled_resolves:
  "swp (verify_settled ops d inp p b a e target) (\<lambda>u w'. resolves u \<longrightarrow>
     (\<exists>v. rw_verifications w' = rw_verifications w @ [v] \<and>
        records_verified ops d p (ac_criteria a) b a e target (ni_clock inp 410) w v)) w"
    (is "swp _ ?Q w")
proof -
  have concl: "swp (conclude d inp a (verification_record d a lin attempt key h verdict m
        (baseline_json ops b) margin opened judged_at new_id)) ?Q w1"
    if w1: "rw_verifications w1 = rw_verifications w"
      and lin: "lineage_columns ops d p b a target m = Inr lin"
      and v: "verdict = VerificationVerdict.VERIFIED \<Longrightarrow> h = ac_criteria_hash a \<and> was_observed m \<and>
        (\<exists>value. observed_number m = Inr value \<and>
          verified_on ops d p (ac_criteria a) b a e target (ni_clock inp 410) w value)"
    for lin attempt key h verdict m margin opened judged_at new_id w1
  proof (rule swp_mono [OF conclude_resolves], rule impI)
    let ?v = "verification_record d a lin attempt key h verdict m (baseline_json ops b) margin opened judged_at new_id"
    fix u w'
    assume "resolves u \<longrightarrow> ve_verdict ?v = VerificationVerdict.VERIFIED \<and>
        rw_verifications w' = rw_verifications w1 @ [?v]"
      and "resolves u"
    then have mem: "rw_verifications w' = rw_verifications w1 @ [?v]" and is_v: "ve_verdict ?v = VerificationVerdict.VERIFIED"
      by blast+
    have verdict: "verdict = VerificationVerdict.VERIFIED" using is_v by (simp add: verification_record_def)
    obtain val where o: "was_observed m" "observed_number m = Inr val" "h = ac_criteria_hash a"
        "verified_on ops d p (ac_criteria a) b a e target (ni_clock inp 410) w val"
      using v [OF verdict] by blast
    obtain x where "lin = Some x" "ln_baseline x = bl_id b" "ln_value x = val"
      using lineage_of_observed [OF lin o(1,2)] by blast
    then have "records_verified ops d p (ac_criteria a) b a e target (ni_clock inp 410) w ?v"
      using o verdict by (simp add: records_verified_def verification_record_def)
    with mem w1 show "\<exists>v. rw_verifications w' = rw_verifications w @ [v] \<and>
        records_verified ops d p (ac_criteria a) b a e target (ni_clock inp 410) w v"
      by (intro exI [of _ ?v]) simp
  qed
  have tail: "swp (sthen (slift (window_seconds_of (ac_criteria a))) (\<lambda>seconds.
      sthen (slift (lineage_columns ops d p b a target m)) (\<lambda>lin.
      sthen (slift (verification_callback_key (br_keys (nd_broker d)) (nd_tenant d) (ac_id a) (int attempt))) (\<lambda>key.
      conclude d inp a (verification_record d a lin attempt key h verdict m
        (baseline_json ops b) margin (judged_at - microseconds seconds) judged_at new_id))))) ?Q w1"
    if "rw_verifications w1 = rw_verifications w"
      and "verdict = VerificationVerdict.VERIFIED \<Longrightarrow> h = ac_criteria_hash a \<and> was_observed m \<and>
        (\<exists>value. observed_number m = Inr value \<and>
          verified_on ops d p (ac_criteria a) b a e target (ni_clock inp 410) w value)"
    for verdict m margin attempt h judged_at new_id w1
    unfolding swp_then swp_basic using that by (auto split: sum.split intro!: concl)
  show ?thesis
    unfolding verify_settled_def Let_def
  proof (subst swp_then, subst swp_basic, simp only: sum.case, subst swp_then, subst swp_basic)
    show "case criteria_digest d a of Inl e \<Rightarrow> True
      | Inr h \<Rightarrow> swp (sthen (if h \<noteq> ac_criteria_hash a
            then sreturn (VerificationVerdict.INCONCLUSIVE, [], None)
            else evaluate_outcome ops d inp p (ac_criteria a) b a e target)
          (\<lambda>(verdict, observed, margin).
            sthen (slift (window_seconds_of (ac_criteria a))) (\<lambda>seconds.
            sthen (slift (lineage_columns ops d p b a target observed)) (\<lambda>lin.
            sthen (slift (verification_callback_key (br_keys (nd_broker d)) (nd_tenant d) (ac_id a)
              (int (next_attempt d a w)))) (\<lambda>key.
            conclude d inp a (verification_record d a lin (next_attempt d a w) key h verdict observed
              (baseline_json ops b) margin (ni_clock inp 412 - microseconds seconds) (ni_clock inp 412)
              (ni_ids inp 412))))))) ?Q w"
    proof (cases "criteria_digest d a")
      case (Inr h)
      show ?thesis
      proof (cases "h = ac_criteria_hash a")
        case True
        show ?thesis
          unfolding Inr sum.case swp_then [of "if _ then _ else _"]
          using True
          by simp (rule swp_mono [OF swp_conj [OF outcome_verified judged.framed_swp [OF outcome_judged]]],
            clarsimp, rule tail, simp_all add: same_rows_def)
      next
        case False
        then show ?thesis
          unfolding Inr sum.case swp_then [of "if _ then _ else _"]
          by (simp add: swp_basic) (rule tail, simp_all)
      qed
    qed simp
  qed
qed

text \<open>The incident is resolved only on a verified row, judged in this pass.\<close>

lemma verifier_resolves:
  assumes "verifier ops d inp ref w = (Inr u, w')" and "resolves u"
    and "find_run_action d (rf_action ref) w = (Inr a, w)"
  obtains b p target e t where "b \<in> set (rw_baselines w)" "bl_action b = ac_id a"
    "ac_executed_at a = Some e" "profile_for_criteria (ac_tool_name a) (ac_criteria a) = Inr p"
    "target \<in> set (rd_targets (rw_db w))" "tg_id target = ac_target a"
    "andThen registry_remediation_full (\<lambda>r. by_name r (ac_tool_name a)) = Inr (t :: ToolDescriptor)"
    "e + microseconds (td_settling_seconds t) \<le> ni_clock inp 403"
    "\<exists>v. rw_verifications w' = rw_verifications w @ [v] \<and>
       records_verified ops d p (ac_criteria a) b a e target (ni_clock inp 410) w v"
proof -
  have cap: "swp (capture_baseline ops d inp p a target c) (\<lambda>u w'. \<not> resolves u) w1" for p target c w1
    unfolding capture_baseline_def Let_def baseline_update_def
    by (auto intro!: swp_thenI swp_return_update simp: resolves_def)
  have miss: "swp (missing_baseline d inp) (\<lambda>u w'. \<not> resolves u) w1" for w1
    unfolding missing_baseline_def
    by (intro swp_thenI swp_return_update) (simp add: resolves_def)
  have quiet: "swp (return_update G10_VERIFIER (baseline_update a c)) (\<lambda>u w'. \<not> resolves u) w1"
      "swp (return_update G10_VERIFIER [(''phase'', UText ''awaiting_settling''), (''terminated'', UFlag False)])
        (\<lambda>u w'. \<not> resolves u) w1" for c w1
    by (intro swp_return_update; simp add: resolves_def baseline_update_def)+
  obtain t :: ToolDescriptor and p target where
      t: "andThen registry_remediation_full (\<lambda>r. by_name r (ac_tool_name a)) = Inr t"
    and p: "profile_for_criteria (ac_tool_name a) (ac_criteria a) = Inr p"
    and target: "scalar_one (filter (\<lambda>t. tg_id t = ac_target a) (rd_targets (rw_db w))) = Inr target"
    and rest: "(case List.find (\<lambda>b. bl_action b = ac_id a) (rw_baselines w) of
       None \<Rightarrow>
         if ac_executed_at a \<noteq> None then missing_baseline d inp
         else capture_baseline ops d inp p a target (td_capability t)
     | Some b \<Rightarrow>
         (case ac_executed_at a of
            None \<Rightarrow> return_update G10_VERIFIER (baseline_update a (td_capability t))
          | Some executed_at \<Rightarrow>
              if ni_clock inp 403 < executed_at + microseconds (td_settling_seconds t)
              then return_update G10_VERIFIER
                [(''phase'', UText ''awaiting_settling''), (''terminated'', UFlag False)]
              else verify_settled ops d inp p b a executed_at target)) w = (Inr u, w')"
    using assms(1,3)
    by (auto simp: verifier_def sthen_def slift_def sread_def simp del: not_None_eq split: sum.splits)
  have target': "target \<in> set (rd_targets (rw_db w))" "tg_id target = ac_target a"
    using target filter_singleton by (fastforce simp: query_simps)+
  show ?thesis
  proof (cases "List.find (\<lambda>b. bl_action b = ac_id a) (rw_baselines w)")
    case None
    then show ?thesis using rest swpD [OF cap] swpD [OF miss] assms(2) by (auto split: if_splits)
  next
    case found: (Some b)
    note b = find_SomeD [OF found]
    show ?thesis
    proof (cases "ac_executed_at a")
      case None
      then show ?thesis using rest found swpD [OF quiet(1)] assms(2) by auto
    next
      case (Some e)
      then have settled: "\<not> ni_clock inp 403 < e + microseconds (td_settling_seconds t)"
          "verify_settled ops d inp p b a e target w = (Inr u, w')"
        using rest found swpD [OF quiet(2)] assms(2) by (auto split: if_splits)
      have row: "\<exists>v. rw_verifications w' = rw_verifications w @ [v] \<and>
          records_verified ops d p (ac_criteria a) b a e target (ni_clock inp 410) w v"
        using swpD [OF settled_resolves settled(2)] assms(2) by blast
      show ?thesis
        by (rule that [OF _ _ Some p target' t _ row]) (use b settled(1) in auto)
    qed
  qed
qed

text \<open>What a recorded judgement under a registered profile says in numbers.\<close>

lemma records_verified_numbers:
  assumes "records_verified ops d p criteria b a e target now w v"
    and "profile_for_criteria tool c = Inr p"
  shows "ve_verdict v = VerificationVerdict.VERIFIED" "ve_action v = ac_id a" "ve_tenant v = nd_tenant d"
    "ve_baseline v = Some (bl_id b)" "ve_criteria_hash v = ac_criteria_hash a"
    "baseline_trusted ops d p b a target e now w"
    "\<exists>value. ve_value v = Some value \<and> value < 25 / 100 \<and> value < bl_value b"
proof -
  have p: "vp_threshold p = 25 / 100 \<and> vp_require_improvement p \<and> vp_direction p = ''decrease''"
    using criteria_registered [OF assms(2)] by (auto simp: LATENCY_RECOVERY_V2_def LATENCY_RECOVERY_V1_def)
  obtain x where "ve_value v = Some x" "verified_on ops d p criteria b a e target now w x"
    using assms(1) by (auto simp: records_verified_def)
  then show "\<exists>value. ve_value v = Some value \<and> value < 25 / 100 \<and> value < bl_value b"
    and "baseline_trusted ops d p b a target e now w"
    using p by (auto simp: verified_on_def judge_verified simp del: py_eq.simps)
qed (use assms(1) in \<open>simp_all add: records_verified_def\<close>)

end
