(* ===== verification/Model_Budget_Run.thy ===== *)
theory Model_Budget_Run
  imports Model_Budget
begin

text \<open>
  What holds of the durable model budget over any sequence of calls, some of them killed after
  their reservation: the reservations are a one-shot register of the keys sent to the
  provider, and the ledger of a run covers its reservations and stays below its limits.
\<close>

section \<open>Reservations\<close>

definition reserved :: "model_db \<Rightarrow> string \<times> string \<Rightarrow> bool" where
  "reserved db k \<longleftrightarrow> (\<exists>r \<in> set (md_reservations db). (rv_run r, rv_key r) = k)"

lemma find_reservation_None: "find_reservation db run key = None \<longleftrightarrow> \<not> reserved db (run, key)"
  by (auto simp: find_reservation_def reserved_def find_None_iff)

lemma reserve_fresh:
  assumes "reserve tenant run key e budget db = Inr (None, db')"
  obtains row durable charged node where
    "\<not> reserved db (run, key)" "find_run db run = Some row"
    "budget_from_dict (lr_budget row) = Inr durable"
    "require_headroom durable (estimate_charge e) = Inr ()"
    "charge durable (estimate_charge e) = Inr charged"
    "reservation_ok (reserved_row tenant run key node e)"
    "db' = db\<lparr>md_runs := map (store_budget run (budget_to_dict charged)) (md_runs db),
       md_reservations := md_reservations db @ [reserved_row tenant run key node e]\<rparr>"
  using assms
  by (auto simp: reserve_def result_simps Let_def find_reservation_None [symmetric]
      split: option.splits bool.splits if_splits)

lemma reserve_replay: "reserve tenant run key e budget db = Inr (Some a, db') \<Longrightarrow> db' = db"
  by (auto simp: reserve_def result_simps Let_def split: option.splits bool.splits if_splits)

lemma settle_Inr:
  assumes "settle run key a db = Inr db'"
  shows "db' = db \<or> (\<exists>row durable. find_run db run = Some row \<and>
    budget_from_dict (lr_budget row) = Inr durable \<and>
    (\<forall>x \<in> set (md_reservations db). rv_run x = run \<and> rv_key x = key \<longrightarrow>
       reservation_ok (settled_row a x)) \<and>
    db' = db\<lparr>md_runs := map (store_budget run (budget_to_dict durable)) (md_runs db),
      md_reservations := map (\<lambda>x. if rv_run x = run \<and> rv_key x = key then settled_row a x else x)
        (md_reservations db)\<rparr>)"
  using assms by (auto simp: settle_def result_simps split: option.splits if_splits)

section \<open>Steps\<close>

text \<open>
  A call under the accounting, with the key it sent to the provider if it sent one; a call
  killed after its reservation; the start of a run; the investigation kernel's own write of the
  ledger. That write replaces whatever is stored: here it carries at least the charges of the
  ledger, as it does when the nodes have reloaded it; \<open>stale_progress_uncovers\<close> is about the rest.
\<close>

definition carries_charges :: "BudgetState \<Rightarrow> BudgetState \<Rightarrow> bool" where
  "carries_charges b durable \<longleftrightarrow>
     policy b = policy durable \<and> tokens (ledger durable) \<le> tokens (ledger b) \<and>
     cost_usd (ledger durable) \<le> cost_usd (ledger b) \<and>
     of_int (tokens (ledger b)) < max_tokens (policy b) \<and> cost_usd (ledger b) < max_cost_usd (policy b)"

inductive model_step :: "model_db \<Rightarrow> (string \<times> string) option \<Rightarrow> model_db \<Rightarrow> bool" where
  called: "complete_with_budget p q budget (Some (tenant, run)) (Some key) db = (r, db') \<Longrightarrow>
    model_step db (if md_calls db' = md_calls db then None else Some (run, key)) db'"
| killed: "reserve tenant run key e budget db = Inr (None, db') \<Longrightarrow>
    model_step db (Some (run, key)) (db'\<lparr>md_calls := md_calls db' @ [(run, key)]\<rparr>)"
| started: "model_step db None (db\<lparr>md_runs := md_runs db @ [row]\<rparr>)"
| recorded: "find_run db run = Some row \<Longrightarrow> lr_tenant row = tenant \<Longrightarrow>
    budget_from_dict (lr_budget row) = Inr durable \<Longrightarrow> carries_charges b durable \<Longrightarrow>
    model_step db None (record_progress tenant run b db)"

text \<open>The shapes of a call: refused, replayed, or sent on a fresh reservation.\<close>

lemma call_cases:
  assumes "complete_with_budget p q budget (Some (tenant, run)) (Some key) db = (r, db')"
  obtains (quiet) "db' = db"
    | (sent) e db1 db2 where "reserve tenant run key e budget db = Inr (None, db1)"
        "db2 = db1\<lparr>md_calls := md_calls db @ [(run, key)]\<rparr>"
        "db' = db2 \<or> (\<exists>a. settle run key a db2 = Inr db')"
proof -
  consider "db' = db"
    | e replay db1 where "reserve tenant run key e budget db = Inr (replay, db1)"
        "finish_call p q budget e run key replay db1 = (r, db')"
    using assms by (auto simp: complete_with_budget_def split: sum.splits)
  then show thesis
  proof cases
    case 1
    then show thesis by (rule quiet)
  next
    case 2
    show thesis
    proof (cases replay)
      case (Some a)
      then have "db' = db"
        using 2 reserve_replay by (force simp: finish_call_def)
      then show thesis by (rule quiet)
    next
      case None
      have "md_calls db1 = md_calls db"
        using 2(1) unfolding None by (elim reserve_fresh) simp
      then show thesis
        using 2 sent [of e db1 "db1\<lparr>md_calls := md_calls db @ [(run, key)]\<rparr>"] unfolding None
        by (auto simp: finish_call_def call_provider_def split: sum.splits if_splits)
    qed
  qed
qed

lemma settle_keeps:
  assumes "settle run key a db = Inr db'"
  shows "md_calls db' = md_calls db" "reserved db' k \<longleftrightarrow> reserved db k"
proof -
  show "md_calls db' = md_calls db" using settle_Inr [OF assms] by auto
  have alt: "reserved db k \<longleftrightarrow> k \<in> set (map (\<lambda>r. (rv_run r, rv_key r)) (md_reservations db))" for db
    by (auto simp: reserved_def)
  have "map (\<lambda>r. (rv_run r, rv_key r)) (md_reservations db') =
      map (\<lambda>r. (rv_run r, rv_key r)) (md_reservations db)"
    using settle_Inr [OF assms] by (auto simp: settled_row_def)
  then show "reserved db' k \<longleftrightarrow> reserved db k" by (simp only: alt)
qed

lemma reserve_reserved:
  assumes "reserve tenant run key e budget db = Inr (None, db')"
  shows "\<not> reserved db (run, key)" "reserved db' k \<longleftrightarrow> reserved db k \<or> k = (run, key)"
    "md_calls db' = md_calls db"
  using assms by (auto elim!: reserve_fresh simp: reserved_def reserved_row_def)

lemma model_step_effect:
  assumes "model_step db l db'"
  shows "md_calls db' = md_calls db @ (case l of None \<Rightarrow> [] | Some k \<Rightarrow> [k])"
    and "case l of None \<Rightarrow> (\<forall>j. reserved db' j \<longleftrightarrow> reserved db j)
       | Some k \<Rightarrow> \<not> reserved db k \<and> (\<forall>j. reserved db' j \<longleftrightarrow> reserved db j \<or> j = k)"
  using assms
proof (induction rule: model_step.induct)
  case (called p q budget tenant run key db r db')
  {
    case 1
    show ?case using called
    proof (cases rule: call_cases)
      case (sent e db1 db2)
      then show ?thesis using settle_keeps(1) by fastforce
    qed simp
  next
    case 2
    show ?case using called
    proof (cases rule: call_cases)
      case (sent e db1 db2)
      have c: "md_calls db' = md_calls db @ [(run, key)]" using sent settle_keeps(1) by fastforce
      have "reserved db' j \<longleftrightarrow> reserved db1 j" for j
        using sent(2,3) settle_keeps(2) by (fastforce simp: reserved_def)
      then show ?thesis using reserve_reserved [OF sent(1)] c by simp
    qed simp
  }
next
  case (killed tenant run key e budget db db')
  {
    case 1
    then show ?case using reserve_reserved(3) [OF killed] by simp
  next
    case 2
    then show ?case using reserve_reserved [OF killed] by (simp add: reserved_def)
  }
qed (simp_all add: reserved_def record_progress_def)

interpretation model_calls: one_shot reserved model_step
proof
  show "\<not> reserved db k" if "model_step db (Some k) db'" for db k db'
    using model_step_effect(2) [OF that] by (cases k) simp
  show "reserved db' k" if "model_step db (Some k) db'" for db k db'
    using model_step_effect(2) [OF that] by (cases k) simp
  show "reserved db' j" if "model_step db l db'" "reserved db j" for db l db' j
    using model_step_effect(2) [OF that(1)] that(2) by (cases j) (auto split: option.splits)
qed

lemma run_calls: "labelled_run model_step db ks db' \<Longrightarrow> md_calls db' = md_calls db @ ks"
  by (induction rule: labelled_run.induct) (auto dest: model_step_effect(1))

section \<open>The ledger\<close>

definition of_run :: "string \<Rightarrow> model_db \<Rightarrow> reservation_row list" where
  "of_run run db = filter (\<lambda>r. rv_run r = run) (md_reservations db)"

definition reserved_tokens :: "string \<Rightarrow> model_db \<Rightarrow> int" where
  "reserved_tokens run db = sum_list (map rv_tokens (of_run run db))"

definition reserved_cost :: "string \<Rightarrow> model_db \<Rightarrow> rat" where
  "reserved_cost run db = sum_list (map rv_cost (of_run run db))"

text \<open>What the settled calls of a run consumed.\<close>

definition spent_tokens :: "string \<Rightarrow> model_db \<Rightarrow> int" where
  "spent_tokens run db =
     sum_list (map (\<lambda>r. case rv_response r of None \<Rightarrow> 0 | Some a \<Rightarrow> total_tokens a)
       (filter rv_completed (of_run run db)))"

text \<open>A row that records the response it was settled with.\<close>

definition row_faithful :: "reservation_row \<Rightarrow> bool" where
  "row_faithful r \<longleftrightarrow> reservation_ok r \<and>
     (\<forall>a. rv_response r = Some a \<longrightarrow> rv_completed r \<and>
        rv_input r = Some (mr_input_tokens a) \<and> rv_output r = Some (mr_output_tokens a))"

definition ledger_covers :: "string \<Rightarrow> model_db \<Rightarrow> bool" where
  "ledger_covers run db \<longleftrightarrow>
     (\<exists>row b. find_run db run = Some row \<and> budget_from_dict (lr_budget row) = Inr b \<and>
        of_int (tokens (ledger b)) < max_tokens (policy b) \<and> cost_usd (ledger b) < max_cost_usd (policy b) \<and>
        reserved_tokens run db \<le> tokens (ledger b) \<and> reserved_cost run db \<le> cost_usd (ledger b)) \<and>
     (\<forall>r \<in> set (md_reservations db). row_faithful r)"

lemma budget_stored: "budget_from_dict raw = Inr b \<Longrightarrow> policy b' = policy b \<Longrightarrow>
    budget_from_dict (budget_to_dict b') = Inr b'"
  by (cases b') (auto simp: budget_from_dict_def budget_to_dict_def result_simps ledger_roundtrip
      dest!: policy_from_dict_valid intro: policy_roundtrip)

lemma find_run_store:
  assumes "find_run db run = Some row"
  shows "List.find (\<lambda>r. lr_id r = run') (map (store_budget run b) (md_runs db)) =
    map_option (store_budget run b) (find_run db run')"
proof -
  have "List.find P (map f xs) = map_option f (List.find (P \<circ> f) xs)" for P and f :: "ledger_row \<Rightarrow> ledger_row" and xs
    by (induction xs) auto
  moreover have "(\<lambda>r. lr_id r = run') \<circ> store_budget run b = (\<lambda>r. lr_id r = run')"
    by (rule ext) (simp add: store_budget_def)
  ultimately show ?thesis by (simp add: find_run_def)
qed

lemma find_run_id: "find_run db run = Some row \<Longrightarrow> lr_id row = run"
  by (auto simp: find_run_def find_Some_iff)

lemma charged_estimate:
  assumes "charge b (estimate_charge e) = Inr b'"
  shows "policy b' = policy b" "tokens (ledger b') = tokens (ledger b) + max_total_tokens e"
    "cost_usd (ledger b') = cost_usd (ledger b) + me_max_cost_usd e"
    "0 \<le> max_total_tokens e" "0 \<le> me_max_cost_usd e"
  using assms
  by (auto simp: charge_def ledger_charge_def result_simps estimate_charge_def call_charge_def
      no_charge_def split: if_splits)

lemma covers_reserve:
  assumes "reserve tenant run key e budget db = Inr (None, db')" and "ledger_covers run' db"
  shows "ledger_covers run' db'"
  using assms(1)
proof (cases rule: reserve_fresh)
  case (1 row durable charged node)
  let ?new = "reserved_row tenant run key node e"
  have new: "row_faithful ?new" using 1(6) by (simp add: row_faithful_def reserved_row_def)
  obtain row' b where r': "find_run db run' = Some row'" "budget_from_dict (lr_budget row') = Inr b"
    "of_int (tokens (ledger b)) < max_tokens (policy b)" "cost_usd (ledger b) < max_cost_usd (policy b)"
    "reserved_tokens run' db \<le> tokens (ledger b)"
    "reserved_cost run' db \<le> cost_usd (ledger b)"
    and rows: "\<forall>r \<in> set (md_reservations db). row_faithful r"
    using assms(2) by (auto simp: ledger_covers_def)
  have found: "find_run db' run' = Some (store_budget run (budget_to_dict charged) row')"
    using find_run_store [OF 1(2)] r'(1) by (simp add: find_run_def 1(7))
  have toks: "reserved_tokens run' db' = reserved_tokens run' db + (if run' = run then max_total_tokens e else 0)"
    "reserved_cost run' db' = reserved_cost run' db + (if run' = run then me_max_cost_usd e else 0)"
    by (simp_all add: reserved_tokens_def reserved_cost_def of_run_def 1(7) reserved_row_def)
  show ?thesis
  proof (cases "run' = run")
    case True
    then have b: "durable = b" using 1(2,3) r'(1,2) by simp
    have "exhausted_kind charged = None"
      using headroom_then_charge [OF 1(4) _ 1(5)] by (simp add: estimate_charge_def call_charge_def no_charge_def)
    then have "of_int (tokens (ledger charged)) < max_tokens (policy charged)"
      "cost_usd (ledger charged) < max_cost_usd (policy charged)"
      using exhausted_kind_None_iff [of charged] by (metis consumed_for.simps(4,5) limit_for.simps(4,5))+
    moreover have "budget_from_dict (lr_budget (store_budget run (budget_to_dict charged) row')) = Inr charged"
      using budget_stored [OF 1(3) charged_estimate(1) [OF 1(5)]] find_run_id [OF r'(1)] True
      by (simp add: store_budget_def)
    ultimately show ?thesis
      using found toks r' rows new charged_estimate [OF 1(5)] True b
      by (auto simp: ledger_covers_def 1(7))
  next
    case False
    then have "store_budget run (budget_to_dict charged) row' = row'"
      using find_run_id [OF r'(1)] by (simp add: store_budget_def)
    then show ?thesis using found toks r' rows new False by (auto simp: ledger_covers_def 1(7))
  qed
qed

lemma covers_calls: "ledger_covers run (db\<lparr>md_calls := cs\<rparr>) \<longleftrightarrow> ledger_covers run db"
  by (simp add: ledger_covers_def find_run_def reserved_tokens_def reserved_cost_def of_run_def)

lemma covers_settle:
  assumes "settle run key a db = Inr db'" and "ledger_covers run' db"
  shows "ledger_covers run' db'"
  using settle_Inr [OF assms(1)]
proof (elim disjE exE conjE)
  assume "db' = db"
  then show ?thesis using assms(2) by simp
next
  fix row durable
  assume s: "find_run db run = Some row" "budget_from_dict (lr_budget row) = Inr durable"
    "\<forall>x \<in> set (md_reservations db). rv_run x = run \<and> rv_key x = key \<longrightarrow> reservation_ok (settled_row a x)"
    "db' = db\<lparr>md_runs := map (store_budget run (budget_to_dict durable)) (md_runs db),
       md_reservations := map (\<lambda>x. if rv_run x = run \<and> rv_key x = key then settled_row a x else x)
         (md_reservations db)\<rparr>"
  let ?f = "\<lambda>x. if rv_run x = run \<and> rv_key x = key then settled_row a x else x"
  obtain row' b where r': "find_run db run' = Some row'" "budget_from_dict (lr_budget row') = Inr b"
    "of_int (tokens (ledger b)) < max_tokens (policy b)" "cost_usd (ledger b) < max_cost_usd (policy b)"
    "reserved_tokens run' db \<le> tokens (ledger b)"
    "reserved_cost run' db \<le> cost_usd (ledger b)"
    and rows: "\<forall>r \<in> set (md_reservations db). row_faithful r"
    using assms(2) by (auto simp: ledger_covers_def)
  have kept: "rv_run (?f x) = rv_run x" "rv_tokens (?f x) = rv_tokens x" "rv_cost (?f x) = rv_cost x" for x
    by (simp_all add: settled_row_def)
  have same: "map rv_tokens (filter (\<lambda>r. rv_run r = run') (map ?f xs)) =
        map rv_tokens (filter (\<lambda>r. rv_run r = run') xs)"
      "map rv_cost (filter (\<lambda>r. rv_run r = run') (map ?f xs)) =
        map rv_cost (filter (\<lambda>r. rv_run r = run') xs)" for xs
    by (simp_all only: filter_map list.map_comp o_def kept)
  have sums: "reserved_tokens run' db' = reserved_tokens run' db"
    "reserved_cost run' db' = reserved_cost run' db"
    by (simp_all add: reserved_tokens_def reserved_cost_def of_run_def s(4) same
        del: filter_map)
  have "find_run db' run' = Some (store_budget run (budget_to_dict durable) row')"
    using find_run_store [OF s(1)] r'(1) by (simp add: find_run_def s(4))
  moreover have "budget_from_dict (lr_budget (store_budget run (budget_to_dict durable) row')) = Inr b"
  proof (cases "run' = run")
    case True
    then have "durable = b" using s(1,2) r'(1,2) by simp
    then show ?thesis using s(2) r'(2) budget_stored [OF s(2)] by (simp add: store_budget_def)
  next
    case False
    then show ?thesis using r'(2) find_run_id [OF r'(1)] by (simp add: store_budget_def)
  qed
  moreover have "row_faithful r" if r: "r \<in> set (md_reservations db')" for r
    using r rows s(3) by (auto simp: s(4) row_faithful_def settled_row_def)
  ultimately show ?thesis using sums r' by (auto simp: ledger_covers_def)
qed

lemma covers_start: "ledger_covers run db \<Longrightarrow> ledger_covers run (db\<lparr>md_runs := md_runs db @ [row]\<rparr>)"
proof -
  have "List.find P xs = Some x \<Longrightarrow> List.find P (xs @ ys) = Some x" for P and xs ys :: "ledger_row list" and x
    by (induction xs) auto
  then show "ledger_covers run db \<Longrightarrow> ledger_covers run (db\<lparr>md_runs := md_runs db @ [row]\<rparr>)"
    by (auto simp: ledger_covers_def find_run_def reserved_tokens_def reserved_cost_def of_run_def)
qed

lemma find_recorded:
  assumes "find_run db run = Some row" "lr_tenant row = tenant"
  shows "find_run (record_progress tenant run b db) run' =
    map_option (\<lambda>r. if run' = run then r\<lparr>lr_budget := budget_to_dict b\<rparr> else r) (find_run db run')"
proof -
  let ?f = "\<lambda>r. if lr_tenant r = tenant \<and> lr_id r = run then r\<lparr>lr_budget := budget_to_dict b\<rparr> else r"
  have "List.find (\<lambda>r. lr_id r = run') (map ?f xs) = map_option ?f (List.find (\<lambda>r. lr_id r = run') xs)" for xs
    by (induction xs) auto
  then have "find_run (record_progress tenant run b db) run' = map_option ?f (find_run db run')"
    by (simp add: find_run_def record_progress_def)
  also have "\<dots> = map_option (\<lambda>r. if run' = run then r\<lparr>lr_budget := budget_to_dict b\<rparr> else r) (find_run db run')"
  proof (rule option.map_cong0)
    fix x assume "x \<in> set_option (find_run db run')"
    then have x: "find_run db run' = Some x" by simp
    show "?f x = (if run' = run then x\<lparr>lr_budget := budget_to_dict b\<rparr> else x)"
    proof (cases "run' = run")
      case True
      then have "x = row" using x assms(1) by simp
      then show ?thesis using True assms(2) find_run_id [OF assms(1)] by simp
    qed (use find_run_id [OF x] in simp)
  qed
  finally show ?thesis .
qed

lemma recorded_reservations:
  "md_reservations (record_progress tenant run b db) = md_reservations db"
  "reserved_tokens run' (record_progress tenant run b db) = reserved_tokens run' db"
  "reserved_cost run' (record_progress tenant run b db) = reserved_cost run' db"
  by (simp_all add: record_progress_def reserved_tokens_def reserved_cost_def of_run_def)

lemma covers_recorded:
  assumes "find_run db run = Some row" "lr_tenant row = tenant"
    and d: "budget_from_dict (lr_budget row) = Inr durable" and c: "carries_charges b durable"
    and "ledger_covers run' db"
  shows "ledger_covers run' (record_progress tenant run b db)"
proof (cases "run' = run")
  case True
  have "budget_from_dict (budget_to_dict b) = Inr b"
    using budget_stored [OF d] c by (simp add: carries_charges_def)
  then show ?thesis
    using True assms by (auto simp: ledger_covers_def find_recorded recorded_reservations carries_charges_def)
next
  case False
  then show ?thesis
    using assms by (auto simp: ledger_covers_def find_recorded recorded_reservations)
qed

text \<open>A write that carries fewer tokens than the reservations loses them from the ledger.\<close>

lemma stale_progress_uncovers:
  assumes "find_run db run = Some row" "lr_tenant row = tenant"
    and d: "budget_from_dict (lr_budget row) = Inr durable" and p: "policy b = policy durable"
    and "tokens (ledger b) < reserved_tokens run db"
  shows "\<not> ledger_covers run (record_progress tenant run b db)"
  using assms budget_stored [OF d p] by (auto simp: ledger_covers_def find_recorded recorded_reservations)

lemma covers_step: "model_step db l db' \<Longrightarrow> ledger_covers run db \<Longrightarrow> ledger_covers run db'"
proof (induction rule: model_step.induct)
  case (called p q budget tenant run' key db r db')
  from called(1) show ?case
  proof (cases rule: call_cases)
    case (sent e db1 db2)
    have "ledger_covers run db2"
      using covers_reserve [OF sent(1) called(2)] covers_calls sent(2) by simp
    then show ?thesis using sent(3) covers_settle by blast
  qed (use called(2) in simp)
next
  case (killed tenant run' key e budget db db')
  then show ?case using covers_reserve covers_calls by blast
next
  case (started db row)
  then show ?case by (rule covers_start)
next
  case (recorded db run' row tenant durable b)
  show ?case by (rule covers_recorded [OF recorded(1-5)])
qed

lemma covers_run: "labelled_run model_step db ks db' \<Longrightarrow> ledger_covers run db \<Longrightarrow> ledger_covers run db'"
  by (induction rule: labelled_run.induct) (auto dest: covers_step)

lemma row_usage:
  assumes "row_faithful r"
  shows "0 \<le> rv_tokens r \<and> (case rv_response r of None \<Rightarrow> 0 | Some a \<Rightarrow> total_tokens a) \<le> rv_tokens r"
proof (cases "rv_response r")
  case None
  then show ?thesis using assms by (simp add: row_faithful_def reservation_ok_def)
next
  case (Some a)
  then have "rv_completed r" "rv_input r = Some (mr_input_tokens a)" "rv_output r = Some (mr_output_tokens a)"
    and "reservation_ok r"
    using assms by (simp_all add: row_faithful_def)
  then show ?thesis using Some by (simp add: reservation_ok_def total_tokens_def split: option.splits)
qed

lemma covers_limit:
  assumes "ledger_covers run db"
  shows "\<exists>row b. find_run db run = Some row \<and> budget_from_dict (lr_budget row) = Inr b \<and>
    reserved_tokens run db \<le> tokens (ledger b) \<and> reserved_cost run db \<le> cost_usd (ledger b) \<and>
    of_int (tokens (ledger b)) < max_tokens (policy b) \<and> cost_usd (ledger b) < max_cost_usd (policy b) \<and>
    spent_tokens run db \<le> reserved_tokens run db"
proof -
  obtain row b where b: "find_run db run = Some row" "budget_from_dict (lr_budget row) = Inr b"
    "reserved_tokens run db \<le> tokens (ledger b)" "reserved_cost run db \<le> cost_usd (ledger b)"
    "of_int (tokens (ledger b)) < max_tokens (policy b)" "cost_usd (ledger b) < max_cost_usd (policy b)"
    and rows: "\<forall>r \<in> set (md_reservations db). row_faithful r"
    using assms by (auto simp: ledger_covers_def)
  have one: "(case rv_response r of None \<Rightarrow> 0 | Some a \<Rightarrow> total_tokens a) \<le> rv_tokens r" "0 \<le> rv_tokens r"
    if "r \<in> set (of_run run db)" for r
    using row_usage [of r] that rows by (auto simp: of_run_def)
  have "sum_list (map (\<lambda>r. case rv_response r of None \<Rightarrow> 0 | Some a \<Rightarrow> total_tokens a) (filter rv_completed xs))
      \<le> sum_list (map rv_tokens xs)" if "set xs \<subseteq> set (of_run run db)" for xs
    using that one by (induction xs) (fastforce intro: add_mono add_increasing)+
  then have "spent_tokens run db \<le> reserved_tokens run db"
    by (simp add: spent_tokens_def reserved_tokens_def)
  then show ?thesis using b by blast
qed

end
