(* ===== verification/Planner_Run.thy ===== *)
theory Planner_Run
  imports Planner_Node Step_Frame Model_Budget_Run
begin

text \<open>
  What a pass of the remediation planner may write: an action row whose tool is on the
  executor's menu and whose tier, preconditions, rollback, approval, timeout, scope and criteria
  are those of the registry and the run, and at most two model calls.
\<close>

section \<open>New action rows\<close>

definition registry_fields :: "node_deps \<Rightarrow> planner_deps \<Rightarrow> GrantedCapability \<Rightarrow> action_row \<Rightarrow> bool" where
  "registry_fields d pl g a \<longleftrightarrow>
     (let t = gc_descriptor g in
      ac_tool_name a = td_name t \<and> ac_tool_version a = td_version t \<and>
      ac_risk_tier a = td_risk_tier t \<and> ac_preconditions a = td_preconditions t \<and>
      ac_rollback_tool a = td_rollback_tool_name t \<and> ac_timeout a = td_timeout_seconds t \<and>
      ac_approval_required a = (td_risk_tier t \<noteq> RiskTier.RO) \<and>
      ac_permission_scope a = pn_permission_scope pl \<and> ac_tenant a = nd_tenant d \<and>
      ac_incident a = nd_incident d \<and> ac_hypothesis a = pn_hypothesis pl)"

text \<open>What the row of a new proposal satisfies beside: its own hash, criteria and constraints.\<close>

definition fresh_action :: "node_deps \<Rightarrow> action_row \<Rightarrow> bool" where
  "fresh_action d a \<longleftrightarrow>
     ac_status a = RemediationActionStatus.PROPOSED \<and> ac_executed_at a = None \<and>
     ac_risk_tier a \<noteq> RiskTier.R3 \<and> (ac_risk_tier a \<noteq> RiskTier.RO \<longrightarrow> ac_rollback_tool a \<noteq> None) \<and>
     current_version_hash (br_keys (nd_broker d)) a = Inr (ac_version_hash a) \<and>
     (\<exists>p. profile_for (ac_tool_name a) = Inr p \<and> ac_criteria a = profile_to_dict p)"

text \<open>Rows that were not there before satisfy \<open>P\<close>.\<close>

definition new_rows :: "(action_row \<Rightarrow> bool) \<Rightarrow> remediation_world \<Rightarrow> remediation_world \<Rightarrow> bool" where
  "new_rows P w w' \<longleftrightarrow>
     (\<forall>a \<in> set (rd_actions (rw_db w')). a \<in> set (rd_actions (rw_db w)) \<or> P a)"

interpretation added: log_frame "new_rows P" for P
  by unfold_locales (auto simp: new_rows_def rw_db_def)

lemma tables_added: "tables.framed m \<Longrightarrow> added.framed P m"
  unfolding tables.framed_def added.framed_def same_tables_def new_rows_def by metis

lemma tables_models: "tables.framed (call_model pl q b key)" "tables.framed (executor_menu d)"
  by (auto simp: tables.framed_def same_tables_def call_model_def executor_menu_def rw_db_def
      split: prod.splits sum.splits dest: menu_for_frame)

lemma tables_ask: "tables.framed (ask_attempts pl menu index b attempts used cost)"
  by (induction attempts arbitrary: used cost)
    (auto intro!: tables.framed_intros tables_models split: option.splits)

lemma tables_terminate: "tables.framed (terminate_planner ops d inp b reason et rec target)"
  unfolding terminate_planner_def by (auto intro!: tables.framed_intros)

lemma added_handle:
  assumes "added.framed P m" and "\<And>e. added.framed P (h e)" and "\<And>x. added.framed P (f x)"
  shows "added.framed P (shandle m caught h f)"
proof (rule added.framedI)
  fix w r w'
  assume run: "shandle m caught h f w = (r, w')"
  obtain r1 w1 where m: "m w = (r1, w1)" by fastforce
  have "new_rows P w w1" using added.framedD [OF assms(1) m] .
  moreover have "new_rows P w1 w'"
    using run m added.framedD [OF assms(2)] added.framedD [OF assms(3)] added.keeps_refl
    by (auto simp: shandle_def split: sum.splits if_splits)
  ultimately show "new_rows P w w'" by (rule added.keeps_trans)
qed

definition from_registry :: "node_deps \<Rightarrow> planner_deps \<Rightarrow> CapabilityMenu \<Rightarrow> action_row \<Rightarrow> bool" where
  "from_registry d pl menu a \<longleftrightarrow>
     (\<exists>tool g. menu_get_by_tool_name menu tool = Some g \<and> registry_fields d pl g a) \<and> fresh_action d a"

lemma insert_added:
  "(\<And>rows. action_row_checks rows a \<Longrightarrow> P a) \<Longrightarrow> added.framed P (insert_action a)"
  by (auto simp: added.framed_def new_rows_def insert_action_def rw_db_def with_db_def split: if_splits)

lemma proposed_from_registry:
  assumes "menu_get_by_tool_name menu tool = Some g"
    and "profile_for (td_name (gc_descriptor g)) = Inr profile"
    and "action_version_hash (br_keys (nd_broker d)) i (td_name (gc_descriptor g)) (td_version (gc_descriptor g))
      (rp_arguments p) (pn_permission_scope pl) (td_preconditions (gc_descriptor g))
      (RiskTier_value (td_risk_tier (gc_descriptor g))) = Inr vh"
    and "action_row_checks rows (proposed_action d pl p g i target (profile_to_dict profile) ch vh rk)"
  shows "from_registry d pl menu (proposed_action d pl p g i target (profile_to_dict profile) ch vh rk)"
proof -
  have "registry_fields d pl g (proposed_action d pl p g i target (profile_to_dict profile) ch vh rk)"
    by (simp add: registry_fields_def proposed_action_def Let_def)
  moreover have "fresh_action d (proposed_action d pl p g i target (profile_to_dict profile) ch vh rk)"
    using assms(2-4)
    by (auto simp: fresh_action_def proposed_action_def current_version_hash_def action_row_checks_def Let_def)
  ultimately show ?thesis using assms(1) unfolding from_registry_def by blast
qed

lemma framed_lift:
  "(\<And>x. r = Inr x \<Longrightarrow> added.framed P (f x)) \<Longrightarrow> added.framed P (sthen (slift r) f)"
  by (cases r) (auto simp: added.framed_def sthen_def slift_def intro: added.keeps_refl)

lemma persist_added:
  assumes "menu_get_by_tool_name menu tool = Some g"
  shows "added.framed (from_registry d pl menu) (persist_action d pl inp p g)"
  unfolding persist_action_def Let_def
  apply (rule framed_lift)
  apply (rule framed_lift)
  apply (rule framed_lift)
  apply (rule framed_lift)
  apply (rule framed_lift)
  apply (intro added.framed_intros insert_added tables_added [OF audit_keeps_tables])
  using assms by (auto intro: proposed_from_registry dest!: proposal_registered)

lemma accept_added: "added.framed (from_registry d pl menu) (accept_proposal ops d pl inp menu index p b)"
  unfolding accept_proposal_def
  by (auto intro!: added_handle tables_added [OF tables_terminate] persist_added added.framed_intros
      split: option.splits prod.splits)

text \<open>From the menu on, whatever the model answers.\<close>

lemma proposal_added:
  "added.framed (from_registry d pl menu)
     (sthen (sread (\<lambda>w. Inr (evidence_index ops d pl w))) (\<lambda>index.
       shandle (ask_model pl (menu_tool_names menu) index b) (\<lambda>e. planner_caught e \<noteq> None)
         (\<lambda>e. sthen (durable_budget (pn_run pl) b) (\<lambda>b.
            terminate_planner ops d inp b (pn_error_text pl e)
              (case planner_caught e of None \<Rightarrow> [] | Some n \<Rightarrow> n) True escalate))
         (\<lambda>(p, used, cost).
            sthen (slift (charge b (call_charge used cost))) (\<lambda>charged.
              accept_proposal ops d pl inp menu index p charged))))"
proof -
  have ask: "added.framed P (ask_model pl (menu_tool_names menu) index b)" for P index
    unfolding ask_model_def by (rule tables_added [OF tables_ask])
  show ?thesis
    unfolding durable_budget_def
    by (auto intro!: added.framed_intros added_handle ask tables_added [OF tables_terminate]
        accept_added split: prod.splits)
qed

lemma planner_new_rows:
  assumes run: "remediation_planner ops d pl inp known snapshot w = (r, w')"
    and new: "a \<in> set (rd_actions (rw_db w'))" "a \<notin> set (rd_actions (rw_db w))"
  shows "\<exists>menu st. menu_for (nd_broker d) (rw_broker w) G9_REMEDIATION_EXECUTOR False = (Inr menu, st) \<and>
    from_registry d pl menu a"
  using run unfolding remediation_planner_def
proof (cases rule: sthen_cases)
  case (raised e)
  then show ?thesis using new by (simp add: slift_def)
next
  case (went b w0)
  have w0: "w0 = w" using went(1) by (simp add: slift_def)
  have fresh: "known = None"
  proof (rule ccontr)
    assume "known \<noteq> None"
    then have "return_update G6_REMEDIATION_PLANNER
        [(''phase'', UText ''policy_evaluation''), (''budget'', UBudget (budget_snapshot b))] w = (r, w')"
      using went(2) w0 by simp
    from tables.framedD [OF tables.framed_events(3) this] show False
      using new by (simp add: same_tables_def)
  qed
  show ?thesis
    using went(2) unfolding w0 fresh not_False_eq_True if_False simp_thms
  proof (cases rule: sthen_cases)
    case (raised e)
    then show ?thesis using new tables.framedD [OF tables_models(2) raised(1)] by (simp add: same_tables_def)
  next
    case (went menu w1)
    have "rw_db w1 = rw_db w" using tables.framedD [OF tables_models(2) went(1)] by (simp add: same_tables_def)
    moreover have "new_rows (from_registry d pl menu) w1 w'" by (rule added.framedD [OF proposal_added went(2)])
    ultimately have "from_registry d pl menu a" using new unfolding new_rows_def by metis
    then show ?thesis using went(1) by (auto simp: executor_menu_def split: prod.splits)
  qed
qed

section \<open>Model calls\<close>

definition calls_of :: "remediation_world \<Rightarrow> nat" where
  "calls_of w = length (md_calls (rw_models w))"

text \<open>A step that adds at most \<open>k\<close> calls.\<close>

definition calls_at_most :: "nat \<Rightarrow> 'a step \<Rightarrow> bool" where
  "calls_at_most k m \<longleftrightarrow> (\<forall>w r w'. m w = (r, w') \<longrightarrow> calls_of w' \<le> calls_of w + k)"

definition same_models :: "remediation_world \<Rightarrow> remediation_world \<Rightarrow> bool" where
  "same_models w w' \<longleftrightarrow> rw_models w' = rw_models w"

interpretation models: step_frame same_models
  by unfold_locales (simp_all add: same_models_def update_actions_def with_db_def)

lemma calls_framed: "models.framed m \<Longrightarrow> calls_at_most k m"
  by (fastforce simp: models.framed_def calls_at_most_def same_models_def calls_of_def)

lemma calls_then:
  assumes "calls_at_most j m" and "\<And>x. calls_at_most k (f x)"
  shows "calls_at_most (j + k) (sthen m f)"
  unfolding calls_at_most_def
proof (intro allI impI)
  fix w r w'
  assume "sthen m f w = (r, w')"
  then show "calls_of w' \<le> calls_of w + (j + k)"
  proof (cases rule: sthen_cases)
    case (raised e)
    then show ?thesis using assms(1) by (fastforce simp: calls_at_most_def)
  next
    case (went x w1)
    have "calls_of w1 \<le> calls_of w + j" "calls_of w' \<le> calls_of w1 + k"
      using assms went by (auto simp: calls_at_most_def)
    then show ?thesis by linarith
  qed
qed

lemma calls_handle:
  assumes "calls_at_most j m" and "\<And>e. calls_at_most k (h e)" and "\<And>x. calls_at_most k (f x)"
  shows "calls_at_most (j + k) (shandle m caught h f)"
  unfolding calls_at_most_def
proof (intro allI impI)
  fix w r w'
  assume run: "shandle m caught h f w = (r, w')"
  obtain r1 w1 where m: "m w = (r1, w1)" by fastforce
  have "calls_of w1 \<le> calls_of w + j" using assms(1) m by (simp add: calls_at_most_def)
  moreover have "calls_of w' \<le> calls_of w1 + k"
    using run m assms(2,3) by (fastforce simp: shandle_def calls_at_most_def split: sum.splits if_splits)
  ultimately show "calls_of w' \<le> calls_of w + (j + k)" by linarith
qed

lemma complete_calls:
  assumes "complete_with_budget p q budget durable (Some key) db = (r, db')"
  shows "length (md_calls db') \<le> length (md_calls db) + 1"
proof (cases durable)
  case None
  then show ?thesis using assms
    by (auto simp: complete_with_budget_def call_provider_def split: sum.splits if_splits)
next
  case (Some account)
  obtain tenant run where a: "account = (tenant, run)" by (cases account)
  have "complete_with_budget p q budget (Some (tenant, run)) (Some key) db = (r, db')"
    using assms Some a by simp
  then show ?thesis
  proof (cases rule: call_cases)
    case (sent e db1 db2)
    then show ?thesis using settle_keeps(1) by fastforce
  qed simp
qed

lemma call_model_once: "calls_at_most 1 (call_model pl q b key)"
  using complete_calls
  by (fastforce simp: calls_at_most_def call_model_def calls_of_def split: prod.splits sum.splits)

lemma calls_none: "calls_at_most 0 (slift r)" "calls_at_most k (sreturn x)"
  by (auto intro: calls_framed [OF models.framed_basic(2)] calls_framed [OF models.framed_basic(1)])

lemma ask_calls: "calls_at_most (length attempts) (ask_attempts pl menu index b attempts used cost)"
proof (induction attempts arbitrary: used cost)
  case Nil
  show ?case by (simp add: calls_none)
next
  case (Cons n ns)
  have rest: "calls_at_most (length ns) (case validated_proposal pl (mr_text a) of
        Some p \<Rightarrow> sreturn (p, used + total_tokens a, cost + mr_cost_usd a)
      | None \<Rightarrow> ask_attempts pl menu index b ns (used + total_tokens a) (cost + mr_cost_usd a))" for a
    using Cons.IH calls_none(2) by (auto split: option.splits)
  have "calls_at_most (0 + (1 + length ns)) (ask_attempts pl menu index b (n # ns) used cost)"
    unfolding ask_attempts.simps by (intro calls_then calls_none call_model_once rest)
  then show ?case by simp
qed

lemma ask_model_calls: "calls_at_most 2 (ask_model pl menu index b)"
proof -
  have "length [1 ..< SCHEMA_REPAIR_ATTEMPTS + 2] = 2" by (simp add: SCHEMA_REPAIR_ATTEMPTS_def)
  then show ?thesis unfolding ask_model_def using ask_calls by metis
qed

lemma models_menu: "models.framed (executor_menu d)" "models.framed (record_audit d e oc a)"
  "models.framed (insert_action row)"
  by (auto simp: models.framed_def same_models_def executor_menu_def record_audit_def insert_action_def
      with_db_def split: prod.splits if_splits)

lemma models_handle:
  "models.framed m \<Longrightarrow> (\<And>e. models.framed (h e)) \<Longrightarrow> (\<And>x. models.framed (f x)) \<Longrightarrow>
   models.framed (shandle m caught h f)"
  unfolding models.framed_def shandle_def same_models_def
  by (fastforce split: sum.splits prod.splits if_splits)

lemma models_terminate: "models.framed (terminate_planner ops d inp b reason et rec target)"
  unfolding terminate_planner_def by (auto intro!: models.framed_intros)

lemma models_accept: "models.framed (accept_proposal ops d pl inp menu index p b)"
proof -
  have persist: "models.framed (persist_action d pl inp p g)" for g
    unfolding persist_action_def Let_def
    by (auto intro!: models.framed_intros models_menu split: option.splits)
  show ?thesis
    unfolding accept_proposal_def
    by (auto intro!: models_handle models_terminate persist models.framed_intros
        split: option.splits prod.splits)
qed

text \<open>A pass makes two calls at most, and none for a run that has its action.\<close>

lemma planner_calls:
  assumes "remediation_planner ops d pl inp known snapshot w = (r, w')"
  shows "calls_of w' \<le> calls_of w + (if known = None then 2 else 0)"
proof -
  have ask: "calls_at_most (2 + 0) (shandle (ask_model pl names index b) caught
      (\<lambda>e. sthen (durable_budget run b) (\<lambda>b. terminate_planner ops d inp b (t e) (n e) True tg))
      (\<lambda>(p, used, cost). sthen (slift (charge b (call_charge used cost))) (\<lambda>charged.
         accept_proposal ops d pl inp menu index p charged)))"
    for names index b caught run t n tg menu
    unfolding durable_budget_def
    by (intro calls_handle ask_model_calls)
      (auto intro!: calls_framed models.framed_intros models_terminate models_accept)
  have fresh: "calls_at_most (0 + (0 + (0 + (2 + 0)))) (remediation_planner ops d pl inp None snapshot)"
    unfolding remediation_planner_def
    by (simp only: not_False_eq_True if_False simp_thms)
      (intro calls_then calls_framed models.framed_basic models_menu ask)
  have replay: "calls_at_most (0 + 0) (remediation_planner ops d pl inp (Some ref) snapshot)" for ref
    unfolding remediation_planner_def
    by (simp only: option.distinct if_True simp_thms not_True_eq_False not_False_eq_True)
      (intro calls_then calls_framed models.framed_basic models.framed_events)
  show ?thesis
    using assms fresh replay by (cases known) (force simp: calls_at_most_def)+
qed

end
