(* ===== verification/Remediation_Scenario.thy ===== *)
theory Remediation_Scenario
  imports Gate_Run Planner_Run Broker_Scenario Model_Budget_Run
begin

text \<open>
  A small remediation on which the nodes are run: the deployment of \<open>Broker_Scenario\<close> with its
  incident, a hypothesis with fresh supporting evidence, and a model that answers nothing. The
  statements about the nodes are applied to it.
\<close>

definition the_ops :: trust_ops where
  "the_ops = \<lparr>to_keys = plain_ops, to_iso = (\<lambda>t. ''t''), to_parse_iso = (\<lambda>s. None),
     to_parse_float = (\<lambda>s. None), to_text = (\<lambda>v. ''?'')\<rparr>"

definition the_node :: node_deps where
  "the_node =
     \<lparr>nd_tenant = ''t1'', nd_incident = ''i1'', nd_correlation = ''c1'', nd_service = ''s1'',
      nd_service_name = ''svc'', nd_environment = ''e1'', nd_environment_name = ''prod'',
      nd_broker = the_broker, nd_message = (\<lambda>f. ''failed'')\<rparr>"

definition the_node_inputs :: node_inputs where
  "the_node_inputs =
     \<lparr>ni_clock = (\<lambda>i. int i), ni_calls = (\<lambda>i. the_inputs), ni_ids = (\<lambda>i. nat_digits i)\<rparr>"

definition the_ref :: RemediationActionRef where "the_ref = action_ref the_action ''mutate.k8s_node''"

definition the_hypothesis :: hypothesis_row where
  "the_hypothesis =
     \<lparr>hy_id = ''h1'', hy_tenant = ''t1'', hy_incident = ''i1'', hy_run = ''r0'', hy_class = ''drained_node'',
      hy_statement = ''the node was drained'', hy_confidence = 9 / 10,
      hy_status = HypothesisStatus.ACCEPTED\<rparr>"

definition the_evidence :: evidence_row where
  "the_evidence =
     \<lparr>ev_id = ''v1'', ev_tenant = ''t1'', ev_domain = EvidenceDomain.METRICS, ev_content = [],
      ev_gathered_at = 0\<rparr>"

definition the_world :: remediation_world where
  "the_world =
     \<lparr>rw_broker = the_state,
      rw_log = \<lparr>db_incidents = [(''t1'', ''i1'') \<mapsto>
          new_incident\<lparr>ir_status := IncidentStatus.AWAITING_APPROVAL\<rparr>],
        db_events = [], db_timeline = []\<rparr>,
      rw_incidents = [(''t1'', ''i1'', ''e1'')], rw_hypotheses = [the_hypothesis],
      rw_evidence = [the_evidence],
      rw_links = [\<lparr>hl_hypothesis = ''h1'', hl_evidence = ''v1'', hl_relation = EvidenceRelation.SUPPORTS\<rparr>],
      rw_baselines = [], rw_verifications = [], rw_intents = [],
      rw_models = \<lparr>md_runs = [], md_reservations = [], md_calls = []\<rparr>\<rparr>"

text \<open>The same world before the policy gate, the incident still investigated.\<close>

definition proposed_world :: remediation_world where
  "proposed_world =
     (with_db (the_remediation
        \<lparr>rd_actions := [the_action\<lparr>ac_status := RemediationActionStatus.PROPOSED\<rparr>],
         rd_policies := [], rd_approvals := []\<rparr>) the_world)
     \<lparr>rw_log := \<lparr>db_incidents = [(''t1'', ''i1'') \<mapsto>
         new_incident\<lparr>ir_status := IncidentStatus.INVESTIGATING\<rparr>],
       db_events = [], db_timeline = []\<rparr>\<rparr>"

definition silent_model :: model_provider where
  "silent_model =
     \<lparr>mp_estimate = (\<lambda>q. Inl (ModelProviderError False)),
      mp_complete = (\<lambda>q n. Inl (ModelProviderError False))\<rparr>"

definition the_planner :: planner_deps where
  "the_planner =
     \<lparr>pn_provider = silent_model, pn_durable = Some (''t1'', ''r1''), pn_run = ''r1'', pn_hypothesis = ''h1'',
      pn_scope = br_scope the_broker, pn_permission_scope = the_scope, pn_policy = default_policy,
      pn_started_at = 0, pn_prompt = (\<lambda>names index. []), pn_prompt_hash = [],
      pn_decode = (\<lambda>t. None), pn_error_text = (\<lambda>e. [])\<rparr>"

definition the_graph :: graph_deps where
  "the_graph = \<lparr>gd_ops = the_ops, gd_node = the_node, gd_planner = the_planner\<rparr>"

definition start_state :: remediation_state where
  "start_state =
     \<lparr>rs_phase = ''planning'', rs_action = Some the_ref, rs_policy = None, rs_approval = None,
      rs_verification = None, rs_baseline_captured = False, rs_budget = None, rs_failures = [],
      rs_terminated = False, rs_reason = None, rs_target_status = None\<rparr>"

section \<open>A run with a fresh ledger and one model call\<close>

definition a_ledger :: model_db where
  "a_ledger = \<lparr>md_runs = [\<lparr>lr_id = ''r1'', lr_tenant = ''t1'', lr_budget = budget_to_dict (budget_initial None)\<rparr>],
     md_reservations = [], md_calls = []\<rparr>"

definition a_key :: string where "a_key = planner_key 1"

definition an_estimate :: ModelCallEstimate where
  "an_estimate = \<lparr>me_max_input_tokens = 100, me_max_output_tokens = 100, me_max_cost_usd = 0,
     me_replay_safe = False\<rparr>"

lemma a_reservation:
  obtains db where "reserve ''t1'' ''r1'' a_key an_estimate (budget_initial None) a_ledger = Inr (None, db)"
proof -
  have "case reserve ''t1'' ''r1'' a_key an_estimate (budget_initial None) a_ledger of
      Inl e \<Rightarrow> False | Inr (x, db) \<Rightarrow> (case x of None \<Rightarrow> True | Some y \<Rightarrow> False)"
    by code_simp
  then show thesis by (auto split: sum.splits option.splits intro: that)
qed

lemma a_ledger_covers: "ledger_covers ''r1'' a_ledger"
proof -
  have "exhausted_kind (budget_initial None) = None" by code_simp
  then have "of_int (tokens (ledger (budget_initial None))) < max_tokens (policy (budget_initial None))"
    "cost_usd (ledger (budget_initial None)) < max_cost_usd (policy (budget_initial None))"
    using exhausted_kind_None_iff [of "budget_initial None"]
    by (metis consumed_for.simps(4,5) limit_for.simps(4,5))+
  moreover have "budget_from_dict (budget_to_dict (budget_initial None)) = Inr (budget_initial None)"
    by (rule budget_stored [of "budget_to_dict (budget_initial None)" "budget_initial None"])
      (code_simp, simp)
  ultimately show ?thesis
    by (simp add: ledger_covers_def a_ledger_def find_run_def reserved_tokens_def reserved_cost_def of_run_def
        budget_initial_def empty_ledger_def)
qed

end
