(* ===== verification/Recovery_Run.thy ===== *)
theory Recovery_Run
  imports Remediation_Graph
begin

text \<open>
  What a pass of the executor does with an action whose dispatch was interrupted: it sends
  nothing, and it closes the action as the evidence allows.
\<close>

definition with_status :: "node_deps \<Rightarrow> action_row \<Rightarrow> RemediationActionStatus \<Rightarrow> remediation_world \<Rightarrow> bool" where
  "with_status d a s w \<longleftrightarrow>
     (\<forall>b \<in> set (rd_actions (rw_db w)). ac_tenant b = nd_tenant d \<and> ac_id b = ac_id a \<longrightarrow> ac_status b = s)"

lemma with_status_updated:
  "with_status d a s (update_actions (assign_status (nd_tenant d) (ac_id a) s) w)"
  "with_status d a RemediationActionStatus.SUCCEEDED
     (update_actions (mark_succeeded (nd_tenant d) (ac_id a) t) w)"
  by (auto simp: with_status_def assign_status_def mark_succeeded_def)

lemma with_status_same: "with_status d a s w \<Longrightarrow> rw_db w' = rw_db w \<Longrightarrow> with_status d a s w'"
  by (simp add: with_status_def)

lemma swp_kept: "tables.framed m \<Longrightarrow> with_status d a s w \<Longrightarrow> swp m (\<lambda>x w'. with_status d a s w') w"
  by (rule swp_tables) (auto intro: with_status_same)

lemma closes_with_status: "swp (fail_closed d inp a reason target s emit) (\<lambda>u w'. with_status d a s w') w"
  unfolding fail_closed_def
  by (subst swp_then, subst swp_modify, rule swp_kept)
    (auto intro!: tables.framed_intros with_status_updated)

lemma succeeds_with_status:
  "swp (route_success d inp a ref) (\<lambda>u w'. with_status d a RemediationActionStatus.SUCCEEDED w') w"
  unfolding route_success_def
  by (rule swp_then_tables [OF tables.framed_log(1)], subst swp_then, subst swp_modify, rule swp_kept)
    (auto intro!: tables.framed_intros with_status_updated)

text \<open>The status an interrupted action is closed with.\<close>

definition supported_by :: "DispatchEvidence \<Rightarrow> RemediationActionStatus \<Rightarrow> bool" where
  "supported_by v s \<longleftrightarrow>
     (case s of
        RemediationActionStatus.SUCCEEDED \<Rightarrow>
          evidence_state v \<noteq> NO_EFFECT_ATTEMPTED \<and> de_receipt v \<noteq> Some ToolExecutionOutcome.FAILED_CLEAN
      | RemediationActionStatus.FAILED_CLEAN \<Rightarrow>
          evidence_state v = NO_EFFECT_ATTEMPTED \<or> de_receipt v = Some ToolExecutionOutcome.FAILED_CLEAN
      | RemediationActionStatus.FAILED_PARTIAL \<Rightarrow>
          evidence_state v \<noteq> NO_EFFECT_ATTEMPTED \<and>
          de_receipt v \<notin> {Some ToolExecutionOutcome.SUCCEEDED, Some ToolExecutionOutcome.FAILED_CLEAN}
      | _ \<Rightarrow> False)"

lemma supported_iff:
  "supported_by v RemediationActionStatus.SUCCEEDED \<longleftrightarrow>
     evidence_state v \<noteq> NO_EFFECT_ATTEMPTED \<and> de_receipt v \<noteq> Some ToolExecutionOutcome.FAILED_CLEAN"
  "supported_by v RemediationActionStatus.FAILED_CLEAN \<longleftrightarrow>
     evidence_state v = NO_EFFECT_ATTEMPTED \<or> de_receipt v = Some ToolExecutionOutcome.FAILED_CLEAN"
  "supported_by v RemediationActionStatus.FAILED_PARTIAL \<longleftrightarrow>
     evidence_state v \<noteq> NO_EFFECT_ATTEMPTED \<and>
     de_receipt v \<notin> {Some ToolExecutionOutcome.SUCCEEDED, Some ToolExecutionOutcome.FAILED_CLEAN}"
  by (simp_all add: supported_by_def)

lemma recovery_is_supported:
  "swp (recover_interrupted d inp a ref v) (\<lambda>u w'. \<exists>s. supported_by v s \<and> with_status d a s w') w"
proof -
  note leaf = closes_with_status succeeds_with_status
  have fail: "supported_by v s \<Longrightarrow> swp (fail_closed d inp a reason target s emit)
      (\<lambda>u w'. \<exists>s. supported_by v s \<and> with_status d a s w') w1" for reason target s emit w1
    by (rule swp_mono [OF leaf(1)]) blast
  have success: "supported_by v RemediationActionStatus.SUCCEEDED \<Longrightarrow> swp (route_success d inp a ref)
      (\<lambda>u w'. \<exists>s. supported_by v s \<and> with_status d a s w') w1" for w1
    by (rule swp_mono [OF leaf(2)]) blast
  show ?thesis
    unfolding recover_interrupted_def
    by (auto intro!: swp_thenI fail success simp: supported_iff evidence_clean)
qed

lemma interrupted_pass:
  assumes "remediation_executor ops d inp ref w = (Inr u, w')"
    and "find_run_action d (rf_action ref) w = (Inr a, w)"
    and "ac_status a \<notin> {RemediationActionStatus.SUCCEEDED, RemediationActionStatus.FAILED_CLEAN,
      RemediationActionStatus.FAILED_PARTIAL}"
    and "v = dispatch_evidence (rw_broker w) (nd_tenant d) a" and "evidence_interrupted v"
  shows "\<exists>s. supported_by v s \<and> with_status d a s w'"
    and "x \<noteq> ''None'' \<Longrightarrow> action_claims (nd_tenant d) x w' = action_claims (nd_tenant d) x w"
proof -
  have run: "recover_interrupted d inp a ref v w = (Inr u, w')"
    using assms by (auto simp: remediation_executor_def sthen_def slift_def sread_def split: sum.splits)
  then show "\<exists>s. supported_by v s \<and> with_status d a s w'" using recovery_is_supported by (blast dest: swpD)
  show "action_claims (nd_tenant d) x w' = action_claims (nd_tenant d) x w" if "x \<noteq> ''None''"
    using claims.framedD [OF claims.framed_recovery(1) run] read_keeps_claims [OF that]
    by (fastforce simp: same_claims_def)
qed

end
