(* ===== verification/Verification_Scenario.thy ===== *)
theory Verification_Scenario
  imports Remediation_Scenario Recovery_Run
begin

text \<open>
  The verifier on the small deployment: an executed action with the baseline that a first read
  measured, a second read after the settling window through the broker, the verified judgement
  and the resolved incident. Instants are rendered as their digits.
\<close>

definition digits_value :: "string \<Rightarrow> int" where
  "digits_value = foldl (\<lambda>n c. 10 * n + (of_char c - 48)) 0"

definition latency_ops :: trust_ops where
  "latency_ops =
     \<lparr>to_keys = plain_ops, to_iso = int_digits,
      to_parse_iso = (\<lambda>s. Some \<lparr>instant = digits_value s, tz_aware = True\<rparr>),
      to_parse_float = (\<lambda>s. if s = ''0.4'' then Some (4 / 10) else if s = ''0.1'' then Some (1 / 10) else None),
      to_text = (\<lambda>v. case v of PStr s \<Rightarrow> s | _ \<Rightarrow> ''?'')\<rparr>"

definition latency_payload :: arg_map where
  "latency_payload =
     [(''series'', PStr ''http_request_duration_p95_seconds''), (''samples'', PList [PStr ''200000000=0.1'']),
      (''unit'', PStr ''s''), (''source'', PStr ''prometheus-simulator''), (''schema_version'', PInt 1)]"

definition latency_broker :: broker where
  "latency_broker = (broker_over (Inr (PDict latency_payload)))
     \<lparr>br_resolver := \<lparr>rs_registry = one_tool_registry METRICS_QUERY, rs_max_risk_tier = RiskTier.R2\<rparr>\<rparr>"

definition latency_node :: node_deps where
  "latency_node = the_node\<lparr>nd_broker := latency_broker\<rparr>"

definition latency_calls :: call_inputs where
  "latency_calls = \<lparr>ci_now = 200000001, ci_completed = 200000001, ci_execution_id = ''y'', ci_observation_id = ''y''\<rparr>"

definition latency_inputs :: node_inputs where
  "latency_inputs =
     \<lparr>ni_clock = (\<lambda>k. 200000001), ni_calls = (\<lambda>k. latency_calls), ni_ids = (\<lambda>k. nat_digits k)\<rparr>"

definition criteria_action :: action_row where
  "criteria_action = the_action\<lparr>ac_criteria := profile_to_dict LATENCY_RECOVERY_V2\<rparr>"

definition frozen_action :: action_row where
  "frozen_action = criteria_action
     \<lparr>ac_criteria_hash := (case criteria_digest the_node criteria_action of Inr h \<Rightarrow> h | Inl e \<Rightarrow> []),
      ac_status := RemediationActionStatus.SUCCEEDED, ac_executed_at := Some 2000\<rparr>"

definition the_target :: target_row where "the_target = hd (rd_targets the_remediation)"

text \<open>The read behind a sample, and the baseline frozen from the first one.\<close>

definition latency_read :: "string \<Rightarrow> string \<Rightarrow> int \<Rightarrow> execution_row" where
  "latency_read i sample at_time =
     \<lparr>ex_id = i, ex_tenant = ''t1'', ex_incident = ''i1'', ex_action = Some ''a1'', ex_definition = ''d1'',
      ex_tool_name = ''metrics.query'', ex_tool_version = ''1.0.0'', ex_capability = ''read.metrics'',
      ex_risk_tier = RiskTier.RO,
      ex_scope_redacted = [(''environment'', PStr ''prod''), (''service'', PStr ''svc'')],
      ex_arguments_redacted = [], ex_key = i, ex_node = NodeId.G10_VERIFIER, ex_attempt = 1,
      ex_outcome = Some ToolExecutionOutcome.SUCCEEDED, ex_failure = None, ex_failure_class = None,
      ex_effect_class = ToolEffectClass.READ, ex_connector = None, ex_external_reference = None,
      ex_observed_effect = [(''source'', PStr ''prometheus-simulator''),
        (''measurement_series'', PStr ''http_request_duration_p95_seconds''),
        (''latest_sample'', PStr sample)],
      ex_started_at = at_time, ex_completed_at = Some at_time, ex_created_at = at_time\<rparr>"

definition measured :: "int \<Rightarrow> rat \<Rightarrow> string \<Rightarrow> arg_map" where
  "measured at_time number execution =
     observed_fields latency_ops latency_node LATENCY_RECOVERY_V2 at_time number ''prometheus-simulator'' execution"

definition frozen_baseline :: baseline_row where
  "frozen_baseline = new_baseline latency_ops latency_node LATENCY_RECOVERY_V2 frozen_action the_target 1000
     ''b1'' (measured 900 (4 / 10) ''x'') 900 (4 / 10)"

definition verifying_log :: log_db where
  "verifying_log =
     \<lparr>db_incidents = [(''t1'', ''i1'') \<mapsto> new_incident\<lparr>ir_status := IncidentStatus.VERIFYING\<rparr>],
      db_events = [], db_timeline = []\<rparr>"

definition executed_world :: remediation_world where
  "executed_world = the_world
     \<lparr>rw_broker := the_state\<lparr>bs_db := (bs_db the_state)
        \<lparr>bk_remediation := the_remediation\<lparr>rd_actions := [frozen_action]\<rparr>,
         bk_services := [\<lparr>srv_id = ''s1'', srv_tenant = ''t1'', srv_name = ''svc'', srv_namespaces = [],
           srv_active = True\<rparr>],
         bk_tools := [tool_row_of ''d1'' METRICS_QUERY],
         bk_executions := [latency_read ''x'' ''900=0.4'' 1000]\<rparr>\<rparr>,
      rw_baselines := [frozen_baseline],
      rw_log := verifying_log\<rparr>"

section \<open>The second read\<close>

definition latency_request :: CapabilityRequest where
  "latency_request =
     \<lparr>cr_node = NodeId.G10_VERIFIER, cr_capability = ''read.metrics'', cr_service = ''svc'',
      cr_arguments = [(''window_start'', at_utc (- 99999999)), (''window_end'', at_utc 200000001),
        (''metric'', PStr ''http_request_duration_p95_seconds'')],
      cr_incident = ''i1'', cr_action = Some ''a1''\<rparr>"

definition latency_grant :: GrantedCapability where
  "latency_grant =
     \<lparr>gc_capability = ''read.metrics'', gc_descriptor = METRICS_QUERY, gc_definition_id = ''d1'',
      gc_grant_id = ''gr1'', gc_credential_ref = None, gc_scope_overrides = [],
      gc_blast_radius_limits = []\<rparr>"

definition latency_scope :: arg_map where
  "latency_scope =
     [(''environment'', PStr ''prod''), (''service'', PStr ''svc''), (''tenant_id'', PUUID ''t1'')]"

definition latency_bound :: arg_map where
  "latency_bound = (case bind_arguments no_parsers METRICS_QUERY (cr_arguments latency_request) latency_scope of
     Inr m \<Rightarrow> m | Inl e \<Rightarrow> [])"

definition latency_key :: string where
  "latency_key = (case execution_key latency_broker latency_request METRICS_QUERY latency_bound ''y'' of
     Inr k \<Rightarrow> k | Inl e \<Rightarrow> [])"

definition latency_menus :: broker_state where
  "latency_menus = (rw_broker executed_world)
     \<lparr>bs_menus := [(NodeId.G10_VERIFIER, make_menu [latency_grant])]\<rparr>"

lemma executed_parts:
  "bs_menus (rw_broker executed_world) = []" "bk_tenant (bs_db (rw_broker executed_world)) = Some ''t1''"
  "bk_grants (bs_db (rw_broker executed_world)) = bk_grants (bs_db the_state)"
  "bk_tools (bs_db (rw_broker executed_world)) = [tool_row_of ''d1'' METRICS_QUERY]"
  "bs_db latency_menus = bs_db (rw_broker executed_world)"
  "bk_executions (bs_db (rw_broker executed_world)) = [latency_read ''x'' ''900=0.4'' 1000]"
  "br_resolver latency_broker = \<lparr>rs_registry = one_tool_registry METRICS_QUERY, rs_max_risk_tier = RiskTier.R2\<rparr>"
  "br_scope latency_broker = br_scope the_broker"
  by (simp_all add: executed_world_def the_state_def latency_menus_def latency_broker_def the_broker_def
      broker_over_def)

lemma latency_menu:
  "resolve \<lparr>rs_registry = one_tool_registry METRICS_QUERY, rs_max_risk_tier = RiskTier.R2\<rparr>
     (bk_grants (bs_db the_state)) [tool_row_of ''d1'' METRICS_QUERY] (br_scope the_broker) G10_VERIFIER =
     Inr (make_menu [latency_grant])"
  by code_simp

lemma latency_admitted:
  "admit_request latency_broker (bs_db (rw_broker executed_world)) latency_request G10_VERIFIER = Inr ''t1''"
  by (simp add: admit_request_Inr executed_parts) code_simp

lemma latency_granted:
  "authorize_granted latency_broker db ''t1'' latency_request (make_menu [latency_grant]) 200000001 = Inr latency_grant"
proof -
  have "menu_get (make_menu [latency_grant]) (cr_capability latency_request) = Inr latency_grant" by code_simp
  moreover have "\<not> request_is_effect latency_request" by code_simp
  moreover have "td_effect_class (gc_descriptor latency_grant) = ToolEffectClass.READ" by code_simp
  moreover have "risk_boundary latency_broker latency_grant = Inr ()" by code_simp
  ultimately show ?thesis by (simp add: authorize_granted_def)
qed

lemma latency_authorized:
  "authorize latency_broker (rw_broker executed_world) latency_request G10_VERIFIER 200000001 =
     (Inr latency_grant, latency_menus)"
proof -
  have "nc_node_id G10_VERIFIER = NodeId.G10_VERIFIER" "\<not> request_is_effect latency_request" by code_simp+
  then show ?thesis
    by (simp add: authorize_def latency_admitted menu_for_def executed_parts latency_menu latency_granted)
      (simp add: latency_menus_def)
qed

lemma latency_arguments:
  "resolve_arguments (br_scope latency_broker) METRICS_QUERY ''svc'' = Inr latency_scope"
  "bind_arguments (br_parsers latency_broker) METRICS_QUERY (cr_arguments latency_request) latency_scope =
     Inr latency_bound"
  "execution_key latency_broker latency_request METRICS_QUERY latency_bound ''y'' = Inr latency_key"
  "latency_key \<noteq> ''x''"
  by code_simp+

lemma latency_fresh:
  "recorded_execution latency_broker (bs_db latency_menus) latency_key = Inr None"
  using latency_arguments(4)
  by (simp add: recorded_execution_def scalar_one_or_none_def executed_parts latency_read_def)

lemma latency_definition:
  "tool_definition_id latency_broker (bs_db latency_menus) METRICS_QUERY = Inr ''d1''"
  unfolding tool_definition_id_def executed_parts by code_simp

lemma latency_answer:
  "one_attempt (simulator (Inr (PDict latency_payload))) METRICS_QUERY latency_bound c = Inr latency_payload"
  by code_simp

definition latency_result :: ToolResult where
  "latency_result = executed_result latency_request METRICS_QUERY latency_scope latency_calls 1 None latency_payload"

lemma metrics_facts:
  "td_risk_tier METRICS_QUERY = RiskTier.RO" "td_max_attempts METRICS_QUERY = 3"
  "td_effect_class METRICS_QUERY = ToolEffectClass.READ"
  by code_simp+

lemma latency_parts:
  "br_providers latency_broker = [simulator (Inr (PDict latency_payload))]"
  "is_tenant (br_scope latency_broker) = ''t1''" "pv_external (simulator r) = False"
  "pv_supports (simulator r) t" "gc_descriptor latency_grant = METRICS_QUERY"
  "cr_service latency_request = ''svc''" "ci_now latency_calls = 200000001"
  "ci_observation_id latency_calls = ''y''"
  "bk_executions (bs_db latency_menus) = [latency_read ''x'' ''900=0.4'' 1000]"
  by (simp_all add: latency_broker_def broker_over_def simulator_def latency_grant_def latency_request_def
      latency_calls_def latency_menus_def executed_world_def)

lemma latency_call:
  obtains st where
    "invoke latency_broker (rw_broker executed_world) latency_request G10_VERIFIER latency_calls =
       (Inr latency_result, st)"
proof -
  let ?dispatch = "dispatch latency_broker latency_menus latency_request latency_grant
      (simulator (Inr (PDict latency_payload))) None latency_bound latency_scope latency_key latency_calls"
  have inv: "invoke latency_broker (rw_broker executed_world) latency_request G10_VERIFIER latency_calls = ?dispatch"
    by (simp add: invoke_def latency_parts latency_authorized invoke_granted_def provider_for_def
        connector_for_def latency_arguments latency_fresh invoke_bound_def metrics_facts)
  have loop: "attempt_loop (\<lambda>k. one_attempt (simulator (Inr (PDict latency_payload))) METRICS_QUERY latency_bound
      (invocation latency_broker latency_grant None latency_key k)) METRICS_QUERY (nat 3) 0 None =
      (1, None, latency_payload)"
    by (simp add: latency_answer numeral_3_eq_3)
  obtain r st where d: "?dispatch = (r, st)" by fastforce
  have "r = Inr latency_result"
    using d unfolding dispatch_def latency_parts Let_def metrics_facts loop prod.case
    using latency_arguments(4)
    by (auto simp: latency_definition latency_parts execution_checks_def execution_record_def latency_result_def
        metrics_facts outcome_of_def latency_read_def latency_calls_def split: if_splits)
  then show ?thesis using that inv d by simp
qed

section \<open>The judgement\<close>

definition resolved_args :: transition_args where
  "resolved_args =
     \<lparr>ta_target = IncidentStatus.RESOLVED, ta_actor_type = ActorType.SYSTEM,
      ta_source = NodeId_value NodeId.G10_VERIFIER, ta_correlation = ''c1'', ta_actor_id = None,
      ta_reason = Some TerminationReason.SUCCESS, ta_justification = None\<rparr>"

definition result_key :: string where
  "result_key = (case incident_event_key plain_ops ''t1'' ''i1''
     (IncidentEventType_value IncidentEventType.VERIFICATION_RESULT) (PUUID ''a1'') (Some ''1'') of
     Inr k \<Rightarrow> k | Inl e \<Rightarrow> [])"

definition result_event :: event_args where
  "result_event =
     \<lparr>ea_type = IncidentEventType.VERIFICATION_RESULT, ea_source = NodeId_value NodeId.G10_VERIFIER,
      ea_actor_type = ActorType.SYSTEM, ea_correlation = ''c1'', ea_provenance = ProvenanceLabel.SYSTEM,
      ea_actor_id = None, ea_causation = None, ea_occurred_at = None,
      ea_payload = [''action_id'' \<mapsto> Some ''a1'', ''verdict'' \<mapsto> Some ''verified''],
      ea_version = 1, ea_key = Some result_key\<rparr>"

lemma resolved_log:
  obtains x y z log1 log2 where
    "apply_transition verifying_log (''t1'', ''i1'') resolved_args 200000001 (nat_digits 420) = Inr (x, log1)"
    "append_incident_event log1 (''t1'', ''i1'') result_event 200000001 (nat_digits 421) = Inr (y, z, log2)"
proof -
  have "case apply_transition verifying_log (''t1'', ''i1'') resolved_args 200000001 (nat_digits 420) of
      Inl e \<Rightarrow> False
    | Inr (x, log1) \<Rightarrow>
        is_ok (append_incident_event log1 (''t1'', ''i1'') result_event 200000001 (nat_digits 421))"
    by code_simp
  then show thesis using that by (auto simp: is_ok_iff split: sum.splits prod.splits)
qed

lemma result_key_facts:
  "incident_event_key plain_ops ''t1'' ''i1'' (IncidentEventType_value IncidentEventType.VERIFICATION_RESULT)
     (PUUID ''a1'') (Some (nat_digits (Suc 0))) =
     Inr result_key"
  by code_simp

lemma node_parts:
  "nd_tenant latency_node = ''t1''" "nd_incident latency_node = ''i1''" "nd_correlation latency_node = ''c1''"
  "nd_service_name latency_node = ''svc''" "nd_environment_name latency_node = ''prod''"
  "nd_broker latency_node = latency_broker" "br_keys latency_broker = plain_ops"
  "stream_of_run latency_node = (''t1'', ''i1'')"
  by (simp_all add: latency_node_def the_node_def latency_broker_def broker_over_def stream_of_run_def)

lemma action_parts:
  "ac_id frozen_action = ''a1''" "ac_tenant frozen_action = ''t1''" "ac_target frozen_action = ''g1''"
  "ac_executed_at frozen_action = Some 2000" "ac_tool_name frozen_action = ''k8s.node.uncordon''"
  "ac_criteria frozen_action = profile_to_dict LATENCY_RECOVERY_V2"
  by (simp_all add: frozen_action_def criteria_action_def the_action_def unsigned_action_def)

lemma input_parts:
  "ni_clock latency_inputs k = 200000001" "ni_calls latency_inputs k = latency_calls"
  "ni_ids latency_inputs k = nat_digits k"
  by (simp_all add: latency_inputs_def)

lemma smodify_Inr: "smodify f w = (Inr (), f w)"
  by (simp add: smodify_def)

lemma slift_Inr: "slift (Inr x) w = (Inr x, w)"
  by (simp add: slift_def)

lemma conclude_resolves_incident:
  assumes "ve_verdict v = VerificationVerdict.VERIFIED" and "ve_attempt v = 1"
    and "rw_log w = verifying_log" and "verification_checks (rw_verifications w) v"
  obtains u w' where "conclude latency_node latency_inputs frozen_action v w = (Inr u, w')" "resolves u"
proof -
  obtain x y z log1 log2 where
      t: "apply_transition verifying_log (''t1'', ''i1'') resolved_args 200000001 (nat_digits 420) = Inr (x, log1)"
    and e: "append_incident_event log1 (''t1'', ''i1'') result_event 200000001 (nat_digits 421) = Inr (y, z, log2)"
    by (rule resolved_log)
  have "db_incidents verifying_log (''t1'', ''i1'') \<noteq> None"
    by (simp add: verifying_log_def)
  then obtain r where i: "db_incidents verifying_log (''t1'', ''i1'') = Some r" by blast
  have u: "validate_update G10_VERIFIER
        [(''phase'', UText ''terminated''),
         (''verification'', UVerification \<lparr>vf_verification = ve_id v, vf_attempt = ve_attempt v,
            vf_verdict = ve_verdict v, vf_margin = ve_margin v\<rparr>),
         (''terminated'', UFlag True),
         (''termination_reason'', UText ''verification confirmed the symptoms resolved''),
         (''target_incident_status'', UText (IncidentStatus_value IncidentStatus.RESOLVED))] = Inr ()"
    by (simp add: validate_update_Inr G10_VERIFIER_def) code_simp
  let ?d = latency_node and ?i = latency_inputs
  let ?w1 = "w\<lparr>rw_verifications := rw_verifications w @ [v]\<rparr>"
  let ?w2 = "update_actions (assign_status (nd_tenant ?d) (ac_id frozen_action)
      (verdict_status (ve_verdict v))) ?w1"
  have m1: "insert_verification v w = (Inr (), ?w1)" using assms(4) by (simp add: insert_verification_def)
  obtain w3 where m3: "record_audit ?d AuditEventType.VERIFICATION_RECORDED
      (verdict_audit (ve_verdict v)) (ac_id frozen_action) ?w2 = (Inr (), w3)" and l3: "rw_log w3 = verifying_log"
    using assms by (simp add: record_audit_def ALLOWED_OUTCOMES_def verdict_audit_def update_actions_def with_db_def)
  have m4: "load_incident ?d w3 = (Inr r, w3)" by (simp add: load_incident_def sread_def node_parts l3 i)
  have m5: "run_transition ?d NodeId.G10_VERIFIER IncidentStatus.RESOLVED ActorType.SYSTEM None
      (Some TerminationReason.SUCCESS) (ni_clock ?i 420) (ni_ids ?i 420) w3 = (Inr (), w3\<lparr>rw_log := log1\<rparr>)"
    using t by (simp add: run_transition_def move_incident_def node_parts input_parts l3 resolved_args_def)
  have m6: "action_event ?d NodeId.G10_VERIFIER IncidentEventType.VERIFICATION_RESULT ActorType.SYSTEM
      (ac_id frozen_action)
      [''action_id'' \<mapsto> Some (ac_id frozen_action), ''verdict'' \<mapsto> Some (VerificationVerdict_value (ve_verdict v))]
      (Some (nat_digits (ve_attempt v))) (ni_clock ?i 421) (ni_ids ?i 421) (w3\<lparr>rw_log := log1\<rparr>) =
      (Inr (), w3\<lparr>rw_log := log2\<rparr>)"
    using e assms(1,2)
    by (simp add: action_event_def sthen_def slift_def append_event_def node_parts input_parts action_parts
        result_key_facts result_event_def del: IncidentEventType_value.simps)
  let ?u = "[(''phase'', UText ''terminated''),
         (''verification'', UVerification \<lparr>vf_verification = ve_id v, vf_attempt = ve_attempt v,
            vf_verdict = ve_verdict v, vf_margin = ve_margin v\<rparr>),
         (''terminated'', UFlag True),
         (''termination_reason'', UText ''verification confirmed the symptoms resolved''),
         (''target_incident_status'', UText (IncidentStatus_value IncidentStatus.RESOLVED))]"
  have route: "verdict_route (ve_verdict v) = (IncidentStatus.RESOLVED,
      ''verification confirmed the symptoms resolved'', Some TerminationReason.SUCCESS)"
    by (simp add: assms(1) verdict_route_def)
  have "conclude ?d ?i frozen_action v w = (Inr ?u, w3\<lparr>rw_log := log2\<rparr>)"
    unfolding conclude_def route prod.case
    by (simp only: sthen_def m1 m3 m4 m5 m6 smodify_Inr slift_Inr return_update_def u sreturn_def
        prod.case sum.case)
  then show thesis by (rule that) (simp add: resolves_def)
qed

lemma latency_result_parts:
  "result_succeeded latency_result" "res_payload latency_result = latency_payload"
  "res_scope latency_result = latency_scope" "res_execution latency_result = Some ''y''"
proof -
  show "result_succeeded latency_result"
    by (simp add: latency_result_def executed_result_def result_succeeded_def outcome_of_def)
qed (simp_all add: latency_result_def executed_result_def latency_calls_def)

lemma latency_profile:
  "vp_minimum_samples LATENCY_RECOVERY_V2 = 1" "vp_source_capability LATENCY_RECOVERY_V2 = ''read.metrics''"
  "vp_metric LATENCY_RECOVERY_V2 = ''http_request_duration_p95_seconds''"
  "vp_window_seconds LATENCY_RECOVERY_V2 = 300" "vp_max_baseline_age_seconds LATENCY_RECOVERY_V2 = 300"
  "vp_profile_id LATENCY_RECOVERY_V2 = ''latency-p95-recovery-v2''" "vp_profile_version LATENCY_RECOVERY_V2 = 2"
  "''prometheus-simulator'' \<in> set (vp_approved_sources LATENCY_RECOVERY_V2)"
  by (simp_all add: LATENCY_RECOVERY_V2_def LATENCY_RECOVERY_V1_def)

lemma latency_sample:
  "samples_of latency_payload = Inr [PStr ''200000000=0.1'']"
  "parse_sample latency_ops (to_text latency_ops (PStr ''200000000=0.1'')) =
     Some (\<lparr>instant = 200000000, tz_aware = True\<rparr>, 1 / 10)"
  "get_text latency_ops latency_payload ''series'' = ''http_request_duration_p95_seconds''"
  "py_strip (get_text latency_ops latency_payload ''source'') = ''prometheus-simulator''"
  "dict_get latency_scope ''service'' = PStr ''svc''" "dict_get latency_scope ''environment'' = PStr ''prod''"
  by code_simp+

lemma latency_reading:
  "read_observation latency_ops latency_node LATENCY_RECOVERY_V2 (- 99999999) 200000001 latency_result =
     Inr (measured 200000000 (1 / 10) ''y'')"
  by (simp add: read_observation_def latency_result_parts latency_profile latency_sample andThen_def
      node_parts measured_def Let_def)

lemma latency_observed:
  obtains st where "observe latency_ops latency_node latency_inputs 411 LATENCY_RECOVERY_V2 frozen_action executed_world =
    (Inr (measured 200000000 (1 / 10) ''y''), executed_world\<lparr>rw_broker := st\<rparr>)"
proof -
  obtain st where "invoke latency_broker (rw_broker executed_world) latency_request G10_VERIFIER latency_calls =
      (Inr latency_result, st)" by (rule latency_call)
  then show thesis using latency_reading
    by (intro that [of st])
      (simp add: observe_def Let_def sthen_def call_broker_def node_parts input_parts action_parts
        latency_request_def slift_def latency_profile microseconds_def)
qed

lemma target_parts:
  "tg_id the_target = ''g1''" "tg_tenant the_target = ''t1''" "tg_incident the_target = ''i1''"
  "tg_service the_target = ''s1''" "tg_environment the_target = ''e1''" "ac_incident frozen_action = ''i1''"
  by (simp_all add: the_target_def the_remediation_def frozen_action_def criteria_action_def the_action_def
      unsigned_action_def)

lemma baseline_parts:
  "bl_tenant frozen_baseline = ''t1''" "bl_incident frozen_baseline = ''i1''" "bl_target frozen_baseline = ''g1''"
  "bl_action frozen_baseline = ''a1''" "bl_service frozen_baseline = ''s1''"
  "bl_environment frozen_baseline = ''e1''" "bl_profile frozen_baseline = ''latency-p95-recovery-v2''"
  "bl_profile_version frozen_baseline = 2" "bl_criteria_hash frozen_baseline = ac_criteria_hash frozen_action"
  "bl_metric frozen_baseline = ''http_request_duration_p95_seconds''"
  "bl_capability frozen_baseline = ''read.metrics''" "bl_provider frozen_baseline = ''prometheus-simulator''"
  "bl_execution frozen_baseline = ''x''" "bl_observed_at frozen_baseline = 900"
  "bl_captured_at frozen_baseline = 1000" "bl_value frozen_baseline = 4 / 10"
  by (simp_all add: frozen_baseline_def new_baseline_def Let_def node_parts target_parts action_parts
      latency_profile measured_def observed_fields_def get_text_def latency_ops_def)

lemma baseline_hash: "bl_provenance frozen_baseline = baseline_provenance latency_ops frozen_baseline"
  by (simp add: frozen_baseline_def new_baseline_def Let_def baseline_provenance_def baseline_json_def)

lemma latency_matches:
  "execution_matches_observation latency_ops (latency_read ''x'' ''900=0.4'' 1000)
     ''http_request_duration_p95_seconds'' 900 (4 / 10)"
  by code_simp

lemma latency_trusted:
  "baseline_trusted latency_ops latency_node LATENCY_RECOVERY_V2 frozen_baseline frozen_action the_target
     2000 200000001 executed_world"
  using latency_matches
  by (simp add: baseline_trusted_def executed_parts node_parts trusted_baseline_record_def find_read_def
      baseline_parts action_parts target_parts latency_profile baseline_lineage_def baseline_hash trusted_read_def
      scope_matches_def microseconds_def)
    (simp add: latency_read_def dict_get_def baseline_parts)

lemma latency_judged:
  "observed_number (measured t x i) = Inr x" "was_observed (measured t x i)"
  "jd_verdict (judge LATENCY_RECOVERY_V2 (bl_value frozen_baseline) (1 / 10)) = VerificationVerdict.VERIFIED"
proof -
  have "jd_verdict (judge LATENCY_RECOVERY_V2 (4 / 10) (1 / 10)) = VerificationVerdict.VERIFIED" by code_simp
  then show "jd_verdict (judge LATENCY_RECOVERY_V2 (bl_value frozen_baseline) (1 / 10)) = VerificationVerdict.VERIFIED"
    by (simp add: baseline_parts)
qed (simp_all add: measured_def observed_fields_def observed_number_def was_observed_def dict_get_def)

lemma latency_outcome:
  obtains m margin st where
    "evaluate_outcome latency_ops latency_node latency_inputs LATENCY_RECOVERY_V2 (ac_criteria frozen_action)
       frozen_baseline frozen_action 2000 the_target executed_world =
       (Inr (VerificationVerdict.VERIFIED, m, margin), executed_world\<lparr>rw_broker := st\<rparr>)"
    "m = judged_fields LATENCY_RECOVERY_V2 (bl_value frozen_baseline)
       (judge LATENCY_RECOVERY_V2 (bl_value frozen_baseline) (1 / 10)) (measured 200000000 (1 / 10) ''y'')"
proof -
  obtain st where o: "observe latency_ops latency_node latency_inputs 411 LATENCY_RECOVERY_V2 frozen_action executed_world =
      (Inr (measured 200000000 (1 / 10) ''y''), executed_world\<lparr>rw_broker := st\<rparr>)"
    by (rule latency_observed)
  have c: "py_eq (PDict (ac_criteria frozen_action)) (PDict (profile_to_dict LATENCY_RECOVERY_V2))"
    by (simp only: action_parts) code_simp
  show thesis
    by (rule that [OF _ refl])
      (simp add: evaluate_outcome_def c sthen_def sread_def input_parts latency_trusted o latency_judged
        slift_def sreturn_def Let_def del: py_eq.simps)
qed

section \<open>The whole node\<close>

lemma frozen_digest: "criteria_digest latency_node frozen_action = Inr (ac_criteria_hash frozen_action)"
proof -
  have "criteria_digest the_node criteria_action =
      action_version_hash plain_ops ''a1'' ''verification_criteria'' ''1'' (profile_to_dict LATENCY_RECOVERY_V2) [] []
        (RiskTier_value (ac_risk_tier the_action))"
    by (simp add: criteria_digest_def criteria_action_def the_node_def the_action_def unsigned_action_def
        the_broker_def broker_over_def)
  moreover have "is_ok (action_version_hash plain_ops ''a1'' ''verification_criteria'' ''1''
      (profile_to_dict LATENCY_RECOVERY_V2) [] [] (RiskTier_value (ac_risk_tier the_action)))"
    unfolding action_version_hash_def by (rule digest_ok) (simp add: profile_to_dict_def)
  ultimately obtain h where "criteria_digest the_node criteria_action = Inr h" by (auto simp: is_ok_iff)
  moreover have "criteria_digest latency_node frozen_action = criteria_digest the_node criteria_action"
    by (simp add: criteria_digest_def frozen_action_def latency_node_def latency_broker_def the_node_def
        the_broker_def broker_over_def)
  ultimately show ?thesis by (simp add: frozen_action_def)
qed

lemma settled_parts:
  "criteria_digest latency_node frozen_action = Inr (ac_criteria_hash frozen_action)"
  "profile_for_criteria (ac_tool_name frozen_action) (ac_criteria frozen_action) = Inr LATENCY_RECOVERY_V2"
  "window_seconds_of (ac_criteria frozen_action) = Inr 300"
  "next_attempt latency_node frozen_action executed_world = 1"
proof -
  show "criteria_digest latency_node frozen_action = Inr (ac_criteria_hash frozen_action)"
    by (rule frozen_digest)
  show "profile_for_criteria (ac_tool_name frozen_action) (ac_criteria frozen_action) = Inr LATENCY_RECOVERY_V2"
    by (simp only: action_parts) code_simp
  show "window_seconds_of (ac_criteria frozen_action) = Inr 300"
    by (simp only: action_parts) code_simp
  show "next_attempt latency_node frozen_action executed_world = 1"
    by (simp add: next_attempt_def executed_world_def the_world_def)
qed

lemma registry_loop_ok:
  "distinct (map td_name ds) \<Longrightarrow> td_name ` set ds \<inter> fst ` set names = {} \<Longrightarrow>
   \<exists>r. registry_loop ds names caps = Inr r"
proof (induction ds arbitrary: names caps)
  case (Cons d ds)
  then have "map_of names (td_name d) = None" by (auto simp: map_of_eq_None_iff)
  moreover have "td_name ` set ds \<inter> fst ` set (AList.update (td_name d) d names) = {}"
    using Cons.prems by (auto simp: dom_update)
  ultimately show ?case using Cons by simp
qed simp

lemma registered:
  assumes "distinct (map td_name ds)" and "d \<in> set ds"
  shows "andThen (make_registry ds v) (\<lambda>r. by_name r (td_name d)) = Inr d"
proof -
  obtain ns cs where "registry_loop ds [] [] = Inr (ns, cs)" using registry_loop_ok [OF assms(1), of "[]" "[]"] by auto
  then obtain r where r: "make_registry ds v = Inr r" by (simp add: make_registry_def)
  then show ?thesis using by_name_Inr [OF r] assms(2) by simp
qed

lemma settled_tool:
  "andThen registry_remediation_full (\<lambda>r. by_name r ''k8s.node.uncordon'') = Inr K8S_NODE_UNCORDON"
proof -
  have "distinct (map td_name (READ_ONLY_CATALOGUE @ WRITE_CATALOGUE))"
    using catalogue_names_distinct by auto
  moreover have "K8S_NODE_UNCORDON \<in> set (READ_ONLY_CATALOGUE @ WRITE_CATALOGUE)"
    by (simp add: WRITE_CATALOGUE_def)
  moreover have "td_name K8S_NODE_UNCORDON = ''k8s.node.uncordon''" by (simp add: K8S_NODE_UNCORDON_def)
  ultimately show ?thesis using registered unfolding registry_remediation_full_def by metis
qed

lemma settled_instant: "observed_instant latency_ops (measured 200000000 x i) = Inr 200000000"
proof -
  have "digits_value (int_digits 200000000) = 200000000"
  proof -
    have "char_of (50 :: nat) = CHR ''2''" "char_of (48 :: nat) = CHR ''0''" by code_simp+
    then show ?thesis by (simp add: int_digits_def digits_value_def nat_digits.simps)
  qed
  then show ?thesis
    by (simp add: observed_instant_def measured_def observed_fields_def get_text_def latency_ops_def)
qed

lemma judged_instant: "observed_instant ops (judged_fields p v j m) = observed_instant ops m"
proof -
  have "map_of (judged_fields p v j m) ''observed_at'' = map_of m ''observed_at''"
    by (simp add: judged_fields_def update_other)
  then show ?thesis by (simp add: observed_instant_def get_text_def)
qed

lemma settled_key:
  obtains k where "verification_callback_key plain_ops ''t1'' ''a1'' 1 = Inr k"
proof -
  have "is_ok (verification_callback_key plain_ops ''t1'' ''a1'' 1)"
    unfolding verification_callback_key_def by (rule digest_ok) simp
  then show thesis using that by (auto simp: is_ok_iff)
qed

lemma settled_checks:
  "verification_checks [] v \<longleftrightarrow>
     1 \<le> ve_attempt v \<and> ve_window_start v \<le> ve_window_end v \<and>
     (case ve_profile_version v of None \<Rightarrow> True | Some n \<Rightarrow> 0 < n)"
  by (simp add: verification_checks_def)

lemma frozen_found:
  "find_run_action latency_node ''a1'' executed_world = (Inr frozen_action, executed_world)"
  by (simp add: find_run_action_def sread_def executed_world_def rw_db_def scalar_one_def node_parts action_parts)

lemma verifier_resolves_incident:
  obtains u w' where
    "verifier latency_ops latency_node latency_inputs the_ref executed_world = (Inr u, w')" "resolves u"
proof -
  obtain m margin st where o: "evaluate_outcome latency_ops latency_node latency_inputs LATENCY_RECOVERY_V2
       (ac_criteria frozen_action) frozen_baseline frozen_action 2000 the_target executed_world =
       (Inr (VerificationVerdict.VERIFIED, m, margin), executed_world\<lparr>rw_broker := st\<rparr>)"
    and m: "m = judged_fields LATENCY_RECOVERY_V2 (bl_value frozen_baseline)
       (judge LATENCY_RECOVERY_V2 (bl_value frozen_baseline) (1 / 10)) (measured 200000000 (1 / 10) ''y'')"
    by (rule latency_outcome)
  obtain key where key: "verification_callback_key plain_ops ''t1'' ''a1'' 1 = Inr key" by (rule settled_key)
  then have key': "verification_callback_key (br_keys (nd_broker latency_node)) (nd_tenant latency_node)
      (ac_id frozen_action) (int 1) = Inr key"
    by (simp add: node_parts action_parts)
  obtain lin where lin: "lineage_columns latency_ops latency_node LATENCY_RECOVERY_V2 frozen_baseline frozen_action
      the_target m = Inr (Some lin)" and v: "ln_profile_version lin = 2"
    by (simp add: lineage_columns_def m judged_observed judged_instant latency_judged settled_instant andThen_def
        Let_def latency_profile)
  let ?v = "verification_record latency_node frozen_action (Some lin) 1 key (ac_criteria_hash frozen_action)
      VerificationVerdict.VERIFIED m (baseline_json latency_ops frozen_baseline) margin
      (200000001 - microseconds 300) 200000001 (nat_digits 412)"
  let ?w = "executed_world\<lparr>rw_broker := st\<rparr>"
  have l: "rw_log ?w = verifying_log" and n: "rw_verifications ?w = []"
    by (simp_all add: executed_world_def the_world_def)
  obtain u w' where c: "conclude latency_node latency_inputs frozen_action ?v ?w = (Inr u, w')" and r: "resolves u"
    by (rule conclude_resolves_incident [where v = ?v and w = ?w])
      (simp_all add: verification_record_def l n settled_checks v microseconds_def)
  have settled: "verify_settled latency_ops latency_node latency_inputs LATENCY_RECOVERY_V2 frozen_baseline
      frozen_action 2000 the_target executed_world = (Inr u, w')"
    unfolding verify_settled_def sthen_def sread_def slift_def settled_parts(1,3,4) prod.case sum.case key' input_parts
    using o lin c by (simp only: Let_def prod.case sum.case refl if_False not_True_eq_False simp_thms)
  have t: "filter (\<lambda>t. tg_id t = ac_target frozen_action) (rd_targets (rw_db executed_world)) = [the_target]"
    by (simp add: executed_world_def rw_db_def action_parts the_target_def the_remediation_def)
  have b: "List.find (\<lambda>b. bl_action b = ac_id frozen_action) (rw_baselines executed_world) = Some frozen_baseline"
    by (simp add: executed_world_def action_parts baseline_parts)
  have soon: "\<not> 200000001 < 2000 + microseconds (td_settling_seconds K8S_NODE_UNCORDON)"
    by (simp add: K8S_NODE_UNCORDON_def microseconds_def)
  have ref: "rf_action the_ref = ''a1''"
    by (simp add: the_ref_def action_ref_def the_action_def unsigned_action_def)
  have "verifier latency_ops latency_node latency_inputs the_ref executed_world = (Inr u, w')"
    unfolding verifier_def sthen_def sread_def slift_def ref frozen_found prod.case sum.case action_parts(5)
      settled_tool settled_parts(2) [unfolded action_parts(5)] t b scalar_one_def list.case option.case
      action_parts(4) input_parts
    by (simp add: settled soon)
  then show thesis using r by (rule that)
qed

section \<open>An interrupted dispatch\<close>

text \<open>The intent is recorded, nothing was claimed, and the incident is being remediated.\<close>

definition interrupted_world :: remediation_world where
  "interrupted_world = the_world
     \<lparr>rw_log := \<lparr>db_incidents = [(''t1'', ''i1'') \<mapsto> new_incident\<lparr>ir_status := IncidentStatus.REMEDIATING\<rparr>],
        db_events = [], db_timeline = []\<rparr>\<rparr>"

lemma interrupted_found:
  "find_run_action the_node (rf_action the_ref) interrupted_world = (Inr the_action, interrupted_world)"
  by (simp add: find_run_action_def sread_def interrupted_world_def the_world_def rw_db_def scalar_one_def
      the_state_def the_remediation_def the_node_def the_ref_def action_ref_def the_action_def
      unsigned_action_def)

lemma interrupted_evidence:
  "dispatch_evidence (rw_broker interrupted_world) (nd_tenant the_node) the_action =
     \<lparr>de_intent_recorded = True, de_claimed = False, de_receipt = None\<rparr>"
  by (simp add: dispatch_evidence_def interrupted_world_def the_world_def the_state_def the_action_def
      unsigned_action_def dispatch_claim_exists_def write_receipt_def newest_def)

lemma interrupted_run:
  obtains u w' where
    "remediation_executor the_ops the_node the_node_inputs the_ref interrupted_world = (Inr u, w')"
proof -
  let ?v = "\<lparr>de_intent_recorded = True, de_claimed = False, de_receipt = None\<rparr>"
  have "is_ok (fst (recover_interrupted the_node the_node_inputs the_action the_ref ?v interrupted_world))"
    by code_simp
  then obtain u w' where r: "recover_interrupted the_node the_node_inputs the_action the_ref ?v interrupted_world =
      (Inr u, w')"
    by (cases "recover_interrupted the_node the_node_inputs the_action the_ref ?v interrupted_world")
      (auto simp: is_ok_iff)
  have parts: "ac_tool_name the_action = ''k8s.node.uncordon''"
      "ac_status the_action = RemediationActionStatus.EXECUTING"
    by (simp_all add: the_action_def unsigned_action_def)
  have "remediation_executor the_ops the_node the_node_inputs the_ref interrupted_world = (Inr u, w')"
    unfolding remediation_executor_def sthen_def sread_def slift_def interrupted_found prod.case sum.case parts
      settled_tool interrupted_evidence
    by (simp add: evidence_interrupted_def interrupted_evidence r)
  then show thesis by (rule that)
qed

end
