(* ===== verification/Kernel_Scenario.thy ===== *)
theory Kernel_Scenario
  imports Remediation_Kernel Remediation_Scenario
begin

text \<open>
  A run that was killed between its terminal checkpoint and its completion, as a resumed worker
  finds it, and the same run after another worker completed it. The lemmas: the pass that
  finishes such a run executes the planner only and leaves the remediation tables alone.
\<close>

lemma planner_update_permitted:
  "validate_update G6_REMEDIATION_PLANNER
     [(''phase'', UText ''policy_evaluation''), (''budget'', UBudget b)] = Inr ()"
  by (simp add: validate_update_def G6_REMEDIATION_PLANNER_def Let_def) code_simp

lemma terminal_pass:
  assumes "rs_action s = Some ref" "rs_terminated s"
  shows "\<exists>s'. drive g inp i (Suc fuel) PLANNER s w = (Finished [PLANNER] s', w) \<and> rs_terminated s'"
proof -
  let ?pl = "gd_planner g"
  obtain b where b: "budget_from (pn_policy ?pl) (pn_started_at ?pl) (ni_clock (inp i) 500) (rs_budget s) = Inr b"
    using budget_from_ok by (metis is_ok_iff)
  have "run_node g (inp i) PLANNER s w =
      (Inr [(''phase'', UText ''policy_evaluation''), (''budget'', UBudget (budget_snapshot b))], w)"
    using assms(1)
    by (simp add: remediation_planner_def b slift_def sthen_def sreturn_def return_update_def
        planner_update_permitted)
  then show ?thesis using assms(2) by (simp add: superstep_def apply_update_def)
qed

definition the_kernel :: kernel where
  "the_kernel = \<lparr>kn_owner = ''worker-a'', kn_policy = default_policy, kn_keys = plain_ops,
     kn_deps = (\<lambda>cx. the_graph)\<rparr>"

definition the_context :: run_context where
  "the_context =
     \<lparr>cx_identity = \<lparr>ri_tenant_id = ''t1'', ri_incident_id = ''i1'', ri_workflow_run_id = ''r1'',
        ri_behaviour_version_id = ''b1'', ri_environment_id = ''e1'', ri_execution_trace_id = ''x1''\<rparr>,
      cx_correlation = ''c1'',
      cx_scope = \<lparr>is_tenant = ''t1'', is_incident = ''i1'', is_environment = ''e1'',
        is_environment_name = ''prod'', is_services = []\<rparr>,
      cx_objective = \<lparr>ob_tenant = ''t1'', ob_incident = ''i1'', ob_run = ''r1'',
        ob_investigation_run = ''r0'', ob_hypothesis = ''h1'', ob_statement = ''leak'',
        ob_class = ''memory_leak'', ob_service = ''s1'', ob_service_name = ''svc'',
        ob_environment = ''e1'', ob_environment_name = ''prod'',
        ob_scope = frozen_scope ''t1'' ''prod'' ''svc'' [], ob_is_production = True\<rparr>,
      cx_started_at = 0\<rparr>"

definition the_kernel_inputs :: kernel_inputs where
  "the_kernel_inputs =
     \<lparr>ki_now = 0, ki_taken_at = 0, ki_run = ''r1'', ki_target = ''g1'', ki_trace = ''x1'',
      ki_correlation = ''c1'', ki_nodes = (\<lambda>i. the_node_inputs), ki_budget_clock = int,
      ki_checkpoint_clock = int, ki_finished_at = 9\<rparr>"

definition a_run :: "WorkflowRunStatus \<Rightarrow> (string \<times> int) option \<Rightarrow> run_row" where
  "a_run status lease =
     \<lparr>wr_id = ''r1'', wr_tenant = ''t1'', wr_incident = ''i1'', wr_behaviour = ''b1'',
      wr_status = status, wr_started_at = 0, wr_completed_at = None,
      wr_lease_owner = map_option fst lease, wr_lease_expires_at = map_option snd lease\<rparr>"

definition the_kernel_world :: "run_row \<Rightarrow> kernel_world" where
  "the_kernel_world r =
     \<lparr>kw_world = the_world, kw_runs = [r], kw_checkpoints = [], kw_traces = [], kw_requests = [],
      kw_behaviours = [''b1''], kw_alerts = [], kw_investigations = []\<rparr>"

lemma terminal_drive:
  "kw_world (snd (drive_run the_kernel the_context the_kernel_inputs
     (start_state\<lparr>rs_terminated := True\<rparr>) (the_kernel_world r))) = the_world"
proof -
  let ?s = "start_state\<lparr>rs_terminated := True\<rparr>" and ?w = "the_kernel_world r"
  let ?d = "drive (kn_deps the_kernel the_context) (ki_nodes the_kernel_inputs) 0 RECURSION_LIMIT
    PLANNER ?s (kw_world ?w)"
  obtain s' where d: "?d = (Finished [PLANNER] s', kw_world ?w)"
    using terminal_pass [of ?s the_ref "kn_deps the_kernel the_context" "ki_nodes the_kernel_inputs" 0 24
        "kw_world ?w"]
    by (auto simp: start_state_def RECURSION_LIMIT_def)
  obtain rows where "kernel_loop the_kernel the_context the_kernel_inputs 0 RECURSION_LIMIT PLANNER ?s ?w =
      (fst ?d, ?w\<lparr>kw_world := snd ?d, kw_checkpoints := rows\<rparr>)"
    using kernel_loop_drives by blast
  then show ?thesis
    by (simp add: drive_run_def d settle_run_world) (simp add: the_kernel_world_def)
qed

lemma the_run_driven:
  "run_driven the_context (the_kernel_world (a_run WorkflowRunStatus.RUNNING (Some (''worker-a'', 10))))"
  by (simp add: run_driven_def run_of_def is_run_def the_kernel_world_def a_run_def the_context_def
      runs_allowed_def run_active_def)

lemma the_incident_found:
  "\<exists>incident. find_incident ''t1'' ''i1'' w = Inr incident" if "kw_world w = the_world"
  using that by (simp add: find_incident_def the_world_def)

lemma the_rows_executed: "rows_executed (rw_db the_world)"
  by (simp add: rows_executed_def the_world_def rw_db_def the_state_def the_remediation_def the_action_def
      unsigned_action_def)

end
