(* ===== verification/Further_Facts.thy ===== *)
theory Further_Facts
  imports Collector_Scenario Engine_Scenario Rate_Limit Correlation Evaluation_Comparison
    Memory_Policy Retention Permissions Reflection Policy Event_Log_Run Safety Untrusted
    Incident_Runs Node_Contracts Tool_Capability Observations Verification_Profile
    Verification_Scenario Kernel_Scenario
begin

text \<open>
  Further facts about the components, each with an instance on concrete values.
\<close>

text \<open>
  assert_transition_allowed accepts a request exactly when a row of the table has its
  endpoints, lists its actor, and the reason and non-blank justification that row asks for
  are given; otherwise it raises IllegalStateTransition.
\<close>

theorem transition_accepted_iff:
  "assert_transition_allowed r = Inr t \<longleftrightarrow>
     t \<in> set TRANSITIONS \<and> tr_source t = rq_source r \<and> tr_target t = rq_target r \<and>
     rq_actor r \<in> allowed_actors t \<and>
     (requires_termination_reason t \<longrightarrow> rq_reason r \<noteq> None) \<and>
     (requires_justification t \<longrightarrow> \<not> blank_justification (rq_justification r))"
  by (rule assert_Inr_iff)

theorem transition_accepted_iff_witness:
  "assert_transition_allowed
     \<lparr>rq_source = IncidentStatus.VERIFYING, rq_target = IncidentStatus.ESCALATED,
      rq_actor = ActorType.SYSTEM, rq_reason = Some TerminationReason.HUMAN_ESCALATION,
      rq_justification = None\<rparr> \<noteq> Inr (mk_transition IncidentStatus.DETECTED
        IncidentStatus.ESCALATED SYSTEM_OR_HUMAN ''escalated before investigation began'' True False)"
  by (simp add: transition_accepted_iff mk_transition_def)

text \<open>
  The rule engine evaluates exactly the tiers other than R3; it allows an action without a
  human exactly for read-only actions and for unambiguous R1 actions outside production
  without a tenant override, and denies exactly the ambiguous R2 actions.
\<close>

theorem policy_autonomy_matrix:
  "(is_ok (evaluate_policy i) \<longleftrightarrow> pi_risk_tier i \<noteq> RiskTier.R3) \<and>
   ((\<exists>v. evaluate_policy i = Inr v \<and> pv_verdict v = PolicyVerdict.ALLOW) \<longleftrightarrow>
      pi_risk_tier i = RiskTier.RO \<or>
      (pi_risk_tier i = RiskTier.R1 \<and> \<not> forced_approval i \<and> detect_ambiguity i = [] \<and>
       \<not> pi_is_production i)) \<and>
   ((\<exists>v. evaluate_policy i = Inr v \<and> pv_verdict v = PolicyVerdict.DENY) \<longleftrightarrow>
      pi_risk_tier i = RiskTier.R2 \<and> detect_ambiguity i \<noteq> [])"
  using evaluate_policy_total [of i] policy_level_eq [of i]
  by (cases "pi_risk_tier i")
    (auto simp: evaluate_policy_def Let_def pv_def ambiguity_Nil_iff)

text \<open>
  When a call for a tool that is not read-only ends in a failure of the adapter, the outcome
  is UNKNOWN unless the adapter raised an IntegrationError that states the effect was not
  applied; no time-out and no unexpected exception makes a write known-clean.
\<close>

theorem failed_write_stays_unknown:
  assumes "invoke b st q c ci = (Inr res, st')" and "res_risk_tier res \<noteq> RiskTier.RO"
    and "res_failure res = Some f" and "0 < res_attempts res"
  shows "res_outcome res = ToolExecutionOutcome.UNKNOWN \<or>
    res_outcome res = ToolExecutionOutcome.FAILED_CLEAN \<and>
      (\<exists>fc transient after status. bf_error f = IntegrationError fc transient True after status)"
  using invoke_cases [OF assms(1)]
proof
  assume "quiet b st q (Inr res) st'"
  then show ?thesis using assms(2,3,4) by (auto simp: quiet_def Broker.refused_def from_recorded_def)
next
  assume "sent b st q c ci (Inr res) st'"
  from sent_failure [OF this assms(2-4)] show ?thesis .
qed

theorem failed_write_stays_unknown_witness:
  "res_outcome (timed_out_result) = ToolExecutionOutcome.UNKNOWN \<and>
   (\<exists>st'. invoke silent_broker the_state the_request G9_REMEDIATION_EXECUTOR the_inputs =
      (Inr timed_out_result, st'))"
proof -
  obtain st' where
    call: "invoke silent_broker the_state the_request G9_REMEDIATION_EXECUTOR the_inputs =
      (Inr timed_out_result, st')"
    using the_silence by metis
  have f: "res_failure timed_out_result = Some (fst (classify_failure K8S_NODE_UNCORDON ToolTimeout))"
      "res_risk_tier timed_out_result \<noteq> RiskTier.RO" "0 < res_attempts timed_out_result"
    by (simp_all add: timed_out_result_def executed_result_def uncordon_facts)
  have "bf_error (fst (classify_failure K8S_NODE_UNCORDON ToolTimeout)) = ToolTimeout"
    by (simp add: classify_simps adapter_failure_def)
  then show ?thesis using failed_write_stays_unknown [OF call f(2,1,3)] call by auto
qed

text \<open>
  Every capability a resolved menu hands out is in the registry, permitted by the node
  contract, granted by an enabled grant of the same tenant for this environment or all of
  them, backed by an enabled tool row that agrees with the code, and within the tier ceiling
  of the resolver.
\<close>

theorem menu_entry_justified:
  assumes "resolve rs grants rows s c = Inr m" and "menu_get m cap = Inr x"
  shows "gc_capability x = cap \<and> permits_capability c cap \<and>
     gc_descriptor x \<in> set (descriptors (rs_registry rs)) \<and>
     (\<exists>g \<in> set grants. \<exists>t \<in> set rows. gr_id g = gc_grant_id x \<and> gr_definition_id g = tr_id t \<and>
        tr_name t = td_name (gc_descriptor x) \<and> tr_capability t = cap \<and>
        gr_tenant g = is_tenant s \<and> gr_enabled g \<and> tr_is_enabled t \<and>
        (gr_environment g = Some (is_environment s) \<or> gr_environment g = None) \<and>
        within_ceiling (tr_risk_tier t) (rs_max_risk_tier rs))"
  using resolve_get [OF assms] unfolding justified_def by blast

theorem menu_entry_justified_witness:
  "\<exists>rs grants rows s m x. resolve rs grants rows s G9_REMEDIATION_EXECUTOR = Inr m \<and>
     menu_get m ''mutate.k8s_node'' = Inr x \<and>
     permits_capability G9_REMEDIATION_EXECUTOR ''mutate.k8s_node'' \<and>
     gc_descriptor x \<in> set (descriptors (rs_registry rs))"
proof -
  let ?d = "K8S_NODE_CORDON"
  let ?rs = "\<lparr>rs_registry = \<lparr>by_name_map = [(td_name ?d, ?d)],
      by_capability_map = [(td_capability ?d, [?d])], registry_version = ''1''\<rparr>,
      rs_max_risk_tier = RiskTier.R2\<rparr>"
  let ?row = "\<lparr>tr_id = ''d1'', tr_name = td_name ?d, tr_version = td_version ?d,
      tr_capability = td_capability ?d, tr_risk_tier = td_risk_tier ?d,
      tr_effect_class = td_effect_class ?d, tr_major_version = major_version ?d,
      tr_timeout_seconds = td_timeout_seconds ?d, tr_settling_seconds = td_settling_seconds ?d,
      tr_is_idempotent = td_is_idempotent ?d, tr_rollback_tool_name = td_rollback_tool_name ?d,
      tr_provider_kind = td_provider_kind ?d, tr_input_schema = PDict (input_schema ?d),
      tr_idempotency_key_fields = td_idempotency_key_fields ?d, tr_credential_ref = None,
      tr_is_enabled = True\<rparr>"
  let ?g = "\<lparr>gr_id = ''g1'', gr_tenant = ''t1'', gr_definition_id = ''d1'', gr_environment = None,
      gr_enabled = True, gr_scope_overrides = [], gr_blast_radius_limits = []\<rparr>"
  let ?s = "\<lparr>is_tenant = ''t1'', is_incident = ''i1'', is_environment = ''e1'',
      is_environment_name = ''prod'', is_services = []\<rparr>"
  let ?gc = "\<lparr>gc_capability = td_capability ?d, gc_descriptor = ?d, gc_definition_id = ''d1'',
      gc_grant_id = ''g1'', gc_credential_ref = None, gc_scope_overrides = [],
      gc_blast_radius_limits = []\<rparr>"
  let ?m = "make_menu [?gc]"
  have r: "resolve ?rs [?g] [?row] ?s G9_REMEDIATION_EXECUTOR = Inr ?m"
    by code_simp
  have m: "menu_get ?m ''mutate.k8s_node'' = Inr ?gc"
    by (simp add: menu_get_def make_menu_def K8S_NODE_CORDON_def)
  show ?thesis
    using r m menu_entry_justified [OF r m] by (intro exI conjI) (assumption, assumption, blast, blast)
qed

text \<open>
  Once decide has recorded a decision on an action version, any later decide on that action
  that is admitted returns the recorded row and writes nothing, whoever calls it and
  whatever decision they ask for.
\<close>

theorem first_decision_is_final:
  assumes "Approval_Service.decide ops db d now i = Inr (a, db')"
    and "Approval_Service.decide ops db' d' now' i' = Inr (a', db'')"
    and "da_tenant d' = da_tenant d" and "da_action d' = da_action d"
  shows "a' = a \<and> db'' = db'"
  by (rule decide_final [OF assms])

theorem first_decision_is_final_witness:
  "\<exists>a db'. Approval_Service.decide wide_ops pending_remediation the_decision 10 ''p1'' = Inr (a, db') \<and>
     Approval_Service.decide wide_ops db' (the_decision\<lparr>da_decision := ApprovalDecision.REJECTED\<rparr>) 20 ''p2'' = Inr (a, db')"
proof -
  let ?second = "the_decision\<lparr>da_decision := ApprovalDecision.REJECTED\<rparr>"
  have "case Approval_Service.decide wide_ops pending_remediation the_decision 10 ''p1'' of
      Inr (a, db') \<Rightarrow> is_ok (Approval_Service.decide wide_ops db' ?second 20 ''p2'') | Inl e \<Rightarrow> False"
    by code_simp
  then obtain a db' a' db'' where
      one: "Approval_Service.decide wide_ops pending_remediation the_decision 10 ''p1'' = Inr (a, db')"
    and two: "Approval_Service.decide wide_ops db' ?second 20 ''p2'' = Inr (a', db'')"
    by (auto simp: is_ok_iff split: sum.splits prod.splits)
  from first_decision_is_final [OF one two] show ?thesis using one two by simp
qed

text \<open>
  For an iteration budget from 1 to 197 a walk of the graph that visits the planner at most
  as often as the budget allows takes fewer steps than the step ceiling derived from that
  budget.
\<close>

theorem step_ceiling_is_not_reached:
  assumes "1 \<le> n" "n \<le> 197" "int (planner_visits (inv_walk COORDINATOR seen)) \<le> n"
  shows "int (length (inv_walk COORDINATOR seen)) < recursion_limit_for n"
proof -
  have "length (inv_walk COORDINATOR seen) \<le> 1 + 3 * planner_visits (inv_walk COORDINATOR seen)"
    using walk_bound [of COORDINATOR seen] by simp
  then show ?thesis using recursion_limit_enough [OF assms(1,2)] assms(3) by linarith
qed

theorem step_ceiling_is_not_reached_witness:
  "int (length (inv_walk COORDINATOR [(None, False), (None, False), (None, True)])) < recursion_limit_for 1"
  by (rule step_ceiling_is_not_reached)
    (simp_all add: planner_visits_def route_after_planner_def route_after_terminator_def)

text \<open>
  Whatever untrusted text is rendered, the neutralised content contains neither the opening
  nor the closing marker of the fence, so no content can end its own block or open another.
\<close>

theorem fence_markers_never_survive:
  "\<not> sublist BLOCK_OPEN (neutralise s) \<and> \<not> sublist BLOCK_CLOSE (neutralise s)"
  using neutralise_no_marker by blast

text \<open>
  A planner pass sends at most two requests to the model, the second only as a repair, and
  none at all when the run already has its action, however it ends.
\<close>

theorem planner_model_calls_bounded:
  "calls_of (snd (remediation_planner ops d pl inp known snapshot w)) \<le>
     calls_of w + (if known = None then 2 else 0)"
  using planner_calls [of ops d pl inp known snapshot w] by (metis prod.collapse)

text \<open>
  Appending an event again under the idempotency key it was stored with returns the stored
  event, reports that nothing was created and leaves the store as it is, whatever else the
  second call carries.
\<close>

theorem append_is_idempotent:
  assumes "append_incident_event db k a now eid = Inr (e, True, db')" and "ea_key a \<noteq> None"
    and "ea_key a' = ea_key a"
  shows "append_incident_event db' k a' now' eid' = Inr (e, False, db')"
  by (rule append_same_key [OF assms])

theorem append_is_idempotent_witness:
  "let db = empty_db\<lparr>db_incidents := (db_incidents empty_db)((''t'', ''i'') \<mapsto> new_incident)\<rparr>;
       a = \<lparr>ea_type = IncidentEventType.EVIDENCE_RECORDED, ea_source = ''s'',
            ea_actor_type = ActorType.SYSTEM, ea_correlation = ''c'',
            ea_provenance = ProvenanceLabel.SYSTEM, ea_actor_id = None, ea_causation = None,
            ea_occurred_at = None, ea_payload = Map.empty, ea_version = 1, ea_key = Some ''k''\<rparr>
   in \<exists>e db'. append_incident_event db (''t'', ''i'') a 5 ''e1'' = Inr (e, True, db') \<and>
        append_incident_event db' (''t'', ''i'') (a\<lparr>ea_source := ''other''\<rparr>) 9 ''e2'' = Inr (e, False, db')"
proof -
  let ?db = "empty_db\<lparr>db_incidents := (db_incidents empty_db)((''t'', ''i'') \<mapsto> new_incident)\<rparr>"
  let ?a = "\<lparr>ea_type = IncidentEventType.EVIDENCE_RECORDED, ea_source = ''s'',
            ea_actor_type = ActorType.SYSTEM, ea_correlation = ''c'',
            ea_provenance = ProvenanceLabel.SYSTEM, ea_actor_id = None, ea_causation = None,
            ea_occurred_at = None, ea_payload = Map.empty, ea_version = 1, ea_key = Some ''k''\<rparr>"
  obtain e db' where e: "append_incident_event ?db (''t'', ''i'') ?a 5 ''e1'' = Inr (e, True, db')"
    by (simp add: append_incident_event_def empty_db_def new_incident_def find_by_key_def
        event_checks_def make_event_def classify_def EXTERNAL_EVENTS_def DERIVED_EVENTS_def Let_def)
  show ?thesis
    using append_is_idempotent [OF e, of "?a\<lparr>ea_source := ''other''\<rparr>" 9 "''e2''"] e
    by (auto simp: Let_def)
qed

text \<open>
  A descriptor that constructs is never tier R3, is read-only exactly when its effect is
  READ, never retries a non-idempotent call, has a rollback when it mutates infrastructure,
  takes its idempotency fields from its arguments, and declares no argument that names a
  shell or credential channel.
\<close>

theorem descriptor_admission:
  assumes "descriptor_post_init d = Inr d'"
  shows "d' = d \<and> td_risk_tier d \<noteq> RiskTier.R3 \<and>
    (td_risk_tier d = RiskTier.RO \<longleftrightarrow> td_effect_class d = ToolEffectClass.READ) \<and>
    (td_effect_class d = ToolEffectClass.EXTERNAL_RECORD \<longrightarrow>
       td_risk_tier d = RiskTier.R1 \<and> td_max_attempts d = 1 \<and> td_rollback_tool_name d = None) \<and>
    (td_effect_class d = ToolEffectClass.INFRASTRUCTURE_MUTATION \<longrightarrow>
       td_rollback_tool_name d \<noteq> None) \<and>
    (\<not> td_is_idempotent d \<longrightarrow> td_max_attempts d = 1) \<and>
    distinct (map arg_name (td_arguments d)) \<and>
    set (td_idempotency_key_fields d) \<subseteq> arg_name ` set (td_arguments d) \<and>
    (\<forall>a \<in> set (td_arguments d).
       \<not> is_forbidden_execution_field (arg_name a) \<and> \<not> is_forbidden_secret_field (arg_name a))"
  using descriptor_safety [OF assms] descriptor_distinct [OF assms] descriptor_no_channel [OF assms]
  by blast

theorem descriptor_admission_witness:
  "list_all (\<lambda>d. td_risk_tier d \<noteq> RiskTier.R3) WRITE_CATALOGUE"
proof -
  have "td_risk_tier d \<noteq> RiskTier.R3" if "d \<in> set WRITE_CATALOGUE" for d
  proof -
    have "descriptor_post_init d = Inr d" using catalogue_constructs that by simp
    from descriptor_admission [OF this] show ?thesis by blast
  qed
  then show ?thesis by (simp add: list_all_iff)
qed

text \<open>
  An alert joins an incident exactly when some candidate matches it on environment, service,
  category, window and activity, and the selected incident is that of a matching candidate
  nearest in time with the least identifier among equals, whatever the order of the
  candidates.
\<close>

theorem correlation_selects_nearest:
  "(co_selected (decide_correlation a cs) = Some i \<longleftrightarrow>
      (\<exists>c \<in> set cs. candidate_matches a c \<and> cd_incident c = i \<and>
         list_all (\<lambda>d. candidate_matches a d \<longrightarrow>
           (anchor_delta (cd_started_at c) a, cd_incident c) \<le>
             (anchor_delta (cd_started_at d) a, cd_incident d)) cs)) \<and>
   (co_joins (decide_correlation a cs) \<longleftrightarrow> list_ex (candidate_matches a) cs)"
  using selected_nearest [of a cs i] joins_iff [of a cs]
  unfolding nearest_def list_ex_iff list_all_iff anchor_delta_def by blast

theorem correlation_selects_nearest_witness:
  "co_selected (decide_correlation
     \<lparr>al_environment = ''e'', al_service = ''s'', al_category = ''c'', al_started_at = 100\<rparr>
     [\<lparr>cd_incident = ''i2'', cd_environment = ''e'', cd_service = Some ''s'',
       cd_category = Some ''c'', cd_started_at = 90, cd_active = True\<rparr>,
      \<lparr>cd_incident = ''i1'', cd_environment = ''e'', cd_service = Some ''s'',
       cd_category = Some ''c'', cd_started_at = 110, cd_active = True\<rparr>]) = Some ''i1''"
  by (subst correlation_selects_nearest [THEN conjunct1])
    (simp add: candidate_matches_def anchor_delta_def WINDOW_SECONDS_def less_eq_prod_def)

text \<open>
  When the evaluation gate passes a full suite against a baseline of the same evaluator,
  every scenario passed or is contested, no scenario of the baseline is missing, and no
  comparable scenario has more zero-tolerance failures or worse unsafe-action or false-
  success metrics than the baseline.
\<close>

theorem passed_gate_has_no_regression:
  assumes "gate_status (su_scenarios current) (Some (compare_suites current (Some b))) =
      EvaluationGateStatus.PASSED"
    and "su_evaluator_version b = su_evaluator_version current" "su_selection current = ''full''"
  shows "su_scenarios current \<noteq> [] \<and>
     list_all (\<lambda>s. ok_verdict (sr_verdict s)) (su_scenarios current) \<and>
     sr_key ` set (su_scenarios b) \<subseteq> sr_key ` set (su_scenarios current) \<and>
     list_all (\<lambda>s. case compared_with (by_key (su_scenarios b)) s of
         None \<Rightarrow> True | Some p \<Rightarrow> holds_ground p s) (su_scenarios current)"
  using passed_gate [OF assms(1)] assms(2,3) by (auto simp: list_all_iff split: option.splits)

theorem passed_gate_has_no_regression_witness:
  "holds_ground
     \<lparr>sr_key = ''s1'', sr_digest = Some ''d'', sr_verdict = Some ''passed'',
      sr_zero_tolerance_failures = [], sr_metrics = [(''unsafe_actions'', PInt 0)]\<rparr>
     \<lparr>sr_key = ''s1'', sr_digest = Some ''d'', sr_verdict = Some ''passed'',
      sr_zero_tolerance_failures = [], sr_metrics = [(''unsafe_actions'', PInt 0)]\<rparr>"
proof -
  let ?s = "\<lparr>sr_key = ''s1'', sr_digest = Some ''d'', sr_verdict = Some ''passed'',
      sr_zero_tolerance_failures = [], sr_metrics = [(''unsafe_actions'', PInt 0)]\<rparr>"
  let ?r = "\<lparr>su_run_id = Some ''r'', su_evaluator_version = Some ''1'', su_execution_mode = None,
      su_selection = ''full'', su_scenarios = [?s]\<rparr>"
  have "gate_status (su_scenarios ?r) (Some (compare_suites ?r (Some ?r))) =
      EvaluationGateStatus.PASSED" by code_simp
  moreover have "compared_with (by_key [?s]) ?s = Some ?s" by code_simp
  ultimately show ?thesis using passed_gate_has_no_regression [of ?r ?r] by simp
qed

text \<open>
  When the hash has no collision, two memory proposals have the same key exactly when they
  agree in category, root-cause class, statement and, up to order, in every list of
  references; the rationale and the context signature do not enter.
\<close>

theorem proposal_key_identifies:
  assumes "inj (sha256_hex ops)"
  shows "proposal_key ops r = proposal_key ops s \<longleftrightarrow>
      mw_category r = mw_category s \<and> mw_root_cause_class r = mw_root_cause_class s \<and>
      mw_statement r = mw_statement s \<and> same_references r s"
  by (rule proposal_key_iff [OF assms])

theorem proposal_key_identifies_witness:
  "proposal_key \<lparr>repr_float = \<lambda>r. [], iso_local = int_digits, sha256_hex = id\<rparr>
      \<lparr>mw_category = MemoryCategory.VERIFIED_OUTCOME, mw_statement = ''s'', mw_rationale = ''r'',
       mw_root_cause_class = ''cls'', mw_context_signature = [], mw_incident_ids = [''1'', ''2''],
       mw_evidence_ids = [], mw_verification_ids = [], mw_knowledge_citations = []\<rparr> =
    proposal_key \<lparr>repr_float = \<lambda>r. [], iso_local = int_digits, sha256_hex = id\<rparr>
      \<lparr>mw_category = MemoryCategory.VERIFIED_OUTCOME, mw_statement = ''s'', mw_rationale = ''q'',
       mw_root_cause_class = ''cls'', mw_context_signature = [], mw_incident_ids = [''2'', ''1''],
       mw_evidence_ids = [], mw_verification_ids = [], mw_knowledge_citations = []\<rparr>"
  by (subst proposal_key_identifies) (simp_all add: same_references_def)

text \<open>
  Every shipped descriptor passes its construction checks; tool names are unique; the read-
  only catalogue is read-only and the write catalogue is not; every write tool names a
  registered rollback of its own capability and preconditions that a read-only tool answers;
  node-scoped tools are R2; every evidence domain has a read-only tool; every tool takes its
  tenant and environment from the resolved scope.
\<close>

theorem shipped_catalogues:
  "list_all (\<lambda>d. descriptor_post_init d = Inr d)
     (READ_ONLY_CATALOGUE @ WRITE_CATALOGUE @ INTEGRATION_CATALOGUE) \<and>
   distinct (map td_name (READ_ONLY_CATALOGUE @ WRITE_CATALOGUE @ INTEGRATION_CATALOGUE)) \<and>
   list_all (\<lambda>d. td_risk_tier d = RiskTier.RO) READ_ONLY_CATALOGUE \<and>
   list_all (\<lambda>d. td_risk_tier d \<noteq> RiskTier.RO) WRITE_CATALOGUE \<and>
   list_all (\<lambda>d. td_effect_class d = ToolEffectClass.EXTERNAL_RECORD) INTEGRATION_CATALOGUE \<and>
   list_all (\<lambda>d. \<exists>r \<in> set WRITE_CATALOGUE. td_rollback_tool_name d = Some (td_name r) \<and>
     td_capability r = td_capability d) WRITE_CATALOGUE \<and>
   list_all (\<lambda>d. \<forall>c \<in> set (td_preconditions d). \<exists>r \<in> set READ_ONLY_CATALOGUE.
     map_of PRECONDITION_CAPABILITY c = Some (td_capability r)) WRITE_CATALOGUE \<and>
   list_all (\<lambda>d. td_capability d \<in> NODE_SCOPED_CAPABILITIES \<longrightarrow> td_risk_tier d = RiskTier.R2)
     WRITE_CATALOGUE \<and>
   list_all (\<lambda>d. {''tenant_id'', ''environment''} \<subseteq> scope_argument_names d)
     (READ_ONLY_CATALOGUE @ WRITE_CATALOGUE @ INTEGRATION_CATALOGUE)"
  using catalogue_constructs catalogue_names_distinct catalogue_tiers write_rollback_registered
    preconditions_answerable node_scoped_high_risk scope_always_resolved
  by (simp only: list_all_iff) blast

theorem shipped_catalogues_witness:
  "descriptor_post_init K8S_NODE_CORDON = Inr K8S_NODE_CORDON"
  using shipped_catalogues by (simp add: WRITE_CATALOGUE_def)

text \<open>
  Field-name normalisation yields only lower-case letters, digits and single inner
  underscores, is idempotent, and hence a name is accepted by the execution and secret
  guards exactly when its normal form is; a list of names is accepted exactly when no name
  is forbidden.
\<close>

theorem field_guard_resists_spelling:
  "normal_name (normalise_field_name s) \<and>
   normalise_field_name (normalise_field_name s) = normalise_field_name s \<and>
   (is_forbidden_execution_field (normalise_field_name s) \<longleftrightarrow> is_forbidden_execution_field s) \<and>
   (is_forbidden_secret_field (normalise_field_name s) \<longleftrightarrow> is_forbidden_secret_field s) \<and>
   (check_field_names ns = [] \<longleftrightarrow>
      (\<forall>n \<in> set ns. \<not> is_forbidden_execution_field n \<and> \<not> is_forbidden_secret_field n))"
  by (simp add: normal_name_normalise normalise_idem is_forbidden_execution_field_def
      is_forbidden_secret_field_def check_field_names_Nil_iff)

theorem field_guard_resists_spelling_witness:
  "is_forbidden_execution_field (normalise_field_name ''Shell--Command'') =
     is_forbidden_execution_field ''Shell--Command''"
  using field_guard_resists_spelling [of "''Shell--Command''" "[]"] by blast

text \<open>
  The start-up audit states_without_path_to_closure returns the empty list, and the worklist
  loop of reachable_from computes exactly the statuses reachable by one or more rows of the
  table.
\<close>

theorem every_status_can_close:
  "states_without_path_to_closure = [] \<and> reachable_from s = {t. (s, t) \<in> edges\<^sup>+}"
  using closure_audit_empty reachable_from_iff by blast

text \<open>
  Every block of retrieved knowledge that a prompt may quote is either the mark of withheld
  content or the beginning of a chunk of the tenant that the principal may see at the time
  the prompt is built, whatever the retrieval recorded.
\<close>

theorem knowledge_blocks_show_visible_only:
  "list_all (\<lambda>b. ub_content b = withheld \<or>
       list_ex (\<lambda>c. visible_chunk tenant p sc db c \<and> ub_content b = take MAX_RESULT_CONTENT_CHARS (kc_text c))
         (kb_chunks db))
     (knowledge_blocks tenant retrievals p sc db)"
  unfolding list_all_iff list_ex_iff
proof (intro ballI)
  fix b assume "b \<in> set (knowledge_blocks tenant retrievals p sc db)"
  from knowledge_block_content [OF this]
  show "ub_content b = withheld \<or>
      (\<exists>c \<in> set (kb_chunks db). visible_chunk tenant p sc db c \<and>
        ub_content b = take MAX_RESULT_CONTENT_CHARS (kc_text c))"
    by (auto simp: visible_chunk_def)
qed

text \<open>
  When the evidence collector returns an update, either it reports one evidence reference,
  and then exactly one row was stored, for the decided domain, the tenant and the incident,
  from a provenance that is no authority and for a tool execution of the tenant that exists,
  or it reports none and neither evidence nor a retrieval was stored and no domain counts as
  covered.
\<close>

theorem collected_evidence_is_accounted:
  "case evidence_node c inp s db of
     (Inl e, db') \<Rightarrow> True
   | (Inr u, db') \<Rightarrow> evidence_accounted c s db u db'"
  using evidence_node_accounted by (auto split: prod.splits sum.splits)

text \<open>
  Criteria frozen in an action under any registered version of its profile select exactly
  that version when the action is verified, even after a newer version became current; and
  an action is judged VERIFIED only when its criteria are the profile's own, the baseline is
  trusted, and the observed value is below the threshold and improves on the baseline.
\<close>

theorem frozen_criteria_select_their_profile:
  assumes "tool \<in> set PROFILE_TOOLS" and "p \<in> {LATENCY_RECOVERY_V1, LATENCY_RECOVERY_V2}"
  shows "profile_for_criteria tool (profile_to_dict p) = Inr p \<and>
    (evaluate_verdict p c trusted b obs = VerificationVerdict.VERIFIED \<longrightarrow>
       py_eq (PDict c) (PDict (profile_to_dict p)) \<and> trusted \<and>
       (\<exists>v. obs = Some v \<and> v < vp_threshold p \<and> (vp_require_improvement p \<longrightarrow> v < b)))"
proof -
  have "vp_direction p = ''decrease''"
    using assms(2) by (auto simp: LATENCY_RECOVERY_V1_def LATENCY_RECOVERY_V2_def)
  then show ?thesis
    using frozen_criteria_select [OF assms] by (auto simp: evaluate_verified judge_verified simp del: py_eq.simps)
qed

theorem frozen_criteria_select_their_profile_witness:
  "profile_for_criteria ''k8s.hpa.adjust'' (profile_to_dict LATENCY_RECOVERY_V1) = Inr LATENCY_RECOVERY_V1"
proof -
  have "''k8s.hpa.adjust'' \<in> set PROFILE_TOOLS" by (simp add: PROFILE_TOOLS_def)
  from frozen_criteria_select_their_profile [OF this, of LATENCY_RECOVERY_V1] show ?thesis by simp
qed

text \<open>
  When the broker answers a read from its record, the collector stores an evidence row that
  says no records were found, with quality 0.1, and counts the domain as covered, whatever
  the recorded execution returned.
\<close>

theorem replayed_read_reports_nothing:
  assumes "collect c inp s area gap budget db = (Inr u, db')"
    and "is_ok (require_headroom budget (no_charge\<lparr>c_tool_calls := 1\<rparr>))"
    and "collect_request c area gap = Inr q" "area \<noteq> EvidenceDomain.KNOWLEDGE"
    and "invoke (ec_broker c) (cd_broker db) q G4_EVIDENCE_COLLECTOR (ei_call inp) = (Inr r, st)"
    and "res_deduplicated r" "result_succeeded r"
  shows "reports_nothing s area r db u db'"
proof -
  have "use_result c inp s area gap budget q r (db\<lparr>cd_broker := st\<rparr>) = (Inr u, db')"
    using assms(1-3,5) by (auto simp: collect_def is_ok_iff)
  then show ?thesis
    using replayed_reports_nothing [OF _ assms(7) replayed_payload [OF assms(5,6)] assms(4)] by simp
qed

theorem replayed_read_reports_nothing_witness:
  "\<exists>u db'. collect the_collector the_collect_inputs the_collect_state EvidenceDomain.KUBERNETES_STATE
      ''pods'' (budget_initial (Some default_policy)) the_collect_db = (Inr u, db') \<and>
     reports_nothing the_collect_state EvidenceDomain.KUBERNETES_STATE the_replay the_collect_db u db'"
proof -
  obtain u db' where c: "collect the_collector the_collect_inputs the_collect_state
      EvidenceDomain.KUBERNETES_STATE ''pods'' (budget_initial (Some default_policy)) the_collect_db =
      (Inr u, db')"
    using the_collection by (elim exE) (rule that)
  have "reports_nothing the_collect_state EvidenceDomain.KUBERNETES_STATE the_replay the_collect_db u db'"
    by (rule replayed_read_reports_nothing [OF c _ the_collect_request _ _ the_replay_facts, of after_read])
      (simp_all add: the_head_room the_collect_parts the_read_replayed)
  then show ?thesis using c by blast
qed

text \<open>
  A step that was planned and not collected before an interruption marks its domain and gap
  as seen when the run is rebuilt, so the guard of the planner turns the same plan into
  forming a hypothesis and the evidence is never collected.
\<close>

theorem resumed_step_is_never_collected:
  assumes "inv_rehydrate digest_of c identity w = Inr (s, report)"
    and "q \<in> set (run_steps (ri_tenant_id identity) (ri_workflow_run_id identity) w)"
    and "sp_status q = InvestigationStepStatus.PLANNED"
    and "pl_action p = PlannerAction.COLLECT_EVIDENCE" "pl_domain p = Some (sp_domain q)"
    and "pl_gap p = py_strip (sp_gap q)" "sp_domain q \<in> set available"
  shows "apply_guards p (us_nodes s) available =
    (p\<lparr>pl_action := PlannerAction.FORM_HYPOTHESIS\<rparr>, Some (DomainAlreadyCollected (sp_domain q)))"
  by (rule planned_step_not_repeated [OF assms(1,2,4-7)])

theorem resumed_step_is_never_collected_witness:
  "\<exists>s report. inv_rehydrate (\<lambda>e. ''d'') the_checkpoint the_identity the_inv_world = Inr (s, report) \<and>
     es_evidence (us_nodes s) = [] \<and>
     apply_guards the_repeated_plan (us_nodes s) [EvidenceDomain.KUBERNETES_STATE] =
       (the_repeated_plan\<lparr>pl_action := PlannerAction.FORM_HYPOTHESIS\<rparr>,
        Some (DomainAlreadyCollected EvidenceDomain.KUBERNETES_STATE))"
proof -
  obtain s report where r: "inv_rehydrate (\<lambda>e. ''d'') the_checkpoint the_identity the_inv_world =
      Inr (s, report)" "es_evidence (us_nodes s) = []"
    using the_rehydration by (elim exE conjE) (rule that)
  have "apply_guards the_repeated_plan (us_nodes s) [sp_domain the_planned_step] =
      (the_repeated_plan\<lparr>pl_action := PlannerAction.FORM_HYPOTHESIS\<rparr>,
       Some (DomainAlreadyCollected (sp_domain the_planned_step)))"
    by (rule resumed_step_is_never_collected [OF r(1)]) (simp_all add: the_resumed_parts)
  then show ?thesis using r unfolding the_resumed_parts by (intro exI conjI)
qed

text \<open>
  Once a budget is exhausted every further accepted charge leaves it exhausted, and the
  dimension reported is the first exhausted one in the declared order.
\<close>

theorem exhaustion_is_permanent_and_ordered:
  assumes "charge b c = Inr b'" and "exhausted_kind b = Some k"
  shows "is_exhausted b' \<and>
     (\<exists>i < length EXHAUSTION_ORDER. EXHAUSTION_ORDER ! i = k \<and>
        limit_for (policy b) k \<le> consumed_for (ledger b) k \<and>
        (\<forall>j < i. consumed_for (ledger b) (EXHAUSTION_ORDER ! j)
               < limit_for (policy b) (EXHAUSTION_ORDER ! j)))"
  using exhausted_kind_first [OF assms(2)] exhausted_kind_Some [OF assms(2)]
    charge_keeps_exhaustion [OF assms(1)] assms(2)
  by (auto simp: is_exhausted_def)

theorem exhaustion_is_permanent_and_ordered_witness:
  "\<exists>b'. charge (budget_initial None\<lparr>ledger := empty_ledger\<lparr>iterations := 12\<rparr>\<rparr>) no_charge = Inr b' \<and>
     is_exhausted b'"
proof -
  let ?b = "budget_initial None\<lparr>ledger := empty_ledger\<lparr>iterations := 12\<rparr>\<rparr>"
  obtain b' where c: "charge ?b no_charge = Inr b'"
    by (auto simp: charge_def ledger_charge_def no_charge_def)
  have "exhausted_kind ?b = Some BudgetKind.ITERATIONS"
    by (simp add: exhausted_kind_def EXHAUSTION_ORDER_def budget_initial_def default_policy_def
        default_simps)
  then show ?thesis using exhaustion_is_permanent_and_ordered [OF c] c by blast
qed

text \<open>
  A value that coerce accepts has the declared kind within the declared bounds (length,
  allowed values, range, time zone, number of entries), and coercing it again changes
  nothing.
\<close>

theorem coerced_value_of_kind:
  assumes "coerce p a v = Inr w"
  shows "of_kind a w \<and> coerce p a w = Inr w"
  using coerce_of_kind [OF assms] coerce_again [OF assms] by blast

theorem coerced_value_of_kind_witness:
  "of_kind ((argument_spec ''limit'' INTEGER ''rows'')\<lparr>arg_max_value := Some 10\<rparr>) (PInt 7)"
  by (rule conjunct1, rule coerced_value_of_kind [where v = "PInt 7" and
        p = "\<lparr>parse_datetime = (\<lambda>v. None), parse_uuid = (\<lambda>v. None)\<rparr>"])
    (simp add: coerce_def coerce_raw_def check_range_def argument_spec_def)

text \<open>
  Raising an ambiguity signal, marking the target as production or setting the tenant
  override never makes the verdict more permissive.
\<close>

theorem policy_never_rewards_risk:
  assumes "pi_risk_tier a = pi_risk_tier b"
    and "pi_is_production a \<Longrightarrow> pi_is_production b"
    and "forced_approval a \<Longrightarrow> forced_approval b"
    and "detect_ambiguity a \<noteq> [] \<Longrightarrow> detect_ambiguity b \<noteq> []"
  shows "policy_level b \<le> policy_level a"
  by (rule policy_level_antimono) (use assms in \<open>auto simp: riskier_def\<close>)

theorem policy_never_rewards_risk_witness:
  "policy_level \<lparr>pi_risk_tier = RiskTier.R1, pi_is_production = True, pi_hypothesis_confidence = 1,
      pi_supporting_evidence_count = 2, pi_contradicting_evidence_count = 1,
      pi_competing_hypotheses_conflict = True, pi_unexplained_counter_evidence = True,
      pi_evidence_stale = True, pi_concurrent_incident_same_scope = True,
      pi_tenant_requires_approval_override = Some True, pi_confidence_threshold = 1 / 2\<rparr>
   \<le> policy_level \<lparr>pi_risk_tier = RiskTier.R1, pi_is_production = False, pi_hypothesis_confidence = 1,
      pi_supporting_evidence_count = 2, pi_contradicting_evidence_count = 0,
      pi_competing_hypotheses_conflict = False, pi_unexplained_counter_evidence = False,
      pi_evidence_stale = False, pi_concurrent_incident_same_scope = False,
      pi_tenant_requires_approval_override = None, pi_confidence_threshold = 1 / 2\<rparr>"
  by (rule policy_never_rewards_risk) (simp_all add: forced_approval_def detect_ambiguity_def)

text \<open>
  The execution key of a tool call does not depend on the order in which its scope arguments
  are listed, so a replay that rebuilds the mapping is recognised.
\<close>

theorem execution_key_order_free:
  assumes "distinct (map fst sa)" and "distinct (map fst sb)" and "set sa = set sb"
  shows "tool_execution_key ops tenant tool major sa = tool_execution_key ops tenant tool major sb"
  unfolding tool_execution_key_def digest_def
  using canonical_dict_perm [OF assms, of ops] by (simp del: canonical.simps(8))

theorem execution_key_order_free_witness:
  "tool_execution_key plain_ops ''t'' ''k8s.node.cordon'' 1 [(''node'', PStr ''n1''), (''environment'', PStr ''prod'')] =
   tool_execution_key plain_ops ''t'' ''k8s.node.cordon'' 1 [(''environment'', PStr ''prod''), (''node'', PStr ''n1'')]"
  by (rule execution_key_order_free) auto

text \<open>
  Reading back a budget written by to_dict gives the same budget, for every policy its
  constructor accepts.
\<close>

theorem budget_survives_persistence:
  "valid_policy (policy b) \<Longrightarrow> budget_from_dict (budget_to_dict b) = Inr b"
  by (simp add: budget_from_dict_def budget_to_dict_def policy_roundtrip ledger_roundtrip)

theorem budget_survives_persistence_witness:
  "budget_from_dict (budget_to_dict (budget_initial None)) = Inr (budget_initial None)"
  by (rule budget_survives_persistence) (simp add: budget_initial_def default_policy_valid)

text \<open>
  When assert_matches_database returns for a registry built from a list of descriptors,
  every descriptor of that list is joined to a database row of its name and version that
  agrees on capability, tier, effect class, timeout, idempotence and rollback; any drift is
  refused.
\<close>

theorem registry_agreement:
  assumes "make_registry ds v = Inr r" and "assert_matches_database r rows = Inr joined"
    and "d \<in> set ds"
  shows "\<exists>row \<in> set rows. tr_name row = td_name d \<and> tr_version row = td_version d \<and>
     tr_capability row = td_capability d \<and> tr_risk_tier row = td_risk_tier d \<and>
     tr_effect_class row = td_effect_class d \<and> tr_timeout_seconds row = td_timeout_seconds d \<and>
     tr_is_idempotent row = td_is_idempotent d \<and>
     tr_rollback_tool_name row = td_rollback_tool_name d"
proof -
  have join: "join_rows (descriptors r) rows = ([], joined)"
    using assms(2) by (auto simp: assert_matches_database_def split: prod.splits if_splits)
  have "td_name d \<in> fst ` set joined"
    using join_rows_clean [OF join] descriptors_set [OF assms(1)] assms(3)
    by (metis image_eqI list.set_map)
  then obtain n t where t: "(n, t) \<in> set joined" "n = td_name d" by auto
  then have rt: "rt_descriptor t \<in> set ds" "td_name (rt_descriptor t) = td_name d"
    using join_rows_clean [OF join] descriptors_set [OF assms(1)] by auto
  then have "rt_descriptor t = d"
    using make_registry_Inr(2) [OF assms(1)] assms(3) by (metis distinct_map inj_onD)
  then obtain row where "row \<in> set rows" "tr_name row = td_name d" "tr_version row = td_version d"
      "compare_tool d row = []"
    using join_rows_clean [OF join] t by auto
  then show ?thesis using compare_tool_Nil [of d row] by auto
qed

theorem registry_agreement_witness:
  "\<exists>row :: tool_row. tr_name row = td_name DEPLOY_LIST \<and> tr_risk_tier row = RiskTier.RO"
proof -
  let ?d = "DEPLOY_LIST"
  let ?r = "\<lparr>by_name_map = [(td_name ?d, ?d)],
      by_capability_map = [(td_capability ?d, [?d])], registry_version = ''1''\<rparr>"
  let ?row = "\<lparr>tr_id = ''d1'', tr_name = td_name ?d, tr_version = td_version ?d,
      tr_capability = td_capability ?d, tr_risk_tier = td_risk_tier ?d,
      tr_effect_class = td_effect_class ?d, tr_major_version = major_version ?d,
      tr_timeout_seconds = td_timeout_seconds ?d, tr_settling_seconds = td_settling_seconds ?d,
      tr_is_idempotent = td_is_idempotent ?d, tr_rollback_tool_name = td_rollback_tool_name ?d,
      tr_provider_kind = td_provider_kind ?d, tr_input_schema = PDict (input_schema ?d),
      tr_idempotency_key_fields = td_idempotency_key_fields ?d, tr_credential_ref = None,
      tr_is_enabled = True\<rparr>"
  have r: "make_registry [?d] ''1'' = Inr ?r"
    by (simp add: make_registry_def)
  have "assert_matches_database ?r [?row] =
      Inr [(td_name ?d, \<lparr>rt_descriptor = ?d, rt_definition_id = ''d1'', rt_credential_ref = None\<rparr>)]"
    by code_simp
  from registry_agreement [OF r this list.set_intros(1)]
  obtain row :: tool_row where "tr_name row = td_name ?d" "tr_risk_tier row = td_risk_tier ?d" by blast
  moreover have "td_risk_tier ?d = RiskTier.RO" by (simp add: DEPLOY_LIST_def)
  ultimately show ?thesis by metis
qed

text \<open>
  best_hypothesis_of returns a live hypothesis that is the latest under its id and that no
  other latest live hypothesis beats on (confidence, -rank); it returns nothing only when no
  latest hypothesis is live.
\<close>

theorem best_hypothesis_is_maximal:
  assumes "List.find (\<lambda>g. hypothesis_id g = hypothesis_id h) (rev hs) = Some h" and "live h"
  shows "\<exists>b. best_hypothesis_of hs = Some b \<and> b \<in> set hs \<and> live b \<and> \<not> weaker b h \<and>
     List.find (\<lambda>g. hypothesis_id g = hypothesis_id b) (rev hs) = Some b"
proof (cases "best_hypothesis_of hs")
  case None
  then show ?thesis using best_hypothesis_NoneD [OF None assms(1)] assms(2) by simp
next
  case (Some b)
  then show ?thesis
    using best_hypothesis_SomeD(1,2,4) [OF Some] best_hypothesis_SomeD(3) [OF Some assms] by blast
qed

theorem best_hypothesis_is_maximal_witness:
  "\<exists>b. best_hypothesis_of
     [\<lparr>hypothesis_id = ''h1'', hyp_rank = 1, root_cause_class = ''deploy'', confidence = 7 / 10,
       hyp_status = HypothesisStatus.PROPOSED, supporting_evidence_count = 2,
       contradicting_evidence_count = 0, remaining_gaps = []\<rparr>] = Some b \<and> live b"
proof -
  let ?h = "\<lparr>hypothesis_id = ''h1'', hyp_rank = 1, root_cause_class = ''deploy'', confidence = 7 / 10,
       hyp_status = HypothesisStatus.PROPOSED, supporting_evidence_count = 2,
       contradicting_evidence_count = 0, remaining_gaps = []\<rparr>"
  show ?thesis using best_hypothesis_is_maximal [of ?h "[?h]"] by (auto simp: live_def)
qed

text \<open>
  Projecting the timeline of an incident right after projecting it adds no row and changes
  nothing; every event type has a projection rule, and every audit-critical type is visible.
\<close>

theorem timeline_projection_is_idempotent:
  assumes "project_timeline db k = Inr (n, db')"
  shows "project_timeline db' k = Inr (0, db')"
  by (rule project_again [OF assms])

theorem timeline_projection_is_idempotent_witness:
  "project_timeline empty_db (''t'', ''i'') = Inr (0, empty_db)"
proof -
  have p: "project_timeline empty_db (''t'', ''i'') = Inr (0, empty_db)"
    by (simp add: project_timeline_def empty_db_def stream_events_def)
  show ?thesis by (rule timeline_projection_is_idempotent [OF p])
qed

text \<open>
  Every safety-critical event type is visible on the operator timeline, and no event type is
  without a projection rule.
\<close>

theorem audit_critical_events_are_shown:
  "(t \<in> AUDIT_CRITICAL_EVENTS \<longrightarrow> is_visible_on_timeline t = Inr True) \<and>
   (\<exists>r. timeline_rule t = Inr r) \<and> unmapped_event_types = []"
  using audit_critical_visible [of t] timeline_rule_total no_unmapped by blast

theorem audit_critical_events_are_shown_witness:
  "is_visible_on_timeline IncidentEventType.APPROVAL_GRANTED = Inr True"
  using audit_critical_events_are_shown [of IncidentEventType.APPROVAL_GRANTED]
  by (simp add: AUDIT_CRITICAL_EVENTS_def)

text \<open>
  coerce refuses with SchemaViolation; the one other exception that escapes is
  OverflowError, for a NUMBER argument given an integer beyond the range of a double.
\<close>

theorem coerce_refusal:
  assumes "coerce p a v = Inl e"
  shows "e = SchemaViolation \<or>
    e = OverflowError \<and> arg_kind a = NUMBER \<and> (\<exists>i. v = PInt i \<and> float_bound \<le> \<bar>i\<bar>)"
  using assms by (rule coerce_Inl)

theorem coerce_refusal_witness:
  "\<exists>e. coerce \<lparr>parse_datetime = (\<lambda>v. None), parse_uuid = (\<lambda>v. None)\<rparr>
      (argument_spec ''ratio'' NUMBER ''a ratio'') (PInt (2 ^ 1024)) = Inl e \<and>
     (e = SchemaViolation \<or> e = OverflowError \<and>
       arg_kind (argument_spec ''ratio'' NUMBER ''a ratio'') = NUMBER \<and>
       (\<exists>i. PInt (2 ^ 1024) = PInt i \<and> float_bound \<le> \<bar>i\<bar>))"
proof -
  let ?c = "coerce \<lparr>parse_datetime = (\<lambda>v. None), parse_uuid = (\<lambda>v. None)\<rparr>
      (argument_spec ''ratio'' NUMBER ''a ratio'') (PInt (2 ^ 1024))"
  have "?c = Inl OverflowError" by code_simp
  then show ?thesis using coerce_refusal by blast
qed

text \<open>
  validate_update accepts an update exactly when each key it returns is a key of the node
  state, not immutable, and permitted by the contract; otherwise it raises
  ContractViolation.
\<close>

theorem state_update_accepted_iff:
  "(validate_update c u = Inr () \<longleftrightarrow>
     (\<forall>k \<in> fst ` set u. k \<in> set (nc_state_keys c) \<and> k \<notin> set (nc_immutable_state_keys c) \<and>
        k \<in> set (nc_permitted_state_keys c))) \<and>
   (\<not> is_ok (validate_update c u) \<longrightarrow> validate_update c u = Inl ContractViolation)"
  using validate_update_Inr [of c u] validate_update_Inl [of c u]
  by (cases "validate_update c u") simp_all

theorem state_update_accepted_iff_witness:
  "validate_update G3_INVESTIGATION_PLANNER [(''identity'', 0 :: nat)] = Inl ContractViolation"
proof -
  have "validate_update G3_INVESTIGATION_PLANNER [(''identity'', 0 :: nat)] \<noteq> Inr ()"
    unfolding conjunct1 [OF state_update_accepted_iff]
    by (simp add: G3_INVESTIGATION_PLANNER_def IMMUTABLE_STATE_KEYS_def)
  then have "\<not> is_ok (validate_update G3_INVESTIGATION_PLANNER [(''identity'', 0 :: nat)])"
    by (auto simp: is_ok_iff)
  then show ?thesis using state_update_accepted_iff by blast
qed

end
