(* ===== verification/Spec2Isabelle.thy ===== *)
theory Spec2Isabelle
  imports Collector_Scenario Engine_Scenario Rate_Limit Correlation Evaluation_Comparison
    Memory_Policy Retention Permissions Reflection Policy Event_Log_Run Safety Untrusted
    Incident_Runs Node_Contracts Tool_Capability Observations Verification_Profile
    Verification_Scenario Kernel_Scenario Further_Facts
begin

text \<open>
Verification development for the Autonomous SRE Incident Commander (Python package
  \<open>src/src/asic\<close>): an agent that investigates an incident, proposes one remediation, has it
  decided by policy and a human, executes it through a tool broker and verifies it. This theory
  holds the properties; the theories it imports hold the model, one per component, in the order
  in which the code depends on them. File names below are relative to \<open>src/src/asic\<close>.

  Conventions. Exceptions are values of \<open>py_error\<close> and a call returns \<open>Inl e\<close> or \<open>Inr v\<close>;
  state is passed and returned. Dictionaries are association lists where their order or their
  serialisation matters and maps otherwise; Python integers are unbounded \<open>int\<close>, floats are exact
  rationals, instants are microseconds. The tables of the database are lists of rows and a query
  is a filter, with \<open>scalar_one\<close> and its relatives raising as they do. SHA-256, the rendering of
  floats and dates, the parsers of \<open>datetime\<close> and \<open>uuid\<close>, the adapters behind the broker, clocks
  and generated identifiers are parameters. Left out everywhere: log lines, spans, metrics and
  the texts of messages.

  The theories.
  \<open>Prelude\<close>, \<open>Py_Value\<close>, \<open>Py_Text\<close>, \<open>Regex\<close>, \<open>Db_Query\<close>: results, Python values with their equality,
  text primitives, a derivative-free regular expression matcher, queries; the simplification
  collections the other theories use.
  \<open>Enums\<close>, \<open>Errors\<close>, \<open>Permissions\<close>: \<open>domain/enums.py\<close>, \<open>errors.py\<close>, \<open>permissions.py\<close>.
  \<open>Incident_State\<close>, \<open>Incident_Runs\<close>: \<open>domain/incident_state.py\<close>, the table of transitions, its
  acceptance check, the reachability worklist, and the histories of accepted requests.
  \<open>Budget\<close>, \<open>Graph_State\<close>, \<open>Termination\<close>, \<open>Reflection\<close>, \<open>Policy\<close>: \<open>domain/budget.py\<close>,
  \<open>contracts/state.py\<close>, \<open>orchestration/termination.py\<close>, \<open>orchestration/reflection.py\<close>,
  \<open>domain/policy.py\<close>.
  \<open>Events\<close>, \<open>Sequenced_Log\<close>, \<open>Event_Log\<close>, \<open>Event_Log_Run\<close>: \<open>domain/events.py\<close> and
  \<open>db/projections.py\<close>; \<open>Sequenced_Log\<close> is the interface of an append-only numbered log, which
  \<open>Event_Log\<close> provides.
  \<open>Safety\<close>, \<open>Untrusted\<close>, \<open>Redaction\<close>: \<open>domain/safety.py\<close>, \<open>domain/untrusted.py\<close>,
  \<open>observability/redaction.py\<close>.
  \<open>Tool_Descriptor\<close>, \<open>Tool_Catalogue\<close>, \<open>Tool_Registry\<close>, \<open>Tool_Capability\<close>, \<open>Node_Contracts\<close>,
  \<open>Connector_Scope\<close>, \<open>Idempotency\<close>: the registry of tools, \<open>tools/\<close>, \<open>contracts/nodes.py\<close> and
  \<open>domain/idempotency.py\<close>.
  \<open>Approval_Service\<close>, \<open>Write_Authority\<close>, \<open>Observations\<close>, \<open>Verification_Profile\<close>: \<open>remediation/\<close>.
  \<open>Broker_Types\<close>, \<open>Broker\<close>, \<open>Broker_Run\<close>, \<open>Broker_Scenario\<close>, \<open>One_Shot\<close>: \<open>tools/broker.py\<close>, the one
  egress point; \<open>One_Shot\<close> is the interface of a register in which a key is taken once, which the
  broker's effect claims provide; \<open>Broker_Scenario\<close> is a concrete deployment on which the
  witnesses evaluate a call.

  \<open>Model_Budget\<close>, \<open>Model_Budget_Run\<close>: \<open>llm/port.py\<close>, \<open>accounting.py\<close>, \<open>budgeted.py\<close>, with the write of
  the ledger in \<open>orchestration/kernel.py\<close>; the runs of budgeted calls, which provide \<open>One_Shot\<close>.
  \<open>Dispatch_Recovery\<close>, \<open>Remediation_World\<close>, \<open>Remediation_Trust\<close>: \<open>remediation/dispatch_recovery.py\<close>,
  the tables and transactions the remediation nodes share, \<open>remediation/trust.py\<close>.
  \<open>Planner_Node\<close>, \<open>Policy_Gate\<close>, \<open>Approval_Node\<close>, \<open>Remediation_Executor\<close>, \<open>Verifier_Node\<close>,
  \<open>Remediation_Graph\<close>: the five nodes and the graph of \<open>orchestration/remediation/\<close>.
  \<open>Step_Frame\<close> is the interface of a relation that every step of a node keeps; the run theories
  interpret it. \<open>Planner_Run\<close>, \<open>Gate_Run\<close>, \<open>Executor_Run\<close>, \<open>Recovery_Run\<close>: what a pass of a node
  and a sequence of passes keep. \<open>Remediation_Scenario\<close>, \<open>Verification_Scenario\<close>: concrete runs.
  \<open>Remediation_Checkpoint\<close>, \<open>Remediation_Kernel\<close>, \<open>Kernel_Scenario\<close>: checkpoints, leases, starting,
  driving, settling and resuming a run (\<open>orchestration/remediation/checkpoint.py\<close>, \<open>kernel.py\<close>).
  \<open>Hypothesis_Engine\<close>, \<open>Investigation_Graph\<close>, \<open>Engine_Scenario\<close>: the investigation, that is the
  hypothesis engine, the planner, the coordinator, the terminator and the graph
  (\<open>orchestration/nodes/\<close>, \<open>orchestration/graph.py\<close>).
  \<open>Knowledge_Access\<close>, \<open>Evidence_Collector\<close>, \<open>Investigation_Checkpoint\<close>, \<open>Collector_Scenario\<close>:
  \<open>knowledge/authorization.py\<close> and \<open>orchestration/knowledge_context.py\<close>, the collector
  (\<open>orchestration/nodes/evidence.py\<close>), \<open>orchestration/checkpoint.py\<close>, and concrete runs.
  \<open>Rate_Limit\<close>, \<open>Correlation\<close>, \<open>Evaluation_Comparison\<close>, \<open>Memory_Policy\<close>, \<open>Retention\<close>:
  \<open>api/rate_limit.py\<close>, \<open>ingestion/correlation.py\<close>, \<open>evaluation/comparison.py\<close>,
  \<open>memory/policy.py\<close>, \<open>retention/\<close>.
  \<open>Further_Facts\<close>: facts about the components beside the properties below.

  What the lemmas show. Each component has the functional behaviour of its operations on every
  branch and an invariant with its preservation; the run theories lift them to sequences of steps:
  the numbering of the logs and checkpoints, the claims and writes of the broker and the executor,
  the reservations of the model ledger, the rows the nodes may add. The defects that modelling
  showed are stated as theorems about the code as it is.

  Fuel and bounds. The worklist of \<open>reachable_from\<close>, the regular expressions, the redaction and
  \<open>words_of\<close> have measures, the attempts of a call are counted down from \<open>max_attempts\<close>, and a
  repair loop runs over the list of its attempts. Only \<open>drive\<close> and \<open>kernel_loop\<close> use fuel, which
  stands for the recursion limit of the graph library (\<open>RECURSION_LIMIT\<close>, 25): six supersteps
  are shown to decide every pass, so the limit is never reached.

  Not modelled: the HTTP layer, the worker process, the driver of the investigation graph (built
  like the remediation kernel, which is modelled; of it only the write of the ledger), document
  ingestion and vector retrieval in SQL, the adapters to external systems, simulators, the
  evaluation harness, notifications, postmortems, telemetry, migrations and scripts. They are
  input and output, or text, around the parts modelled here.
\<close>

text \<open>
  C1. In any history of accepted requests made by no human, an incident becomes RESOLVED
  only by the last two steps REMEDIATING to VERIFYING and VERIFYING to RESOLVED: no agent or
  service resolves an incident without verification of a remediation.
\<close>

theorem machine_resolution_is_verified:
  assumes "accepted_run IncidentStatus.DETECTED rs IncidentStatus.RESOLVED"
    and "\<forall>r \<in> set rs. rq_actor r \<noteq> ActorType.HUMAN"
  shows "\<exists>qs r1 r2. rs = qs @ [r1, r2] \<and>
      rq_source r1 = IncidentStatus.REMEDIATING \<and> rq_target r1 = IncidentStatus.VERIFYING \<and>
      rq_source r2 = IncidentStatus.VERIFYING"
  by (rule machine_resolution_path [OF assms(1) _ assms(2)]) simp

theorem machine_resolution_is_verified_witness:
  "\<exists>qs r1 r2.
     map (\<lambda>(s, t). \<lparr>rq_source = s, rq_target = t, rq_actor = ActorType.SYSTEM,
        rq_reason = Some TerminationReason.SUCCESS, rq_justification = None\<rparr>)
       [(IncidentStatus.DETECTED, IncidentStatus.INVESTIGATING),
        (IncidentStatus.INVESTIGATING, IncidentStatus.REMEDIATING),
        (IncidentStatus.REMEDIATING, IncidentStatus.VERIFYING),
        (IncidentStatus.VERIFYING, IncidentStatus.RESOLVED)] = qs @ [r1, r2] \<and>
     rq_source r1 = IncidentStatus.REMEDIATING \<and> rq_target r1 = IncidentStatus.VERIFYING \<and>
     rq_source r2 = IncidentStatus.VERIFYING"
  by (rule machine_resolution_is_verified)
    (simp_all add: is_ok_assert_iff table_simps)

text \<open>
  C2. Whatever calls of brokers of one tenant, crashes and other transactions follow one
  another, no two calls send a write to an adapter under one execution key, and the key of
  every write that was sent stays claimed.
\<close>

theorem write_effect_at_most_once:
  assumes "labelled_run (broker_step tenant) st ks st'" and "bs_calls st = []"
  shows "distinct (write_keys (bs_calls st')) \<and>
    (\<forall>k \<in> set (write_keys (bs_calls st')). claimed tenant (bs_claims st') k)"
proof -
  have "write_keys (bs_calls st') = ks"
    using run_write_keys [OF assms(1)] assms(2) by (simp add: write_keys_def)
  then show ?thesis
    using effect_claims.run_distinct [OF assms(1)] effect_claims.run_taken [OF assms(1)] by blast
qed

theorem write_effect_at_most_once_witness:
  "\<exists>st'. labelled_run (broker_step ''t1'') the_state [the_key] st' \<and>
     write_keys (bs_calls st') = [the_key] \<and> claimed ''t1'' (bs_claims st') the_key"
proof -
  obtain st' where
      call: "invoke the_broker the_state the_request G9_REMEDIATION_EXECUTOR the_inputs = (Inr the_result, st')"
    and calls: "bs_calls st' = [\<lparr>cl_key = the_key, cl_tier = RiskTier.R2, cl_attempt = 1\<rparr>]"
    using the_answer by metis
  have empty: "bs_calls the_state = []" by (simp add: the_state_def)
  have keys: "write_keys (bs_calls st') = [the_key]" by (simp add: calls write_keys_def)
  have "new_write the_state st' = Some the_key"
    using keys by (simp add: new_write_def empty)
  then have "broker_step ''t1'' the_state (Some the_key) st'"
    using broker_step.call [OF _ call, of "''t1''"] by (simp add: the_broker_def broker_parts)
  then have run: "labelled_run (broker_step ''t1'') the_state [the_key] st'"
    by (meson labelled_run.stop labelled_run.take)
  from write_effect_at_most_once [OF run empty] keys have "claimed ''t1'' (bs_claims st') the_key"
    by simp
  then show ?thesis using run keys by blast
qed

text \<open>
  C3. An accepted request never comes from an external system, never leaves FAILED, moves
  AWAITING_APPROVAL to REMEDIATING only on behalf of a human, enters a terminal status only
  with a termination reason, and re-opens a terminal status only for a human with a non-
  blank justification.
\<close>

theorem transition_authority:
  assumes "assert_transition_allowed r = Inr t"
  shows "rq_actor r \<noteq> ActorType.EXTERNAL_SYSTEM \<and> rq_source r \<noteq> IncidentStatus.FAILED \<and>
     (rq_source r = IncidentStatus.AWAITING_APPROVAL \<and> rq_target r = IncidentStatus.REMEDIATING \<longrightarrow>
        rq_actor r = ActorType.HUMAN) \<and>
     (is_terminal (rq_target r) \<longrightarrow> rq_reason r \<noteq> None) \<and>
     (is_terminal (rq_source r) \<and> \<not> is_terminal (rq_target r) \<longrightarrow>
        rq_actor r = ActorType.HUMAN \<and> \<not> blank_justification (rq_justification r))"
  using assms row_no_external [of t] row_failed_final [of t] row_terminal_needs_reason [of t]
    row_remediating_after_approval [of t "rq_actor r"] row_leaves_terminal_by_human [of t]
  by (auto simp: assert_Inr_iff)

theorem transition_authority_witness:
  "rq_actor \<lparr>rq_source = IncidentStatus.AWAITING_APPROVAL, rq_target = IncidentStatus.REMEDIATING,
     rq_actor = ActorType.HUMAN, rq_reason = None, rq_justification = None\<rparr>
     \<noteq> ActorType.EXTERNAL_SYSTEM"
proof -
  let ?r = "\<lparr>rq_source = IncidentStatus.AWAITING_APPROVAL, rq_target = IncidentStatus.REMEDIATING,
     rq_actor = ActorType.HUMAN, rq_reason = None, rq_justification = None\<rparr>"
  have "is_ok (assert_transition_allowed ?r)"
    by (simp add: is_ok_assert_iff table_simps)
  then have "\<exists>t. assert_transition_allowed ?r = Inr t"
    by (auto simp: is_ok_def split: sum.splits)
  then show ?thesis using transition_authority [of ?r] by blast
qed

text \<open>
  C4. A broker call that reaches an adapter has behind it everything the pipeline promises.
  Its menu is the one in force: resolved from the current grants when the call has an effect
  or nothing is cached, the cached one otherwise. The contract declares the capability, the
  tenant and incident are the broker's own, and the tool that was dispatched is the menu's,
  enabled and within the risk ceiling; a remediation write is backed by an executing action
  that its policy and approval allow. The calls that were added are those of the attempts
  with exactly this tool, on the arguments bound for it, under the execution key computed
  from them, the result reports those attempts, and a write has just claimed that key, which
  nobody had claimed.
\<close>

theorem dispatch_rests_on_authority:
  assumes "invoke b st q c ci = (r, st')" and "bs_calls st' \<noteq> bs_calls st"
  shows "\<exists>g menu p connector scope bound key n failure payload.
    menu_in_force b st q c menu \<and> authorized b (bs_db st) q c menu g (ci_now ci) \<and>
    provider_for b (gc_descriptor g) = Inr p \<and>
    connector_for b (bs_db st) q (gc_descriptor g) p = Inr connector \<and>
    resolve_arguments (br_scope b) (gc_descriptor g) (cr_service q) = Inr scope \<and>
    bind_arguments (br_parsers b) (gc_descriptor g) (cr_arguments q) scope = Inr bound \<and>
    execution_key b q (gc_descriptor g) bound (ci_observation_id ci) = Inr key \<and>
    attempt_loop (\<lambda>k. one_attempt p (gc_descriptor g) bound (invocation b g connector key k))
      (gc_descriptor g) (nat (td_max_attempts (gc_descriptor g))) 0 None = (n, failure, payload) \<and>
    bs_calls st' = bs_calls st @ calls_made key (td_risk_tier (gc_descriptor g)) n \<and>
    (case r of Inl e \<Rightarrow> True
      | Inr res \<Rightarrow> res = executed_result q (gc_descriptor g) scope ci n failure payload) \<and>
    (if td_risk_tier (gc_descriptor g) = RiskTier.RO then True
     else \<not> claimed (is_tenant (br_scope b)) (bs_claims st) key \<and>
       claimed (is_tenant (br_scope b)) (bs_claims st') key)"
proof -
  have "\<not> quiet b st q r st'" using assms(2) by (simp add: quiet_def)
  then have "sent b st q c ci r st'" using invoke_cases [OF assms(1)] by blast
  then show ?thesis by (rule sent_rests_on)
qed

theorem dispatch_rests_on_authority_witness:
  "\<exists>g menu key n. menu_in_force the_broker the_state the_request G9_REMEDIATION_EXECUTOR menu \<and>
     authorized the_broker (bs_db the_state) the_request G9_REMEDIATION_EXECUTOR menu g 10 \<and>
     calls_made key (td_risk_tier (gc_descriptor g)) n =
       [\<lparr>cl_key = the_key, cl_tier = RiskTier.R2, cl_attempt = 1\<rparr>] \<and>
     (if td_risk_tier (gc_descriptor g) = RiskTier.RO then True
      else \<not> claimed ''t1'' (bs_claims the_state) key)"
proof -
  obtain st' where
      call: "invoke the_broker the_state the_request G9_REMEDIATION_EXECUTOR the_inputs = (Inr the_result, st')"
    and calls: "bs_calls st' = [\<lparr>cl_key = the_key, cl_tier = RiskTier.R2, cl_attempt = 1\<rparr>]"
    using the_answer by metis
  have start: "bs_calls the_state = []" "is_tenant (br_scope the_broker) = ''t1''" "ci_now the_inputs = 10"
    by (simp_all add: the_state_def the_broker_def broker_parts)
  have "bs_calls st' \<noteq> bs_calls the_state" by (simp add: calls start)
  from dispatch_rests_on_authority [OF call this, unfolded start calls]
  show ?thesis by (elim exE conjE) (intro exI conjI, assumption, assumption, simp, auto split: if_splits)
qed

text \<open>
  C5. When require_write_authority lets a write pass and no policy row of the action allows
  it outright, a person who holds the approval permission for the environment and tier has
  approved it, the approval has not expired, and any action content with the approved
  version hash has the tool, version, tier, preconditions, canonical arguments and canonical
  scope of the action that is dispatched. Hypotheses: SHA-256 has no collision and
  identifiers are free of the separator.
\<close>

theorem approved_content_is_executed:
  assumes "require_write_authority ops db action d arguments environment service scope now = Inr ()"
    and "\<forall>p \<in> set (rd_policies db). pd_action p = ac_id action \<longrightarrow> pd_verdict p \<noteq> PolicyVerdict.ALLOW"
    and "inj (sha256_hex ops)" and "plain_action action"
  shows "\<exists>a. current_human_approval db action environment now a \<and>
    (\<forall>seen. plain_action seen \<and> current_version_hash ops seen = Inr (ap_version_hash a) \<longrightarrow>
       ac_id seen = ac_id action \<and> ac_tool_name seen = td_name d \<and>
       ac_tool_version seen = td_version d \<and> ac_risk_tier seen = td_risk_tier d \<and>
       ac_preconditions seen = td_preconditions d \<and>
       canonical_entries ops (ac_arguments seen) = canonical_entries ops (ac_arguments action) \<and>
       canonical_entries ops (ac_permission_scope seen) =
         canonical_entries ops (ac_permission_scope action) \<and>
       py_eq (PDict (ac_arguments action)) (PDict arguments))"
proof -
  have w: "write_permitted ops db action d arguments environment service scope now"
    by (rule require_write_authority_Inr [OF assms(1)])
  then obtain a where a: "current_human_approval db action environment now a"
    using assms(2) unfolding write_permitted_def by blast
  have m: "matches_descriptor action d arguments"
    and h: "current_version_hash ops action = Inr (ap_version_hash a)"
    using w a by (simp_all add: write_permitted_def current_human_approval_def)
  have "ac_id seen = ac_id action \<and> ac_tool_name seen = td_name d \<and>
       ac_tool_version seen = td_version d \<and> ac_risk_tier seen = td_risk_tier d \<and>
       ac_preconditions seen = td_preconditions d \<and>
       canonical_entries ops (ac_arguments seen) = canonical_entries ops (ac_arguments action) \<and>
       canonical_entries ops (ac_permission_scope seen) =
         canonical_entries ops (ac_permission_scope action) \<and>
       py_eq (PDict (ac_arguments action)) (PDict arguments)"
    if "plain_action seen" "current_version_hash ops seen = Inr (ap_version_hash a)" for seen
    using same_hash_same_content [OF assms(3) that(1) assms(4) that(2) h] m
    by (simp add: matches_descriptor_def del: py_eq.simps)
  then show ?thesis using a by blast
qed

theorem approved_content_is_executed_witness:
  "\<exists>a. current_human_approval the_remediation the_action ''e1'' 10 a"
proof -
  have auth: "require_write_authority plain_ops the_remediation the_action K8S_NODE_UNCORDON
      [(''node'', PStr ''n1'')] ''e1'' ''svc'' the_resolved 10 = Inr ()"
    by code_simp
  have pol: "\<forall>p \<in> set (rd_policies the_remediation). pd_action p = ac_id the_action \<longrightarrow>
      pd_verdict p \<noteq> PolicyVerdict.ALLOW"
    by (simp add: the_remediation_def)
  have inj: "inj (sha256_hex plain_ops)" by (simp add: plain_ops_def)
  have plain: "plain_action the_action"
    by (simp add: plain_action_def the_action_def unsigned_action_def SEPARATOR_def)
  from approved_content_is_executed [OF auth pol inj plain] show ?thesis by blast
qed

text \<open>
  C6. A pass of the remediation graph always ends, for every model, tool, clock and
  database: it stops after at most six supersteps or an exception, and never reaches the
  recursion limit of 25, since the executor hands on only an action with a time of execution
  and the verifier routes back to it only before there is one. Hypothesis: a row that
  succeeded has its time of execution, which every node preserves.
\<close>

theorem remediation_pass_ends:
  assumes "rows_executed (rw_db w)"
  shows "case fst (run_graph g inp s w) of
      Finished nodes s' \<Rightarrow> length nodes \<le> 6 | Raised e \<Rightarrow> True | Exhausted \<Rightarrow> False"
  using run_graph_ends [OF assms, of RECURSION_LIMIT g inp 0 s]
  by (simp add: run_graph_def bounded_def RECURSION_LIMIT_def)

theorem remediation_pass_ends_witness:
  "fst (run_graph the_graph (\<lambda>i. the_node_inputs) start_state the_world) \<noteq> Exhausted"
proof -
  have "rows_executed (rw_db the_world)"
    by (simp add: rows_executed_def the_world_def rw_db_def the_state_def the_remediation_def the_action_def
        unsigned_action_def)
  from remediation_pass_ends [OF this, of the_graph "\<lambda>i. the_node_inputs" start_state] show ?thesis
    by (auto split: drive_outcome.splits)
qed

text \<open>
  C7. Over any sequence of executor passes of a tenant, committed or rolled back by a crash,
  whatever the arguments and keys of the actions, an action is claimed for dispatch at most
  once; no write leaves the system twice under one execution key, every key a write went out
  under has its claim row, and at most one of those keys is the action's, so its write
  leaves the system at most once.
\<close>

theorem action_claimed_at_most_once:
  assumes "(executor_step tenant)\<^sup>*\<^sup>* w w'" and "action \<noteq> ''None''"
    and "length (action_claims tenant action w) \<le> 1" and "writes_claimed tenant w"
  shows "length (action_claims tenant action w') \<le> 1 \<and>
    distinct (write_keys (bs_calls (rw_broker w'))) \<and>
    list_all (claimed tenant (bs_claims (rw_broker w'))) (write_keys (bs_calls (rw_broker w'))) \<and>
    length (action_writes tenant action w') \<le> 1"
proof -
  note claims = executor_run_claims [OF assms(1-3)] and writes = executor_run_writes [OF assms(1,4)]
  show ?thesis using claims writes one_claim_one_write [OF writes claims] by (simp add: writes_claimed_def)
qed

theorem action_claimed_at_most_once_witness:
  "length (action_claims ''t1'' ''a1''
     (snd (remediation_executor the_ops the_node the_node_inputs the_ref the_world))) \<le> 1 \<and>
   length (action_writes ''t1'' ''a1''
     (snd (remediation_executor the_ops the_node the_node_inputs the_ref the_world))) \<le> 1"
proof -
  let ?run = "remediation_executor the_ops the_node the_node_inputs the_ref the_world"
  have "nd_tenant the_node = ''t1''" "is_tenant (br_scope (nd_broker the_node)) = ''t1''"
    by (simp_all add: the_node_def the_broker_def broker_parts)
  then have "executor_step ''t1'' the_world (snd ?run)"
    by (rule executor_step.committed) (rule prod.collapse [symmetric])
  then have steps: "(executor_step ''t1'')\<^sup>*\<^sup>* the_world (snd ?run)" by blast
  have start: "length (action_claims ''t1'' ''a1'' the_world) \<le> 1" "writes_claimed ''t1'' the_world"
    by (simp_all add: action_claims_def writes_claimed_def write_keys_def the_world_def the_state_def)
  from action_claimed_at_most_once [OF steps _ start] show ?thesis by simp
qed

text \<open>
  C8. A run that asks require_headroom before each charge stays strictly below the policy
  limit of every dimension, starting from a fresh budget; in particular the charges accepted
  on a dimension sum to less than its limit.
\<close>

theorem guarded_steps_stay_within_budget:
  assumes "policy_from_dict raw = Inr p" and "\<forall>c \<in> set cs. c_elapsed c = 0"
    and "guarded_run (budget_initial (Some p)) cs = Inr b"
  shows "(\<Sum>c\<leftarrow>cs. charged_for c k) < limit_for p k \<and> exhausted_kind b = None"
proof -
  have "exhausted_kind (budget_initial (Some p)) = None"
    using valid_policy_limits [OF policy_from_dict_valid [OF assms(1)]]
    by (simp add: exhausted_kind_None_iff budget_initial_def empty_ledger_consumed)
  then have none: "exhausted_kind b = None"
    using guarded_run_not_exhausted [OF assms(3)] assms(2) by blast
  then show ?thesis
    using guarded_run_consumed [OF assms(3), of k]
    by (simp add: exhausted_kind_None_iff budget_initial_def empty_ledger_consumed) metis
qed

theorem guarded_steps_stay_within_budget_witness:
  "\<exists>b. guarded_run (budget_initial (Some default_policy)) [no_charge\<lparr>c_iterations := 1\<rparr>] = Inr b \<and>
     exhausted_kind b = None"
proof -
  let ?c = "no_charge\<lparr>c_iterations := 1\<rparr>"
  have p: "policy_from_dict (policy_to_dict default_policy) = Inr default_policy"
    by (rule policy_roundtrip [OF default_policy_valid])
  have z: "\<forall>c \<in> set [?c]. c_elapsed c = 0" by (simp add: no_charge_def)
  obtain b where b: "guarded_run (budget_initial (Some default_policy)) [?c] = Inr b"
    by (auto simp: budget_initial_def require_headroom_def charge_def ledger_charge_def
        exhausted_kind_def EXHAUSTION_ORDER_def default_policy_def default_simps
        empty_ledger_def no_charge_def)
  then show ?thesis using guarded_steps_stay_within_budget [OF p z b] by blast
qed

text \<open>
  C9. A result the broker reports as succeeded is either the replay of a recorded execution
  that was not a failure, with an empty payload, or comes from an answer of one of the
  broker's own providers that passed result validation, is carried unchanged, and has just
  been recorded as succeeded. The hypothesis that an attempt was made holds for every
  descriptor that constructs.
\<close>

theorem success_is_never_invented:
  assumes "invoke b st q c ci = (Inr res, st')" and "result_succeeded res" and "0 < res_attempts res"
  shows "(\<exists>e \<in> set (bk_executions (bs_db st)). res_execution res = Some (ex_id e) \<and>
      ex_outcome e \<in> {None, Some ToolExecutionOutcome.SUCCEEDED} \<and> res_payload res = [] \<and>
      bs_calls st' = bs_calls st) \<or>
    (\<exists>p \<in> set (br_providers b). \<exists>d bound context raw. td_name d = res_tool_name res \<and>
      pv_invoke p d bound context = Inr raw \<and> validate_result d raw = Inr (res_payload res) \<and>
      (\<exists>e. bk_executions (bs_db st') = bk_executions (bs_db st) @ [e] \<and>
         ex_outcome e = Some ToolExecutionOutcome.SUCCEEDED \<and> res_execution res = Some (ex_id e)))"
  using invoke_cases [OF assms(1)]
proof
  assume "quiet b st q (Inr res) st'"
  then show ?thesis using assms(2) by (rule quiet_success)
next
  assume "sent b st q c ci (Inr res) st'"
  then show ?thesis using assms(2,3) by (rule sent_success)
qed

theorem success_is_never_invented_witness:
  "\<exists>(p :: provider) (d :: ToolDescriptor) bound context raw. pv_invoke p d bound context = Inr raw \<and>
     validate_result d raw = Inr (res_payload the_result)"
proof -
  obtain st' where
    call: "invoke the_broker the_state the_request G9_REMEDIATION_EXECUTOR the_inputs = (Inr the_result, st')"
    using the_answer by metis
  have "result_succeeded the_result"
    by (simp add: result_succeeded_def the_result_def executed_result_def outcome_of_def)
  from success_is_never_invented [OF call this] show ?thesis
    by (simp add: the_broker_def broker_parts the_result_def executed_result_def) blast
qed

text \<open>
  C10. A pass of the executor over an action whose dispatch was interrupted (an intent, an
  effect claim or a receipt exists) claims no effect again, and it closes the action only as
  the evidence allows: failed clean when nothing was claimed and no receipt exists or the
  receipt says so, failed partial only when an effect may have occurred, succeeded never
  against a clean failure.
\<close>

theorem interrupted_dispatch_is_not_repeated:
  assumes "remediation_executor ops d inp ref w = (Inr u, w')"
    and "find_run_action d (rf_action ref) w = (Inr a, w)"
    and "ac_status a \<notin> {RemediationActionStatus.SUCCEEDED, RemediationActionStatus.FAILED_CLEAN,
      RemediationActionStatus.FAILED_PARTIAL}"
    and "evidence_interrupted (dispatch_evidence (rw_broker w) (nd_tenant d) a)"
  shows "(\<exists>s. supported_by (dispatch_evidence (rw_broker w) (nd_tenant d) a) s \<and> with_status d a s w') \<and>
    (\<forall>x. x = ''None'' \<or> action_claims (nd_tenant d) x w' = action_claims (nd_tenant d) x w)"
  using interrupted_pass [OF assms(1-3) refl assms(4)] by blast

theorem interrupted_dispatch_is_not_repeated_witness:
  "\<exists>w'. snd (remediation_executor the_ops the_node the_node_inputs the_ref interrupted_world) = w' \<and>
     with_status the_node the_action RemediationActionStatus.FAILED_CLEAN w'"
proof -
  let ?v = "dispatch_evidence (rw_broker interrupted_world) (nd_tenant the_node) the_action"
  obtain u w' where run: "remediation_executor the_ops the_node the_node_inputs the_ref interrupted_world = (Inr u, w')"
    by (rule interrupted_run)
  have open_: "ac_status the_action \<notin> {RemediationActionStatus.SUCCEEDED, RemediationActionStatus.FAILED_CLEAN,
      RemediationActionStatus.FAILED_PARTIAL}"
    by (simp add: the_action_def unsigned_action_def)
  have "evidence_interrupted ?v" by (simp add: interrupted_evidence evidence_interrupted_def)
  from interrupted_dispatch_is_not_repeated [OF run interrupted_found open_ this]
  obtain s where "supported_by ?v s" "with_status the_node the_action s w'" by blast
  moreover have "supported_by ?v s \<Longrightarrow> s = RemediationActionStatus.FAILED_CLEAN"
    by (cases s) (simp_all add: supported_by_def interrupted_evidence evidence_clean)
  ultimately show ?thesis using run by simp
qed

text \<open>
  C11. When the verifier hands on the target status resolved, this pass has appended exactly
  one verification row, for this action and tenant, with the verdict verified: the action's
  tool has a registered latency profile that the frozen criteria of the action equal and by
  which the value was judged, the target is the one of the action, its settling time has
  passed since the recorded execution, the baseline is a trusted row of this action taken
  before that execution, and the recorded value is below 0.25 and below the baseline.
\<close>

theorem resolution_only_on_verified:
  assumes "verifier ops d inp ref w = (Inr u, w')"
    and "(''target_incident_status'', UText (IncidentStatus_value IncidentStatus.RESOLVED)) \<in> set u"
    and "find_run_action d (rf_action ref) w = (Inr a, w)"
  shows "\<exists>b p target executed_at tool v x.
    b \<in> set (rw_baselines w) \<and> bl_action b = ac_id a \<and> ac_executed_at a = Some executed_at \<and>
    ac_tool_name a \<in> set PROFILE_TOOLS \<and> p \<in> {LATENCY_RECOVERY_V1, LATENCY_RECOVERY_V2} \<and>
    profile_for_criteria (ac_tool_name a) (ac_criteria a) = Inr p \<and>
    py_eq (PDict (profile_to_dict p)) (PDict (ac_criteria a)) \<and>
    target \<in> set (rd_targets (rw_db w)) \<and> tg_id target = ac_target a \<and>
    andThen registry_remediation_full (\<lambda>r. by_name r (ac_tool_name a)) = Inr (tool :: ToolDescriptor) \<and>
    executed_at + microseconds (td_settling_seconds tool) \<le> ni_clock inp 403 \<and>
    rw_verifications w' = rw_verifications w @ [v] \<and>
    records_verified ops d p (ac_criteria a) b a executed_at target (ni_clock inp 410) w v \<and>
    ve_verdict v = VerificationVerdict.VERIFIED \<and> ve_action v = ac_id a \<and> ve_tenant v = nd_tenant d \<and>
    ve_baseline v = Some (bl_id b) \<and> ve_criteria_hash v = ac_criteria_hash a \<and>
    baseline_trusted ops d p b a target executed_at (ni_clock inp 410) w \<and>
    ve_value v = Some x \<and> x < 25 / 100 \<and> x < bl_value b"
proof -
  have res: "resolves u" using assms(2) by (simp add: resolves_def)
  obtain b p target e tool v where
    b: "b \<in> set (rw_baselines w)" "bl_action b = ac_id a" "ac_executed_at a = Some e"
    and p: "profile_for_criteria (ac_tool_name a) (ac_criteria a) = Inr p"
    and t: "target \<in> set (rd_targets (rw_db w))" "tg_id target = ac_target a"
      "andThen registry_remediation_full (\<lambda>r. by_name r (ac_tool_name a)) = Inr (tool :: ToolDescriptor)"
      "e + microseconds (td_settling_seconds tool) \<le> ni_clock inp 403"
    and v: "rw_verifications w' = rw_verifications w @ [v]"
      "records_verified ops d p (ac_criteria a) b a e target (ni_clock inp 410) w v"
    by (rule verifier_resolves [OF assms(1) res assms(3)]) (elim exE conjE, rule that)
  note numbers = records_verified_numbers [OF v(2) p]
  obtain x where x: "ve_value v = Some x" "x < 25 / 100" "x < bl_value b"
    using numbers(7) by (elim exE conjE) (rule that)
  note reg = criteria_registered [OF p]
  show ?thesis
    by (rule exI [of _ b], rule exI [of _ p], rule exI [of _ target], rule exI [of _ e],
        rule exI [of _ tool], rule exI [of _ v], rule exI [of _ x])
      (intro conjI b p t v x numbers(1-6) conjunct1 [OF reg] conjunct1 [OF conjunct2 [OF reg]]
        conjunct2 [OF conjunct2 [OF reg]])
qed

theorem resolution_only_on_verified_witness:
  "\<exists>v x. rw_verifications (snd (verifier latency_ops latency_node latency_inputs the_ref executed_world)) =
       rw_verifications executed_world @ [v] \<and>
     ve_verdict v = VerificationVerdict.VERIFIED \<and> ve_value v = Some x \<and> x < 25 / 100"
proof -
  obtain u w' where run: "verifier latency_ops latency_node latency_inputs the_ref executed_world = (Inr u, w')"
    and "resolves u"
    by (rule verifier_resolves_incident)
  then have target: "(''target_incident_status'', UText (IncidentStatus_value IncidentStatus.RESOLVED)) \<in> set u"
    unfolding resolves_def by simp
  have "find_run_action latency_node (rf_action the_ref) executed_world = (Inr frozen_action, executed_world)"
    using frozen_found by (simp add: the_ref_def action_ref_def the_action_def unsigned_action_def)
  from resolution_only_on_verified [OF run target this] show ?thesis
    unfolding run snd_conv by (elim exE conjE) (intro exI conjI)
qed

text \<open>
  C12. Every action row that a planner pass adds, whatever the model answers, takes tool,
  version, risk tier, preconditions, rollback, timeout, approval requirement and scope from
  a capability granted on the executor's menu and from the run, is never tier R3, has a
  rollback when it writes, carries the hash of its own content and the criteria of a
  registered profile, and starts as proposed.
\<close>

theorem planner_action_from_registry:
  "set (rd_actions (rw_db (snd (remediation_planner ops d pl inp known snapshot w)))) \<subseteq>
     set (rd_actions (rw_db w)) \<union>
     {a. \<exists>menu st. menu_for (nd_broker d) (rw_broker w) G9_REMEDIATION_EXECUTOR False = (Inr menu, st) \<and>
        from_registry d pl menu a}"
proof
  fix a
  assume a: "a \<in> set (rd_actions (rw_db (snd (remediation_planner ops d pl inp known snapshot w))))"
  obtain r w' where run: "remediation_planner ops d pl inp known snapshot w = (r, w')" by fastforce
  show "a \<in> set (rd_actions (rw_db w)) \<union>
     {a. \<exists>menu st. menu_for (nd_broker d) (rw_broker w) G9_REMEDIATION_EXECUTOR False = (Inr menu, st) \<and>
        from_registry d pl menu a}"
    using planner_new_rows [OF run, of a] a run by auto
qed

text \<open>
  C13. When the kernel drives an active run whose incident stays visible, six supersteps of
  the graph decide the outcome, also when something raises, and the invocation leaves the
  run settled with its lease released: dead-lettered, with the exception passed on, when one
  of them raised; otherwise the terminated flag of the graph's last state decides, which
  completes the run at the finishing instant or suspends it, and the outcome reports that
  flag, the nodes executed and the status the incident really has.
\<close>

theorem driven_run_is_settled:
  assumes "run_driven cx w" "rows_executed (rw_db (kw_world w))"
    and "find_incident (cx_tenant cx) (cx_incident cx) (snd (drive_run k cx inp s w)) = Inr incident"
  shows "settled_by (fst (kernel_loop k cx inp 0 6 PLANNER s w)) cx (ki_finished_at inp) incident
     (fst (drive_run k cx inp s w)) (snd (drive_run k cx inp s w))"
  by (rule drive_run_settles [OF assms])

theorem driven_run_is_settled_witness:
  "\<exists>incident w D. w = the_kernel_world (a_run WorkflowRunStatus.RUNNING (Some (''worker-a'', 10))) \<and>
     D = drive_run the_kernel the_context the_kernel_inputs (start_state\<lparr>rs_terminated := True\<rparr>) w \<and>
     settled_by (fst (kernel_loop the_kernel the_context the_kernel_inputs 0 6 PLANNER
         (start_state\<lparr>rs_terminated := True\<rparr>) w))
       the_context (ki_finished_at the_kernel_inputs) incident (fst D) (snd D)"
proof -
  let ?w = "the_kernel_world (a_run WorkflowRunStatus.RUNNING (Some (''worker-a'', 10)))"
  let ?s = "start_state\<lparr>rs_terminated := True\<rparr>"
  have rows: "rows_executed (rw_db (kw_world ?w))"
    using the_rows_executed by (simp add: the_kernel_world_def)
  obtain incident where "find_incident (cx_tenant the_context) (cx_incident the_context)
      (snd (drive_run the_kernel the_context the_kernel_inputs ?s ?w)) = Inr incident"
    using the_incident_found [OF terminal_drive] by (auto simp: the_context_def)
  note driven = driven_run_is_settled [OF the_run_driven rows this]
  show ?thesis by (intro exI conjI, rule refl, rule refl, rule driven)
qed

text \<open>
  C14. After a worker claims the lease of a run, an attempt of any other worker to resume
  that run until the lease expires raises and changes nothing.
\<close>

theorem lease_excludes_other_workers:
  assumes "run_of (wr_tenant r) (wr_id r) w = Some r" "distinct (map wr_id (kw_runs w))"
    and "claim_lease owner now r w = Inr w1"
    and "kn_owner k \<noteq> owner" "ki_now inp \<le> now + LEASE_DURATION"
  shows "\<exists>e. resume_remediation k (wr_tenant r) (wr_id r) inp w1 = (Inl e, w1)"
  using unexpired_lease_excludes [OF claimed_lease(1) [OF assms(1-3)] claimed_lease(2) [OF assms(1-3)]]
    assms(4,5) by simp

theorem lease_excludes_other_workers_witness:
  "\<exists>w1. claim_lease ''worker-b'' 20 (a_run WorkflowRunStatus.RUNNING (Some (''worker-c'', 10)))
       (the_kernel_world (a_run WorkflowRunStatus.RUNNING (Some (''worker-c'', 10)))) = Inr w1 \<and>
     (\<exists>e. resume_remediation the_kernel ''t1'' ''r1'' the_kernel_inputs w1 = (Inl e, w1))"
proof -
  let ?r = "a_run WorkflowRunStatus.RUNNING (Some (''worker-c'', 10))"
  let ?w = "the_kernel_world ?r"
  have r: "wr_tenant ?r = ''t1''" "wr_id ?r = ''r1''" by (simp_all add: a_run_def)
  have own: "kn_owner the_kernel = ''worker-a''" "ki_now the_kernel_inputs = 0"
    by (simp_all add: the_kernel_def the_kernel_inputs_def)
  have the_world_runs: "kw_runs ?w = [?r]" by (simp add: the_kernel_world_def)
  obtain w1 where "claim_lease ''worker-b'' 20 ?r ?w = Inr w1"
    by (simp add: claim_lease_def the_kernel_world_def a_run_def is_run_def lease_free_def
        store_runs_def runs_allowed_def run_active_def)
  then show ?thesis
    using lease_excludes_other_workers [of ?r ?w "''worker-b''" 20 w1 the_kernel the_kernel_inputs]
    by (simp add: r own the_world_runs run_of_def is_run_def LEASE_DURATION_def microseconds_def)
qed

text \<open>
  C15. Every hypothesis that a run of the hypothesis engine stores names each evidence
  record once, only records of its own tenant and incident, and has a confidence of at most
  0.1 without support, 0.35 with counter-evidence, 0.4 with a single supporting record and
  0.95 otherwise, whatever confidence the model stated and whatever revision its reflection
  won.
\<close>

theorem stored_confidence_is_earned:
  assumes "linked db"
  shows "case fst (hypothesis_node d m now occurred s db models) of
     Inl e \<Rightarrow> True
   | Inr (u, db') \<Rightarrow> list_all (grounded d db') (drop (length (iv_hypotheses db)) (iv_hypotheses db'))"
  using store_output_grounded [OF _ assms]
  by (auto simp: hypothesis_node_def engine_recovers_def engine_update_def andThen_eq_Inr
      split: sum.splits option.splits prod.splits)

theorem stored_confidence_is_earned_witness:
  "\<exists>u db'. fst (hypothesis_node the_engine_deps the_engine_model 0 [] the_engine_state the_engine_db
      no_models) = Inr (u, db') \<and> map hy_confidence (iv_hypotheses db') = [4 / 10] \<and>
     list_all (grounded the_engine_deps db') (iv_hypotheses db')"
proof -
  obtain u db' where r: "fst (hypothesis_node the_engine_deps the_engine_model 0 [] the_engine_state
      the_engine_db no_models) = Inr (u, db')" "map hy_confidence (iv_hypotheses db') = [4 / 10]"
    using the_engine_runs by (elim exE conjE) (rule that)
  have "list_all (grounded the_engine_deps db') (iv_hypotheses db')"
    using stored_confidence_is_earned [OF the_engine_db_linked(1), of the_engine_deps the_engine_model 0
        "[]" the_engine_state no_models] the_engine_db_linked(2) r(1)
    by simp
  then show ?thesis by (intro exI conjI) (rule r)+
qed

text \<open>
  C16. decide always returns a verdict, never assigns RESOLVED to an incident, gives a
  reason and a terminal status exactly when it stops, reports an unrecoverable failure
  before anything else, and escalates a cause only when some live hypothesis is actionable.
\<close>

theorem termination_decision_sound:
  "\<exists>v. Termination.decide i = Inr v \<and>
     tv_incident_status v \<noteq> Some IncidentStatus.RESOLVED \<and>
     (should_terminate v \<longleftrightarrow> tv_reason v \<noteq> None) \<and>
     (should_terminate v \<longleftrightarrow> (\<exists>st. tv_incident_status v = Some st \<and> is_terminal st)) \<and>
     (tv_incident_status v = Some IncidentStatus.FAILED \<longleftrightarrow>
        (\<exists>f \<in> set (ti_failures i). \<not> recoverable f)) \<and>
     (tv_incident_status v = Some IncidentStatus.ESCALATED \<longrightarrow>
        wants_to_stop i \<and> inputs_actionable i \<and> (\<exists>b. best_hypothesis i = Some b))"
proof (cases i rule: decide_cases)
  case failed
  then show ?thesis
    by (auto simp: verdict_simps is_terminal_def TERMINAL_STATES_def unrecoverable_failures_def
        filter_empty_conv)
qed (use inputs_actionable_best [of i] in
      \<open>auto simp: verdict_simps is_terminal_def TERMINAL_STATES_def unrecoverable_failures_def
        filter_empty_conv\<close>)

theorem termination_decision_sound_witness:
  "\<exists>v. Termination.decide \<lparr>ti_budget = budget_initial None, ti_hypotheses = [], ti_evidence_count = 0,
        ti_failures = [], ti_degraded_domains = [], ti_attempted_domains = [],
        ti_planner_action = Some PlannerAction.TERMINATE, ti_open_gaps = [],
        ti_budget_refusal = None, ti_reflection_action = None\<rparr> = Inr v \<and>
     tv_incident_status v \<noteq> Some IncidentStatus.RESOLVED"
  using termination_decision_sound by blast

text \<open>
  C17. The approval node sends a run on to execution only if an approval of the very version
  hash of the action is recorded as approved; a request, an elapsed window and every other
  decision stop or suspend the run.
\<close>

theorem approval_needed_to_execute:
  assumes "approval_service ops d inp ref w = (Inr u, w')"
    and "(''phase'', UText ''executing'') \<in> set u"
    and "find_run_action d (rf_action ref) w = (Inr a, w)"
  shows "\<exists>x \<in> set (rd_approvals (rw_db w)). ap_tenant x = nd_tenant d \<and> ap_action x = ac_id a \<and>
        ap_version_hash x = ac_version_hash a \<and> ap_decision x = ApprovalDecision.APPROVED"
  using approval_sends_on [OF assms(1) _ assms(3)] assms(2)
  unfolding sends_on_def approved_version_def by blast

theorem approval_needed_to_execute_witness:
  "\<exists>x \<in> set (rd_approvals (rw_db the_world)). ap_decision x = ApprovalDecision.APPROVED"
proof -
  have "case fst (approval_service the_ops the_node the_node_inputs the_ref the_world) of
      Inl e \<Rightarrow> False
    | Inr u \<Rightarrow> (case map_of u ''phase'' of Some (UText t) \<Rightarrow> t = ''executing'' | _ \<Rightarrow> False)"
    by code_simp
  then obtain u w' where run: "approval_service the_ops the_node the_node_inputs the_ref the_world = (Inr u, w')"
    and phase: "map_of u ''phase'' = Some (UText ''executing'')"
    by (cases "approval_service the_ops the_node the_node_inputs the_ref the_world") (auto split: sum.splits option.splits update_value.splits)
  have found: "find_run_action the_node (rf_action the_ref) the_world = (Inr the_action, the_world)"
    by (simp add: find_run_action_def sread_def the_world_def rw_db_def scalar_one_def the_state_def
        the_remediation_def the_node_def the_ref_def action_ref_def the_action_def unsigned_action_def)
  from approval_needed_to_execute [OF run map_of_SomeD [OF phase] found] show ?thesis by blast
qed

text \<open>
  C18. When the policy gate returns, either the one recorded decision of the action is
  replayed with nothing written, or there was none and the engine's verdict on the inputs
  read from the database is recorded as the only decision, with the action moved to the
  status of the verdict and the update that routes the run.
\<close>

theorem policy_gate_decides_once:
  assumes "policy_gate d inp ref w = (Inr u, w')"
    and "find_run_action d (rf_action ref) w = (Inr a, w)"
  shows "(\<exists>p. policy_rows (rw_db w) (nd_tenant d) (ac_id a) = [p] \<and> w' = w \<and>
       u = gate_update (pd_verdict p) (pd_rule p) (pd_signals p) ref) \<or>
    (\<exists>inputs res. policy_rows (rw_db w) (nd_tenant d) (ac_id a) = [] \<and>
       policy_inputs d inp a w = Inr inputs \<and> evaluate_policy inputs = Inr res \<and> decided_as d a res w' \<and>
       u = gate_update (pv_verdict res) (pv_rule_id res) (pv_ambiguity res)
         (ref\<lparr>rf_status := verdict_action_status (pv_verdict res)\<rparr>))"
proof -
  have "scalar_one_or_none (policy_rows (rw_db w) (nd_tenant d) (ac_id a)) \<noteq> Inl MultipleResultsFound"
    using assms by (auto simp: policy_gate_def sthen_def sread_def)
  then consider "policy_rows (rw_db w) (nd_tenant d) (ac_id a) = []"
    | p where "policy_rows (rw_db w) (nd_tenant d) (ac_id a) = [p]"
    by (auto simp: scalar_one_or_none_def split: list.splits)
  then show ?thesis
  proof cases
    case 1
    from gate_decides [OF assms 1] 1 show ?thesis by metis
  next
    case (2 p)
    from gate_replays [OF assms(2) 2, of inp] assms(1) 2 show ?thesis by auto
  qed
qed

theorem policy_gate_decides_once_witness:
  "\<exists>u w' res. policy_gate the_node the_node_inputs the_ref proposed_world = (Inr u, w') \<and>
     decided_as the_node (the_action\<lparr>ac_status := RemediationActionStatus.PROPOSED\<rparr>) res w'"
proof -
  have "is_ok (fst (policy_gate the_node the_node_inputs the_ref proposed_world))" by code_simp
  then obtain u w' where run: "policy_gate the_node the_node_inputs the_ref proposed_world = (Inr u, w')"
    by (cases "policy_gate the_node the_node_inputs the_ref proposed_world") (auto simp: is_ok_iff)
  let ?a = "the_action\<lparr>ac_status := RemediationActionStatus.PROPOSED\<rparr>"
  have found: "find_run_action the_node (rf_action the_ref) proposed_world = (Inr ?a, proposed_world)"
    by (simp add: find_run_action_def sread_def proposed_world_def rw_db_def with_db_def scalar_one_def
        the_node_def the_ref_def action_ref_def the_action_def unsigned_action_def)
  have "policy_rows (rw_db proposed_world) (nd_tenant the_node) (ac_id ?a) = []"
    by (simp add: policy_rows_def proposed_world_def rw_db_def with_db_def)
  with policy_gate_decides_once [OF run found] run show ?thesis by auto
qed

text \<open>
  C19. A memory proposal gets the provenance verified_fact exactly when it is a verified
  outcome with incidents and verifications cited, every reference resolved, and every
  resolved verification is verified, judged the frozen criteria, carries baseline and
  observation, has a valid lineage, belongs to an action that is itself verified and
  concerns a cited incident; nothing the proposer states and no actor confers it.
\<close>

theorem verified_provenance_is_evidenced:
  "md_origin_provenance (evaluate_memory r actor refs) = Some ProvenanceLabel.VERIFIED_FACT \<longleftrightarrow>
     mw_category r = MemoryCategory.VERIFIED_OUTCOME \<and> rr_missing refs = [] \<and>
     mw_verification_ids r \<noteq> [] \<and> mw_incident_ids r \<noteq> [] \<and>
     list_all (sound_evidence r) (rr_verifications refs)"
  unfolding list_all_iff by (rule verified_origin)

text \<open>
  C20. For a valid call and policy an execution of the retention lifecycle succeeds and
  removes exactly the oldest expired cache rows of its tenant, as many as its batches may
  take and none when it is a dry run or the class is held; it leaves one receipt per batch,
  each within the constraints of the table, whose counts add up to the rows removed, and a
  row is never expired before it is a day old.
\<close>

theorem retention_deletes_oldest_expired:
  assumes "call_valid c" "1 \<le> m" "m \<le> MAX_BATCHES"
    and "map_of (db_policies db) (rc_tenant c) = Some terms"
    and "validate_retention_policy terms = Inr resolved"
    and "distinct (map cache_id (db_cache db))"
  shows "\<exists>receipts db'. execute_retention c m new_id db = Inr (receipts, db') \<and>
     db_cache db' = survivors c (cache_cutoff resolved (rc_now c))
       (nat m * nat (rc_batch_limit c)) (db_cache db) \<and>
     sum_list (map re_deleted_rows receipts) =
       length (doomed c (cache_cutoff resolved (rc_now c))
         (nat m * nat (rc_batch_limit c)) (db_cache db)) \<and>
     length receipts \<le> nat m \<and> list_all receipt_allowed receipts \<and>
     db_receipts db' = db_receipts db @ receipts \<and> db_policies db' = db_policies db \<and>
     (case cache_cutoff resolved (rc_now c) of None \<Rightarrow> True
      | Some edge \<Rightarrow> edge \<le> rc_now c - DAY \<and> rc_now c - 365 * DAY \<le> edge)"
  using execute_retention_ok [OF assms, of new_id] cache_cutoff_bounds [OF assms(5)]
  by (auto split: option.splits)

theorem retention_deletes_oldest_expired_witness:
  "\<exists>receipts db'. execute_retention
      \<lparr>rc_tenant = ''t'', rc_now = 40 * DAY, rc_execution_id = ''x'', rc_executed_by = ''ops'',
       rc_execute = True, rc_batch_limit = 1\<rparr> 2 (\<lambda>n. nat_digits n)
      \<lparr>db_policies = [(''t'', Some [(''operational_cache'', PDict [(''days'', PInt 30)])])],
       db_cache = [\<lparr>cache_id = ''a'', cache_tenant = ''t'', cache_created = 39 * DAY\<rparr>,
                   \<lparr>cache_id = ''b'', cache_tenant = ''t'', cache_created = DAY\<rparr>],
       db_receipts = []\<rparr> = Inr (receipts, db') \<and>
     db_cache db' = [\<lparr>cache_id = ''a'', cache_tenant = ''t'', cache_created = 39 * DAY\<rparr>]"
proof -
  let ?c = "\<lparr>rc_tenant = ''t'', rc_now = 40 * DAY, rc_execution_id = ''x'', rc_executed_by = ''ops'',
    rc_execute = True, rc_batch_limit = 1\<rparr>"
  let ?db = "\<lparr>db_policies = [(''t'', Some [(''operational_cache'', PDict [(''days'', PInt 30)])])],
    db_cache = [\<lparr>cache_id = ''a'', cache_tenant = ''t'', cache_created = 39 * DAY\<rparr>,
                \<lparr>cache_id = ''b'', cache_tenant = ''t'', cache_created = DAY\<rparr>], db_receipts = []\<rparr>"
  obtain resolved where v: "validate_retention_policy
      (Some [(''operational_cache'', PDict [(''days'', PInt 30)])]) = Inr resolved"
    and k: "cache_cutoff resolved (40 * DAY) = Some (10 * DAY)"
    using operational_policy_example by blast
  show ?thesis
    using retention_deletes_oldest_expired [of ?c 2 ?db
        "Some [(''operational_cache'', PDict [(''days'', PInt 30)])]" resolved "\<lambda>n. nat_digits n"] v k
    by (auto simp: call_valid_def MAX_BATCH_LIMIT_def MAX_BATCHES_def survivors_def doomed_def
        oldest_expired_def expired_def DAY_def)
qed

text \<open>
  C21. When start opens a run, the incident is investigating, the behaviour version exists,
  an alert ties the service to the incident, a request given is the pending one for the same
  incident, hypothesis and service and ends linked to this run as started, the objective
  names the service row that the arguments select, the environment row of the incident and a
  live hypothesis row of it, all of the tenant, and freezes the scope to their names, one
  target row that repeats the objective is added, and exactly one running run of the tenant,
  incident and behaviour version, leased by this worker, is added within the one-active-run
  constraint.
\<close>

theorem started_run_is_justified:
  "case open_run k a inp w of
     Inl e \<Rightarrow> True
   | Inr (cx, w') \<Rightarrow>
       (\<exists>incident. find_incident (sa_tenant a) (sa_incident a) w = Inr incident \<and>
          ir_status incident = IncidentStatus.INVESTIGATING) \<and>
       sa_behaviour a \<in> set (kw_behaviours w) \<and>
       (sa_tenant a, sa_incident a, sa_service a) \<in> set (kw_alerts w) \<and>
       (sa_request a = None \<or> list_ex (pending_request a) (kw_requests w)) \<and>
       bound_objective a w (cx_objective cx) \<and>
       (\<exists>t. rd_targets (rw_db (kw_world w')) = rd_targets (rw_db (kw_world w)) @ [t] \<and>
          target_of_objective (cx_objective cx) t) \<and>
       runs_allowed (kw_runs w') \<and>
       list_all (\<lambda>q. if kr_tenant q = sa_tenant a \<and> sa_request a = Some (kr_id q)
          then kr_run q = Some (ki_run inp) \<and> kr_status q = ''started'' else True) (kw_requests w') \<and>
       (\<exists>r. kw_runs w' = kw_runs w @ [r] \<and> wr_id r = ki_run inp \<and> wr_tenant r = sa_tenant a \<and>
          wr_incident r = sa_incident a \<and> wr_behaviour r = sa_behaviour a \<and>
          wr_status r = WorkflowRunStatus.RUNNING \<and> wr_lease_owner r = Some (kn_owner k))"
proof (cases "open_run k a inp w")
  case (Inr p)
  obtain cx w' where p: "p = (cx, w')" by (cases p)
  note j = open_run_justified [OF Inr [unfolded p]]
  show ?thesis
    unfolding Inr p sum.case prod.case
    by (intro conjI j(1-7,9)) (use j(8) in \<open>simp add: list_all_iff\<close>)
qed simp

text \<open>
  C22. When resume reopens a run, the run is not completed or failed, its lease was free for
  this worker, its newest checkpoint passes its own digest, and the state it goes on with
  takes the action, decision, approval, verification and baseline references from the rows
  of the database as they are now, with no failures, bound to the immutable target of the
  run whose frozen scope equals that of the objective; the remediation tables are unchanged.
\<close>

theorem resume_rebuilds_from_rows:
  "case reopen_run k tenant run now w of
     Inl e \<Rightarrow> True
   | Inr (cx, s, w') \<Rightarrow>
       (\<exists>r c refs. is_run tenant run r \<and>
          wr_status r \<notin> {WorkflowRunStatus.COMPLETED, WorkflowRunStatus.FAILED} \<and>
          list_ex (\<lambda>q. is_run tenant run q \<and> lease_free (kn_owner k) now q) (kw_runs w) \<and>
          latest_checkpoint tenant run (kw_checkpoints w) = Some c \<and>
          flat_digest (kn_keys k) (ck_state c) = ck_digest c \<and>
          durable_references tenant run (kw_world w) = Inr refs \<and>
          rs_action s = dr_action refs \<and> rs_policy s = dr_policy refs \<and>
          rs_approval s = dr_approval refs \<and> rs_verification s = dr_verification refs \<and>
          rs_baseline_captured s = dr_baseline refs \<and> rs_failures s = [] \<and>
          (\<exists>t \<in> set (rd_targets (rw_db (kw_world w))). tg_run t = run \<and> tg_tenant t = tenant \<and>
             tg_incident t = wr_incident r \<and> ob_hypothesis (cx_objective cx) = tg_hypothesis t \<and>
             ob_service (cx_objective cx) = tg_service t \<and>
             ob_environment (cx_objective cx) = tg_environment t \<and>
             py_eq (PDict (ob_scope (cx_objective cx))) (PDict (tg_scope t)))) \<and>
       kw_world w' = kw_world w"
proof (cases "reopen_run k tenant run now w")
  case (Inr p)
  obtain cx s w' where p: "p = (cx, s, w')" by (cases p)
  obtain r w1 c where
    r: "is_run tenant run r" "wr_status r \<notin> {WorkflowRunStatus.COMPLETED, WorkflowRunStatus.FAILED}"
    and cl: "claim_lease (kn_owner k) now r w = Inr w1"
    and cx: "reopen_context tenant r w1 = Inr (cx, c)"
    and s: "rehydrate (kn_keys k) c (cx_identity cx) (kw_world w) = Inr s" "kw_world w' = kw_world w"
    by (rule reopen_run_rests_on [OF Inr [unfolded p]])
  have id: "wr_id r = run" "wr_tenant r = tenant" using r(1) by (simp_all add: is_run_def)
  have kw: "kw_world w1 = kw_world w" "kw_checkpoints w1 = kw_checkpoints w"
    "list_ex (\<lambda>q. is_run tenant run q \<and> lease_free (kn_owner k) now q) (kw_runs w)"
    using claim_leaseD [OF cl] by (simp_all add: id)
  note cxD = reopen_contextD [OF cx, unfolded id kw(1,2)]
  have d: "flat_digest (kn_keys k) (ck_state c) = ck_digest c"
    using s(1) by (auto simp: rehydrate_def Let_def split: if_splits)
  obtain refs where refs: "durable_references tenant run (kw_world w) = Inr refs"
    "rs_action s = dr_action refs" "rs_policy s = dr_policy refs" "rs_approval s = dr_approval refs"
    "rs_verification s = dr_verification refs" "rs_baseline_captured s = dr_baseline refs"
    "rs_failures s = []"
    using rehydrate_durable [OF s(1)] cxD(2,3) by auto
  show ?thesis
    unfolding Inr p sum.case prod.case
    by (intro conjI exI [of _ r] exI [of _ c] exI [of _ refs])
      (rule r kw(3) cxD(1) d refs s(2) cxD(5))+
qed simp

text \<open>
  C23. The newest checkpoint after a write is the one written, and rehydrating it gives back
  the phase, the termination fields and the budget of the state it was written from, the
  references of the database rows for the rest, and no failures.
\<close>

theorem checkpoint_roundtrip:
  assumes "valid_policy (policy budget)"
    and "write_checkpoint ops identity correlation s reason after budget now rows = Inr rows'"
  shows "\<exists>c. latest_checkpoint (ri_tenant_id identity) (ri_workflow_run_id identity) rows' = Some c \<and>
     rehydrate ops c identity w =
       andThen (durable_references (ri_tenant_id identity) (ri_workflow_run_id identity) w) (\<lambda>refs.
         Inr \<lparr>rs_phase = rs_phase s, rs_action = dr_action refs, rs_policy = dr_policy refs,
              rs_approval = dr_approval refs, rs_verification = dr_verification refs,
              rs_baseline_captured = dr_baseline refs, rs_budget = Some (budget_snapshot budget),
              rs_failures = [], rs_terminated = rs_terminated s, rs_reason = rs_reason s,
              rs_target_status = rs_target_status s\<rparr>)"
proof -
  have "budget_from_dict (budget_to_dict budget) = Inr budget"
    using assms(1) by (simp add: budget_from_dict_def budget_to_dict_def policy_roundtrip ledger_roundtrip)
  then show ?thesis
    using latest_written [OF assms(2)]
    by (auto simp: rehydrate_def serialise_def dict_get_def stored_text_def opt_str_def Let_def
        intro!: arg_cong2 [where f = andThen] split: option.splits)
qed

theorem checkpoint_roundtrip_witness:
  "\<exists>c. latest_checkpoint ''t1'' ''r1''
       [\<lparr>ck_tenant = ''t1'', ck_run = ''r1'', ck_incident = ''i1'', ck_sequence = 1,
         ck_after_node = None, ck_reason = ''terminal'',
         ck_state = serialise (start_state\<lparr>rs_terminated := True\<rparr>),
         ck_digest = flat_digest plain_ops (serialise (start_state\<lparr>rs_terminated := True\<rparr>)),
         ck_budget = budget_to_dict (budget_initial None), ck_behaviour = ''b1'',
         ck_correlation = ''c1'', ck_taken_at = 7\<rparr>] = Some c \<and>
     (case rehydrate plain_ops c (cx_identity the_context) the_world of
        Inl e \<Rightarrow> True | Inr s \<Rightarrow> rs_phase s = ''planning'' \<and> rs_terminated s)"
proof -
  let ?s = "start_state\<lparr>rs_terminated := True\<rparr>"
  obtain c where c: "latest_checkpoint ''t1'' ''r1''
       [\<lparr>ck_tenant = ''t1'', ck_run = ''r1'', ck_incident = ''i1'', ck_sequence = 1,
         ck_after_node = None, ck_reason = ''terminal'', ck_state = serialise ?s,
         ck_digest = flat_digest plain_ops (serialise ?s),
         ck_budget = budget_to_dict (budget_initial None), ck_behaviour = ''b1'',
         ck_correlation = ''c1'', ck_taken_at = 7\<rparr>] = Some c"
    "rehydrate plain_ops c (cx_identity the_context) the_world =
       andThen (durable_references ''t1'' ''r1'' the_world) (\<lambda>refs.
         Inr \<lparr>rs_phase = rs_phase ?s, rs_action = dr_action refs, rs_policy = dr_policy refs,
              rs_approval = dr_approval refs, rs_verification = dr_verification refs,
              rs_baseline_captured = dr_baseline refs,
              rs_budget = Some (budget_snapshot (budget_initial None)),
              rs_failures = [], rs_terminated = rs_terminated ?s, rs_reason = rs_reason ?s,
              rs_target_status = rs_target_status ?s\<rparr>)"
    using checkpoint_roundtrip [of "budget_initial None" plain_ops "cx_identity the_context" "''c1''" ?s
        "''terminal''" None 7 "[]" _ the_world]
    by (auto simp: budget_initial_def default_policy_valid the_context_def write_checkpoint_Inr
        high_water_def run_checkpoints_def CHECKPOINT_REASONS_def)
  then show ?thesis
    by (intro exI [of _ c]) (auto simp: start_state_def andThen_eq_Inr split: sum.splits)
qed

text \<open>
  C24. When the investigation planner returns an update, the run goes on to collect evidence
  exactly when one step row was added for the decided domain: a domain whose capability is
  on the menu of the run, chosen without an override, under the next sequence number, with
  the iteration counted; in every other case, an exhausted budget, a failed model call and
  an overridden or other choice included, no step is stored.
\<close>

theorem planned_step_is_granted:
  "case fst (investigation_planner d m now occurred new_id s rows models) of
     Inl e \<Rightarrow> True
   | Inr (u, rows') \<Rightarrow> step_accounted d s rows u rows'"
  using planner_accounted [of d m now occurred new_id s rows models]
  by (auto split: sum.splits prod.splits)

text \<open>
  C25. When bind_arguments returns, the caller named only declared arguments and none that
  the scope resolves, and every declared argument was taken from the one place allowed for
  it: a scope-resolved one from the resolved scope, any other from the caller, coerced; only
  an optional argument the caller left out is missing. For every tool of the shipped
  catalogues this holds of the tenant and the environment: the caller named neither, and
  both were bound from the resolved scope.
\<close>

theorem bound_arguments:
  assumes "descriptor_post_init d = Inr d'" and "bind_arguments p d supplied resolved = Inr b"
  shows "fst ` set supplied \<subseteq> arg_name ` set (td_arguments d) - scope_argument_names d \<and>
     fst ` set b \<subseteq> arg_name ` set (td_arguments d) \<and>
     (\<forall>a \<in> set (td_arguments d).
       (case map_of (if arg_scope_resolved a then resolved else supplied) (arg_name a) of
          None \<Rightarrow> \<not> arg_scope_resolved a \<and> \<not> arg_required a \<and> map_of b (arg_name a) = None
        | Some v \<Rightarrow> \<exists>w. coerce p a v = Inr w \<and> map_of b (arg_name a) = Some w)) \<and>
     (\<forall>n \<in> {''tenant_id'', ''environment''}.
       d \<in> set (READ_ONLY_CATALOGUE @ WRITE_CATALOGUE @ INTEGRATION_CATALOGUE) \<longrightarrow>
         n \<notin> fst ` set supplied \<and>
         (\<exists>a \<in> set (td_arguments d). \<exists>v w. arg_name a = n \<and> arg_scope_resolved a \<and>
            map_of resolved n = Some v \<and> coerce p a v = Inr w \<and> map_of b n = Some w))"
proof -
  have dist: "distinct (map arg_name (td_arguments d))" using descriptor_distinct [OF assms(1)] by simp
  have keys: "fst ` set supplied \<subseteq> arg_name ` set (td_arguments d)"
      "fst ` set supplied \<inter> scope_argument_names d = {}"
      and loop: "bind_loop p (td_arguments d) supplied resolved = Inr b"
    using assms(2) by (simp_all add: bind_arguments_Inr)
  have bound: "\<forall>a \<in> set (td_arguments d).
       (case map_of (if arg_scope_resolved a then resolved else supplied) (arg_name a) of
          None \<Rightarrow> \<not> arg_scope_resolved a \<and> \<not> arg_required a \<and> map_of b (arg_name a) = None
        | Some v \<Rightarrow> \<exists>w. coerce p a v = Inr w \<and> map_of b (arg_name a) = Some w)"
    using bind_loop_lookup [OF loop dist] unfolding arg_source_def by blast
  have shipped: "n \<notin> fst ` set supplied \<and> (\<exists>a \<in> set (td_arguments d). \<exists>v w. arg_name a = n \<and>
      arg_scope_resolved a \<and> map_of resolved n = Some v \<and> coerce p a v = Inr w \<and> map_of b n = Some w)"
    if "n \<in> scope_argument_names d" for n
  proof -
    obtain a where a: "a \<in> set (td_arguments d)" "arg_name a = n" "arg_scope_resolved a"
      using \<open>n \<in> scope_argument_names d\<close> by (auto simp: scope_argument_names_def)
    then show ?thesis using bound keys(2) that by (fastforce split: option.splits)
  qed
  have names: "n \<in> scope_argument_names d" if "n \<in> {''tenant_id'', ''environment''}"
      "d \<in> set (READ_ONLY_CATALOGUE @ WRITE_CATALOGUE @ INTEGRATION_CATALOGUE)" for n
    using that catalogue_scope_names unfolding list_all_iff by blast
  show ?thesis
    by (intro conjI ballI impI bound [THEN bspec] shipped names [THEN shipped, THEN conjunct1]
        names [THEN shipped, THEN conjunct2]) (use keys bind_loop_names [OF loop] in blast)+
qed

theorem bound_arguments_witness:
  "let p = \<lparr>parse_datetime = (\<lambda>v. None), parse_uuid = (\<lambda>v. None)\<rparr>;
       resolved = [(''tenant_id'', PUUID ''t1''), (''environment'', PStr ''prod'')]
   in \<exists>b. bind_arguments p K8S_NODE_UNCORDON [(''node'', PStr ''n1'')] resolved = Inr b \<and>
     (\<exists>a \<in> set (td_arguments K8S_NODE_UNCORDON). \<exists>v w. arg_name a = ''tenant_id'' \<and>
        arg_scope_resolved a \<and> map_of resolved ''tenant_id'' = Some v \<and> coerce p a v = Inr w \<and>
        map_of b ''tenant_id'' = Some w)"
proof -
  let ?p = "\<lparr>parse_datetime = (\<lambda>v. None), parse_uuid = (\<lambda>v. None)\<rparr>"
  let ?res = "[(''tenant_id'', PUUID ''t1''), (''environment'', PStr ''prod'')]"
  let ?b = "[(''tenant_id'', PUUID ''t1''), (''environment'', PStr ''prod''), (''node'', PStr ''n1'')]"
  have listed: "K8S_NODE_UNCORDON \<in> set WRITE_CATALOGUE" by (simp add: WRITE_CATALOGUE_def)
  then have post: "descriptor_post_init K8S_NODE_UNCORDON = Inr K8S_NODE_UNCORDON"
    using catalogue_constructs by simp
  have b: "bind_arguments ?p K8S_NODE_UNCORDON [(''node'', PStr ''n1'')] ?res = Inr ?b"
    by code_simp
  have "\<exists>a \<in> set (td_arguments K8S_NODE_UNCORDON). \<exists>v w. arg_name a = ''tenant_id'' \<and>
      arg_scope_resolved a \<and> map_of ?res ''tenant_id'' = Some v \<and> coerce ?p a v = Inr w \<and>
      map_of ?b ''tenant_id'' = Some w"
    using bound_arguments [OF post b, THEN conjunct2, THEN conjunct2, THEN conjunct2] listed by simp
  then show ?thesis unfolding Let_def by (intro exI [of _ ?b] conjI b)
qed

text \<open>
  C26. On clock readings that do not go back, the request limiter, which keeps a bounded
  table of queues, drops expired keys lazily and skips scans of a full table, decides every
  request exactly as the reference does that counts the admitted requests of the window in
  the whole log.
\<close>

theorem rate_limiter_equals_reference:
  assumes "make_limiter limit window max_keys = Inr s" "sorted (map fst reqs)"
  shows "admit_all reqs s = allow_all limit window max_keys [] reqs"
proof (cases reqs)
  case (Cons req rest)
  then show ?thesis
    using admit_all_allowed [of s "[]" "fst req" reqs] fresh_represents [OF assms(1)] assms(2)
    by simp
qed simp

theorem rate_limiter_equals_reference_witness:
  "admit_all [(0, ''a''), (1, ''a''), (2, ''b''), (11, ''a'')]
     \<lparr>rl_limit = 1, rl_window = 10, rl_max_keys = 1, rl_hits = [], rl_prune_not_before = None\<rparr> =
   allow_all 1 10 1 [] [(0, ''a''), (1, ''a''), (2, ''b''), (11, ''a'')]"
  by (rule rate_limiter_equals_reference) (simp_all add: make_limiter_def)

text \<open>
  C27. A pass of the terminator either raises because the recorded budget refusal is no
  budget kind, or ends the run with a reason and one of the statuses failed, uncertain and
  escalated, or hands back to the planner, which it does only with no budget refusal and
  when every recorded failure is recoverable.
\<close>

theorem terminator_ends_or_resumes:
  "case terminator_node p started now s of
     Inl e \<Rightarrow> budget_refusal_of s = Inl e
   | Inr u \<Rightarrow>
       map_of u ''terminated'' = Some (IFlag True) \<and>
       map_of u ''phase'' = Some (IPhase InvestigationPhase.TERMINATED) \<and>
       (\<exists>reason. map_of u ''termination_reason'' = Some (IText (Some reason))) \<and>
       map_of u ''terminal_incident_status'' \<in>
         (\<lambda>status. Some (IText (Some (IncidentStatus_value status)))) `
           {IncidentStatus.FAILED, IncidentStatus.UNCERTAIN, IncidentStatus.ESCALATED} \<or>
       map_of u ''terminated'' = Some (IFlag False) \<and>
       map_of u ''phase'' = Some (IPhase InvestigationPhase.PLANNING) \<and>
       budget_refusal_of s = Inr None \<and> list_all recoverable (gs_failures s)"
proof (cases "budget_refusal_of s")
  case (Inl e)
  obtain b where "run_budget p started now (es_budget s) = Inr b"
    using run_budget_ok by (metis is_ok_iff)
  then show ?thesis using Inl by (simp add: terminator_node_def)
next
  case (Inr refusal)
  obtain budget v where d: "Termination.decide (termination_inputs s budget refusal) = Inr v"
    and t: "terminator_node p started now s = Inr (terminator_update budget v)"
    using terminator_decides [OF Inr] by blast
  show ?thesis
    unfolding t
    using d by (cases "termination_inputs s budget refusal" rule: decide_cases)
      (auto simp: terminator_update_def verdict_simps Inr termination_inputs_def
        unrecoverable_failures_def filter_empty_conv list_all_iff)
qed

text \<open>
  C28. From an empty store, after any run of opening incidents, appending events, applying
  transitions and projecting timelines, the event stream of every incident is numbered 1, 2,
  ... without gap or repetition, the gap audit reports nothing, and the entries of the
  stream stay, in every field, the first entries of the stream after any further run: none
  is rewritten, reordered or dropped.
\<close>

theorem event_streams_are_gapless:
  assumes "log_step\<^sup>*\<^sup>* empty_db db" and "log_step\<^sup>*\<^sup>* db db'"
  shows "map er_sequence (stream_events db k) = [1..<Suc (length (stream_events db k))] \<and>
     event_sequence_gaps db k = [] \<and>
     prefix (stream_events db k) (stream_events db' k)"
proof -
  have wf: "log_wf db" "log_wf db'"
    using event_log.run_inv [OF assms(1) log_wf_empty] event_log.run_inv [OF assms(2)] by blast+
  note eqs = stream_events_eq [OF wf(1)] stream_events_eq [OF wf(2)]
  show ?thesis
    using log_wf_gapless [OF wf(1), of k] log_run_prefix [OF assms(2), of k]
      missing_numbers_gapless [OF log_wf_gapless [OF wf(1), of k]]
    by (simp add: eqs event_sequence_gaps_def gapless_def)
qed

theorem event_streams_are_gapless_witness:
  "\<exists>e db db'. log_step\<^sup>*\<^sup>* empty_db db \<and> log_step\<^sup>*\<^sup>* db db' \<and>
     map er_sequence (stream_events db (''t'', ''i'')) = [1] \<and> e \<in> set (stream_events db (''t'', ''i'')) \<and>
     prefix (stream_events db (''t'', ''i'')) (stream_events db' (''t'', ''i''))"
proof -
  let ?db = "empty_db\<lparr>db_incidents := (db_incidents empty_db)((''t'', ''i'') \<mapsto> new_incident)\<rparr>"
  let ?a = "\<lparr>ea_type = IncidentEventType.EVIDENCE_RECORDED, ea_source = ''s'',
            ea_actor_type = ActorType.SYSTEM, ea_correlation = ''c'',
            ea_provenance = ProvenanceLabel.SYSTEM, ea_actor_id = None, ea_causation = None,
            ea_occurred_at = None, ea_payload = Map.empty, ea_version = 1, ea_key = Some ''k''\<rparr>"
  obtain e db where e: "append_incident_event ?db (''t'', ''i'') ?a 5 ''e1'' = Inr (e, True, db)"
    by (simp add: append_incident_event_def empty_db_def new_incident_def find_by_key_def
        event_checks_def make_event_def classify_def EXTERNAL_EVENTS_def DERIVED_EVENTS_def Let_def)
  from e obtain row where row: "db_incidents db (''t'', ''i'') = Some row" "ir_high_water row = 1"
    and events: "db_events db = [e]" "er_sequence e = 1" "er_id e = ''e1''" "er_key e = Some ''k''"
      "of_stream (''t'', ''i'') e"
    by (cases rule: append_cases) (auto simp: empty_db_def new_incident_def make_event_def of_stream_def)
  have "is_ok (append_incident_event db (''t'', ''i'') (?a\<lparr>ea_key := None\<rparr>) 6 ''e2'')"
    using events row by (simp add: append_incident_event_def find_by_key_def of_stream_def
        event_checks_def make_event_def classify_def EXTERNAL_EVENTS_def DERIVED_EVENTS_def Let_def)
  then obtain e2 n db' where e2:
      "append_incident_event db (''t'', ''i'') (?a\<lparr>ea_key := None\<rparr>) 6 ''e2'' = Inr (e2, n, db')"
    by (metis is_ok_iff prod_cases3)
  have "log_step empty_db ?db" by (rule log_step.opened) (simp add: empty_db_def)
  moreover have "log_step ?db db" by (rule log_step.appended [OF e]) (simp_all add: empty_db_def)
  moreover have "log_step db db'" by (rule log_step.appended [OF e2]) (simp_all add: events)
  ultimately have run: "log_step\<^sup>*\<^sup>* empty_db db" "log_step\<^sup>*\<^sup>* db db'"
    by (meson rtranclp.simps r_into_rtranclp)+
  have "stream_events db (''t'', ''i'') = [e]" by (simp add: stream_events_def events)
  then show ?thesis using event_streams_are_gapless [OF run, of "(''t'', ''i'')"] run events
    by (intro exI [of _ e] exI [of _ db] exI [of _ db']) simp
qed

text \<open>
  C29. Along any sequence of budgeted model calls and starts of runs, some of them killed
  after their reservation, an invocation key is sent to the provider at most once, and the
  record of the calls grows by exactly the keys sent.
\<close>

theorem model_call_sent_once:
  assumes "labelled_run model_step db ks db'"
  shows "distinct ks \<and> md_calls db' = md_calls db @ ks"
  using model_calls.run_distinct [OF assms] run_calls [OF assms] by blast

theorem model_call_sent_once_witness:
  "\<exists>db'. labelled_run model_step a_ledger [(''r1'', a_key)] db' \<and> md_calls db' = [(''r1'', a_key)]"
proof -
  obtain db where "reserve ''t1'' ''r1'' a_key an_estimate (budget_initial None) a_ledger = Inr (None, db)"
    by (rule a_reservation)
  then have "model_step a_ledger (Some (''r1'', a_key)) (db\<lparr>md_calls := md_calls db @ [(''r1'', a_key)]\<rparr>)"
    by (rule model_step.killed)
  then have run: "labelled_run model_step a_ledger [(''r1'', a_key)] (db\<lparr>md_calls := md_calls db @ [(''r1'', a_key)]\<rparr>)"
    by (rule labelled_run.take) (rule labelled_run.stop)
  from model_call_sent_once [OF run] run show ?thesis by (auto simp: a_ledger_def)
qed



text \<open>
  C31. A knowledge result that verification accepts either repeats a recorded call, and then
  stands for the retrieval recorded under that execution of the tenant and carries no
  manifest, or carries a manifest of this tenant, correlation and execution, for the
  recomputed principal with its clearances, under the deployed policy and the digest of the
  query that was sent, with an identifier the tenant has not recorded, ranks without a gap
  and no chunk twice, in which every result names a stored chunk with its version and
  content hash that the principal may see now: its source is active, its version not
  revoked, and labels, services, environment and type allow it.
\<close>

theorem verified_manifest_is_authorized:
  "case validate_manifest sha decode tenant correlation p sc query r db of
     Inl e \<Rightarrow> True
   | Inr None \<Rightarrow> res_deduplicated r
   | Inr (Some v) \<Rightarrow>
       if res_deduplicated r
       then vr_replayed v \<and> vr_manifest v = None \<and>
         list_ex (\<lambda>t. kt_tenant t = tenant \<and> kt_id t = vr_retrieval v \<and> kt_execution t = res_execution r)
           (kb_retrievals db)
       else (case vr_manifest v of None \<Rightarrow> False
             | Some m \<Rightarrow> trusted_manifest sha tenant correlation p sc query r db m)"
proof (cases "res_deduplicated r")
  case True
  then show ?thesis
    by (auto simp: validate_manifest_def replayed_retrieval_def list_ex_iff dest!: find_SomeD
        split: option.splits)
next
  case False
  then show ?thesis
    using check_manifest_trusted
    by (fastforce simp: validate_manifest_def andThen_eq_Inr split: sum.splits option.splits pyval.splits)
qed

text \<open>
  C32. decide_reflection returns TERMINATE_SUCCESS only when the accumulated hypotheses
  clear the actionable bar; a verdict that names a hypothesis names one persisted for this
  incident; an overridden verdict is one of continue-on-a-gap, escalate or terminate-
  uncertain with confidence zero.
\<close>

theorem reflection_never_overclaims:
  "let v = decide_reflection i in
     (rv_action v = ReflectionAction.TERMINATE_SUCCESS \<longrightarrow> ri_actionable i) \<and>
     (\<forall>h. rv_target v = Some h \<longrightarrow> h \<in> known_hypothesis_ids i) \<and>
     (rv_overridden v \<noteq> None \<longrightarrow> rv_confidence v = 0 \<and> rv_target v = None \<and>
        rv_action v \<in> {ReflectionAction.CONTINUE_WITH_GAP, ReflectionAction.ESCALATE,
          ReflectionAction.TERMINATE_UNCERTAIN})"
  unfolding Let_def
  using accepted_success_actionable [of i] reflection_target_known [of i]
    reflection_override_shape [of i] by blast

theorem reflection_never_overclaims_witness:
  "rv_target (decide_reflection
     \<lparr>ri_proposal = \<lparr>rp_action = Some ReflectionAction.REVISE_HYPOTHESIS, rp_rationale = ''r'',
        rp_target = Some ''ghost'', rp_gap = None, rp_confidence = 1\<rparr>,
      ri_hypotheses = [], ri_new_ids = {}, ri_open_gaps = [], ri_degraded = [], ri_attempted = []\<rparr>)
     \<noteq> Some ''ghost''"
  using reflection_never_overclaims
    [of "\<lparr>ri_proposal = \<lparr>rp_action = Some ReflectionAction.REVISE_HYPOTHESIS, rp_rationale = ''r'',
        rp_target = Some ''ghost'', rp_gap = None, rp_confidence = 1\<rparr>,
      ri_hypotheses = [], ri_new_ids = {}, ri_open_gaps = [], ri_degraded = [], ri_attempted = []\<rparr>"]
  by (auto simp: known_hypothesis_ids_def Let_def)

text \<open>
  C33. Across every node contract: a model-backed node may request no capability at all,
  only the remediation executor may request a write tool, only the notification service an
  external record, no contract permits writing a key outside its state or an immutable key,
  and every capability named is registered.
\<close>

theorem node_authority:
  assumes "c \<in> set (map snd NODE_CONTRACTS @ [S2_NOTIFICATION_SERVICE])"
  shows "(nc_model_backed c \<longrightarrow> nc_capabilities c = []) \<and>
    ((\<exists>d \<in> set WRITE_CATALOGUE. permits_capability c (td_capability d)) \<longrightarrow>
       nc_node_id c = NodeId.G9_REMEDIATION_EXECUTOR) \<and>
    ((\<exists>d \<in> set INTEGRATION_CATALOGUE. permits_capability c (td_capability d)) \<longrightarrow>
       nc_node_id c = NodeId.S2_NOTIFICATION_SERVICE) \<and>
    (\<forall>k \<in> set (nc_permitted_state_keys c).
       k \<in> set (nc_state_keys c) \<and> k \<notin> set (nc_immutable_state_keys c)) \<and>
    (\<forall>cap. permits_capability c cap \<longrightarrow>
       cap \<in> td_capability ` set (READ_ONLY_CATALOGUE @ WRITE_CATALOGUE @ INTEGRATION_CATALOGUE))"
  using assms contracts_models_have_no_capability contracts_mutations contracts_external_records
    contracts_keys contracts_registered
  unfolding list_all_iff permits_capability_def all_contracts_def by blast

theorem node_authority_witness:
  "\<not> permits_capability G3_INVESTIGATION_PLANNER (td_capability K8S_NODE_CORDON)"
proof -
  have c: "G3_INVESTIGATION_PLANNER \<in> set (map snd NODE_CONTRACTS @ [S2_NOTIFICATION_SERVICE])"
    by (simp add: NODE_CONTRACTS_def)
  have "nc_node_id G3_INVESTIGATION_PLANNER = NodeId.G3_INVESTIGATION_PLANNER"
    by (simp add: G3_INVESTIGATION_PLANNER_def)
  moreover have "K8S_NODE_CORDON \<in> set WRITE_CATALOGUE" by (simp add: WRITE_CATALOGUE_def)
  ultimately show ?thesis using node_authority [OF c] by auto
qed

text \<open>
  C34. When decide returns, the action was awaiting approval under the version hash the
  approver named, the approver is not the requester of the run and holds the approval
  permission for the environment and tier, and the time is before the deadline that the
  policy evaluation and the tier's window give. The row returned is the one row of the
  tenant already recorded under the callback key of this action and version, with nothing
  written, or, when there was none under that key, a new one that carries exactly this
  decision and that key.
\<close>

theorem approval_decision_admitted:
  assumes "Approval_Service.decide ops db d now i = Inr (a, db')"
  shows "\<exists>action requested_at deadline key. admitted_spec db d now action requested_at deadline \<and>
    approval_callback_key ops (da_tenant d) (da_action d) (da_expected_hash d) = Inr key \<and>
    (filter (\<lambda>x. ap_tenant x = da_tenant d \<and> ap_callback_key x = key) (rd_approvals db) = [a] \<and> db' = db \<or>
     filter (\<lambda>x. ap_tenant x = da_tenant d \<and> ap_callback_key x = key) (rd_approvals db) = [] \<and>
       a = decided_row d (da_expected_hash d) key requested_at deadline now i \<and>
       db' = db\<lparr>rd_approvals := rd_approvals db @ [a]\<rparr>)"
proof -
  have hash: "ac_version_hash action = da_expected_hash d"
    if "admitted_spec db d now action r dl" for action r dl
    using that by (simp add: admitted_spec_def)
  from assms show ?thesis
  proof (cases rule: decision_recorded)
    case (existing action r dl key)
    then show ?thesis using hash [OF existing(1)]
      by (intro exI [of _ action] exI [of _ r] exI [of _ dl] exI [of _ key]) simp
  next
    case (fresh action r dl key)
    show ?thesis
      using fresh(1-3,5) hash [OF fresh(1)] unfolding fresh(4) [symmetric]
      by (intro exI [of _ action] exI [of _ r] exI [of _ dl] exI [of _ key]) (simp add: fresh(4))
  qed
qed

theorem approval_decision_admitted_witness:
  "\<exists>action requested_at deadline key a db'.
     Approval_Service.decide wide_ops pending_remediation the_decision 10 ''p1'' = Inr (a, db') \<and>
     admitted_spec pending_remediation the_decision 10 action requested_at deadline \<and>
     approval_callback_key wide_ops ''t1'' ''a1'' wide_hash = Inr key \<and> ap_callback_key a = key"
proof -
  have "is_ok (Approval_Service.decide wide_ops pending_remediation the_decision 10 ''p1'')" by code_simp
  then obtain a db' where "Approval_Service.decide wide_ops pending_remediation the_decision 10 ''p1'' = Inr (a, db')"
    by (auto simp: is_ok_iff)
  moreover have "rd_approvals pending_remediation = []" "da_tenant the_decision = ''t1''"
      "da_action the_decision = ''a1''" "da_expected_hash the_decision = wide_hash"
    by (simp_all add: pending_remediation_def the_decision_def)
  ultimately show ?thesis
    using approval_decision_admitted [of wide_ops pending_remediation the_decision 10 "''p1''" a db']
    by (auto simp: decided_row_def)
qed

text \<open>
  C35. A worker that still believes it owns a run which another worker has completed
  suspends it all the same, as long as no other run of the incident is active: the update
  that settles a run compares neither the lease nor the status, so the completed run becomes
  resumable again.
\<close>

theorem stale_worker_reopens_run:
  assumes "runs_allowed (kw_runs w)" "run_of (cx_tenant cx) (cx_run cx) w = Some r"
    and "distinct (map wr_id (kw_runs w))" "wr_status r = WorkflowRunStatus.COMPLETED"
    and "list_all (\<lambda>q. \<not> (wr_tenant q = wr_tenant r \<and> wr_incident q = wr_incident r \<and> run_active q))
      (kw_runs w)"
  shows "\<exists>w'. suspend cx w = Inr w' \<and>
    settled (cx_tenant cx) (cx_run cx) WorkflowRunStatus.SUSPENDED None w'"
  using stale_suspend [OF assms(1-3)] assms(5) by (auto simp: list_all_iff)

theorem stale_worker_reopens_run_witness:
  "\<exists>w'. suspend the_context (the_kernel_world (a_run WorkflowRunStatus.COMPLETED None)) = Inr w' \<and>
     settled ''t1'' ''r1'' WorkflowRunStatus.SUSPENDED None w'"
  using stale_worker_reopens_run [of "the_kernel_world (a_run WorkflowRunStatus.COMPLETED None)" the_context
      "a_run WorkflowRunStatus.COMPLETED None"]
  by (simp add: the_kernel_world_def a_run_def runs_allowed_def run_active_def run_of_def is_run_def
      the_context_def)

text \<open>
  C36. When a reflection asks to revise a hypothesis that the same answer proposed, next to
  another new hypothesis, the guards let the revision pass and applying it raises, so the
  step of the run is lost.
\<close>

theorem new_hypothesis_cannot_be_revised:
  assumes "ho_reflection output = Some m" "rm_action m = ReflectionAction.REVISE_HYPOTHESIS"
    and "resolve_target (rm_target m) (es_hypotheses s) news = Some t" "t \<noteq> []"
    and "t \<in> set (map hypothesis_id news)" "t \<notin> set (map hypothesis_id (es_hypotheses s))"
    and "list_ex (\<lambda>h. hypothesis_id h \<noteq> t) news"
    and "list_all (\<lambda>h. hyp_status h = HypothesisStatus.PROPOSED) news"
  shows "\<exists>e. reflect d s output news gaps db = Inl e"
  using revising_new_hypothesis [OF assms(1-6)] assms(7,8) by (simp add: list_all_iff list_ex_iff)

theorem new_hypothesis_cannot_be_revised_witness:
  "\<exists>e. reflect \<lparr>en_tenant = ''t'', en_incident = ''i'', en_run = ''r'', en_new_id = int_digits\<rparr>
     \<lparr>es_evidence = [], es_hypotheses = [], es_open_gaps = [], es_covered = [], es_degraded = [],
      es_iteration = 0, es_budget = None\<rparr>
     \<lparr>ho_hypotheses = [], ho_insufficient = None,
      ho_reflection = Some \<lparr>rm_action = ReflectionAction.REVISE_HYPOTHESIS, rm_rationale = ''better'',
        rm_target = Some ''latest'', rm_gap = None, rm_confidence = 0\<rparr>\<rparr>
     [\<lparr>hypothesis_id = ''h1'', hyp_rank = 1, root_cause_class = ''capacity'', confidence = 4 / 10,
       hyp_status = HypothesisStatus.PROPOSED, supporting_evidence_count = 1,
       contradicting_evidence_count = 0, remaining_gaps = []\<rparr>,
      \<lparr>hypothesis_id = ''h2'', hyp_rank = 2, root_cause_class = ''capacity'', confidence = 1 / 10,
       hyp_status = HypothesisStatus.PROPOSED, supporting_evidence_count = 0,
       contradicting_evidence_count = 0, remaining_gaps = []\<rparr>] []
     \<lparr>iv_evidence = [], iv_hypotheses = [], iv_links = []\<rparr> = Inl e"
proof -
  have "py_upper (py_strip ''latest'') = ''LATEST''" by code_simp
  then show ?thesis
    by (intro new_hypothesis_cannot_be_revised [where t = "''h1''" and
        m = "\<lparr>rm_action = ReflectionAction.REVISE_HYPOTHESIS, rm_rationale = ''better'',
          rm_target = Some ''latest'', rm_gap = None, rm_confidence = 0\<rparr>"])
      (simp_all add: resolve_target_def)
qed

text \<open>
  C37. Storing a hypothesis whose supporting citations name a record twice raises, because
  the second link violates the unique key of the links.
\<close>

theorem duplicate_citation_aborts:
  assumes "\<not> distinct supporting"
  shows "\<exists>e. persist_hypothesis d draft supporting contradicting rank db = Inl e"
  by (rule duplicate_citation [OF assms])

theorem duplicate_citation_aborts_witness:
  "\<exists>e. persist_hypothesis
     \<lparr>en_tenant = ''t'', en_incident = ''i'', en_run = ''r'', en_new_id = int_digits\<rparr>
     \<lparr>hd_statement = ''s'', hd_class = ''capacity'', hd_confidence = 1, hd_supporting = [''e1'', ''e1''],
      hd_contradicting = [], hd_gaps = []\<rparr> [''e1'', ''e1''] [] 1
     \<lparr>iv_evidence = [\<lparr>ev_id = ''e1'', ev_tenant = ''t'', ev_domain = EvidenceDomain.LOGS,
        ev_content = [], ev_gathered_at = 0, ie_incident = ''i'', ie_quality = Some 1\<rparr>],
      iv_hypotheses = [], iv_links = []\<rparr> = Inl e"
  by (rule duplicate_citation_aborts) simp

text \<open>
  C38. In every reachable store the incident row agrees with its log: recomputing the status
  from the newest state change gives the stored status (or there is no change yet and the
  status is DETECTED), assert_status_matches_log passes, and terminal rows carry their time
  and reason.
\<close>

theorem status_agrees_with_log:
  assumes "log_step\<^sup>*\<^sup>* empty_db db" and "db_incidents db k = Some row"
  shows "assert_status_matches_log db k = Inr () \<and>
     (recompute_incident_status db k = Inr (Some (ir_status row)) \<or>
      recompute_incident_status db k = Inr None \<and> ir_status row = IncidentStatus.DETECTED) \<and>
     incident_checks row \<and> ir_high_water row = length (stream_events db k)"
proof -
  have wf: "log_wf db" using event_log.run_inv [OF assms(1) log_wf_empty] .
  show ?thesis
    using recompute_wf [OF wf assms(2)] log_wf_row [OF wf assms(2)] assms(2)
    by (auto simp: assert_status_matches_log_def row_wf_def stream_events_eq [OF wf])
qed

theorem status_agrees_with_log_witness:
  "assert_status_matches_log
     (empty_db\<lparr>db_incidents := (db_incidents empty_db)((''t'', ''i'') \<mapsto> new_incident)\<rparr>)
     (''t'', ''i'') = Inr ()"
proof -
  let ?db = "empty_db\<lparr>db_incidents := (db_incidents empty_db)((''t'', ''i'') \<mapsto> new_incident)\<rparr>"
  have "log_step empty_db ?db" by (rule log_step.opened) (simp add: empty_db_def)
  then have "log_step\<^sup>*\<^sup>* empty_db ?db" by blast
  then show ?thesis using status_agrees_with_log [of ?db "(''t'', ''i'')" new_incident] by simp
qed

text \<open>
  C39. Once the approval window of an undecided action has elapsed, every pass of the
  approval node fails with a data error and leaves the database unchanged: the callback key
  of the row it writes for the system is the digest followed by a suffix of 14 characters,
  which the column of 64 characters cannot hold, so the run is never escalated by this path.
  The hypothesis on the digest is the documented width of a SHA-256 in hexadecimal.
\<close>

theorem elapsed_window_always_fails:
  assumes "find_run_action d (rf_action ref) w = (Inr a, w)"
    and "\<not> (\<exists>x \<in> set (rd_approvals (rw_db w)). ap_tenant x = nd_tenant d \<and> ap_action x = ac_id a \<and>
      ap_version_hash x = ac_version_hash a)"
    and "approval_deadline d a w = Inr deadline" and "deadline \<le> ni_clock inp 300"
    and "approval_callback_key (br_keys (nd_broker d)) (nd_tenant d) (ac_id a) (ac_version_hash a) = Inr key"
    and width: "\<forall>s. length (sha256_hex (br_keys (nd_broker d)) s) = KEY_LENGTH"
  shows "approval_service ops d inp ref w = (Inl (OtherException ''DataError''), w)"
proof -
  have none: "recorded_decision d a w = None"
    using assms(2) recorded_mem by (cases "recorded_decision d a w") blast+
  obtain s where "key = sha256_hex (br_keys (nd_broker d)) s" using callback_key_digest [OF assms(5)] by blast
  then have "KEY_LENGTH < length key + 14" using width by simp
  from elapsed_window_fails [OF assms(1) none assms(3-5) this] show ?thesis .
qed

theorem elapsed_window_always_fails_witness:
  "\<exists>w inp. rd_approvals (rw_db w) = [] \<and>
     approval_service the_ops (the_node\<lparr>nd_broker := (nd_broker the_node)\<lparr>br_keys := wide_ops\<rparr>\<rparr>)
       inp the_ref w = (Inl (OtherException ''DataError''), w)"
proof -
  let ?n = "the_node\<lparr>nd_broker := (nd_broker the_node)\<lparr>br_keys := wide_ops\<rparr>\<rparr>"
  let ?w = "with_db (the_remediation\<lparr>rd_approvals := []\<rparr>) the_world"
  let ?inp = "the_node_inputs\<lparr>ni_clock := (\<lambda>k. 900000000)\<rparr>"
  have found: "find_run_action ?n (rf_action the_ref) ?w = (Inr the_action, ?w)"
    by (simp add: find_run_action_def sread_def the_world_def scalar_one_def the_remediation_def the_node_def
        the_ref_def action_ref_def the_action_def unsigned_action_def)
  have none: "\<not> (\<exists>x \<in> set (rd_approvals (rw_db ?w)). ap_tenant x = nd_tenant ?n \<and>
      ap_action x = ac_id the_action \<and> ap_version_hash x = ac_version_hash the_action)"
    by simp
  have deadline: "approval_deadline ?n the_action ?w = Inr 900000000"
    by (simp add: approval_deadline_def policy_rows_def the_remediation_def the_node_def the_action_def
        unsigned_action_def scalar_one_def APPROVAL_WINDOW_SECONDS_def microseconds_def)
  have "is_ok (approval_callback_key (br_keys (nd_broker ?n)) (nd_tenant ?n) (ac_id the_action)
      (ac_version_hash the_action))"
    unfolding approval_callback_key_def by (rule digest_ok) simp
  then obtain key where key: "approval_callback_key (br_keys (nd_broker ?n)) (nd_tenant ?n)
      (ac_id the_action) (ac_version_hash the_action) = Inr key"
    by (auto simp: is_ok_iff)
  have width: "\<forall>s. length (sha256_hex (br_keys (nd_broker ?n)) s) = KEY_LENGTH"
    by (simp add: wide_digest)
  have late: "900000000 \<le> ni_clock ?inp 300" by simp
  have "rd_approvals (rw_db ?w) = []" by simp
  with elapsed_window_always_fails [OF found none deadline late key width, of the_ops] show ?thesis by blast
qed

text \<open>
  C40. redact_arguments keeps the keys; the value under a secret name that is not a
  reference is the redaction mark; and every string anywhere in the output, at any depth, is
  a mark or a text without a secret-shaped part, cut to 512 characters.
\<close>

theorem redacted_arguments_are_clean:
  "map fst (redact_arguments ops args) = map fst args \<and>
   (\<forall>(k, v) \<in> set (redact_arguments ops args).
      (is_secret_key_name k \<and> \<not> is_secret_reference k \<longrightarrow> v = PStr REDACTED) \<and>
      (\<forall>s. text_in s v \<longrightarrow> clean_text s))"
  unfolding redact_arguments_def
  using redact_mapping_keys redact_mapping_secret redact_mapping_clean by fast

theorem redacted_arguments_are_clean_witness:
  "redact_arguments plain_render [(''password'', PStr ''hunter2''), (''node'', PStr ''n1'')] =
     [(''password'', PStr REDACTED), (''node'', PStr ''n1'')]"
proof -
  let ?out = "redact_arguments plain_render [(''password'', PStr ''hunter2''), (''node'', PStr ''n1'')]"
  have keys: "map fst ?out = [''password'', ''node'']"
    and safe: "\<forall>(k, v) \<in> set ?out. is_secret_key_name k \<and> \<not> is_secret_reference k \<longrightarrow> v = PStr REDACTED"
    using redacted_arguments_are_clean [of plain_render "[(''password'', PStr ''hunter2''), (''node'', PStr ''n1'')]"]
    by auto
  have "is_secret_key_name ''password'' \<and> \<not> is_secret_reference ''password''" by code_simp
  moreover have "map_of ?out ''node'' = Some (PStr ''n1'')" by code_simp
  ultimately show ?thesis using keys safe by (cases ?out) (auto simp: Cons_eq_map_conv split: if_splits)
qed

end
